(* ===== verification/Grbl_Prelude.thy ===== *)
theory Grbl_Prelude
  imports Complex_Main "HOL-Library.Word"
begin

text \<open>
  Shared vocabulary of the development: the C integer types of the firmware as words of their
  width, the bit macros of nuts\_bolts.h, the named collections of simp rules the component
  theories fill, and generic lemmas on words, lists and updates.
\<close>

unbundle bit_operations_syntax

type_synonym u8 = "8 word"
type_synonym u16 = "16 word"
type_synonym u32 = "32 word"

text \<open>
  \<open>grbl_const\<close> collects the definitions of the preprocessor constants, \<open>grbl_step\<close> the
  equations of the operations that proofs unfold together.
\<close>

named_theorems grbl_const
named_theorems grbl_step

section \<open>Bit macros\<close>

definition bitw :: "nat \<Rightarrow> u8" where
  "bitw n = push_bit n 1"

definition bit_istrue :: "u8 \<Rightarrow> u8 \<Rightarrow> bool" where
  "bit_istrue x m = (x AND m \<noteq> 0)"

definition bit_isfalse :: "u8 \<Rightarrow> u8 \<Rightarrow> bool" where
  "bit_isfalse x m = (x AND m = 0)"

definition bit_true :: "u8 \<Rightarrow> u8 \<Rightarrow> u8" where
  "bit_true x m = (x OR m)"

definition bit_false :: "u8 \<Rightarrow> u8 \<Rightarrow> u8" where
  "bit_false x m = (x AND NOT m)"

lemma bit_isfalse_iff: "bit_isfalse x m \<longleftrightarrow> \<not> bit_istrue x m"
  by (simp add: bit_isfalse_def bit_istrue_def)

lemma or_eq_0_word: "(a :: 'a::len word) OR b = 0 \<longleftrightarrow> a = 0 \<and> b = 0"
  by (auto simp: bit_eq_iff bit_or_iff)

lemma bit_istrue_set: "m \<noteq> 0 \<Longrightarrow> bit_istrue (bit_true x m) m"
  by (auto simp: bit_istrue_def bit_true_def bit_eq_iff bit_simps)

lemma bit_istrue_clear: "\<not> bit_istrue (bit_false x m) m"
  by (auto simp: bit_istrue_def bit_false_def bit_eq_iff bit_simps)

lemma bit_istrue_set_other: "bit_istrue x n \<Longrightarrow> bit_istrue (bit_true x m) n"
  by (auto simp: bit_istrue_def bit_true_def bit_eq_iff bit_simps)

lemma bit_istrue_disjoint:
  "m AND n = 0 \<Longrightarrow> bit_istrue (bit_true x m) n = bit_istrue x n"
  "m AND n = 0 \<Longrightarrow> bit_istrue (bit_false x m) n = bit_istrue x n"
  by (auto simp: bit_istrue_def bit_true_def bit_false_def bit_eq_iff bit_simps)

lemma bit_isfalse_bitw: "bit_isfalse x (bitw k) \<longleftrightarrow> \<not> bit x k"
  by (simp add: bit_isfalse_def bitw_def push_bit_eq_mult and_exp_eq_0_iff_not_bit)

lemma bit_istrue_bitw: "bit_istrue x (bitw k) \<longleftrightarrow> bit x k"
  using bit_isfalse_bitw [of x k] by (simp add: bit_isfalse_iff)

lemma bit_bitw: "n < 8 \<Longrightarrow> bit (bitw n) k \<longleftrightarrow> k = n"
  unfolding bitw_def bit_push_bit_iff bit_1_iff by auto

section \<open>Machine integers\<close>

text \<open>C integer division truncates towards zero.\<close>

definition c_div :: "int \<Rightarrow> int \<Rightarrow> int" where
  "c_div a b = sgn a * sgn b * (\<bar>a\<bar> div \<bar>b\<bar>)"

lemma c_div_double [simp]: "c_div (2 * a) 2 = a"
  by (simp add: c_div_def abs_mult sgn_mult mult_sgn_abs)

lemma unat_u8_less [simp]: "unat (x :: u8) < 256"
proof -
  have "unat x < 2 ^ LENGTH(8)" by (rule unsigned_less)
  then show ?thesis by simp
qed

lemma unat_u8_le: "unat (x :: u8) \<le> 255"
  using unat_u8_less [of x] by linarith

lemma unat_u8_Suc: "unat (x :: u8) < 255 \<Longrightarrow> unat (x + 1) = Suc (unat x)"
  by (simp add: unat_word_ariths)

lemma u8_eq_iff: "(x :: u8) = y \<longleftrightarrow> unat x = unat y"
  by (simp add: word_unat_eq_iff)

lemma unat_u8_sub: "y \<le> (x :: u8) \<Longrightarrow> unat (x - y) = unat x - unat y"
  by (rule unat_sub)

lemma and_255 [simp]: "(x :: u8) AND 255 = x"
proof -
  have "(255 :: u8) = - 1" by simp
  then show ?thesis by (simp only: and.right_neutral)
qed

section \<open>Lists\<close>

lemma nth_list_update_if:
  "i < length xs \<Longrightarrow> xs[j := v] ! i = (if i = j then v else xs ! i)"
  by (auto simp: nth_list_update)

end
