(* ===== verification/Ring_Index.thy ===== *)
theory Ring_Index
  imports Grbl_Prelude
begin

text \<open>
  Ring buffers. The firmware keeps its serial bytes, planner blocks and step segments in
  arrays that are used as rings: a head index where the producer stores, a tail index where
  the consumer takes, both advanced by a routine that wraps to zero at the array's size. One
  slot always stays free, so that equal indices mean an empty ring.

  The locale \<open>ring\<close> is the contract of such an advance routine over the index type the code
  uses; the lemmas of the locale give the list view (\<open>ring_list\<close>) of storing and taking. The
  serial, planner and stepper theories interpret it on the code's own index arithmetic.
  \<open>ring_back\<close> adds the routine that steps backwards, which only the planner has.
\<close>

section \<open>The occupied slots\<close>

definition ring_used :: "nat \<Rightarrow> nat \<Rightarrow> nat \<Rightarrow> nat" where
  "ring_used N h t = (h + N - t) mod N"

definition ring_list :: "nat \<Rightarrow> 'a list \<Rightarrow> nat \<Rightarrow> nat \<Rightarrow> 'a list" where
  "ring_list N buf h t = map (\<lambda>k. buf ! ((t + k) mod N)) [0..<ring_used N h t]"

lemma length_ring_list [simp]: "length (ring_list N buf h t) = ring_used N h t"
  by (simp add: ring_list_def)

lemma ring_used_eq: "h < N \<Longrightarrow> t < N \<Longrightarrow> ring_used N h t = (if t \<le> h then h - t else h + N - t)"
  by (auto simp: ring_used_def mod_if)

lemma ring_used_less: "h < N \<Longrightarrow> t < N \<Longrightarrow> ring_used N h t < N"
  by (simp add: ring_used_def)

lemma ring_used_self [simp]: "h < N \<Longrightarrow> ring_used N h h = 0"
  by (simp add: ring_used_def)

lemma ring_list_self [simp]: "h < N \<Longrightarrow> ring_list N buf h h = []"
  by (simp add: ring_list_def)

lemma ring_used_0_iff: "h < N \<Longrightarrow> t < N \<Longrightarrow> ring_used N h t = 0 \<longleftrightarrow> h = t"
  by (auto simp: ring_used_eq split: if_splits)

lemma ring_list_Nil_iff: "h < N \<Longrightarrow> t < N \<Longrightarrow> ring_list N buf h t = [] \<longleftrightarrow> h = t"
  by (simp flip: length_0_conv add: ring_used_0_iff)

lemma nth_ring_list:
  "k < ring_used N h t \<Longrightarrow> ring_list N buf h t ! k = buf ! ((t + k) mod N)"
  by (simp add: ring_list_def)

lemma ring_slot_neq_head:
  assumes "h < N" and "t < N" and "k < ring_used N h t"
  shows "(t + k) mod N \<noteq> h"
proof
  assume e: "(t + k) mod N = h"
  have k: "k < N" using assms ring_used_less [of h N t] by simp
  show False
  proof (cases "t + k < N")
    case True
    with e assms show False by (auto simp: ring_used_eq split: if_splits)
  next
    case False
    with k assms have "(t + k) mod N = t + k - N" by (simp add: mod_if)
    with e False assms k show False by (auto simp: ring_used_eq split: if_splits)
  qed
qed

section \<open>The interface\<close>

locale ring =
  fixes N :: nat
    and idx :: "'i \<Rightarrow> nat"
    and nxt :: "'i \<Rightarrow> 'i"
  assumes N_gt1: "1 < N"
    and idx_nxt: "idx i < N \<Longrightarrow> idx (nxt i) = Suc (idx i) mod N"
begin

lemma idx_nxt_less [simp]: "idx i < N \<Longrightarrow> idx (nxt i) < N"
  using N_gt1 by (simp add: idx_nxt)

lemma used_nxt_head:
  assumes "idx h < N" and "idx t < N" and "idx (nxt h) \<noteq> idx t"
  shows "ring_used N (idx (nxt h)) (idx t) = Suc (ring_used N (idx h) (idx t))"
  using assms N_gt1 by (auto simp: idx_nxt ring_used_eq mod_Suc split: if_splits)

lemma used_nxt_tail:
  assumes "idx h < N" and "idx t < N" and "idx h \<noteq> idx t"
  shows "Suc (ring_used N (idx h) (idx (nxt t))) = ring_used N (idx h) (idx t)"
  using assms N_gt1 by (auto simp: idx_nxt ring_used_eq mod_Suc split: if_splits)

lemma full_iff:
  assumes "idx h < N" and "idx t < N"
  shows "idx (nxt h) = idx t \<longleftrightarrow> ring_used N (idx h) (idx t) = N - 1"
  using assms N_gt1 by (auto simp: idx_nxt ring_used_eq mod_Suc split: if_splits)

lemma list_push:
  assumes "length buf = N" and "idx h < N" and "idx t < N" and "idx (nxt h) \<noteq> idx t"
  shows "ring_list N (buf[idx h := x]) (idx (nxt h)) (idx t) = ring_list N buf (idx h) (idx t) @ [x]"
proof (rule nth_equalityI)
  show "length (ring_list N (buf[idx h := x]) (idx (nxt h)) (idx t))
      = length (ring_list N buf (idx h) (idx t) @ [x])"
    using used_nxt_head [OF assms(2-4)] by simp
next
  fix k assume "k < length (ring_list N (buf[idx h := x]) (idx (nxt h)) (idx t))"
  then have k: "k < Suc (ring_used N (idx h) (idx t))"
    using used_nxt_head [OF assms(2-4)] by simp
  have p: "(idx t + k) mod N < length buf" using assms N_gt1 by simp
  show "ring_list N (buf[idx h := x]) (idx (nxt h)) (idx t) ! k
      = (ring_list N buf (idx h) (idx t) @ [x]) ! k"
  proof (cases "k < ring_used N (idx h) (idx t)")
    case True
    with ring_slot_neq_head [OF assms(2,3) True] used_nxt_head [OF assms(2-4)] p
    show ?thesis by (simp add: nth_ring_list nth_append nth_list_update)
  next
    case False
    with k have ke: "k = ring_used N (idx h) (idx t)" by simp
    then have "(idx t + k) mod N = idx h"
      using assms(2,3) by (auto simp: ring_used_eq mod_if)
    with ke assms used_nxt_head [OF assms(2-4)] show ?thesis
      by (simp add: nth_ring_list nth_append)
  qed
qed

lemma list_pop:
  assumes "idx h < N" and "idx t < N" and "idx h \<noteq> idx t"
  shows "ring_list N buf (idx h) (idx t) = buf ! idx t # ring_list N buf (idx h) (idx (nxt t))"
proof (rule nth_equalityI)
  show "length (ring_list N buf (idx h) (idx t))
      = length (buf ! idx t # ring_list N buf (idx h) (idx (nxt t)))"
    using used_nxt_tail [OF assms] by simp
next
  fix k assume "k < length (ring_list N buf (idx h) (idx t))"
  then have k: "k < ring_used N (idx h) (idx t)" by simp
  show "ring_list N buf (idx h) (idx t) ! k
      = (buf ! idx t # ring_list N buf (idx h) (idx (nxt t))) ! k"
  proof (cases k)
    case 0
    with k assms show ?thesis by (simp add: nth_ring_list)
  next
    case (Suc j)
    with k used_nxt_tail [OF assms] have j: "j < ring_used N (idx h) (idx (nxt t))" by simp
    have "(Suc (idx t) mod N + j) mod N = (idx t + k) mod N"
      using Suc by (simp add: mod_add_left_eq)
    with k j Suc assms show ?thesis by (simp add: nth_ring_list idx_nxt)
  qed
qed

end

locale ring_back = ring +
  fixes prv :: "'i \<Rightarrow> 'i"
  assumes idx_prv: "idx i < N \<Longrightarrow> idx (prv i) = (idx i + N - 1) mod N"
begin

lemma idx_prv_less [simp]: "idx i < N \<Longrightarrow> idx (prv i) < N"
  using N_gt1 by (simp add: idx_prv)

lemma idx_nxt_prv: "idx i < N \<Longrightarrow> idx (nxt (prv i)) = idx i"
  using N_gt1 by (simp add: idx_nxt idx_prv mod_Suc_eq)

lemma idx_prv_nxt: "idx i < N \<Longrightarrow> idx (prv (nxt i)) = idx i"
  using N_gt1 by (cases "Suc (idx i) = N") (auto simp: idx_nxt idx_prv)

lemma used_prv:
  assumes "idx i < N" and "idx t < N" and "idx i \<noteq> idx t"
  shows "Suc (ring_used N (idx (prv i)) (idx t)) = ring_used N (idx i) (idx t)"
  using assms N_gt1 by (cases "idx i = 0") (auto simp: idx_prv ring_used_eq mod_if split: if_splits)

end

end
