(* ===== verification/Serial.thy ===== *)
theory Serial
  imports Ring_Index
begin

text \<open>
  serial.c: the receive and transmit rings between the UART interrupts and the main program.
  \<open>serial_t\<close> holds the buffers and indices of the file, the data register \<open>UDR0\<close> and the
  bit \<open>UDRIE0\<close> that enables the data-register-empty interrupt. The main program calls
  \<open>serial_write\<close> and \<open>serial_read\<close>; \<open>serial_isr_udre\<close> and \<open>serial_rx_put\<close> are what the
  two interrupts do to the rings (the command dispatch around the latter is in the theory of
  the interrupts). Both rings are interpretations of the \<open>ring\<close> contract.
\<close>

section \<open>State\<close>

definition RX_BUFFER_SIZE :: nat where [grbl_const]: "RX_BUFFER_SIZE = 128"
definition TX_BUFFER_SIZE :: nat where [grbl_const]: "TX_BUFFER_SIZE = 104"
definition RX_RING_BUFFER :: nat where [grbl_const]: "RX_RING_BUFFER = RX_BUFFER_SIZE + 1"
definition TX_RING_BUFFER :: nat where [grbl_const]: "TX_RING_BUFFER = TX_BUFFER_SIZE + 1"
definition SERIAL_NO_DATA :: u8 where [grbl_const]: "SERIAL_NO_DATA = 0xff"

record serial_t =
  serial_rx_buffer :: "u8 list"
  serial_rx_buffer_head :: u8
  serial_rx_buffer_tail :: u8
  serial_tx_buffer :: "u8 list"
  serial_tx_buffer_head :: u8
  serial_tx_buffer_tail :: u8
  UDR0 :: u8
  UDRIE0 :: bool

definition serial_boot :: serial_t where
  "serial_boot = \<lparr>serial_rx_buffer = replicate RX_RING_BUFFER 0,
     serial_rx_buffer_head = 0, serial_rx_buffer_tail = 0,
     serial_tx_buffer = replicate TX_RING_BUFFER 0,
     serial_tx_buffer_head = 0, serial_tx_buffer_tail = 0, UDR0 = 0, UDRIE0 = False\<rparr>"

section \<open>Operations\<close>

definition rx_next :: "u8 \<Rightarrow> u8" where
  "rx_next i = (let n = i + 1 in if unat n = RX_RING_BUFFER then 0 else n)"

definition tx_next :: "u8 \<Rightarrow> u8" where
  "tx_next i = (let n = i + 1 in if unat n = TX_RING_BUFFER then 0 else n)"

definition serial_get_rx_buffer_available :: "serial_t \<Rightarrow> u8" where
  "serial_get_rx_buffer_available s =
     (let rtail = serial_rx_buffer_tail s; head = serial_rx_buffer_head s in
      if rtail \<le> head then of_nat RX_BUFFER_SIZE - (head - rtail) else rtail - head - 1)"

definition serial_get_rx_buffer_count :: "serial_t \<Rightarrow> u8" where
  "serial_get_rx_buffer_count s =
     (let rtail = serial_rx_buffer_tail s; head = serial_rx_buffer_head s in
      if rtail \<le> head then head - rtail else of_nat RX_BUFFER_SIZE - (rtail - head))"

definition serial_get_tx_buffer_count :: "serial_t \<Rightarrow> u8" where
  "serial_get_tx_buffer_count s =
     (let ttail = serial_tx_buffer_tail s; head = serial_tx_buffer_head s in
      if ttail \<le> head then head - ttail else of_nat TX_RING_BUFFER - (ttail - head))"

text \<open>The store at the end of \<open>serial_write\<close>, once there is room.\<close>

definition serial_tx_store :: "u8 \<Rightarrow> serial_t \<Rightarrow> serial_t" where
  "serial_tx_store data s =
     s\<lparr>serial_tx_buffer := (serial_tx_buffer s)[unat (serial_tx_buffer_head s) := data],
       serial_tx_buffer_head := tx_next (serial_tx_buffer_head s),
       UDRIE0 := True\<rparr>"

definition serial_isr_udre :: "serial_t \<Rightarrow> serial_t" where
  "serial_isr_udre s =
     (let tail = serial_tx_buffer_tail s;
          d = serial_tx_buffer s ! unat tail;
          tail' = tx_next tail
      in s\<lparr>UDR0 := d, serial_tx_buffer_tail := tail',
           UDRIE0 := (if tail' = serial_tx_buffer_head s then False else UDRIE0 s)\<rparr>)"

text \<open>
  \<open>serial_write\<close> waits until there is room. The interrupts that run between two polls of its
  loop are an argument: the data-register-empty interrupt (which only runs when enabled), the
  arrival of a reset request, or none. The next head is computed once, before the loop.
  \<open>None\<close> says that the loop is still waiting when the given interrupts are used up.
\<close>

datatype tx_poll = Poll_idle | Poll_udre | Poll_reset

fun serial_write_wait :: "u8 \<Rightarrow> u8 \<Rightarrow> tx_poll list \<Rightarrow> bool \<Rightarrow> serial_t \<Rightarrow> serial_t option" where
  "serial_write_wait next_head data polls exec_reset s =
     (if next_head \<noteq> serial_tx_buffer_tail s
      then Some (s\<lparr>serial_tx_buffer := (serial_tx_buffer s)[unat (serial_tx_buffer_head s) := data],
                   serial_tx_buffer_head := next_head, UDRIE0 := True\<rparr>)
      else if exec_reset then Some s
      else (case polls of
        [] \<Rightarrow> None
      | Poll_idle # ps \<Rightarrow> serial_write_wait next_head data ps exec_reset s
      | Poll_udre # ps \<Rightarrow> serial_write_wait next_head data ps exec_reset
            (if UDRIE0 s then serial_isr_udre s else s)
      | Poll_reset # ps \<Rightarrow> serial_write_wait next_head data ps True s))"

declare serial_write_wait.simps [simp del]

definition serial_write :: "u8 \<Rightarrow> tx_poll list \<Rightarrow> bool \<Rightarrow> serial_t \<Rightarrow> serial_t option" where
  "serial_write data polls exec_reset s =
     serial_write_wait (tx_next (serial_tx_buffer_head s)) data polls exec_reset s"

definition serial_read :: "serial_t \<Rightarrow> u8 \<times> serial_t" where
  "serial_read s =
     (let tail = serial_rx_buffer_tail s in
      if serial_rx_buffer_head s = tail then (SERIAL_NO_DATA, s)
      else (serial_rx_buffer s ! unat tail, s\<lparr>serial_rx_buffer_tail := rx_next tail\<rparr>))"

text \<open>The last branch of the receive interrupt: store the character unless the ring is full.\<close>

definition serial_rx_put :: "u8 \<Rightarrow> serial_t \<Rightarrow> serial_t" where
  "serial_rx_put data s =
     (let next_head = rx_next (serial_rx_buffer_head s) in
      if next_head \<noteq> serial_rx_buffer_tail s
      then s\<lparr>serial_rx_buffer := (serial_rx_buffer s)[unat (serial_rx_buffer_head s) := data],
             serial_rx_buffer_head := next_head\<rparr>
      else s)"

definition serial_reset_read_buffer :: "serial_t \<Rightarrow> serial_t" where
  "serial_reset_read_buffer s = s\<lparr>serial_rx_buffer_tail := serial_rx_buffer_head s\<rparr>"

section \<open>Invariant and list views\<close>

definition serial_inv :: "serial_t \<Rightarrow> bool" where
  "serial_inv s \<longleftrightarrow>
     length (serial_rx_buffer s) = RX_RING_BUFFER \<and>
     unat (serial_rx_buffer_head s) < RX_RING_BUFFER \<and>
     unat (serial_rx_buffer_tail s) < RX_RING_BUFFER \<and>
     length (serial_tx_buffer s) = TX_RING_BUFFER \<and>
     unat (serial_tx_buffer_head s) < TX_RING_BUFFER \<and>
     unat (serial_tx_buffer_tail s) < TX_RING_BUFFER \<and>
     (serial_tx_buffer_head s \<noteq> serial_tx_buffer_tail s \<longleftrightarrow> UDRIE0 s)"

definition rx_pending :: "serial_t \<Rightarrow> u8 list" where
  "rx_pending s = ring_list RX_RING_BUFFER (serial_rx_buffer s)
     (unat (serial_rx_buffer_head s)) (unat (serial_rx_buffer_tail s))"

definition tx_pending :: "serial_t \<Rightarrow> u8 list" where
  "tx_pending s = ring_list TX_RING_BUFFER (serial_tx_buffer s)
     (unat (serial_tx_buffer_head s)) (unat (serial_tx_buffer_tail s))"

interpretation rx: ring RX_RING_BUFFER unat rx_next
proof unfold_locales
  show "1 < RX_RING_BUFFER" by (simp add: grbl_const)
  fix i :: u8 assume "unat i < RX_RING_BUFFER"
  then have "unat i < 129" and "unat (i + 1) = Suc (unat i)"
    by (auto simp: grbl_const intro: unat_u8_Suc)
  then show "unat (rx_next i) = Suc (unat i) mod RX_RING_BUFFER"
    by (auto simp: rx_next_def grbl_const Let_def)
qed

interpretation tx: ring TX_RING_BUFFER unat tx_next
proof unfold_locales
  show "1 < TX_RING_BUFFER" by (simp add: grbl_const)
  fix i :: u8 assume "unat i < TX_RING_BUFFER"
  then have "unat i < 105" and "unat (i + 1) = Suc (unat i)"
    by (auto simp: grbl_const intro: unat_u8_Suc)
  then show "unat (tx_next i) = Suc (unat i) mod TX_RING_BUFFER"
    by (auto simp: tx_next_def grbl_const Let_def)
qed

lemma serial_boot_inv: "serial_inv serial_boot"
  by (simp add: serial_inv_def serial_boot_def grbl_const)

lemma serial_boot_empty: "tx_pending serial_boot = []" "rx_pending serial_boot = []"
  by (simp_all add: tx_pending_def rx_pending_def serial_boot_def grbl_const)

subsection \<open>Transmit side\<close>

lemma tx_pending_Nil_iff:
  "serial_inv s \<Longrightarrow> tx_pending s = [] \<longleftrightarrow> serial_tx_buffer_head s = serial_tx_buffer_tail s"
  by (simp add: tx_pending_def serial_inv_def ring_list_Nil_iff u8_eq_iff)

lemma tx_irq_iff: "serial_inv s \<Longrightarrow> UDRIE0 s \<longleftrightarrow> tx_pending s \<noteq> []"
  by (simp add: tx_pending_Nil_iff) (simp add: serial_inv_def)

lemma tx_full_iff:
  "serial_inv s \<Longrightarrow> tx_next (serial_tx_buffer_head s) = serial_tx_buffer_tail s
     \<longleftrightarrow> length (tx_pending s) = TX_BUFFER_SIZE"
  using tx.full_iff [of "serial_tx_buffer_head s" "serial_tx_buffer_tail s"]
  by (simp add: tx_pending_def serial_inv_def u8_eq_iff) (simp add: grbl_const)

lemma tx_length_le: "serial_inv s \<Longrightarrow> length (tx_pending s) \<le> TX_BUFFER_SIZE"
  using ring_used_less [of "unat (serial_tx_buffer_head s)" TX_RING_BUFFER "unat (serial_tx_buffer_tail s)"]
  by (simp add: tx_pending_def serial_inv_def) (simp add: grbl_const)

lemma tx_store_pending:
  assumes "serial_inv s" and "tx_next (serial_tx_buffer_head s) \<noteq> serial_tx_buffer_tail s"
  shows "tx_pending (serial_tx_store d s) = tx_pending s @ [d]"
  using assms tx.list_push [of "serial_tx_buffer s" "serial_tx_buffer_head s" "serial_tx_buffer_tail s" d]
  by (simp add: tx_pending_def serial_tx_store_def serial_inv_def u8_eq_iff)

lemma tx_store_inv:
  assumes "serial_inv s" and "tx_next (serial_tx_buffer_head s) \<noteq> serial_tx_buffer_tail s"
  shows "serial_inv (serial_tx_store d s)"
  using assms by (auto simp: serial_inv_def serial_tx_store_def)

lemma udre_pending:
  assumes "serial_inv s" and "UDRIE0 s"
  shows "tx_pending s = UDR0 (serial_isr_udre s) # tx_pending (serial_isr_udre s)"
  using assms tx.list_pop [of "serial_tx_buffer_head s" "serial_tx_buffer_tail s" "serial_tx_buffer s"]
  by (simp add: tx_pending_def serial_isr_udre_def serial_inv_def u8_eq_iff Let_def)

lemma udre_inv: "serial_inv s \<Longrightarrow> UDRIE0 s \<Longrightarrow> serial_inv (serial_isr_udre s)"
  by (auto simp: serial_inv_def serial_isr_udre_def Let_def)

subsection \<open>Receive side\<close>

lemma rx_pending_Nil_iff:
  "serial_inv s \<Longrightarrow> rx_pending s = [] \<longleftrightarrow> serial_rx_buffer_head s = serial_rx_buffer_tail s"
  by (simp add: rx_pending_def serial_inv_def ring_list_Nil_iff u8_eq_iff)

lemma rx_full_iff:
  "serial_inv s \<Longrightarrow> rx_next (serial_rx_buffer_head s) = serial_rx_buffer_tail s
     \<longleftrightarrow> length (rx_pending s) = RX_BUFFER_SIZE"
  using rx.full_iff [of "serial_rx_buffer_head s" "serial_rx_buffer_tail s"]
  by (simp add: rx_pending_def serial_inv_def u8_eq_iff) (simp add: grbl_const)

lemma rx_put_pending:
  "serial_inv s \<Longrightarrow> rx_pending (serial_rx_put d s) =
     (if length (rx_pending s) = RX_BUFFER_SIZE then rx_pending s else rx_pending s @ [d])"
  using rx.list_push [of "serial_rx_buffer s" "serial_rx_buffer_head s" "serial_rx_buffer_tail s" d]
  by (simp flip: rx_full_iff)
     (auto simp: rx_pending_def serial_rx_put_def serial_inv_def u8_eq_iff Let_def)

lemma rx_put_inv: "serial_inv s \<Longrightarrow> serial_inv (serial_rx_put d s)"
  by (auto simp: serial_inv_def serial_rx_put_def Let_def)

lemma serial_read_pending:
  assumes "serial_inv s"
  shows "serial_read s =
    (case rx_pending s of [] \<Rightarrow> (SERIAL_NO_DATA, s)
     | d # ds \<Rightarrow> (d, s\<lparr>serial_rx_buffer_tail := rx_next (serial_rx_buffer_tail s)\<rparr>))"
    and "rx_pending (snd (serial_read s)) = tl (rx_pending s)"
proof -
  have e: "serial_rx_buffer_head s = serial_rx_buffer_tail s \<longleftrightarrow> rx_pending s = []"
    using assms by (simp add: rx_pending_Nil_iff)
  have p: "rx_pending s = serial_rx_buffer s ! unat (serial_rx_buffer_tail s) #
      rx_pending (s\<lparr>serial_rx_buffer_tail := rx_next (serial_rx_buffer_tail s)\<rparr>)"
    if "rx_pending s \<noteq> []"
    using that assms rx.list_pop [of "serial_rx_buffer_head s" "serial_rx_buffer_tail s" "serial_rx_buffer s"]
    unfolding e [symmetric] by (simp add: rx_pending_def serial_inv_def u8_eq_iff)
  show "serial_read s =
    (case rx_pending s of [] \<Rightarrow> (SERIAL_NO_DATA, s)
     | d # ds \<Rightarrow> (d, s\<lparr>serial_rx_buffer_tail := rx_next (serial_rx_buffer_tail s)\<rparr>))"
    using p by (cases "rx_pending s") (auto simp: serial_read_def e Let_def)
  show "rx_pending (snd (serial_read s)) = tl (rx_pending s)"
    using p by (cases "rx_pending s") (auto simp: serial_read_def e Let_def)
qed

lemma serial_read_inv: "serial_inv s \<Longrightarrow> serial_inv (snd (serial_read s))"
  by (auto simp: serial_inv_def serial_read_def Let_def)

lemma serial_reset_read_inv: "serial_inv s \<Longrightarrow> serial_inv (serial_reset_read_buffer s)"
  by (simp add: serial_inv_def serial_reset_read_buffer_def)

lemma serial_reset_read_empty: "serial_inv s \<Longrightarrow> rx_pending (serial_reset_read_buffer s) = []"
  by (simp add: rx_pending_def serial_inv_def serial_reset_read_buffer_def)

section \<open>The transmit ring as a concurrent queue\<close>

text \<open>
  The main program stores bytes and the interrupt takes them, in any interleaving. A step is
  labelled with the byte the program wrote or the byte the interrupt put in \<open>UDR0\<close>.
\<close>

datatype tx_label = Wrote u8 | Sent u8

inductive tx_step :: "serial_t \<Rightarrow> tx_label \<Rightarrow> serial_t \<Rightarrow> bool" where
  tx_write: "tx_next (serial_tx_buffer_head s) \<noteq> serial_tx_buffer_tail s \<Longrightarrow>
     tx_step s (Wrote d) (serial_tx_store d s)"
| tx_udre: "UDRIE0 s \<Longrightarrow> tx_step s (Sent (UDR0 (serial_isr_udre s))) (serial_isr_udre s)"

inductive_cases tx_stepE: "tx_step s l t"

inductive tx_run :: "serial_t \<Rightarrow> tx_label list \<Rightarrow> serial_t \<Rightarrow> bool" where
  tx_run_Nil: "tx_run s [] s"
| tx_run_snoc: "tx_run s ls t \<Longrightarrow> tx_step t l u \<Longrightarrow> tx_run s (ls @ [l]) u"

fun wrote :: "tx_label list \<Rightarrow> u8 list" where
  "wrote [] = []"
| "wrote (Wrote d # ls) = d # wrote ls"
| "wrote (Sent d # ls) = wrote ls"

fun sent :: "tx_label list \<Rightarrow> u8 list" where
  "sent [] = []"
| "sent (Wrote d # ls) = sent ls"
| "sent (Sent d # ls) = d # sent ls"

lemma wrote_append [simp]: "wrote (xs @ ys) = wrote xs @ wrote ys"
  by (induction xs rule: wrote.induct) auto

lemma sent_append [simp]: "sent (xs @ ys) = sent xs @ sent ys"
  by (induction xs rule: sent.induct) auto

lemma tx_step_inv: "tx_step s l t \<Longrightarrow> serial_inv s \<Longrightarrow> serial_inv t"
  by (auto elim!: tx_stepE intro: tx_store_inv udre_inv)

lemma tx_step_pending:
  "tx_step s l t \<Longrightarrow> serial_inv s \<Longrightarrow> tx_pending s @ wrote [l] = sent [l] @ tx_pending t"
  by (auto elim!: tx_stepE simp: tx_store_pending udre_pending)

lemma tx_run_inv: "tx_run s ls t \<Longrightarrow> serial_inv s \<Longrightarrow> serial_inv t"
  by (induction rule: tx_run.induct) (auto intro: tx_step_inv)

lemma tx_run_pending:
  "tx_run s ls t \<Longrightarrow> serial_inv s \<Longrightarrow> tx_pending s @ wrote ls = sent ls @ tx_pending t"
proof (induction rule: tx_run.induct)
  case (tx_run_snoc s ls t l u)
  from tx_run_snoc tx_run_inv have inv: "serial_inv t" by blast
  have "tx_pending s @ wrote (ls @ [l]) = sent ls @ tx_pending t @ wrote [l]"
    using tx_run_snoc by simp
  also have "\<dots> = sent ls @ sent [l] @ tx_pending u"
    using tx_step_pending [OF tx_run_snoc.hyps(2) inv] by simp
  finally show ?case by simp
qed simp


lemma boot_two_writes:
  "tx_run serial_boot [Wrote 65, Sent 65] (serial_isr_udre (serial_tx_store 65 serial_boot))"
proof -
  have "tx_step serial_boot (Wrote 65) (serial_tx_store 65 serial_boot)"
    by (rule tx_write) (simp add: serial_boot_def tx_next_def grbl_const Let_def)
  moreover have "tx_step (serial_tx_store 65 serial_boot) (Sent 65)
      (serial_isr_udre (serial_tx_store 65 serial_boot))"
    using tx_udre [of "serial_tx_store 65 serial_boot"]
    by (simp add: serial_tx_store_def serial_isr_udre_def serial_boot_def grbl_const Let_def)
  ultimately show ?thesis
    using tx_run_snoc [OF tx_run_snoc [OF tx_run_Nil]] by fastforce
qed


text \<open>
  C29. \<open>serial_write\<close> never stays blocked while the transmit interrupt runs: if any of the
  interrupts that occur during the wait is a data-register-empty interrupt and none is a
  reset, it returns having appended its byte, whether or not the ring was full; without a
  reset no byte is ever dropped.
\<close>

theorem serial_write_returns:
  assumes "serial_inv s" and "Poll_udre \<in> set polls" and "Poll_reset \<notin> set polls"
  shows "\<exists>t. serial_write d polls False s = Some t \<and> serial_inv t \<and>
    (if length (tx_pending s) = TX_BUFFER_SIZE then tx_pending t = tl (tx_pending s) @ [d]
     else tx_pending t = tx_pending s @ [d])"
proof (cases "tx_next (serial_tx_buffer_head s) = serial_tx_buffer_tail s")
  case False
  have "serial_write d polls False s = Some (serial_tx_store d s)"
    using False by (simp add: serial_write_def serial_write_wait.simps serial_tx_store_def)
  with False assms(1) show ?thesis
    by (simp add: tx_store_pending tx_store_inv flip: tx_full_iff)
next
  case True
  define nh where "nh = tx_next (serial_tx_buffer_head s)"
  define u where "u = serial_isr_udre s"
  have full: "length (tx_pending s) = TX_BUFFER_SIZE" using True assms(1) by (simp add: tx_full_iff)
  then have irq: "UDRIE0 s" using assms(1) by (auto simp: tx_irq_iff grbl_const)
  have hd: "serial_tx_buffer_head u = serial_tx_buffer_head s"
    by (simp add: u_def serial_isr_udre_def Let_def)
  have inv: "serial_inv u" using udre_inv [OF assms(1) irq] by (simp add: u_def)
  have tl: "tx_pending u = tl (tx_pending s)" using udre_pending [OF assms(1) irq] by (simp add: u_def)
  then have "length (tx_pending u) \<noteq> TX_BUFFER_SIZE" using full by (simp add: grbl_const)
  then have room: "nh \<noteq> serial_tx_buffer_tail u" using inv by (simp add: nh_def flip: hd tx_full_iff)
  have st: "serial_write_wait nh d ps False u = Some (serial_tx_store d u)" for ps
    using room hd by (simp add: serial_write_wait.simps serial_tx_store_def nh_def)
  have "serial_write_wait nh d polls False s = Some (serial_tx_store d u)"
    using assms(2,3)
  proof (induction polls)
    case (Cons p ps)
    have "nh = serial_tx_buffer_tail s" using True by (simp add: nh_def)
    with Cons irq st show ?case
      by (cases p) (auto simp: serial_write_wait.simps [of "serial_tx_buffer_tail s" d "_ # _"] u_def [symmetric])
  qed simp
  with full room inv tl hd show ?thesis
    by (simp add: serial_write_def nh_def tx_store_pending tx_store_inv)
qed

theorem serial_write_returns_witness:
  "\<exists>t. serial_write 66 [Poll_idle, Poll_udre] False serial_boot = Some t \<and> tx_pending t = [66]"
proof -
  have "\<exists>t. serial_write 66 [Poll_idle, Poll_udre] False serial_boot = Some t \<and> serial_inv t \<and>
    (if length (tx_pending serial_boot) = TX_BUFFER_SIZE then tx_pending t = tl (tx_pending serial_boot) @ [66]
     else tx_pending t = tx_pending serial_boot @ [66])"
    by (rule serial_write_returns) (auto simp: serial_boot_inv)
  then show ?thesis by (auto simp: serial_boot_empty grbl_const)
qed

section \<open>The receive ring\<close>

datatype rx_label = Arrived u8 | Read u8

inductive rx_step :: "serial_t \<Rightarrow> rx_label \<Rightarrow> serial_t \<Rightarrow> bool" where
  rx_arrive: "rx_step s (Arrived d) (serial_rx_put d s)"
| rx_read: "serial_read s = (d, t) \<Longrightarrow> rx_step s (Read d) t"

inductive_cases rx_stepE: "rx_step s l t"

inductive rx_run :: "serial_t \<Rightarrow> rx_label list \<Rightarrow> serial_t \<Rightarrow> bool" where
  rx_run_Nil: "rx_run s [] s"
| rx_run_snoc: "rx_run s ls t \<Longrightarrow> rx_step t l u \<Longrightarrow> rx_run s (ls @ [l]) u"

text \<open>
  The abstract queue the receive side promises: an arriving byte is appended unless 128 bytes
  are waiting, in which case it is lost; a read takes the oldest byte, or reports that there
  is none.
\<close>

fun rx_spec :: "u8 list \<Rightarrow> rx_label list \<Rightarrow> u8 list option" where
  "rx_spec q [] = Some q"
| "rx_spec q (Arrived d # ls) = rx_spec (if length q = RX_BUFFER_SIZE then q else q @ [d]) ls"
| "rx_spec [] (Read d # ls) = (if d = SERIAL_NO_DATA then rx_spec [] ls else None)"
| "rx_spec (x # q) (Read d # ls) = (if d = x then rx_spec q ls else None)"

lemma rx_spec_snoc:
  "rx_spec q ls = Some q' \<Longrightarrow> rx_spec q (ls @ [l]) = rx_spec q' [l]"
  by (induction q ls rule: rx_spec.induct) (auto split: if_splits)

lemma rx_step_inv: "rx_step s l t \<Longrightarrow> serial_inv s \<Longrightarrow> serial_inv t"
  using serial_read_inv [of s] by (auto elim!: rx_stepE intro: rx_put_inv)

lemma rx_step_spec:
  "rx_step s l t \<Longrightarrow> serial_inv s \<Longrightarrow> rx_spec (rx_pending s) [l] = Some (rx_pending t)"
  using serial_read_pending [of s]
  by (auto elim!: rx_stepE simp: rx_put_pending split: list.splits)

lemma rx_run_inv: "rx_run s ls t \<Longrightarrow> serial_inv s \<Longrightarrow> serial_inv t"
  by (induction rule: rx_run.induct) (auto intro: rx_step_inv)

text \<open>
  C16. The receive ring refines the bounded queue: every interleaving of arriving bytes and
  reads of the main program that the ring allows is one the queue allows, with the same bytes
  returned by the reads, and the ring's occupied slots are the queue.
\<close>

theorem serial_rx_refines:
  assumes "rx_run s ls t" and "serial_inv s"
  shows "rx_spec (rx_pending s) ls = Some (rx_pending t)"
  using assms
proof (induction rule: rx_run.induct)
  case (rx_run_snoc s ls t l u)
  then have "serial_inv t" by (blast intro: rx_run_inv)
  with rx_run_snoc show ?case by (simp add: rx_spec_snoc rx_step_spec)
qed simp

theorem serial_rx_refines_witness:
  "rx_spec [] [Arrived 71] = Some (rx_pending (serial_rx_put 71 serial_boot))"
  using serial_rx_refines [OF rx_run_snoc [OF rx_run_Nil rx_arrive] serial_boot_inv, of 71]
  by (simp add: serial_boot_empty)

text \<open>
  The byte counts reported to the host: the number of free receive slots is always exact.
  The deprecated \<open>serial_get_rx_buffer_count\<close> is exact while the head has not wrapped, and
  reports one byte too few when it has.
\<close>

theorem serial_counts:
  assumes "serial_inv s"
  shows "unat (serial_get_rx_buffer_available s) = RX_BUFFER_SIZE - length (rx_pending s)
    \<and> unat (serial_get_tx_buffer_count s) = length (tx_pending s)
    \<and> unat (serial_get_rx_buffer_count s) =
       (if serial_rx_buffer_tail s \<le> serial_rx_buffer_head s then length (rx_pending s)
        else length (rx_pending s) - 1)"
proof -
  have r: "unat (serial_rx_buffer_head s) < 129" "unat (serial_rx_buffer_tail s) < 129"
    "unat (serial_tx_buffer_head s) < 105" "unat (serial_tx_buffer_tail s) < 105"
    using assms by (auto simp: serial_inv_def grbl_const)
  have rl: "length (rx_pending s) =
      (if unat (serial_rx_buffer_tail s) \<le> unat (serial_rx_buffer_head s)
       then unat (serial_rx_buffer_head s) - unat (serial_rx_buffer_tail s)
       else unat (serial_rx_buffer_head s) + 129 - unat (serial_rx_buffer_tail s))"
    using r by (simp add: rx_pending_def grbl_const ring_used_eq)
  have tl: "length (tx_pending s) =
      (if unat (serial_tx_buffer_tail s) \<le> unat (serial_tx_buffer_head s)
       then unat (serial_tx_buffer_head s) - unat (serial_tx_buffer_tail s)
       else unat (serial_tx_buffer_head s) + 105 - unat (serial_tx_buffer_tail s))"
    using r by (simp add: tx_pending_def grbl_const ring_used_eq)
  have "unat (serial_get_rx_buffer_available s) = 128 - length (rx_pending s)"
    unfolding rl serial_get_rx_buffer_available_def Let_def using r
    by (auto simp: word_le_nat_alt unat_sub_if' grbl_const split: if_splits)
  moreover have "unat (serial_get_tx_buffer_count s) = length (tx_pending s)"
    unfolding tl serial_get_tx_buffer_count_def Let_def using r
    by (auto simp: word_le_nat_alt unat_sub_if' grbl_const)
  moreover have "unat (serial_get_rx_buffer_count s) =
       (if serial_rx_buffer_tail s \<le> serial_rx_buffer_head s then length (rx_pending s)
        else length (rx_pending s) - 1)"
    unfolding rl serial_get_rx_buffer_count_def Let_def using r
    by (auto simp: word_le_nat_alt unat_sub_if' grbl_const)
  ultimately show ?thesis by (simp add: grbl_const)
qed

theorem serial_counts_witness:
  "unat (serial_get_rx_buffer_available serial_boot) = 128"
  using serial_counts [OF serial_boot_inv] by (simp add: serial_boot_empty grbl_const)

end
