(* ===== verification/Float32.thy ===== *)
theory Float32
  imports Grbl_Prelude
begin

text \<open>
  The C type \<open>float\<close> of the firmware. The code is compiled by avr-gcc for the ATmega328P,
  where \<open>float\<close> and \<open>double\<close> are both the IEEE 754 binary32 format, so every
  intermediate result of the source is rounded to 24 significant bits. A value is one of

  \<^item> \<open>FNaN\<close>, not a number (payloads are not distinguished);
  \<^item> \<open>FInf s\<close>, an infinity of sign \<open>s\<close> (\<open>True\<close> is negative);
  \<^item> \<open>FFin s m\<close>, the finite value of sign \<open>s\<close> and magnitude \<open>m\<close>, an exact
    rational; the two zeros are \<open>FFin False 0\<close> and \<open>FFin True 0\<close>.

  The operations compute the exact result on rationals and round it once, to nearest with
  ties to even (\<open>rnd_mag\<close>), as the standard says. Everything is executable. The lemmas show
  that rounding is the identity on representable values, is monotone and yields
  representable values, which is what the properties of the components rest on.
\<close>

section \<open>Rounding of magnitudes\<close>

function bit_len :: "int \<Rightarrow> int" where
  "bit_len n = (if n \<le> 0 then 0 else 1 + bit_len (n div 2))"
  by pat_completeness auto
termination by (relation "measure nat") auto
declare bit_len.simps [simp del]

definition pow2 :: "int \<Rightarrow> rat" where
  "pow2 k = (if 0 \<le> k then 2 ^ nat k else 1 / 2 ^ nat (- k))"

definition flog2 :: "rat \<Rightarrow> int" where
  "flog2 r = (case quotient_of r of (p, q) \<Rightarrow>
     (let e = bit_len p - bit_len q in if pow2 e \<le> r then e else e - 1))"

definition round_half_even :: "rat \<Rightarrow> int" where
  "round_half_even x =
     (let f = \<lfloor>x\<rfloor>; d = x - of_int f in
      if d < 1/2 then f else if 1/2 < d then f + 1 else if even f then f else f + 1)"

definition ulp_exp :: "rat \<Rightarrow> int" where
  "ulp_exp r = max (- 149) (flog2 r - 23)"

definition rnd_mag :: "rat \<Rightarrow> rat" where
  "rnd_mag r = (if r = 0 then 0
     else of_int (round_half_even (r / pow2 (ulp_exp r))) * pow2 (ulp_exp r))"

lemma pow2_powi: "pow2 k = 2 powi k"
  by (simp add: pow2_def power_int_def power_one_over inverse_eq_divide)

lemma pow2_pos [simp]: "0 < pow2 k" and pow2_neq0 [simp]: "pow2 k \<noteq> 0"
  by (simp_all add: pow2_powi)

lemma pow2_add: "pow2 (a + b) = pow2 a * pow2 b"
  by (simp add: pow2_powi power_int_add)

lemma pow2_diff: "pow2 (a - b) = pow2 a / pow2 b"
  by (simp add: pow2_powi power_int_diff)

lemma pow2_less_iff [simp]: "pow2 a < pow2 b \<longleftrightarrow> a < b"
proof -
  have "a < b \<Longrightarrow> pow2 a < pow2 b" for a b
    by (simp add: pow2_powi power_int_strict_increasing)
  then show ?thesis by (metis linorder_less_linear less_asym less_irrefl)
qed

lemma pow2_le_iff [simp]: "pow2 a \<le> pow2 b \<longleftrightarrow> a \<le> b"
  by (simp flip: not_less)

lemma pow2_of_int: "0 \<le> k \<Longrightarrow> pow2 k = of_int (2 ^ nat k)"
  by (simp add: pow2_def)

lemma bit_len_nonneg: "0 \<le> bit_len n"
  by (induction n rule: bit_len.induct) (subst bit_len.simps, simp)

lemma bit_len_bounds:
  "0 < n \<Longrightarrow> 2 ^ nat (bit_len n - 1) \<le> n \<and> n < 2 ^ nat (bit_len n)"
proof (induction n rule: bit_len.induct)
  case (1 n)
  show ?case
  proof (cases "n = 1")
    case True
    then show ?thesis by (simp add: bit_len.simps [of 1] bit_len.simps [of 0])
  next
    case False
    with 1 have pos: "0 < n div 2" by simp
    with 1 have IH: "2 ^ nat (bit_len (n div 2) - 1) \<le> n div 2 \<and> n div 2 < 2 ^ nat (bit_len (n div 2))"
      by simp
    have b: "bit_len n = 1 + bit_len (n div 2)" using 1 by (subst bit_len.simps) simp
    obtain k where k: "nat (bit_len (n div 2)) = Suc k"
      using IH pos bit_len_nonneg [of "n div 2"]
      by (cases "nat (bit_len (n div 2))") auto
    then have "bit_len (n div 2) = int (Suc k)" by linarith
    then have e: "nat (bit_len (n div 2) - 1) = k" "nat (bit_len n) = Suc (Suc k)"
      "nat (bit_len n - 1) = Suc k"
      using b by auto
    from IH k e have "2 ^ k \<le> n div 2 \<and> n div 2 < 2 ^ Suc k" by simp
    then show ?thesis unfolding e by auto
  qed
qed

lemma flog2_bounds:
  assumes "0 < r"
  shows "pow2 (flog2 r) \<le> r" and "r < pow2 (flog2 r + 1)"
proof -
  obtain p q where pq: "quotient_of r = (p, q)" by (cases "quotient_of r")
  then have q: "0 < q" and r: "r = of_int p / of_int q"
    using quotient_of_denom_pos quotient_of_div by blast+
  with assms have p: "0 < p" by (simp add: zero_less_divide_iff)
  define a where "a = bit_len p" define b where "b = bit_len q"
  have ap: "0 \<le> a - 1" using bit_len_bounds [OF p] p bit_len_nonneg [of p]
    by (cases "a = 0") (auto simp: a_def)
  have bp: "0 \<le> b - 1" using bit_len_bounds [OF q] q bit_len_nonneg [of q]
    by (cases "b = 0") (auto simp: b_def)
  have P: "pow2 (a - 1) \<le> of_int p" "of_int p < pow2 a"
    using bit_len_bounds [OF p] ap unfolding a_def [symmetric]
    by (simp_all add: pow2_of_int del: of_int_power)
  have Q: "pow2 (b - 1) \<le> of_int q" "of_int q < pow2 b"
    using bit_len_bounds [OF q] bp unfolding b_def [symmetric]
    by (simp_all add: pow2_of_int del: of_int_power)
  have lo: "pow2 (a - b - 1) < r"
  proof -
    have "pow2 (a - b - 1) * of_int q < pow2 (a - b - 1) * pow2 b"
      using Q by (intro mult_strict_left_mono) auto
    also have "\<dots> = pow2 (a - 1)" by (simp flip: pow2_add)
    also have "\<dots> \<le> of_int p" by (rule P)
    finally show ?thesis using q by (simp add: r pos_less_divide_eq)
  qed
  have hi: "r < pow2 (a - b + 1)"
  proof -
    have "of_int p < pow2 a" by (rule P)
    also have "\<dots> = pow2 (a - b + 1) * pow2 (b - 1)" by (simp flip: pow2_add)
    also have "\<dots> \<le> pow2 (a - b + 1) * of_int q"
      using Q by (intro mult_left_mono less_imp_le [OF pow2_pos]) auto
    finally show ?thesis using q by (simp add: r pos_divide_less_eq)
  qed
  have f: "flog2 r = (if pow2 (a - b) \<le> r then a - b else a - b - 1)"
    by (simp add: flog2_def pq a_def b_def Let_def)
  show "pow2 (flog2 r) \<le> r" and "r < pow2 (flog2 r + 1)"
    using lo hi by (auto simp: f)
qed

lemma flog2_unique:
  assumes "pow2 e \<le> r" and "r < pow2 (e + 1)"
  shows "flog2 r = e"
proof -
  have r: "0 < r" using assms(1) pow2_pos by (rule less_le_trans [rotated])
  have "pow2 (flog2 r) < pow2 (e + 1)" "pow2 e < pow2 (flog2 r + 1)"
    using flog2_bounds [OF r] assms by linarith+
  then show ?thesis by simp
qed

lemma flog2_mono: "0 < r \<Longrightarrow> r \<le> s \<Longrightarrow> flog2 r \<le> flog2 s"
proof -
  assume "0 < r" "r \<le> s"
  then have "pow2 (flog2 r) < pow2 (flog2 s + 1)"
    using flog2_bounds [of r] flog2_bounds [of s] by linarith
  then show ?thesis by simp
qed

lemma round_half_even_of_int [simp]: "round_half_even (of_int n) = n"
  by (simp add: round_half_even_def)

lemma round_half_even_mono: "x \<le> y \<Longrightarrow> round_half_even x \<le> round_half_even y"
proof -
  assume "x \<le> y"
  then have f: "\<lfloor>x\<rfloor> \<le> \<lfloor>y\<rfloor>" by (rule floor_mono)
  show ?thesis
  proof (cases "\<lfloor>x\<rfloor> = \<lfloor>y\<rfloor>")
    case True
    with \<open>x \<le> y\<close> show ?thesis by (auto simp: round_half_even_def Let_def)
  next
    case False
    with f have "\<lfloor>x\<rfloor> + 1 \<le> \<lfloor>y\<rfloor>" by simp
    then show ?thesis by (auto simp: round_half_even_def Let_def)
  qed
qed

lemma round_half_even_close: "\<bar>of_int (round_half_even x) - x\<bar> \<le> 1/2"
  unfolding round_half_even_def Let_def
  using of_int_floor_le [of x] floor_correct [of x] by (auto simp: abs_le_iff)

lemma rnd_mag_0 [simp]: "rnd_mag 0 = 0"
  by (simp add: rnd_mag_def)

definition f_repr :: "rat \<Rightarrow> bool" where
  "f_repr r \<longleftrightarrow> r = 0 \<or> 0 < r \<and> (\<exists>m. r = of_int m * pow2 (ulp_exp r))"

lemma f_reprI:
  assumes "0 \<le> m" and "m < 2 ^ 24" and "- 149 \<le> k"
  shows "f_repr (of_int m * pow2 k)"
proof (cases "m = 0")
  case False
  define r where "r = of_int m * pow2 k"
  have r: "0 < r" using False assms by (simp add: r_def)
  have "r < pow2 (24 + k)"
  proof -
    have "of_int m < (of_int (2 ^ 24) :: rat)" using assms(2) of_int_less_iff by blast
    then have "r < of_int (2 ^ 24) * pow2 k" unfolding r_def by (rule mult_strict_right_mono) simp
    then show ?thesis by (simp add: pow2_add pow2_of_int)
  qed
  then have "pow2 (flog2 r) < pow2 (24 + k)" using flog2_bounds(1) [OF r] by linarith
  then have "ulp_exp r \<le> k" using assms(3) by (simp add: ulp_exp_def)
  then have "r = of_int (m * 2 ^ nat (k - ulp_exp r)) * pow2 (ulp_exp r)"
    by (simp add: r_def pow2_of_int [symmetric] flip: pow2_add)
       (metis diff_add_cancel diff_ge_0_iff_ge mult.assoc of_int_power of_int_numeral pow2_add pow2_of_int)
  with r show ?thesis unfolding r_def [symmetric] f_repr_def by blast
qed (simp add: f_repr_def)

lemma rnd_mag_repr: "f_repr r \<Longrightarrow> rnd_mag r = r"
proof -
  assume a: "f_repr r"
  show ?thesis
  proof (cases "r = 0")
    case False
    with a obtain m where m: "r = of_int m * pow2 (ulp_exp r)" by (auto simp: f_repr_def)
    then have "r / pow2 (ulp_exp r) = of_int m" by (metis nonzero_mult_div_cancel_right pow2_neq0)
    then show ?thesis using False m by (simp add: rnd_mag_def)
  qed simp
qed


lemma round_half_even_le_of_int: "x \<le> of_int n \<Longrightarrow> round_half_even x \<le> n"
  using round_half_even_mono [of x "of_int n"] by simp

lemma round_half_even_ge_of_int: "of_int n \<le> x \<Longrightarrow> n \<le> round_half_even x"
  using round_half_even_mono [of "of_int n" x] by simp

lemma rnd_mag_nonneg: "0 \<le> r \<Longrightarrow> 0 \<le> rnd_mag r"
  using round_half_even_ge_of_int [of 0 "r / pow2 (ulp_exp r)"]
  by (auto simp: rnd_mag_def less_imp_le)

lemma scaled_less: "0 < r \<Longrightarrow> r / pow2 (ulp_exp r) < of_int (2 ^ 24)"
proof -
  assume "0 < r"
  then have "r < pow2 (flog2 r + 1)" by (rule flog2_bounds)
  also have "\<dots> \<le> pow2 (24 + ulp_exp r)" by (simp add: ulp_exp_def)
  also have "\<dots> = of_int (2 ^ 24) * pow2 (ulp_exp r)" by (simp add: pow2_add pow2_of_int)
  finally show ?thesis by (simp add: pos_divide_less_eq)
qed

lemma f_repr_rnd_mag: "0 \<le> r \<Longrightarrow> f_repr (rnd_mag r)"
proof (cases "r = 0")
  case False
  assume "0 \<le> r"
  with False have r: "0 < r" by simp
  define m where "m = round_half_even (r / pow2 (ulp_exp r))"
  have e: "rnd_mag r = of_int m * pow2 (ulp_exp r)" using False by (simp add: rnd_mag_def m_def)
  have m0: "0 \<le> m" using r round_half_even_ge_of_int [of 0] by (simp add: m_def less_imp_le)
  have m1: "m \<le> 2 ^ 24" using scaled_less [OF r] unfolding m_def
    by (intro round_half_even_le_of_int) simp
  show ?thesis
  proof (cases "m = 2 ^ 24")
    case True
    then have "rnd_mag r = of_int (2 ^ 23) * pow2 (ulp_exp r + 1)"
      by (simp add: e pow2_add pow2_of_int)
    then show ?thesis using f_reprI [of "2 ^ 23" "ulp_exp r + 1"] by (simp add: ulp_exp_def)
  next
    case False
    with m0 m1 e show ?thesis using f_reprI [of m "ulp_exp r"] by (simp add: ulp_exp_def)
  qed
qed (simp add: f_repr_def)

lemma rnd_mag_idem: "0 \<le> r \<Longrightarrow> rnd_mag (rnd_mag r) = rnd_mag r"
  by (intro rnd_mag_repr f_repr_rnd_mag)

lemma rnd_mag_le_repr:
  assumes "0 < r" and "r \<le> of_int n * pow2 k" and "ulp_exp r \<le> k"
  shows "rnd_mag r \<le> of_int n * pow2 k"
proof -
  have s: "of_int n * pow2 k = of_int (n * 2 ^ nat (k - ulp_exp r)) * pow2 (ulp_exp r)"
    using assms(3) by (simp add: mult.assoc pow2_of_int [symmetric] flip: pow2_add of_int_power)
  have "r / pow2 (ulp_exp r) \<le> of_int (n * 2 ^ nat (k - ulp_exp r))"
    using assms(2) unfolding s by (simp add: pos_divide_le_eq)
  from round_half_even_le_of_int [OF this] show ?thesis
    using assms(1) unfolding s rnd_mag_def
    by (simp add: mult_right_mono less_imp_le del: of_int_mult)
qed

lemma rnd_mag_mono:
  assumes "0 \<le> r" and "r \<le> s"
  shows "rnd_mag r \<le> rnd_mag s"
proof (cases "r = 0")
  case True
  with assms show ?thesis by (simp add: rnd_mag_nonneg)
next
  case False
  with assms have r: "0 < r" "0 < s" by auto
  show ?thesis
  proof (cases "ulp_exp r = ulp_exp s")
    case True
    have "r / pow2 (ulp_exp s) \<le> s / pow2 (ulp_exp s)"
      using assms(2) by (simp add: divide_right_mono less_imp_le)
    with True r show ?thesis
      by (simp add: rnd_mag_def round_half_even_mono mult_right_mono less_imp_le)
  next
    case False
    with flog2_mono [OF r(1) assms(2)] have l: "ulp_exp r < ulp_exp s" "flog2 r < flog2 s"
      and u: "ulp_exp s = flog2 s - 23"
      by (auto simp: ulp_exp_def max_def split: if_splits)
    have B: "pow2 (flog2 s) = of_int (2 ^ 23) * pow2 (ulp_exp s)"
      using pow2_add [of 23 "flog2 s - 23"] by (simp add: u pow2_of_int)
    have "r \<le> pow2 (flog2 s)"
    proof -
      have "r < pow2 (flog2 r + 1)" by (rule flog2_bounds [OF r(1)])
      also have "\<dots> \<le> pow2 (flog2 s)" using l by simp
      finally show ?thesis by simp
    qed
    then have "rnd_mag r \<le> pow2 (flog2 s)"
      unfolding B using r l by (intro rnd_mag_le_repr) auto
    also have "\<dots> \<le> rnd_mag s"
    proof -
      have "of_int (2 ^ 23) \<le> s / pow2 (ulp_exp s)"
        using flog2_bounds(1) [OF r(2)] unfolding B by (simp add: pos_le_divide_eq)
      from round_half_even_ge_of_int [OF this] have
        "of_int (2 ^ 23) * pow2 (ulp_exp s) \<le> rnd_mag s"
        using r unfolding rnd_mag_def
        by (simp add: mult_right_mono less_imp_le del: of_int_power of_int_numeral)
      then show ?thesis by (simp add: B)
    qed
    finally show ?thesis .
  qed
qed


section \<open>Values and operations\<close>

datatype f32 = FNaN | FInf bool | FFin bool rat

text \<open>The largest finite magnitude.\<close>

definition f_max :: rat where
  "f_max = (2 ^ 24 - 1) * 2 ^ 104"

text \<open>The float of sign \<open>s\<close> nearest to the magnitude \<open>r\<close>.\<close>

definition mk_f32 :: "bool \<Rightarrow> rat \<Rightarrow> f32" where
  "mk_f32 s r = (let m = rnd_mag r in if f_max < m then FInf s else FFin s m)"

definition f_of_rat :: "rat \<Rightarrow> f32" where
  "f_of_rat r = mk_f32 (r < 0) \<bar>r\<bar>"

definition f_of_int :: "int \<Rightarrow> f32" where
  "f_of_int n = f_of_rat (of_int n)"

abbreviation f_zero :: f32 where
  "f_zero \<equiv> FFin False 0"

fun f_val :: "f32 \<Rightarrow> rat" where
  "f_val (FFin s m) = (if s then - m else m)"
| "f_val (FInf s) = 0"
| "f_val FNaN = 0"

fun f_finite :: "f32 \<Rightarrow> bool" where
  "f_finite (FFin s m) = True"
| "f_finite _ = False"

text \<open>Well-formed values: the magnitude of a finite value is representable.\<close>

fun f_wf :: "f32 \<Rightarrow> bool" where
  "f_wf (FFin s m) = (f_repr m \<and> m \<le> f_max)"
| "f_wf _ = True"

fun f_neg :: "f32 \<Rightarrow> f32" where
  "f_neg (FFin s m) = FFin (\<not> s) m"
| "f_neg (FInf s) = FInf (\<not> s)"
| "f_neg FNaN = FNaN"

fun f_abs :: "f32 \<Rightarrow> f32" where
  "f_abs (FFin s m) = FFin False m"
| "f_abs (FInf s) = FInf False"
| "f_abs FNaN = FNaN"

text \<open>A sum that is exactly zero is \<open>+0\<close> unless both operands are negative zeros.\<close>

fun f_add :: "f32 \<Rightarrow> f32 \<Rightarrow> f32" where
  "f_add (FFin s a) (FFin t b) =
     (let v = f_val (FFin s a) + f_val (FFin t b)
      in if v = 0 then FFin (s \<and> t) 0 else mk_f32 (v < 0) \<bar>v\<bar>)"
| "f_add (FInf s) (FInf t) = (if s = t then FInf s else FNaN)"
| "f_add (FInf s) (FFin t b) = FInf s"
| "f_add (FFin s a) (FInf t) = FInf t"
| "f_add _ _ = FNaN"

definition f_sub :: "f32 \<Rightarrow> f32 \<Rightarrow> f32" where
  "f_sub x y = f_add x (f_neg y)"

fun f_mul :: "f32 \<Rightarrow> f32 \<Rightarrow> f32" where
  "f_mul (FFin s a) (FFin t b) = mk_f32 (s \<noteq> t) (a * b)"
| "f_mul (FInf s) (FInf t) = FInf (s \<noteq> t)"
| "f_mul (FInf s) (FFin t b) = (if b = 0 then FNaN else FInf (s \<noteq> t))"
| "f_mul (FFin s a) (FInf t) = (if a = 0 then FNaN else FInf (s \<noteq> t))"
| "f_mul _ _ = FNaN"

fun f_div :: "f32 \<Rightarrow> f32 \<Rightarrow> f32" where
  "f_div (FFin s a) (FFin t b) =
     (if b = 0 then (if a = 0 then FNaN else FInf (s \<noteq> t)) else mk_f32 (s \<noteq> t) (a / b))"
| "f_div (FInf s) (FFin t b) = FInf (s \<noteq> t)"
| "f_div (FFin s a) (FInf t) = FFin (s \<noteq> t) 0"
| "f_div _ _ = FNaN"

text \<open>Comparisons: every comparison with a NaN is false.\<close>

fun f_lt :: "f32 \<Rightarrow> f32 \<Rightarrow> bool" where
  "f_lt (FFin s a) (FFin t b) = (f_val (FFin s a) < f_val (FFin t b))"
| "f_lt (FInf s) (FInf t) = (s \<and> \<not> t)"
| "f_lt (FInf s) (FFin t b) = s"
| "f_lt (FFin s a) (FInf t) = (\<not> t)"
| "f_lt _ _ = False"

fun f_eq :: "f32 \<Rightarrow> f32 \<Rightarrow> bool" where
  "f_eq (FFin s a) (FFin t b) = (f_val (FFin s a) = f_val (FFin t b))"
| "f_eq (FInf s) (FInf t) = (s = t)"
| "f_eq _ _ = False"

definition f_le :: "f32 \<Rightarrow> f32 \<Rightarrow> bool" where
  "f_le x y = (f_lt x y \<or> f_eq x y)"

text \<open>The \<open>min\<close> and \<open>max\<close> macros of nuts\_bolts.h, which are not symmetric on NaN.\<close>

definition f_min :: "f32 \<Rightarrow> f32 \<Rightarrow> f32" where
  "f_min a b = (if f_lt a b then a else b)"

definition f_maxm :: "f32 \<Rightarrow> f32 \<Rightarrow> f32" where
  "f_maxm a b = (if f_lt b a then a else b)"

text \<open>
  Square root, correctly rounded: \<open>isqrt\<close> is the integer square root, applied to the
  magnitude scaled so that the root has 24 bits.
\<close>

function isqrt :: "int \<Rightarrow> int" where
  "isqrt n = (if n \<le> 0 then 0
     else let s = 2 * isqrt (n div 4) in if (s + 1) * (s + 1) \<le> n then s + 1 else s)"
  by pat_completeness auto
termination by (relation "measure nat") auto
declare isqrt.simps [simp del]

definition sqrt_mag :: "rat \<Rightarrow> rat" where
  "sqrt_mag r =
     (let k = flog2 r div 2 - 23; y = r / pow2 (2 * k); f = isqrt \<lfloor>y\<rfloor>;
          h = of_int (f * f + f) + 1/4;
          n = (if h < y then f + 1 else if y < h then f else if even f then f else f + 1)
      in of_int n * pow2 k)"

fun f_sqrt :: "f32 \<Rightarrow> f32" where
  "f_sqrt (FFin s a) = (if a = 0 then FFin s 0 else if s then FNaN else FFin False (sqrt_mag a))"
| "f_sqrt (FInf s) = (if s then FNaN else FInf False)"
| "f_sqrt FNaN = FNaN"

text \<open>Rounding to integral values, and conversion to integers (towards zero).\<close>

fun f_trunc :: "f32 \<Rightarrow> f32" where
  "f_trunc (FFin s a) = FFin s (of_int \<lfloor>a\<rfloor>)"
| "f_trunc x = x"

fun f_floor :: "f32 \<Rightarrow> f32" where
  "f_floor (FFin s a) = FFin s (of_int (if s then \<lceil>a\<rceil> else \<lfloor>a\<rfloor>))"
| "f_floor x = x"

fun f_ceil :: "f32 \<Rightarrow> f32" where
  "f_ceil (FFin s a) = FFin s (of_int (if s then \<lfloor>a\<rfloor> else \<lceil>a\<rceil>))"
| "f_ceil x = x"

fun f_to_int :: "f32 \<Rightarrow> int" where
  "f_to_int (FFin s a) = (if s then - \<lfloor>a\<rfloor> else \<lfloor>a\<rfloor>)"
| "f_to_int x = 0"

text \<open>\<open>lround\<close>: to the nearest integer, ties away from zero.\<close>

fun f_lround :: "f32 \<Rightarrow> int" where
  "f_lround (FFin s a) = (if s then - \<lfloor>a + 1/2\<rfloor> else \<lfloor>a + 1/2\<rfloor>)"
| "f_lround x = 0"

section \<open>Properties of the operations\<close>

lemma f_max_pos [simp]: "0 < f_max" "0 \<le> f_max" "\<not> f_max < 0"
  by (simp_all add: f_max_def)

lemma f_reprD: "f_repr r \<Longrightarrow> 0 \<le> r"
  by (auto simp: f_repr_def)

lemma f_wf_mk [simp]: "0 \<le> r \<Longrightarrow> f_wf (mk_f32 s r)"
  by (simp add: mk_f32_def f_repr_rnd_mag Let_def not_less)

lemma mk_f32_repr: "f_repr r \<Longrightarrow> r \<le> f_max \<Longrightarrow> mk_f32 s r = FFin s r"
  by (simp add: mk_f32_def rnd_mag_repr)

lemma f_repr_int: "0 \<le> n \<Longrightarrow> n \<le> 2 ^ 24 \<Longrightarrow> f_repr (of_int n)"
proof -
  assume n: "0 \<le> n" "n \<le> 2 ^ 24"
  show ?thesis
  proof (cases "n = 2 ^ 24")
    case True
    then show ?thesis using f_reprI [of 1 24] by (simp add: pow2_def)
  next
    case False
    with n show ?thesis using f_reprI [of n 0] by (simp add: pow2_def)
  qed
qed

lemma int_le_f_max: "n \<le> 2 ^ 24 \<Longrightarrow> of_int n \<le> f_max"
proof -
  assume "n \<le> 2 ^ 24"
  then have "(of_int n :: rat) \<le> of_int (2 ^ 24)" by (simp only: of_int_le_iff)
  also have "\<dots> \<le> f_max" by (simp add: f_max_def)
  finally show ?thesis .
qed

text \<open>Integers of at most 24 bits are floats.\<close>

lemma f_of_int_exact: "\<bar>n\<bar> \<le> 2 ^ 24 \<Longrightarrow> f_of_int n = FFin (n < 0) (of_int \<bar>n\<bar>)"
  using f_repr_int [of "\<bar>n\<bar>"] int_le_f_max [of "\<bar>n\<bar>"]
  by (simp add: f_of_int_def f_of_rat_def mk_f32_repr del: of_int_abs flip: of_int_abs)

lemma f_of_int_0 [simp]: "f_of_int 0 = f_zero"
  by (simp add: f_of_int_exact)

lemma f_wf_of_rat [simp]: "f_wf (f_of_rat r)"
  by (simp add: f_of_rat_def)

lemma f_wf_of_int [simp]: "f_wf (f_of_int n)"
  by (simp add: f_of_int_def)

lemma f_wf_neg [simp]: "f_wf (f_neg x) = f_wf x"
  by (cases x) auto

lemma f_wf_abs [simp]: "f_wf (f_abs x) = f_wf x"
  by (cases x) auto

lemma f_wf_zero [simp]: "f_wf (FFin s 0)"
  by (simp add: f_repr_def)

lemma f_wf_add [simp]: "f_wf (f_add x y)"
  by (induction x y rule: f_add.induct) (auto simp: Let_def f_repr_def)

lemma f_wf_sub [simp]: "f_wf (f_sub x y)"
  by (simp add: f_sub_def)

lemma f_repr_0 [simp]: "f_repr 0"
  by (simp add: f_repr_def)

lemma f_wf_mk_mul: "f_repr a \<Longrightarrow> f_repr b \<Longrightarrow> f_wf (mk_f32 s (a * b))"
  by (simp add: f_reprD)

lemma f_wf_mul [simp]: "f_wf x \<Longrightarrow> f_wf y \<Longrightarrow> f_wf (f_mul x y)"
  by (induction x y rule: f_mul.induct) (auto simp: f_wf_mk_mul)

lemma f_wf_div [simp]: "f_wf x \<Longrightarrow> f_wf y \<Longrightarrow> f_wf (f_div x y)"
  by (induction x y rule: f_div.induct) (auto simp: f_repr_0 dest!: f_reprD)

lemma f_lt_irrefl [simp]: "\<not> f_lt x x"
  by (cases x) auto

lemma f_lt_trans: "f_lt x y \<Longrightarrow> f_lt y z \<Longrightarrow> f_lt x z"
  by (cases x; cases y; cases z) (auto split: if_splits)

lemma f_not_lt_le: "x \<noteq> FNaN \<Longrightarrow> y \<noteq> FNaN \<Longrightarrow> \<not> f_lt x y \<longleftrightarrow> f_le y x"
  by (cases x; cases y) (auto simp: f_le_def split: if_splits)

lemma f_le_refl: "x \<noteq> FNaN \<Longrightarrow> f_le x x"
  by (cases x) (auto simp: f_le_def)

lemma f_le_trans: "f_le x y \<Longrightarrow> f_le y z \<Longrightarrow> f_le x z"
  by (cases x; cases y; cases z) (auto simp: f_le_def split: if_splits)

lemma f_min_le1: "a \<noteq> FNaN \<Longrightarrow> b \<noteq> FNaN \<Longrightarrow> f_le (f_min a b) a"
  by (auto simp: f_min_def f_le_refl f_not_lt_le)

lemma f_min_le2: "a \<noteq> FNaN \<Longrightarrow> b \<noteq> FNaN \<Longrightarrow> f_le (f_min a b) b"
  by (auto simp: f_min_def f_le_refl) (simp add: f_le_def)

lemma f_min_not_nan [simp]: "a \<noteq> FNaN \<Longrightarrow> b \<noteq> FNaN \<Longrightarrow> f_min a b \<noteq> FNaN"
  by (simp add: f_min_def)

lemma f_lt_not_nan: "f_lt x y \<Longrightarrow> x \<noteq> FNaN \<and> y \<noteq> FNaN"
  by (cases x; cases y) auto

end
