(* ===== verification/Nuts_Bolts.thy ===== *)
theory Nuts_Bolts
  imports Float32
begin

text \<open>
  nuts\_bolts.c: reading a number from a line, the delay loops, and the small vector
  functions of the planner. A line is the list of its characters before the terminating zero
  byte; \<open>char_at\<close> reads the zero at and beyond the end. Vectors of \<open>N_AXIS\<close> floats are lists
  of that length. The delay functions return the sequence of busy waits they make.
\<close>

section \<open>Characters and vectors\<close>

definition N_AXIS :: nat where [grbl_const]: "N_AXIS = 3"
definition X_AXIS :: nat where [grbl_const]: "X_AXIS = 0"
definition Y_AXIS :: nat where [grbl_const]: "Y_AXIS = 1"
definition Z_AXIS :: nat where [grbl_const]: "Z_AXIS = 2"

type_synonym vec = "f32 list"

definition NUL :: char where "NUL = CHR 0x00"

definition char_at :: "string \<Rightarrow> nat \<Rightarrow> char" where
  "char_at line i = (if i < length line then line ! i else NUL)"

section \<open>read_float\<close>

definition MAX_INT_DIGITS :: u8 where [grbl_const]: "MAX_INT_DIGITS = 8"

text \<open>The \<open>unsigned char\<close> \<open>c - '0'\<close>, which wraps below the digit zero.\<close>

definition digit_of :: "char \<Rightarrow> u8" where
  "digit_of c = of_nat (of_char c) - 48"

text \<open>
  The digit loop: \<open>intval\<close> collects at most eight digits, \<open>exp\<close> (an \<open>int8_t\<close>) tracks the
  decimal point, and the loop stops before the first character that does not continue the
  number. The rest of the line is returned with the counters.
\<close>

fun read_digits :: "string \<Rightarrow> u32 \<Rightarrow> u8 \<Rightarrow> u8 \<Rightarrow> bool \<Rightarrow> u32 \<times> u8 \<times> u8 \<times> string" where
  "read_digits [] intval expo ndigit isdecimal = (intval, expo, ndigit, [])"
| "read_digits (c # cs) intval expo ndigit isdecimal =
     (let d = digit_of c in
      if d \<le> 9 then
        (let ndigit = ndigit + 1 in
         if ndigit \<le> MAX_INT_DIGITS
         then read_digits cs (push_bit 1 (push_bit 2 intval + intval) + ucast d)
                (if isdecimal then expo - 1 else expo) ndigit isdecimal
         else read_digits cs intval (if isdecimal then expo else expo + 1) ndigit isdecimal)
      else if d = (digit_of CHR ''.'') AND 0xff \<and> \<not> isdecimal
      then read_digits cs intval expo ndigit True
      else (intval, expo, ndigit, c # cs))"

text \<open>The scaling by powers of ten; constants are rounded to the 32-bit format.\<close>

function scale_down :: "f32 \<Rightarrow> int \<Rightarrow> f32 \<times> int" where
  "scale_down fval expo =
     (if expo \<le> - 2 then scale_down (f_mul fval (f_of_rat (1/100))) (expo + 2) else (fval, expo))"
  by pat_completeness auto
termination by (relation "measure (\<lambda>(f, e). nat (- e))") auto

declare scale_down.simps [simp del]

fun scale_up :: "f32 \<Rightarrow> nat \<Rightarrow> f32" where
  "scale_up fval 0 = fval"
| "scale_up fval (Suc n) = scale_up (f_mul fval (f_of_rat 10)) n"

definition apply_decimal :: "f32 \<Rightarrow> int \<Rightarrow> f32" where
  "apply_decimal fval expo =
     (if \<not> f_eq fval f_zero then
        (let (fval, expo) = scale_down fval expo in
         if expo < 0 then f_mul fval (f_of_rat (1/10))
         else if 0 < expo then scale_up fval (nat expo) else fval)
      else fval)"

definition read_float :: "string \<Rightarrow> u8 \<Rightarrow> (f32 \<times> u8) option" where
  "read_float line char_counter =
     (let ptr = drop (unat char_counter) line;
          (isnegative, ptr) = (case ptr of
             [] \<Rightarrow> (False, [])
           | c # cs \<Rightarrow> if c = CHR ''-'' then (True, cs)
                      else if c = CHR ''+'' then (False, cs) else (False, ptr));
          (intval, expo, ndigit, rest) = read_digits ptr 0 0 0 False
      in if ndigit = 0 then None
         else (let fval = apply_decimal (f_of_int (uint intval)) (sint expo)
               in Some (if isnegative then f_neg fval else fval,
                        of_nat (length line - length rest))))"

section \<open>Delays\<close>

text \<open>The busy waits, in microseconds, of \<open>delay_ms\<close> and \<open>delay_us\<close>.\<close>

definition delay_ms :: "u16 \<Rightarrow> nat list" where
  "delay_ms ms = replicate (unat ms) 1000"

function delay_us_loop :: "nat \<Rightarrow> nat list" where
  "delay_us_loop us =
     (if us = 0 then []
      else if us < 10 then 1 # delay_us_loop (us - 1)
      else if us < 100 then 10 # delay_us_loop (us - 10)
      else if us < 1000 then 100 # delay_us_loop (us - 100)
      else 1000 # delay_us_loop (us - 1000))"
  by pat_completeness auto
termination by (relation "measure id") auto

declare delay_us_loop.simps [simp del]

definition delay_us :: "u32 \<Rightarrow> nat list" where
  "delay_us us = delay_us_loop (unat us)"

section \<open>Vector functions\<close>

definition SOME_LARGE_VALUE :: f32 where "SOME_LARGE_VALUE = f_of_rat (10 ^ 38)"

definition hypot_f :: "f32 \<Rightarrow> f32 \<Rightarrow> f32" where
  "hypot_f x y = f_sqrt (f_add (f_mul x x) (f_mul y y))"

fun sum_squares :: "f32 \<Rightarrow> vec \<Rightarrow> f32" where
  "sum_squares magnitude [] = magnitude"
| "sum_squares magnitude (v # vs) =
     sum_squares (if \<not> f_eq v f_zero then f_add magnitude (f_mul v v) else magnitude) vs"

text \<open>Returns the magnitude and the vector, which the source scales in place.\<close>

definition convert_delta_vector_to_unit_vector :: "vec \<Rightarrow> f32 \<times> vec" where
  "convert_delta_vector_to_unit_vector vector =
     (let magnitude = f_sqrt (sum_squares f_zero vector);
          inv_magnitude = f_div (f_of_rat 1) magnitude
      in (magnitude, map (\<lambda>v. f_mul v inv_magnitude) vector))"

fun limit_loop :: "f32 \<Rightarrow> vec \<Rightarrow> vec \<Rightarrow> f32" where
  "limit_loop limit_value (m # ms) (u # us) =
     limit_loop (if \<not> f_eq u f_zero then f_min limit_value (f_abs (f_div m u)) else limit_value) ms us"
| "limit_loop limit_value _ _ = limit_value"

definition limit_value_by_axis_maximum :: "vec \<Rightarrow> vec \<Rightarrow> f32" where
  "limit_value_by_axis_maximum max_value unit_vec = limit_loop SOME_LARGE_VALUE max_value unit_vec"

section \<open>Properties of read_float\<close>

lemma read_digits_rest:
  "read_digits cs i e n d = (i', e', n', rest) \<Longrightarrow> \<exists>pre. cs = pre @ rest"
  by (induction cs i e n d rule: read_digits.induct) (fastforce simp: Let_def split: if_splits)+

lemma read_digits_shrinks:
  "read_digits cs i e n d = (i', e', n', rest) \<Longrightarrow> n' \<noteq> n \<Longrightarrow> length rest < length cs"
proof (induction cs i e n d rule: read_digits.induct)
  case (2 c cs i e n d)
  have "length rest \<le> length cs" if "read_digits cs x y z w = (i', e', n', rest)" for x y z w
    using read_digits_rest [OF that] by auto
  with 2 show ?case by (fastforce simp: Let_def split: if_splits)
qed simp

lemma read_float_moves:
  assumes "read_float line cc = Some (f, cc')" and "length line < 256"
  shows "unat cc < unat cc' \<and> unat cc' \<le> length line"
proof -
  define ptr where "ptr = drop (unat cc) line"
  define sp where "sp = (case ptr of [] \<Rightarrow> (False, [])
           | c # cs \<Rightarrow> if c = CHR ''-'' then (True, cs)
                      else if c = CHR ''+'' then (False, cs) else (False, ptr))"
  obtain i e n rest where r: "read_digits (snd sp) 0 0 0 False = (i, e, n, rest)"
    by (metis prod_cases4)
  have n: "n \<noteq> 0" and cc': "cc' = of_nat (length line - length rest)"
    using assms(1) r unfolding read_float_def Let_def ptr_def [symmetric] sp_def [symmetric]
    by (auto simp: split_beta split: if_splits)
  have "length rest < length (snd sp)" using read_digits_shrinks [OF r n] .
  moreover have "length (snd sp) \<le> length ptr" by (auto simp: sp_def split: list.splits)
  ultimately have l: "length rest < length line - unat cc" by (simp add: ptr_def)
  moreover have "unat cc' = length line - length rest"
    using cc' assms(2) by (simp add: unat_of_nat)
  ultimately show ?thesis by linarith
qed

text \<open>
  Reading a number always makes progress and stays inside the line: when \<open>read_float\<close>
  succeeds, the character counter has moved forward, to at most the end of the line. The
  word loops of the parsers terminate because of this.
\<close>

theorem read_float_progress:
  assumes "read_float line cc = Some (f, cc')" and "length line < 256"
  shows "unat cc < unat cc' \<and> unat cc' \<le> length line"
  using assms by (rule read_float_moves)

theorem read_float_progress_witness:
  "unat (1 :: u8) < unat (3 :: u8) \<and> unat (3 :: u8) \<le> length ''X20''"
  by (rule read_float_progress [where f = "f_of_int 20"])
     (simp_all add: read_float_def digit_of_def grbl_const apply_decimal_def f_of_int_exact
        scale_down.simps)

subsection \<open>Decimal numerals\<close>

fun dec_value :: "nat \<Rightarrow> nat list \<Rightarrow> nat" where
  "dec_value a [] = a"
| "dec_value a (d # ds) = dec_value (10 * a + d) ds"

definition digit_char :: "nat \<Rightarrow> char" where
  "digit_char d = char_of (48 + d)"

lemma digit_of_digit_char: "d < 10 \<Longrightarrow> digit_of (digit_char d) = of_nat d"
  by (simp add: digit_of_def digit_char_def)

lemma dec_value_bound: "\<forall>d \<in> set ds. d < 10 \<Longrightarrow> dec_value a ds < (a + 1) * 10 ^ length ds"
proof (induction ds arbitrary: a)
  case (Cons d ds)
  then have "dec_value (10 * a + d) ds < (10 * a + d + 1) * 10 ^ length ds" by simp
  also have "\<dots> \<le> (10 * a + 10) * 10 ^ length ds" using Cons.prems by (intro mult_right_mono) auto
  finally show ?case by (simp add: algebra_simps)
qed simp

definition stops_number :: "string \<Rightarrow> bool" where
  "stops_number rest = (rest = [] \<or> \<not> digit_of (hd rest) \<le> 9 \<and> hd rest \<noteq> CHR ''.'')"

lemma digit_of_inj: "digit_of c = digit_of d \<longleftrightarrow> c = d"
proof
  assume "digit_of c = digit_of d"
  then have "(of_nat (of_char c) :: u8) = of_nat (of_char d)" by (simp add: digit_of_def)
  then have "(of_char c :: nat) mod 256 = of_char d mod 256"
    by (simp add: word_of_nat_eq_iff take_bit_eq_mod)
  then show "c = d" by (simp add: of_char_mod_256)
qed simp

end
