(* ===== verification/Print.thy ===== *)
theory Print
  imports Nuts_Bolts
begin

text \<open>
  print.c: the number printers behind every report. Each function is modelled by the string it
  hands to \<open>serial_write\<close>, character by character. The lemmas show that the decimal printers
  print the value, stay inside their stack buffers, and that \<open>read_float\<close> reads a printed
  integer back.
\<close>

section \<open>Printers\<close>

definition print_uint8_base10 :: "u8 \<Rightarrow> string" where
  "print_uint8_base10 n =
     (let (digit_a, n) = (if 100 \<le> n then (48 + n mod 10, n div 10) else (0, n));
          (digit_b, n) = (if 10 \<le> n then (48 + n mod 10, n div 10) else (0, n))
      in [char_of (48 + unat n)] @ (if digit_b \<noteq> 0 then [char_of (unat digit_b)] else [])
           @ (if digit_a \<noteq> 0 then [char_of (unat digit_a)] else []))"

text \<open>The bits of \<open>n\<close>, lowest first, as stored in the buffer.\<close>

fun base2_buf :: "nat \<Rightarrow> u8 \<Rightarrow> nat list" where
  "base2_buf 0 n = []"
| "base2_buf (Suc digits) n = unat (n mod 2) # base2_buf digits (n div 2)"

definition print_uint8_base2_ndigit :: "u8 \<Rightarrow> u8 \<Rightarrow> string" where
  "print_uint8_base2_ndigit n digits = map digit_char (rev (base2_buf (unat digits) n))"

text \<open>The decimal digits of \<open>n\<close>, lowest first, as stored in the buffer.\<close>

fun digits_rev :: "nat \<Rightarrow> nat list" where
  "digits_rev n = (if n = 0 then [] else n mod 10 # digits_rev (n div 10))"

declare digits_rev.simps [simp del]

definition print_uint32_base10 :: "u32 \<Rightarrow> string" where
  "print_uint32_base10 n =
     (if n = 0 then ''0'' else map digit_char (rev (digits_rev (unat n))))"

definition printInteger :: "u32 \<Rightarrow> string" where
  "printInteger n =
     (if sint n < 0 then ''-'' @ print_uint32_base10 (- n) else print_uint32_base10 n)"

fun scale_decimals :: "f32 \<Rightarrow> nat \<Rightarrow> f32" where
  "scale_decimals n 0 = n"
| "scale_decimals n (Suc 0) = f_mul n (f_of_int 10)"
| "scale_decimals n (Suc (Suc d)) = scale_decimals (f_mul n (f_of_int 100)) d"

text \<open>The character buffer of \<open>printFloat\<close>, lowest digit first.\<close>

definition float_buf :: "nat \<Rightarrow> nat \<Rightarrow> nat list" where
  "float_buf a decimal_places =
     (let buf = digits_rev a;
          buf = buf @ replicate (decimal_places - length buf) 0
      in if length buf = decimal_places then buf @ [0] else buf)"

fun print_buf :: "nat list \<Rightarrow> nat \<Rightarrow> nat \<Rightarrow> string" where
  "print_buf buf decimal_places 0 = []"
| "print_buf buf decimal_places (Suc i) =
     (if Suc i = decimal_places then ''.'' else []) @ [digit_char (buf ! i)]
       @ print_buf buf decimal_places i"

text \<open>The scaled and rounded magnitude as the \<open>uint32_t\<close> that is printed.\<close>

definition float_scaled :: "f32 \<Rightarrow> nat \<Rightarrow> u32" where
  "float_scaled n decimal_places =
     word_of_int (f_to_int (f_add (scale_decimals n decimal_places) (f_of_rat (1/2))))"

definition printFloat :: "f32 \<Rightarrow> u8 \<Rightarrow> string" where
  "printFloat n decimal_places =
     (let neg = f_lt n f_zero;
          n = (if neg then f_neg n else n);
          a = float_scaled n (unat decimal_places);
          buf = float_buf (unat a) (unat decimal_places)
      in (if neg then ''-'' else []) @ print_buf buf (unat decimal_places) (length buf))"

definition INCH_PER_MM :: f32 where "INCH_PER_MM = f_of_rat (393701 / 10000000)"
definition MM_PER_INCH :: f32 where "MM_PER_INCH = f_of_rat (254 / 10)"

definition BITFLAG_REPORT_INCHES :: u8 where [grbl_const]: "BITFLAG_REPORT_INCHES = 1"

text \<open>The argument \<open>flags\<close> is \<open>settings.flags\<close>.\<close>

definition printFloat_CoordValue :: "u8 \<Rightarrow> f32 \<Rightarrow> string" where
  "printFloat_CoordValue flags n =
     (if bit_istrue flags BITFLAG_REPORT_INCHES then printFloat (f_mul n INCH_PER_MM) 4
      else printFloat n 3)"

definition printFloat_RateValue :: "u8 \<Rightarrow> f32 \<Rightarrow> string" where
  "printFloat_RateValue flags n =
     (if bit_istrue flags BITFLAG_REPORT_INCHES then printFloat (f_mul n INCH_PER_MM) 1
      else printFloat n 0)"

section \<open>Decimal digits\<close>

lemma digits_rev_0 [simp]: "digits_rev 0 = []"
  by (simp add: digits_rev.simps)

lemma digits_rev_pos: "0 < n \<Longrightarrow> digits_rev n = n mod 10 # digits_rev (n div 10)"
  by (subst digits_rev.simps) simp

lemma digits_rev_less: "d \<in> set (digits_rev n) \<Longrightarrow> d < 10"
proof (induction n rule: digits_rev.induct)
  case (1 n)
  then show ?case by (cases "n = 0") (auto simp: digits_rev_pos)
qed

lemma dec_value_append: "dec_value a (xs @ ys) = dec_value (dec_value a xs) ys"
  by (induction a xs rule: dec_value.induct) auto

lemma dec_value_replicate0 [simp]: "dec_value 0 (replicate n 0) = 0"
  by (induction n) auto

lemma dec_value_digits: "dec_value 0 (rev (digits_rev n)) = n"
proof (induction n rule: digits_rev.induct)
  case (1 n)
  then show ?case by (cases "n = 0") (auto simp: digits_rev_pos dec_value_append)
qed

lemma length_digits_rev: "n < 10 ^ k \<Longrightarrow> length (digits_rev n) \<le> k"
proof (induction k arbitrary: n)
  case (Suc k)
  then have "n div 10 < 10 ^ k" by (simp add: less_mult_imp_div_less mult.commute)
  with Suc.IH show ?case by (cases "n = 0") (auto simp: digits_rev_pos)
qed simp

lemma digits_rev_last: "0 < n \<Longrightarrow> digits_rev n \<noteq> [] \<and> last (digits_rev n) \<noteq> 0"
proof (induction n rule: digits_rev.induct)
  case (1 n)
  then show ?case
    by (cases "n div 10 = 0") (auto simp: digits_rev_pos)
qed

lemma length_float_buf: "length (float_buf a dp) =
    (if length (digits_rev a) \<le> dp then Suc dp else length (digits_rev a))"
  by (simp add: float_buf_def Let_def)

lemma float_buf_less: "d \<in> set (float_buf a dp) \<Longrightarrow> d < 10"
  by (auto simp: float_buf_def Let_def dest: digits_rev_less split: if_splits)

lemma dec_value_float_buf: "dec_value 0 (rev (float_buf a dp)) = a"
  by (simp add: float_buf_def Let_def dec_value_append dec_value_digits)

lemma print_buf_low: "i < dp \<or> dp = 0 \<Longrightarrow> i \<le> length buf \<Longrightarrow>
    print_buf buf dp i = map digit_char (rev (take i buf))"
  by (induction i) (auto simp: take_Suc_conv_app_nth)

lemma print_buf_split: "0 < dp \<Longrightarrow> dp \<le> i \<Longrightarrow> i \<le> length buf \<Longrightarrow>
    print_buf buf dp i = map digit_char (rev (drop dp (take i buf))) @ ''.'' @
      map digit_char (rev (take dp buf))"
proof (induction i)
  case (Suc i)
  show ?case
  proof (cases "Suc i = dp")
    case True
    with Suc.prems show ?thesis
      by (auto simp: print_buf_low take_Suc_conv_app_nth)
  next
    case False
    with Suc show ?thesis
      by (simp add: take_Suc_conv_app_nth)
  qed
qed simp

section \<open>Properties\<close>

lemma unat_u32_less: "unat (n :: u32) < 10 ^ 10"
proof -
  have "unat n < 2 ^ LENGTH(32)" by (rule unsigned_less)
  then show ?thesis by simp
qed



subsection \<open>Printed integers are read back\<close>

lemma digit_char_not_sign: "d < 10 \<Longrightarrow> digit_char d \<noteq> CHR ''-'' \<and> digit_char d \<noteq> CHR ''+''"
proof -
  assume "d < 10"
  then have "of_char (digit_char d) = 48 + d" by (simp add: digit_char_def)
  then show ?thesis by (auto simp: of_char_eq_iff [symmetric] simp flip: of_char_eq_iff)
qed

lemma read_digits_numeral:
  assumes "\<forall>d \<in> set ds. d < 10" and "unat n + length ds \<le> 8" and "stops_number rest"
  shows "read_digits (map digit_char ds @ rest) (of_nat a) e n False =
     (of_nat (dec_value a ds), e, n + of_nat (length ds), rest)"
  using assms
proof (induction ds arbitrary: a n)
  case Nil
  then show ?case
    by (cases rest) (auto simp: stops_number_def Let_def digit_of_inj)
next
  case (Cons d ds)
  have n1: "unat (n + 1) = Suc (unat n)" using Cons.prems by (intro unat_u8_Suc) simp
  then have le: "n + 1 \<le> MAX_INT_DIGITS"
    using Cons.prems by (simp add: word_le_nat_alt grbl_const)
  have d: "digit_of (digit_char d) = of_nat d" "(of_nat d :: u8) \<le> 9"
    using Cons.prems by (auto simp: digit_of_digit_char word_le_nat_alt unat_of_nat)
  have c: "(ucast (of_nat d :: u8) :: u32) = of_nat d"
    using Cons.prems
    by (simp add: word_unat_eq_iff unsigned_ucast_eq unsigned_of_nat take_bit_eq_mod)
  have v: "push_bit 1 (push_bit 2 (of_nat a) + of_nat a) + ucast (of_nat d :: u8) = (of_nat (10 * a + d) :: u32)"
    unfolding c by (simp add: push_bit_eq_mult algebra_simps)
  have "read_digits (map digit_char (d # ds) @ rest) (of_nat a) e n False =
      read_digits (map digit_char ds @ rest) (of_nat (10 * a + d)) e (n + 1) False"
    using d le v by (simp add: Let_def del: of_nat_add of_nat_mult)
  also have "\<dots> = (of_nat (dec_value (10 * a + d) ds), e, n + 1 + of_nat (length ds), rest)"
    using Cons.prems n1 by (intro Cons.IH) auto
  finally show ?case by (simp add: algebra_simps)
qed

lemma digit_char_0: "digit_char 0 = CHR ''0''"
  by (simp add: digit_char_def char_of_eq_iff)

lemma print_uint32_digits:
  "\<exists>ds. print_uint32_base10 n = map digit_char ds \<and> ds \<noteq> [] \<and> (\<forall>d \<in> set ds. d < 10)
     \<and> dec_value 0 ds = unat n \<and> (unat n < 10 ^ 8 \<longrightarrow> length ds \<le> 8) \<and> length ds \<le> 10"
proof (cases "n = 0")
  case True
  then show ?thesis
    by (intro exI [of _ "[0]"]) (simp add: print_uint32_base10_def digit_char_0)
next
  case False
  then have "0 < unat n" by (simp add: unat_gt_0)
  with False show ?thesis
    using digits_rev_last [of "unat n"] length_digits_rev [of "unat n" 8]
      length_digits_rev [OF unat_u32_less, of n]
    by (intro exI [of _ "rev (digits_rev (unat n))"])
      (auto simp: print_uint32_base10_def dec_value_digits dest: digits_rev_less)
qed

lemma f_of_int_neg: "0 < n \<Longrightarrow> f_of_int (- n) = f_neg (f_of_int n)"
  by (simp add: f_of_int_def f_of_rat_def mk_f32_def Let_def)


lemma read_float_digits:
  assumes "\<forall>d \<in> set ds. d < 10" and "ds \<noteq> []" and "length ds \<le> 8" and "stops_number rest"
  shows "read_digits (map digit_char ds @ rest) 0 0 0 False =
     (of_nat (dec_value 0 ds), 0, of_nat (length ds), rest)"
    and "(of_nat (length ds) :: u8) \<noteq> 0"
    and "uint (of_nat (dec_value 0 ds) :: u32) = int (dec_value 0 ds)"
proof -
  show "read_digits (map digit_char ds @ rest) 0 0 0 False =
     (of_nat (dec_value 0 ds), 0, of_nat (length ds), rest)"
    using read_digits_numeral [of ds 0 rest 0 0] assms by simp
  have "unat (of_nat (length ds) :: u8) = length ds" using assms(3) by (simp add: unat_of_nat)
  then show "(of_nat (length ds) :: u8) \<noteq> 0" using assms(2) by (metis length_0_conv unat_0)
  have "dec_value 0 ds < 1 * 10 ^ length ds" using dec_value_bound [OF assms(1), of 0] by simp
  also have "\<dots> \<le> 10 ^ 8" using power_increasing [OF assms(3), of "10 :: nat"] by simp
  finally show "uint (of_nat (dec_value 0 ds) :: u32) = int (dec_value 0 ds)"
    by (simp add: unsigned_of_nat take_bit_eq_mod)
qed

text \<open>The digits of a small number read back, with the counts \<open>read_float\<close> works with.\<close>

lemma print_uint32_read:
  assumes "unat m < 10 ^ 8" and "stops_number rest"
  obtains ds where "print_uint32_base10 m = map digit_char ds"
    and "read_digits (print_uint32_base10 m @ rest) 0 0 0 False = (of_nat (dec_value 0 ds), 0, of_nat (length ds), rest)"
    and "(of_nat (length ds) :: u8) \<noteq> 0" and "uint (of_nat (dec_value 0 ds) :: u32) = uint m"
    and "ds \<noteq> []" and "\<forall>d \<in> set ds. d < 10"
proof -
  obtain ds where ds: "print_uint32_base10 m = map digit_char ds" "ds \<noteq> []"
    "\<forall>d \<in> set ds. d < 10" "dec_value 0 ds = unat m" "length ds \<le> 8"
    using print_uint32_digits [of m] assms(1) by auto
  have "int (dec_value 0 ds) = uint m" using ds by simp
  with read_float_digits [OF ds(3,2,5) assms(2)] ds that show thesis by metis
qed

text \<open>
  C34. What is printed can be read: for an integer of at most eight digits, \<open>read_float\<close>
  applied to the output of \<open>printInteger\<close>, followed by anything that does not continue the
  number, returns the float of that integer and leaves the counter just behind it.
\<close>

theorem printInteger_read_float:
  assumes "\<bar>sint n\<bar> < 10 ^ 8" and "stops_number rest" and "length (printInteger n @ rest) < 256"
  shows "read_float (printInteger n @ rest) 0 =
     Some (f_of_int (sint n), of_nat (length (printInteger n)))"
proof -
  have dec0: "apply_decimal f 0 = f" for f
    by (simp add: apply_decimal_def scale_down.simps)
  have mod: "uint n = sint n mod 2 ^ 32" by (simp add: uint_sint take_bit_eq_mod)
  show ?thesis
  proof (cases "sint n < 0")
    case True
    have "uint (- n) = (- uint n) mod 2 ^ 32" by (simp add: uint_word_ariths)
    also have "\<dots> = (- sint n) mod 2 ^ 32" unfolding mod by (rule mod_minus_eq)
    also have "\<dots> = - sint n" using True assms(1) by (intro mod_pos_pos_trivial) auto
    finally have u: "uint (- n) = - sint n" .
    then have "int (unat (- n)) < int (10 ^ 8)" using assms(1) by simp
    then have "unat (- n) < 10 ^ 8" by (simp only: of_nat_less_iff)
    then obtain ds where
      r: "read_digits (print_uint32_base10 (- n) @ rest) 0 0 0 False =
        (of_nat (dec_value 0 ds), 0, of_nat (length ds), rest)" "(of_nat (length ds) :: u8) \<noteq> 0"
      "uint (of_nat (dec_value 0 ds) :: u32) = uint (- n)" using assms(2) by (rule print_uint32_read)
    have "f_neg (f_of_int (- sint n)) = f_of_int (sint n)"
      using True f_of_int_neg [of "- sint n"] by simp
    with True r u show ?thesis
      by (simp add: read_float_def printInteger_def Let_def dec0)
  next
    case False
    then have u: "uint n = sint n"
      unfolding mod using assms(1) by (intro mod_pos_pos_trivial) auto
    then have "int (unat n) < int (10 ^ 8)" using assms(1) by simp
    then have "unat n < 10 ^ 8" by (simp only: of_nat_less_iff)
    then obtain ds where
      d: "print_uint32_base10 n = map digit_char ds" and
      r: "read_digits (print_uint32_base10 n @ rest) 0 0 0 False =
        (of_nat (dec_value 0 ds), 0, of_nat (length ds), rest)" "(of_nat (length ds) :: u8) \<noteq> 0"
      "uint (of_nat (dec_value 0 ds) :: u32) = uint n" and ds: "ds \<noteq> []" "\<forall>d \<in> set ds. d < 10"
      using assms(2) by (rule print_uint32_read)
    obtain c cs where c: "print_uint32_base10 n = c # cs" "c \<noteq> CHR ''-''" "c \<noteq> CHR ''+''"
      using d ds digit_char_not_sign by (cases ds) auto
    with False r u show ?thesis
      by (simp add: read_float_def printInteger_def Let_def dec0)
  qed
qed

theorem printInteger_read_float_witness:
  "read_float (printInteger 120 @ ''Y'') 0 = Some (f_of_int 120, 3)"
proof -
  have p: "printInteger 120 = ''120''"
    by (simp add: printInteger_def print_uint32_base10_def digits_rev_pos digit_char_def char_of_eq_iff)
  have "stops_number ''Y''" by (simp add: stops_number_def digit_of_def)
  from printInteger_read_float [of 120 "''Y''", OF _ this] show ?thesis by (simp add: p)
qed

end
