(* ===== verification/System_State.thy ===== *)
theory System_State
  imports Print
begin

text \<open>
  system.h and the small routines of system.c: the global \<open>sys\<close> structure, the realtime flag
  bytes that interrupts set and the main program clears, the control input pins, the CoreXY
  kinematics that turn motor steps into axis positions, and the travel limits.

  Positions in steps are integers: the code's \<open>int32_t\<close> arithmetic has no defined overflow.
\<close>

section \<open>Constants\<close>

text \<open>Realtime executor flags, alarm codes, override flags, states, suspend and step control.\<close>

definition EXEC_STATUS_REPORT :: u8 where [grbl_const]: "EXEC_STATUS_REPORT = 1"
definition EXEC_CYCLE_START :: u8 where [grbl_const]: "EXEC_CYCLE_START = 2"
definition EXEC_CYCLE_STOP :: u8 where [grbl_const]: "EXEC_CYCLE_STOP = 4"
definition EXEC_FEED_HOLD :: u8 where [grbl_const]: "EXEC_FEED_HOLD = 8"
definition EXEC_RESET :: u8 where [grbl_const]: "EXEC_RESET = 16"
definition EXEC_SAFETY_DOOR :: u8 where [grbl_const]: "EXEC_SAFETY_DOOR = 32"
definition EXEC_MOTION_CANCEL :: u8 where [grbl_const]: "EXEC_MOTION_CANCEL = 64"
definition EXEC_SLEEP :: u8 where [grbl_const]: "EXEC_SLEEP = 128"

definition EXEC_ALARM_HARD_LIMIT :: u8 where [grbl_const]: "EXEC_ALARM_HARD_LIMIT = 1"
definition EXEC_ALARM_SOFT_LIMIT :: u8 where [grbl_const]: "EXEC_ALARM_SOFT_LIMIT = 2"
definition EXEC_ALARM_ABORT_CYCLE :: u8 where [grbl_const]: "EXEC_ALARM_ABORT_CYCLE = 3"
definition EXEC_ALARM_PROBE_FAIL_INITIAL :: u8 where [grbl_const]: "EXEC_ALARM_PROBE_FAIL_INITIAL = 4"
definition EXEC_ALARM_PROBE_FAIL_CONTACT :: u8 where [grbl_const]: "EXEC_ALARM_PROBE_FAIL_CONTACT = 5"
definition EXEC_ALARM_HOMING_FAIL_RESET :: u8 where [grbl_const]: "EXEC_ALARM_HOMING_FAIL_RESET = 6"
definition EXEC_ALARM_HOMING_FAIL_DOOR :: u8 where [grbl_const]: "EXEC_ALARM_HOMING_FAIL_DOOR = 7"
definition EXEC_ALARM_HOMING_FAIL_PULLOFF :: u8 where [grbl_const]: "EXEC_ALARM_HOMING_FAIL_PULLOFF = 8"
definition EXEC_ALARM_HOMING_FAIL_APPROACH :: u8 where [grbl_const]: "EXEC_ALARM_HOMING_FAIL_APPROACH = 9"

definition EXEC_FEED_OVR_RESET :: u8 where [grbl_const]: "EXEC_FEED_OVR_RESET = 1"
definition EXEC_FEED_OVR_COARSE_PLUS :: u8 where [grbl_const]: "EXEC_FEED_OVR_COARSE_PLUS = 2"
definition EXEC_FEED_OVR_COARSE_MINUS :: u8 where [grbl_const]: "EXEC_FEED_OVR_COARSE_MINUS = 4"
definition EXEC_FEED_OVR_FINE_PLUS :: u8 where [grbl_const]: "EXEC_FEED_OVR_FINE_PLUS = 8"
definition EXEC_FEED_OVR_FINE_MINUS :: u8 where [grbl_const]: "EXEC_FEED_OVR_FINE_MINUS = 16"
definition EXEC_RAPID_OVR_RESET :: u8 where [grbl_const]: "EXEC_RAPID_OVR_RESET = 32"
definition EXEC_RAPID_OVR_MEDIUM :: u8 where [grbl_const]: "EXEC_RAPID_OVR_MEDIUM = 64"
definition EXEC_RAPID_OVR_LOW :: u8 where [grbl_const]: "EXEC_RAPID_OVR_LOW = 128"

definition EXEC_SPINDLE_OVR_RESET :: u8 where [grbl_const]: "EXEC_SPINDLE_OVR_RESET = 1"
definition EXEC_SPINDLE_OVR_COARSE_PLUS :: u8 where [grbl_const]: "EXEC_SPINDLE_OVR_COARSE_PLUS = 2"
definition EXEC_SPINDLE_OVR_COARSE_MINUS :: u8 where [grbl_const]: "EXEC_SPINDLE_OVR_COARSE_MINUS = 4"
definition EXEC_SPINDLE_OVR_FINE_PLUS :: u8 where [grbl_const]: "EXEC_SPINDLE_OVR_FINE_PLUS = 8"
definition EXEC_SPINDLE_OVR_FINE_MINUS :: u8 where [grbl_const]: "EXEC_SPINDLE_OVR_FINE_MINUS = 16"
definition EXEC_SPINDLE_OVR_STOP :: u8 where [grbl_const]: "EXEC_SPINDLE_OVR_STOP = 32"
definition EXEC_COOLANT_FLOOD_OVR_TOGGLE :: u8 where [grbl_const]: "EXEC_COOLANT_FLOOD_OVR_TOGGLE = 64"
definition EXEC_COOLANT_MIST_OVR_TOGGLE :: u8 where [grbl_const]: "EXEC_COOLANT_MIST_OVR_TOGGLE = 128"

definition STATE_IDLE :: u8 where [grbl_const]: "STATE_IDLE = 0"
definition STATE_ALARM :: u8 where [grbl_const]: "STATE_ALARM = 1"
definition STATE_CHECK_MODE :: u8 where [grbl_const]: "STATE_CHECK_MODE = 2"
definition STATE_HOMING :: u8 where [grbl_const]: "STATE_HOMING = 4"
definition STATE_CYCLE :: u8 where [grbl_const]: "STATE_CYCLE = 8"
definition STATE_HOLD :: u8 where [grbl_const]: "STATE_HOLD = 16"
definition STATE_JOG :: u8 where [grbl_const]: "STATE_JOG = 32"
definition STATE_SAFETY_DOOR :: u8 where [grbl_const]: "STATE_SAFETY_DOOR = 64"
definition STATE_SLEEP :: u8 where [grbl_const]: "STATE_SLEEP = 128"

definition SUSPEND_DISABLE :: u8 where [grbl_const]: "SUSPEND_DISABLE = 0"
definition SUSPEND_HOLD_COMPLETE :: u8 where [grbl_const]: "SUSPEND_HOLD_COMPLETE = 1"
definition SUSPEND_RESTART_RETRACT :: u8 where [grbl_const]: "SUSPEND_RESTART_RETRACT = 2"
definition SUSPEND_RETRACT_COMPLETE :: u8 where [grbl_const]: "SUSPEND_RETRACT_COMPLETE = 4"
definition SUSPEND_INITIATE_RESTORE :: u8 where [grbl_const]: "SUSPEND_INITIATE_RESTORE = 8"
definition SUSPEND_RESTORE_COMPLETE :: u8 where [grbl_const]: "SUSPEND_RESTORE_COMPLETE = 16"
definition SUSPEND_SAFETY_DOOR_AJAR :: u8 where [grbl_const]: "SUSPEND_SAFETY_DOOR_AJAR = 32"
definition SUSPEND_MOTION_CANCEL :: u8 where [grbl_const]: "SUSPEND_MOTION_CANCEL = 64"
definition SUSPEND_JOG_CANCEL :: u8 where [grbl_const]: "SUSPEND_JOG_CANCEL = 128"

definition STEP_CONTROL_NORMAL_OP :: u8 where [grbl_const]: "STEP_CONTROL_NORMAL_OP = 0"
definition STEP_CONTROL_END_MOTION :: u8 where [grbl_const]: "STEP_CONTROL_END_MOTION = 1"
definition STEP_CONTROL_EXECUTE_HOLD :: u8 where [grbl_const]: "STEP_CONTROL_EXECUTE_HOLD = 2"
definition STEP_CONTROL_EXECUTE_SYS_MOTION :: u8 where [grbl_const]: "STEP_CONTROL_EXECUTE_SYS_MOTION = 4"
definition STEP_CONTROL_UPDATE_SPINDLE_PWM :: u8 where [grbl_const]: "STEP_CONTROL_UPDATE_SPINDLE_PWM = 8"

definition CONTROL_PIN_INDEX_RESET :: u8 where [grbl_const]: "CONTROL_PIN_INDEX_RESET = 1"
definition CONTROL_PIN_INDEX_FEED_HOLD :: u8 where [grbl_const]: "CONTROL_PIN_INDEX_FEED_HOLD = 2"
definition CONTROL_PIN_INDEX_CYCLE_START :: u8 where [grbl_const]: "CONTROL_PIN_INDEX_CYCLE_START = 4"

definition SPINDLE_STOP_OVR_DISABLED :: u8 where [grbl_const]: "SPINDLE_STOP_OVR_DISABLED = 0"
definition SPINDLE_STOP_OVR_ENABLED :: u8 where [grbl_const]: "SPINDLE_STOP_OVR_ENABLED = 1"
definition SPINDLE_STOP_OVR_INITIATE :: u8 where [grbl_const]: "SPINDLE_STOP_OVR_INITIATE = 2"
definition SPINDLE_STOP_OVR_RESTORE :: u8 where [grbl_const]: "SPINDLE_STOP_OVR_RESTORE = 4"
definition SPINDLE_STOP_OVR_RESTORE_CYCLE :: u8 where [grbl_const]: "SPINDLE_STOP_OVR_RESTORE_CYCLE = 8"

text \<open>Status codes of report.h.\<close>

datatype status =
    STATUS_OK
  | STATUS_EXPECTED_COMMAND_LETTER
  | STATUS_BAD_NUMBER_FORMAT
  | STATUS_INVALID_STATEMENT
  | STATUS_NEGATIVE_VALUE
  | STATUS_SETTING_DISABLED
  | STATUS_SETTING_STEP_PULSE_MIN
  | STATUS_SETTING_READ_FAIL
  | STATUS_IDLE_ERROR
  | STATUS_SYSTEM_GC_LOCK
  | STATUS_SOFT_LIMIT_ERROR
  | STATUS_OVERFLOW
  | STATUS_MAX_STEP_RATE_EXCEEDED
  | STATUS_CHECK_DOOR
  | STATUS_LINE_LENGTH_EXCEEDED
  | STATUS_TRAVEL_EXCEEDED
  | STATUS_INVALID_JOG_COMMAND
  | STATUS_SETTING_DISABLED_LASER
  | STATUS_GCODE_UNSUPPORTED_COMMAND
  | STATUS_GCODE_MODAL_GROUP_VIOLATION
  | STATUS_GCODE_UNDEFINED_FEED_RATE
  | STATUS_GCODE_COMMAND_VALUE_NOT_INTEGER
  | STATUS_GCODE_AXIS_COMMAND_CONFLICT
  | STATUS_GCODE_WORD_REPEATED
  | STATUS_GCODE_NO_AXIS_WORDS
  | STATUS_GCODE_INVALID_LINE_NUMBER
  | STATUS_GCODE_VALUE_WORD_MISSING
  | STATUS_GCODE_UNSUPPORTED_COORD_SYS
  | STATUS_GCODE_G53_INVALID_MOTION_MODE
  | STATUS_GCODE_AXIS_WORDS_EXIST
  | STATUS_GCODE_NO_AXIS_WORDS_IN_PLANE
  | STATUS_GCODE_INVALID_TARGET
  | STATUS_GCODE_ARC_RADIUS_ERROR
  | STATUS_GCODE_NO_OFFSETS_IN_PLANE
  | STATUS_GCODE_UNUSED_WORDS
  | STATUS_GCODE_G43_DYNAMIC_AXIS_ERROR
  | STATUS_GCODE_MAX_VALUE_EXCEEDED

fun status_code :: "status \<Rightarrow> u8" where
  "status_code STATUS_OK = 0"
| "status_code STATUS_EXPECTED_COMMAND_LETTER = 1"
| "status_code STATUS_BAD_NUMBER_FORMAT = 2"
| "status_code STATUS_INVALID_STATEMENT = 3"
| "status_code STATUS_NEGATIVE_VALUE = 4"
| "status_code STATUS_SETTING_DISABLED = 5"
| "status_code STATUS_SETTING_STEP_PULSE_MIN = 6"
| "status_code STATUS_SETTING_READ_FAIL = 7"
| "status_code STATUS_IDLE_ERROR = 8"
| "status_code STATUS_SYSTEM_GC_LOCK = 9"
| "status_code STATUS_SOFT_LIMIT_ERROR = 10"
| "status_code STATUS_OVERFLOW = 11"
| "status_code STATUS_MAX_STEP_RATE_EXCEEDED = 12"
| "status_code STATUS_CHECK_DOOR = 13"
| "status_code STATUS_LINE_LENGTH_EXCEEDED = 14"
| "status_code STATUS_TRAVEL_EXCEEDED = 15"
| "status_code STATUS_INVALID_JOG_COMMAND = 16"
| "status_code STATUS_SETTING_DISABLED_LASER = 17"
| "status_code STATUS_GCODE_UNSUPPORTED_COMMAND = 20"
| "status_code STATUS_GCODE_MODAL_GROUP_VIOLATION = 21"
| "status_code STATUS_GCODE_UNDEFINED_FEED_RATE = 22"
| "status_code STATUS_GCODE_COMMAND_VALUE_NOT_INTEGER = 23"
| "status_code STATUS_GCODE_AXIS_COMMAND_CONFLICT = 24"
| "status_code STATUS_GCODE_WORD_REPEATED = 25"
| "status_code STATUS_GCODE_NO_AXIS_WORDS = 26"
| "status_code STATUS_GCODE_INVALID_LINE_NUMBER = 27"
| "status_code STATUS_GCODE_VALUE_WORD_MISSING = 28"
| "status_code STATUS_GCODE_UNSUPPORTED_COORD_SYS = 29"
| "status_code STATUS_GCODE_G53_INVALID_MOTION_MODE = 30"
| "status_code STATUS_GCODE_AXIS_WORDS_EXIST = 31"
| "status_code STATUS_GCODE_NO_AXIS_WORDS_IN_PLANE = 32"
| "status_code STATUS_GCODE_INVALID_TARGET = 33"
| "status_code STATUS_GCODE_ARC_RADIUS_ERROR = 34"
| "status_code STATUS_GCODE_NO_OFFSETS_IN_PLANE = 35"
| "status_code STATUS_GCODE_UNUSED_WORDS = 36"
| "status_code STATUS_GCODE_G43_DYNAMIC_AXIS_ERROR = 37"
| "status_code STATUS_GCODE_MAX_VALUE_EXCEEDED = 38"

section \<open>State\<close>

record system_t =
  sys_state :: u8
  sys_abort :: u8
  sys_suspend :: u8
  sys_soft_limit :: u8
  sys_step_control :: u8
  sys_probe_succeeded :: u8
  sys_homing_axis_lock :: u8
  sys_f_override :: u8
  sys_r_override :: u8
  sys_spindle_speed_ovr :: u8
  sys_spindle_stop_ovr :: u8
  sys_report_ovr_counter :: u8
  sys_report_wco_counter :: u8
  sys_spindle_speed :: f32

definition sys_zero :: system_t where
  "sys_zero = \<lparr>sys_state = 0, sys_abort = 0, sys_suspend = 0, sys_soft_limit = 0, sys_step_control = 0,
     sys_probe_succeeded = 0, sys_homing_axis_lock = 0, sys_f_override = 0, sys_r_override = 0,
     sys_spindle_speed_ovr = 0, sys_spindle_stop_ovr = 0, sys_report_ovr_counter = 0,
     sys_report_wco_counter = 0, sys_spindle_speed = FFin False 0\<rparr>"

text \<open>The volatile flag bytes shared with the interrupts, and the step positions.\<close>

record rt_t =
  sys_rt_exec_state :: u8
  sys_rt_exec_alarm :: u8
  sys_rt_exec_motion_override :: u8
  sys_rt_exec_accessory_override :: u8
  sys_position :: "int list"
  sys_probe_position :: "int list"
  sys_probe_state :: u8

section \<open>Realtime flags\<close>

text \<open>
  The setters run with interrupts disabled (\<open>cli\<close>, then \<open>SREG\<close> restored), so each is one
  atomic step.
\<close>

definition system_set_exec_state_flag :: "u8 \<Rightarrow> rt_t \<Rightarrow> rt_t" where
  "system_set_exec_state_flag m s = s\<lparr>sys_rt_exec_state := bit_true (sys_rt_exec_state s) m\<rparr>"

definition system_clear_exec_state_flag :: "u8 \<Rightarrow> rt_t \<Rightarrow> rt_t" where
  "system_clear_exec_state_flag m s = s\<lparr>sys_rt_exec_state := bit_false (sys_rt_exec_state s) m\<rparr>"

definition system_set_exec_alarm :: "u8 \<Rightarrow> rt_t \<Rightarrow> rt_t" where
  "system_set_exec_alarm code s = s\<lparr>sys_rt_exec_alarm := code\<rparr>"

definition system_clear_exec_alarm :: "rt_t \<Rightarrow> rt_t" where
  "system_clear_exec_alarm s = s\<lparr>sys_rt_exec_alarm := 0\<rparr>"

definition system_set_exec_motion_override_flag :: "u8 \<Rightarrow> rt_t \<Rightarrow> rt_t" where
  "system_set_exec_motion_override_flag m s =
     s\<lparr>sys_rt_exec_motion_override := bit_true (sys_rt_exec_motion_override s) m\<rparr>"

definition system_set_exec_accessory_override_flag :: "u8 \<Rightarrow> rt_t \<Rightarrow> rt_t" where
  "system_set_exec_accessory_override_flag m s =
     s\<lparr>sys_rt_exec_accessory_override := bit_true (sys_rt_exec_accessory_override s) m\<rparr>"

definition system_clear_exec_motion_overrides :: "rt_t \<Rightarrow> rt_t" where
  "system_clear_exec_motion_overrides s = s\<lparr>sys_rt_exec_motion_override := 0\<rparr>"

definition system_clear_exec_accessory_overrides :: "rt_t \<Rightarrow> rt_t" where
  "system_clear_exec_accessory_overrides s = s\<lparr>sys_rt_exec_accessory_override := 0\<rparr>"

lemmas rt_flag_defs [grbl_step] =
  system_set_exec_state_flag_def system_clear_exec_state_flag_def system_set_exec_alarm_def
  system_clear_exec_alarm_def system_set_exec_motion_override_flag_def
  system_set_exec_accessory_override_flag_def system_clear_exec_motion_overrides_def
  system_clear_exec_accessory_overrides_def

section \<open>Control pins\<close>

definition CONTROL_RESET_BIT :: nat where [grbl_const]: "CONTROL_RESET_BIT = 0"
definition CONTROL_FEED_HOLD_BIT :: nat where [grbl_const]: "CONTROL_FEED_HOLD_BIT = 1"
definition CONTROL_CYCLE_START_BIT :: nat where [grbl_const]: "CONTROL_CYCLE_START_BIT = 2"
definition CONTROL_MASK :: u8 where [grbl_const]: "CONTROL_MASK = 7"

text \<open>The argument is the port's input register; the pins are low when triggered.\<close>

definition system_control_get_state :: "u8 \<Rightarrow> u8" where
  "system_control_get_state CONTROL_PIN =
     (let pin = CONTROL_PIN AND CONTROL_MASK in
      if pin \<noteq> 0 then
        (let c = 0;
             c = (if bit_isfalse pin (bitw CONTROL_RESET_BIT) then c OR CONTROL_PIN_INDEX_RESET else c);
             c = (if bit_isfalse pin (bitw CONTROL_FEED_HOLD_BIT) then c OR CONTROL_PIN_INDEX_FEED_HOLD else c);
             c = (if bit_isfalse pin (bitw CONTROL_CYCLE_START_BIT) then c OR CONTROL_PIN_INDEX_CYCLE_START else c)
         in c)
      else 0)"

text \<open>Without a safety door pin the door always counts as closed.\<close>

definition system_check_safety_door_ajar :: bool where
  "system_check_safety_door_ajar = False"

section \<open>CoreXY kinematics\<close>

definition system_convert_corexy_to_x_axis_steps :: "int list \<Rightarrow> int" where
  "system_convert_corexy_to_x_axis_steps steps = c_div (steps ! X_AXIS + steps ! Y_AXIS) 2"

definition system_convert_corexy_to_y_axis_steps :: "int list \<Rightarrow> int" where
  "system_convert_corexy_to_y_axis_steps steps = c_div (steps ! X_AXIS - steps ! Y_AXIS) 2"

text \<open>\<open>spm\<close> is \<open>settings.steps_per_mm\<close>.\<close>

definition system_convert_axis_steps_to_mpos :: "vec \<Rightarrow> int list \<Rightarrow> nat \<Rightarrow> f32" where
  "system_convert_axis_steps_to_mpos spm steps idx =
     (if idx = X_AXIS then f_div (f_of_int (system_convert_corexy_to_x_axis_steps steps)) (spm ! idx)
      else if idx = Y_AXIS then f_div (f_of_int (system_convert_corexy_to_y_axis_steps steps)) (spm ! idx)
      else f_div (f_of_int (steps ! idx)) (spm ! idx))"

definition system_convert_array_steps_to_mpos :: "vec \<Rightarrow> int list \<Rightarrow> vec" where
  "system_convert_array_steps_to_mpos spm steps =
     map (system_convert_axis_steps_to_mpos spm steps) [0..<N_AXIS]"

text \<open>Travel limits: \<open>max_travel\<close> is stored negative. The loop returns at the first violation.\<close>

fun travel_loop :: "vec \<Rightarrow> vec \<Rightarrow> bool" where
  "travel_loop (t # ts) (m # ms) =
     (if f_lt f_zero t \<or> f_lt t m then True else travel_loop ts ms)"
| "travel_loop _ _ = False"

definition system_check_travel_limits :: "vec \<Rightarrow> vec \<Rightarrow> bool" where
  "system_check_travel_limits max_travel target = travel_loop target max_travel"

section \<open>Properties\<close>

lemma travel_loop_iff:
  "length ts = length ms \<Longrightarrow>
     travel_loop ts ms \<longleftrightarrow> (\<exists>i < length ts. f_lt f_zero (ts ! i) \<or> f_lt (ts ! i) (ms ! i))"
proof (induction ts ms rule: list_induct2)
  case (Cons t ts m ms)
  then show ?case by (simp add: Ex_less_Suc2)
qed simp

text \<open>
  The soft-limit check is exact: it reports a violation if and only if some axis of the
  target lies above machine zero or below the (negative) travel of that axis.
\<close>

theorem travel_limits_exact:
  assumes "length target = N_AXIS" and "length max_travel = N_AXIS"
  shows "system_check_travel_limits max_travel target \<longleftrightarrow>
    (\<exists>idx < N_AXIS. f_lt f_zero (target ! idx) \<or> f_lt (target ! idx) (max_travel ! idx))"
  using travel_loop_iff [of target max_travel] assms
  by (simp add: system_check_travel_limits_def)

theorem travel_limits_exact_witness:
  "system_check_travel_limits [f_of_int (-200), f_of_int (-200), f_of_int (-200)]
     [f_of_int 0, f_of_int (-201), f_of_int 0]"
proof -
  have "\<exists>idx < N_AXIS. f_lt f_zero ([f_of_int 0, f_of_int (-201), f_of_int 0] ! idx) \<or>
      f_lt ([f_of_int 0, f_of_int (-201), f_of_int 0] ! idx)
           ([f_of_int (-200), f_of_int (-200), f_of_int (-200)] ! idx)"
    by (intro exI [of _ 1]) (simp add: grbl_const f_of_int_exact)
  then show ?thesis
    by (subst travel_limits_exact) (simp_all add: grbl_const)
qed

text \<open>
  The CoreXY transform inverts the motor mixing: when the motors have been driven to the
  sum and the difference of the axis positions, as the planner does, the axis positions read
  back are exact.
\<close>

theorem corexy_inverse:
  assumes "steps ! X_AXIS = x + y" and "steps ! Y_AXIS = x - y"
  shows "system_convert_corexy_to_x_axis_steps steps = x
    \<and> system_convert_corexy_to_y_axis_steps steps = y"
proof -
  have "x + y + (x - y) = 2 * x" "x + y - (x - y) = 2 * y" by simp_all
  then show ?thesis
    by (simp only: system_convert_corexy_to_x_axis_steps_def
        system_convert_corexy_to_y_axis_steps_def assms c_div_double)
qed

theorem corexy_inverse_witness:
  "system_convert_corexy_to_x_axis_steps [7, - 3, 0] = 2
    \<and> system_convert_corexy_to_y_axis_steps [7, - 3, 0] = 5"
  by (rule corexy_inverse) (simp_all add: grbl_const)

text \<open>
  The control inputs: each of the three pins is reported exactly when it is pulled low,
  except when all three are low at once, which is reported as no pin at all.
\<close>

theorem control_pins:
  "(bit_istrue (system_control_get_state p) CONTROL_PIN_INDEX_RESET
      \<longleftrightarrow> \<not> bit p 0 \<and> (bit p 1 \<or> bit p 2))
    \<and> (bit_istrue (system_control_get_state p) CONTROL_PIN_INDEX_FEED_HOLD
      \<longleftrightarrow> \<not> bit p 1 \<and> (bit p 0 \<or> bit p 2))
    \<and> (bit_istrue (system_control_get_state p) CONTROL_PIN_INDEX_CYCLE_START
      \<longleftrightarrow> \<not> bit p 2 \<and> (bit p 0 \<or> bit p 1))"
proof -
  have m: "CONTROL_MASK = mask 3" by (simp add: grbl_const mask_eq_exp_minus_1)
  have b: "bit (p AND CONTROL_MASK) k \<longleftrightarrow> k < 3 \<and> bit p k" for k
    by (auto simp: m bit_and_iff bit_mask_iff)
  have z: "p AND CONTROL_MASK = 0 \<longleftrightarrow> \<not> bit p 0 \<and> \<not> bit p 1 \<and> \<not> bit p 2"
    unfolding bit_eq_iff [of "p AND CONTROL_MASK" 0] b by (auto simp: less_Suc_eq numeral_3_eq_3 numeral_2_eq_2)
  show ?thesis
    unfolding system_control_get_state_def Let_def z bit_isfalse_bitw b
    by (cases "bit p 0"; cases "bit p 1"; cases "bit p 2")
      (simp_all add: bit_istrue_def CONTROL_RESET_BIT_def CONTROL_FEED_HOLD_BIT_def
        CONTROL_CYCLE_START_BIT_def CONTROL_PIN_INDEX_RESET_def CONTROL_PIN_INDEX_FEED_HOLD_def
        CONTROL_PIN_INDEX_CYCLE_START_def)
qed

end
