(* ===== verification/Eeprom.thy ===== *)
theory Eeprom
  imports Grbl_Prelude
begin

text \<open>
  eeprom.c: byte access to the EEPROM and the checksummed block copies used for every
  persistent record. The memory is a function from 16-bit addresses to bytes (the wait for the
  write-enable bit \<open>EEPE\<close> and the disabling of interrupts only order accesses and have no
  effect on the contents). The programming modes of the chip are modelled: erase sets a byte
  to 0xff, write-only can only clear bits.

  The block copies are clients of a byte store that returns what was last put at an address;
  the locale \<open>byte_store\<close> states that contract, its lemmas are the round trip and framing
  facts of the copies, and the interpretation \<open>ee\<close> proves that \<open>eeprom_put_char\<close> with its
  choice of programming mode satisfies it.
\<close>

type_synonym eeprom = "u16 \<Rightarrow> u8"

section \<open>Byte access\<close>

definition eeprom_get_char :: "eeprom \<Rightarrow> u16 \<Rightarrow> u8" where
  "eeprom_get_char m addr = m addr"

datatype eep_mode = Erase_Write u8 | Erase_Only | Write_Only u8 | No_Programming

text \<open>The choice of the programming mode in \<open>eeprom_put_char\<close>.\<close>

definition eeprom_mode :: "u8 \<Rightarrow> u8 \<Rightarrow> eep_mode" where
  "eeprom_mode old_value new_value =
     (let diff_mask = old_value XOR new_value in
      if diff_mask AND new_value \<noteq> 0
      then (if new_value \<noteq> 0xff then Erase_Write new_value else Erase_Only)
      else (if diff_mask \<noteq> 0 then Write_Only new_value else No_Programming))"

text \<open>What the chip does to the cell in each mode.\<close>

fun eeprom_program :: "eep_mode \<Rightarrow> u8 \<Rightarrow> u8" where
  "eeprom_program (Erase_Write v) old_value = v"
| "eeprom_program Erase_Only old_value = 0xff"
| "eeprom_program (Write_Only v) old_value = (old_value AND v)"
| "eeprom_program No_Programming old_value = old_value"

definition eeprom_put_char :: "eeprom \<Rightarrow> u16 \<Rightarrow> u8 \<Rightarrow> eeprom" where
  "eeprom_put_char m addr new_value =
     m(addr := eeprom_program (eeprom_mode (m addr) new_value) (m addr))"

section \<open>Block copies\<close>

text \<open>
  One round of the running checksum. The source combines the two shifts with the logical
  \<open>||\<close>, whose value is 0 or 1; the shifts are on \<open>int\<close>, so the first keeps all eight bits.
\<close>

definition checksum_step :: "u8 \<Rightarrow> u8 \<Rightarrow> u8" where
  "checksum_step checksum data =
     (if push_bit 1 (ucast checksum :: u16) \<noteq> 0 \<or> drop_bit 7 checksum \<noteq> 0 then 1 else 0) + data"

definition checksum_of :: "u8 list \<Rightarrow> u8" where
  "checksum_of bs = foldl checksum_step 0 bs"

fun store_bytes :: "('m \<Rightarrow> u16 \<Rightarrow> u8 \<Rightarrow> 'm) \<Rightarrow> 'm \<Rightarrow> u16 \<Rightarrow> u8 list \<Rightarrow> u8 \<Rightarrow> 'm" where
  "store_bytes put m destination [] checksum = put m destination checksum"
| "store_bytes put m destination (b # bs) checksum =
     store_bytes put (put m destination b) (destination + 1) bs (checksum_step checksum b)"

fun load_bytes :: "('m \<Rightarrow> u16 \<Rightarrow> u8) \<Rightarrow> 'm \<Rightarrow> u16 \<Rightarrow> nat \<Rightarrow> u8 \<Rightarrow> u8 list \<times> bool" where
  "load_bytes get m source 0 checksum = ([], checksum = get m source)"
| "load_bytes get m source (Suc n) checksum =
     (let data = get m source;
          (ds, ok) = load_bytes get m (source + 1) n (checksum_step checksum data)
      in (data # ds, ok))"

definition memcpy_to_eeprom_with_checksum :: "eeprom \<Rightarrow> u16 \<Rightarrow> u8 list \<Rightarrow> eeprom" where
  "memcpy_to_eeprom_with_checksum m destination source =
     store_bytes eeprom_put_char m destination source 0"

definition memcpy_from_eeprom_with_checksum :: "eeprom \<Rightarrow> u16 \<Rightarrow> nat \<Rightarrow> u8 list \<times> bool" where
  "memcpy_from_eeprom_with_checksum m source n =
     load_bytes eeprom_get_char m source n 0"

section \<open>The checksum\<close>

lemma shift_checksum_zero:
  "push_bit 1 (ucast c :: u16) \<noteq> 0 \<or> drop_bit 7 c \<noteq> 0 \<longleftrightarrow> (c :: u8) \<noteq> 0"
proof
  assume "c \<noteq> 0"
  then obtain n where n: "bit c n" by (auto simp: bit_eq_iff)
  then have "n < 8" using bit_imp_le_length by fastforce
  with n have "bit (push_bit 1 (ucast c :: u16)) (Suc n)"
    unfolding bit_push_bit_iff bit_unsigned_iff by simp
  then have "push_bit 1 (ucast c :: u16) \<noteq> 0" by (metis bit_0_eq bot_apply bot_bool_def)
  then show "push_bit 1 (ucast c :: u16) \<noteq> 0 \<or> drop_bit 7 c \<noteq> 0" ..
qed auto

lemma checksum_step_eq: "checksum_step c d = (if c = 0 then d else d + 1)"
  using shift_checksum_zero [of c] by (auto simp: checksum_step_def)

lemma checksum_of_Nil [simp]: "checksum_of [] = 0"
  by (simp add: checksum_of_def)

lemma checksum_of_snoc:
  "checksum_of (bs @ [b]) = (if checksum_of bs = 0 then b else b + 1)"
  by (simp add: checksum_of_def checksum_step_eq)

section \<open>The byte store interface\<close>

locale byte_store =
  fixes get :: "'m \<Rightarrow> u16 \<Rightarrow> u8"
    and put :: "'m \<Rightarrow> u16 \<Rightarrow> u8 \<Rightarrow> 'm"
  assumes get_put: "get (put m a v) b = (if b = a then v else get m b)"
begin

text \<open>An address is outside a block that starts at \<open>a\<close>.\<close>

lemma store_frame:
  "(\<And>k. k \<le> length bs \<Longrightarrow> b \<noteq> a + of_nat k) \<Longrightarrow> get (store_bytes put m a bs c) b = get m b"
proof (induction bs arbitrary: a m c)
  case Nil
  then show ?case using Nil [of 0] by (simp add: get_put)
next
  case (Cons x bs)
  have "b \<noteq> a + 1 + of_nat k" if "k \<le> length bs" for k
    using Cons.prems [of "Suc k"] that by (simp add: add.assoc)
  then have "get (store_bytes put (put m a x) (a + 1) bs (checksum_step c x)) b = get (put m a x) b"
    by (rule Cons.IH)
  then show ?case using Cons.prems [of 0] by (simp add: get_put)
qed

lemma load_cong:
  "(\<And>k. k \<le> n \<Longrightarrow> get m (a + of_nat k) = get m' (a + of_nat k)) \<Longrightarrow>
     load_bytes get m a n c = load_bytes get m' a n c"
proof (induction n arbitrary: a c)
  case 0
  then show ?case using 0 [of 0] by simp
next
  case (Suc n)
  have "get m (a + 1 + of_nat k) = get m' (a + 1 + of_nat k)" if "k \<le> n" for k
    using Suc.prems [of "Suc k"] that by (simp add: add.assoc)
  then have "load_bytes get m (a + 1) n d = load_bytes get m' (a + 1) n d" for d
    by (rule Suc.IH)
  then show ?case using Suc.prems [of 0] by simp
qed

lemma load_store_aux:
  "length bs < 65535 \<Longrightarrow>
     load_bytes get (store_bytes put m a bs c) a (length bs) c = (bs, True)"
proof (induction bs arbitrary: a m c)
  case (Cons x bs)
  have ne: "a \<noteq> a + 1 + of_nat k" if "k \<le> length bs" for k
  proof
    assume "a = a + 1 + of_nat k"
    then have "(of_nat (Suc k) :: u16) = 0" by (simp add: add.assoc)
    then have "65536 dvd Suc k" by (simp add: word_of_nat_eq_0_iff del: of_nat_Suc)
    moreover have "Suc k < 65536" using that Cons.prems by simp
    ultimately show False by (simp add: nat_dvd_not_less)
  qed
  have "get (store_bytes put m a (x # bs) c) a = x"
    using store_frame [of bs a "a + 1"] ne by (simp add: get_put)
  moreover have "load_bytes get (store_bytes put m a (x # bs) c) (a + 1) (length bs) (checksum_step c x)
      = (bs, True)"
    using Cons by simp
  ultimately show ?case by simp
qed (simp add: get_put)

end

lemma xor_and_eq: "(old_value XOR v) AND v = 0 \<Longrightarrow> old_value AND v = (v :: u8)"
  by (auto simp: bit_eq_iff bit_simps)

lemma eeprom_program_mode: "eeprom_program (eeprom_mode old_value v) old_value = v"
  by (auto simp: eeprom_mode_def Let_def xor_and_eq) (auto simp: bit_eq_iff bit_simps)

interpretation ee: byte_store eeprom_get_char eeprom_put_char
  by unfold_locales (simp add: eeprom_get_char_def eeprom_put_char_def eeprom_program_mode)

lemma load_bytes_eq:
  "load_bytes get m a n c =
     (map (\<lambda>k. get m (a + of_nat k)) [0..<n],
      foldl checksum_step c (map (\<lambda>k. get m (a + of_nat k)) [0..<n]) = get m (a + of_nat n))"
proof (induction n arbitrary: a c)
  case (Suc n)
  have "map (\<lambda>k. get m (a + of_nat k)) [0..<Suc n]
      = get m a # map (\<lambda>k. get m (a + 1 + of_nat k)) [0..<n]"
    by (simp add: upt_conv_Cons map_Suc_upt [symmetric] add.assoc del: upt_Suc)
  then show ?case using Suc [of "a + 1"] by (simp add: Let_def add.assoc del: upt_Suc)
qed simp

lemma eeprom_two_blocks:
  assumes "length bs < 65535" and "length cs < 65535"
    and "\<And>i j. i \<le> length bs \<Longrightarrow> j \<le> length cs \<Longrightarrow> a + of_nat i \<noteq> b + of_nat j"
    and "m' = memcpy_to_eeprom_with_checksum (memcpy_to_eeprom_with_checksum m a bs) b cs"
  shows "memcpy_from_eeprom_with_checksum m' a (length bs) = (bs, True)
    \<and> memcpy_from_eeprom_with_checksum m' b (length cs) = (cs, True)"
proof -
  let ?m1 = "store_bytes eeprom_put_char m a bs 0"
  have "load_bytes eeprom_get_char (store_bytes eeprom_put_char ?m1 b cs 0) a (length bs) 0
      = load_bytes eeprom_get_char ?m1 a (length bs) 0"
    using assms(3) by (intro ee.load_cong ee.store_frame) blast
  with ee.load_store_aux [OF assms(1)] ee.load_store_aux [OF assms(2)] show ?thesis
    by (simp add: assms(4) memcpy_from_eeprom_with_checksum_def memcpy_to_eeprom_with_checksum_def)
qed

section \<open>Properties\<close>

text \<open>
  The three programming modes are chosen soundly: whatever the cell held, after
  \<open>eeprom_put_char\<close> it reads as the new value and every other cell is unchanged, although
  the write-only mode can only clear bits and is used without an erase.
\<close>

theorem eeprom_put_char_stores:
  "eeprom_get_char (eeprom_put_char m a v) b = (if b = a then v else eeprom_get_char m b)"
  by (rule ee.get_put)

text \<open>
  C30. Persistent records round trip: a block written by \<open>memcpy_to_eeprom_with_checksum\<close> is
  read back unchanged and accepted, and so is any block stored before it whose bytes and
  checksum lie elsewhere.
\<close>

theorem eeprom_block_roundtrip:
  assumes "length bs < 65535" and "length cs < 65535"
    and "\<And>i j. i \<le> length bs \<Longrightarrow> j \<le> length cs \<Longrightarrow> a + of_nat i \<noteq> b + of_nat j"
    and "m' = memcpy_to_eeprom_with_checksum (memcpy_to_eeprom_with_checksum m a bs) b cs"
  shows "memcpy_from_eeprom_with_checksum m' a (length bs) = (bs, True)
    \<and> memcpy_from_eeprom_with_checksum m' b (length cs) = (cs, True)"
  using assms by (rule eeprom_two_blocks)

theorem eeprom_block_roundtrip_witness:
  "memcpy_from_eeprom_with_checksum (memcpy_to_eeprom_with_checksum
     (memcpy_to_eeprom_with_checksum (\<lambda>_. 0xff) 10 [1, 2, 3]) 14 [9]) 10 3 = ([1, 2, 3], True)"
proof -
  have ne: "(10 :: u16) + of_nat i \<noteq> 14 + of_nat j"
    if "i \<le> length [1, 2, 3 :: u8]" and "j \<le> length [9 :: u8]" for i j
  proof -
    from that have "i = 0 \<or> i = 1 \<or> i = 2 \<or> i = 3" "j = 0 \<or> j = 1" by auto
    then show ?thesis by auto
  qed
  show ?thesis
    using eeprom_block_roundtrip [where bs = "[1, 2, 3]" and cs = "[9]" and m = "\<lambda>_. 0xff",
        OF _ _ ne refl] by (simp add: numeral_3_eq_3)
qed

text \<open>
  C31. The checksum hardly protects the record: because the shifted halves are combined with
  the logical \<open>||\<close> instead of the bitwise \<open>|\<close>, the checksum of a block is its last byte plus
  one bit. A block whose other bytes are all replaced is still accepted as long as the
  checksum of those bytes is not zero before and after.
\<close>

theorem eeprom_checksum_weak:
  assumes "length xs = length ys" and "length xs < 65534"
    and "checksum_of xs \<noteq> 0" and "checksum_of ys \<noteq> 0"
    and "\<And>k. k \<le> length xs \<Longrightarrow> m (a + of_nat k) = (ys @ [z]) ! k"
    and "m (a + of_nat (Suc (length xs))) = checksum_of (xs @ [z])"
  shows "memcpy_from_eeprom_with_checksum m a (Suc (length xs)) = (ys @ [z], True)"
proof -
  have c: "checksum_of (xs @ [z]) = checksum_of (ys @ [z])"
    using assms(3,4) by (simp add: checksum_of_snoc)
  have "load_bytes eeprom_get_char m a (length bs) s = (bs, True)"
    if "\<And>k. k < length bs \<Longrightarrow> m (a + of_nat k) = bs ! k"
      "m (a + of_nat (length bs)) = foldl checksum_step s bs" for a bs s
    using that
  proof (induction bs arbitrary: a s)
    case (Cons x bs)
    have "load_bytes eeprom_get_char m (a + 1) (length bs) (checksum_step s x) = (bs, True)"
    proof (rule Cons.IH)
      fix k assume "k < length bs"
      then show "m (a + 1 + of_nat k) = bs ! k"
        using Cons.prems(1) [of "Suc k"] by (simp add: add.assoc)
    next
      show "m (a + 1 + of_nat (length bs)) = foldl checksum_step (checksum_step s x) bs"
        using Cons.prems(2) by (simp add: add.assoc)
    qed
    moreover have "eeprom_get_char m a = x" using Cons.prems(1) [of 0] by (simp add: eeprom_get_char_def)
    ultimately show ?case by simp
  qed (simp add: eeprom_get_char_def)
  from this [of "ys @ [z]" a 0] show ?thesis
    using assms c by (simp add: memcpy_from_eeprom_with_checksum_def checksum_of_def less_Suc_eq_le)
qed

theorem eeprom_checksum_weak_witness:
  "memcpy_from_eeprom_with_checksum
     ((memcpy_to_eeprom_with_checksum (\<lambda>_. 0xff) 0 [1, 5])(0 := 77)) 0 2 = ([77, 5], True)"
proof -
  let ?m = "(memcpy_to_eeprom_with_checksum (\<lambda>_. 0xff) 0 [1, 5])(0 := 77)"
  have m: "?m 0 = 77" "?m 1 = 5" "?m 2 = checksum_of [1, 5]"
    by (simp_all add: memcpy_to_eeprom_with_checksum_def eeprom_put_char_def eeprom_program_mode
        checksum_of_def)
  have "memcpy_from_eeprom_with_checksum ?m 0 (Suc (length [1 :: u8])) = ([77] @ [5], True)"
  proof (rule eeprom_checksum_weak)
    show "checksum_of [1] \<noteq> 0" "checksum_of [77] \<noteq> 0"
      by (simp_all add: checksum_of_def checksum_step_eq)
    fix k assume "k \<le> length [1 :: u8]"
    then have "k = 0 \<or> k = 1" by auto
    then show "?m (0 + of_nat k) = ([77] @ [5]) ! k" using m by auto
  next
    show "?m (0 + of_nat (Suc (length [1 :: u8]))) = checksum_of ([1] @ [5])"
      using m by simp
  qed simp_all
  then show ?thesis by (simp add: numeral_2_eq_2)
qed

end
