(* ===== verification/Float_Bytes.thy ===== *)
theory Float_Bytes
  imports Float32
begin

text \<open>
  The bytes of a \<open>float\<close> in memory: the little-endian binary32 pattern. The settings code
  copies structures byte by byte to the EEPROM, so the stored form of a float matters there.
  The decoder inverts the encoder on every well-formed value.
\<close>

section \<open>Bit patterns\<close>

definition sign_bit :: "bool \<Rightarrow> int" where
  "sign_bit s = (if s then 2 ^ 31 else 0)"

fun f32_bits :: "f32 \<Rightarrow> int" where
  "f32_bits FNaN = 255 * 2 ^ 23 + 2 ^ 22"
| "f32_bits (FInf s) = sign_bit s + 255 * 2 ^ 23"
| "f32_bits (FFin s m) = sign_bit s +
     (if m = 0 then 0
      else (let k = ulp_exp m; n = \<lfloor>m / pow2 k\<rfloor> in
            if n < 2 ^ 23 then n else (k + 150) * 2 ^ 23 + (n - 2 ^ 23)))"

definition f32_of_bits :: "int \<Rightarrow> f32" where
  "f32_of_bits b =
     (let s = (2 ^ 31 \<le> b); e = (b div 2 ^ 23) mod 256; n = b mod 2 ^ 23 in
      if e = 0 then FFin s (of_int n * pow2 (- 149))
      else if e = 255 then (if n = 0 then FInf s else FNaN)
      else FFin s (of_int (2 ^ 23 + n) * pow2 (e - 150)))"

fun int_bytes :: "nat \<Rightarrow> int \<Rightarrow> u8 list" where
  "int_bytes 0 b = []"
| "int_bytes (Suc n) b = word_of_int b # int_bytes n (b div 256)"

fun bytes_int :: "u8 list \<Rightarrow> int" where
  "bytes_int [] = 0"
| "bytes_int (b # bs) = uint b + 256 * bytes_int bs"

definition f32_bytes :: "f32 \<Rightarrow> u8 list" where
  "f32_bytes x = int_bytes 4 (f32_bits x)"

definition f32_of_bytes :: "u8 list \<Rightarrow> f32" where
  "f32_of_bytes bs = f32_of_bits (bytes_int bs)"

section \<open>Round trip\<close>

lemma length_int_bytes [simp]: "length (int_bytes n b) = n"
  by (induction n b rule: int_bytes.induct) auto

lemma bytes_int_bytes: "0 \<le> b \<Longrightarrow> b < 256 ^ n \<Longrightarrow> bytes_int (int_bytes n b) = b"
proof (induction n arbitrary: b)
  case 0
  then show ?case by simp
next
  case (Suc n)
  have "b div 256 < 256 ^ n" using Suc.prems by (simp add: div_less_iff_less_mult mult.commute)
  then have "bytes_int (int_bytes n (b div 256)) = b div 256"
    using Suc by simp
  moreover have "uint (word_of_int b :: u8) = b mod 256"
    by (simp add: uint_word_of_int)
  ultimately show ?case by simp
qed

lemma length_f32_bytes [simp]: "length (f32_bytes x) = 4"
  by (simp add: f32_bytes_def)

text \<open>The integer significand of a representable magnitude.\<close>

lemma f_repr_significand:
  assumes "f_repr m" and "m \<noteq> 0"
  obtains n where "m = of_int n * pow2 (ulp_exp m)" and "0 < n" and "n < 2 ^ 24"
    and "2 ^ 23 \<le> n \<or> ulp_exp m = - 149"
proof -
  from assms obtain n where n: "m = of_int n * pow2 (ulp_exp m)" and m: "0 < m"
    by (auto simp: f_repr_def)
  have d: "m / pow2 (ulp_exp m) = of_int n"
    using n by (metis nonzero_mult_div_cancel_right pow2_neq0)
  have pos: "0 < n" using m n by (metis mult_eq_0_iff of_int_0_less_iff pow2_pos zero_less_mult_pos2)
  have "(of_int n :: rat) < of_int (2 ^ 24)" using scaled_less [OF m] unfolding d .
  then have up: "n < 2 ^ 24" by (simp only: of_int_less_iff)
  have lo: "2 ^ 23 \<le> n" if "ulp_exp m \<noteq> - 149"
  proof -
    have k: "ulp_exp m = flog2 m - 23" using that by (simp add: ulp_exp_def max_def split: if_splits)
    have "pow2 23 * pow2 (ulp_exp m) \<le> m" using flog2_bounds(1) [OF m] k by (simp flip: pow2_add)
    then have "of_int (2 ^ 23) \<le> (of_int n :: rat)"
      unfolding d [symmetric] by (simp add: pos_le_divide_eq pow2_of_int)
    then show ?thesis by (simp only: of_int_le_iff)
  qed
  show thesis using lo by (intro that [OF n pos up]) blast
qed

lemma ulp_exp_upper: "0 < m \<Longrightarrow> m \<le> f_max \<Longrightarrow> ulp_exp m \<le> 104"
proof -
  assume "0 < m" "m \<le> f_max"
  have "f_max < pow2 128" by (simp add: f_max_def pow2_def)
  with \<open>m \<le> f_max\<close> flog2_bounds(1) [OF \<open>0 < m\<close>] have "pow2 (flog2 m) < pow2 128" by linarith
  then show ?thesis by (simp add: ulp_exp_def)
qed

lemma f32_bits_range: "f_wf x \<Longrightarrow> 0 \<le> f32_bits x \<and> f32_bits x < 2 ^ 32"
proof (cases x)
  case (FFin s m)
  assume wf: "f_wf x"
  show ?thesis
  proof (cases "m = 0")
    case False
    with wf FFin have r: "f_repr m" "m \<le> f_max" "0 < m" by (auto simp: f_repr_def)
    obtain n where n: "m = of_int n * pow2 (ulp_exp m)" "0 < n" "n < 2 ^ 24"
      "2 ^ 23 \<le> n \<or> ulp_exp m = - 149"
      using f_repr_significand [OF r(1) False] .
    have d: "m / pow2 (ulp_exp m) = of_int n"
      using n(1) by (metis nonzero_mult_div_cancel_right pow2_neq0)
    have "ulp_exp m \<le> 104" "- 149 \<le> ulp_exp m"
      using ulp_exp_upper [OF r(3,2)] by (simp_all add: ulp_exp_def)
    with n show ?thesis by (simp add: FFin False d Let_def sign_bit_def)
  qed (simp add: FFin sign_bit_def)
qed (simp_all add: sign_bit_def)

lemma fields_split:
  assumes "0 \<le> n" and "n < 2 ^ 23" and "0 \<le> e" and "e < 256"
  shows "(sign_bit s + (e * 2 ^ 23 + n)) div 2 ^ 23 mod 256 = e"
    and "(sign_bit s + (e * 2 ^ 23 + n)) mod 2 ^ 23 = n"
proof -
  define q :: int where "q = (if s then 256 else 0) + e"
  have b: "sign_bit s + (e * 2 ^ 23 + n) = q * 2 ^ 23 + n"
    by (simp add: sign_bit_def q_def)
  have "(q * 2 ^ 23 + n) div 2 ^ 23 = q" "(q * 2 ^ 23 + n) mod 2 ^ 23 = n"
    using assms by simp_all
  then show "(sign_bit s + (e * 2 ^ 23 + n)) div 2 ^ 23 mod 256 = e"
    and "(sign_bit s + (e * 2 ^ 23 + n)) mod 2 ^ 23 = n"
    unfolding b using assms by (auto simp: q_def)
qed

text \<open>A significand with and without the leading bit.\<close>

lemma f32_of_bits_subnormal:
  assumes "0 < n" and "n < 2 ^ 23"
  shows "f32_of_bits (sign_bit s + n) = FFin s (of_int n * pow2 (- 149))"
proof -
  have "(sign_bit s + n) div 2 ^ 23 mod 256 = 0" "(sign_bit s + n) mod 2 ^ 23 = n" "2 ^ 31 \<le> sign_bit s + n \<longleftrightarrow> s"
    using assms fields_split [of n 0 s] by (auto simp: sign_bit_def)
  then show ?thesis by (simp add: f32_of_bits_def Let_def)
qed

lemma f32_of_bits_normal:
  assumes n: "2 ^ 23 \<le> n" "n < 2 ^ 24" and e: "1 \<le> e" "e \<le> 254"
  shows "f32_of_bits (sign_bit s + (e * 2 ^ 23 + (n - 2 ^ 23))) = FFin s (of_int n * pow2 (e - 150))"
proof -
  let ?b = "sign_bit s + (e * 2 ^ 23 + (n - 2 ^ 23))"
  have r: "0 \<le> n - 2 ^ 23" "n - 2 ^ 23 < 2 ^ 23" "0 \<le> e" "e < 256" using n e by simp_all
  have "?b div 2 ^ 23 mod 256 = e" "?b mod 2 ^ 23 = n - 2 ^ 23" by (rule fields_split [OF r])+
  moreover have "e * 2 ^ 23 \<le> 254 * 2 ^ 23" using e by simp
  with r have "2 ^ 31 \<le> ?b \<longleftrightarrow> s" by (simp add: sign_bit_def)
  ultimately show ?thesis using e by (simp add: f32_of_bits_def Let_def del: power_numeral)
qed

lemma f32_of_bits_bits: "f_wf x \<Longrightarrow> f32_of_bits (f32_bits x) = x"
proof (cases x)
  case (FFin s m)
  assume wf: "f_wf x"
  show ?thesis
  proof (cases "m = 0")
    case True
    then show ?thesis by (simp add: FFin sign_bit_def f32_of_bits_def Let_def)
  next
    case False
    with wf FFin have r: "f_repr m" "m \<le> f_max" "0 < m" by (auto simp: f_repr_def)
    obtain n where n: "m = of_int n * pow2 (ulp_exp m)" "0 < n" "n < 2 ^ 24"
      "2 ^ 23 \<le> n \<or> ulp_exp m = - 149"
      using f_repr_significand [OF r(1) False] .
    have d: "m / pow2 (ulp_exp m) = of_int n"
      using n(1) by (metis nonzero_mult_div_cancel_right pow2_neq0)
    have k: "1 \<le> ulp_exp m + 150" "ulp_exp m + 150 \<le> 254"
      using ulp_exp_upper [OF r(3,2)] by (simp_all add: ulp_exp_def)
    show ?thesis
    proof (cases "n < 2 ^ 23")
      case True
      then have u: "ulp_exp m = - 149" using n(4) by simp
      have "f32_bits x = sign_bit s + n" using True by (simp add: FFin False d Let_def)
      then show ?thesis using f32_of_bits_subnormal [OF n(2) True] n(1) by (simp only: FFin u)
    next
      case F: False
      have "f32_bits x = sign_bit s + ((ulp_exp m + 150) * 2 ^ 23 + (n - 2 ^ 23))" using F by (simp add: FFin False d Let_def)
      then show ?thesis using f32_of_bits_normal [OF _ n(3) k, of s] F n(1) by (simp only: FFin not_less) simp
    qed
  qed
qed (auto simp: sign_bit_def f32_of_bits_def Let_def)

lemma f32_of_bytes_bytes [simp]: "f_wf x \<Longrightarrow> f32_of_bytes (f32_bytes x) = x"
  using f32_bits_range [of x]
  by (simp add: f32_of_bytes_def f32_bytes_def bytes_int_bytes f32_of_bits_bits)

end
