(* ===== verification/Settings.thy ===== *)
theory Settings
  imports System_State Eeprom Float_Bytes
begin

text \<open>
  settings.c: the persistent settings, their layout in the EEPROM, and the \<open>$x=val\<close> commands.
  \<open>settings_t\<close> is the global structure; its bytes in memory are \<open>settings_bytes\<close> (the AVR
  packs structures without padding, 85 bytes). \<open>cfg\<close> joins it with the EEPROM and with the
  list of calls the code makes into other components, newest last, so that each operation
  shows all of its effects in order.
\<close>

section \<open>State\<close>

definition BITFLAG_LASER_MODE :: u8 where [grbl_const]: "BITFLAG_LASER_MODE = 2"
definition BITFLAG_INVERT_ST_ENABLE :: u8 where [grbl_const]: "BITFLAG_INVERT_ST_ENABLE = 4"
definition BITFLAG_HARD_LIMIT_ENABLE :: u8 where [grbl_const]: "BITFLAG_HARD_LIMIT_ENABLE = 8"
definition BITFLAG_HOMING_ENABLE :: u8 where [grbl_const]: "BITFLAG_HOMING_ENABLE = 16"
definition BITFLAG_SOFT_LIMIT_ENABLE :: u8 where [grbl_const]: "BITFLAG_SOFT_LIMIT_ENABLE = 32"
definition BITFLAG_INVERT_LIMIT_PINS :: u8 where [grbl_const]: "BITFLAG_INVERT_LIMIT_PINS = 64"
definition BITFLAG_INVERT_PROBE_PIN :: u8 where [grbl_const]: "BITFLAG_INVERT_PROBE_PIN = 128"

definition SETTINGS_RESTORE_DEFAULTS :: u8 where [grbl_const]: "SETTINGS_RESTORE_DEFAULTS = 1"
definition SETTINGS_RESTORE_PARAMETERS :: u8 where [grbl_const]: "SETTINGS_RESTORE_PARAMETERS = 2"
definition SETTINGS_RESTORE_STARTUP_LINES :: u8 where [grbl_const]: "SETTINGS_RESTORE_STARTUP_LINES = 4"
definition SETTINGS_RESTORE_BUILD_INFO :: u8 where [grbl_const]: "SETTINGS_RESTORE_BUILD_INFO = 8"
definition SETTINGS_RESTORE_ALL :: u8 where [grbl_const]: "SETTINGS_RESTORE_ALL = 255"

definition SETTINGS_VERSION :: u8 where [grbl_const]: "SETTINGS_VERSION = 10"
definition LINE_BUFFER_SIZE :: nat where [grbl_const]: "LINE_BUFFER_SIZE = 80"
definition N_STARTUP_LINE :: nat where [grbl_const]: "N_STARTUP_LINE = 2"
definition EEPROM_ADDR_GLOBAL :: u16 where [grbl_const]: "EEPROM_ADDR_GLOBAL = 1"
definition EEPROM_ADDR_PARAMETERS :: u16 where [grbl_const]: "EEPROM_ADDR_PARAMETERS = 512"
definition EEPROM_ADDR_STARTUP_BLOCK :: u16 where [grbl_const]: "EEPROM_ADDR_STARTUP_BLOCK = 768"
definition EEPROM_ADDR_BUILD_INFO :: u16 where [grbl_const]: "EEPROM_ADDR_BUILD_INFO = 942"
definition SETTING_INDEX_NCOORD :: nat where [grbl_const]: "SETTING_INDEX_NCOORD = 6 + 1"
definition AXIS_N_SETTINGS :: u8 where [grbl_const]: "AXIS_N_SETTINGS = 4"
definition AXIS_SETTINGS_START_VAL :: u8 where [grbl_const]: "AXIS_SETTINGS_START_VAL = 100"
definition AXIS_SETTINGS_INCREMENT :: u8 where [grbl_const]: "AXIS_SETTINGS_INCREMENT = 10"

record settings_t =
  steps_per_mm :: vec
  max_rate :: vec
  acceleration :: vec
  max_travel :: vec
  pulse_microseconds :: u8
  step_invert_mask :: u8
  dir_invert_mask :: u8
  stepper_idle_lock_time :: u8
  status_report_mask :: u8
  junction_deviation :: f32
  arc_tolerance :: f32
  rpm_max :: f32
  rpm_min :: f32
  settings_flags :: u8
  homing_dir_mask :: u8
  homing_feed_rate :: f32
  homing_seek_rate :: f32
  homing_debounce_delay :: u16
  homing_pulloff :: f32

datatype cfg_call =
    Call_protocol_buffer_synchronize
  | Call_st_generate_step_dir_invert_masks
  | Call_probe_configure_invert_mask bool
  | Call_system_flag_wco_change
  | Call_limits_init
  | Call_spindle_init
  | Call_report_status_message status
  | Call_report_grbl_settings

record cfg =
  settings :: settings_t
  eeprom :: eeprom
  cfg_calls :: "cfg_call list"

definition cfg_call :: "cfg_call \<Rightarrow> cfg \<Rightarrow> cfg" where
  "cfg_call c s = s\<lparr>cfg_calls := cfg_calls s @ [c]\<rparr>"

section \<open>The structure in memory\<close>

definition settings_bytes :: "settings_t \<Rightarrow> u8 list" where
  "settings_bytes s =
     concat (map f32_bytes (steps_per_mm s @ max_rate s @ acceleration s @ max_travel s))
     @ [pulse_microseconds s, step_invert_mask s, dir_invert_mask s,
        stepper_idle_lock_time s, status_report_mask s]
     @ concat (map f32_bytes [junction_deviation s, arc_tolerance s, rpm_max s, rpm_min s])
     @ [settings_flags s, homing_dir_mask s]
     @ concat (map f32_bytes [homing_feed_rate s, homing_seek_rate s])
     @ int_bytes 2 (uint (homing_debounce_delay s))
     @ f32_bytes (homing_pulloff s)"

definition f32_at :: "u8 list \<Rightarrow> nat \<Rightarrow> f32" where
  "f32_at bs i = f32_of_bytes (take 4 (drop i bs))"

definition vec_at :: "u8 list \<Rightarrow> nat \<Rightarrow> vec" where
  "vec_at bs i = [f32_at bs i, f32_at bs (i + 4), f32_at bs (i + 8)]"

definition settings_of_bytes :: "u8 list \<Rightarrow> settings_t" where
  "settings_of_bytes bs =
     \<lparr>steps_per_mm = vec_at bs 0, max_rate = vec_at bs 12, acceleration = vec_at bs 24,
      max_travel = vec_at bs 36, pulse_microseconds = bs ! 48, step_invert_mask = bs ! 49,
      dir_invert_mask = bs ! 50, stepper_idle_lock_time = bs ! 51, status_report_mask = bs ! 52,
      junction_deviation = f32_at bs 53, arc_tolerance = f32_at bs 57, rpm_max = f32_at bs 61,
      rpm_min = f32_at bs 65, settings_flags = bs ! 69, homing_dir_mask = bs ! 70,
      homing_feed_rate = f32_at bs 71, homing_seek_rate = f32_at bs 75,
      homing_debounce_delay = word_of_int (bytes_int (take 2 (drop 79 bs))),
      homing_pulloff = f32_at bs 81\<rparr>"

definition sizeof_settings_t :: nat where [grbl_const]: "sizeof_settings_t = 85"

section \<open>Reading and writing records\<close>

definition settings_store_startup_line :: "u8 \<Rightarrow> u8 list \<Rightarrow> cfg \<Rightarrow> cfg" where
  "settings_store_startup_line n line s =
     (let s = cfg_call Call_protocol_buffer_synchronize s;
          addr = of_nat (unat n * (LINE_BUFFER_SIZE + 1)) + EEPROM_ADDR_STARTUP_BLOCK
      in s\<lparr>eeprom := memcpy_to_eeprom_with_checksum (eeprom s) addr (take LINE_BUFFER_SIZE line)\<rparr>)"

definition settings_store_build_info :: "u8 list \<Rightarrow> cfg \<Rightarrow> cfg" where
  "settings_store_build_info line s =
     s\<lparr>eeprom := memcpy_to_eeprom_with_checksum (eeprom s) EEPROM_ADDR_BUILD_INFO
                   (take LINE_BUFFER_SIZE line)\<rparr>"

definition coord_addr :: "u8 \<Rightarrow> u16" where
  "coord_addr coord_select = of_nat (unat coord_select * (4 * N_AXIS + 1)) + EEPROM_ADDR_PARAMETERS"

definition settings_write_coord_data :: "u8 \<Rightarrow> vec \<Rightarrow> cfg \<Rightarrow> cfg" where
  "settings_write_coord_data coord_select coord_data s =
     (let s = cfg_call Call_protocol_buffer_synchronize s
      in s\<lparr>eeprom := memcpy_to_eeprom_with_checksum (eeprom s) (coord_addr coord_select)
                       (concat (map f32_bytes coord_data))\<rparr>)"

definition write_global_settings :: "cfg \<Rightarrow> cfg" where
  "write_global_settings s =
     s\<lparr>eeprom := memcpy_to_eeprom_with_checksum (eeprom_put_char (eeprom s) 0 SETTINGS_VERSION)
                   EEPROM_ADDR_GLOBAL (settings_bytes (settings s))\<rparr>"

text \<open>The defaults of defaults.h for \<open>DEFAULTS_GENERIC\<close>.\<close>

definition default_settings :: settings_t where
  "default_settings =
     \<lparr>steps_per_mm = replicate N_AXIS (f_of_int 250), max_rate = replicate N_AXIS (f_of_int 500),
      acceleration = replicate N_AXIS (f_of_int (10 * 60 * 60)),
      max_travel = replicate N_AXIS (f_neg (f_of_int 200)),
      pulse_microseconds = 10, step_invert_mask = 0, dir_invert_mask = 0,
      stepper_idle_lock_time = 25, status_report_mask = 1,
      junction_deviation = f_of_rat (1/100), arc_tolerance = f_of_rat (2/1000),
      rpm_max = f_of_int 1000, rpm_min = f_of_int 0, settings_flags = 0, homing_dir_mask = 0,
      homing_feed_rate = f_of_int 25, homing_seek_rate = f_of_int 500,
      homing_debounce_delay = 250, homing_pulloff = f_of_int 1\<rparr>"

definition settings_restore :: "u8 \<Rightarrow> cfg \<Rightarrow> cfg" where
  "settings_restore restore_flag s =
     (let s = (if restore_flag AND SETTINGS_RESTORE_DEFAULTS \<noteq> 0
               then write_global_settings (s\<lparr>settings := default_settings\<rparr>) else s);
          s = (if restore_flag AND SETTINGS_RESTORE_PARAMETERS \<noteq> 0
               then fold (\<lambda>idx. settings_write_coord_data (of_nat idx) (replicate N_AXIS f_zero))
                      [0..<Suc SETTING_INDEX_NCOORD] s else s);
          s = (if restore_flag AND SETTINGS_RESTORE_STARTUP_LINES \<noteq> 0
               then s\<lparr>eeprom :=
                 (let e = eeprom s;
                      e = eeprom_put_char e EEPROM_ADDR_STARTUP_BLOCK 0;
                      e = eeprom_put_char e (EEPROM_ADDR_STARTUP_BLOCK + 1) 0;
                      e = eeprom_put_char e (EEPROM_ADDR_STARTUP_BLOCK + (of_nat LINE_BUFFER_SIZE + 1)) 0
                  in eeprom_put_char e (EEPROM_ADDR_STARTUP_BLOCK + (of_nat LINE_BUFFER_SIZE + 2)) 0)\<rparr>
               else s)
      in if restore_flag AND SETTINGS_RESTORE_BUILD_INFO \<noteq> 0
         then s\<lparr>eeprom := eeprom_put_char (eeprom_put_char (eeprom s) EEPROM_ADDR_BUILD_INFO 0)
                             (EEPROM_ADDR_BUILD_INFO + 1) 0\<rparr>
         else s)"

text \<open>
  The readers fill the caller's buffer before they know whether the checksum matches. On a
  mismatch they reset it and store the default.
\<close>

definition settings_read_startup_line :: "u8 \<Rightarrow> cfg \<Rightarrow> bool \<times> u8 list \<times> cfg" where
  "settings_read_startup_line n s =
     (let addr = of_nat (unat n * (LINE_BUFFER_SIZE + 1)) + EEPROM_ADDR_STARTUP_BLOCK;
          (line, ok) = memcpy_from_eeprom_with_checksum (eeprom s) addr LINE_BUFFER_SIZE
      in if \<not> ok then (let line = line[0 := 0] in (False, line, settings_store_startup_line n line s))
         else (True, line, s))"

definition settings_read_build_info :: "cfg \<Rightarrow> bool \<times> u8 list \<times> cfg" where
  "settings_read_build_info s =
     (let (line, ok) = memcpy_from_eeprom_with_checksum (eeprom s) EEPROM_ADDR_BUILD_INFO LINE_BUFFER_SIZE
      in if \<not> ok then (let line = line[0 := 0] in (False, line, settings_store_build_info line s))
         else (True, line, s))"

definition settings_read_coord_data :: "u8 \<Rightarrow> cfg \<Rightarrow> bool \<times> vec \<times> cfg" where
  "settings_read_coord_data coord_select s =
     (let (bs, ok) = memcpy_from_eeprom_with_checksum (eeprom s) (coord_addr coord_select) (4 * N_AXIS)
      in if \<not> ok
         then (let coord_data = replicate N_AXIS f_zero
               in (False, coord_data, settings_write_coord_data coord_select coord_data s))
         else (True, vec_at bs 0, s))"

definition read_global_settings :: "cfg \<Rightarrow> bool \<times> cfg" where
  "read_global_settings s =
     (let version = eeprom_get_char (eeprom s) 0 in
      if version = SETTINGS_VERSION
      then (let (bs, ok) = memcpy_from_eeprom_with_checksum (eeprom s) EEPROM_ADDR_GLOBAL sizeof_settings_t
            in (ok, s\<lparr>settings := settings_of_bytes bs\<rparr>))
      else (False, s))"

definition settings_init :: "cfg \<Rightarrow> cfg" where
  "settings_init s =
     (let (ok, s) = read_global_settings s in
      if \<not> ok
      then cfg_call Call_report_grbl_settings
             (settings_restore SETTINGS_RESTORE_ALL
               (cfg_call (Call_report_status_message STATUS_SETTING_READ_FAIL) s))
      else s)"

section \<open>Changing a setting\<close>

text \<open>
  The search loop for axis settings: from the parameter less 100 and setting index 0 to the
  setting index and the axis, or \<open>None\<close> for \<open>STATUS_INVALID_STATEMENT\<close>.
\<close>

function axis_setting_loop :: "u8 \<Rightarrow> u8 \<Rightarrow> (u8 \<times> u8) option" where
  "axis_setting_loop parameter set_idx =
     (if set_idx < AXIS_N_SETTINGS then
        (if parameter < of_nat N_AXIS then Some (set_idx, parameter)
         else (let set_idx = set_idx + 1 in
               if parameter < AXIS_SETTINGS_INCREMENT \<or> set_idx = AXIS_N_SETTINGS then None
               else axis_setting_loop (parameter - AXIS_SETTINGS_INCREMENT) set_idx))
      else Some (set_idx, parameter))"
  by pat_completeness auto
termination
proof (relation "measure (\<lambda>(p, i). 4 - unat i)")
  fix parameter set_idx i :: u8
  assume a: "set_idx < AXIS_N_SETTINGS" "i = set_idx + 1"
  then have "unat set_idx < 4" by (simp add: grbl_const word_less_nat_alt)
  moreover from this have "unat i = Suc (unat set_idx)" unfolding a(2) by (intro unat_u8_Suc) simp
  ultimately show "((parameter - AXIS_SETTINGS_INCREMENT, i), parameter, set_idx)
      \<in> measure (\<lambda>(p, i). 4 - unat i)" by simp
qed simp

declare axis_setting_loop.simps [simp del]

definition store_axis_setting :: "u8 \<Rightarrow> nat \<Rightarrow> f32 \<Rightarrow> settings_t \<Rightarrow> settings_t" where
  "store_axis_setting set_idx axis value s =
     (if set_idx = 0 then s\<lparr>steps_per_mm := (steps_per_mm s)[axis := value]\<rparr>
      else if set_idx = 1 then s\<lparr>max_rate := (max_rate s)[axis := value]\<rparr>
      else if set_idx = 2 then s\<lparr>acceleration := (acceleration s)
             [axis := f_mul (f_mul value (f_of_int 60)) (f_of_int 60)]\<rparr>
      else if set_idx = 3 then s\<lparr>max_travel := (max_travel s)[axis := f_neg value]\<rparr>
      else s)"

definition set_flag :: "bool \<Rightarrow> u8 \<Rightarrow> settings_t \<Rightarrow> settings_t" where
  "set_flag b m s = s\<lparr>settings_flags :=
     (if b then bit_true (settings_flags s) m else bit_false (settings_flags s) m)\<rparr>"

definition upd_settings :: "(settings_t \<Rightarrow> settings_t) \<Rightarrow> cfg \<Rightarrow> cfg" where
  "upd_settings f s = s\<lparr>settings := f (settings s)\<rparr>"

text \<open>The settings below 100: the \<open>switch\<close> on the parameter, with its early returns.\<close>

definition store_global :: "u8 \<Rightarrow> f32 \<Rightarrow> cfg \<Rightarrow> status + cfg" where
  "store_global parameter value s =
     (let int_value = (word_of_int (f_to_int (f_trunc value)) :: u8); on = (int_value \<noteq> 0) in
      if parameter = 0 then
        (if int_value < 3 then Inl STATUS_SETTING_STEP_PULSE_MIN
         else Inr (upd_settings (pulse_microseconds_update (\<lambda>_. int_value)) s))
      else if parameter = 1 then Inr (upd_settings (stepper_idle_lock_time_update (\<lambda>_. int_value)) s)
      else if parameter = 2 then
        Inr (cfg_call Call_st_generate_step_dir_invert_masks
              (upd_settings (step_invert_mask_update (\<lambda>_. int_value)) s))
      else if parameter = 3 then
        Inr (cfg_call Call_st_generate_step_dir_invert_masks
              (upd_settings (dir_invert_mask_update (\<lambda>_. int_value)) s))
      else if parameter = 4 then Inr (upd_settings (set_flag on BITFLAG_INVERT_ST_ENABLE) s)
      else if parameter = 5 then Inr (upd_settings (set_flag on BITFLAG_INVERT_LIMIT_PINS) s)
      else if parameter = 6 then
        Inr (cfg_call (Call_probe_configure_invert_mask False)
              (upd_settings (set_flag on BITFLAG_INVERT_PROBE_PIN) s))
      else if parameter = 10 then Inr (upd_settings (status_report_mask_update (\<lambda>_. int_value)) s)
      else if parameter = 11 then Inr (upd_settings (junction_deviation_update (\<lambda>_. value)) s)
      else if parameter = 12 then Inr (upd_settings (arc_tolerance_update (\<lambda>_. value)) s)
      else if parameter = 13 then
        Inr (cfg_call Call_system_flag_wco_change (upd_settings (set_flag on BITFLAG_REPORT_INCHES) s))
      else if parameter = 20 then
        (if on then
           (if bit_isfalse (settings_flags (settings s)) BITFLAG_HOMING_ENABLE
            then Inl STATUS_SOFT_LIMIT_ERROR
            else Inr (upd_settings (set_flag True BITFLAG_SOFT_LIMIT_ENABLE) s))
         else Inr (upd_settings (set_flag False BITFLAG_SOFT_LIMIT_ENABLE) s))
      else if parameter = 21 then
        Inr (cfg_call Call_limits_init (upd_settings (set_flag on BITFLAG_HARD_LIMIT_ENABLE) s))
      else if parameter = 22 then
        Inr (if on then upd_settings (set_flag True BITFLAG_HOMING_ENABLE) s
             else upd_settings (set_flag False BITFLAG_SOFT_LIMIT_ENABLE)
                    (upd_settings (set_flag False BITFLAG_HOMING_ENABLE) s))
      else if parameter = 23 then Inr (upd_settings (homing_dir_mask_update (\<lambda>_. int_value)) s)
      else if parameter = 24 then Inr (upd_settings (homing_feed_rate_update (\<lambda>_. value)) s)
      else if parameter = 25 then Inr (upd_settings (homing_seek_rate_update (\<lambda>_. value)) s)
      else if parameter = 26 then
        Inr (upd_settings (homing_debounce_delay_update (\<lambda>_. ucast int_value)) s)
      else if parameter = 27 then Inr (upd_settings (homing_pulloff_update (\<lambda>_. value)) s)
      else if parameter = 30 then
        Inr (cfg_call Call_spindle_init (upd_settings (rpm_max_update (\<lambda>_. value)) s))
      else if parameter = 31 then
        Inr (cfg_call Call_spindle_init (upd_settings (rpm_min_update (\<lambda>_. value)) s))
      else if parameter = 32 then Inr (upd_settings (set_flag on BITFLAG_LASER_MODE) s)
      else Inl STATUS_INVALID_STATEMENT)"

definition settings_store_global_setting :: "u8 \<Rightarrow> f32 \<Rightarrow> cfg \<Rightarrow> status \<times> cfg" where
  "settings_store_global_setting parameter value s =
     (if f_lt value f_zero then (STATUS_NEGATIVE_VALUE, s)
      else (case (if AXIS_SETTINGS_START_VAL \<le> parameter
                  then (case axis_setting_loop (parameter - AXIS_SETTINGS_START_VAL) 0 of
                          None \<Rightarrow> Inl STATUS_INVALID_STATEMENT
                        | Some (set_idx, axis) \<Rightarrow>
                            Inr (upd_settings (store_axis_setting set_idx (unat axis) value) s))
                  else store_global parameter value s) of
              Inl e \<Rightarrow> (e, s)
            | Inr s' \<Rightarrow> (STATUS_OK, write_global_settings s')))"

section \<open>Pin masks\<close>

definition get_step_pin_mask :: "nat \<Rightarrow> u8" where
  "get_step_pin_mask axis_idx =
     (if axis_idx = X_AXIS then bitw 2 else if axis_idx = Y_AXIS then bitw 3 else bitw 4)"

definition get_direction_pin_mask :: "nat \<Rightarrow> u8" where
  "get_direction_pin_mask axis_idx =
     (if axis_idx = X_AXIS then bitw 5 else if axis_idx = Y_AXIS then bitw 6 else bitw 7)"

definition get_limit_pin_mask :: "nat \<Rightarrow> u8" where
  "get_limit_pin_mask axis_idx =
     (if axis_idx = X_AXIS then bitw 1 else if axis_idx = Y_AXIS then bitw 2 else bitw 4)"

section \<open>Well-formed settings and their bytes\<close>

definition vec_wf :: "vec \<Rightarrow> bool" where
  "vec_wf v = (length v = N_AXIS \<and> list_all f_wf v)"

definition settings_wf :: "settings_t \<Rightarrow> bool" where
  "settings_wf s \<longleftrightarrow> vec_wf (steps_per_mm s) \<and> vec_wf (max_rate s) \<and> vec_wf (acceleration s) \<and>
     vec_wf (max_travel s) \<and> f_wf (junction_deviation s) \<and> f_wf (arc_tolerance s) \<and>
     f_wf (rpm_max s) \<and> f_wf (rpm_min s) \<and> f_wf (homing_feed_rate s) \<and>
     f_wf (homing_seek_rate s) \<and> f_wf (homing_pulloff s)"

text \<open>Soft limits are only enabled together with homing.\<close>

definition soft_limit_inv :: "settings_t \<Rightarrow> bool" where
  "soft_limit_inv s \<longleftrightarrow> (bit_istrue (settings_flags s) BITFLAG_SOFT_LIMIT_ENABLE \<longrightarrow>
     bit_istrue (settings_flags s) BITFLAG_HOMING_ENABLE)"

lemma vec_wf_cases:
  assumes "vec_wf v"
  obtains a b c where "v = [a, b, c]" and "f_wf a" and "f_wf b" and "f_wf c"
  using assms by (auto simp: vec_wf_def grbl_const numeral_3_eq_3 length_Suc_conv)

lemma settings_bytes_of_bytes: "settings_wf s \<Longrightarrow> settings_of_bytes (settings_bytes s) = s"
proof -
  assume wf: "settings_wf s"
  then obtain a b c d e f g h i j k l where
    v: "steps_per_mm s = [a, b, c]" "max_rate s = [d, e, f]" "acceleration s = [g, h, i]"
      "max_travel s = [j, k, l]"
    and w: "f_wf a" "f_wf b" "f_wf c" "f_wf d" "f_wf e" "f_wf f" "f_wf g" "f_wf h" "f_wf i"
      "f_wf j" "f_wf k" "f_wf l"
    unfolding settings_wf_def by (metis vec_wf_cases)
  have "uint (homing_debounce_delay s) < 256 ^ 2"
    using uint_bounded [of "homing_debounce_delay s"] by simp
  then have d: "bytes_int (int_bytes 2 (uint (homing_debounce_delay s))) = uint (homing_debounce_delay s)"
    by (simp add: bytes_int_bytes)
  show ?thesis
    using wf w d
    by (simp add: settings_of_bytes_def settings_bytes_def vec_at_def f32_at_def v settings_wf_def
        nth_append nth_Cons')
qed

lemma length_settings_bytes: "settings_wf s \<Longrightarrow> length (settings_bytes s) = sizeof_settings_t"
  by (auto simp: settings_wf_def settings_bytes_def grbl_const elim!: vec_wf_cases)

section \<open>Lemmas\<close>

lemma settings_upd [simp]: "settings (upd_settings f s) = f (settings s)" "eeprom (upd_settings f s) = eeprom s"
  by (simp_all add: upd_settings_def)

lemma settings_cfg_call [simp]: "settings (cfg_call c s) = settings s" "eeprom (cfg_call c s) = eeprom s"
  by (simp_all add: cfg_call_def)

lemma settings_write_global [simp]: "settings (write_global_settings s) = settings s"
  by (simp add: write_global_settings_def)

lemma settings_write_coord [simp]: "settings (settings_write_coord_data n v s) = settings s"
  by (simp add: settings_write_coord_data_def Let_def)

lemma global_block_roundtrip:
  assumes wf: "settings_wf (settings s)"
  shows "read_global_settings (write_global_settings s) = (True, write_global_settings s)"
proof -
  let ?bs = "settings_bytes (settings s)"
  let ?m = "eeprom_put_char (eeprom s) 0 SETTINGS_VERSION"
  let ?m' = "memcpy_to_eeprom_with_checksum ?m EEPROM_ADDR_GLOBAL ?bs"
  have len: "length ?bs = 85" using length_settings_bytes [OF wf] by (simp add: grbl_const)
  have "(0 :: u16) \<noteq> EEPROM_ADDR_GLOBAL + of_nat k" if "k \<le> length ?bs" for k
  proof
    assume "(0 :: u16) = EEPROM_ADDR_GLOBAL + of_nat k"
    then have "(of_nat (Suc k) :: u16) = 0" by (simp add: grbl_const)
    then have "65536 dvd Suc k" by (simp add: word_of_nat_eq_0_iff del: of_nat_Suc)
    then show False using that len by (auto dest: dvd_imp_le)
  qed
  then have v: "eeprom_get_char ?m' 0 = SETTINGS_VERSION"
    unfolding memcpy_to_eeprom_with_checksum_def
    by (subst ee.store_frame) (auto simp: ee.get_put)
  have b: "memcpy_from_eeprom_with_checksum ?m' EEPROM_ADDR_GLOBAL 85 = (?bs, True)"
    using ee.load_store_aux [of ?bs ?m EEPROM_ADDR_GLOBAL 0] len
    by (simp add: memcpy_from_eeprom_with_checksum_def memcpy_to_eeprom_with_checksum_def)
  show ?thesis
    unfolding read_global_settings_def write_global_settings_def
    using v b by (simp add: settings_bytes_of_bytes [OF wf] sizeof_settings_t_def)
qed

lemma settings_wf_default: "settings_wf default_settings"
  by (simp add: settings_wf_def default_settings_def vec_wf_def N_AXIS_def list_all_iff)

lemma store_global_wf:
  "store_global p v s = Inr s' \<Longrightarrow> f_wf v \<Longrightarrow> settings_wf (settings s) \<Longrightarrow> settings_wf (settings s')"
  unfolding store_global_def Let_def
  by (auto simp: settings_wf_def set_flag_def split: if_splits)

lemma vec_wf_update: "vec_wf xs \<Longrightarrow> f_wf v \<Longrightarrow> vec_wf (xs[i := v])"
  by (auto simp: vec_wf_def list_all_iff dest: set_update_subset_insert [THEN subsetD])

lemma store_axis_wf:
  "f_wf v \<Longrightarrow> settings_wf s \<Longrightarrow> settings_wf (store_axis_setting i a v s)"
  by (auto simp: settings_wf_def store_axis_setting_def vec_wf_update)

lemma store_global_soft:
  "store_global p v s = Inr s' \<Longrightarrow> soft_limit_inv (settings s) \<Longrightarrow> soft_limit_inv (settings s')"
  unfolding store_global_def Let_def
  by (auto simp: soft_limit_inv_def set_flag_def grbl_const bit_istrue_disjoint bit_isfalse_iff
      bit_istrue_set bit_istrue_clear split: if_splits)

lemma axis_setting_loop_eq:
  "unat i < 4 \<Longrightarrow> axis_setting_loop q i =
    (if unat q div 10 < 4 - unat i \<and> unat q mod 10 < 3
     then Some (i + of_nat (unat q div 10), of_nat (unat q mod 10)) else None)"
proof (induction q i rule: axis_setting_loop.induct)
  case (1 q i)
  have i: "i < AXIS_N_SETTINGS" and S: "unat (i + 1) = Suc (unat i)"
    using 1(2) by (simp_all add: grbl_const word_less_nat_alt unat_u8_Suc)
  have e: "i + 1 = AXIS_N_SETTINGS \<longleftrightarrow> unat i = 3"
    using S by (simp add: grbl_const u8_eq_iff)
  have c: "q < of_nat N_AXIS \<longleftrightarrow> unat q < 3" "q < AXIS_SETTINGS_INCREMENT \<longleftrightarrow> unat q < 10"
    by (simp_all add: grbl_const word_less_nat_alt)
  show ?case
  proof (cases "unat q < 10 \<or> unat i = 3")
    case True
    then show ?thesis
      using i 1(2) by (subst axis_setting_loop.simps) (auto simp: c e Let_def)
  next
    case False
    have s: "unat (q - AXIS_SETTINGS_INCREMENT) = unat q - 10"
      using False by (simp add: grbl_const unat_u8_sub word_le_nat_alt)
    have d: "(unat q - 10) mod 10 = unat q mod 10" "unat q div 10 = Suc ((unat q - 10) div 10)"
      using False by (simp_all add: le_mod_geq le_div_geq not_less)
    have "axis_setting_loop q i = axis_setting_loop (q - AXIS_SETTINGS_INCREMENT) (i + 1)"
      using i False by (subst axis_setting_loop.simps) (simp add: c e Let_def)
    also have "\<dots> = (if (unat q - 10) div 10 < 4 - Suc (unat i) \<and> unat q mod 10 < 3
        then Some (i + 1 + of_nat ((unat q - 10) div 10), of_nat (unat q mod 10)) else None)"
      using 1(1) [OF i _ refl] 1(2) False S unfolding c e s d(1) by simp
    finally show ?thesis using d(2) False by (auto simp: less_diff_conv)
  qed
qed

lemma store_global_error: "store_global p v s \<noteq> Inl STATUS_OK"
  unfolding store_global_def Let_def by (auto split: if_splits)

text \<open>The EEPROM regions of the global settings and of the coordinate records.\<close>

definition global_region :: "eeprom \<Rightarrow> u8 list" where
  "global_region m = map (\<lambda>k. m (of_nat k)) [0..<87]"

lemma global_region_cong:
  assumes "global_region (eeprom s) = global_region (eeprom s')"
  shows "fst (read_global_settings s) = fst (read_global_settings s')"
    and "fst (read_global_settings s) \<Longrightarrow>
      settings (snd (read_global_settings s)) = settings (snd (read_global_settings s'))"
proof -
  have g: "eeprom s (of_nat k) = eeprom s' (of_nat k)" if "k < 87" for k
    using assms that by (auto simp: global_region_def dest: map_eq_conv [THEN iffD1])
  have "eeprom_get_char (eeprom s) (EEPROM_ADDR_GLOBAL + of_nat k)
      = eeprom_get_char (eeprom s') (EEPROM_ADDR_GLOBAL + of_nat k)" if "k \<le> sizeof_settings_t" for k
    using g [of "Suc k"] that by (simp add: eeprom_get_char_def grbl_const)
  then have "memcpy_from_eeprom_with_checksum (eeprom s) EEPROM_ADDR_GLOBAL sizeof_settings_t
      = memcpy_from_eeprom_with_checksum (eeprom s') EEPROM_ADDR_GLOBAL sizeof_settings_t"
    unfolding memcpy_from_eeprom_with_checksum_def by (rule ee.load_cong)
  moreover have "eeprom s 0 = eeprom s' 0" using g [of 0] by simp
  ultimately show "fst (read_global_settings s) = fst (read_global_settings s')"
    "fst (read_global_settings s) \<Longrightarrow>
      settings (snd (read_global_settings s)) = settings (snd (read_global_settings s'))"
    by (auto simp: read_global_settings_def eeprom_get_char_def split: prod.splits)
qed

lemma of_nat_u16_eq: "m < 65536 \<Longrightarrow> n < 65536 \<Longrightarrow> (of_nat m :: u16) = of_nat n \<longleftrightarrow> m = n"
  by (simp add: word_unat_eq_iff unsigned_of_nat take_bit_eq_mod)

lemma global_region_put: "87 \<le> a \<Longrightarrow> a < 65536 \<Longrightarrow> global_region (eeprom_put_char m (of_nat a) v) = global_region m"
  by (simp add: global_region_def eeprom_put_char_def of_nat_u16_eq)

lemma global_region_memcpy:
  assumes "87 \<le> a" "a + length bs < 65536"
  shows "global_region (memcpy_to_eeprom_with_checksum m (of_nat a) bs) = global_region m"
proof -
  have "(of_nat k :: u16) \<noteq> of_nat a + of_nat j" if "k < 87" "j \<le> length bs" for k j
    using assms that of_nat_u16_eq [of k "a + j"] by simp
  then have "eeprom_get_char (memcpy_to_eeprom_with_checksum m (of_nat a) bs) (of_nat k)
      = eeprom_get_char m (of_nat k)" if "k < 87" for k
    unfolding memcpy_to_eeprom_with_checksum_def using that by (intro ee.store_frame) auto
  then show ?thesis by (simp add: global_region_def eeprom_get_char_def)
qed

lemma coord_addr_nat: "unat i \<le> 7 \<Longrightarrow> coord_addr i = of_nat (512 + 13 * unat i)"
  by (simp add: coord_addr_def grbl_const mult.commute)

lemma length_vec_bytes: "length (concat (map f32_bytes v)) = 4 * length v"
  by (induction v) (auto simp: f32_bytes_def)

lemma vec_bytes_roundtrip: "vec_wf v \<Longrightarrow> vec_at (concat (map f32_bytes v)) 0 = v"
  by (auto simp: vec_at_def f32_at_def f32_bytes_def f32_of_bytes_bytes [unfolded f32_bytes_def] elim!: vec_wf_cases)

lemma global_region_coord:
  "unat i \<le> 7 \<Longrightarrow> length v = N_AXIS \<Longrightarrow>
     global_region (eeprom (settings_write_coord_data i v s)) = global_region (eeprom s)"
  by (simp add: settings_write_coord_data_def Let_def coord_addr_nat global_region_memcpy length_vec_bytes
      grbl_const del: of_nat_add of_nat_mult)

lemma cfg_same_eeprom: "eeprom (settings_write_coord_data i v s) =
    memcpy_to_eeprom_with_checksum (eeprom s) (coord_addr i) (concat (map f32_bytes v))"
  by (simp add: settings_write_coord_data_def Let_def)

lemma global_region_restore:
  "restore_flag AND SETTINGS_RESTORE_DEFAULTS = 0 \<Longrightarrow>
     settings (settings_restore restore_flag s) = settings s
     \<and> global_region (eeprom (settings_restore restore_flag s)) = global_region (eeprom s)"
proof -
  have f: "settings (fold (\<lambda>i. settings_write_coord_data (of_nat i) (replicate N_AXIS f_zero)) is s) = settings s
      \<and> global_region (eeprom (fold (\<lambda>i. settings_write_coord_data (of_nat i) (replicate N_AXIS f_zero)) is s))
        = global_region (eeprom s)" if "\<forall>i \<in> set is. i \<le> 7" for "is" s
    using that
    by (induction "is" arbitrary: s) (simp_all add: global_region_coord unsigned_of_nat take_bit_eq_mod)
  have p: "global_region (eeprom_put_char m a v) = global_region m" if "87 \<le> unat a" for m a v
    using global_region_put [of "unat a" m v] that unsigned_less [of a] by simp
  assume "restore_flag AND SETTINGS_RESTORE_DEFAULTS = 0"
  then show ?thesis
    using f [of "[0..<Suc SETTING_INDEX_NCOORD]" s]
    by (simp add: settings_restore_def Let_def p EEPROM_ADDR_STARTUP_BLOCK_def EEPROM_ADDR_BUILD_INFO_def
        LINE_BUFFER_SIZE_def SETTING_INDEX_NCOORD_def del: upt_Suc)
qed

lemma settings_restore_default:
  assumes "restore_flag AND SETTINGS_RESTORE_DEFAULTS \<noteq> 0"
  shows "settings (settings_restore restore_flag s) = default_settings
     \<and> fst (read_global_settings (settings_restore restore_flag s))
     \<and> settings (snd (read_global_settings (settings_restore restore_flag s))) = default_settings"
proof -
  let ?s = "write_global_settings (s\<lparr>settings := default_settings\<rparr>)"
  let ?f = "restore_flag AND 254"
  have m: "?f AND SETTINGS_RESTORE_PARAMETERS = restore_flag AND SETTINGS_RESTORE_PARAMETERS"
    "?f AND SETTINGS_RESTORE_STARTUP_LINES = restore_flag AND SETTINGS_RESTORE_STARTUP_LINES"
    "?f AND SETTINGS_RESTORE_BUILD_INFO = restore_flag AND SETTINGS_RESTORE_BUILD_INFO"
    and z: "?f AND SETTINGS_RESTORE_DEFAULTS = 0"
    by (simp_all add: SETTINGS_RESTORE_PARAMETERS_def SETTINGS_RESTORE_STARTUP_LINES_def
        SETTINGS_RESTORE_BUILD_INFO_def SETTINGS_RESTORE_DEFAULTS_def and.assoc)
  have e: "settings_restore restore_flag s = settings_restore ?f ?s"
    unfolding settings_restore_def Let_def m z using assms by (simp only: simp_thms if_True if_False)
  have r: "read_global_settings ?s = (True, ?s)"
    by (rule global_block_roundtrip) (simp add: settings_wf_default)
  have g: "settings (settings_restore ?f ?s) = default_settings"
    "global_region (eeprom ?s) = global_region (eeprom (settings_restore ?f ?s))"
    using global_region_restore [OF z, of ?s] by simp_all
  have "fst (read_global_settings (settings_restore ?f ?s))"
    using global_region_cong(1) [OF g(2)] r by simp
  moreover have "settings (snd (read_global_settings (settings_restore ?f ?s))) = default_settings"
    using global_region_cong(2) [OF g(2)] r by simp
  ultimately show ?thesis using g(1) e by simp
qed

lemma read_global_settings_calls: "cfg_calls (snd (read_global_settings s)) = cfg_calls s"
  by (simp add: read_global_settings_def Let_def split_beta)

lemma cfg_calls_call: "cfg_calls (cfg_call c s) = cfg_calls s @ [c]"
  by (simp add: cfg_call_def)

lemma settings_restore_calls:
  "cfg_calls (settings_restore restore_flag s) = cfg_calls s @
     (if restore_flag AND SETTINGS_RESTORE_PARAMETERS \<noteq> 0
      then replicate 8 Call_protocol_buffer_synchronize else [])"
proof -
  have "cfg_calls (fold (\<lambda>i. settings_write_coord_data (of_nat i) v) is s)
      = cfg_calls s @ replicate (length is) Call_protocol_buffer_synchronize" for "is" v s
    by (induction "is" arbitrary: s)
      (simp_all add: settings_write_coord_data_def Let_def cfg_call_def)
  then show ?thesis
    by (simp add: settings_restore_def Let_def write_global_settings_def SETTING_INDEX_NCOORD_def
        del: upt_Suc)
qed

section \<open>Properties\<close>

text \<open>
  C22. A setting accepted by \<open>$x=val\<close> persists: after every accepted command the settings are
  still well formed and the EEPROM holds exactly them, so that a restart reads them back.
\<close>

theorem store_setting_persists:
  assumes "settings_wf (settings s)" and "f_wf val"
    and "settings_store_global_setting parameter val s = (STATUS_OK, s')"
  shows "settings_wf (settings s') \<and> read_global_settings s' = (True, s')"
proof -
  obtain s0 where s0: "s' = write_global_settings s0" "settings_wf (settings s0)"
    using assms store_global_error [of parameter val s]
    by (fastforce simp: settings_store_global_setting_def store_axis_wf split: if_splits sum.splits
        option.splits dest: store_global_wf)
  then show ?thesis using global_block_roundtrip [of s0] by simp
qed

theorem store_setting_persists_witness:
  "read_global_settings (snd (settings_store_global_setting 24 (f_of_int 30)
      \<lparr>settings = default_settings, eeprom = (\<lambda>_. 0xff), cfg_calls = []\<rparr>))
    = (True, snd (settings_store_global_setting 24 (f_of_int 30)
      \<lparr>settings = default_settings, eeprom = (\<lambda>_. 0xff), cfg_calls = []\<rparr>))"
proof -
  let ?s = "\<lparr>settings = default_settings, eeprom = (\<lambda>_. 0xff), cfg_calls = []\<rparr>"
  have "fst (settings_store_global_setting 24 (f_of_int 30) ?s) = STATUS_OK"
    by (simp add: settings_store_global_setting_def store_global_def Let_def AXIS_SETTINGS_START_VAL_def
        f_of_int_exact)
  then show ?thesis
    using store_setting_persists [of ?s "f_of_int 30" 24] settings_wf_default by (metis f_wf_of_int prod.collapse select_convs(1))
qed

text \<open>
  A rejected setting command changes nothing: on every error the settings, the EEPROM and
  the calls made so far are as before.
\<close>

theorem store_setting_error_unchanged:
  assumes "fst (settings_store_global_setting parameter val s) \<noteq> STATUS_OK"
  shows "snd (settings_store_global_setting parameter val s) = s"
  using assms by (auto simp: settings_store_global_setting_def split: sum.splits)

theorem store_setting_error_unchanged_witness:
  "snd (settings_store_global_setting 0 (f_of_int 2)
     \<lparr>settings = default_settings, eeprom = (\<lambda>_. 0xff), cfg_calls = []\<rparr>)
   = \<lparr>settings = default_settings, eeprom = (\<lambda>_. 0xff), cfg_calls = []\<rparr>"
  by (rule store_setting_error_unchanged)
    (simp add: settings_store_global_setting_def store_global_def Let_def AXIS_SETTINGS_START_VAL_def
      f_of_int_exact)

text \<open>
  Soft limits stay tied to homing: no setting command, accepted or rejected, leaves soft
  limits enabled without the homing cycle they depend on.
\<close>

theorem store_setting_soft_limit:
  assumes "soft_limit_inv (settings s)"
  shows "soft_limit_inv (settings (snd (settings_store_global_setting parameter val s)))"
  using assms store_global_soft [of parameter val s]
  by (auto simp: settings_store_global_setting_def store_axis_setting_def soft_limit_inv_def
      split: sum.splits if_splits option.splits prod.splits)

theorem store_setting_soft_limit_witness:
  "soft_limit_inv (settings (snd (settings_store_global_setting 20 (f_of_int 1)
     \<lparr>settings = default_settings, eeprom = (\<lambda>_. 0xff), cfg_calls = []\<rparr>)))"
  by (rule store_setting_soft_limit) (simp add: soft_limit_inv_def default_settings_def bit_istrue_def)

text \<open>
  The numbering of the axis settings is exact: parameter \<open>100 + 10 i + a\<close> with \<open>i < 4\<close> and
  \<open>a < 3\<close> sets entry \<open>a\<close> of the \<open>i\<close>-th axis setting and nothing else; every other parameter from
  100 on is rejected.
\<close>

theorem store_axis_setting_numbering:
  assumes "100 \<le> unat parameter" and "\<not> f_lt val f_zero"
  shows "settings_store_global_setting parameter val s =
    (let q = unat parameter - 100 in
     if q div 10 < 4 \<and> q mod 10 < 3
     then (STATUS_OK, write_global_settings
            (upd_settings (store_axis_setting (of_nat (q div 10)) (q mod 10) val) s))
     else (STATUS_INVALID_STATEMENT, s))"
proof -
  have "AXIS_SETTINGS_START_VAL \<le> parameter"
    using assms(1) by (simp add: grbl_const word_le_nat_alt)
  moreover from this have "unat (parameter - AXIS_SETTINGS_START_VAL) = unat parameter - 100"
    by (simp add: unat_u8_sub) (simp add: grbl_const)
  ultimately show ?thesis
    using assms axis_setting_loop_eq [of 0 "parameter - AXIS_SETTINGS_START_VAL"]
    by (simp add: settings_store_global_setting_def Let_def unsigned_of_nat take_bit_eq_mod)
qed

theorem store_axis_setting_numbering_witness:
  "settings_store_global_setting 121 (f_of_int 10)
     \<lparr>settings = default_settings, eeprom = (\<lambda>_. 0xff), cfg_calls = []\<rparr>
   = (STATUS_OK, write_global_settings (upd_settings (store_axis_setting 2 1 (f_of_int 10))
     \<lparr>settings = default_settings, eeprom = (\<lambda>_. 0xff), cfg_calls = []\<rparr>))"
  by (subst store_axis_setting_numbering) (simp_all add: f_of_int_exact)

text \<open>
  Coordinate systems persist independently: after two of the eight coordinate records
  have been written, each reads back exactly what was written to it, and the settings the next
  start will load are the same as before.
\<close>

theorem coord_data_roundtrip:
  assumes "unat i \<le> 7" and "unat j \<le> 7" and "i \<noteq> j" and "vec_wf v" and "vec_wf w"
    and "s' = settings_write_coord_data j w (settings_write_coord_data i v s)"
  shows "settings_read_coord_data i s' = (True, v, s') \<and> settings_read_coord_data j s' = (True, w, s')
    \<and> fst (read_global_settings s') = fst (read_global_settings s)"
proof -
  have l: "length (concat (map f32_bytes v)) = 4 * N_AXIS" "length (concat (map f32_bytes w)) = 4 * N_AXIS"
    using assms(4,5) by (simp_all add: length_vec_bytes vec_wf_def)
  have ij: "unat i \<noteq> unat j" using assms(3) by (simp add: u8_eq_iff)
  have ne: "coord_addr i + of_nat a \<noteq> coord_addr j + of_nat b"
    if "a \<le> length (concat (map f32_bytes v))" and "b \<le> length (concat (map f32_bytes w))" for a b
  proof -
    have "(512 + 13 * unat i) + a \<noteq> (512 + 13 * unat j) + b" using ij that l by (auto simp: grbl_const)
    then show ?thesis
      unfolding coord_addr_nat [OF assms(1)] coord_addr_nat [OF assms(2)] of_nat_add [symmetric]
      using that l assms(1,2) by (subst of_nat_u16_eq) (simp_all add: grbl_const)
  qed
  have "memcpy_from_eeprom_with_checksum (eeprom s') (coord_addr i) (4 * N_AXIS)
        = (concat (map f32_bytes v), True)
      \<and> memcpy_from_eeprom_with_checksum (eeprom s') (coord_addr j) (4 * N_AXIS)
        = (concat (map f32_bytes w), True)"
    using eeprom_two_blocks [OF _ _ ne, where m' = "eeprom s'" and m = "eeprom s"
        and bs = "concat (map f32_bytes v)" and cs = "concat (map f32_bytes w)"] l by (simp add: assms(6) cfg_same_eeprom N_AXIS_def)
  moreover have "global_region (eeprom s') = global_region (eeprom s)"
    using assms by (simp add: global_region_coord vec_wf_def)
  then have "fst (read_global_settings s') = fst (read_global_settings s)"
    by (rule global_region_cong(1))
  ultimately show ?thesis
    using assms(4,5) by (simp add: settings_read_coord_data_def vec_bytes_roundtrip)
qed

theorem coord_data_roundtrip_witness:
  "fst (snd (settings_read_coord_data 0 (settings_write_coord_data 1 [f_of_int 1, f_of_int 2, f_of_int 3]
     (settings_write_coord_data 0 [f_of_int 7, f_of_int 8, f_of_int 9]
       \<lparr>settings = default_settings, eeprom = (\<lambda>_. 0xff), cfg_calls = []\<rparr>))))
   = [f_of_int 7, f_of_int 8, f_of_int 9]"
proof -
  have w: "vec_wf [f_of_int a, f_of_int b, f_of_int c]" for a b c by (simp add: vec_wf_def N_AXIS_def)
  have i: "unat (0 :: u8) \<le> 7" "unat (1 :: u8) \<le> 7" "(0 :: u8) \<noteq> 1" by simp_all
  show ?thesis
    unfolding coord_data_roundtrip [OF i w w refl, THEN conjunct1] by (simp only: fst_conv snd_conv)
qed

text \<open>
  Start-up recovers from an unreadable EEPROM: when the version byte or the checksum does
  not match, \<open>settings_init\<close> loads the defaults and writes them back so that the next start
  reads them, and reports the failure and then the settings.
\<close>

theorem settings_init_recovers:
  assumes "\<not> fst (read_global_settings s)" and "s' = settings_init s"
  shows "settings s' = default_settings \<and> fst (read_global_settings s')
    \<and> settings (snd (read_global_settings s')) = default_settings
    \<and> cfg_calls s' = cfg_calls s @ [Call_report_status_message STATUS_SETTING_READ_FAIL]
        @ replicate 8 Call_protocol_buffer_synchronize @ [Call_report_grbl_settings]"
proof -
  let ?s = "cfg_call (Call_report_status_message STATUS_SETTING_READ_FAIL) (snd (read_global_settings s))"
  have s': "s' = cfg_call Call_report_grbl_settings (settings_restore SETTINGS_RESTORE_ALL ?s)"
    using assms by (simp add: settings_init_def split_beta)
  have "read_global_settings (cfg_call c r) = (fst (read_global_settings r), cfg_call c (snd (read_global_settings r)))"
    for c r by (simp add: read_global_settings_def cfg_call_def Let_def split_beta)
  moreover have "SETTINGS_RESTORE_ALL AND SETTINGS_RESTORE_DEFAULTS \<noteq> 0"
    by (simp add: grbl_const)
  moreover have "cfg_calls (settings_restore SETTINGS_RESTORE_ALL ?s)
      = cfg_calls ?s @ replicate 8 Call_protocol_buffer_synchronize"
    by (simp add: settings_restore_calls) (simp add: grbl_const)
  ultimately show ?thesis
    using settings_restore_default [of SETTINGS_RESTORE_ALL ?s]
    unfolding s' by (simp add: read_global_settings_calls cfg_calls_call)
qed

theorem settings_init_recovers_witness:
  "settings (settings_init \<lparr>settings = default_settings\<lparr>pulse_microseconds := 1\<rparr>, eeprom = (\<lambda>_. 0xff), cfg_calls = []\<rparr>) = default_settings"
proof -
  have "\<not> fst (read_global_settings \<lparr>settings = default_settings\<lparr>pulse_microseconds := 1\<rparr>, eeprom = (\<lambda>_. 0xff), cfg_calls = []\<rparr>)"
    by (simp add: read_global_settings_def eeprom_get_char_def SETTINGS_VERSION_def)
  from settings_init_recovers [OF this refl] show ?thesis by simp
qed

text \<open>
  The startup lines cleared by \<open>settings_restore\<close> do not pass their own checksum: on an
  erased EEPROM the first read after the restore fails, because the checksum byte is written
  right after the terminator and not behind the whole line buffer where the reader expects it.
\<close>

theorem restored_startup_line_fails:
  "fst (settings_read_startup_line 0
     (settings_restore SETTINGS_RESTORE_STARTUP_LINES
       \<lparr>settings = st, eeprom = (\<lambda>_. 0xff), cfg_calls = calls\<rparr>)) = False"
proof -
  let ?s = "settings_restore SETTINGS_RESTORE_STARTUP_LINES
       \<lparr>settings = st, eeprom = (\<lambda>_. 0xff), cfg_calls = calls\<rparr>"
  have g: "eeprom_get_char (eeprom ?s) (EEPROM_ADDR_STARTUP_BLOCK + of_nat k) = (if k < 2 then 0 else 0xff)"
    if "k \<le> 80" for k
  proof -
    have [simp]: "(of_nat k :: u16) = 0 \<longleftrightarrow> k = 0" "(of_nat k :: u16) = 1 \<longleftrightarrow> k = 1"
      "(of_nat k :: u16) \<noteq> 81" "(of_nat k :: u16) \<noteq> 82"
      using that of_nat_u16_eq [of k 0] of_nat_u16_eq [of k 1] of_nat_u16_eq [of k 81]
        of_nat_u16_eq [of k 82] by auto
    show ?thesis
      by (simp add: settings_restore_def Let_def grbl_const ee.get_put) (auto simp: eeprom_get_char_def)
  qed
  have m: "map (\<lambda>k. eeprom_get_char (eeprom ?s) (EEPROM_ADDR_STARTUP_BLOCK + of_nat k)) [0..<80]
      = [0, 0] @ replicate 78 0xff"
    by (rule nth_equalityI) (auto simp: g nth_append nth_Cons' simp del: replicate_Suc)
  have w: "(256 :: u8) = 0" by simp
  have c: "foldl checksum_step 0 (replicate (n + n) 0xff) = 0" for n
    by (induction n) (simp_all add: checksum_step_eq w)
  have "\<not> snd (memcpy_from_eeprom_with_checksum (eeprom ?s) EEPROM_ADDR_STARTUP_BLOCK LINE_BUFFER_SIZE)"
    using c [of 39] g [of 80]
    by (simp add: memcpy_from_eeprom_with_checksum_def load_bytes_eq m LINE_BUFFER_SIZE_def
        checksum_step_eq del: replicate_Suc upt_rec_numeral)
  then show ?thesis
    by (auto simp: settings_read_startup_line_def Let_def split: prod.splits)
qed

end
