(* ===== verification/Plan_Data.thy ===== *)
theory Plan_Data
  imports Settings
begin

text \<open>
  planner.h: the block of the motion planner, the data a caller passes with a line, and the
  condition flags. The same flag bits encode the spindle and coolant modes of the parser
  (gcode.h), so they stand before the components that drive those outputs.
\<close>

definition BLOCK_BUFFER_SIZE :: nat where [grbl_const]: "BLOCK_BUFFER_SIZE = 16"

definition PL_COND_FLAG_RAPID_MOTION :: u8 where [grbl_const]: "PL_COND_FLAG_RAPID_MOTION = 1"
definition PL_COND_FLAG_SYSTEM_MOTION :: u8 where [grbl_const]: "PL_COND_FLAG_SYSTEM_MOTION = 2"
definition PL_COND_FLAG_NO_FEED_OVERRIDE :: u8 where [grbl_const]: "PL_COND_FLAG_NO_FEED_OVERRIDE = 4"
definition PL_COND_FLAG_INVERSE_TIME :: u8 where [grbl_const]: "PL_COND_FLAG_INVERSE_TIME = 8"
definition PL_COND_FLAG_SPINDLE_CW :: u8 where [grbl_const]: "PL_COND_FLAG_SPINDLE_CW = 16"
definition PL_COND_FLAG_SPINDLE_CCW :: u8 where [grbl_const]: "PL_COND_FLAG_SPINDLE_CCW = 32"
definition PL_COND_FLAG_COOLANT_FLOOD :: u8 where [grbl_const]: "PL_COND_FLAG_COOLANT_FLOOD = 64"
definition PL_COND_FLAG_COOLANT_MIST :: u8 where [grbl_const]: "PL_COND_FLAG_COOLANT_MIST = 128"
definition PL_COND_MOTION_MASK :: u8 where [grbl_const]: "PL_COND_MOTION_MASK = 7"
definition PL_COND_ACCESSORY_MASK :: u8 where [grbl_const]: "PL_COND_ACCESSORY_MASK = 240"

definition SPINDLE_DISABLE :: u8 where [grbl_const]: "SPINDLE_DISABLE = 0"
definition SPINDLE_ENABLE_CW :: u8 where [grbl_const]: "SPINDLE_ENABLE_CW = PL_COND_FLAG_SPINDLE_CW"
definition SPINDLE_ENABLE_CCW :: u8 where [grbl_const]: "SPINDLE_ENABLE_CCW = PL_COND_FLAG_SPINDLE_CCW"
definition COOLANT_DISABLE :: u8 where [grbl_const]: "COOLANT_DISABLE = 0"
definition COOLANT_FLOOD_ENABLE :: u8 where [grbl_const]: "COOLANT_FLOOD_ENABLE = PL_COND_FLAG_COOLANT_FLOOD"
definition COOLANT_MIST_ENABLE :: u8 where [grbl_const]: "COOLANT_MIST_ENABLE = PL_COND_FLAG_COOLANT_MIST"

record plan_block_t =
  steps :: "u32 list"
  step_event_count :: u32
  direction_bits :: u8
  condition :: u8
  entry_speed_sqr :: f32
  max_entry_speed_sqr :: f32
  pb_acceleration :: f32
  millimeters :: f32
  max_junction_speed_sqr :: f32
  rapid_rate :: f32
  programmed_rate :: f32
  pb_spindle_speed :: f32

record plan_line_data_t =
  pd_feed_rate :: f32
  pd_spindle_speed :: f32
  pd_condition :: u8

text \<open>The zeroed structures (\<open>memset\<close> with 0).\<close>

definition plan_block_zero :: plan_block_t where
  "plan_block_zero =
     \<lparr>steps = replicate N_AXIS 0, step_event_count = 0, direction_bits = 0, condition = 0,
      entry_speed_sqr = f_zero, max_entry_speed_sqr = f_zero, pb_acceleration = f_zero,
      millimeters = f_zero, max_junction_speed_sqr = f_zero, rapid_rate = f_zero,
      programmed_rate = f_zero, pb_spindle_speed = f_zero\<rparr>"

definition plan_line_data_zero :: plan_line_data_t where
  "plan_line_data_zero = \<lparr>pd_feed_rate = f_zero, pd_spindle_speed = f_zero, pd_condition = 0\<rparr>"

end
