(* ===== verification/Planner.thy ===== *)
theory Planner
  imports Plan_Data Ring_Index
begin

text \<open>
  planner.c: the ring of motion blocks and the look-ahead that sets their entry speeds. The
  static variables of the file are the record \<open>planner_t\<close>; the stepper theory extends it with
  its own state. \<open>planner_recalculate\<close> calls back into the stepper
  (\<open>st_update_plan_block_parameters\<close>), so the routines that reach it take that routine as the
  argument \<open>upd\<close>, over any extension of the record; the stepper theory supplies the code's own.

  The two passes of \<open>planner_recalculate\<close> walk the ring by index. Each is a recursion with
  one unit of fuel for every slot of the ring, which Planner_Lookahead shows to be enough.
\<close>

section \<open>State\<close>

record planner_t =
  block_buffer :: "plan_block_t list"
  block_buffer_tail :: u8
  block_buffer_head :: u8
  next_buffer_head :: u8
  block_buffer_planned :: u8
  pl_position :: "int list"
  pl_previous_unit_vec :: vec
  pl_previous_nominal_speed :: f32

definition MINIMUM_FEED_RATE :: f32 where "MINIMUM_FEED_RATE = f_of_int 1"
definition MINIMUM_JUNCTION_SPEED :: f32 where "MINIMUM_JUNCTION_SPEED = f_zero"

definition blk :: "'a planner_t_scheme \<Rightarrow> u8 \<Rightarrow> plan_block_t" where
  "blk s i = block_buffer s ! unat i"

definition upd_blk :: "u8 \<Rightarrow> (plan_block_t \<Rightarrow> plan_block_t) \<Rightarrow> 'a planner_t_scheme \<Rightarrow> 'a planner_t_scheme" where
  "upd_blk i f s = s\<lparr>block_buffer := (block_buffer s)[unat i := f (blk s i)]\<rparr>"

section \<open>Ring indices\<close>

definition plan_next_block_index :: "u8 \<Rightarrow> u8" where
  "plan_next_block_index block_index =
     (let block_index = block_index + 1
      in if block_index = of_nat BLOCK_BUFFER_SIZE then 0 else block_index)"

definition plan_prev_block_index :: "u8 \<Rightarrow> u8" where
  "plan_prev_block_index block_index =
     (let block_index = (if block_index = 0 then of_nat BLOCK_BUFFER_SIZE else block_index)
      in block_index - 1)"

definition plan_reset_buffer :: "'a planner_t_scheme \<Rightarrow> 'a planner_t_scheme" where
  "plan_reset_buffer s = s\<lparr>block_buffer_tail := 0, block_buffer_head := 0, next_buffer_head := 1,
     block_buffer_planned := 0\<rparr>"

definition plan_reset :: "'a planner_t_scheme \<Rightarrow> 'a planner_t_scheme" where
  "plan_reset s = plan_reset_buffer
     (s\<lparr>pl_position := replicate N_AXIS 0, pl_previous_unit_vec := replicate N_AXIS f_zero,
        pl_previous_nominal_speed := f_zero\<rparr>)"

definition plan_discard_current_block :: "'a planner_t_scheme \<Rightarrow> 'a planner_t_scheme" where
  "plan_discard_current_block s =
     (if block_buffer_head s \<noteq> block_buffer_tail s then
        (let block_index = plan_next_block_index (block_buffer_tail s);
             s = (if block_buffer_tail s = block_buffer_planned s
                  then s\<lparr>block_buffer_planned := block_index\<rparr> else s)
         in s\<lparr>block_buffer_tail := block_index\<rparr>)
      else s)"

text \<open>Pointers to blocks are their indices; \<open>NULL\<close> is \<open>None\<close>.\<close>

definition plan_get_system_motion_block :: "'a planner_t_scheme \<Rightarrow> u8" where
  "plan_get_system_motion_block s = block_buffer_head s"

definition plan_get_current_block :: "'a planner_t_scheme \<Rightarrow> u8 option" where
  "plan_get_current_block s =
     (if block_buffer_head s = block_buffer_tail s then None else Some (block_buffer_tail s))"

definition plan_get_exec_block_exit_speed_sqr :: "'a planner_t_scheme \<Rightarrow> f32" where
  "plan_get_exec_block_exit_speed_sqr s =
     (let block_index = plan_next_block_index (block_buffer_tail s) in
      if block_index = block_buffer_head s then f_zero else entry_speed_sqr (blk s block_index))"

definition plan_check_full_buffer :: "'a planner_t_scheme \<Rightarrow> bool" where
  "plan_check_full_buffer s = (block_buffer_tail s = next_buffer_head s)"

definition plan_get_block_buffer_available :: "'a planner_t_scheme \<Rightarrow> u8" where
  "plan_get_block_buffer_available s =
     (if block_buffer_tail s \<le> block_buffer_head s
      then of_nat BLOCK_BUFFER_SIZE - 1 - (block_buffer_head s - block_buffer_tail s)
      else block_buffer_tail s - block_buffer_head s - 1)"

definition plan_get_block_buffer_count :: "'a planner_t_scheme \<Rightarrow> u8" where
  "plan_get_block_buffer_count s =
     (if block_buffer_tail s \<le> block_buffer_head s then block_buffer_head s - block_buffer_tail s
      else of_nat BLOCK_BUFFER_SIZE - (block_buffer_tail s - block_buffer_head s))"

section \<open>Look-ahead\<close>

text \<open>\<open>2*acceleration*millimeters\<close>: the squared speed gained over the whole block.\<close>

definition accel_term :: "plan_block_t \<Rightarrow> f32" where
  "accel_term b = f_mul (f_mul (f_of_int 2) (pb_acceleration b)) (millimeters b)"

text \<open>One block of the reverse pass, given the entry speed of the block after it.\<close>

definition reverse_entry :: "f32 \<Rightarrow> plan_block_t \<Rightarrow> plan_block_t" where
  "reverse_entry next_entry b =
     (if \<not> f_eq (entry_speed_sqr b) (max_entry_speed_sqr b) then
        (let e = f_add next_entry (accel_term b)
         in b\<lparr>entry_speed_sqr := (if f_lt e (max_entry_speed_sqr b) then e else max_entry_speed_sqr b)\<rparr>)
      else b)"

fun reverse_pass :: "('a planner_t_scheme \<Rightarrow> 'a planner_t_scheme) \<Rightarrow> nat \<Rightarrow> u8 \<Rightarrow> u8 \<Rightarrow>
    'a planner_t_scheme \<Rightarrow> 'a planner_t_scheme" where
  "reverse_pass upd 0 block_index current s = s"
| "reverse_pass upd (Suc n) block_index current s =
     (if block_index \<noteq> block_buffer_planned s then
        (let nxt = current; current = block_index; block_index = plan_prev_block_index block_index;
             s = (if block_index = block_buffer_tail s then upd s else s);
             s = upd_blk current (reverse_entry (entry_speed_sqr (blk s nxt))) s
         in reverse_pass upd n block_index current s)
      else s)"

fun forward_pass :: "nat \<Rightarrow> u8 \<Rightarrow> u8 \<Rightarrow> 'a planner_t_scheme \<Rightarrow> 'a planner_t_scheme" where
  "forward_pass 0 block_index nxt s = s"
| "forward_pass (Suc n) block_index nxt s =
     (if block_index \<noteq> block_buffer_head s then
        (let current = nxt; nxt = block_index;
             e = f_add (entry_speed_sqr (blk s current)) (accel_term (blk s current));
             s = (if f_lt (entry_speed_sqr (blk s current)) (entry_speed_sqr (blk s nxt))
                     \<and> f_lt e (entry_speed_sqr (blk s nxt))
                  then (upd_blk nxt (\<lambda>b. b\<lparr>entry_speed_sqr := e\<rparr>) s)\<lparr>block_buffer_planned := block_index\<rparr>
                  else s);
             s = (if f_eq (entry_speed_sqr (blk s nxt)) (max_entry_speed_sqr (blk s nxt))
                  then s\<lparr>block_buffer_planned := block_index\<rparr> else s)
         in forward_pass n (plan_next_block_index block_index) nxt s)
      else s)"

definition planner_recalculate ::
    "('a planner_t_scheme \<Rightarrow> 'a planner_t_scheme) \<Rightarrow> 'a planner_t_scheme \<Rightarrow> 'a planner_t_scheme" where
  "planner_recalculate upd s =
     (let block_index = plan_prev_block_index (block_buffer_head s) in
      if block_index = block_buffer_planned s then s
      else
        (let current = block_index;
             s = upd_blk current (\<lambda>b. b\<lparr>entry_speed_sqr := f_min (max_entry_speed_sqr b) (accel_term b)\<rparr>) s;
             block_index = plan_prev_block_index block_index;
             s = (if block_index = block_buffer_planned s
                  then (if block_index = block_buffer_tail s then upd s else s)
                  else reverse_pass upd BLOCK_BUFFER_SIZE block_index current s)
         in forward_pass BLOCK_BUFFER_SIZE (plan_next_block_index (block_buffer_planned s))
              (block_buffer_planned s) s))"

definition plan_cycle_reinitialize ::
    "('a planner_t_scheme \<Rightarrow> 'a planner_t_scheme) \<Rightarrow> 'a planner_t_scheme \<Rightarrow> 'a planner_t_scheme" where
  "plan_cycle_reinitialize upd s =
     (let s = upd s; s = s\<lparr>block_buffer_planned := block_buffer_tail s\<rparr> in planner_recalculate upd s)"

section \<open>Speeds\<close>

definition plan_compute_profile_nominal_speed :: "system_t \<Rightarrow> plan_block_t \<Rightarrow> f32" where
  "plan_compute_profile_nominal_speed sy block =
     (let nominal_speed = programmed_rate block;
          nominal_speed =
            (if condition block AND PL_COND_FLAG_RAPID_MOTION \<noteq> 0
             then f_mul nominal_speed (f_mul (f_of_rat (1/100)) (f_of_int (uint (sys_r_override sy))))
             else (let v = (if condition block AND PL_COND_FLAG_NO_FEED_OVERRIDE = 0
                            then f_mul nominal_speed (f_mul (f_of_rat (1/100)) (f_of_int (uint (sys_f_override sy))))
                            else nominal_speed)
                   in if f_lt (rapid_rate block) v then rapid_rate block else v))
      in if f_lt MINIMUM_FEED_RATE nominal_speed then nominal_speed else MINIMUM_FEED_RATE)"

definition plan_compute_profile_parameters :: "plan_block_t \<Rightarrow> f32 \<Rightarrow> f32 \<Rightarrow> plan_block_t" where
  "plan_compute_profile_parameters block nominal_speed prev_nominal_speed =
     (let block = (if f_lt prev_nominal_speed nominal_speed
                   then block\<lparr>max_entry_speed_sqr := f_mul prev_nominal_speed prev_nominal_speed\<rparr>
                   else block\<lparr>max_entry_speed_sqr := f_mul nominal_speed nominal_speed\<rparr>)
      in if f_lt (max_junction_speed_sqr block) (max_entry_speed_sqr block)
         then block\<lparr>max_entry_speed_sqr := max_junction_speed_sqr block\<rparr> else block)"

fun profile_loop :: "system_t \<Rightarrow> nat \<Rightarrow> u8 \<Rightarrow> f32 \<Rightarrow> 'a planner_t_scheme \<Rightarrow> 'a planner_t_scheme" where
  "profile_loop sy 0 block_index prev_nominal_speed s = s\<lparr>pl_previous_nominal_speed := prev_nominal_speed\<rparr>"
| "profile_loop sy (Suc n) block_index prev_nominal_speed s =
     (if block_index \<noteq> block_buffer_head s then
        (let nominal_speed = plan_compute_profile_nominal_speed sy (blk s block_index)
         in profile_loop sy n (plan_next_block_index block_index) nominal_speed
              (upd_blk block_index
                (\<lambda>b. plan_compute_profile_parameters b nominal_speed prev_nominal_speed) s))
      else s\<lparr>pl_previous_nominal_speed := prev_nominal_speed\<rparr>)"

definition plan_update_velocity_profile_parameters :: "system_t \<Rightarrow> 'a planner_t_scheme \<Rightarrow> 'a planner_t_scheme" where
  "plan_update_velocity_profile_parameters sy s =
     profile_loop sy BLOCK_BUFFER_SIZE (block_buffer_tail s) SOME_LARGE_VALUE s"

section \<open>Planning a line\<close>

text \<open>One axis of the loop that computes steps, directions and the vector of the move.\<close>

definition plan_axis :: "settings_t \<Rightarrow> vec \<Rightarrow> int list \<Rightarrow> nat \<Rightarrow>
    int list \<times> plan_block_t \<times> vec \<Rightarrow> int list \<times> plan_block_t \<times> vec" where
  "plan_axis st target position_steps idx acc = (case acc of (target_steps, b, unit_vec) \<Rightarrow>
     (let (target_steps, b) =
            (if \<not> idx = X_AXIS \<and> \<not> idx = Y_AXIS then
               (let target_steps = target_steps[idx := f_lround (f_mul (target ! idx) (steps_per_mm st ! idx))]
                in (target_steps,
                    b\<lparr>steps := (steps b)[idx := word_of_int \<bar>target_steps ! idx - position_steps ! idx\<bar>]\<rparr>))
             else (target_steps, b));
          b = b\<lparr>step_event_count := max (step_event_count b) (steps b ! idx)\<rparr>;
          delta_mm = f_div (f_of_int
            (if idx = X_AXIS then target_steps ! X_AXIS - position_steps ! X_AXIS + target_steps ! Y_AXIS - position_steps ! Y_AXIS
             else if idx = Y_AXIS then target_steps ! X_AXIS - position_steps ! X_AXIS - target_steps ! Y_AXIS + position_steps ! Y_AXIS
             else target_steps ! idx - position_steps ! idx)) (steps_per_mm st ! idx);
          unit_vec = unit_vec[idx := delta_mm];
          b = (if f_lt delta_mm f_zero
               then b\<lparr>direction_bits := direction_bits b OR get_direction_pin_mask idx\<rparr> else b)
      in (target_steps, b, unit_vec)))"

text \<open>The junction speed limit by the centripetal acceleration approximation.\<close>

definition junction_speed_sqr :: "settings_t \<Rightarrow> vec \<Rightarrow> vec \<Rightarrow> f32" where
  "junction_speed_sqr st previous_unit_vec unit_vec =
     (let junction_cos_theta = fold (\<lambda>idx c. f_sub c (f_mul (previous_unit_vec ! idx) (unit_vec ! idx)))
            [0..<N_AXIS] f_zero;
          junction_unit_vec = map (\<lambda>idx. f_sub (unit_vec ! idx) (previous_unit_vec ! idx)) [0..<N_AXIS];
          min_sqr = f_mul MINIMUM_JUNCTION_SPEED MINIMUM_JUNCTION_SPEED
      in if f_lt (f_of_rat (999999/1000000)) junction_cos_theta then min_sqr
         else if f_lt junction_cos_theta (f_neg (f_of_rat (999999/1000000))) then SOME_LARGE_VALUE
         else (let (_, junction_unit_vec) = convert_delta_vector_to_unit_vector junction_unit_vec;
                   junction_acceleration = limit_value_by_axis_maximum (acceleration st) junction_unit_vec;
                   sin_theta_d2 = f_sqrt (f_mul (f_of_rat (1/2)) (f_sub (f_of_int 1) junction_cos_theta))
               in f_maxm min_sqr
                    (f_div (f_mul (f_mul junction_acceleration (junction_deviation st)) sin_theta_d2)
                           (f_sub (f_of_int 1) sin_theta_d2))))"

text \<open>
  \<open>plan_buffer_line\<close> in three parts. First the new block's step counts and directions, the
  target in steps and the vector of the move; \<open>position\<close> is \<open>sys_position\<close>.
\<close>

definition plan_line_steps :: "settings_t \<Rightarrow> int list \<Rightarrow> vec \<Rightarrow> plan_line_data_t \<Rightarrow> 'a planner_t_scheme \<Rightarrow>
    int list \<times> plan_block_t \<times> vec" where
  "plan_line_steps st position target pl_data s =
     (let b = plan_block_zero\<lparr>condition := pd_condition pl_data, pb_spindle_speed := pd_spindle_speed pl_data\<rparr>;
          position_steps =
            (if condition b AND PL_COND_FLAG_SYSTEM_MOTION \<noteq> 0
             then [system_convert_corexy_to_x_axis_steps position,
                   system_convert_corexy_to_y_axis_steps position, position ! Z_AXIS]
             else pl_position s);
          target_steps =
            [f_lround (f_mul (target ! X_AXIS) (steps_per_mm st ! X_AXIS)),
             f_lround (f_mul (target ! Y_AXIS) (steps_per_mm st ! Y_AXIS)), 0];
          dx = target_steps ! X_AXIS - position_steps ! X_AXIS;
          dy = target_steps ! Y_AXIS - position_steps ! Y_AXIS;
          b = b\<lparr>steps := (steps b)[X_AXIS := word_of_int \<bar>dx + dy\<bar>, Y_AXIS := word_of_int \<bar>dx - dy\<bar>]\<rparr>
      in fold (plan_axis st target position_steps) [0..<N_AXIS]
           (target_steps, b, replicate N_AXIS f_zero))"

text \<open>Then its length, limits, programmed rate and junction speed.\<close>

definition plan_line_limits :: "settings_t \<Rightarrow> plan_line_data_t \<Rightarrow> 'a planner_t_scheme \<Rightarrow>
    plan_block_t \<Rightarrow> vec \<Rightarrow> plan_block_t \<times> vec" where
  "plan_line_limits st pl_data s b unit_vec =
     (let (mm, unit_vec) = convert_delta_vector_to_unit_vector unit_vec;
          b = b\<lparr>millimeters := mm,
                pb_acceleration := limit_value_by_axis_maximum (acceleration st) unit_vec,
                rapid_rate := limit_value_by_axis_maximum (max_rate st) unit_vec\<rparr>;
          b = b\<lparr>programmed_rate :=
                (if condition b AND PL_COND_FLAG_RAPID_MOTION \<noteq> 0 then rapid_rate b
                 else if condition b AND PL_COND_FLAG_INVERSE_TIME \<noteq> 0
                 then f_mul (pd_feed_rate pl_data) (millimeters b)
                 else pd_feed_rate pl_data)\<rparr>;
          b = (if block_buffer_head s = block_buffer_tail s \<or> condition b AND PL_COND_FLAG_SYSTEM_MOTION \<noteq> 0
               then b\<lparr>entry_speed_sqr := f_zero, max_junction_speed_sqr := f_zero\<rparr>
               else b\<lparr>max_junction_speed_sqr := junction_speed_sqr st (pl_previous_unit_vec s) unit_vec\<rparr>)
      in (b, unit_vec))"

text \<open>
  The block is built in the slot at the head, and only becomes part of the plan when the head
  moves past it. A system motion stays there, outside the plan.
\<close>

definition plan_buffer_line ::
    "settings_t \<Rightarrow> system_t \<Rightarrow> int list \<Rightarrow> ('a planner_t_scheme \<Rightarrow> 'a planner_t_scheme) \<Rightarrow> vec \<Rightarrow>
     plan_line_data_t \<Rightarrow> 'a planner_t_scheme \<Rightarrow> bool \<times> 'a planner_t_scheme" where
  "plan_buffer_line st sy position upd target pl_data s =
     (let (target_steps, b, unit_vec) = plan_line_steps st position target pl_data s;
          h = block_buffer_head s
      in if step_event_count b = 0 then (False, upd_blk h (\<lambda>_. b) s)
         else
           (let (b, unit_vec) = plan_line_limits st pl_data s b unit_vec
            in if condition b AND PL_COND_FLAG_SYSTEM_MOTION = 0 then
                 (let nominal_speed = plan_compute_profile_nominal_speed sy b;
                      b = plan_compute_profile_parameters b nominal_speed (pl_previous_nominal_speed s);
                      s = upd_blk h (\<lambda>_. b) s;
                      s = s\<lparr>pl_previous_nominal_speed := nominal_speed, pl_previous_unit_vec := unit_vec,
                            pl_position := target_steps,
                            block_buffer_head := next_buffer_head s\<rparr>;
                      s = s\<lparr>next_buffer_head := plan_next_block_index (block_buffer_head s)\<rparr>
                  in (True, planner_recalculate upd s))
               else (True, upd_blk h (\<lambda>_. b) s)))"

definition plan_sync_position :: "int list \<Rightarrow> 'a planner_t_scheme \<Rightarrow> 'a planner_t_scheme" where
  "plan_sync_position position s =
     s\<lparr>pl_position := map (\<lambda>idx. if idx = X_AXIS then system_convert_corexy_to_x_axis_steps position
                           else if idx = Y_AXIS then system_convert_corexy_to_y_axis_steps position
                           else position ! idx) [0..<N_AXIS]\<rparr>"

end
