(* ===== verification/Planner_Lookahead.thy ===== *)
theory Planner_Lookahead
  imports Planner
begin

text \<open>
  The look-ahead of the planner as a computation on lists. \<open>plan_blocks\<close> is the queue of planned
  blocks, oldest first. The lemmas show that the index-walking passes of \<open>planner_recalculate\<close>
  compute \<open>back_from\<close> and \<open>fwd_list\<close> on that queue, touch no other slot's meaning, and never
  need more rounds than the ring has slots. The locale \<open>plan_callback\<close> states what is needed
  of the routine the planner calls back in the stepper.
\<close>

section \<open>Slots of the ring\<close>

lemma slot_inj_aux:
  fixes t :: nat
  assumes "j \<le> k" and "k < N" and "(t + j) mod N = (t + k) mod N"
  shows "j = k"
proof -
  have "N dvd t + k - (t + j)" using assms by (metis add_le_cancel_left mod_eq_dvd_iff_nat)
  then have "N dvd k - j" by simp
  moreover have "k - j < N" using assms by simp
  ultimately have "k - j = 0" using nat_dvd_not_less by blast
  then show ?thesis using assms(1) by simp
qed

lemma slot_inj:
  fixes t :: nat
  assumes "j < N" and "k < N" and "(t + j) mod N = (t + k) mod N"
  shows "j = k"
  using slot_inj_aux [of j k N t] slot_inj_aux [of k j N t] assms by (cases "j \<le> k") auto

lemma ring_list_update:
  assumes "length buf = N" and "h < N" and "t < N" and "k < ring_used N h t"
  shows "ring_list N (buf[(t + k) mod N := x]) h t = (ring_list N buf h t)[k := x]"
proof (rule nth_equalityI)
  fix j assume "j < length (ring_list N (buf[(t + k) mod N := x]) h t)"
  then have j: "j < ring_used N h t" by simp
  have lt: "j < N" "k < N" using j assms ring_used_less [OF assms(2,3)] by linarith+
  have "(t + j) mod N < length buf" using assms by simp
  then show "ring_list N (buf[(t + k) mod N := x]) h t ! j = (ring_list N buf h t)[k := x] ! j"
    using j slot_inj [OF lt, of t] by (auto simp: nth_ring_list nth_list_update_if)
qed simp

interpretation plan: ring_back 16 unat plan_next_block_index plan_prev_block_index
proof unfold_locales
  fix i :: u8 assume i: "unat i < 16"
  show "unat (plan_next_block_index i) = Suc (unat i) mod 16"
  proof -
    have "unat (i + 1) = Suc (unat i)" using i by (intro unat_u8_Suc) simp
    then show ?thesis using i by (auto simp: plan_next_block_index_def Let_def grbl_const u8_eq_iff)
  qed
  show "unat (plan_prev_block_index i) = (unat i + 16 - 1) mod 16"
  proof (cases "i = 0")
    case False
    then have "1 \<le> i" by (simp add: word_le_nat_alt unat_gt_0 Suc_le_eq)
    then have "unat (i - 1) = unat i - 1" by (simp add: unat_u8_sub)
    moreover have "0 < unat i" using False by (simp add: unat_gt_0)
    ultimately show ?thesis using False i by (simp add: plan_prev_block_index_def Let_def mod_if)
  qed (simp add: plan_prev_block_index_def Let_def grbl_const)
qed simp

definition planner_inv :: "'a planner_t_scheme \<Rightarrow> bool" where
  "planner_inv s \<longleftrightarrow> length (block_buffer s) = 16 \<and> unat (block_buffer_tail s) < 16
     \<and> unat (block_buffer_head s) < 16 \<and> unat (block_buffer_planned s) < 16
     \<and> next_buffer_head s = plan_next_block_index (block_buffer_head s)
     \<and> ring_used 16 (unat (block_buffer_planned s)) (unat (block_buffer_tail s))
         \<le> ring_used 16 (unat (block_buffer_head s)) (unat (block_buffer_tail s))
     \<and> (block_buffer_head s \<noteq> block_buffer_tail s \<longrightarrow> block_buffer_planned s \<noteq> block_buffer_head s)"

definition plan_blocks :: "'a planner_t_scheme \<Rightarrow> plan_block_t list" where
  "plan_blocks s = ring_list 16 (block_buffer s) (unat (block_buffer_head s)) (unat (block_buffer_tail s))"

definition slot :: "'a planner_t_scheme \<Rightarrow> nat \<Rightarrow> nat" where
  "slot s k = (unat (block_buffer_tail s) + k) mod 16"

section \<open>The look-ahead on lists\<close>

fun back_from :: "f32 \<Rightarrow> plan_block_t list \<Rightarrow> plan_block_t list" where
  "back_from e [] = []"
| "back_from e (b # bs) =
     (let bs' = back_from e bs
      in reverse_entry (case bs' of [] \<Rightarrow> e | c # _ \<Rightarrow> entry_speed_sqr c) b # bs')"

definition forward_entry :: "plan_block_t \<Rightarrow> plan_block_t \<Rightarrow> plan_block_t" where
  "forward_entry c b =
     (let e = f_add (entry_speed_sqr c) (accel_term c) in
      if f_lt (entry_speed_sqr c) (entry_speed_sqr b) \<and> f_lt e (entry_speed_sqr b)
      then b\<lparr>entry_speed_sqr := e\<rparr> else b)"

fun fwd_list :: "plan_block_t \<Rightarrow> plan_block_t list \<Rightarrow> plan_block_t list" where
  "fwd_list c [] = []"
| "fwd_list c (b # bs) = (let b' = forward_entry c b in b' # fwd_list b' bs)"

definition last_entry :: "plan_block_t \<Rightarrow> plan_block_t" where
  "last_entry b = b\<lparr>entry_speed_sqr := f_min (max_entry_speed_sqr b) (accel_term b)\<rparr>"

lemma length_back_from [simp]: "length (back_from e bs) = length bs"
  by (induction bs) (auto simp: Let_def)

lemma length_fwd_list [simp]: "length (fwd_list c bs) = length bs"
  by (induction bs arbitrary: c) (auto simp: Let_def)

lemma back_from_snoc:
  "back_from e (bs @ [b]) = back_from (entry_speed_sqr (reverse_entry e b)) bs @ [reverse_entry e b]"
  by (induction bs) (auto simp: Let_def split: list.splits)

section \<open>Slots and blocks\<close>

lemma blk_slot:
  assumes "plan_blocks s = xs" and "k < length xs" and "unat i = slot s k"
  shows "blk s i = xs ! k"
  using assms by (auto simp: blk_def plan_blocks_def slot_def nth_ring_list)

lemma plan_blocks_upd:
  assumes "planner_inv s" and "plan_blocks s = xs" and "k < length xs" and "unat i = slot s k"
  shows "plan_blocks (upd_blk i f s) = xs[k := f (xs ! k)]"
  using assms blk_slot [OF assms(2-4)]
  by (auto simp: plan_blocks_def upd_blk_def slot_def planner_inv_def ring_list_update)

lemma planner_inv_upd_blk [simp]: "planner_inv (upd_blk i f s) = planner_inv s"
  by (simp add: planner_inv_def upd_blk_def)

lemma slot_upd_blk [simp]: "slot (upd_blk i f s) = slot s"
  by (simp add: slot_def upd_blk_def fun_eq_iff)

lemma upd_blk_fields [simp]:
  "block_buffer_tail (upd_blk i f s) = block_buffer_tail s"
  "block_buffer_head (upd_blk i f s) = block_buffer_head s"
  "next_buffer_head (upd_blk i f s) = next_buffer_head s"
  "block_buffer_planned (upd_blk i f s) = block_buffer_planned s"
  by (simp_all add: upd_blk_def)

lemma length_plan_blocks:
  "length (plan_blocks s) = ring_used 16 (unat (block_buffer_head s)) (unat (block_buffer_tail s))"
  by (simp add: plan_blocks_def)

lemma slot_next: "unat i = slot s k \<Longrightarrow> unat (plan_next_block_index i) = slot s (Suc k)"
  using plan.idx_nxt [of i] by (simp add: slot_def mod_Suc_eq)

lemma unat_of_nat_u8: "n < 256 \<Longrightarrow> unat (of_nat n :: u8) = n"
  by (simp add: unsigned_of_nat take_bit_eq_mod)

lemma slot_less [simp]: "slot s k < 16" by (simp add: slot_def)

lemma slot_prev: "unat i = slot s (Suc k) \<Longrightarrow> unat (plan_prev_block_index i) = slot s k"
proof -
  assume i: "unat i = slot s (Suc k)"
  have j: "unat (of_nat (slot s k) :: u8) = slot s k"
    using slot_less [of s k] by (intro unat_of_nat_u8) linarith
  then have "i = plan_next_block_index (of_nat (slot s k))" using i slot_next [OF j] by (simp add: u8_eq_iff)
  then show ?thesis using plan.idx_prv_nxt [of "of_nat (slot s k)"] j by simp
qed

lemma ring_used_slot: "t < N \<Longrightarrow> k < N \<Longrightarrow> ring_used N ((t + k) mod N) t = k"
  by (cases "t + k < N") (auto simp: ring_used_eq mod_if)

lemma ring_used_head: "h < N \<Longrightarrow> t < N \<Longrightarrow> (t + ring_used N h t) mod N = h"
  by (auto simp: ring_used_eq mod_if)

lemma head_slot: "planner_inv s \<Longrightarrow> unat (block_buffer_head s) = slot s (length (plan_blocks s))"
  by (simp add: planner_inv_def slot_def length_plan_blocks ring_used_head)

lemma length_plan_blocks_less: "planner_inv s \<Longrightarrow> length (plan_blocks s) < 16"
  by (simp add: planner_inv_def length_plan_blocks ring_used_less)

lemma slot_eq_iff: "j < 16 \<Longrightarrow> k < 16 \<Longrightarrow> slot s j = slot s k \<longleftrightarrow> j = k"
  using slot_inj [of j 16 k] by (auto simp: slot_def)

lemma planner_inv_planned:
  assumes "planner_inv s" and "k < length (plan_blocks s)" and "unat i = slot s k"
  shows "planner_inv (s\<lparr>block_buffer_planned := i\<rparr>)"
proof -
  have k: "k < 16" using assms(2) length_plan_blocks_less [OF assms(1)] by simp
  have "ring_used 16 (unat i) (unat (block_buffer_tail s)) = k"
    using assms(1,3) k by (simp add: slot_def ring_used_slot planner_inv_def)
  moreover have "unat i \<noteq> unat (block_buffer_head s)"
    using assms head_slot [OF assms(1)] slot_eq_iff [OF k length_plan_blocks_less [OF assms(1)], of s] by simp
  moreover have "unat i < 16" using assms(3) by simp
  ultimately show ?thesis using assms(1,2) by (auto simp: planner_inv_def length_plan_blocks)
qed

lemma plan_blocks_planned [simp]: "plan_blocks (s\<lparr>block_buffer_planned := i\<rparr>) = plan_blocks s"
  by (simp add: plan_blocks_def)

lemma slot_planned [simp]: "slot (s\<lparr>block_buffer_planned := i\<rparr>) = slot s"
  by (simp add: slot_def fun_eq_iff)

lemma blk_planned [simp]: "blk (s\<lparr>block_buffer_planned := i\<rparr>) = blk s"
  by (simp add: blk_def fun_eq_iff)

text \<open>The forward pass from the block \<open>c\<close> at slot \<open>length pre\<close>.\<close>

lemma forward_pass_blocks:
  assumes "planner_inv s" and "plan_blocks s = pre @ c # bs"
    and "unat j = slot s (length pre)" and "unat i = slot s (length pre + 1)" and "length bs \<le> fuel"
  shows "plan_blocks (forward_pass fuel i j s) = pre @ c # fwd_list c bs
    \<and> planner_inv (forward_pass fuel i j s)
    \<and> block_buffer_tail (forward_pass fuel i j s) = block_buffer_tail s
    \<and> block_buffer_head (forward_pass fuel i j s) = block_buffer_head s"
  using assms
proof (induction bs arbitrary: pre c s i j fuel)
  case Nil
  then have "i = block_buffer_head s" using head_slot [of s] by (simp add: u8_eq_iff)
  then have "forward_pass fuel i j s = s" by (cases fuel) simp_all
  with Nil show ?case by simp
next
  case (Cons b bs)
  let ?p = "length pre"
  have l: "?p + 2 + length bs < 16" using length_plan_blocks_less [of s] Cons.prems(1,2) by simp
  obtain m where m: "fuel = Suc m" "length bs \<le> m" using Cons.prems(5) by (cases fuel) auto
  have "unat (block_buffer_head s) = slot s (?p + 2 + length bs)"
    using head_slot [of s] Cons.prems(1,2) by simp
  then have nh: "i \<noteq> block_buffer_head s"
    using Cons.prems(4) l slot_eq_iff [of "?p + 1" "?p + 2 + length bs" s] by auto
  have bc: "blk s j = c" "blk s i = b"
    using blk_slot [OF Cons.prems(2), of ?p j] blk_slot [OF Cons.prems(2), of "?p + 1" i] Cons.prems(3,4)
    by (simp_all add: nth_append)
  let ?e = "f_add (entry_speed_sqr c) (accel_term c)"
  define s1 where "s1 = (if f_lt (entry_speed_sqr c) (entry_speed_sqr b) \<and> f_lt ?e (entry_speed_sqr b)
      then (upd_blk i (\<lambda>b. b\<lparr>entry_speed_sqr := ?e\<rparr>) s)\<lparr>block_buffer_planned := i\<rparr> else s)"
  have u: "plan_blocks (upd_blk i (\<lambda>b. b\<lparr>entry_speed_sqr := ?e\<rparr>) s)
      = pre @ c # b\<lparr>entry_speed_sqr := ?e\<rparr> # bs"
    using plan_blocks_upd [OF Cons.prems(1,2), of "?p + 1" i] Cons.prems(4)
    by (simp add: nth_append list_update_append)
  have s1: "plan_blocks s1 = pre @ c # forward_entry c b # bs" "planner_inv s1" "slot s1 = slot s"
    "block_buffer_tail s1 = block_buffer_tail s" "block_buffer_head s1 = block_buffer_head s"
    using Cons.prems(1,2,4) u planner_inv_planned [of "upd_blk i (\<lambda>b. b\<lparr>entry_speed_sqr := ?e\<rparr>) s" "?p + 1" i]
    by (auto simp: s1_def forward_entry_def Let_def)
  define s2 where "s2 = (if f_eq (entry_speed_sqr (blk s1 i)) (max_entry_speed_sqr (blk s1 i))
      then s1\<lparr>block_buffer_planned := i\<rparr> else s1)"
  have s2: "plan_blocks s2 = (pre @ [c]) @ forward_entry c b # bs" "planner_inv s2" "slot s2 = slot s"
    "block_buffer_tail s2 = block_buffer_tail s" "block_buffer_head s2 = block_buffer_head s"
    using s1 Cons.prems(4) planner_inv_planned [OF s1(2), of "?p + 1" i] by (auto simp: s2_def)
  have "forward_pass fuel i j s = forward_pass m (plan_next_block_index i) i s2"
    unfolding m forward_pass.simps Let_def bc s1_def [symmetric] s2_def using nh by simp
  moreover have "unat (plan_next_block_index i) = slot s (Suc (?p + 1))" using Cons.prems(4) by (rule slot_next)
  ultimately show ?case
    using Cons.IH [OF s2(2,1), of i "plan_next_block_index i" m] Cons.prems(4) m s2
    by (simp add: Let_def)
qed

section \<open>Non-negative speeds\<close>

text \<open>The floats the speeds of a plan range over: no NaN, no sign, possibly infinite.\<close>

fun f_nn :: "f32 \<Rightarrow> bool" where
  "f_nn (FFin s m) = (\<not> s \<and> f_repr m \<and> m \<le> f_max)"
| "f_nn (FInf s) = (\<not> s)"
| "f_nn FNaN = False"

lemma f_nn_zero [simp]: "f_nn f_zero"
  by (simp add: f_repr_0)

lemma f_nn_mk [simp]: "0 \<le> r \<Longrightarrow> f_nn (mk_f32 False r)"
  by (simp add: mk_f32_def Let_def f_repr_rnd_mag not_less)

lemma f_nn_cases:
  assumes "f_nn x"
  obtains m where "x = FFin False m" and "f_repr m" and "m \<le> f_max" and "0 \<le> m" | "x = FInf False"
  using assms by (cases x) (auto dest: f_reprD)

lemma f_add_nn:
  "0 \<le> a \<Longrightarrow> 0 \<le> b \<Longrightarrow> f_add (FFin False a) (FFin False b) = mk_f32 False (a + b)"
  by (auto simp: Let_def mk_f32_def add_nonneg_eq_0_iff)

lemma f_nn_add: "f_nn x \<Longrightarrow> f_nn y \<Longrightarrow> f_nn (f_add x y)"
  by (elim f_nn_cases) (simp_all add: f_add_nn del: f_add.simps(1))

lemma f_le_mk: "0 \<le> a \<Longrightarrow> a \<le> b \<Longrightarrow> f_le (mk_f32 False a) (mk_f32 False b)"
  using rnd_mag_mono [of a b] by (auto simp: mk_f32_def Let_def f_le_def)

lemma f_le_nn [simp]:
  "f_le (FFin False a) (FFin False b) \<longleftrightarrow> a \<le> b" "\<not> f_le (FInf False) (FFin False b)"
  "f_le (FFin False a) (FInf False)" "f_le (FInf False) (FInf False)" "f_le (mk_f32 False r) (FInf False)"
  by (auto simp: f_le_def mk_f32_def Let_def)

lemma f_add_mono: "f_nn x \<Longrightarrow> f_nn y \<Longrightarrow> f_nn z \<Longrightarrow> f_le x y \<Longrightarrow> f_le (f_add x z) (f_add y z)"
  by (elim f_nn_cases) (auto simp: f_add_nn simp del: f_add.simps(1) intro: f_le_mk)

lemma f_le_mk_repr: "f_repr a \<Longrightarrow> a \<le> f_max \<Longrightarrow> a \<le> b \<Longrightarrow> f_le (FFin False a) (mk_f32 False b)"
  using f_le_mk [of a b] f_reprD [of a] by (simp add: mk_f32_repr)

lemma f_le_add: "f_nn x \<Longrightarrow> f_nn y \<Longrightarrow> f_le x (f_add x y)"
  by (elim f_nn_cases) (auto simp: f_add_nn f_le_mk_repr simp del: f_add.simps(1))

lemma f_add_zero_left: "f_nn x \<Longrightarrow> f_add f_zero x = x"
  by (elim f_nn_cases) (auto simp: f_add_nn mk_f32_repr simp del: f_add.simps(1))

lemma f_zero_le: "f_nn x \<Longrightarrow> f_le f_zero x"
  by (elim f_nn_cases) (auto simp: f_le_def)

lemma f_nn_not_nan: "f_nn x \<Longrightarrow> x \<noteq> FNaN"
  by auto

lemma f_le_linear: "f_nn x \<Longrightarrow> f_nn y \<Longrightarrow> \<not> f_lt x y \<longleftrightarrow> f_le y x"
  by (intro f_not_lt_le f_nn_not_nan)

section \<open>The callback\<close>

text \<open>The ring as it was, and a block that may have been given a new entry speed if it is the oldest.\<close>

definition same_ring :: "'a planner_t_scheme \<Rightarrow> 'a planner_t_scheme \<Rightarrow> bool" where
  "same_ring s' s \<longleftrightarrow> planner_inv s' \<and> slot s' = slot s \<and> block_buffer_planned s' = block_buffer_planned s
     \<and> block_buffer_head s' = block_buffer_head s \<and> block_buffer_tail s' = block_buffer_tail s"

definition reentered :: "plan_block_t list \<Rightarrow> plan_block_t \<Rightarrow> plan_block_t \<Rightarrow> bool" where
  "reentered pre b b' \<longleftrightarrow> b' = b \<or> pre = [] \<and> (\<exists>x. f_nn x \<and> b' = b\<lparr>entry_speed_sqr := x\<rparr>)"

lemma same_ring_upd_blk: "planner_inv s \<Longrightarrow> same_ring (upd_blk i f s) s"
  by (simp add: same_ring_def)

lemma same_ring_trans: "same_ring s'' s' \<Longrightarrow> same_ring s' s \<Longrightarrow> same_ring s'' s"
  by (simp add: same_ring_def)

lemma reentered_trans: "reentered pre b b' \<Longrightarrow> reentered pre b' b'' \<Longrightarrow> reentered pre b b''"
  by (auto simp: reentered_def)

text \<open>
  What the look-ahead needs of the stepper's \<open>st_update_plan_block_parameters\<close>: it changes
  nothing of the plan but the entry speed of the block at the tail. \<open>good\<close> is the condition
  under which the stepper keeps this promise.
\<close>

locale plan_callback =
  fixes upd :: "'a planner_t_scheme \<Rightarrow> 'a planner_t_scheme"
    and good :: "'a planner_t_scheme \<Rightarrow> bool"
  assumes upd_fields:
      "good s \<Longrightarrow> block_buffer_tail (upd s) = block_buffer_tail s \<and> block_buffer_head (upd s) = block_buffer_head s
        \<and> next_buffer_head (upd s) = next_buffer_head s \<and> block_buffer_planned (upd s) = block_buffer_planned s"
    and upd_buffer: "good s \<Longrightarrow> block_buffer (upd s) = block_buffer s \<or> (\<exists>x. f_nn x \<and> block_buffer (upd s) =
        block_buffer (upd_blk (block_buffer_tail s) (\<lambda>b. b\<lparr>entry_speed_sqr := x\<rparr>) s))"
    and good_upd: "good s \<Longrightarrow> good (upd s)"
    and good_cong: "good s \<Longrightarrow> block_buffer_tail s' = block_buffer_tail s \<Longrightarrow>
        planner_t.more s' = planner_t.more s \<Longrightarrow> good s'"
begin

lemma good_upd_blk: "good s \<Longrightarrow> good (upd_blk i f s)"
  by (erule good_cong) (simp_all add: upd_blk_def)

lemma upd_blocks:
  assumes "good s" and "planner_inv s" and "plan_blocks s = b # bs"
  obtains b' where "plan_blocks (upd s) = b' # bs" and "planner_inv (upd s)"
    and "slot (upd s) = slot s" and "b' = b \<or> (\<exists>x. f_nn x \<and> b' = b\<lparr>entry_speed_sqr := x\<rparr>)"
proof -
  note f = upd_fields [OF assms(1)]
  have sl: "slot (upd s) = slot s" using f by (simp add: slot_def fun_eq_iff)
  from upd_buffer [OF assms(1)] show ?thesis
  proof (elim disjE exE conjE)
    assume b: "block_buffer (upd s) = block_buffer s"
    then have "plan_blocks (upd s) = b # bs" using f assms(3) by (simp add: plan_blocks_def)
    moreover have "planner_inv (upd s)" using assms(2) f b by (simp add: planner_inv_def)
    ultimately show ?thesis using that sl by blast
  next
    fix x assume nn: "f_nn x" and x: "block_buffer (upd s) =
        block_buffer (upd_blk (block_buffer_tail s) (\<lambda>b. b\<lparr>entry_speed_sqr := x\<rparr>) s)"
    have "plan_blocks (upd s) = plan_blocks (upd_blk (block_buffer_tail s) (\<lambda>b. b\<lparr>entry_speed_sqr := x\<rparr>) s)"
      using f by (simp add: plan_blocks_def x)
    also have "\<dots> = b\<lparr>entry_speed_sqr := x\<rparr> # bs"
      using plan_blocks_upd [OF assms(2,3), of 0] assms(2,3) by (simp add: slot_def planner_inv_def)
    finally have "plan_blocks (upd s) = b\<lparr>entry_speed_sqr := x\<rparr> # bs" .
    moreover have "planner_inv (upd s)" using assms(2) f x by (simp add: planner_inv_def upd_blk_def)
    ultimately show ?thesis using that sl nn by blast
  qed
qed

text \<open>The call the passes make when they reach the block at the tail.\<close>

lemma callback_blocks:
  assumes "good s" and "planner_inv s" and "plan_blocks s = pre @ b # ys @ zs"
    and "unat j = slot s (length pre + length ys)"
  obtains b' where "plan_blocks (if j = block_buffer_tail s then upd s else s) = pre @ b' # ys @ zs"
    and "good (if j = block_buffer_tail s then upd s else s)"
    and "same_ring (if j = block_buffer_tail s then upd s else s) s" and "reentered pre b b'"
proof (cases "j = block_buffer_tail s")
  case True
  have "slot s (length pre + length ys) = slot s 0" using True assms(2,4) by (simp add: slot_def planner_inv_def)
  moreover have "length pre + length ys < 16" using length_plan_blocks_less [OF assms(2)] assms(3) by simp
  ultimately have e: "pre = []" "ys = []" using slot_eq_iff [of "length pre + length ys" 0 s] by auto
  then have "plan_blocks s = b # zs" using assms(3) by simp
  from upd_blocks [OF assms(1,2) this] obtain b' where "plan_blocks (upd s) = b' # zs" "planner_inv (upd s)"
    "slot (upd s) = slot s" "b' = b \<or> (\<exists>x. f_nn x \<and> b' = b\<lparr>entry_speed_sqr := x\<rparr>)" .
  then show ?thesis
    using True e upd_fields [OF assms(1)] good_upd [OF assms(1)]
    by (intro that [of b']) (simp_all add: same_ring_def reentered_def)
next
  case False
  then show ?thesis using assms by (intro that [of b]) (simp_all add: same_ring_def reentered_def)
qed

text \<open>The reverse pass from the block at slot \<open>q + length ys\<close>, with \<open>q\<close> the planned slot.\<close>

lemma reverse_pass_blocks:
  assumes "good s" and "planner_inv s" and "plan_blocks s = pre @ b # ys @ n # zs"
    and "unat (block_buffer_planned s) = slot s (length pre)"
    and "unat i = slot s (length pre + length ys)" and "unat c = slot s (length pre + length ys + 1)"
    and "length ys \<le> fuel"
  obtains b' where "plan_blocks (reverse_pass upd fuel i c s)
        = pre @ b' # back_from (entry_speed_sqr n) ys @ n # zs"
    and "same_ring (reverse_pass upd fuel i c s) s" and "reentered pre b b'"
  using assms
proof (induction ys arbitrary: thesis fuel i c s b n zs rule: rev_induct)
  case Nil
  then have "i = block_buffer_planned s" by (simp add: u8_eq_iff)
  then have "reverse_pass upd fuel i c s = s" by (cases fuel) simp_all
  with Nil show ?case by (simp add: same_ring_def reentered_def)
next
  case (snoc y ys)
  let ?p = "length pre" let ?y = "reverse_entry (entry_speed_sqr n) y"
  have l: "?p + length (ys @ [y]) < 16" using length_plan_blocks_less [OF snoc.prems(3)] snoc.prems(4) by simp
  obtain m where m: "fuel = Suc m" "length ys \<le> m" using snoc.prems(8) by (cases fuel) auto
  have np: "i \<noteq> block_buffer_planned s"
    using snoc.prems(5,6) l slot_eq_iff [of ?p "?p + length (ys @ [y])" s] by auto
  define j where "j = plan_prev_block_index i"
  have j: "unat j = slot s (?p + length ys)" using snoc.prems(6) slot_prev [of i s "?p + length ys"] by (simp add: j_def)
  define s1 where "s1 = (if j = block_buffer_tail s then upd s else s)"
  have "plan_blocks s = pre @ b # ys @ y # n # zs" using snoc.prems(4) by simp
  from callback_blocks [OF snoc.prems(2,3) this j, folded s1_def]
  obtain b1 where s1: "plan_blocks s1 = pre @ b1 # ys @ y # n # zs" "good s1" "same_ring s1 s" and b1: "reentered pre b b1" .
  define s2 where "s2 = upd_blk i (reverse_entry (entry_speed_sqr (blk s1 c))) s1"
  have c: "blk s1 c = n"
    using blk_slot [OF s1(1), of "?p + length ys + 2" c] snoc.prems(7) s1(3) by (simp add: nth_append same_ring_def)
  have s2: "plan_blocks s2 = pre @ b1 # ys @ ?y # n # zs"
    using plan_blocks_upd [OF _ s1(1), of "?p + length ys + 1" i] snoc.prems(6) s1(3)
    by (simp add: s2_def c nth_append list_update_append same_ring_def)
  have s2': "good s2" "same_ring s2 s1" "same_ring s2 s"
    using good_upd_blk [OF s1(2)] same_ring_upd_blk s1(3) same_ring_trans by (auto simp: s2_def same_ring_def)
  have r: "reverse_pass upd fuel i c s = reverse_pass upd m j i s2"
    using np by (simp add: m Let_def j_def [symmetric] s1_def [symmetric] s2_def)
  have "planner_inv s2" "unat (block_buffer_planned s2) = slot s2 ?p" "unat j = slot s2 (?p + length ys)"
    "unat i = slot s2 (?p + length ys + 1)"
    using s2'(3) j snoc.prems(5,6) by (simp_all add: same_ring_def)
  from snoc.IH [OF _ s2'(1) this(1) s2 this(2-4) m(2)] obtain b'
    where "plan_blocks (reverse_pass upd m j i s2) = pre @ b' # back_from (entry_speed_sqr ?y) ys @ ?y # n # zs"
      "same_ring (reverse_pass upd m j i s2) s2" "reentered pre b1 b'" .
  then show ?case
    using reentered_trans [OF b1] same_ring_trans [OF _ s2'(3)]
    by (intro snoc.prems(1) [of b']) (simp_all add: r back_from_snoc)
qed

text \<open>The whole recalculation, in terms of the list of blocks.\<close>

lemma planned_slot:
  assumes "planner_inv s" and "plan_blocks s = pre @ xs"
    and "length pre = ring_used 16 (unat (block_buffer_planned s)) (unat (block_buffer_tail s))"
  shows "unat (block_buffer_planned s) = slot s (length pre)"
  using assms by (simp add: slot_def planner_inv_def ring_used_head)

text \<open>Its backward half.\<close>

lemma recalculate_back:
  assumes "good s" and "planner_inv s" and "plan_blocks s = pre @ b # bs @ [n]"
    and "unat (block_buffer_planned s) = slot s (length pre)"
    and i: "unat i = slot s (length pre + 1 + length bs)" and j: "unat j = slot s (length pre + length bs)"
  obtains b' where "plan_blocks (if j = block_buffer_planned s then (if j = block_buffer_tail s then upd s else s)
        else reverse_pass upd BLOCK_BUFFER_SIZE j i s) = pre @ b' # back_from (entry_speed_sqr n) bs @ [n]"
    and "same_ring (if j = block_buffer_planned s then (if j = block_buffer_tail s then upd s else s)
        else reverse_pass upd BLOCK_BUFFER_SIZE j i s) s" and "reentered pre b b'"
proof (cases "j = block_buffer_planned s")
  case True
  have l: "length pre + length bs < 16" using length_plan_blocks_less [OF assms(2)] assms(3) by simp
  then have "bs = []" using True assms(4) j slot_eq_iff [of "length pre" "length pre + length bs" s] by simp
  with callback_blocks [OF assms(1,2,3) j] True that show ?thesis by auto
next
  case False
  have "length bs \<le> BLOCK_BUFFER_SIZE"
    using length_plan_blocks_less [OF assms(2)] assms(3) by (simp add: BLOCK_BUFFER_SIZE_def)
  from reverse_pass_blocks [OF assms(1-4) j _ this, of i] i False that show ?thesis by auto
qed

lemma planner_recalculate_blocks:
  assumes "good s" and "planner_inv s" and "plan_blocks s = pre @ b # bs @ [n]"
    and "length pre = ring_used 16 (unat (block_buffer_planned s)) (unat (block_buffer_tail s))"
  obtains b' where "plan_blocks (planner_recalculate upd s)
        = pre @ b' # fwd_list b' (back_from (entry_speed_sqr (last_entry n)) bs @ [last_entry n])"
    and "planner_inv (planner_recalculate upd s)"
    and "block_buffer_head (planner_recalculate upd s) = block_buffer_head s"
    and "block_buffer_tail (planner_recalculate upd s) = block_buffer_tail s"
    and "reentered pre b b'"
proof -
  let ?p = "length pre"
  note P = planned_slot [OF assms(2-4)]
  have l: "?p + 2 + length bs < 16" using length_plan_blocks_less [OF assms(2)] assms(3) by simp
  define i where "i = plan_prev_block_index (block_buffer_head s)"
  have i: "unat i = slot s (?p + 1 + length bs)"
    using slot_prev [of "block_buffer_head s" s "?p + 1 + length bs"] head_slot [OF assms(2)] assms(3)
    by (simp add: i_def)
  have np: "i \<noteq> block_buffer_planned s"
    using P i l slot_eq_iff [of ?p "?p + 1 + length bs" s] by auto
  define s1 where "s1 = upd_blk i (\<lambda>b. b\<lparr>entry_speed_sqr := f_min (max_entry_speed_sqr b) (accel_term b)\<rparr>) s"
  have s1: "plan_blocks s1 = pre @ b # bs @ [last_entry n]" "planner_inv s1" "same_ring s1 s" "good s1"
    using plan_blocks_upd [OF assms(2,3) _ i, of "\<lambda>b. b\<lparr>entry_speed_sqr := f_min (max_entry_speed_sqr b) (accel_term b)\<rparr>"]
      same_ring_upd_blk assms(1,2) good_upd_blk
    by (auto simp: s1_def nth_append list_update_append last_entry_def)
  define j where "j = plan_prev_block_index i"
  have j: "unat j = slot s (?p + length bs)" using i slot_prev [of i s "?p + length bs"] by (simp add: j_def)
  define s2 where "s2 = (if j = block_buffer_planned s1 then (if j = block_buffer_tail s1 then upd s1 else s1)
      else reverse_pass upd BLOCK_BUFFER_SIZE j i s1)"
  have "unat (block_buffer_planned s1) = slot s1 ?p" "unat i = slot s1 (?p + 1 + length bs)" "unat j = slot s1 (?p + length bs)"
    using P i j s1(3) by (simp_all add: same_ring_def)
  from recalculate_back [OF s1(4,2,1) this, folded s2_def]
  obtain b' where s2: "plan_blocks s2 = pre @ b' # back_from (entry_speed_sqr (last_entry n)) bs @ [last_entry n]"
      "same_ring s2 s1" and b': "reentered pre b b'" .
  have r: "planner_recalculate upd s = forward_pass BLOCK_BUFFER_SIZE
      (plan_next_block_index (block_buffer_planned s2)) (block_buffer_planned s2) s2"
    using np s1(3) by (simp add: planner_recalculate_def Let_def i_def [symmetric] s1_def [symmetric]
        j_def [symmetric] s2_def same_ring_def)
  have s3: "same_ring s2 s" by (rule same_ring_trans [OF s2(2) s1(3)])
  then have "planner_inv s2" "unat (block_buffer_planned s2) = slot s2 ?p"
    "unat (plan_next_block_index (block_buffer_planned s2)) = slot s2 (?p + 1)"
    using P slot_next by (auto simp: same_ring_def)
  from forward_pass_blocks [OF this(1) s2(1) this(2,3)] s3 show ?thesis
    using that b' l unfolding r by (simp add: BLOCK_BUFFER_SIZE_def same_ring_def)
qed

lemma planner_recalculate_one:
  assumes "planner_inv s" and "plan_blocks s = pre @ [b]"
    and "length pre = ring_used 16 (unat (block_buffer_planned s)) (unat (block_buffer_tail s))"
  shows "planner_recalculate upd s = s"
proof -
  have "unat (plan_prev_block_index (block_buffer_head s)) = slot s (length pre)"
    using slot_prev [of "block_buffer_head s" s "length pre"] head_slot [OF assms(1)] assms(2) by simp
  then have "plan_prev_block_index (block_buffer_head s) = block_buffer_planned s"
    using planned_slot [OF assms] by (simp add: u8_eq_iff)
  then show ?thesis by (simp add: planner_recalculate_def Let_def)
qed

end

end
