(* ===== verification/Planner_Feasible.thy ===== *)
theory Planner_Feasible
  imports Planner_Lookahead
begin

text \<open>
  What a correct plan is, and that the look-ahead maintains it. Speeds are squared, and
  compared as the binary32 values they are. In a feasible plan every block behind the tail
  respects its own entry limit, can be slowed down to the entry speed of the next block within
  its length (\<open>dec_ok\<close>, with a stop after the last block), and none of them is entered faster
  than the waiting block before it can have accelerated (\<open>acc_ok\<close>). The tail is the block the
  stepper is executing and shortening, so its speeds and its length are free.
\<close>

section \<open>Feasible plans\<close>

definition blk_ok :: "plan_block_t \<Rightarrow> bool" where
  "blk_ok b \<longleftrightarrow> f_nn (entry_speed_sqr b) \<and> f_nn (max_entry_speed_sqr b) \<and> f_nn (accel_term b)"

definition max_ok :: "plan_block_t \<Rightarrow> bool" where
  "max_ok b \<longleftrightarrow> f_le (entry_speed_sqr b) (max_entry_speed_sqr b)"

fun dec_ok :: "plan_block_t list \<Rightarrow> bool" where
  "dec_ok [] = True"
| "dec_ok [b] = f_le (entry_speed_sqr b) (accel_term b)"
| "dec_ok (b # c # bs) =
     (f_le (entry_speed_sqr b) (f_add (entry_speed_sqr c) (accel_term b)) \<and> dec_ok (c # bs))"

fun acc_ok :: "plan_block_t list \<Rightarrow> bool" where
  "acc_ok (b # c # bs) =
     (f_le (entry_speed_sqr c) (f_add (entry_speed_sqr b) (accel_term b)) \<and> acc_ok (c # bs))"
| "acc_ok _ = True"

fun plan_ok :: "plan_block_t list \<Rightarrow> bool" where
  "plan_ok [] = True"
| "plan_ok (b # bs) =
     (blk_ok b \<and> (\<forall>c \<in> set bs. blk_ok c \<and> max_ok c) \<and> dec_ok bs \<and> acc_ok bs)"

section \<open>The reverse pass\<close>

definition next_entry :: "f32 \<Rightarrow> plan_block_t list \<Rightarrow> f32" where
  "next_entry e bs = (case bs of [] \<Rightarrow> e | c # _ \<Rightarrow> entry_speed_sqr c)"

lemma next_entry_simps [simp]: "next_entry e [] = e" "next_entry e (c # bs) = entry_speed_sqr c"
  by (simp_all add: next_entry_def)

lemma reverse_entry_fields [simp]:
  "max_entry_speed_sqr (reverse_entry e b) = max_entry_speed_sqr b"
  "accel_term (reverse_entry e b) = accel_term b"
  by (simp_all add: reverse_entry_def accel_term_def Let_def)

lemma reverse_entry_ok:
  assumes "blk_ok b" and "max_ok b" and "f_nn e" and "f_nn e'" and "f_le e e'"
    and "f_le (entry_speed_sqr b) (f_add e (accel_term b))"
  shows "blk_ok (reverse_entry e' b)" and "max_ok (reverse_entry e' b)"
    and "f_le (entry_speed_sqr (reverse_entry e' b)) (f_add e' (accel_term b))"
    and "f_le (entry_speed_sqr b) (entry_speed_sqr (reverse_entry e' b))"
proof -
  let ?t = "f_add e' (accel_term b)"
  have nn: "f_nn (entry_speed_sqr b)" "f_nn (max_entry_speed_sqr b)" "f_nn (accel_term b)" "f_nn ?t"
    using assms(1,4) by (simp_all add: blk_ok_def f_nn_add)
  have le: "f_le (entry_speed_sqr b) ?t"
    using assms(3-6) nn by (blast intro: f_le_trans f_add_mono)
  have "entry_speed_sqr (reverse_entry e' b) = entry_speed_sqr b
      \<or> entry_speed_sqr (reverse_entry e' b) = ?t \<and> f_lt ?t (max_entry_speed_sqr b)
      \<or> entry_speed_sqr (reverse_entry e' b) = max_entry_speed_sqr b \<and> f_le (max_entry_speed_sqr b) ?t"
    using f_le_linear [OF nn(4,2)] by (auto simp: reverse_entry_def Let_def)
  then show "blk_ok (reverse_entry e' b)" "max_ok (reverse_entry e' b)"
    "f_le (entry_speed_sqr (reverse_entry e' b)) ?t"
    "f_le (entry_speed_sqr b) (entry_speed_sqr (reverse_entry e' b))"
    using nn le assms(2) f_le_refl [OF f_nn_not_nan [OF nn(1)]] f_le_refl [OF f_nn_not_nan [OF nn(2)]]
      f_le_refl [OF f_nn_not_nan [OF nn(4)]]
    by (auto simp: blk_ok_def max_ok_def f_le_def)
qed

lemma back_from_ok:
  assumes "\<forall>c \<in> set (bs @ [n]). blk_ok c \<and> max_ok c" and "dec_ok (bs @ [n])"
    and "zs = back_from (entry_speed_sqr (last_entry n)) bs @ [last_entry n]"
  shows "(\<forall>c \<in> set zs. blk_ok c \<and> max_ok c) \<and> dec_ok zs
    \<and> f_le (next_entry f_zero (bs @ [n])) (next_entry f_zero zs)"
  using assms
proof (induction bs arbitrary: zs)
  case Nil
  then have nn: "f_nn (max_entry_speed_sqr n)" "f_nn (accel_term n)" by (simp_all add: blk_ok_def)
  have a: "accel_term (last_entry n) = accel_term n" "max_entry_speed_sqr (last_entry n) = max_entry_speed_sqr n"
    by (simp_all add: last_entry_def accel_term_def)
  have le: "f_le (f_min (max_entry_speed_sqr n) (accel_term n)) (max_entry_speed_sqr n)"
    "f_le (f_min (max_entry_speed_sqr n) (accel_term n)) (accel_term n)"
    using f_min_le1 f_min_le2 nn f_nn_not_nan by blast+
  moreover have "f_nn (f_min (max_entry_speed_sqr n) (accel_term n))" using nn by (simp add: f_min_def)
  moreover have "f_le (entry_speed_sqr n) (f_min (max_entry_speed_sqr n) (accel_term n))"
    using Nil by (simp add: f_min_def max_ok_def)
  ultimately show ?case using nn Nil a by (simp add: blk_ok_def max_ok_def last_entry_def)
next
  case (Cons b bs)
  define z where "z = back_from (entry_speed_sqr (last_entry n)) bs @ [last_entry n]"
  have d: "dec_ok (bs @ [n])" "f_le (entry_speed_sqr b) (f_add (next_entry f_zero (bs @ [n])) (accel_term b))"
    using Cons.prems(2) by (cases bs; simp)+
  have IH: "\<forall>c \<in> set z. blk_ok c \<and> max_ok c" "dec_ok z"
    "f_le (next_entry f_zero (bs @ [n])) (next_entry f_zero z)"
    using Cons.IH [OF _ d(1) z_def] Cons.prems(1) by simp_all
  have nn: "f_nn (next_entry f_zero (bs @ [n]))" "f_nn (next_entry f_zero z)"
    using Cons.prems(1) IH(1) by (cases bs; cases z; simp add: blk_ok_def)+
  have ne: "next_entry f_zero z = (case back_from (entry_speed_sqr (last_entry n)) bs of
      [] \<Rightarrow> entry_speed_sqr (last_entry n) | c # _ \<Rightarrow> entry_speed_sqr c)"
    by (simp add: z_def split: list.split)
  have zs: "zs = reverse_entry (next_entry f_zero z) b # z"
    unfolding ne by (simp add: Cons.prems(3) Let_def z_def)
  have b: "blk_ok b" "max_ok b" using Cons.prems(1) by simp_all
  note R = reverse_entry_ok [OF b nn IH(3) d(2)]
  have "dec_ok zs" unfolding zs using R(3) IH(2) by (cases z) (simp_all add: z_def)
  then show ?case using R IH(1) by (simp add: zs)
qed

section \<open>The forward pass\<close>

lemma forward_entry_fields [simp]:
  "max_entry_speed_sqr (forward_entry c b) = max_entry_speed_sqr b"
  "accel_term (forward_entry c b) = accel_term b"
  by (simp_all add: forward_entry_def accel_term_def Let_def)

lemma forward_entry_ok:
  assumes "blk_ok c" and "blk_ok b"
  shows "blk_ok (forward_entry c b)"
    and "f_le (entry_speed_sqr (forward_entry c b)) (entry_speed_sqr b)"
    and "f_le (entry_speed_sqr (forward_entry c b)) (f_add (entry_speed_sqr c) (accel_term c))"
    and "f_le (entry_speed_sqr c) (f_add (entry_speed_sqr b) (accel_term c)) \<Longrightarrow>
      f_le (entry_speed_sqr c) (f_add (entry_speed_sqr (forward_entry c b)) (accel_term c))"
proof -
  let ?t = "f_add (entry_speed_sqr c) (accel_term c)"
  have nn: "f_nn (entry_speed_sqr c)" "f_nn (accel_term c)" "f_nn (entry_speed_sqr b)" "f_nn ?t"
    using assms by (simp_all add: blk_ok_def f_nn_add)
  have c: "f_le (entry_speed_sqr c) ?t" using nn by (intro f_le_add)
  have t: "f_le ?t (f_add ?t (accel_term c))" using nn by (intro f_le_add)
  consider "entry_speed_sqr (forward_entry c b) = ?t" "f_le ?t (entry_speed_sqr b)"
    | "forward_entry c b = b" "f_le (entry_speed_sqr b) ?t"
  proof (cases "f_lt (entry_speed_sqr c) (entry_speed_sqr b) \<and> f_lt ?t (entry_speed_sqr b)")
    case True
    then show ?thesis by (intro that(1)) (simp_all add: forward_entry_def Let_def f_le_def)
  next
    case False
    then have "f_le (entry_speed_sqr b) ?t"
      using f_le_linear [OF nn(1,3)] f_le_linear [OF nn(4,3)] c f_le_trans by blast
    then show ?thesis using False by (intro that(2)) (auto simp: forward_entry_def Let_def)
  qed
  note cs = this
  show "blk_ok (forward_entry c b)" using cs assms nn by cases (auto simp: blk_ok_def)
  show "f_le (entry_speed_sqr (forward_entry c b)) (entry_speed_sqr b)"
    using cs f_le_refl [OF f_nn_not_nan [OF nn(3)]] by cases auto
  show "f_le (entry_speed_sqr (forward_entry c b)) ?t"
    using cs f_le_refl [OF f_nn_not_nan [OF nn(4)]] by cases auto
  show "f_le (entry_speed_sqr c) (f_add (entry_speed_sqr (forward_entry c b)) (accel_term c))"
    if "f_le (entry_speed_sqr c) (f_add (entry_speed_sqr b) (accel_term c))"
    using cs that f_le_trans [OF c t] by cases simp_all
qed

lemma fwd_list_ok:
  assumes "blk_ok c" and "\<forall>b \<in> set zs. blk_ok b \<and> max_ok b" and "dec_ok zs"
  shows "(\<forall>b \<in> set (fwd_list c zs). blk_ok b \<and> max_ok b) \<and> dec_ok (fwd_list c zs) \<and> acc_ok (c # fwd_list c zs)
    \<and> (zs \<noteq> [] \<longrightarrow> f_le (entry_speed_sqr c) (f_add (entry_speed_sqr (hd zs)) (accel_term c)) \<longrightarrow>
       f_le (entry_speed_sqr c) (f_add (entry_speed_sqr (hd (fwd_list c zs))) (accel_term c)))"
  using assms
proof (induction zs arbitrary: c)
  case (Cons b bs)
  have b: "blk_ok b" "max_ok b" using Cons.prems(2) by simp_all
  note F = forward_entry_ok [OF Cons.prems(1) b(1)]
  have d: "dec_ok bs" using Cons.prems(3) by (cases bs) simp_all
  have IH: "(\<forall>x \<in> set (fwd_list (forward_entry c b) bs). blk_ok x \<and> max_ok x)
      \<and> dec_ok (fwd_list (forward_entry c b) bs) \<and> acc_ok (forward_entry c b # fwd_list (forward_entry c b) bs)
      \<and> (bs \<noteq> [] \<longrightarrow> f_le (entry_speed_sqr (forward_entry c b)) (f_add (entry_speed_sqr (hd bs)) (accel_term b)) \<longrightarrow>
        f_le (entry_speed_sqr (forward_entry c b))
          (f_add (entry_speed_sqr (hd (fwd_list (forward_entry c b) bs))) (accel_term b)))"
    using Cons.IH [OF F(1)] Cons.prems(2) d by simp
  have m: "max_ok (forward_entry c b)" using F(2) b(2) f_le_trans by (auto simp: max_ok_def)
  have "dec_ok (forward_entry c b # fwd_list (forward_entry c b) bs)"
  proof (cases bs)
    case Nil
    then show ?thesis using Cons.prems(3) F(2) f_le_trans by auto
  next
    case (Cons d ds)
    then have "f_le (entry_speed_sqr (forward_entry c b)) (f_add (entry_speed_sqr (hd bs)) (accel_term b))"
      using Cons.prems(3) F(2) f_le_trans by (metis dec_ok.simps(3) list.sel(1))
    then show ?thesis using IH Cons by (simp add: Let_def)
  qed
  then show ?case using IH F m by (simp add: Let_def)
qed simp

section \<open>Adding a block\<close>

text \<open>The block a line adds to the plan.\<close>

definition plan_line_block :: "settings_t \<Rightarrow> system_t \<Rightarrow> int list \<Rightarrow> vec \<Rightarrow> plan_line_data_t \<Rightarrow>
    'a planner_t_scheme \<Rightarrow> plan_block_t" where
  "plan_line_block st sy position target pl_data s =
     (let (target_steps, b, unit_vec) = plan_line_steps st position target pl_data s;
          (b, unit_vec) = plan_line_limits st pl_data s b unit_vec
      in plan_compute_profile_parameters b (plan_compute_profile_nominal_speed sy b)
           (pl_previous_nominal_speed s))"

lemma plan_axis_entry:
  "entry_speed_sqr (fst (snd (plan_axis st target pos idx acc))) = entry_speed_sqr (fst (snd acc))
   \<and> condition (fst (snd (plan_axis st target pos idx acc))) = condition (fst (snd acc))"
  by (cases acc) (simp add: plan_axis_def Let_def)

lemma fold_plan_axis_entry:
  "entry_speed_sqr (fst (snd (fold (plan_axis st target pos) is acc))) = entry_speed_sqr (fst (snd acc))
   \<and> condition (fst (snd (fold (plan_axis st target pos) is acc))) = condition (fst (snd acc))"
  by (induction "is" arbitrary: acc) (simp_all add: plan_axis_entry)

lemma plan_line_steps_entry:
  "entry_speed_sqr (fst (snd (plan_line_steps st pos target pl_data s))) = f_zero
   \<and> condition (fst (snd (plan_line_steps st pos target pl_data s))) = pd_condition pl_data"
  by (simp add: plan_line_steps_def Let_def fold_plan_axis_entry plan_block_zero_def)

lemma plan_line_limits_entry:
  "entry_speed_sqr b = f_zero \<Longrightarrow> entry_speed_sqr (fst (plan_line_limits st pl_data s b u)) = f_zero"
  by (simp add: plan_line_limits_def Let_def split_beta)

lemma plan_line_limits_condition:
  "condition (fst (plan_line_limits st pl_data s b u)) = condition b"
  by (simp add: plan_line_limits_def Let_def split_beta)

lemma plan_line_block_entry: "entry_speed_sqr (plan_line_block st sy pos target pl_data s) = f_zero"
  using plan_line_steps_entry [of st pos target pl_data s]
  by (simp add: plan_line_block_def Let_def split_beta plan_compute_profile_parameters_def
      plan_line_limits_entry)

lemma plan_blocks_head:
  assumes "planner_inv s"
  shows "plan_blocks (upd_blk (block_buffer_head s) f s) = plan_blocks s"
proof -
  have "unat (block_buffer_head s) \<noteq> (unat (block_buffer_tail s) + k) mod 16"
    if "k < ring_used 16 (unat (block_buffer_head s)) (unat (block_buffer_tail s))" for k
    using ring_slot_neq_head [OF _ _ that] assms by (auto simp: planner_inv_def)
  then show ?thesis
    by (auto simp: plan_blocks_def upd_blk_def ring_list_def nth_list_update_neq)
qed

text \<open>The state once the new block is in the plan, before the recalculation.\<close>

definition plan_push :: "plan_block_t \<Rightarrow> f32 \<Rightarrow> vec \<Rightarrow> int list \<Rightarrow> 'a planner_t_scheme \<Rightarrow> 'a planner_t_scheme" where
  "plan_push b nominal_speed unit_vec target_steps s =
     (let s = upd_blk (block_buffer_head s) (\<lambda>_. b) s;
          s = s\<lparr>pl_previous_nominal_speed := nominal_speed, pl_previous_unit_vec := unit_vec,
                pl_position := target_steps, block_buffer_head := next_buffer_head s\<rparr>
      in s\<lparr>next_buffer_head := plan_next_block_index (block_buffer_head s)\<rparr>)"

lemma plan_push_blocks:
  assumes "planner_inv s" and "\<not> plan_check_full_buffer s"
  shows "plan_blocks (plan_push b v u ts s) = plan_blocks s @ [b]" and "planner_inv (plan_push b v u ts s)"
    and "block_buffer_tail (plan_push b v u ts s) = block_buffer_tail s"
    and "planner_t.more (plan_push b v u ts s) = planner_t.more s"
proof -
  let ?h = "unat (block_buffer_head s)" let ?t = "unat (block_buffer_tail s)"
  let ?n = "plan_next_block_index (block_buffer_head s)"
  have r: "length (block_buffer s) = 16" "?h < 16" "?t < 16" and nx: "next_buffer_head s = ?n"
    using assms(1) by (simp_all add: planner_inv_def)
  have ne: "unat ?n \<noteq> ?t" using assms(2) nx by (simp add: plan_check_full_buffer_def u8_eq_iff)
  show "plan_blocks (plan_push b v u ts s) = plan_blocks s @ [b]"
    using plan.list_push [OF r ne] by (simp add: plan_blocks_def plan_push_def Let_def upd_blk_def nx)
  have h: "unat ?n < 16" using plan.idx_nxt_less [OF r(2)] .
  have u: "ring_used 16 (unat ?n) ?t = Suc (ring_used 16 ?h ?t)" by (rule plan.used_nxt_head [OF r(2,3) ne])
  have p: "unat (block_buffer_planned s) < 16"
    "ring_used 16 (unat (block_buffer_planned s)) ?t \<le> ring_used 16 ?h ?t"
    using assms(1) by (simp_all add: planner_inv_def)
  then have "block_buffer_planned s \<noteq> ?n" using u by auto
  then show "planner_inv (plan_push b v u ts s)"
    using r h p u by (simp add: planner_inv_def plan_push_def Let_def upd_blk_def nx)
qed (simp_all add: plan_push_def Let_def upd_blk_def)

lemma plan_ok_snoc:
  assumes "plan_ok xs" and "blk_ok b" and "entry_speed_sqr b = f_zero"
  shows "plan_ok (xs @ [b])"
proof (cases xs)
  case Nil
  then show ?thesis using assms(2) by simp
next
  case (Cons x ys)
  have ok: "\<forall>c \<in> set (x # ys). blk_ok c" using assms(1) Cons by auto
  have d: "dec_ok (ys @ [b])" if "dec_ok ys" "\<forall>c \<in> set ys. blk_ok c"
    using that assms(2,3)
    by (induction ys rule: dec_ok.induct) (auto simp: blk_ok_def f_add_zero_left f_zero_le)
  have a: "acc_ok (zs @ [b])" if "acc_ok zs" "\<forall>c \<in> set zs. blk_ok c" for zs
    using that assms(3)
    by (induction zs rule: acc_ok.induct) (auto simp: blk_ok_def f_nn_add f_zero_le)
  have "max_ok b" using assms(2,3) by (simp add: max_ok_def blk_ok_def f_zero_le)
  then show ?thesis
    using assms(1,2) d a [of ys] ok by (simp add: Cons)
qed

section \<open>The recalculation keeps a plan feasible\<close>

fun dec_to :: "plan_block_t list \<Rightarrow> f32 \<Rightarrow> bool" where
  "dec_to [] e = True"
| "dec_to [b] e = f_le (entry_speed_sqr b) (f_add e (accel_term b))"
| "dec_to (b # c # bs) e =
     (f_le (entry_speed_sqr b) (f_add (entry_speed_sqr c) (accel_term b)) \<and> dec_to (c # bs) e)"

lemma dec_ok_append: "dec_ok (xs @ y # ys) \<longleftrightarrow> dec_to xs (entry_speed_sqr y) \<and> dec_ok (y # ys)"
  by (induction xs "entry_speed_sqr y" rule: dec_to.induct) auto

lemma dec_ok_tl: "dec_ok (b # bs) \<Longrightarrow> dec_ok bs"
  by (cases bs) simp_all

lemma acc_ok_tl: "acc_ok (b # bs) \<Longrightarrow> acc_ok bs"
  by (cases bs) simp_all

lemma acc_ok_append: "acc_ok (xs @ y # ys) \<longleftrightarrow> acc_ok (xs @ [y]) \<and> acc_ok (y # ys)"
  by (induction xs rule: acc_ok.induct) auto

context plan_callback
begin

lemma planned_inside:
  assumes "planner_inv s" and "plan_blocks s \<noteq> []"
  shows "ring_used 16 (unat (block_buffer_planned s)) (unat (block_buffer_tail s)) < length (plan_blocks s)"
proof -
  let ?q = "ring_used 16 (unat (block_buffer_planned s)) (unat (block_buffer_tail s))"
  have "block_buffer_head s \<noteq> block_buffer_tail s"
    using assms by (auto simp: plan_blocks_def planner_inv_def)
  then have ne: "unat (block_buffer_planned s) \<noteq> unat (block_buffer_head s)"
    using assms(1) by (simp add: planner_inv_def u8_eq_iff)
  have "?q \<noteq> length (plan_blocks s)"
  proof
    assume "?q = length (plan_blocks s)"
    then have "(unat (block_buffer_tail s) + ?q) mod 16
        = (unat (block_buffer_tail s) + ring_used 16 (unat (block_buffer_head s)) (unat (block_buffer_tail s))) mod 16"
      by (simp add: length_plan_blocks)
    then show False using ne assms(1) by (simp add: planner_inv_def ring_used_head)
  qed
  then show ?thesis using assms(1) by (simp add: planner_inv_def length_plan_blocks)
qed

text \<open>Replacing the blocks behind a block by their replanned versions keeps the plan feasible.\<close>

lemma splice_entry:
  assumes "\<forall>c \<in> set (bs @ [n]). blk_ok c \<and> max_ok c" "dec_ok (b # bs @ [n])" "blk_ok b"
    and zs: "zs = back_from (entry_speed_sqr (last_entry n)) bs @ [last_entry n]"
  shows "f_le (entry_speed_sqr b) (f_add (entry_speed_sqr (hd (fwd_list b zs))) (accel_term b))"
proof -
  note R = back_from_ok [OF assms(1) dec_ok_tl [OF assms(2)] zs]
  have ne: "zs \<noteq> []" by (simp add: zs)
  have nz: "next_entry f_zero (bs @ [n]) = entry_speed_sqr (hd (bs @ [n]))" "next_entry f_zero zs = entry_speed_sqr (hd zs)"
    using ne by (cases bs; cases zs; simp)+
  have h: "f_le (entry_speed_sqr b) (f_add (entry_speed_sqr (hd (bs @ [n]))) (accel_term b))"
    using assms(2) by (cases bs) simp_all
  have "blk_ok (hd (bs @ [n]))" "blk_ok (hd zs)"
    using assms(1) R hd_in_set [of "bs @ [n]"] hd_in_set [OF ne] by blast+
  then have "f_le (entry_speed_sqr b) (f_add (entry_speed_sqr (hd zs)) (accel_term b))"
    using h R assms(3) unfolding nz by (blast intro: f_le_trans f_add_mono dest: blk_ok_def [THEN iffD1])
  then show ?thesis using fwd_list_ok [OF assms(3), of zs] R ne by blast
qed

lemma splice_plan_ok:
  assumes "plan_ok (pre @ b # bs @ [n])" and b': "reentered pre b b'"
    and zs_def: "zs = back_from (entry_speed_sqr (last_entry n)) bs @ [last_entry n]"
  shows "plan_ok (pre @ b' # fwd_list b' zs)"
proof -
  have ok: "\<forall>c \<in> set (bs @ [n]). blk_ok c \<and> max_ok c" "dec_ok (bs @ [n])" "blk_ok b"
    using assms(1) dec_ok_append [of _ b "bs @ [n]"] dec_ok_tl [of b "bs @ [n]"]
    by (cases pre; simp)+
  have b'ok: "blk_ok b'" using b' ok(3) by (auto simp: reentered_def blk_ok_def accel_term_def)
  note R = back_from_ok [OF ok(1,2) zs_def]
  note F = fwd_list_ok [OF b'ok, of zs]
  show ?thesis
  proof (cases pre)
    case Nil
    then show ?thesis using F R b'ok acc_ok_tl [of b'] by simp
  next
    case (Cons p pre')
    have e: "b' = b" using b' Cons by (simp add: reentered_def)
    have p: "blk_ok p" "\<forall>c \<in> set (pre' @ b # bs @ [n]). blk_ok c \<and> max_ok c"
      "dec_ok (pre' @ b # bs @ [n])" "acc_ok (pre' @ b # bs @ [n])"
      using assms(1) unfolding Cons by simp_all
    have "dec_ok (b # bs @ [n])" using p(3) dec_ok_append by blast
    note h = splice_entry [OF ok(1) this ok(3) zs_def]
    obtain w ws where w: "fwd_list b zs = w # ws" by (cases zs) (simp_all add: zs_def Let_def)
    have Fb: "(\<forall>c \<in> set (fwd_list b zs). blk_ok c \<and> max_ok c)" "dec_ok (fwd_list b zs)"
      "acc_ok (b # fwd_list b zs)" using F R e by simp_all
    have "dec_ok (b # fwd_list b zs)" using h Fb(2) by (simp add: w)
    then have "dec_ok (pre' @ b # fwd_list b zs)" using p(3) dec_ok_append by blast
    moreover have "acc_ok (pre' @ b # fwd_list b zs)"
      using p(4) Fb(3) acc_ok_append [of pre' b "bs @ [n]"] acc_ok_append [of pre' b "fwd_list b zs"] by simp
    ultimately show ?thesis using p(1,2) Fb(1) by (simp add: e Cons ball_Un)
  qed
qed

lemma recalculate_keeps_plan_ok:
  assumes "good s" and "planner_inv s" and "plan_ok (plan_blocks s)" and "plan_blocks s \<noteq> []"
  shows "plan_ok (plan_blocks (planner_recalculate upd s)) \<and> planner_inv (planner_recalculate upd s)
    \<and> length (plan_blocks (planner_recalculate upd s)) = length (plan_blocks s)"
proof -
  let ?q = "ring_used 16 (unat (block_buffer_planned s)) (unat (block_buffer_tail s))"
  have q: "?q < length (plan_blocks s)" by (rule planned_inside [OF assms(2,4)])
  define pre where "pre = take ?q (plan_blocks s)"
  have pre: "length pre = ?q" using q by (simp add: pre_def)
  obtain b cs where bc: "plan_blocks s = pre @ b # cs"
    using q unfolding pre_def by (metis id_take_nth_drop)
  show ?thesis
  proof (cases cs rule: rev_cases)
    case Nil
    then show ?thesis using planner_recalculate_one [of s pre b] assms pre bc by simp
  next
    case (snoc bs n)
    then have xs: "plan_blocks s = pre @ b # bs @ [n]" using bc by simp
    from planner_recalculate_blocks [OF assms(1,2) xs pre] obtain b' where r: "plan_blocks (planner_recalculate upd s)
        = pre @ b' # fwd_list b' (back_from (entry_speed_sqr (last_entry n)) bs @ [last_entry n])"
      "planner_inv (planner_recalculate upd s)" and b': "reentered pre b b'" .
    have "plan_ok (pre @ b' # fwd_list b' (back_from (entry_speed_sqr (last_entry n)) bs @ [last_entry n]))"
      using splice_plan_ok [OF assms(3) [unfolded xs] b' refl] .
    moreover have "length (plan_blocks (planner_recalculate upd s)) = length (plan_blocks s)" by (simp add: r xs)
    ultimately show ?thesis using r(2) by (simp add: r(1))
  qed
qed

lemma plan_buffer_line_eq:
  "plan_buffer_line st sy pos upd target pl_data s =
     (case plan_line_steps st pos target pl_data s of (target_steps, b, unit_vec) \<Rightarrow>
       if step_event_count b = 0 then (False, upd_blk (block_buffer_head s) (\<lambda>_. b) s)
       else (case plan_line_limits st pl_data s b unit_vec of (b', u') \<Rightarrow>
         if pd_condition pl_data AND PL_COND_FLAG_SYSTEM_MOTION = 0
         then (True, planner_recalculate upd
                (plan_push (plan_line_block st sy pos target pl_data s)
                  (plan_compute_profile_nominal_speed sy b') u' target_steps s))
         else (True, upd_blk (block_buffer_head s) (\<lambda>_. b') s)))"
  using plan_line_steps_entry [of st pos target pl_data s]
  by (simp add: plan_buffer_line_def plan_line_block_def plan_push_def Let_def split_beta
      plan_line_limits_condition)

lemma plan_buffer_line_keeps:
  assumes "good s" and "planner_inv s" and "plan_ok (plan_blocks s)" and "\<not> plan_check_full_buffer s"
    and "blk_ok (plan_line_block st sy position target pl_data s)"
    and "plan_buffer_line st sy position upd target pl_data s = (queued, s')"
  shows "planner_inv s' \<and> plan_ok (plan_blocks s')
    \<and> length (plan_blocks s') = length (plan_blocks s)
        + (if queued \<and> pd_condition pl_data AND PL_COND_FLAG_SYSTEM_MOTION = 0 then 1 else 0)"
proof -
  obtain ts b u where p: "plan_line_steps st position target pl_data s = (ts, b, u)" by (metis prod_cases3)
  obtain b' u' where l: "plan_line_limits st pl_data s b u = (b', u')" by (metis surj_pair)
  define B where "B = plan_line_block st sy position target pl_data s"
  define s1 where "s1 = plan_push B (plan_compute_profile_nominal_speed sy b') u' ts s"
  note push = plan_push_blocks [OF assms(2,4), of B "plan_compute_profile_nominal_speed sy b'" u' ts,
      folded s1_def]
  have "plan_ok (plan_blocks s1)"
    unfolding push(1) using assms(3,5) plan_line_block_entry unfolding B_def by (intro plan_ok_snoc)
  moreover have "good s1" using assms(1) push(3,4) by (rule good_cong)
  ultimately have r: "plan_ok (plan_blocks (planner_recalculate upd s1)) \<and> planner_inv (planner_recalculate upd s1)
    \<and> length (plan_blocks (planner_recalculate upd s1)) = length (plan_blocks s) + 1"
    using recalculate_keeps_plan_ok [of s1] push by simp
  have "plan_buffer_line st sy position upd target pl_data s =
      (if step_event_count b = 0 then (False, upd_blk (block_buffer_head s) (\<lambda>_. b) s)
       else if pd_condition pl_data AND PL_COND_FLAG_SYSTEM_MOTION = 0 then (True, planner_recalculate upd s1)
       else (True, upd_blk (block_buffer_head s) (\<lambda>_. b') s))"
    by (simp add: plan_buffer_line_eq p l s1_def B_def)
  then show ?thesis
    using assms(2,3,6) r by (auto simp: plan_blocks_head split: if_splits)
qed

end

section \<open>Taking blocks and counting them\<close>

lemma plan_discard_blocks:
  assumes "planner_inv s"
  shows "plan_blocks (plan_discard_current_block s) = tl (plan_blocks s)"
    and "planner_inv (plan_discard_current_block s)"
proof -
  let ?h = "unat (block_buffer_head s)" let ?t = "unat (block_buffer_tail s)"
  let ?n = "plan_next_block_index (block_buffer_tail s)"
  have r: "?h < 16" "?t < 16" "unat (block_buffer_planned s) < 16"
    using assms by (simp_all add: planner_inv_def)
  show "plan_blocks (plan_discard_current_block s) = tl (plan_blocks s)"
  proof (cases "?h = ?t")
    case True
    then show ?thesis using r by (simp add: plan_discard_current_block_def plan_blocks_def u8_eq_iff)
  next
    case False
    then show ?thesis using plan.list_pop [OF r(1,2) False, of "block_buffer s"]
      by (simp add: plan_discard_current_block_def plan_blocks_def u8_eq_iff Let_def)
  qed
  show "planner_inv (plan_discard_current_block s)"
  proof (cases "?h = ?t")
    case True
    then show ?thesis using assms by (simp add: plan_discard_current_block_def u8_eq_iff)
  next
    case False
    have n: "unat ?n < 16" using plan.idx_nxt_less [OF r(2)] .
    have u: "Suc (ring_used 16 ?h (unat ?n)) = ring_used 16 ?h ?t" by (rule plan.used_nxt_tail [OF r(1,2) False])
    have ne: "block_buffer_head s \<noteq> block_buffer_tail s" using False by auto
    show ?thesis
    proof (cases "block_buffer_tail s = block_buffer_planned s")
      case True
      then show ?thesis using assms ne n by (auto simp: planner_inv_def plan_discard_current_block_def Let_def)
    next
      case F: False
      then have "unat (block_buffer_planned s) \<noteq> ?t" by (simp add: u8_eq_iff)
      from plan.used_nxt_tail [OF r(3,2) this] show ?thesis
        using assms ne n u F by (auto simp: planner_inv_def plan_discard_current_block_def Let_def)
    qed
  qed
qed

lemma plan_ok_tl: "plan_ok xs \<Longrightarrow> plan_ok (tl xs)"
proof (cases xs)
  case (Cons b bs)
  assume "plan_ok xs"
  then show ?thesis using Cons dec_ok_tl acc_ok_tl by (cases bs) auto
qed simp

lemma f_of_int_mag: obtains m where "f_of_int d = FFin (d < 0) m" and "d \<noteq> 0 \<Longrightarrow> 1 \<le> m" and "d = 0 \<Longrightarrow> m = 0" and "m \<le> f_max"
  | "f_of_int d = FInf (d < 0)" and "d \<noteq> 0"
proof -
  define m where "m = rnd_mag \<bar>of_int d\<bar>"
  have e: "f_of_int d = (if f_max < m then FInf (d < 0) else FFin (d < 0) m)"
    by (simp add: f_of_int_def f_of_rat_def mk_f32_def m_def)
  have z: "d = 0 \<Longrightarrow> m = 0" by (simp add: m_def)
  have "1 \<le> m" if "d \<noteq> 0"
  proof -
    have "(of_int 1 :: rat) \<le> of_int \<bar>d\<bar>" using that by (simp only: of_int_le_iff)
    then have "(1 :: rat) \<le> \<bar>of_int d\<bar>" by simp
    moreover have "rnd_mag 1 = 1" using rnd_mag_repr f_repr_int [of 1] by simp
    ultimately show ?thesis using rnd_mag_mono [of 1 "\<bar>of_int d\<bar>"] by (simp add: m_def)
  qed
  moreover have "d \<noteq> 0" if "f_max < m" using that z by (auto simp: f_max_def)
  ultimately show ?thesis using e z that by (cases "f_max < m") auto
qed

text \<open>Dividing a step count by the steps per millimetre keeps its sign.\<close>

lemma f_div_steps_neg:
  assumes "spm = FFin False m" and "0 < m" and "m \<le> f_max"
  shows "f_lt (f_div (f_of_int d) spm) f_zero \<longleftrightarrow> d < 0"
proof (rule f_of_int_mag [of d])
  fix k assume k: "f_of_int d = FFin (d < 0) k" "d \<noteq> 0 \<Longrightarrow> 1 \<le> k" "d = 0 \<Longrightarrow> k = 0" "k \<le> f_max"
  show ?thesis
  proof (cases "d = 0")
    case True
    then show ?thesis using k assms by (simp add: mk_f32_def)
  next
    case False
    have "pow2 (- 128) \<le> 1 / f_max" by (simp add: pow2_def f_max_def)
    also have "\<dots> \<le> k / m" using k(2) [OF False] assms by (intro frac_le) auto
    finally have le: "pow2 (- 128) \<le> k / m" .
    have "f_repr (pow2 (- 128))" using f_reprI [of 1 "- 128"] by simp
    then have "pow2 (- 128) \<le> rnd_mag (k / m)"
      using rnd_mag_mono [OF _ le] less_imp_le [OF pow2_pos] by (simp add: rnd_mag_repr)
    then have "0 < rnd_mag (k / m)" using pow2_pos [of "- 128"] by linarith
    then show ?thesis using assms(2) by (auto simp: k(1) assms(1) mk_f32_def Let_def)
  qed
next
  assume "f_of_int d = FInf (d < 0)" "d \<noteq> 0"
  then show ?thesis using assms by simp
qed

definition spm_ok :: "settings_t \<Rightarrow> bool" where
  "spm_ok st \<longleftrightarrow> (\<forall>i < N_AXIS. f_finite (steps_per_mm st ! i) \<and> f_lt f_zero (steps_per_mm st ! i)
     \<and> f_wf (steps_per_mm st ! i))"

lemma f_pos_cases:
  assumes "f_finite x" and "f_lt f_zero x" and "f_wf x"
  obtains m where "x = FFin False m" and "0 < m" and "m \<le> f_max"
proof -
  obtain s m where x: "x = FFin s m" using assms(1) by (cases x) auto
  then have "\<not> s" "0 < m" "m \<le> f_max" using assms f_reprD [of m] by (auto split: if_splits)
  then show ?thesis using x that by simp
qed

lemma spm_neg: "spm_ok st \<Longrightarrow> i < N_AXIS \<Longrightarrow> f_lt (f_div (f_of_int d) (steps_per_mm st ! i)) f_zero \<longleftrightarrow> d < 0"
  by (rule f_pos_cases [of "steps_per_mm st ! i"]) (auto simp: spm_ok_def f_div_steps_neg)

lemma upt_axes: "[0..<N_AXIS] = [0, 1, 2]"
  by (simp add: N_AXIS_def upt_rec)

lemma f_lround_of_int: "\<bar>n\<bar> \<le> 2 ^ 24 \<Longrightarrow> f_lround (f_of_int n) = n"
proof -
  have "\<lfloor>1 / 2 :: rat\<rfloor> = 0" by (rule floor_unique) simp_all
  then show "\<bar>n\<bar> \<le> 2 ^ 24 \<Longrightarrow> f_lround (f_of_int n) = n" by (simp add: f_of_int_exact)
qed

lemma direction_masks:
  "get_direction_pin_mask 0 = bitw 5" "get_direction_pin_mask (Suc 0) = bitw 6" "get_direction_pin_mask 2 = bitw 7"
  by (simp_all add: get_direction_pin_mask_def X_AXIS_def Y_AXIS_def)

lemma plan_axis_x:
  assumes "plan_axis st target pos 0 (ts, b, u) = (ts', b', u')"
    and "\<And>i d. i < 3 \<Longrightarrow> f_lt (f_div (f_of_int d) (steps_per_mm st ! i)) f_zero \<longleftrightarrow> d < 0"
  shows "ts' = ts" and "steps b' = steps b" and "step_event_count b' = max (step_event_count b) (steps b ! 0)"
    and "direction_bits b' = (if ts ! 0 - pos ! 0 + ts ! 1 - pos ! 1 < 0 then direction_bits b OR bitw 5
      else direction_bits b)"
    and "u' = u[0 := f_div (f_of_int (ts ! 0 - pos ! 0 + ts ! 1 - pos ! 1)) (steps_per_mm st ! 0)]"
  using assms(1) by (simp_all add: plan_axis_def Let_def X_AXIS_def Y_AXIS_def assms(2)
      direction_masks) (auto simp: direction_masks)

lemma plan_axis_y:
  assumes "plan_axis st target pos 1 (ts, b, u) = (ts', b', u')"
    and "\<And>i d. i < 3 \<Longrightarrow> f_lt (f_div (f_of_int d) (steps_per_mm st ! i)) f_zero \<longleftrightarrow> d < 0"
  shows "ts' = ts" and "steps b' = steps b" and "step_event_count b' = max (step_event_count b) (steps b ! 1)"
    and "direction_bits b' = (if ts ! 0 - pos ! 0 - ts ! 1 + pos ! 1 < 0 then direction_bits b OR bitw 6
      else direction_bits b)"
    and "u' = u[1 := f_div (f_of_int (ts ! 0 - pos ! 0 - ts ! 1 + pos ! 1)) (steps_per_mm st ! 1)]"
  using assms(1) by (simp_all add: plan_axis_def Let_def X_AXIS_def Y_AXIS_def assms(2)
      direction_masks) (auto simp: direction_masks)

lemma plan_axis_z:
  assumes "plan_axis st target pos 2 (ts, b, u) = (ts', b', u')"
    and "\<And>i d. i < 3 \<Longrightarrow> f_lt (f_div (f_of_int d) (steps_per_mm st ! i)) f_zero \<longleftrightarrow> d < 0"
  shows "ts' = ts[2 := f_lround (f_mul (target ! 2) (steps_per_mm st ! 2))]"
    and "steps b' = (steps b)[2 := word_of_int \<bar>ts[2 := f_lround (f_mul (target ! 2) (steps_per_mm st ! 2))] ! 2 - pos ! 2\<bar>]"
    and "step_event_count b' = max (step_event_count b) (steps b' ! 2)"
    and "direction_bits b' = (if ts[2 := f_lround (f_mul (target ! 2) (steps_per_mm st ! 2))] ! 2 - pos ! 2 < 0 then direction_bits b OR bitw 7
      else direction_bits b)"
    and "u' = u[2 := f_div (f_of_int (ts[2 := f_lround (f_mul (target ! 2) (steps_per_mm st ! 2))] ! 2 - pos ! 2))
      (steps_per_mm st ! 2)]"
  using assms(1) by (simp_all add: plan_axis_def Let_def X_AXIS_def Y_AXIS_def assms(2)
      direction_masks) (auto simp: direction_masks)

text \<open>The block a line is turned into, from the rounded steps of the axes to go.\<close>

text \<open>The three passes over the axes, with \<open>x\<close>, \<open>y\<close>, \<open>z\<close> the rounded target.\<close>

lemma plan_line_axes:
  fixes s :: "'a planner_t_scheme"
  assumes spm: "spm_ok st" and nsm: "pd_condition pl_data AND PL_COND_FLAG_SYSTEM_MOTION = 0"
    and r: "plan_line_steps st position target pl_data s = (target_steps, b, unit_vec)"
  defines "x \<equiv> f_lround (f_mul (target ! 0) (steps_per_mm st ! 0))" and "y \<equiv> f_lround (f_mul (target ! 1) (steps_per_mm st ! 1))"
    and "z \<equiv> f_lround (f_mul (target ! 2) (steps_per_mm st ! 2))"
  defines "da \<equiv> x - pl_position s ! 0 + y - pl_position s ! 1" and "db \<equiv> x - pl_position s ! 0 - y + pl_position s ! 1"
    and "dc \<equiv> z - pl_position s ! 2"
  shows "target_steps = [x, y, z]" and "steps b = [word_of_int \<bar>da\<bar>, word_of_int \<bar>db\<bar>, word_of_int \<bar>dc\<bar>]"
    and "step_event_count b = max (max (word_of_int \<bar>da\<bar>) (word_of_int \<bar>db\<bar>)) (word_of_int \<bar>dc\<bar>)"
    and "direction_bits b = (if dc < 0 then (\<lambda>v. v OR bitw 7) else id)
      ((if db < 0 then (\<lambda>v. v OR bitw 6) else id) (if da < 0 then bitw 5 else 0))"
    and "unit_vec = [f_div (f_of_int da) (steps_per_mm st ! 0), f_div (f_of_int db) (steps_per_mm st ! 1),
      f_div (f_of_int dc) (steps_per_mm st ! 2)]"
proof -
  have n: "f_lt (f_div (f_of_int d) (steps_per_mm st ! i)) f_zero \<longleftrightarrow> d < 0" if "i < 3" for i d
    using spm_neg [OF spm, of i d] that by (simp add: N_AXIS_def)
  have e: "x - pl_position s ! 0 + (y - pl_position s ! 1) = da" "x - pl_position s ! 0 - (y - pl_position s ! 1) = db"
    by (simp_all add: da_def db_def)
  let ?b0 = "plan_block_zero\<lparr>condition := pd_condition pl_data, pb_spindle_speed := pd_spindle_speed pl_data,
      steps := [word_of_int \<bar>da\<bar>, word_of_int \<bar>db\<bar>, 0]\<rparr>"
  let ?P = "plan_axis st target (pl_position s)"
  have P: "plan_line_steps st position target pl_data s = ?P 2 (?P 1 (?P 0 ([x, y, 0], ?b0, [f_zero, f_zero, f_zero])))"
    using nsm unfolding plan_line_steps_def upt_axes Let_def
    by (simp add: plan_block_zero_def N_AXIS_def X_AXIS_def Y_AXIS_def e [unfolded One_nat_def x_def y_def] x_def y_def numeral_3_eq_3 numeral_2_eq_2)
  obtain t1 b1 u1 where 1: "?P 0 ([x, y, 0], ?b0, [f_zero, f_zero, f_zero]) = (t1, b1, u1)" by (metis prod_cases3)
  obtain t2 b2 u2 where 2: "?P 1 (t1, b1, u1) = (t2, b2, u2)" by (metis prod_cases3)
  obtain t3 b3 u3 where 3: "?P 2 (t2, b2, u2) = (t3, b3, u3)" by (metis prod_cases3)
  have b1: "t1 = [x, y, 0]" "steps b1 = [word_of_int \<bar>da\<bar>, word_of_int \<bar>db\<bar>, 0]" "step_event_count b1 = word_of_int \<bar>da\<bar>"
      "direction_bits b1 = (if da < 0 then bitw 5 else 0)" "u1 = [f_div (f_of_int da) (steps_per_mm st ! 0), f_zero, f_zero]"
    using plan_axis_x [OF 1 n] by (simp_all add: da_def plan_block_zero_def)
  have b2: "t2 = [x, y, 0]" "steps b2 = steps b1" "step_event_count b2 = max (step_event_count b1) (word_of_int \<bar>db\<bar>)"
      "direction_bits b2 = (if db < 0 then direction_bits b1 OR bitw 6 else direction_bits b1)"
      "u2 = u1[1 := f_div (f_of_int db) (steps_per_mm st ! 1)]"
    using plan_axis_y [OF 2 n] b1 by (simp_all add: db_def)
  have b3: "t3 = [x, y, z]" "steps b3 = [word_of_int \<bar>da\<bar>, word_of_int \<bar>db\<bar>, word_of_int \<bar>dc\<bar>]"
      "step_event_count b3 = max (step_event_count b2) (word_of_int \<bar>dc\<bar>)"
      "direction_bits b3 = (if dc < 0 then direction_bits b2 OR bitw 7 else direction_bits b2)"
      "u3 = u2[2 := f_div (f_of_int dc) (steps_per_mm st ! 2)]"
    using plan_axis_z [OF 3 n] b1 b2 by (simp_all add: dc_def z_def numeral_2_eq_2)
  have "target_steps = t3" "b = b3" "unit_vec = u3" using r unfolding P 1 2 3 by simp_all
  with b1 b2 b3 show "target_steps = [x, y, z]" "steps b = [word_of_int \<bar>da\<bar>, word_of_int \<bar>db\<bar>, word_of_int \<bar>dc\<bar>]"
    "step_event_count b = max (max (word_of_int \<bar>da\<bar>) (word_of_int \<bar>db\<bar>)) (word_of_int \<bar>dc\<bar>)"
    "direction_bits b = (if dc < 0 then (\<lambda>v. v OR bitw 7) else id)
      ((if db < 0 then (\<lambda>v. v OR bitw 6) else id) (if da < 0 then bitw 5 else 0))"
    "unit_vec = [f_div (f_of_int da) (steps_per_mm st ! 0), f_div (f_of_int db) (steps_per_mm st ! 1),
      f_div (f_of_int dc) (steps_per_mm st ! 2)]"
    by (simp_all add: numeral_2_eq_2)
qed

lemma plan_line_steps_result:
  assumes "spm_ok st" and "pd_condition pl_data AND PL_COND_FLAG_SYSTEM_MOTION = 0"
    and "plan_line_steps st position target pl_data s = (target_steps, b, unit_vec)"
    and "dx = target_steps ! 0 - pl_position s ! 0" and "dy = target_steps ! 1 - pl_position s ! 1"
    and "dz = target_steps ! 2 - pl_position s ! 2"
  shows "target_steps = map (\<lambda>i. f_lround (f_mul (target ! i) (steps_per_mm st ! i))) [0, 1, 2]"
    and "steps b = [word_of_int \<bar>dx + dy\<bar>, word_of_int \<bar>dx - dy\<bar>, word_of_int \<bar>dz\<bar>]"
    and "step_event_count b = max (max (steps b ! 0) (steps b ! 1)) (steps b ! 2)"
    and "bit (direction_bits b) k \<longleftrightarrow> k = 5 \<and> dx + dy < 0 \<or> k = 6 \<and> dx - dy < 0 \<or> k = 7 \<and> dz < 0"
    and "unit_vec = [f_div (f_of_int (dx + dy)) (steps_per_mm st ! 0), f_div (f_of_int (dx - dy)) (steps_per_mm st ! 1),
      f_div (f_of_int dz) (steps_per_mm st ! 2)]"
proof -
  note p = plan_line_axes [OF assms(1-3)]
  note d = assms(4-6) [unfolded p(1)]
  show "target_steps = map (\<lambda>i. f_lround (f_mul (target ! i) (steps_per_mm st ! i))) [0, 1, 2]" using p(1) by simp
  show st: "steps b = [word_of_int \<bar>dx + dy\<bar>, word_of_int \<bar>dx - dy\<bar>, word_of_int \<bar>dz\<bar>]"
    using p(2) by (simp add: d algebra_simps numeral_2_eq_2)
  show "step_event_count b = max (max (steps b ! 0) (steps b ! 1)) (steps b ! 2)" by (simp add: p(2,3) numeral_2_eq_2)
  show "bit (direction_bits b) k \<longleftrightarrow> k = 5 \<and> dx + dy < 0 \<or> k = 6 \<and> dx - dy < 0 \<or> k = 7 \<and> dz < 0"
    unfolding p(4) by (auto simp: bit_or_iff bit_bitw d numeral_2_eq_2)
  show "unit_vec = [f_div (f_of_int (dx + dy)) (steps_per_mm st ! 0), f_div (f_of_int (dx - dy)) (steps_per_mm st ! 1),
      f_div (f_of_int dz) (steps_per_mm st ! 2)]"
    using p(5) by (simp add: d algebra_simps numeral_2_eq_2)
qed

section \<open>Properties\<close>

text \<open>
  The planner's bookkeeping is exact: the queue is full exactly when 15 blocks wait, and the
  two counters report the number of waiting blocks and of free places.
\<close>

theorem plan_counts:
  assumes "planner_inv s"
  shows "unat (plan_get_block_buffer_count s) = length (plan_blocks s)
    \<and> unat (plan_get_block_buffer_available s) = 15 - length (plan_blocks s)
    \<and> (plan_check_full_buffer s \<longleftrightarrow> length (plan_blocks s) = 15)"
proof -
  let ?h = "unat (block_buffer_head s)" let ?t = "unat (block_buffer_tail s)"
  have r: "?h < 16" "?t < 16" using assms by (simp_all add: planner_inv_def)
  have f: "plan_check_full_buffer s \<longleftrightarrow> length (plan_blocks s) = 15"
    using plan.full_iff [OF r] assms
    by (auto simp: plan_check_full_buffer_def planner_inv_def length_plan_blocks u8_eq_iff)
  show ?thesis
  proof (cases "block_buffer_tail s \<le> block_buffer_head s")
    case True
    then have "?t \<le> ?h" "unat (block_buffer_head s - block_buffer_tail s) = ?h - ?t"
      by (simp_all add: word_le_nat_alt unat_u8_sub)
    then show ?thesis using True f r
      by (simp add: plan_get_block_buffer_count_def plan_get_block_buffer_available_def
          length_plan_blocks ring_used_eq BLOCK_BUFFER_SIZE_def unat_u8_sub word_le_nat_alt)
  next
    case False
    then have lt: "?h < ?t" by (simp add: word_le_nat_alt)
    then have d: "unat (block_buffer_tail s - block_buffer_head s) = ?t - ?h"
      by (simp add: unat_u8_sub word_le_nat_alt)
    then show ?thesis using False lt f r
      by (simp add: plan_get_block_buffer_count_def plan_get_block_buffer_available_def
          length_plan_blocks ring_used_eq BLOCK_BUFFER_SIZE_def unat_u8_sub word_le_nat_alt)
  qed
qed

definition planner_zero :: planner_t where
  "planner_zero = plan_reset
     \<lparr>block_buffer = replicate 16 plan_block_zero, block_buffer_tail = 0, block_buffer_head = 0,
      next_buffer_head = 0, block_buffer_planned = 0, pl_position = [], pl_previous_unit_vec = [],
      pl_previous_nominal_speed = f_zero\<rparr>"

lemma planner_inv_zero: "planner_inv planner_zero"
  by (simp add: planner_inv_def planner_zero_def plan_reset_def plan_reset_buffer_def
      plan_next_block_index_def Let_def BLOCK_BUFFER_SIZE_def)

theorem plan_counts_witness:
  "unat (plan_get_block_buffer_available planner_zero) = 15 - length (plan_blocks planner_zero)"
  by (rule plan_counts [OF planner_inv_zero, THEN conjunct2, THEN conjunct1])




end
