(* ===== verification/Coolant.thy ===== *)
theory Coolant
  imports Plan_Data
begin

text \<open>
  coolant_control.c with flood coolant only (\<open>ENABLE_M7\<close> is not defined). The output is a pin
  of port C; the port register is part of the state, so that what the routines do to the other
  pins is visible.
\<close>

definition COOLANT_FLOOD_BIT :: nat where [grbl_const]: "COOLANT_FLOOD_BIT = 3"
definition COOLANT_STATE_DISABLE :: u8 where [grbl_const]: "COOLANT_STATE_DISABLE = 0"
definition COOLANT_STATE_FLOOD :: u8 where [grbl_const]: "COOLANT_STATE_FLOOD = 1"
definition COOLANT_STATE_MIST :: u8 where [grbl_const]: "COOLANT_STATE_MIST = 2"

record coolant_t =
  coolant_flood_ddr :: u8
  coolant_flood_port :: u8

definition coolant_get_state :: "coolant_t \<Rightarrow> u8" where
  "coolant_get_state c =
     (if bit_istrue (coolant_flood_port c) (bitw COOLANT_FLOOD_BIT)
      then COOLANT_STATE_DISABLE OR COOLANT_STATE_FLOOD else COOLANT_STATE_DISABLE)"

definition coolant_stop :: "coolant_t \<Rightarrow> coolant_t" where
  "coolant_stop c = c\<lparr>coolant_flood_port := bit_false (coolant_flood_port c) (bitw COOLANT_FLOOD_BIT)\<rparr>"

definition coolant_init :: "coolant_t \<Rightarrow> coolant_t" where
  "coolant_init c =
     coolant_stop (c\<lparr>coolant_flood_ddr := bit_true (coolant_flood_ddr c) (bitw COOLANT_FLOOD_BIT)\<rparr>)"

definition coolant_set_state :: "u8 \<Rightarrow> system_t \<times> coolant_t \<Rightarrow> system_t \<times> coolant_t" where
  "coolant_set_state mode s =
     (case s of (sy, c) \<Rightarrow>
       if sys_abort sy \<noteq> 0 then (sy, c)
       else (let c = (if mode = COOLANT_DISABLE then coolant_stop c
                      else if mode AND COOLANT_FLOOD_ENABLE \<noteq> 0
                      then c\<lparr>coolant_flood_port :=
                             bit_true (coolant_flood_port c) (bitw COOLANT_FLOOD_BIT)\<rparr>
                      else c)
             in (sy\<lparr>sys_report_ovr_counter := 0\<rparr>, c)))"

lemma coolant_get_state_iff:
  "coolant_get_state c = COOLANT_STATE_FLOOD \<longleftrightarrow> bit (coolant_flood_port c) COOLANT_FLOOD_BIT"
  "coolant_get_state c = COOLANT_STATE_DISABLE \<longleftrightarrow> \<not> bit (coolant_flood_port c) COOLANT_FLOOD_BIT"
  by (simp_all add: coolant_get_state_def bit_istrue_bitw grbl_const)

lemma bit_true_bitw: "k < 8 \<Longrightarrow> bit (bit_true x (bitw k)) n \<longleftrightarrow> bit x n \<or> n = k"
  by (auto simp: bit_true_def bitw_def bit_simps)

lemma bit_false_bitw: "bit (bit_false x (bitw k)) n \<longleftrightarrow> bit x n \<and> n \<noteq> k"
  using bit_imp_le_length [of x n] by (auto simp: bit_false_def bitw_def bit_simps)

section \<open>Properties\<close>

text \<open>
  The flood pin follows the commanded mode: unless an abort blocks the call, the coolant
  reads as flood afterwards if and only if the mode asks for flood, or it was on already and
  the mode is not "off"; every other pin of the port keeps its value.
\<close>

theorem coolant_set_state_exact:
  assumes "sys_abort sy = 0"
  shows "(coolant_get_state (snd (coolant_set_state mode (sy, c))) = COOLANT_STATE_FLOOD \<longleftrightarrow>
      mode AND COOLANT_FLOOD_ENABLE \<noteq> 0
      \<or> mode \<noteq> COOLANT_DISABLE \<and> coolant_get_state c = COOLANT_STATE_FLOOD)
    \<and> (\<forall>k \<noteq> COOLANT_FLOOD_BIT. bit (coolant_flood_port (snd (coolant_set_state mode (sy, c)))) k
        = bit (coolant_flood_port c) k)"
  using assms unfolding coolant_get_state_iff
  by (auto simp: coolant_set_state_def coolant_stop_def Let_def bit_true_bitw bit_false_bitw grbl_const)

theorem coolant_set_state_exact_witness:
  "coolant_get_state (snd (coolant_set_state COOLANT_FLOOD_ENABLE
     (sys_zero,
      \<lparr>coolant_flood_ddr = 0, coolant_flood_port = 0\<rparr>))) = COOLANT_STATE_FLOOD"
  by (subst coolant_set_state_exact [THEN conjunct1]) (simp_all add: grbl_const sys_zero_def)

end
