(* ===== verification/Spindle.thy ===== *)
theory Spindle
  imports Plan_Data
begin

text \<open>
  spindle_control.c in the project's configuration: the variable spindle PWM output drives a
  servo (\<open>SPINDLE_IS_SERVO\<close>, the pen lift), without the piecewise speed model. Timer 2's control
  and compare registers and the direction pin are the state; the stepper interrupt and the
  override handling use the same routines.
\<close>

definition SPINDLE_PWM_MAX_VALUE :: int where [grbl_const]: "SPINDLE_PWM_MAX_VALUE = 38"
definition SPINDLE_PWM_MIN_VALUE :: int where [grbl_const]: "SPINDLE_PWM_MIN_VALUE = 7"
definition SPINDLE_PWM_OFF_VALUE :: u8 where [grbl_const]: "SPINDLE_PWM_OFF_VALUE = 0"
definition SPINDLE_PWM_RANGE :: int where [grbl_const]:
  "SPINDLE_PWM_RANGE = SPINDLE_PWM_MAX_VALUE - SPINDLE_PWM_MIN_VALUE"
definition SPINDLE_PWM_BIT :: nat where [grbl_const]: "SPINDLE_PWM_BIT = 3"
definition SPINDLE_DIRECTION_BIT :: nat where [grbl_const]: "SPINDLE_DIRECTION_BIT = 5"
definition SPINDLE_COMB_BIT :: nat where [grbl_const]: "SPINDLE_COMB_BIT = 7"
definition SPINDLE_TCCRA_INIT_MASK :: u8 where [grbl_const]: "SPINDLE_TCCRA_INIT_MASK = 3"
definition SPINDLE_TCCRB_INIT_MASK :: u8 where [grbl_const]: "SPINDLE_TCCRB_INIT_MASK = 7"
definition SPINDLE_STATE_DISABLE :: u8 where [grbl_const]: "SPINDLE_STATE_DISABLE = 0"
definition SPINDLE_STATE_CW :: u8 where [grbl_const]: "SPINDLE_STATE_CW = 1"
definition SPINDLE_STATE_CCW :: u8 where [grbl_const]: "SPINDLE_STATE_CCW = 2"

record spindle_t =
  pwm_gradient :: f32
  spindle_ddr :: u8
  spindle_direction_port :: u8
  spindle_tccra :: u8
  spindle_tccrb :: u8
  spindle_ocr :: u8

definition spindle_zero :: spindle_t where
  "spindle_zero = \<lparr>pwm_gradient = f_zero, spindle_ddr = 0, spindle_direction_port = 0, spindle_tccra = 0,
     spindle_tccrb = 0, spindle_ocr = 0\<rparr>"

section \<open>Operations\<close>

definition spindle_stop :: "spindle_t \<Rightarrow> spindle_t" where
  "spindle_stop p = p\<lparr>spindle_tccra := bit_false (spindle_tccra p) (bitw SPINDLE_COMB_BIT)\<rparr>"

definition spindle_init :: "settings_t \<Rightarrow> spindle_t \<Rightarrow> spindle_t" where
  "spindle_init st p =
     spindle_stop
       (p\<lparr>spindle_ddr := bit_true (bit_true (spindle_ddr p) (bitw SPINDLE_PWM_BIT)) (bitw SPINDLE_DIRECTION_BIT),
          spindle_tccra := SPINDLE_TCCRA_INIT_MASK,
          spindle_tccrb := SPINDLE_TCCRB_INIT_MASK,
          pwm_gradient := f_div (f_of_int SPINDLE_PWM_RANGE) (f_sub (rpm_max st) (rpm_min st))\<rparr>)"

definition spindle_get_state :: "spindle_t \<Rightarrow> u8" where
  "spindle_get_state p =
     (if spindle_tccra p AND bitw SPINDLE_COMB_BIT \<noteq> 0
      then (if spindle_direction_port p AND bitw SPINDLE_DIRECTION_BIT \<noteq> 0
            then SPINDLE_STATE_CCW else SPINDLE_STATE_CW)
      else SPINDLE_STATE_DISABLE)"

definition spindle_set_speed :: "u8 \<Rightarrow> spindle_t \<Rightarrow> spindle_t" where
  "spindle_set_speed pwm_value p =
     (let p = p\<lparr>spindle_ocr := pwm_value\<rparr> in
      if pwm_value = SPINDLE_PWM_OFF_VALUE
      then p\<lparr>spindle_tccra := bit_false (spindle_tccra p) (bitw SPINDLE_COMB_BIT)\<rparr>
      else p\<lparr>spindle_tccra := bit_true (spindle_tccra p) (bitw SPINDLE_COMB_BIT)\<rparr>)"

text \<open>The PWM value for a programmed speed, and the speed recorded in \<open>sys\<close> for reports.\<close>

definition spindle_compute_pwm_value ::
    "settings_t \<Rightarrow> f32 \<Rightarrow> f32 \<Rightarrow> system_t \<Rightarrow> u8 \<times> system_t" where
  "spindle_compute_pwm_value st gradient rpm sy =
     (let rpm = f_mul rpm (f_mul (f_of_rat (1/100)) (f_of_int (uint (sys_spindle_speed_ovr sy)))) in
      if f_le (rpm_max st) (rpm_min st) \<or> f_le (rpm_max st) rpm
      then (word_of_int SPINDLE_PWM_MAX_VALUE, sy\<lparr>sys_spindle_speed := rpm_max st\<rparr>)
      else if f_le rpm (rpm_min st)
      then (if f_eq rpm f_zero
            then (SPINDLE_PWM_OFF_VALUE, sy\<lparr>sys_spindle_speed := f_zero\<rparr>)
            else (word_of_int SPINDLE_PWM_MIN_VALUE, sy\<lparr>sys_spindle_speed := rpm_min st\<rparr>))
      else (word_of_int (f_to_int (f_add (f_floor (f_mul (f_sub rpm (rpm_min st)) gradient))
                                         (f_of_int SPINDLE_PWM_MIN_VALUE))),
            sy\<lparr>sys_spindle_speed := rpm\<rparr>))"

text \<open>
  Switching the servo "off" sends the PWM value computed for the speed
  \<open>SPINDLE_PWM_MIN_VALUE\<close>, as the source does.
\<close>

definition spindle_set_state :: "settings_t \<Rightarrow> u8 \<Rightarrow> f32 \<Rightarrow> system_t \<times> spindle_t \<Rightarrow> system_t \<times> spindle_t" where
  "spindle_set_state st state rpm s =
     (case s of (sy, p) \<Rightarrow>
       if sys_abort sy \<noteq> 0 then (sy, p)
       else (let (sy, p) =
               (if state = SPINDLE_DISABLE then
                  (let sy = sy\<lparr>sys_spindle_speed := f_of_int SPINDLE_PWM_MIN_VALUE\<rparr>;
                       (pwm, sy) = spindle_compute_pwm_value st (pwm_gradient p)
                                     (f_of_int SPINDLE_PWM_MIN_VALUE) sy
                   in (sy, spindle_set_speed pwm p))
                else
                  (let p = (if state = SPINDLE_ENABLE_CW
                            then p\<lparr>spindle_direction_port :=
                                   bit_false (spindle_direction_port p) (bitw SPINDLE_DIRECTION_BIT)\<rparr>
                            else p\<lparr>spindle_direction_port :=
                                   bit_true (spindle_direction_port p) (bitw SPINDLE_DIRECTION_BIT)\<rparr>);
                       rpm = (if settings_flags st AND BITFLAG_LASER_MODE \<noteq> 0 \<and> state = SPINDLE_ENABLE_CCW
                              then f_zero else rpm);
                       (pwm, sy) = spindle_compute_pwm_value st (pwm_gradient p) rpm sy
                   in (sy, spindle_set_speed pwm p)))
             in (sy\<lparr>sys_report_ovr_counter := 0\<rparr>, p)))"

section \<open>Rounding bounds\<close>

lemma rnd_mag_upper:
  assumes "0 < r" shows "rnd_mag r \<le> r + pow2 (ulp_exp r) / 2"
proof -
  let ?x = "r / pow2 (ulp_exp r)"
  have "of_int (round_half_even ?x) - ?x \<le> 1/2"
    using round_half_even_close [of ?x] by linarith
  then have "of_int (round_half_even ?x) * pow2 (ulp_exp r) \<le> (?x + 1/2) * pow2 (ulp_exp r)"
    by (intro mult_right_mono) (linarith, simp add: less_imp_le)
  also have "\<dots> = r + pow2 (ulp_exp r) / 2" by (simp add: distrib_right)
  finally show ?thesis using assms by (simp add: rnd_mag_def)
qed

lemma ulp_le: "0 < r \<Longrightarrow> pow2 (ulp_exp r) \<le> r / 2 ^ 23 + pow2 (- 149)"
proof -
  assume r: "0 < r"
  have "pow2 (flog2 r - 23) \<le> r / 2 ^ 23"
    using flog2_bounds(1) [OF r] by (simp add: pow2_diff) (simp add: pow2_def)
  moreover have "0 \<le> pow2 (- 149)" "0 \<le> r / 2 ^ 23" using r by (simp_all add: less_imp_le)
  moreover have "pow2 (ulp_exp r) = pow2 (flog2 r - 23) \<or> pow2 (ulp_exp r) = pow2 (- 149)"
    by (simp add: ulp_exp_def max_def)
  ultimately show ?thesis by linarith
qed

lemma rnd_mag_upper_repr: "0 \<le> r \<Longrightarrow> r \<le> s \<Longrightarrow> f_repr s \<Longrightarrow> rnd_mag r \<le> s"
  using rnd_mag_mono [of r s] by (simp add: rnd_mag_repr)

lemma rnd_mag_lower_repr: "f_repr r \<Longrightarrow> r \<le> s \<Longrightarrow> r \<le> rnd_mag s"
  using rnd_mag_mono [of r s] f_reprD [of r] by (simp add: rnd_mag_repr)

text \<open>Scaling by the rounded quotient of 31 and the speed range stays below 32.\<close>

lemma servo_product:
  assumes "0 \<le> x" and "x \<le> d" and "1 \<le> d" and "d \<le> f_max"
  shows "rnd_mag (31 / d) \<le> f_max" and "rnd_mag (x * rnd_mag (31 / d)) \<le> 63 / 2"
proof -
  let ?r = "31 / d"
  have r: "0 < ?r" "?r \<le> 31" using assms by (simp_all add: divide_le_eq)
  have "rnd_mag ?r \<le> 31" using r f_repr_int [of 31] by (intro rnd_mag_upper_repr) auto
  also have "\<dots> \<le> f_max" by (simp add: f_max_def)
  finally show "rnd_mag ?r \<le> f_max" .
  have "pow2 (ulp_exp ?r) / 2 \<le> (?r / 2 ^ 23 + pow2 (- 149)) / 2"
    by (rule divide_right_mono [OF ulp_le [OF r(1)]]) simp
  then have "rnd_mag ?r \<le> ?r + (?r / 2 ^ 23 + pow2 (- 149)) / 2"
    using rnd_mag_upper [OF r(1)] by (meson add_left_mono order_trans)
  then have "d * rnd_mag ?r \<le> d * (?r + (?r / 2 ^ 23 + pow2 (- 149)) / 2)"
    using assms by (intro mult_left_mono) auto
  also have "\<dots> = 31 + 31 / 2 ^ 24 + d * pow2 (- 150)"
    using assms by (simp add: field_simps pow2_def)
  also have "\<dots> \<le> 31 + 31 / 2 ^ 24 + f_max * pow2 (- 150)"
    using assms by (intro add_left_mono mult_right_mono) (auto simp: less_imp_le)
  also have "\<dots> \<le> 63 / 2" by (simp add: f_max_def pow2_def)
  finally have "d * rnd_mag ?r \<le> 63 / 2" .
  moreover have n: "0 \<le> rnd_mag ?r" using r by (simp add: rnd_mag_nonneg)
  ultimately have "x * rnd_mag ?r \<le> 63 / 2"
    using mult_right_mono [OF assms(2) n] by linarith
  moreover have "f_repr (63 / 2)" using f_reprI [of 63 "- 1"] by (simp add: pow2_def)
  ultimately show "rnd_mag (x * rnd_mag ?r) \<le> 63 / 2"
    using assms n by (intro rnd_mag_upper_repr) auto
qed

section \<open>The linear speed model\<close>

definition scaled_rpm :: "f32 \<Rightarrow> system_t \<Rightarrow> f32" where
  "scaled_rpm rpm sy = f_mul rpm (f_mul (f_of_rat (1/100)) (f_of_int (uint (sys_spindle_speed_ovr sy))))"

text \<open>The speed range the gradient is computed from is finite and at least 1 rpm.\<close>

definition rpm_range_ok :: "settings_t \<Rightarrow> bool" where
  "rpm_range_ok st \<longleftrightarrow> f_finite (rpm_min st) \<and> f_finite (rpm_max st) \<and>
     f_finite (f_sub (rpm_max st) (rpm_min st)) \<and> f_le (f_of_int 1) (f_sub (rpm_max st) (rpm_min st))"

lemma f_sub_fin:
  "f_sub (FFin s a) (FFin t b) =
     (let v = f_val (FFin s a) - f_val (FFin t b)
      in if v = 0 then FFin (s \<and> \<not> t) 0 else mk_f32 (v < 0) \<bar>v\<bar>)"
  by (cases t) (simp_all add: f_sub_def Let_def)

lemma f_sub_greater:
  assumes "f_val (FFin t b) < f_val (FFin s a)"
  shows "f_sub (FFin s a) (FFin t b) = mk_f32 False (f_val (FFin s a) - f_val (FFin t b))"
proof -
  have "f_val (FFin s a) - f_val (FFin t b) \<noteq> 0" "\<not> f_val (FFin s a) - f_val (FFin t b) < 0"
    "\<bar>f_val (FFin s a) - f_val (FFin t b)\<bar> = f_val (FFin s a) - f_val (FFin t b)"
    using assms by linarith+
  then show ?thesis unfolding f_sub_fin Let_def by (simp only: if_False)
qed

lemma f_add_of_int:
  assumes "0 \<le> n" and "0 < m" and "n + m \<le> 2 ^ 24"
  shows "f_add (FFin False (of_int n)) (FFin False (of_int m)) = FFin False (of_int (n + m))"
proof -
  have v: "(of_int n :: rat) + of_int m = of_int (n + m)" by simp
  have p: "(of_int (n + m) :: rat) \<noteq> 0" "\<not> (of_int (n + m) :: rat) < 0"
    "\<bar>of_int (n + m) :: rat\<bar> = of_int (n + m)"
    using assms by (simp_all only: of_int_eq_0_iff of_int_less_0_iff of_int_abs [symmetric])
  have r: "f_repr (of_int (n + m))" "of_int (n + m) \<le> f_max"
    using assms by (intro f_repr_int int_le_f_max; simp)+
  show ?thesis
    unfolding f_add.simps f_val.simps if_False v Let_def p(3) by (simp only: p if_False mk_f32_repr [OF r])
qed

lemma pwm_linear:
  assumes "rpm_range_ok st" and "f_lt (rpm_min st) r" and "f_lt r (rpm_max st)"
  obtains X G where "f_to_int (f_add (f_floor (f_mul (f_sub r (rpm_min st))
        (pwm_gradient (spindle_init st p)))) (f_of_int SPINDLE_PWM_MIN_VALUE)) = \<lfloor>rnd_mag (X * G)\<rfloor> + 7"
    and "X = rnd_mag (f_val r - f_val (rpm_min st))"
    and "G = rnd_mag (31 / rnd_mag (f_val (rpm_max st) - f_val (rpm_min st)))"
    and "0 \<le> \<lfloor>rnd_mag (X * G)\<rfloor>" and "\<lfloor>rnd_mag (X * G)\<rfloor> \<le> 31"
proof -
  obtain s a where mn: "rpm_min st = FFin s a" using assms(1) by (cases "rpm_min st") (auto simp: rpm_range_ok_def)
  obtain t b where mx: "rpm_max st = FFin t b" using assms(1) by (cases "rpm_max st") (auto simp: rpm_range_ok_def)
  obtain u c where r: "r = FFin u c" using assms(2,3) mn mx by (cases r) (auto split: if_splits)
  let ?a = "f_val (FFin s a)" let ?b = "f_val (FFin t b)" let ?c = "f_val (FFin u c)"
  have lt: "?a < ?c" "?c < ?b" "?a < ?b" using assms(2,3) by (simp_all only: mn mx r f_lt.simps)
  define D where "D = rnd_mag (?b - ?a)"
  define X where "X = rnd_mag (?c - ?a)"
  define G where "G = rnd_mag (31 / D)"
  have subD: "f_sub (rpm_max st) (rpm_min st) = mk_f32 False (?b - ?a)"
    unfolding mn mx by (rule f_sub_greater [OF lt(3)])
  have fin: "f_finite (mk_f32 False (?b - ?a))" "f_le (f_of_int 1) (mk_f32 False (?b - ?a))"
    using assms(1) unfolding rpm_range_ok_def subD by blast+
  then have D: "D \<le> f_max" "1 \<le> D"
    unfolding mk_f32_def Let_def D_def [symmetric]
    by (simp_all only: split: if_splits) (auto simp: f_of_int_exact f_le_def)
  have X: "0 \<le> X" "X \<le> D" unfolding X_def D_def using lt by (auto intro: rnd_mag_nonneg rnd_mag_mono)
  note P = servo_product [OF X D(2,1), folded G_def]
  have G0: "0 \<le> G" using D unfolding G_def by (intro rnd_mag_nonneg) simp
  have "\<not> f_max < X" using X(2) D(1) by linarith
  then have "mk_f32 False (?c - ?a) = FFin False X"
    unfolding mk_f32_def Let_def X_def [symmetric] by (simp only: if_False)
  then have "f_sub r (rpm_min st) = FFin False X"
    unfolding mn r f_sub_greater [OF lt(1)] .
  moreover have "mk_f32 False (?b - ?a) = FFin False D"
    using D(1) unfolding mk_f32_def Let_def D_def [symmetric] by (simp only: not_less [symmetric] if_False)
  moreover note subD
  moreover have "pwm_gradient (spindle_init st p) = FFin False G"
    if "f_sub (rpm_max st) (rpm_min st) = FFin False D"
    using P(1) D that unfolding spindle_init_def spindle_stop_def
    by (simp add: mk_f32_def G_def [symmetric] f_of_int_exact grbl_const not_less)
  ultimately have m: "f_mul (f_sub r (rpm_min st)) (pwm_gradient (spindle_init st p)) = FFin False (rnd_mag (X * G))"
    using P(2) by (simp add: mk_f32_def Let_def f_max_def)
  define n where "n = \<lfloor>rnd_mag (X * G)\<rfloor>"
  have n: "0 \<le> n" "n \<le> 31" unfolding n_def using P(2) X G0 by (auto simp: rnd_mag_nonneg le_floor_iff floor_le_iff)
  have "f_add (FFin False (of_int n)) (f_of_int 7) = FFin False (of_int (n + 7))"
    using f_add_of_int [of n 7] n by (simp add: f_of_int_exact)
  then have "f_to_int (f_add (f_floor (f_mul (f_sub r (rpm_min st))
        (pwm_gradient (spindle_init st p)))) (f_of_int SPINDLE_PWM_MIN_VALUE)) = n + 7"
    unfolding m by (simp add: n_def [symmetric] SPINDLE_PWM_MIN_VALUE_def)
  with n show ?thesis by (intro that [of X G]) (simp_all add: X_def G_def D_def n_def mn mx r)
qed

lemma rpm_range_less: "rpm_range_ok st \<Longrightarrow> f_lt (rpm_min st) (rpm_max st)"
proof (rule ccontr)
  assume ok: "rpm_range_ok st" and n: "\<not> f_lt (rpm_min st) (rpm_max st)"
  obtain s a where mn: "rpm_min st = FFin s a" using ok by (cases "rpm_min st") (auto simp: rpm_range_ok_def)
  obtain t b where mx: "rpm_max st = FFin t b" using ok by (cases "rpm_max st") (auto simp: rpm_range_ok_def)
  define v where "v = f_val (rpm_max st) - f_val (rpm_min st)"
  have v: "v \<le> 0" using n by (simp add: v_def mn mx)
  have "f_sub (rpm_max st) (rpm_min st) = (if v = 0 then FFin (t \<and> \<not> s) 0 else mk_f32 (v < 0) \<bar>v\<bar>)"
    unfolding v_def mn mx f_sub_fin Let_def ..
  moreover have "\<not> f_le (f_of_int 1) (mk_f32 True r)" if "0 \<le> r" for r
    using rnd_mag_nonneg [OF that] by (auto simp: mk_f32_def Let_def f_le_def f_of_int_exact)
  ultimately have "\<not> f_le (f_of_int 1) (f_sub (rpm_max st) (rpm_min st))"
    using v by (cases "v = 0") (auto simp: f_le_def f_of_int_exact)
  then show False using ok by (simp add: rpm_range_ok_def)
qed

lemma f_le_antisym_lt: "f_lt x y \<Longrightarrow> \<not> f_le y x"
  by (cases x; cases y) (auto simp: f_le_def)

definition lin_pwm :: "settings_t \<Rightarrow> f32 \<Rightarrow> int" where
  "lin_pwm st r = \<lfloor>rnd_mag (rnd_mag (f_val r - f_val (rpm_min st))
      * rnd_mag (31 / rnd_mag (f_val (rpm_max st) - f_val (rpm_min st))))\<rfloor>"

text \<open>The four outcomes of the computation; the last is the linear speed model.\<close>

lemma pwm_cases:
  assumes "rpm_range_ok st" and "scaled_rpm rpm sy \<noteq> FNaN"
  shows "fst (spindle_compute_pwm_value st (pwm_gradient (spindle_init st p)) rpm sy) =
    (if f_le (rpm_max st) (scaled_rpm rpm sy) then 38
     else if f_le (scaled_rpm rpm sy) (rpm_min st)
     then (if f_eq (scaled_rpm rpm sy) f_zero then 0 else 7)
     else word_of_int (lin_pwm st (scaled_rpm rpm sy) + 7))"
proof -
  let ?r = "scaled_rpm rpm sy"
  have nn: "rpm_min st \<noteq> FNaN" "rpm_max st \<noteq> FNaN" using assms(1) by (auto simp: rpm_range_ok_def)
  have e: "spindle_compute_pwm_value st g rpm sy =
     (if f_le (rpm_max st) (rpm_min st) \<or> f_le (rpm_max st) ?r
      then (word_of_int SPINDLE_PWM_MAX_VALUE, sy\<lparr>sys_spindle_speed := rpm_max st\<rparr>)
      else if f_le ?r (rpm_min st)
      then (if f_eq ?r f_zero
            then (SPINDLE_PWM_OFF_VALUE, sy\<lparr>sys_spindle_speed := f_zero\<rparr>)
            else (word_of_int SPINDLE_PWM_MIN_VALUE, sy\<lparr>sys_spindle_speed := rpm_min st\<rparr>))
      else (word_of_int (f_to_int (f_add (f_floor (f_mul (f_sub ?r (rpm_min st)) g))
                                         (f_of_int SPINDLE_PWM_MIN_VALUE))),
            sy\<lparr>sys_spindle_speed := ?r\<rparr>))" for g
    by (simp add: spindle_compute_pwm_value_def scaled_rpm_def Let_def)
  show ?thesis
  proof (cases "f_le (rpm_max st) ?r \<or> f_le ?r (rpm_min st)")
    case True
    then show ?thesis unfolding e using f_le_antisym_lt [OF rpm_range_less [OF assms(1)]]
      by (auto simp: grbl_const)
  next
    case False
    then have "f_lt (rpm_min st) ?r" "f_lt ?r (rpm_max st)"
      using f_not_lt_le nn assms(2) by blast+
    from pwm_linear [OF assms(1) this, of p] have
      "f_to_int (f_add (f_floor (f_mul (f_sub ?r (rpm_min st)) (pwm_gradient (spindle_init st p))))
          (f_of_int SPINDLE_PWM_MIN_VALUE))
       = lin_pwm st ?r + 7"
      by (auto simp: lin_pwm_def)
    then show ?thesis
      unfolding e using False f_le_antisym_lt [OF rpm_range_less [OF assms(1)]]
      by (simp only: if_False fst_conv de_Morgan_disj simp_thms)
  qed
qed

lemma u8_of_int_range: "0 \<le> n \<Longrightarrow> n < 256 \<Longrightarrow> unat (word_of_int n :: u8) = nat n"
  by (simp add: unsigned_of_int take_bit_eq_mod)

lemma pwm_linear_range:
  assumes "rpm_range_ok st" and "f_lt (rpm_min st) r" and "f_lt r (rpm_max st)"
  shows "0 \<le> lin_pwm st r \<and> lin_pwm st r \<le> 31"
  using pwm_linear [OF assms] unfolding lin_pwm_def by blast

lemma not_le_lt:
  "\<not> f_le y x \<Longrightarrow> x \<noteq> FNaN \<Longrightarrow> y \<noteq> FNaN \<Longrightarrow> f_lt x y"
  using f_not_lt_le by blast

lemma f_lt_between_finite: "f_lt x y \<Longrightarrow> f_lt y z \<Longrightarrow> f_finite x \<Longrightarrow> f_finite z \<Longrightarrow> f_finite y"
  by (cases x; cases z; cases y) auto

lemma f_lt_val: "f_lt x y \<Longrightarrow> f_finite x \<Longrightarrow> f_finite y \<Longrightarrow> f_val x < f_val y"
  by (cases x; cases y) auto

lemma f_le_val: "f_le x y \<Longrightarrow> f_finite x \<Longrightarrow> f_finite y \<Longrightarrow> f_val x \<le> f_val y"
  by (cases x; cases y) (auto simp: f_le_def)

text \<open>The override factor is a small positive float.\<close>

lemma hundredth: obtains c where "f_of_rat (1/100) = FFin False c" and "1/128 \<le> c" and "c \<le> 1/64"
proof -
  define c where "c = rnd_mag (1/100)"
  have "1/128 \<le> c" unfolding c_def
    using f_reprI [of 1 "- 7"] by (intro rnd_mag_lower_repr) (simp_all add: pow2_def)
  moreover have "c \<le> 1/64" unfolding c_def
    using f_reprI [of 1 "- 6"] by (intro rnd_mag_upper_repr) (simp_all add: pow2_def)
  moreover from this have "\<not> f_max < c" by (simp add: f_max_def)
  then have "f_of_rat (1/100) = FFin False c"
    by (simp add: f_of_rat_def mk_f32_def c_def [symmetric])
  ultimately show ?thesis using that by blast
qed

lemma override_factor:
  obtains k where "f_mul (f_of_rat (1/100)) (f_of_int (uint (v :: u8))) = FFin False k" and "k \<le> 4" and "0 \<le> k"
    and "10 \<le> uint v \<Longrightarrow> 1/16 \<le> k"
proof -
  obtain c where c: "f_of_rat (1/100) = FFin False c" "1/128 \<le> c" "c \<le> 1/64" by (rule hundredth)
  have n: "0 \<le> uint v" "uint v \<le> 255" using uint_bounded [of v] by simp_all
  have f: "f_of_int (uint v) = FFin False (of_int (uint v))" using n by (simp add: f_of_int_exact)
  define k where "k = rnd_mag (c * of_int (uint v))"
  have r: "(0 :: rat) \<le> of_int (uint v)" "(of_int (uint v) :: rat) \<le> 255" using n
    by (simp_all only: of_int_0_le_iff of_int_le_numeral_iff)
  have "c * of_int (uint v) \<le> 1/64 * 255" using c r by (intro mult_mono) auto
  then have k4: "k \<le> 4" unfolding k_def
    using c r f_repr_int [of 4] by (intro rnd_mag_upper_repr) auto
  moreover have "0 \<le> k" unfolding k_def using c r by (intro rnd_mag_nonneg mult_nonneg_nonneg) auto
  moreover have "1/16 \<le> k" if "10 \<le> uint v"
  proof -
    have "(10 :: rat) \<le> of_int (uint v)" using that by (metis of_int_le_iff of_int_numeral)
    then have "1/128 * 10 \<le> c * of_int (uint v)" using c by (intro mult_mono) auto
    then show ?thesis unfolding k_def
      using f_reprI [of 1 "- 4"] by (intro rnd_mag_lower_repr) (simp_all add: pow2_def)
  qed
  moreover have "f_mul (f_of_rat (1/100)) (f_of_int (uint v)) = FFin False k"
    using k4 unfolding c f f_mul.simps mk_f32_def Let_def k_def [symmetric] by (simp add: f_max_def)
  ultimately show ?thesis using that by blast
qed

lemma scaled_rpm_not_nan: "f_finite rpm \<Longrightarrow> scaled_rpm rpm sy \<noteq> FNaN"
  unfolding scaled_rpm_def
  by (rule override_factor [of "sys_spindle_speed_ovr sy"]) (cases rpm; auto simp: mk_f32_def Let_def)

lemma scaled_rpm_positive:
  assumes "10 \<le> uint (sys_spindle_speed_ovr sy)"
  shows "\<not> f_eq (scaled_rpm (f_of_int 7) sy) f_zero"
proof -
  obtain k where k: "f_mul (f_of_rat (1/100)) (f_of_int (uint (sys_spindle_speed_ovr sy))) = FFin False k"
    "1/16 \<le> k" using override_factor [of "sys_spindle_speed_ovr sy"] assms by metis
  have "1/16 \<le> rnd_mag (7 * k)"
    using k(2) f_reprI [of 1 "- 4"] by (intro rnd_mag_lower_repr) (simp_all add: pow2_def)
  then show ?thesis unfolding scaled_rpm_def k(1) by (simp add: f_of_int_exact mk_f32_def Let_def)
qed

lemma rpm_range_default: "rpm_range_ok default_settings"
proof -
  have "mk_f32 False 1000 = FFin False 1000"
    using f_repr_int [of 1000] int_le_f_max [of 1000] by (intro mk_f32_repr) simp_all
  then show ?thesis
    by (simp add: rpm_range_ok_def default_settings_def f_of_int_exact f_sub_def f_le_def)
qed

lemma spindle_get_state_set_speed:
  "spindle_get_state (spindle_set_speed pwm p) = SPINDLE_STATE_DISABLE \<longleftrightarrow> pwm = SPINDLE_PWM_OFF_VALUE"
  using bit_istrue_set [of "bitw SPINDLE_COMB_BIT" "spindle_tccra p"] bit_istrue_clear [of "spindle_tccra p" "bitw SPINDLE_COMB_BIT"]
  by (auto simp: spindle_get_state_def spindle_set_speed_def Let_def bit_istrue_def
      SPINDLE_STATE_CW_def SPINDLE_STATE_CCW_def SPINDLE_STATE_DISABLE_def SPINDLE_COMB_BIT_def bitw_def)

section \<open>Properties\<close>

text \<open>
  C32. The servo is never driven outside its pulse range: with a sane speed range in the
  settings, the PWM value computed for any speed is 0 (no pulse) or lies between the minimum 7
  and the maximum 38, in spite of the rounding of the gradient and of the product.
\<close>

theorem spindle_pwm_bounds:
  assumes "rpm_range_ok st" and "scaled_rpm rpm sy \<noteq> FNaN"
    and "pwm = unat (fst (spindle_compute_pwm_value st (pwm_gradient (spindle_init st p)) rpm sy))"
  shows "pwm = 0 \<or> 7 \<le> pwm \<and> pwm \<le> 38"
proof (cases "f_le (rpm_max st) (scaled_rpm rpm sy) \<or> f_le (scaled_rpm rpm sy) (rpm_min st)")
  case True
  then show ?thesis unfolding assms(3) pwm_cases [OF assms(1,2)] by (auto split: if_splits)
next
  case False
  then have "f_lt (rpm_min st) (scaled_rpm rpm sy)" "f_lt (scaled_rpm rpm sy) (rpm_max st)"
    using assms(1,2) by (auto intro: not_le_lt simp: rpm_range_ok_def)
  from pwm_linear_range [OF assms(1) this] show ?thesis
    unfolding assms(3) pwm_cases [OF assms(1,2)] using False
    by (simp add: u8_of_int_range [of "lin_pwm st (scaled_rpm rpm sy) + 7", simplified]) linarith
qed

theorem spindle_pwm_bounds_witness:
  "\<exists>pwm. pwm = unat (fst (spindle_compute_pwm_value default_settings
      (pwm_gradient (spindle_init default_settings spindle_zero))
      (f_of_int 500) (sys_zero\<lparr>sys_spindle_speed_ovr := 100\<rparr>)))
    \<and> (pwm = 0 \<or> 7 \<le> pwm \<and> pwm \<le> 38)"
  using spindle_pwm_bounds [OF rpm_range_default scaled_rpm_not_nan refl, where rpm = "f_of_int 500"
      and sy = "sys_zero\<lparr>sys_spindle_speed_ovr := 100\<rparr>" and p = spindle_zero] by (simp add: f_of_int_exact)

text \<open>
  More speed never means a lower pulse: for non-negative commanded speeds, with the same
  settings and override, the PWM value is monotone in the speed.
\<close>

theorem spindle_pwm_mono:
  assumes "rpm_range_ok st" and "f_le f_zero (scaled_rpm rpm1 sy)"
    and "f_le (scaled_rpm rpm1 sy) (scaled_rpm rpm2 sy)"
  shows "unat (fst (spindle_compute_pwm_value st (pwm_gradient (spindle_init st p)) rpm1 sy))
    \<le> unat (fst (spindle_compute_pwm_value st (pwm_gradient (spindle_init st p)) rpm2 sy))"
proof -
  let ?r = "scaled_rpm rpm1 sy" let ?q = "scaled_rpm rpm2 sy"
  have nn: "?r \<noteq> FNaN" "?q \<noteq> FNaN" "rpm_min st \<noteq> FNaN" "rpm_max st \<noteq> FNaN"
    using assms by (auto simp: rpm_range_ok_def f_le_def dest: f_lt_not_nan)
  note c = pwm_cases [OF assms(1) nn(1)] pwm_cases [OF assms(1) nn(2)]
  have rng: "0 \<le> lin_pwm st x \<and> lin_pwm st x \<le> 31"
    if "\<not> f_le x (rpm_min st)" "\<not> f_le (rpm_max st) x" "x \<noteq> FNaN" for x
    using that nn by (intro pwm_linear_range [OF assms(1)] not_le_lt)
  have u: "unat (word_of_int (lin_pwm st x) + 7 :: u8) = nat (lin_pwm st x) + 7"
    if "\<not> f_le x (rpm_min st)" "\<not> f_le (rpm_max st) x" "x \<noteq> FNaN" for x
    using rng [OF that] u8_of_int_range [of "lin_pwm st x + 7"] by (simp add: nat_add_distrib)
  have pos: "\<not> f_eq ?q f_zero" if "\<not> f_eq ?r f_zero"
    using that assms(2,3) by (cases ?r; cases ?q) (auto simp: f_le_def split: if_splits)
  show ?thesis
  proof (cases "f_le (rpm_max st) ?q")
    case True
    have "\<not> f_le ?r (rpm_min st) \<Longrightarrow> \<not> f_le (rpm_max st) ?r \<Longrightarrow> lin_pwm st ?r \<le> 31"
      using rng [of ?r] nn by blast
    with True u [of ?r] nn show ?thesis unfolding c by (auto simp: nat_le_iff)
  next
    case F1: False
    then have F2: "\<not> f_le (rpm_max st) ?r" using f_le_trans assms(3) by blast
    show ?thesis
    proof (cases "f_le ?r (rpm_min st)")
      case True
      then show ?thesis unfolding c using F1 F2 u [of ?q] nn pos by auto
    next
      case F3: False
      then have F4: "\<not> f_le ?q (rpm_min st)" using f_le_trans assms(3) by blast
      have fin: "f_finite ?r" "f_finite ?q" "f_finite (rpm_min st)" "f_finite (rpm_max st)"
        using not_le_lt [OF F3 nn(3,1)] not_le_lt [OF F2 nn(1,4)] not_le_lt [OF F4 nn(3,2)]
          not_le_lt [OF F1 nn(2,4)] assms(1) by (auto simp: rpm_range_ok_def intro: f_lt_between_finite)
      have lt: "f_lt (rpm_min st) ?r" "f_lt (rpm_min st) (rpm_max st)"
        using not_le_lt [OF F3 nn(3,1)] rpm_range_less [OF assms(1)] .
      have v: "f_val ?r \<le> f_val ?q" "f_val (rpm_min st) < f_val ?r" "f_val (rpm_min st) < f_val (rpm_max st)"
        using f_le_val [OF assms(3)] f_lt_val [OF lt(1)] f_lt_val [OF lt(2)] fin by blast+
      have "lin_pwm st ?r \<le> lin_pwm st ?q"
        unfolding lin_pwm_def using v
        by (intro floor_mono rnd_mag_mono mult_right_mono mult_nonneg_nonneg rnd_mag_nonneg
            divide_nonneg_nonneg) auto
      then show ?thesis unfolding c using F1 F2 F3 F4 u nn by (auto simp: nat_mono)
    qed
  qed
qed

theorem spindle_pwm_mono_witness:
  "unat (fst (spindle_compute_pwm_value default_settings
       (pwm_gradient (spindle_init default_settings spindle_zero))
       f_zero (sys_zero\<lparr>sys_spindle_speed_ovr := 100\<rparr>)))
    \<le> unat (fst (spindle_compute_pwm_value default_settings
       (pwm_gradient (spindle_init default_settings spindle_zero))
       (f_of_int 500) (sys_zero\<lparr>sys_spindle_speed_ovr := 100\<rparr>)))"
proof (rule spindle_pwm_mono [OF rpm_range_default])
  let ?sy = "sys_zero\<lparr>sys_spindle_speed_ovr := 100\<rparr>"
  obtain k where k: "f_mul (f_of_rat (1/100)) (f_of_int (uint (sys_spindle_speed_ovr ?sy))) = FFin False k"
    "0 \<le> k" by (rule override_factor [of "sys_spindle_speed_ovr ?sy"])
  then have "0 \<le> rnd_mag (500 * k)" by (intro rnd_mag_nonneg) simp
  then show "f_le f_zero (scaled_rpm f_zero ?sy)" "f_le (scaled_rpm f_zero ?sy) (scaled_rpm (f_of_int 500) ?sy)"
    unfolding scaled_rpm_def k(1) by (auto simp: f_of_int_exact mk_f32_def Let_def f_le_def)
qed

text \<open>
  C33. Disabling the spindle does not disable the output of the servo variant: \<open>M5\<close> sends the
  PWM value of a small speed instead, so that with a sane speed range the pulse goes on within
  the servo's bounds and the spindle still reads as running.
\<close>

theorem spindle_disable_keeps_pulse:
  assumes "sys_abort sy = 0" and "rpm_range_ok st" and "10 \<le> uint (sys_spindle_speed_ovr sy)"
    and "s' = spindle_set_state st SPINDLE_DISABLE rpm (sy, spindle_init st p)"
  shows "spindle_get_state (snd s') \<noteq> SPINDLE_STATE_DISABLE \<and> 7 \<le> unat (spindle_ocr (snd s'))
    \<and> unat (spindle_ocr (snd s')) \<le> 38"
proof -
  let ?sy = "sy\<lparr>sys_spindle_speed := f_of_int 7\<rparr>"
  define pwm where "pwm = fst (spindle_compute_pwm_value st (pwm_gradient (spindle_init st p)) (f_of_int 7) ?sy)"
  have s: "snd s' = spindle_set_speed pwm (spindle_init st p)"
    using assms(1) by (simp add: assms(4) spindle_set_state_def Let_def split_beta pwm_def SPINDLE_PWM_MIN_VALUE_def)
  have nn: "scaled_rpm (f_of_int 7) ?sy \<noteq> FNaN" by (rule scaled_rpm_not_nan) (simp add: f_of_int_exact)
  have ne: "\<not> f_eq (scaled_rpm (f_of_int 7) ?sy) f_zero" using assms(3) by (intro scaled_rpm_positive) simp
  have nm: "rpm_min st \<noteq> FNaN" "rpm_max st \<noteq> FNaN" using assms(2) by (auto simp: rpm_range_ok_def)
  have r: "f_le (rpm_max st) (scaled_rpm (f_of_int 7) ?sy) \<or> f_le (scaled_rpm (f_of_int 7) ?sy) (rpm_min st)
      \<or> 0 \<le> lin_pwm st (scaled_rpm (f_of_int 7) ?sy) \<and> lin_pwm st (scaled_rpm (f_of_int 7) ?sy) \<le> 31"
    using pwm_linear_range [OF assms(2) not_le_lt [OF _ nm(1) nn] not_le_lt [OF _ nn nm(2)]] by blast
  have u: "7 \<le> unat pwm \<and> unat pwm \<le> 38"
    using r ne unfolding pwm_def pwm_cases [OF assms(2) nn]
    by (auto simp: u8_of_int_range [of "lin_pwm st (scaled_rpm (f_of_int 7) ?sy) + 7", simplified])
  then have "pwm \<noteq> SPINDLE_PWM_OFF_VALUE" by (auto simp: SPINDLE_PWM_OFF_VALUE_def)
  then have "spindle_get_state (snd s') \<noteq> SPINDLE_STATE_DISABLE"
    unfolding s spindle_get_state_set_speed .
  moreover have "spindle_ocr (snd s') = pwm" by (simp add: s spindle_set_speed_def Let_def)
  ultimately show ?thesis using u by simp
qed

theorem spindle_disable_keeps_pulse_witness:
  "spindle_get_state (snd (spindle_set_state default_settings SPINDLE_DISABLE f_zero
      (sys_zero\<lparr>sys_spindle_speed_ovr := 100\<rparr>, spindle_init default_settings spindle_zero)))
    \<noteq> SPINDLE_STATE_DISABLE"
  by (rule spindle_disable_keeps_pulse [OF _ rpm_range_default _ refl, THEN conjunct1])
    (simp_all add: sys_zero_def)

end
