(* ===== verification/Probe.thy ===== *)
theory Probe
  imports Settings
begin

text \<open>
  probe.c: the probe input, its inversion by the setting \<open>$6\<close> and by the direction of the
  probing cycle, and the monitor the stepper interrupt runs on every tick while a probing
  cycle is active.
\<close>

definition PROBE_BIT :: nat where [grbl_const]: "PROBE_BIT = 5"
definition PROBE_MASK :: u8 where [grbl_const]: "PROBE_MASK = 32"
definition PROBE_OFF :: u8 where [grbl_const]: "PROBE_OFF = 0"
definition PROBE_ACTIVE :: u8 where [grbl_const]: "PROBE_ACTIVE = 1"

record probe_t =
  probe_ddr :: u8
  probe_port :: u8
  probe_invert_mask :: u8

definition probe_configure_invert_mask :: "settings_t \<Rightarrow> bool \<Rightarrow> probe_t \<Rightarrow> probe_t" where
  "probe_configure_invert_mask st is_probe_away p =
     (let m = 0;
          m = (if bit_isfalse (settings_flags st) BITFLAG_INVERT_PROBE_PIN then m XOR PROBE_MASK else m);
          m = (if is_probe_away then m XOR PROBE_MASK else m)
      in p\<lparr>probe_invert_mask := m\<rparr>)"

definition probe_init :: "settings_t \<Rightarrow> probe_t \<Rightarrow> probe_t" where
  "probe_init st p =
     probe_configure_invert_mask st False
       (p\<lparr>probe_ddr := bit_false (probe_ddr p) PROBE_MASK,
          probe_port := bit_true (probe_port p) PROBE_MASK\<rparr>)"

text \<open>The second argument is the port's input register.\<close>

definition probe_get_state :: "probe_t \<Rightarrow> u8 \<Rightarrow> u8" where
  "probe_get_state p PROBE_PIN = (PROBE_PIN AND PROBE_MASK) XOR probe_invert_mask p"

definition probe_state_monitor :: "probe_t \<Rightarrow> u8 \<Rightarrow> rt_t \<Rightarrow> rt_t" where
  "probe_state_monitor p PROBE_PIN r =
     (if probe_get_state p PROBE_PIN \<noteq> 0
      then r\<lparr>sys_probe_state := PROBE_OFF, sys_probe_position := sys_position r,
             sys_rt_exec_state := bit_true (sys_rt_exec_state r) EXEC_MOTION_CANCEL\<rparr>
      else r)"

lemma probe_mask_cases: "pin AND PROBE_MASK = (if bit pin PROBE_BIT then PROBE_MASK else 0)"
proof -
  have "bit PROBE_MASK n \<longleftrightarrow> n = PROBE_BIT" for n
  proof -
    have m: "PROBE_MASK = push_bit 5 1" by (simp add: grbl_const)
    show ?thesis unfolding m bit_push_bit_iff bit_1_iff PROBE_BIT_def by auto
  qed
  then show ?thesis by (intro bit_eqI) (auto simp: bit_and_iff)
qed

lemma probe_get_state_triggered:
  "probe_get_state (probe_configure_invert_mask st away p) pin \<noteq> 0 \<longleftrightarrow>
     (bit pin PROBE_BIT \<noteq> (bit_isfalse (settings_flags st) BITFLAG_INVERT_PROBE_PIN \<noteq> away))"
  unfolding probe_get_state_def probe_mask_cases
  by (simp add: probe_configure_invert_mask_def Let_def) (simp add: PROBE_MASK_def)

section \<open>Properties\<close>

text \<open>
  The probe monitor implements the configured pin logic: with the inversion set up for the
  setting and for the probing direction, a tick records the current machine position, ends the
  monitoring and requests a motion cancel exactly when the pin level differs from the resting
  level (high normally, inverted by the setting and again when probing away), and otherwise
  changes nothing.
\<close>

theorem probe_monitor_exact:
  "probe_state_monitor (probe_configure_invert_mask st away p) pin r =
     (if bit pin PROBE_BIT \<noteq> (bit_isfalse (settings_flags st) BITFLAG_INVERT_PROBE_PIN \<noteq> away)
      then r\<lparr>sys_probe_state := PROBE_OFF, sys_probe_position := sys_position r,
             sys_rt_exec_state := bit_true (sys_rt_exec_state r) EXEC_MOTION_CANCEL\<rparr>
      else r)"
  unfolding probe_state_monitor_def probe_get_state_triggered ..

end
