(* ===== verification/Stepper_Data.thy ===== *)
theory Stepper_Data
  imports Planner Nuts_Bolts
begin

text \<open>
  The structures of stepper.c. \<open>stepper_t\<close> extends the planner's record with the static
  variables of stepper.c: the Bresenham blocks, the segment ring, the interrupt's running data
  (\<open>st\<close>), the preparation data (\<open>prep\<close>) and the port and timer registers the stepper owns.
  Pointers into the buffers are indices, \<open>NULL\<close> is \<open>None\<close>.
\<close>

definition SEGMENT_BUFFER_SIZE :: nat where [grbl_const]: "SEGMENT_BUFFER_SIZE = 6"
definition MAX_AMASS_LEVEL :: nat where [grbl_const]: "MAX_AMASS_LEVEL = 3"
definition AMASS_LEVEL1 :: u32 where [grbl_const]: "AMASS_LEVEL1 = 2000"
definition AMASS_LEVEL2 :: u32 where [grbl_const]: "AMASS_LEVEL2 = 4000"
definition AMASS_LEVEL3 :: u32 where [grbl_const]: "AMASS_LEVEL3 = 8000"
definition RAMP_ACCEL :: u8 where [grbl_const]: "RAMP_ACCEL = 0"
definition RAMP_CRUISE :: u8 where [grbl_const]: "RAMP_CRUISE = 1"
definition RAMP_DECEL :: u8 where [grbl_const]: "RAMP_DECEL = 2"
definition RAMP_DECEL_OVERRIDE :: u8 where [grbl_const]: "RAMP_DECEL_OVERRIDE = 3"
definition PREP_FLAG_RECALCULATE :: u8 where [grbl_const]: "PREP_FLAG_RECALCULATE = 1"
definition PREP_FLAG_HOLD_PARTIAL_BLOCK :: u8 where [grbl_const]: "PREP_FLAG_HOLD_PARTIAL_BLOCK = 2"
definition PREP_FLAG_PARKING :: u8 where [grbl_const]: "PREP_FLAG_PARKING = 4"
definition PREP_FLAG_DECEL_OVERRIDE :: u8 where [grbl_const]: "PREP_FLAG_DECEL_OVERRIDE = 8"
definition DT_SEGMENT :: f32 where "DT_SEGMENT = f_of_rat (1 / 6000)"
definition REQ_MM_INCREMENT_SCALAR :: f32 where "REQ_MM_INCREMENT_SCALAR = f_of_rat (5 / 4)"
definition TICKS_PER_MICROSECOND :: int where [grbl_const]: "TICKS_PER_MICROSECOND = 16"

definition X_STEP_BIT :: nat where [grbl_const]: "X_STEP_BIT = 2"
definition Y_STEP_BIT :: nat where [grbl_const]: "Y_STEP_BIT = 3"
definition Z_STEP_BIT :: nat where [grbl_const]: "Z_STEP_BIT = 4"
definition STEP_MASK :: u8 where [grbl_const]: "STEP_MASK = 28"
definition X_DIRECTION_BIT :: nat where [grbl_const]: "X_DIRECTION_BIT = 5"
definition Y_DIRECTION_BIT :: nat where [grbl_const]: "Y_DIRECTION_BIT = 6"
definition Z_DIRECTION_BIT :: nat where [grbl_const]: "Z_DIRECTION_BIT = 7"
definition DIRECTION_MASK :: u8 where [grbl_const]: "DIRECTION_MASK = 224"
definition STEPPERS_DISABLE_BIT :: nat where [grbl_const]: "STEPPERS_DISABLE_BIT = 0"

record st_block_t =
  sb_steps :: "u32 list"
  sb_step_event_count :: u32
  sb_direction_bits :: u8
  is_pwm_rate_adjusted :: bool

definition st_block_zero :: st_block_t where
  "st_block_zero = \<lparr>sb_steps = replicate N_AXIS 0, sb_step_event_count = 0, sb_direction_bits = 0,
     is_pwm_rate_adjusted = False\<rparr>"

record segment_t =
  n_step :: u16
  cycles_per_tick :: u16
  sg_st_block_index :: u8
  amass_level :: u8
  sg_spindle_pwm :: u8

definition segment_zero :: segment_t where
  "segment_zero = \<lparr>n_step = 0, cycles_per_tick = 0, sg_st_block_index = 0, amass_level = 0,
     sg_spindle_pwm = 0\<rparr>"

text \<open>The interrupt's data, \<open>st\<close>.\<close>

record st_t =
  counter_x :: u32
  counter_y :: u32
  counter_z :: u32
  step_pulse_time :: u8
  step_outbits :: u8
  dir_outbits :: u8
  st_steps :: "u32 list"
  step_count :: u16
  exec_block_index :: u8
  exec_block :: "u8 option"
  exec_segment :: "u8 option"

definition st_zero :: st_t where
  "st_zero = \<lparr>counter_x = 0, counter_y = 0, counter_z = 0, step_pulse_time = 0, step_outbits = 0,
     dir_outbits = 0, st_steps = replicate N_AXIS 0, step_count = 0, exec_block_index = 0,
     exec_block = None, exec_segment = None\<rparr>"

text \<open>The preparation data, \<open>prep\<close>.\<close>

record st_prep_t =
  pr_st_block_index :: u8
  recalculate_flag :: u8
  dt_remainder :: f32
  steps_remaining :: f32
  step_per_mm :: f32
  req_mm_increment :: f32
  ramp_type :: u8
  mm_complete :: f32
  current_speed :: f32
  maximum_speed :: f32
  exit_speed :: f32
  accelerate_until :: f32
  decelerate_after :: f32
  pr_inv_rate :: f32
  current_spindle_pwm :: u8

definition st_prep_zero :: st_prep_t where
  "st_prep_zero = \<lparr>pr_st_block_index = 0, recalculate_flag = 0, dt_remainder = f_zero,
     steps_remaining = f_zero, step_per_mm = f_zero, req_mm_increment = f_zero, ramp_type = 0,
     mm_complete = f_zero, current_speed = f_zero, maximum_speed = f_zero, exit_speed = f_zero,
     accelerate_until = f_zero, decelerate_after = f_zero, pr_inv_rate = f_zero,
     current_spindle_pwm = 0\<rparr>"

record stepper_t = planner_t +
  st_block_buffer :: "st_block_t list"
  segment_buffer :: "segment_t list"
  st :: st_t
  segment_buffer_tail :: u8
  segment_buffer_head :: u8
  segment_next_head :: u8
  step_port_invert_mask :: u8
  dir_port_invert_mask :: u8
  busy :: bool
  pl_block :: "u8 option"
  st_prep_block :: u8
  prep :: st_prep_t
  PORTD :: u8
  STEPPERS_DISABLE_PORT :: u8
  OCIE1A :: bool
  OCR1A :: u16
  TCNT0 :: u8
  TIMER0_RUNNING :: bool

end
