(* ===== verification/Gcode_Data.thy ===== *)
theory Gcode_Data
  imports Plan_Data
begin

text \<open>
  gcode.h: the modal state of the g-code parser, the values of a block, and the codes of the
  modal groups.
\<close>

definition NON_MODAL_NO_ACTION :: u8 where [grbl_const]: "NON_MODAL_NO_ACTION = 0"
definition NON_MODAL_DWELL :: u8 where [grbl_const]: "NON_MODAL_DWELL = 4"
definition NON_MODAL_SET_COORDINATE_DATA :: u8 where [grbl_const]: "NON_MODAL_SET_COORDINATE_DATA = 10"
definition NON_MODAL_GO_HOME_0 :: u8 where [grbl_const]: "NON_MODAL_GO_HOME_0 = 28"
definition NON_MODAL_SET_HOME_0 :: u8 where [grbl_const]: "NON_MODAL_SET_HOME_0 = 38"
definition NON_MODAL_GO_HOME_1 :: u8 where [grbl_const]: "NON_MODAL_GO_HOME_1 = 30"
definition NON_MODAL_SET_HOME_1 :: u8 where [grbl_const]: "NON_MODAL_SET_HOME_1 = 40"
definition NON_MODAL_ABSOLUTE_OVERRIDE :: u8 where [grbl_const]: "NON_MODAL_ABSOLUTE_OVERRIDE = 53"
definition NON_MODAL_SET_COORDINATE_OFFSET :: u8 where [grbl_const]: "NON_MODAL_SET_COORDINATE_OFFSET = 92"
definition NON_MODAL_RESET_COORDINATE_OFFSET :: u8 where [grbl_const]: "NON_MODAL_RESET_COORDINATE_OFFSET = 102"

definition MOTION_MODE_SEEK :: u8 where [grbl_const]: "MOTION_MODE_SEEK = 0"
definition MOTION_MODE_LINEAR :: u8 where [grbl_const]: "MOTION_MODE_LINEAR = 1"
definition MOTION_MODE_CW_ARC :: u8 where [grbl_const]: "MOTION_MODE_CW_ARC = 2"
definition MOTION_MODE_CCW_ARC :: u8 where [grbl_const]: "MOTION_MODE_CCW_ARC = 3"
definition MOTION_MODE_PROBE_TOWARD :: u8 where [grbl_const]: "MOTION_MODE_PROBE_TOWARD = 140"
definition MOTION_MODE_PROBE_TOWARD_NO_ERROR :: u8 where [grbl_const]: "MOTION_MODE_PROBE_TOWARD_NO_ERROR = 141"
definition MOTION_MODE_PROBE_AWAY :: u8 where [grbl_const]: "MOTION_MODE_PROBE_AWAY = 142"
definition MOTION_MODE_PROBE_AWAY_NO_ERROR :: u8 where [grbl_const]: "MOTION_MODE_PROBE_AWAY_NO_ERROR = 143"
definition MOTION_MODE_NONE :: u8 where [grbl_const]: "MOTION_MODE_NONE = 80"

definition PLANE_SELECT_XY :: u8 where [grbl_const]: "PLANE_SELECT_XY = 0"
definition PLANE_SELECT_ZX :: u8 where [grbl_const]: "PLANE_SELECT_ZX = 1"
definition PLANE_SELECT_YZ :: u8 where [grbl_const]: "PLANE_SELECT_YZ = 2"
definition DISTANCE_MODE_ABSOLUTE :: u8 where [grbl_const]: "DISTANCE_MODE_ABSOLUTE = 0"
definition DISTANCE_MODE_INCREMENTAL :: u8 where [grbl_const]: "DISTANCE_MODE_INCREMENTAL = 1"
definition PROGRAM_FLOW_RUNNING :: u8 where [grbl_const]: "PROGRAM_FLOW_RUNNING = 0"
definition PROGRAM_FLOW_PAUSED :: u8 where [grbl_const]: "PROGRAM_FLOW_PAUSED = 3"
definition PROGRAM_FLOW_OPTIONAL_STOP :: u8 where [grbl_const]: "PROGRAM_FLOW_OPTIONAL_STOP = 1"
definition PROGRAM_FLOW_COMPLETED_M2 :: u8 where [grbl_const]: "PROGRAM_FLOW_COMPLETED_M2 = 2"
definition PROGRAM_FLOW_COMPLETED_M30 :: u8 where [grbl_const]: "PROGRAM_FLOW_COMPLETED_M30 = 30"
definition FEED_RATE_MODE_UNITS_PER_MIN :: u8 where [grbl_const]: "FEED_RATE_MODE_UNITS_PER_MIN = 0"
definition FEED_RATE_MODE_INVERSE_TIME :: u8 where [grbl_const]: "FEED_RATE_MODE_INVERSE_TIME = 1"
definition UNITS_MODE_MM :: u8 where [grbl_const]: "UNITS_MODE_MM = 0"
definition UNITS_MODE_INCHES :: u8 where [grbl_const]: "UNITS_MODE_INCHES = 1"
definition TOOL_LENGTH_OFFSET_CANCEL :: u8 where [grbl_const]: "TOOL_LENGTH_OFFSET_CANCEL = 0"
definition TOOL_LENGTH_OFFSET_ENABLE_DYNAMIC :: u8 where [grbl_const]: "TOOL_LENGTH_OFFSET_ENABLE_DYNAMIC = 1"

definition MODAL_GROUP_G0 :: nat where [grbl_const]: "MODAL_GROUP_G0 = 0"
definition MODAL_GROUP_G1 :: nat where [grbl_const]: "MODAL_GROUP_G1 = 1"
definition MODAL_GROUP_G2 :: nat where [grbl_const]: "MODAL_GROUP_G2 = 2"
definition MODAL_GROUP_G3 :: nat where [grbl_const]: "MODAL_GROUP_G3 = 3"
definition MODAL_GROUP_G4 :: nat where [grbl_const]: "MODAL_GROUP_G4 = 4"
definition MODAL_GROUP_G5 :: nat where [grbl_const]: "MODAL_GROUP_G5 = 5"
definition MODAL_GROUP_G6 :: nat where [grbl_const]: "MODAL_GROUP_G6 = 6"
definition MODAL_GROUP_G7 :: nat where [grbl_const]: "MODAL_GROUP_G7 = 7"
definition MODAL_GROUP_G8 :: nat where [grbl_const]: "MODAL_GROUP_G8 = 8"
definition MODAL_GROUP_G12 :: nat where [grbl_const]: "MODAL_GROUP_G12 = 9"
definition MODAL_GROUP_G13 :: nat where [grbl_const]: "MODAL_GROUP_G13 = 10"
definition MODAL_GROUP_M4 :: nat where [grbl_const]: "MODAL_GROUP_M4 = 11"
definition MODAL_GROUP_M7 :: nat where [grbl_const]: "MODAL_GROUP_M7 = 12"
definition MODAL_GROUP_M8 :: nat where [grbl_const]: "MODAL_GROUP_M8 = 13"

definition WORD_F :: nat where [grbl_const]: "WORD_F = 0"
definition WORD_I :: nat where [grbl_const]: "WORD_I = 1"
definition WORD_J :: nat where [grbl_const]: "WORD_J = 2"
definition WORD_K :: nat where [grbl_const]: "WORD_K = 3"
definition WORD_L :: nat where [grbl_const]: "WORD_L = 4"
definition WORD_N :: nat where [grbl_const]: "WORD_N = 5"
definition WORD_P :: nat where [grbl_const]: "WORD_P = 6"
definition WORD_R :: nat where [grbl_const]: "WORD_R = 7"
definition WORD_S :: nat where [grbl_const]: "WORD_S = 8"
definition WORD_T :: nat where [grbl_const]: "WORD_T = 9"
definition WORD_X :: nat where [grbl_const]: "WORD_X = 10"
definition WORD_Y :: nat where [grbl_const]: "WORD_Y = 11"
definition WORD_Z :: nat where [grbl_const]: "WORD_Z = 12"

definition GC_UPDATE_POS_TARGET :: u8 where [grbl_const]: "GC_UPDATE_POS_TARGET = 0"
definition GC_UPDATE_POS_SYSTEM :: u8 where [grbl_const]: "GC_UPDATE_POS_SYSTEM = 1"
definition GC_UPDATE_POS_NONE :: u8 where [grbl_const]: "GC_UPDATE_POS_NONE = 2"
definition GC_PROBE_FOUND :: u8 where [grbl_const]: "GC_PROBE_FOUND = GC_UPDATE_POS_SYSTEM"
definition GC_PROBE_ABORT :: u8 where [grbl_const]: "GC_PROBE_ABORT = GC_UPDATE_POS_NONE"
definition GC_PROBE_FAIL_INIT :: u8 where [grbl_const]: "GC_PROBE_FAIL_INIT = GC_UPDATE_POS_NONE"
definition GC_PROBE_FAIL_END :: u8 where [grbl_const]: "GC_PROBE_FAIL_END = GC_UPDATE_POS_TARGET"
definition GC_PROBE_CHECK_MODE :: u8 where [grbl_const]: "GC_PROBE_CHECK_MODE = GC_UPDATE_POS_TARGET"

definition GC_PARSER_JOG_MOTION :: u8 where [grbl_const]: "GC_PARSER_JOG_MOTION = 1"
definition GC_PARSER_CHECK_MANTISSA :: u8 where [grbl_const]: "GC_PARSER_CHECK_MANTISSA = 2"
definition GC_PARSER_ARC_IS_CLOCKWISE :: u8 where [grbl_const]: "GC_PARSER_ARC_IS_CLOCKWISE = 4"
definition GC_PARSER_PROBE_IS_AWAY :: u8 where [grbl_const]: "GC_PARSER_PROBE_IS_AWAY = 8"
definition GC_PARSER_PROBE_IS_NO_ERROR :: u8 where [grbl_const]: "GC_PARSER_PROBE_IS_NO_ERROR = 16"
definition GC_PARSER_LASER_FORCE_SYNC :: u8 where [grbl_const]: "GC_PARSER_LASER_FORCE_SYNC = 32"
definition GC_PARSER_LASER_DISABLE :: u8 where [grbl_const]: "GC_PARSER_LASER_DISABLE = 64"
definition GC_PARSER_LASER_ISMOTION :: u8 where [grbl_const]: "GC_PARSER_LASER_ISMOTION = 128"

record gc_modal_t =
  motion :: u8
  feed_rate_mode :: u8
  units :: u8
  distance :: u8
  plane_select :: u8
  tool_length :: u8
  coord_select :: u8
  program_flow :: u8
  coolant_mode :: u8
  spindle_mode :: u8

record gc_values_t =
  val_f :: f32
  val_ijk :: vec
  val_l :: u8
  val_n :: int
  val_p :: f32
  val_r :: f32
  val_s :: f32
  val_t :: u8
  val_xyz :: vec

record parser_state_t =
  modal :: gc_modal_t
  gc_spindle_speed :: f32
  gc_feed_rate :: f32
  gc_tool :: u8
  gc_line_number :: int
  gc_position :: vec
  coord_system :: vec
  coord_offset :: vec
  tool_length_offset :: f32

record parser_block_t =
  non_modal_command :: u8
  blk_modal :: gc_modal_t
  blk_values :: gc_values_t

definition gc_modal_zero :: gc_modal_t where
  "gc_modal_zero = \<lparr>motion = 0, feed_rate_mode = 0, units = 0, distance = 0, plane_select = 0,
     tool_length = 0, coord_select = 0, program_flow = 0, coolant_mode = 0, spindle_mode = 0\<rparr>"

definition gc_values_zero :: gc_values_t where
  "gc_values_zero = \<lparr>val_f = f_zero, val_ijk = replicate 3 f_zero, val_l = 0, val_n = 0,
     val_p = f_zero, val_r = f_zero, val_s = f_zero, val_t = 0, val_xyz = replicate 3 f_zero\<rparr>"

definition parser_state_zero :: parser_state_t where
  "parser_state_zero = \<lparr>modal = gc_modal_zero, gc_spindle_speed = f_zero, gc_feed_rate = f_zero,
     gc_tool = 0, gc_line_number = 0, gc_position = replicate N_AXIS f_zero,
     coord_system = replicate N_AXIS f_zero, coord_offset = replicate N_AXIS f_zero,
     tool_length_offset = f_zero\<rparr>"

definition parser_block_zero :: parser_block_t where
  "parser_block_zero = \<lparr>non_modal_command = 0, blk_modal = gc_modal_zero, blk_values = gc_values_zero\<rparr>"

end
