(* ===== verification/Machine.thy ===== *)
theory Machine
  imports Serial Coolant Spindle Probe Stepper_Data Gcode_Data
begin

text \<open>
  The whole machine: the global variables of all components and the input pins, in one record,
  so that the routines that touch several components are functions on it. Output to the host
  is the list of characters handed to \<open>serial_write\<close>, which the theory of the serial line
  shows to reach the wire in order. \<open>events\<close> records the delays, oldest first.
\<close>

datatype event = Ev_delay_ms u16

text \<open>
  What can happen between two instructions of the main program: a timer, a received byte, or
  a change of input pins, given with the new levels. \<open>irqs\<close> is the schedule of the environment:
  \<open>irqs m k\<close> are the interrupts taken at the \<open>k\<close>-th point from now at which the main program
  looks at what interrupts have left it.
\<close>

datatype irq =
    IRQ_timer1
  | IRQ_timer0
  | IRQ_serial_rx u8
  | IRQ_control_pins u8
  | IRQ_limit_pins u8
  | IRQ_probe_pin u8

record machine =
  sys :: system_t
  rt :: rt_t
  conf :: cfg
  mot :: stepper_t
  spin :: spindle_t
  cool :: coolant_t
  prb :: probe_t
  ser :: serial_t
  gc_state :: parser_state_t
  PROBE_PIN :: u8
  LIMIT_PIN :: u8
  CONTROL_PIN :: u8
  LIMIT_PCMSK :: u8
  LIMIT_INT_ON :: bool
  tx_out :: string
  events :: "event list"
  irqs :: "nat \<Rightarrow> irq list"

abbreviation mset :: "machine \<Rightarrow> settings_t" where
  "mset m \<equiv> settings (conf m)"

definition on_sys :: "(system_t \<Rightarrow> system_t) \<Rightarrow> machine \<Rightarrow> machine" where
  "on_sys f m = m\<lparr>sys := f (sys m)\<rparr>"

definition on_rt :: "(rt_t \<Rightarrow> rt_t) \<Rightarrow> machine \<Rightarrow> machine" where
  "on_rt f m = m\<lparr>rt := f (rt m)\<rparr>"

definition on_mot :: "(stepper_t \<Rightarrow> stepper_t) \<Rightarrow> machine \<Rightarrow> machine" where
  "on_mot f m = m\<lparr>mot := f (mot m)\<rparr>"

definition on_spin :: "(spindle_t \<Rightarrow> spindle_t) \<Rightarrow> machine \<Rightarrow> machine" where
  "on_spin f m = m\<lparr>spin := f (spin m)\<rparr>"

definition on_cool :: "(coolant_t \<Rightarrow> coolant_t) \<Rightarrow> machine \<Rightarrow> machine" where
  "on_cool f m = m\<lparr>cool := f (cool m)\<rparr>"

definition m_spindle_set_state :: "u8 \<Rightarrow> f32 \<Rightarrow> machine \<Rightarrow> machine" where
  "m_spindle_set_state state rpm m =
     (let (sy, p) = spindle_set_state (mset m) state rpm (sys m, spin m) in m\<lparr>sys := sy, spin := p\<rparr>)"

definition m_coolant_set_state :: "u8 \<Rightarrow> machine \<Rightarrow> machine" where
  "m_coolant_set_state mode m =
     (let (sy, c) = coolant_set_state mode (sys m, cool m) in m\<lparr>sys := sy, cool := c\<rparr>)"

lemmas machine_lift = on_sys_def on_rt_def on_mot_def on_spin_def on_cool_def

text \<open>
  The memory of the controller before \<open>main\<close> runs: the C runtime has cleared the static
  variables. The settings are those a fresh EEPROM is restored to.
\<close>

definition stepper_zero :: stepper_t where
  "stepper_zero = \<lparr>block_buffer = replicate 16 plan_block_zero, block_buffer_tail = 0,
     block_buffer_head = 0, next_buffer_head = 1, block_buffer_planned = 0,
     pl_position = replicate N_AXIS 0, pl_previous_unit_vec = replicate N_AXIS f_zero,
     pl_previous_nominal_speed = f_zero,
     st_block_buffer = replicate 5 st_block_zero, segment_buffer = replicate 6 segment_zero,
     st = st_zero, segment_buffer_tail = 0, segment_buffer_head = 0, segment_next_head = 1,
     step_port_invert_mask = 0, dir_port_invert_mask = 0, busy = False, pl_block = None,
     st_prep_block = 0, prep = st_prep_zero, PORTD = 0, STEPPERS_DISABLE_PORT = 0, OCIE1A = False,
     OCR1A = 0, TCNT0 = 0, TIMER0_RUNNING = False\<rparr>"

definition rt_zero :: rt_t where
  "rt_zero = \<lparr>sys_rt_exec_state = 0, sys_rt_exec_alarm = 0, sys_rt_exec_motion_override = 0,
     sys_rt_exec_accessory_override = 0, sys_position = replicate N_AXIS 0,
     sys_probe_position = replicate N_AXIS 0, sys_probe_state = 0\<rparr>"

definition machine_zero :: machine where
  "machine_zero = \<lparr>sys = sys_zero, rt = rt_zero,
     conf = \<lparr>settings = default_settings, eeprom = (\<lambda>_. 255), cfg_calls = []\<rparr>,
     mot = stepper_zero, spin = spindle_zero, cool = \<lparr>coolant_flood_ddr = 0, coolant_flood_port = 0\<rparr>,
     prb = \<lparr>probe_ddr = 0, probe_port = 0, probe_invert_mask = 0\<rparr>, ser = serial_boot,
     gc_state = parser_state_zero, PROBE_PIN = 255, LIMIT_PIN = 255, CONTROL_PIN = 255,
     LIMIT_PCMSK = 0, LIMIT_INT_ON = False, tx_out = [], events = [], irqs = (\<lambda>_. [])\<rparr>"

end
