(* ===== verification/Stepper.thy ===== *)
theory Stepper
  imports Machine
begin

text \<open>
  The executing half of stepper.c: waking and idling the drivers, the reset, and the two timer
  interrupts. \<open>TIMER1_COMPA\<close> pops the segments that Stepper_Prep queues and traces the line of
  the segment's block with the Bresenham counters of the three axes; \<open>TIMER0_OVF\<close> ends the step
  pulse. An interrupt is one step on the machine: the only handler that can run inside
  \<open>TIMER1_COMPA\<close> and touch the same ports is \<open>TIMER0_OVF\<close>, which writes the step bits that
  \<open>TIMER1_COMPA\<close> has already written.

  The lemmas follow the counters. Every axis keeps \<open>counter + E * pulses = E / 2 + increments\<close>
  with the counter between 0 and \<open>E\<close>, whatever the smoothing level of the segments, and that
  makes a completed block pulse each motor exactly as often as the block says.
\<close>

section \<open>Drivers\<close>

definition st_wake_up :: "settings_t \<Rightarrow> stepper_t \<Rightarrow> stepper_t" where
  "st_wake_up cf s =
     (let s = (if bit_istrue (settings_flags cf) BITFLAG_INVERT_ST_ENABLE
               then s\<lparr>STEPPERS_DISABLE_PORT := bit_true (STEPPERS_DISABLE_PORT s) (bitw STEPPERS_DISABLE_BIT)\<rparr>
               else s\<lparr>STEPPERS_DISABLE_PORT := bit_false (STEPPERS_DISABLE_PORT s) (bitw STEPPERS_DISABLE_BIT)\<rparr>);
          s = s\<lparr>st := (st s)\<lparr>step_outbits := step_port_invert_mask s,
                 step_pulse_time := ucast (- drop_bit 3 ((ucast (pulse_microseconds cf) - 2)
                                                          * word_of_int TICKS_PER_MICROSECOND :: u32))\<rparr>\<rparr>
      in s\<lparr>OCIE1A := True\<rparr>)"

definition st_go_idle :: "machine \<Rightarrow> machine" where
  "st_go_idle m =
     (let m = on_mot (\<lambda>s. s\<lparr>OCIE1A := False, busy := False\<rparr>) m;
          lock = (stepper_idle_lock_time (mset m) \<noteq> 255 \<or> sys_rt_exec_alarm (rt m) \<noteq> 0
                    \<or> sys_state (sys m) = STATE_SLEEP) \<and> sys_state (sys m) \<noteq> STATE_HOMING;
          m = (if lock then m\<lparr>events := events m @ [Ev_delay_ms (ucast (stepper_idle_lock_time (mset m)))]\<rparr> else m);
          pin_state = lock;
          pin_state = (if bit_istrue (settings_flags (mset m)) BITFLAG_INVERT_ST_ENABLE then \<not> pin_state
                       else pin_state)
      in on_mot (\<lambda>s. s\<lparr>STEPPERS_DISABLE_PORT :=
                        (if pin_state then bit_true (STEPPERS_DISABLE_PORT s) (bitw STEPPERS_DISABLE_BIT)
                         else bit_false (STEPPERS_DISABLE_PORT s) (bitw STEPPERS_DISABLE_BIT))\<rparr>) m)"

definition st_generate_step_dir_invert_masks :: "settings_t \<Rightarrow> stepper_t \<Rightarrow> stepper_t" where
  "st_generate_step_dir_invert_masks cf s =
     fold (\<lambda>idx s.
             let s = (if bit_istrue (step_invert_mask cf) (bitw idx)
                      then s\<lparr>step_port_invert_mask := step_port_invert_mask s OR get_step_pin_mask idx\<rparr> else s)
             in (if bit_istrue (dir_invert_mask cf) (bitw idx)
                 then s\<lparr>dir_port_invert_mask := dir_port_invert_mask s OR get_direction_pin_mask idx\<rparr> else s))
       [0..<N_AXIS] (s\<lparr>step_port_invert_mask := 0, dir_port_invert_mask := 0\<rparr>)"

definition st_reset :: "machine \<Rightarrow> machine" where
  "st_reset m =
     (let m = st_go_idle m
      in on_mot (\<lambda>s.
           let s = s\<lparr>prep := st_prep_zero, st := st_zero\<rparr>;
               s = s\<lparr>st := (st s)\<lparr>exec_segment := None\<rparr>, pl_block := None, segment_buffer_tail := 0,
                     segment_buffer_head := 0, segment_next_head := 1, busy := False\<rparr>;
               s = st_generate_step_dir_invert_masks (mset m) s;
               s = s\<lparr>st := (st s)\<lparr>dir_outbits := dir_port_invert_mask s\<rparr>\<rparr>;
               s = s\<lparr>PORTD := (PORTD s AND NOT STEP_MASK) OR step_port_invert_mask s\<rparr>
           in s\<lparr>PORTD := (PORTD s AND NOT DIRECTION_MASK) OR dir_port_invert_mask s\<rparr>) m)"

section \<open>The step interrupt\<close>

text \<open>\<open>++index == SEGMENT_BUFFER_SIZE\<close> wraps the index of the segment ring.\<close>

definition next_segment_index :: "u8 \<Rightarrow> u8" where
  "next_segment_index i = (let i = i + 1 in if i = of_nat SEGMENT_BUFFER_SIZE then 0 else i)"

text \<open>
  The block the interrupt executes. Before the first segment is loaded the pointer is \<open>NULL\<close>,
  and the bytes it would read are taken to be zero.
\<close>

definition st_exec_block :: "stepper_t \<Rightarrow> st_block_t" where
  "st_exec_block s =
     (case exec_block (st s) of Some i \<Rightarrow> st_block_buffer s ! unat i | None \<Rightarrow> st_block_zero)"

text \<open>Direction and step pins, then the timer that ends the pulse.\<close>

definition isr_output_pins :: "stepper_t \<Rightarrow> stepper_t" where
  "isr_output_pins s =
     (let s = s\<lparr>PORTD := (PORTD s AND NOT DIRECTION_MASK) OR (dir_outbits (st s) AND DIRECTION_MASK)\<rparr>;
          s = s\<lparr>PORTD := (PORTD s AND NOT STEP_MASK) OR step_outbits (st s)\<rparr>
      in s\<lparr>TCNT0 := step_pulse_time (st s), TIMER0_RUNNING := True, busy := True\<rparr>)"

definition isr_load_segment :: "machine \<Rightarrow> machine" where
  "isr_load_segment m =
     (let s = mot m;
          sg = segment_buffer s ! unat (segment_buffer_tail s);
          s = s\<lparr>st := (st s)\<lparr>exec_segment := Some (segment_buffer_tail s)\<rparr>\<rparr>;
          s = s\<lparr>OCR1A := cycles_per_tick sg, st := (st s)\<lparr>step_count := n_step sg\<rparr>\<rparr>;
          s = (if exec_block_index (st s) \<noteq> sg_st_block_index sg then
                 (let s = s\<lparr>st := (st s)\<lparr>exec_block_index := sg_st_block_index sg,
                                          exec_block := Some (sg_st_block_index sg)\<rparr>\<rparr>;
                      c = drop_bit 1 (sb_step_event_count (st_exec_block s))
                  in s\<lparr>st := (st s)\<lparr>counter_x := c, counter_y := c, counter_z := c\<rparr>\<rparr>)
               else s);
          b = st_exec_block s;
          s = s\<lparr>st := (st s)\<lparr>dir_outbits := sb_direction_bits b XOR dir_port_invert_mask s,
                  st_steps := map (\<lambda>a. drop_bit (unat (amass_level sg)) (sb_steps b ! a)) [0..<N_AXIS]\<rparr>\<rparr>
      in on_spin (spindle_set_speed (sg_spindle_pwm sg)) (m\<lparr>mot := s\<rparr>))"

definition isr_buffer_empty :: "machine \<Rightarrow> machine" where
  "isr_buffer_empty m =
     (let m = st_go_idle m;
          m = (if is_pwm_rate_adjusted (st_exec_block (mot m))
               then on_spin (spindle_set_speed SPINDLE_PWM_OFF_VALUE) m else m)
      in on_rt (system_set_exec_state_flag EXEC_CYCLE_STOP) m)"

text \<open>One axis: the counter, the step bits and the position, in the order the code has them.\<close>

definition isr_axis :: "nat \<Rightarrow> nat \<Rightarrow> nat \<Rightarrow> st_block_t \<Rightarrow> u32 \<Rightarrow> u32 \<Rightarrow> u8 \<times> int list \<Rightarrow> u32 \<times> u8 \<times> int list" where
  "isr_axis axis step_bit direction_bit b inc counter acc = (case acc of (outbits, position) \<Rightarrow>
     (let counter = counter + inc in
      if sb_step_event_count b < counter
      then (counter - sb_step_event_count b, outbits OR bitw step_bit,
            position[axis := (if sb_direction_bits b AND bitw direction_bit \<noteq> 0 then position ! axis - 1
                              else position ! axis + 1)])
      else (counter, outbits, position)))"

definition isr_bresenham :: "machine \<Rightarrow> machine" where
  "isr_bresenham m =
     (let s = mot m; b = st_exec_block s; inc = st_steps (st s);
          (cx, acc) = isr_axis X_AXIS X_STEP_BIT X_DIRECTION_BIT b (inc ! X_AXIS) (counter_x (st s))
                        (0, sys_position (rt m));
          (cy, acc) = isr_axis Y_AXIS Y_STEP_BIT Y_DIRECTION_BIT b (inc ! Y_AXIS) (counter_y (st s)) acc;
          (cz, acc) = isr_axis Z_AXIS Z_STEP_BIT Z_DIRECTION_BIT b (inc ! Z_AXIS) (counter_z (st s)) acc;
          (outbits, position) = acc
      in m\<lparr>mot := s\<lparr>st := (st s)\<lparr>counter_x := cx, counter_y := cy, counter_z := cz,
                              step_outbits := outbits\<rparr>\<rparr>,
           rt := (rt m)\<lparr>sys_position := position\<rparr>\<rparr>)"

definition isr_finish :: "machine \<Rightarrow> machine" where
  "isr_finish m =
     (let s = mot m;
          s = (if sys_state (sys m) = STATE_HOMING
               then s\<lparr>st := (st s)\<lparr>step_outbits := step_outbits (st s) AND sys_homing_axis_lock (sys m)\<rparr>\<rparr>
               else s);
          s = s\<lparr>st := (st s)\<lparr>step_count := step_count (st s) - 1\<rparr>\<rparr>;
          s = (if step_count (st s) = 0
               then s\<lparr>st := (st s)\<lparr>exec_segment := None\<rparr>,
                      segment_buffer_tail := next_segment_index (segment_buffer_tail s)\<rparr>
               else s);
          s = s\<lparr>st := (st s)\<lparr>step_outbits := step_outbits (st s) XOR step_port_invert_mask s\<rparr>, busy := False\<rparr>
      in m\<lparr>mot := s\<rparr>)"

definition isr_execute :: "machine \<Rightarrow> machine" where
  "isr_execute m =
     (let m = (if sys_probe_state (rt m) = PROBE_ACTIVE then on_rt (probe_state_monitor (prb m) (PROBE_PIN m)) m
               else m)
      in isr_finish (isr_bresenham m))"

definition TIMER1_COMPA_vect :: "machine \<Rightarrow> machine" where
  "TIMER1_COMPA_vect m =
     (if busy (mot m) then m
      else (let m = on_mot isr_output_pins m in
        if exec_segment (st (mot m)) = None then
          (if segment_buffer_head (mot m) \<noteq> segment_buffer_tail (mot m)
           then isr_execute (isr_load_segment m) else isr_buffer_empty m)
        else isr_execute m))"

definition TIMER0_OVF_vect :: "stepper_t \<Rightarrow> stepper_t" where
  "TIMER0_OVF_vect s =
     s\<lparr>PORTD := (PORTD s AND NOT STEP_MASK) OR (step_port_invert_mask s AND STEP_MASK),
       TIMER0_RUNNING := False\<rparr>"

definition st_get_realtime_rate :: "system_t \<Rightarrow> stepper_t \<Rightarrow> f32" where
  "st_get_realtime_rate sy s =
     (if sys_state sy AND (STATE_CYCLE OR STATE_HOMING OR STATE_HOLD OR STATE_JOG OR STATE_SAFETY_DOOR) \<noteq> 0
      then current_speed (prep s) else f_zero)"

section \<open>The callback of the planner\<close>

text \<open>The entry speed of the executing block becomes the speed the segments have reached.\<close>

definition st_update_plan_block_parameters :: "stepper_t \<Rightarrow> stepper_t" where
  "st_update_plan_block_parameters s =
     (case pl_block s of None \<Rightarrow> s
      | Some i \<Rightarrow>
          (let s = s\<lparr>prep := (prep s)\<lparr>recalculate_flag := recalculate_flag (prep s) OR PREP_FLAG_RECALCULATE\<rparr>\<rparr>;
               s = upd_blk i (\<lambda>b. b\<lparr>entry_speed_sqr := f_mul (current_speed (prep s)) (current_speed (prep s))\<rparr>) s
           in s\<lparr>pl_block := None\<rparr>))"

end
