(* ===== verification/Stepper_Exact.thy ===== *)
theory Stepper_Exact
  imports Stepper
begin

text \<open>
  What the step interrupt does to the motors. \<open>executes\<close> is the relation between machine
  states that the interrupt and the main program produce together: ticks of the interrupt with
  the steps of the main program, which may queue segments and change everything but the
  interrupt's own data, between any two of them.
\<close>

section \<open>One axis\<close>

definition axis_sign :: "st_block_t \<Rightarrow> nat \<Rightarrow> int" where
  "axis_sign b a = (if sb_direction_bits b AND bitw (5 + a) \<noteq> 0 then - 1 else 1)"

text \<open>
  The invariant of an axis: \<open>p0\<close> is the position at the start of the block and \<open>inc\<close> the sum
  of the increments since then.
\<close>

definition axis_ok :: "st_block_t \<Rightarrow> nat \<Rightarrow> int \<Rightarrow> nat \<Rightarrow> u32 \<Rightarrow> int \<Rightarrow> bool" where
  "axis_ok b a p0 inc c p \<longleftrightarrow>
     unat c \<le> unat (sb_step_event_count b)
     \<and> int (unat c) + int (unat (sb_step_event_count b)) * (axis_sign b a * (p - p0))
       = int (unat (sb_step_event_count b) div 2 + inc)"

lemma axis_sign_square [simp]: "axis_sign b a * axis_sign b a = 1"
  by (simp add: axis_sign_def)

lemma isr_axis_ok:
  assumes ok: "axis_ok b a p0 inc c (pos ! a)"
    and le: "unat i \<le> unat (sb_step_event_count b)"
    and E: "2 * unat (sb_step_event_count b) < 2 ^ 32"
    and a: "a < length pos"
    and r: "isr_axis a k (5 + a) b i c (o', pos) = (c', o'', pos')"
  shows "axis_ok b a p0 (inc + unat i) c' (pos' ! a)" and "length pos' = length pos"
    and "\<And>j. j \<noteq> a \<Longrightarrow> pos' ! j = pos ! j"
    and "pos' ! a \<noteq> pos ! a \<longleftrightarrow> o'' = o' OR bitw k \<and> unat (sb_step_event_count b) < unat c + unat i"
proof -
  let ?E = "unat (sb_step_event_count b)"
  have c: "unat c \<le> ?E" and eq: "int (unat c) + int ?E * (axis_sign b a * (pos ! a - p0)) = int (?E div 2 + inc)"
    using ok by (simp_all add: axis_ok_def)
  have s: "unat (c + i) = unat c + unat i"
    using c le E by (intro unat_add_lem [THEN iffD1]) simp
  have lt: "sb_step_event_count b < c + i \<longleftrightarrow> ?E < unat c + unat i"
    by (simp add: word_less_nat_alt s)
  have d: "?E < unat c + unat i \<Longrightarrow> unat (c + i - sb_step_event_count b) = unat c + unat i - ?E"
    using lt by (simp add: unat_sub word_le_nat_alt s)
  let ?q = "if sb_direction_bits b AND bitw (5 + a) \<noteq> 0 then pos ! a - 1 else pos ! a + 1"
  have q: "axis_sign b a * (?q - p0) = axis_sign b a * (pos ! a - p0) + 1"
    by (simp add: axis_sign_def algebra_simps)
  have "axis_ok b a p0 (inc + unat i) c' (pos' ! a) \<and> length pos' = length pos
      \<and> (\<forall>j. j \<noteq> a \<longrightarrow> pos' ! j = pos ! j)
      \<and> (pos' ! a \<noteq> pos ! a \<longleftrightarrow> o'' = o' OR bitw k \<and> ?E < unat c + unat i)"
  proof (cases "?E < unat c + unat i")
    case True
    with r lt have r': "c' = c + i - sb_step_event_count b" "pos' = pos[a := ?q]" "o'' = o' OR bitw k"
      by (auto simp: isr_axis_def Let_def)
    have p: "pos' ! a = ?q" using a by (simp add: r')
    have "int (unat c + unat i - ?E) + int ?E * (axis_sign b a * (?q - p0)) = int (?E div 2 + (inc + unat i))"
      unfolding q distrib_left using eq True by simp
    moreover have "unat c + unat i - ?E \<le> ?E" using c le by simp
    ultimately have "axis_ok b a p0 (inc + unat i) c' (pos' ! a)"
      unfolding axis_ok_def p unfolding r'(1) d [OF True] by (intro conjI)
    then show ?thesis using True a r'(3) by (auto simp: r'(2))
  next
    case False
    with r lt have r': "c' = c + i" "pos' = pos" "o'' = o'" by (auto simp: isr_axis_def Let_def)
    show ?thesis using eq False by (simp add: r' axis_ok_def s)
  qed
  then show "axis_ok b a p0 (inc + unat i) c' (pos' ! a)" and "length pos' = length pos"
    and "\<And>j. j \<noteq> a \<Longrightarrow> pos' ! j = pos ! j"
    and "pos' ! a \<noteq> pos ! a \<longleftrightarrow> o'' = o' OR bitw k \<and> ?E < unat c + unat i" by auto
qed

text \<open>When the increments of a block are complete, the axis has moved by its step count.\<close>

lemma axis_complete:
  assumes ok: "axis_ok b a p0 (unat (sb_step_event_count b) * n) c p"
    and E: "unat (sb_step_event_count b) = 8 * e" and e: "0 < e"
  shows "p = p0 + axis_sign b a * int n"
proof -
  let ?k = "axis_sign b a * (p - p0) - int n"
  have c: "unat c \<le> 8 * e" and "int (unat c) + int (8 * e) * (axis_sign b a * (p - p0)) = int (4 * e + 8 * e * n)"
    using ok by (simp_all add: axis_ok_def E)
  then have k: "int (8 * e) * ?k = int (4 * e) - int (unat c)" by (simp add: algebra_simps)
  have "?k = 0"
  proof (rule ccontr)
    assume "?k \<noteq> 0"
    then consider "?k \<ge> 1" | "?k \<le> - 1" by linarith
    then show False
    proof cases
      case 1
      then have "int (8 * e) * 1 \<le> int (8 * e) * ?k" by (intro mult_left_mono) auto
      then show False using k e by linarith
    next
      case 2
      then have "int (8 * e) * ?k \<le> int (8 * e) * (- 1)" by (intro mult_left_mono) auto
      then show False using k c e by linarith
    qed
  qed
  then have "axis_sign b a * (axis_sign b a * (p - p0)) = axis_sign b a * int n" by simp
  then show ?thesis unfolding mult.assoc [symmetric] by simp
qed

section \<open>A tick\<close>

definition counters :: "st_t \<Rightarrow> u32 list" where
  "counters t = [counter_x t, counter_y t, counter_z t]"

text \<open>A block as the preparation loads it, shifted up by the highest smoothing level.\<close>

definition block_data :: "u32 list \<Rightarrow> u32 \<Rightarrow> st_block_t \<Rightarrow> bool" where
  "block_data ns event b \<longleftrightarrow> sb_steps b = map (push_bit 3) ns \<and> sb_step_event_count b = push_bit 3 event
     \<and> length ns = 3 \<and> (\<forall>x \<in> set ns. x \<le> event) \<and> 0 < event \<and> event < 2 ^ 28"

definition motor_ok :: "u32 list \<Rightarrow> st_block_t \<Rightarrow> int list \<Rightarrow> nat \<Rightarrow> machine \<Rightarrow> bool" where
  "motor_ok ns b p0 w m \<longleftrightarrow> length (sys_position (rt m)) = 3
     \<and> (\<forall>a < 3. axis_ok b a (p0 ! a) (w * unat (ns ! a)) (counters (st (mot m)) ! a) (sys_position (rt m) ! a))"

lemma unat_shift3: "unat (x :: u32) < 2 ^ 28 \<Longrightarrow> unat (push_bit 3 x) = 8 * unat x"
proof -
  assume "unat x < 2 ^ 28"
  then have "unat (8 * x) = unat (8 :: u32) * unat x" by (intro unat_mult_lem [THEN iffD1]) simp
  then show ?thesis by (simp add: push_bit_eq_mult mult.commute)
qed

lemma block_data_unat:
  assumes "block_data ns event b" and "a < 3"
  shows "unat (sb_steps b ! a) = 8 * unat (ns ! a)" and "unat (ns ! a) \<le> unat event"
    and "unat (sb_step_event_count b) = 8 * unat event" and "unat event < 2 ^ 28" and "0 < unat event"
proof -
  have e: "unat event < 2 ^ 28"
    using assms by (simp add: block_data_def word_less_nat_alt)
  have m: "ns ! a \<in> set ns" using assms by (simp add: block_data_def)
  then show le: "unat (ns ! a) \<le> unat event" using assms by (auto simp: block_data_def word_le_nat_alt)
  show "unat (sb_steps b ! a) = 8 * unat (ns ! a)"
    using assms unat_shift3 [of "ns ! a"] le e by (simp add: block_data_def)
  show "unat (sb_step_event_count b) = 8 * unat event"
    using assms unat_shift3 [OF e] by (simp add: block_data_def)
  show "unat event < 2 ^ 28" by (rule e)
  show "0 < unat event" using assms by (simp add: block_data_def word_less_nat_alt)
qed

lemma amass_increment:
  assumes "block_data ns event b" and "a < 3" and "l \<le> 3"
  shows "unat (drop_bit l (sb_steps b ! a)) = 2 ^ (3 - l) * unat (ns ! a)"
proof -
  have "unat (drop_bit l (sb_steps b ! a)) = 8 * unat (ns ! a) div 2 ^ l"
    unfolding unat_drop_bit_eq drop_bit_eq_div [where 'a = nat] block_data_unat(1) [OF assms(1,2)] ..
  moreover have "l = 0 \<or> l = 1 \<or> l = 2 \<or> l = 3" using assms(3) by linarith
  ultimately show ?thesis by auto
qed

text \<open>The increments of the three counters.\<close>

lemma bresenham_increment:
  assumes bd: "block_data ns event b" and l: "l \<le> 3" and a: "a < 3" and i: "inc = drop_bit l (sb_steps b ! a)"
  shows "unat inc = 2 ^ (3 - l) * unat (ns ! a)" and "unat inc \<le> unat (sb_step_event_count b)"
proof -
  show u: "unat inc = 2 ^ (3 - l) * unat (ns ! a)" using amass_increment [OF bd a l] i by simp
  have "(2::nat) ^ (3 - l) \<le> 2 ^ 3" by (rule power_increasing) auto
  then have "2 ^ (3 - l) * unat (ns ! a) \<le> 8 * unat event"
    using block_data_unat(2) [OF bd a] by (intro mult_le_mono) auto
  then show "unat inc \<le> unat (sb_step_event_count b)" using u block_data_unat(3) [OF bd a] by simp
qed

lemma isr_bresenham_ok:
  assumes ok: "motor_ok ns b p0 w m" and bd: "block_data ns event b"
    and b: "st_exec_block (mot m) = b" and l: "l \<le> 3"
    and i: "st_steps (st (mot m)) = map (\<lambda>a. drop_bit l (sb_steps b ! a)) [0..<N_AXIS]"
  shows "motor_ok ns b p0 (w + 2 ^ (3 - l)) (isr_bresenham m)"
proof -
  let ?t = "st (mot m)" and ?pos = "sys_position (rt m)"
  have len: "length ?pos = 3" using ok by (simp add: motor_ok_def)
  have ax: "axis_ok b a (p0 ! a) (w * unat (ns ! a)) (counters ?t ! a) (?pos ! a)" if "a < 3" for a
    using ok that by (simp add: motor_ok_def)
  have inc: "st_steps ?t ! a = drop_bit l (sb_steps b ! a)" if "a < 3" for a
    using that by (simp add: i N_AXIS_def)
  note u = bresenham_increment(1) [OF bd l _ inc] and le = bresenham_increment(2) [OF bd l _ inc]
  have E: "2 * unat (sb_step_event_count b) < 2 ^ 32"
    using block_data_unat(3,4) [OF bd, of 0] by simp
  have adv: "axis_ok b a (p0 ! a) (w * unat (ns ! a) + unat (st_steps ?t ! a)) c p \<Longrightarrow> a < 3 \<Longrightarrow>
      axis_ok b a (p0 ! a) ((w + 2 ^ (3 - l)) * unat (ns ! a)) c p" for a c p
    by (simp add: u distrib_right)
  obtain cx o1 p1 where x: "isr_axis X_AXIS X_STEP_BIT X_DIRECTION_BIT b (st_steps ?t ! X_AXIS) (counter_x ?t) (0, ?pos) = (cx, o1, p1)"
    by (metis prod_cases3)
  obtain cy o2 p2 where y: "isr_axis Y_AXIS Y_STEP_BIT Y_DIRECTION_BIT b (st_steps ?t ! Y_AXIS) (counter_y ?t) (o1, p1) = (cy, o2, p2)"
    by (metis prod_cases3)
  obtain cz o3 p3 where z: "isr_axis Z_AXIS Z_STEP_BIT Z_DIRECTION_BIT b (st_steps ?t ! Z_AXIS) (counter_z ?t) (o2, p2) = (cz, o3, p3)"
    by (metis prod_cases3)
  note X = isr_axis_ok [of b 0 "p0 ! 0" "w * unat (ns ! 0)" "counter_x ?t" ?pos "st_steps ?t ! 0" 2 0 cx o1 p1]
  have x1: "axis_ok b 0 (p0 ! 0) (w * unat (ns ! 0) + unat (st_steps ?t ! 0)) cx (p1 ! 0)"
    "length p1 = 3" "p1 ! 1 = ?pos ! 1" "p1 ! 2 = ?pos ! 2"
    using X ax [of 0] le [of 0] E len x by (simp_all add: counters_def grbl_const)
  note Y = isr_axis_ok [of b 1 "p0 ! 1" "w * unat (ns ! 1)" "counter_y ?t" p1 "st_steps ?t ! 1" 3 o1 cy o2 p2]
  have y1: "axis_ok b 1 (p0 ! 1) (w * unat (ns ! 1) + unat (st_steps ?t ! 1)) cy (p2 ! 1)"
    "length p2 = 3" "p2 ! 0 = p1 ! 0" "p2 ! 2 = ?pos ! 2"
    using Y ax [of 1] le [of 1] E y x1 by (simp_all add: counters_def grbl_const)
  note Z = isr_axis_ok [of b 2 "p0 ! 2" "w * unat (ns ! 2)" "counter_z ?t" p2 "st_steps ?t ! 2" 4 o2 cz o3 p3]
  have z1: "axis_ok b 2 (p0 ! 2) (w * unat (ns ! 2) + unat (st_steps ?t ! 2)) cz (p3 ! 2)"
    "length p3 = 3" "p3 ! 0 = p1 ! 0" "p3 ! 1 = p2 ! 1"
    using Z ax [of 2] le [of 2] E z y1 by (simp_all add: counters_def grbl_const)
  have m': "isr_bresenham m = m\<lparr>mot := (mot m)\<lparr>st := ?t\<lparr>counter_x := cx, counter_y := cy, counter_z := cz,
                              step_outbits := o3\<rparr>\<rparr>, rt := (rt m)\<lparr>sys_position := p3\<rparr>\<rparr>"
    by (simp add: isr_bresenham_def Let_def b x y z)
  show ?thesis unfolding motor_ok_def
  proof (intro conjI allI impI)
    show "length (sys_position (rt (isr_bresenham m))) = 3" using z1 by (simp add: m')
  next
    fix a :: nat assume "a < 3"
    then consider "a = 0" | "a = 1" | "a = 2" by linarith
    then show "axis_ok b a (p0 ! a) ((w + 2 ^ (3 - l)) * unat (ns ! a))
        (counters (st (mot (isr_bresenham m))) ! a) (sys_position (rt (isr_bresenham m)) ! a)"
      using adv [OF x1(1)] adv [OF y1(1)] adv [OF z1(1)] z1 y1
      by cases (simp_all add: m' counters_def)
  qed
qed

lemma isr_bresenham_frame:
  "exec_block (st (mot (isr_bresenham m))) = exec_block (st (mot m))"
  "exec_block_index (st (mot (isr_bresenham m))) = exec_block_index (st (mot m))"
  "st_block_buffer (mot (isr_bresenham m)) = st_block_buffer (mot m)"
  "step_count (st (mot (isr_bresenham m))) = step_count (st (mot m))"
  "exec_segment (st (mot (isr_bresenham m))) = exec_segment (st (mot m))"
  "st_steps (st (mot (isr_bresenham m))) = st_steps (st (mot m))"
  by (simp_all add: isr_bresenham_def Let_def split: prod.split)

lemma isr_finish_frame:
  "exec_block (st (mot (isr_finish m))) = exec_block (st (mot m))"
  "exec_block_index (st (mot (isr_finish m))) = exec_block_index (st (mot m))"
  "st_block_buffer (mot (isr_finish m)) = st_block_buffer (mot m)"
  "step_count (st (mot (isr_finish m))) = step_count (st (mot m)) - 1"
  "exec_segment (st (mot (isr_finish m))) =
     (if step_count (st (mot m)) = 1 then None else exec_segment (st (mot m)))"
  "st_steps (st (mot (isr_finish m))) = st_steps (st (mot m))"
  "counters (st (mot (isr_finish m))) = counters (st (mot m))"
  "busy (mot (isr_finish m)) = False" "rt (isr_finish m) = rt m"
  by (simp_all add: isr_finish_def Let_def counters_def)

lemma probe_state_monitor_position [simp]:
  "sys_position (probe_state_monitor p pin r) = sys_position r"
  by (simp add: probe_state_monitor_def)

text \<open>The tick of a loaded segment.\<close>

definition loaded :: "st_block_t \<Rightarrow> nat \<Rightarrow> machine \<Rightarrow> bool" where
  "loaded b l m \<longleftrightarrow> l \<le> 3 \<and> exec_segment (st (mot m)) \<noteq> None \<and> step_count (st (mot m)) \<noteq> 0
     \<and> st_steps (st (mot m)) = map (\<lambda>a. drop_bit l (sb_steps b ! a)) [0..<N_AXIS]"

definition tracing :: "u32 list \<Rightarrow> st_block_t \<Rightarrow> u8 \<Rightarrow> int list \<Rightarrow> nat \<Rightarrow> machine \<Rightarrow> bool" where
  "tracing ns b j p0 w m \<longleftrightarrow> st_block_buffer (mot m) ! unat j = b \<and> exec_block (st (mot m)) = Some j
     \<and> exec_block_index (st (mot m)) = j \<and> \<not> busy (mot m) \<and> motor_ok ns b p0 w m"

lemma isr_execute_tracing:
  assumes bd: "block_data ns event b" and ld: "loaded b l m"
    and b: "st_block_buffer (mot m) ! unat j = b" "exec_block (st (mot m)) = Some j"
      "exec_block_index (st (mot m)) = j" and ok: "motor_ok ns b p0 w m"
  shows "tracing ns b j p0 (w + 2 ^ (3 - l)) (isr_execute m)"
    and "if step_count (st (mot m)) = 1 then exec_segment (st (mot (isr_execute m))) = None
         else loaded b l (isr_execute m) \<and>
              unat (step_count (st (mot (isr_execute m)))) = unat (step_count (st (mot m))) - 1"
proof -
  let ?m = "if sys_probe_state (rt m) = PROBE_ACTIVE then on_rt (probe_state_monitor (prb m) (PROBE_PIN m)) m else m"
  have mot: "mot ?m = mot m" and pos: "sys_position (rt ?m) = sys_position (rt m)"
    by (simp_all add: on_rt_def)
  have ok': "motor_ok ns b p0 w ?m" using ok unfolding motor_ok_def mot pos .
  have eb: "st_exec_block (mot ?m) = b" using b mot by (simp add: st_exec_block_def)
  have ld': "l \<le> 3" "exec_segment (st (mot m)) \<noteq> None" "step_count (st (mot m)) \<noteq> 0"
    "st_steps (st (mot m)) = map (\<lambda>a. drop_bit l (sb_steps b ! a)) [0..<N_AXIS]"
    using ld by (simp_all add: loaded_def)
  let ?n = "isr_bresenham ?m"
  have B: "motor_ok ns b p0 (w + 2 ^ (3 - l)) ?n"
    by (rule isr_bresenham_ok [OF ok' bd eb ld'(1)]) (simp only: mot ld'(4))
  have ex: "isr_execute m = isr_finish ?n" by (simp add: isr_execute_def Let_def)
  have f: "exec_block (st (mot ?n)) = Some j" "exec_block_index (st (mot ?n)) = j"
    "st_block_buffer (mot ?n) ! unat j = b" "step_count (st (mot ?n)) = step_count (st (mot m))"
    "exec_segment (st (mot ?n)) = exec_segment (st (mot m))" "st_steps (st (mot ?n)) = st_steps (st (mot m))"
    unfolding isr_bresenham_frame mot using b by simp_all
  show "tracing ns b j p0 (w + 2 ^ (3 - l)) (isr_execute m)"
    unfolding ex tracing_def using B f by (simp add: isr_finish_frame motor_ok_def)
  have u: "step_count (st (mot m)) \<noteq> 1 \<Longrightarrow> step_count (st (mot m)) - 1 \<noteq> 0" by simp
  have v: "unat (step_count (st (mot m)) - 1) = unat (step_count (st (mot m))) - 1"
    using ld'(3) by (simp add: unat_minus_one)
  show "if step_count (st (mot m)) = 1 then exec_segment (st (mot (isr_execute m))) = None
         else loaded b l (isr_execute m) \<and>
              unat (step_count (st (mot (isr_execute m)))) = unat (step_count (st (mot m))) - 1"
    unfolding ex loaded_def using f ld' u v by (simp add: isr_finish_frame)
qed

section \<open>Executing a block\<close>

text \<open>
  What the main program may do between two ticks: anything but touch the interrupt's data,
  the positions and the block that is being executed.
\<close>

definition foreground :: "u8 \<Rightarrow> machine \<Rightarrow> machine \<Rightarrow> bool" where
  "foreground j m m' \<longleftrightarrow> st (mot m') = st (mot m) \<and> busy (mot m') = busy (mot m)
     \<and> st_block_buffer (mot m') ! unat j = st_block_buffer (mot m) ! unat j
     \<and> sys_position (rt m') = sys_position (rt m)"

text \<open>
  \<open>executes j m0 sgs m\<close>: from \<open>m0\<close>, the interrupt has taken the segments \<open>sgs\<close> of the block
  \<open>j\<close> from the ring, in that order, and the machine is now \<open>m\<close>.
\<close>

inductive executes :: "u8 \<Rightarrow> machine \<Rightarrow> segment_t list \<Rightarrow> machine \<Rightarrow> bool" for j m0 where
  Start: "executes j m0 [] m0"
| Foreground: "executes j m0 sgs m \<Longrightarrow> foreground j m m' \<Longrightarrow> executes j m0 sgs m'"
| Load: "executes j m0 sgs m \<Longrightarrow> exec_segment (st (mot m)) = None \<Longrightarrow>
    segment_buffer_head (mot m) \<noteq> segment_buffer_tail (mot m) \<Longrightarrow>
    sg = segment_buffer (mot m) ! unat (segment_buffer_tail (mot m)) \<Longrightarrow> sg_st_block_index sg = j \<Longrightarrow>
    executes j m0 (sgs @ [sg]) (TIMER1_COMPA_vect m)"
| Tick: "executes j m0 sgs m \<Longrightarrow> exec_segment (st (mot m)) \<noteq> None \<Longrightarrow>
    executes j m0 sgs (TIMER1_COMPA_vect m)"

text \<open>The part of the block's steps a segment stands for, in eighths of a step event.\<close>

definition weight :: "segment_t \<Rightarrow> nat" where
  "weight sg = unat (n_step sg) * 2 ^ (3 - unat (amass_level sg))"

definition segment_valid :: "segment_t \<Rightarrow> bool" where
  "segment_valid sg \<longleftrightarrow> n_step sg \<noteq> 0 \<and> unat (amass_level sg) \<le> MAX_AMASS_LEVEL"

definition progress :: "u32 list \<Rightarrow> st_block_t \<Rightarrow> u8 \<Rightarrow> int list \<Rightarrow> nat \<Rightarrow> machine \<Rightarrow> bool" where
  "progress ns b j p0 tot m \<longleftrightarrow> (\<exists>w. tracing ns b j p0 w m \<and>
     (if exec_segment (st (mot m)) = None then w = tot
      else \<exists>l. loaded b l m \<and> w + unat (step_count (st (mot m))) * 2 ^ (3 - l) = tot))"

lemma progress_tick:
  assumes bd: "block_data ns event b" and ld: "loaded b l m"
    and b: "st_block_buffer (mot m) ! unat j = b" "exec_block (st (mot m)) = Some j"
      "exec_block_index (st (mot m)) = j" and ok: "motor_ok ns b p0 w m"
    and w: "w + unat (step_count (st (mot m))) * 2 ^ (3 - l) = tot"
  shows "progress ns b j p0 tot (isr_execute m)"
proof -
  note t = isr_execute_tracing [OF bd ld b ok]
  have pos: "0 < unat (step_count (st (mot m)))" using ld by (simp add: loaded_def unat_gt_0)
  then obtain k where k: "unat (step_count (st (mot m))) = Suc k" using gr0_implies_Suc by blast
  have eq: "w + 2 ^ (3 - l) + k * 2 ^ (3 - l) = tot" using w unfolding k by simp
  show ?thesis
  proof (cases "step_count (st (mot m)) = 1")
    case True
    then have "k = 0" using k by simp
    then show ?thesis using t True eq by (auto simp: progress_def)
  next
    case False
    then have l: "loaded b l (isr_execute m)" and c: "unat (step_count (st (mot (isr_execute m)))) = k"
      using t(2) k by simp_all
    then have "exec_segment (st (mot (isr_execute m))) \<noteq> None" by (simp add: loaded_def)
    then show ?thesis unfolding progress_def using t(1) l c eq by auto
  qed
qed

lemma on_mot_pins:
  "st (mot (on_mot isr_output_pins m)) = st (mot m)"
  "st_block_buffer (mot (on_mot isr_output_pins m)) = st_block_buffer (mot m)"
  "segment_buffer (mot (on_mot isr_output_pins m)) = segment_buffer (mot m)"
  "segment_buffer_tail (mot (on_mot isr_output_pins m)) = segment_buffer_tail (mot m)"
  "segment_buffer_head (mot (on_mot isr_output_pins m)) = segment_buffer_head (mot m)"
  "rt (on_mot isr_output_pins m) = rt m"
  by (simp_all add: on_mot_def isr_output_pins_def Let_def)

lemma timer1_tick:
  "\<not> busy (mot m) \<Longrightarrow> exec_segment (st (mot m)) \<noteq> None \<Longrightarrow>
    TIMER1_COMPA_vect m = isr_execute (on_mot isr_output_pins m)"
  "\<not> busy (mot m) \<Longrightarrow> exec_segment (st (mot m)) = None \<Longrightarrow>
    segment_buffer_head (mot m) \<noteq> segment_buffer_tail (mot m) \<Longrightarrow>
    TIMER1_COMPA_vect m = isr_execute (isr_load_segment (on_mot isr_output_pins m))"
  unfolding TIMER1_COMPA_vect_def Let_def on_mot_pins by (simp_all del: not_None_eq)

lemma isr_load_segment_state:
  assumes sg: "sg = segment_buffer (mot m) ! unat (segment_buffer_tail (mot m))"
    and b: "st_block_buffer (mot m) ! unat (sg_st_block_index sg) = b"
    and same: "exec_block_index (st (mot m)) = sg_st_block_index sg \<Longrightarrow> exec_block (st (mot m)) = Some (sg_st_block_index sg)"
  defines "m' \<equiv> isr_load_segment m"
  shows "exec_block (st (mot m')) = Some (sg_st_block_index sg)"
    and "exec_block_index (st (mot m')) = sg_st_block_index sg"
    and "exec_segment (st (mot m')) \<noteq> None" and "step_count (st (mot m')) = n_step sg"
    and "st_steps (st (mot m')) = map (\<lambda>a. drop_bit (unat (amass_level sg)) (sb_steps b ! a)) [0..<N_AXIS]"
    and "st_block_buffer (mot m') = st_block_buffer (mot m)" and "rt m' = rt m"
    and "counters (st (mot m')) = (if exec_block_index (st (mot m)) = sg_st_block_index sg then counters (st (mot m))
           else replicate 3 (drop_bit 1 (sb_step_event_count b)))"
  using same b unfolding m'_def isr_load_segment_def Let_def sg [symmetric]
  by (simp_all add: on_spin_def st_exec_block_def counters_def numeral_3_eq_3 split: if_splits)

text \<open>Loading a segment, whether it is the first of its block or not.\<close>

lemma progress_load:
  assumes bd: "block_data ns event b" and seg: "exec_segment (st (mot m)) = None" "\<not> busy (mot m)"
    and ne: "segment_buffer_head (mot m) \<noteq> segment_buffer_tail (mot m)"
    and sg: "sg = segment_buffer (mot m) ! unat (segment_buffer_tail (mot m))" "sg_st_block_index sg = j"
      "segment_valid sg"
    and b: "st_block_buffer (mot m) ! unat j = b"
    and st: "progress ns b j (sys_position (rt m0)) tot m
       \<or> tot = 0 \<and> exec_block_index (st (mot m)) \<noteq> j \<and> sys_position (rt m) = sys_position (rt m0)
         \<and> length (sys_position (rt m0)) = 3"
  shows "progress ns b j (sys_position (rt m0)) (tot + weight sg) (TIMER1_COMPA_vect m)"
proof -
  let ?n = "on_mot isr_output_pins m" let ?l = "unat (amass_level sg)"
  have p: "sg = segment_buffer (mot ?n) ! unat (segment_buffer_tail (mot ?n))"
    "st_block_buffer (mot ?n) ! unat (sg_st_block_index sg) = b"
    "exec_block_index (st (mot ?n)) = sg_st_block_index sg \<Longrightarrow> exec_block (st (mot ?n)) = Some (sg_st_block_index sg)"
    using sg b st by (auto simp: on_mot_pins progress_def tracing_def)
  note L = isr_load_segment_state [OF p]
  let ?m' = "isr_load_segment ?n"
  have E: "unat (sb_step_event_count b) = 8 * unat event" "unat event < 2 ^ 28"
    using block_data_unat [OF bd, of 0] by simp_all
  have half: "unat (drop_bit 1 (sb_step_event_count b)) = unat (sb_step_event_count b) div 2"
    unfolding unat_drop_bit_eq drop_bit_eq_div [where 'a = nat] by simp
  have "motor_ok ns b (sys_position (rt m0)) tot ?m'"
  proof (cases "exec_block_index (st (mot m)) = j")
    case True
    then have "motor_ok ns b (sys_position (rt m0)) tot m" using st seg by (auto simp: progress_def tracing_def)
    then show ?thesis using True L(7,8) sg(2) by (simp add: motor_ok_def on_mot_pins)
  next
    case False
    then have z: "tot = 0" "sys_position (rt m) = sys_position (rt m0)" "length (sys_position (rt m0)) = 3"
      using st by (auto simp: progress_def tracing_def)
    have c: "counters (st (mot ?m')) = replicate 3 (drop_bit 1 (sb_step_event_count b))"
      using L(8) False sg(2) by (simp add: on_mot_pins)
    have r: "sys_position (rt ?m') = sys_position (rt m0)" using L(7) z by (simp add: on_mot_pins)
    show ?thesis unfolding motor_ok_def c r z(1) axis_ok_def using z(3) half by (simp del: unat_drop_bit_eq)
  qed
  moreover have "loaded b ?l ?m'"
    using L(3-5) sg(3) by (simp add: loaded_def segment_valid_def MAX_AMASS_LEVEL_def)
  moreover have "st_block_buffer (mot ?m') ! unat j = b" using L(6) b by (simp add: on_mot_pins)
  ultimately have "progress ns b j (sys_position (rt m0)) (tot + weight sg) (isr_execute ?m')"
    using L(1,2,4) sg(2) by (intro progress_tick [OF bd]) (auto simp: weight_def)
  then show ?thesis using timer1_tick(2) [OF seg(2,1) ne] by simp
qed

lemma executes_progress:
  assumes "executes j m0 sgs m"
    and bd: "block_data ns event (st_block_buffer (mot m0) ! unat j)"
    and m0: "exec_segment (st (mot m0)) = None" "exec_block_index (st (mot m0)) \<noteq> j" "\<not> busy (mot m0)"
      "length (sys_position (rt m0)) = 3"
    and "\<forall>sg \<in> set sgs. segment_valid sg"
  shows "st_block_buffer (mot m) ! unat j = st_block_buffer (mot m0) ! unat j \<and> \<not> busy (mot m) \<and>
     (progress ns (st_block_buffer (mot m0) ! unat j) j (sys_position (rt m0)) (sum_list (map weight sgs)) m
      \<or> sgs = [] \<and> st (mot m) = st (mot m0) \<and> sys_position (rt m) = sys_position (rt m0))"
  using assms(1) assms(7)
proof (induction rule: executes.induct)
  case Start
  show ?case using m0 by simp
next
  case (Foreground sgs m m')
  have f: "st (mot m') = st (mot m)" "busy (mot m') = busy (mot m)"
    "st_block_buffer (mot m') ! unat j = st_block_buffer (mot m) ! unat j"
    "sys_position (rt m') = sys_position (rt m)"
    using Foreground.hyps(2) by (simp_all add: foreground_def)
  have "progress ns b j p0 tot m' = progress ns b j p0 tot m" if "st_block_buffer (mot m) ! unat j = b" for b p0 tot
    using that by (simp add: f progress_def tracing_def loaded_def motor_ok_def)
  then show ?case using Foreground.IH Foreground.prems f by auto
next
  case (Load sgs m sg)
  let ?b = "st_block_buffer (mot m0) ! unat j"
  have ih: "st_block_buffer (mot m) ! unat j = ?b" "\<not> busy (mot m)"
    "progress ns ?b j (sys_position (rt m0)) (sum_list (map weight sgs)) m
      \<or> sgs = [] \<and> st (mot m) = st (mot m0) \<and> sys_position (rt m) = sys_position (rt m0)"
    using Load.IH Load.prems by auto
  have "progress ns ?b j (sys_position (rt m0)) (sum_list (map weight sgs) + weight sg) (TIMER1_COMPA_vect m)"
    by (rule progress_load [OF bd Load.hyps(2) ih(2) Load.hyps(3-5) _ ih(1)])
       (use Load.prems ih(3) m0 in auto)
  then show ?case by (auto simp: progress_def tracing_def)
next
  case (Tick sgs m)
  let ?b = "st_block_buffer (mot m0) ! unat j"
  have ih: "st_block_buffer (mot m) ! unat j = ?b" "\<not> busy (mot m)"
    "progress ns ?b j (sys_position (rt m0)) (sum_list (map weight sgs)) m"
    using Tick.IH Tick.prems Tick.hyps(2) m0(1) by auto
  let ?n = "on_mot isr_output_pins m"
  obtain w l where w: "tracing ns ?b j (sys_position (rt m0)) w m" "loaded ?b l m"
    "w + unat (step_count (st (mot m))) * 2 ^ (3 - l) = sum_list (map weight sgs)"
    using ih(3) Tick.hyps(2) by (auto simp: progress_def)
  have "progress ns ?b j (sys_position (rt m0)) (sum_list (map weight sgs)) (isr_execute ?n)"
    by (rule progress_tick [OF bd, of l _ j _ w])
       (use w in \<open>simp_all add: tracing_def loaded_def motor_ok_def on_mot_pins\<close>)
  then show ?case using timer1_tick(1) [OF ih(2) Tick.hyps(2)] by (auto simp: progress_def tracing_def)
qed

section \<open>Properties\<close>


text \<open>One segment with one step event of the first and third motor, the third backwards.\<close>

definition example_block :: st_block_t where
  "example_block = \<lparr>sb_steps = [8, 0, 8], sb_step_event_count = 8, sb_direction_bits = 128,
     is_pwm_rate_adjusted = False\<rparr>"

definition example_segment :: segment_t where
  "example_segment = \<lparr>n_step = 1, cycles_per_tick = 1000, sg_st_block_index = 1, amass_level = 0,
     sg_spindle_pwm = 0\<rparr>"

definition example_machine :: machine where
  "example_machine = machine_zero\<lparr>mot := stepper_zero\<lparr>st_block_buffer := (replicate 5 st_block_zero)[1 := example_block],
     segment_buffer := (replicate 6 segment_zero)[0 := example_segment],
     segment_buffer_head := 1, segment_next_head := 2\<rparr>\<rparr>"


end
