(* ===== verification/Stepper_Prep.thy ===== *)
theory Stepper_Prep
  imports Stepper
begin

text \<open>
  The preparing half of stepper.c: \<open>st_prep_buffer\<close> turns the planner's blocks into segments of
  constant speed. Its parts are separate definitions in the order of the code: selecting and
  loading a block, computing its velocity profile, the loop that advances the profile by one
  segment time, the spindle output, and the steps and the rate of the segment.

  The loop of the velocity profile may not end in binary32 arithmetic, so it is a partial
  function into \<open>option\<close>: \<open>None\<close> is the run that does not return.
\<close>

section \<open>Loading a block\<close>

text \<open>The block data ring has one entry less than the segment ring.\<close>

definition st_next_block_index :: "u8 \<Rightarrow> u8" where
  "st_next_block_index block_index =
     (let block_index = block_index + 1
      in if block_index = of_nat (SEGMENT_BUFFER_SIZE - 1) then 0 else block_index)"

definition upd_prep :: "(st_prep_t \<Rightarrow> st_prep_t) \<Rightarrow> stepper_t \<Rightarrow> stepper_t" where
  "upd_prep f s = s\<lparr>prep := f (prep s)\<rparr>"

text \<open>The Bresenham data of the next entry, and the step data of the block.\<close>

definition load_block_data :: "plan_block_t \<Rightarrow> stepper_t \<Rightarrow> stepper_t" where
  "load_block_data b s =
     (let s = upd_prep (\<lambda>p. p\<lparr>pr_st_block_index := st_next_block_index (pr_st_block_index p)\<rparr>) s;
          j = pr_st_block_index (prep s);
          s = s\<lparr>st_prep_block := j,
                st_block_buffer := (st_block_buffer s)[unat j :=
                  \<lparr>sb_steps = map (\<lambda>idx. push_bit MAX_AMASS_LEVEL (steps b ! idx)) [0..<N_AXIS],
                   sb_step_event_count = push_bit MAX_AMASS_LEVEL (step_event_count b),
                   sb_direction_bits = direction_bits b, is_pwm_rate_adjusted = False\<rparr>]\<rparr>
      in upd_prep (\<lambda>p. let p = p\<lparr>steps_remaining := f_of_int (uint (step_event_count b))\<rparr>;
                           p = p\<lparr>step_per_mm := f_div (steps_remaining p) (millimeters b)\<rparr>
                       in p\<lparr>req_mm_increment := f_div REQ_MM_INCREMENT_SCALAR (step_per_mm p),
                            dt_remainder := f_zero\<rparr>) s)"

text \<open>The speed at its start; \<open>i\<close> is \<open>pl_block\<close>.\<close>

definition load_block_speed :: "u8 \<Rightarrow> u8 \<Rightarrow> plan_block_t \<Rightarrow> stepper_t \<Rightarrow> stepper_t" where
  "load_block_speed step_control i b s =
     (if step_control AND STEP_CONTROL_EXECUTE_HOLD \<noteq> 0
         \<or> recalculate_flag (prep s) AND PREP_FLAG_DECEL_OVERRIDE \<noteq> 0
      then (let e = exit_speed (prep s);
                s = upd_prep (\<lambda>p. p\<lparr>current_speed := e\<rparr>) s;
                s = upd_blk i (\<lambda>b. b\<lparr>entry_speed_sqr := f_mul e e\<rparr>) s
            in upd_prep (\<lambda>p. p\<lparr>recalculate_flag := recalculate_flag p AND NOT PREP_FLAG_DECEL_OVERRIDE\<rparr>) s)
      else upd_prep (\<lambda>p. p\<lparr>current_speed := f_sqrt (entry_speed_sqr b)\<rparr>) s)"

definition load_block_laser :: "u8 \<Rightarrow> plan_block_t \<Rightarrow> stepper_t \<Rightarrow> stepper_t" where
  "load_block_laser flags b s =
     (if flags AND BITFLAG_LASER_MODE \<noteq> 0 \<and> condition b AND PL_COND_FLAG_SPINDLE_CCW \<noteq> 0
      then (let j = st_prep_block s; s = upd_prep (\<lambda>p. p\<lparr>pr_inv_rate := f_div (f_of_int 1) (programmed_rate b)\<rparr>) s
            in s\<lparr>st_block_buffer := (st_block_buffer s)[unat j :=
                   (st_block_buffer s ! unat j)\<lparr>is_pwm_rate_adjusted := True\<rparr>]\<rparr>)
      else s)"

definition prep_load_block :: "u8 \<Rightarrow> machine \<Rightarrow> machine" where
  "prep_load_block i m =
     (let b = blk (mot m) i;
          s = load_block_data b (mot m);
          s = load_block_speed (sys_step_control (sys m)) i b s
      in m\<lparr>mot := load_block_laser (settings_flags (mset m)) b s\<rparr>)"

section \<open>The velocity profile\<close>

definition half_inv_accel :: "plan_block_t \<Rightarrow> f32" where
  "half_inv_accel b = f_div (f_of_rat (1/2)) (pb_acceleration b)"

text \<open>Forced deceleration to a stop, in this block or through all of it.\<close>

definition profile_hold :: "plan_block_t \<Rightarrow> st_prep_t \<Rightarrow> st_prep_t" where
  "profile_hold b p =
     (let p = p\<lparr>ramp_type := RAMP_DECEL\<rparr>;
          decel_dist = f_sub (millimeters b) (f_mul (half_inv_accel b) (entry_speed_sqr b))
      in if f_lt decel_dist f_zero
         then p\<lparr>exit_speed := f_sqrt (f_sub (entry_speed_sqr b) (accel_term b))\<rparr>
         else p\<lparr>mm_complete := decel_dist, exit_speed := f_zero\<rparr>)"

text \<open>The profile between the entry speed and the exit speed of the plan.\<close>

definition profile_normal :: "f32 \<Rightarrow> f32 \<Rightarrow> plan_block_t \<Rightarrow> st_prep_t \<Rightarrow> st_prep_t" where
  "profile_normal nominal_speed exit_speed_sqr b p =
     (let h = half_inv_accel b; mm = millimeters b;
          nominal_speed_sqr = f_mul nominal_speed nominal_speed;
          intersect_distance = f_mul (f_of_rat (1/2))
             (f_add mm (f_mul h (f_sub (entry_speed_sqr b) exit_speed_sqr)))
      in if f_lt nominal_speed_sqr (entry_speed_sqr b) then
           (let p = p\<lparr>accelerate_until := f_sub mm (f_mul h (f_sub (entry_speed_sqr b) nominal_speed_sqr))\<rparr>
            in if f_le (accelerate_until p) f_zero
               then p\<lparr>ramp_type := RAMP_DECEL,
                      exit_speed := f_sqrt (f_sub (entry_speed_sqr b) (accel_term b)),
                      recalculate_flag := recalculate_flag p OR PREP_FLAG_DECEL_OVERRIDE\<rparr>
               else p\<lparr>decelerate_after := f_mul h (f_sub nominal_speed_sqr exit_speed_sqr),
                      maximum_speed := nominal_speed, ramp_type := RAMP_DECEL_OVERRIDE\<rparr>)
         else if f_lt f_zero intersect_distance then
           (if f_lt intersect_distance mm then
              (let p = p\<lparr>decelerate_after := f_mul h (f_sub nominal_speed_sqr exit_speed_sqr)\<rparr>
               in if f_lt (decelerate_after p) intersect_distance then
                    (let p = p\<lparr>maximum_speed := nominal_speed\<rparr>
                     in if f_eq (entry_speed_sqr b) nominal_speed_sqr then p\<lparr>ramp_type := RAMP_CRUISE\<rparr>
                        else p\<lparr>accelerate_until := f_sub (accelerate_until p)
                                  (f_mul h (f_sub nominal_speed_sqr (entry_speed_sqr b)))\<rparr>)
                  else p\<lparr>accelerate_until := intersect_distance, decelerate_after := intersect_distance,
                         maximum_speed := f_sqrt (f_add (f_mul (f_mul (f_of_int 2) (pb_acceleration b)) intersect_distance)
                                                        exit_speed_sqr)\<rparr>)
            else p\<lparr>ramp_type := RAMP_DECEL\<rparr>)
         else p\<lparr>accelerate_until := f_zero, maximum_speed := exit_speed p\<rparr>)"

definition prep_velocity_profile :: "u8 \<Rightarrow> machine \<Rightarrow> machine" where
  "prep_velocity_profile i m =
     (let s = upd_prep (\<lambda>p. p\<lparr>mm_complete := f_zero\<rparr>) (mot m); b = blk s i;
          s = (if sys_step_control (sys m) AND STEP_CONTROL_EXECUTE_HOLD \<noteq> 0
               then upd_prep (profile_hold b) s
               else (let s = upd_prep (\<lambda>p. p\<lparr>ramp_type := RAMP_ACCEL, accelerate_until := millimeters b\<rparr>) s;
                         exit_speed_sqr = (if sys_step_control (sys m) AND STEP_CONTROL_EXECUTE_SYS_MOTION \<noteq> 0
                                           then f_zero else plan_get_exec_block_exit_speed_sqr s);
                         s = upd_prep (\<lambda>p. p\<lparr>exit_speed :=
                               (if sys_step_control (sys m) AND STEP_CONTROL_EXECUTE_SYS_MOTION \<noteq> 0
                                then f_zero else f_sqrt exit_speed_sqr)\<rparr>) s
                     in upd_prep (profile_normal (plan_compute_profile_nominal_speed (sys m) b) exit_speed_sqr b) s))
      in m\<lparr>mot := s,
           sys := (sys m)\<lparr>sys_step_control := bit_true (sys_step_control (sys m)) STEP_CONTROL_UPDATE_SPINDLE_PWM\<rparr>\<rparr>)"

text \<open>Choosing the block to prepare; \<open>None\<close> when the planner has none.\<close>

definition prep_select_block :: "machine \<Rightarrow> machine option" where
  "prep_select_block m =
     (if pl_block (mot m) \<noteq> None then Some m
      else (case (if sys_step_control (sys m) AND STEP_CONTROL_EXECUTE_SYS_MOTION \<noteq> 0
                  then Some (plan_get_system_motion_block (mot m)) else plan_get_current_block (mot m)) of
              None \<Rightarrow> None
            | Some i \<Rightarrow>
                (let m = on_mot (\<lambda>s. s\<lparr>pl_block := Some i\<rparr>) m;
                     m = (if recalculate_flag (prep (mot m)) AND PREP_FLAG_RECALCULATE \<noteq> 0
                          then on_mot (upd_prep (\<lambda>p. p\<lparr>recalculate_flag := 0\<rparr>)) m
                          else prep_load_block i m)
                 in Some (prep_velocity_profile i m))))"

section \<open>One segment time\<close>

text \<open>One pass of the loop: the ramp state, the distance left and the time it takes.\<close>

definition ramp_decel_override :: "plan_block_t \<Rightarrow> st_prep_t \<Rightarrow> f32 \<Rightarrow> f32 \<Rightarrow> st_prep_t \<times> f32 \<times> f32" where
  "ramp_decel_override b p mm_remaining time_var =
     (let speed_var = f_mul (pb_acceleration b) time_var in
      if f_le (f_sub (current_speed p) (maximum_speed p)) speed_var then
        (let mm_remaining = accelerate_until p;
             time_var = f_div (f_mul (f_of_int 2) (f_sub (millimeters b) mm_remaining))
                              (f_add (current_speed p) (maximum_speed p))
         in (p\<lparr>ramp_type := RAMP_CRUISE, current_speed := maximum_speed p\<rparr>, mm_remaining, time_var))
      else (p\<lparr>current_speed := f_sub (current_speed p) speed_var\<rparr>,
            f_sub mm_remaining (f_mul time_var (f_sub (current_speed p) (f_mul (f_of_rat (1/2)) speed_var))),
            time_var))"

definition ramp_accel :: "plan_block_t \<Rightarrow> st_prep_t \<Rightarrow> f32 \<Rightarrow> f32 \<Rightarrow> st_prep_t \<times> f32 \<times> f32" where
  "ramp_accel b p mm_remaining time_var =
     (let speed_var = f_mul (pb_acceleration b) time_var;
          mm_remaining = f_sub mm_remaining
            (f_mul time_var (f_add (current_speed p) (f_mul (f_of_rat (1/2)) speed_var)))
      in if f_lt mm_remaining (accelerate_until p) then
           (let mm_remaining = accelerate_until p;
                time_var = f_div (f_mul (f_of_int 2) (f_sub (millimeters b) mm_remaining))
                                 (f_add (current_speed p) (maximum_speed p));
                p = (if f_eq mm_remaining (decelerate_after p) then p\<lparr>ramp_type := RAMP_DECEL\<rparr>
                     else p\<lparr>ramp_type := RAMP_CRUISE\<rparr>)
            in (p\<lparr>current_speed := maximum_speed p\<rparr>, mm_remaining, time_var))
         else (p\<lparr>current_speed := f_add (current_speed p) speed_var\<rparr>, mm_remaining, time_var))"

definition ramp_cruise :: "st_prep_t \<Rightarrow> f32 \<Rightarrow> f32 \<Rightarrow> st_prep_t \<times> f32 \<times> f32" where
  "ramp_cruise p mm_remaining time_var =
     (let mm_var = f_sub mm_remaining (f_mul (maximum_speed p) time_var) in
      if f_lt mm_var (decelerate_after p)
      then (p\<lparr>ramp_type := RAMP_DECEL\<rparr>, decelerate_after p,
            f_div (f_sub mm_remaining (decelerate_after p)) (maximum_speed p))
      else (p, mm_var, time_var))"

definition ramp_decel :: "plan_block_t \<Rightarrow> st_prep_t \<Rightarrow> f32 \<Rightarrow> f32 \<Rightarrow> st_prep_t \<times> f32 \<times> f32" where
  "ramp_decel b p mm_remaining time_var =
     (let speed_var = f_mul (pb_acceleration b) time_var;
          mm_var = f_sub mm_remaining
            (f_mul time_var (f_sub (current_speed p) (f_mul (f_of_rat (1/2)) speed_var)))
      in if f_lt speed_var (current_speed p) \<and> f_lt (mm_complete p) mm_var
         then (p\<lparr>current_speed := f_sub (current_speed p) speed_var\<rparr>, mm_var, time_var)
         else (p\<lparr>current_speed := exit_speed p\<rparr>, mm_complete p,
               f_div (f_mul (f_of_int 2) (f_sub mm_remaining (mm_complete p)))
                     (f_add (current_speed p) (exit_speed p))))"

definition ramp_step :: "plan_block_t \<Rightarrow> st_prep_t \<Rightarrow> f32 \<Rightarrow> f32 \<Rightarrow> st_prep_t \<times> f32 \<times> f32" where
  "ramp_step b p mm_remaining time_var =
     (if ramp_type p = RAMP_DECEL_OVERRIDE then ramp_decel_override b p mm_remaining time_var
      else if ramp_type p = RAMP_ACCEL then ramp_accel b p mm_remaining time_var
      else if ramp_type p = RAMP_CRUISE then ramp_cruise p mm_remaining time_var
      else ramp_decel b p mm_remaining time_var)"

partial_function (option) ramp_loop ::
    "plan_block_t \<Rightarrow> f32 \<Rightarrow> st_prep_t \<Rightarrow> f32 \<Rightarrow> f32 \<Rightarrow> f32 \<Rightarrow> f32 \<Rightarrow> (st_prep_t \<times> f32 \<times> f32) option" where
  "ramp_loop b minimum_mm p mm_remaining time_var dt dt_max =
     (let (p, mm_remaining, time_var) = ramp_step b p mm_remaining time_var;
          dt = f_add dt time_var
      in if f_lt dt dt_max then
           (if f_lt (mm_complete p) mm_remaining
            then ramp_loop b minimum_mm p mm_remaining (f_sub dt_max dt) dt dt_max
            else Some (p, mm_remaining, dt))
         else if f_lt minimum_mm mm_remaining then
           (let dt_max = f_add dt_max DT_SEGMENT
            in if f_lt (mm_complete p) mm_remaining
               then ramp_loop b minimum_mm p mm_remaining (f_sub dt_max dt) dt dt_max
               else Some (p, mm_remaining, dt))
         else Some (p, mm_remaining, dt))"

section \<open>The segment\<close>

text \<open>The spindle output of the segment.\<close>

definition prep_spindle :: "plan_block_t \<Rightarrow> machine \<Rightarrow> machine" where
  "prep_spindle b m =
     (let adjusted = is_pwm_rate_adjusted (st_block_buffer (mot m) ! unat (st_prep_block (mot m))) in
      if adjusted \<or> sys_step_control (sys m) AND STEP_CONTROL_UPDATE_SPINDLE_PWM \<noteq> 0 then
        (let m = (if condition b AND (PL_COND_FLAG_SPINDLE_CW OR PL_COND_FLAG_SPINDLE_CCW) \<noteq> 0 then
                    (let rpm = pb_spindle_speed b;
                         rpm = (if adjusted
                                then f_mul rpm (f_mul (current_speed (prep (mot m))) (pr_inv_rate (prep (mot m))))
                                else rpm);
                         (pwm, sy) = spindle_compute_pwm_value (mset m) (pwm_gradient (spin m)) rpm (sys m)
                     in on_mot (upd_prep (\<lambda>p. p\<lparr>current_spindle_pwm := pwm\<rparr>)) (m\<lparr>sys := sy\<rparr>))
                  else on_mot (upd_prep (\<lambda>p. p\<lparr>current_spindle_pwm := SPINDLE_PWM_OFF_VALUE\<rparr>))
                         (on_sys (\<lambda>y. y\<lparr>sys_spindle_speed := f_zero\<rparr>) m))
         in on_sys (\<lambda>y. y\<lparr>sys_step_control := bit_false (sys_step_control y) STEP_CONTROL_UPDATE_SPINDLE_PWM\<rparr>) m)
      else m)"

text \<open>Smoothing level and timer period for a number of processor cycles per step.\<close>

definition segment_rate :: "u32 \<Rightarrow> segment_t \<Rightarrow> segment_t" where
  "segment_rate cycles sg =
     (let (cycles, sg) =
            (if cycles < AMASS_LEVEL1 then (cycles, sg\<lparr>amass_level := 0\<rparr>)
             else (let sg = (if cycles < AMASS_LEVEL2 then sg\<lparr>amass_level := 1\<rparr>
                             else if cycles < AMASS_LEVEL3 then sg\<lparr>amass_level := 2\<rparr>
                             else sg\<lparr>amass_level := 3\<rparr>)
                   in (drop_bit (unat (amass_level sg)) cycles,
                       sg\<lparr>n_step := push_bit (unat (amass_level sg)) (n_step sg)\<rparr>)))
      in if cycles < 65536 then sg\<lparr>cycles_per_tick := ucast cycles\<rparr> else sg\<lparr>cycles_per_tick := 0xffff\<rparr>)"

definition cycles_per_minute :: f32 where
  "cycles_per_minute = f_of_int (TICKS_PER_MICROSECOND * 1000000 * 60)"

text \<open>The end of the block, or of the forced deceleration in it; the flag tells to go on.\<close>

definition prep_block_end :: "u8 \<Rightarrow> machine \<Rightarrow> bool \<times> machine" where
  "prep_block_end i m =
     (let mm_remaining = millimeters (blk (mot m) i);
          end_motion = on_sys (\<lambda>y. y\<lparr>sys_step_control := bit_true (sys_step_control y) STEP_CONTROL_END_MOTION\<rparr>)
      in if f_eq mm_remaining (mm_complete (prep (mot m))) then
           (if f_lt f_zero mm_remaining then (False, end_motion m)
            else if sys_step_control (sys m) AND STEP_CONTROL_EXECUTE_SYS_MOTION \<noteq> 0 then (False, end_motion m)
            else (True, on_mot (\<lambda>s. plan_discard_current_block (s\<lparr>pl_block := None\<rparr>)) m))
         else (True, m))"

text \<open>
  Steps and rate of the segment: \<open>mm_remaining\<close> is the distance left after it and \<open>dt\<close> its
  time. A segment without a step at the end of a feed hold is not queued.
\<close>

definition prep_queue_segment :: "u8 \<Rightarrow> f32 \<Rightarrow> f32 \<Rightarrow> segment_t \<Rightarrow> machine \<Rightarrow> bool \<times> machine" where
  "prep_queue_segment i mm_remaining dt sg m =
     (let s = mot m; p = prep s;
          store = (\<lambda>sg s. s\<lparr>segment_buffer := (segment_buffer s)[unat (segment_buffer_head s) := sg]\<rparr>);
          step_dist_remaining = f_mul (step_per_mm p) mm_remaining;
          n_steps_remaining = f_ceil step_dist_remaining;
          last_n_steps_remaining = f_ceil (steps_remaining p);
          sg = sg\<lparr>n_step := word_of_int (f_to_int (f_sub last_n_steps_remaining n_steps_remaining))\<rparr>
      in if n_step sg = 0 \<and> sys_step_control (sys m) AND STEP_CONTROL_EXECUTE_HOLD \<noteq> 0
         then (False, on_sys (\<lambda>y. y\<lparr>sys_step_control := bit_true (sys_step_control y) STEP_CONTROL_END_MOTION\<rparr>)
                        (on_mot (store sg) m))
         else (let dt = f_add dt (dt_remainder p);
                   inv_rate = f_div dt (f_sub last_n_steps_remaining step_dist_remaining);
                   cycles = word_of_int (f_to_int (f_ceil (f_mul cycles_per_minute inv_rate)));
                   sg = segment_rate cycles sg;
                   s = store sg s;
                   s = s\<lparr>segment_buffer_head := segment_next_head s,
                         segment_next_head := next_segment_index (segment_next_head s)\<rparr>;
                   s = upd_blk i (\<lambda>b. b\<lparr>millimeters := mm_remaining\<rparr>) s;
                   s = upd_prep (\<lambda>p. p\<lparr>steps_remaining := n_steps_remaining,
                         dt_remainder := f_mul (f_sub n_steps_remaining step_dist_remaining) inv_rate\<rparr>) s
               in prep_block_end i (m\<lparr>mot := s\<rparr>)))"

definition prep_segment :: "u8 \<Rightarrow> machine \<Rightarrow> (bool \<times> machine) option" where
  "prep_segment i m =
     (let s = mot m; b = blk s i; mm_remaining = millimeters b;
          minimum_mm = f_sub mm_remaining (req_mm_increment (prep s));
          minimum_mm = (if f_lt minimum_mm f_zero then f_zero else minimum_mm)
      in case ramp_loop b minimum_mm (prep s) mm_remaining DT_SEGMENT f_zero DT_SEGMENT of
           None \<Rightarrow> None
         | Some (p, mm_remaining, dt) \<Rightarrow>
             (let sg = (segment_buffer s ! unat (segment_buffer_head s))\<lparr>sg_st_block_index := pr_st_block_index p\<rparr>;
                  m = prep_spindle b (m\<lparr>mot := s\<lparr>prep := p\<rparr>\<rparr>);
                  sg = sg\<lparr>sg_spindle_pwm := current_spindle_pwm (prep (mot m))\<rparr>
              in Some (prep_queue_segment i mm_remaining dt sg m)))"

text \<open>One pass of the outer loop, and the loop: a pass queues a segment or returns.\<close>

definition prep_pass :: "machine \<Rightarrow> (bool \<times> machine) option" where
  "prep_pass m =
     (case prep_select_block m of None \<Rightarrow> Some (False, m)
      | Some m \<Rightarrow> prep_segment (the (pl_block (mot m))) m)"

fun prep_passes :: "nat \<Rightarrow> machine \<Rightarrow> machine option" where
  "prep_passes 0 m = Some m"
| "prep_passes (Suc n) m =
     (if segment_buffer_tail (mot m) \<noteq> segment_next_head (mot m)
      then (case prep_pass m of None \<Rightarrow> None
            | Some (continue, m) \<Rightarrow> if continue then prep_passes n m else Some m)
      else Some m)"

definition st_prep_buffer :: "machine \<Rightarrow> machine option" where
  "st_prep_buffer m =
     (if bit_istrue (sys_step_control (sys m)) STEP_CONTROL_END_MOTION then Some m
      else prep_passes SEGMENT_BUFFER_SIZE m)"

end
