(* ===== verification/Stepper_Plan.thy ===== *)
theory Stepper_Plan
  imports Stepper_Prep Planner_Feasible
begin

text \<open>
  The planner and the stepper together: the stepper's \<open>st_update_plan_block_parameters\<close> keeps
  the contract the look-ahead expects of its callback, and so the plan stays feasible over every
  sequence of planned lines, advances of the stepper in the tail block, and finished blocks.
\<close>

section \<open>The callback\<close>

definition st_good :: "stepper_t \<Rightarrow> bool" where
  "st_good s \<longleftrightarrow> (pl_block s = None \<or> pl_block s = Some (block_buffer_tail s)) \<and> current_speed (prep s) \<noteq> FNaN"

lemma f_nn_square: "x \<noteq> FNaN \<Longrightarrow> f_nn (f_mul x x)"
  by (cases x) (simp_all add: f_nn_mk)

lemma st_good_cong:
  assumes "st_good s" and "block_buffer_tail s' = block_buffer_tail s"
    and "planner_t.more s' = planner_t.more s"
  shows "st_good s'"
  using assms by (cases s; cases s') (simp add: st_good_def)

interpretation st_cb: plan_callback st_update_plan_block_parameters st_good
proof unfold_locales
  fix s assume g: "st_good s"
  show "block_buffer_tail (st_update_plan_block_parameters s) = block_buffer_tail s
      \<and> block_buffer_head (st_update_plan_block_parameters s) = block_buffer_head s
      \<and> next_buffer_head (st_update_plan_block_parameters s) = next_buffer_head s
      \<and> block_buffer_planned (st_update_plan_block_parameters s) = block_buffer_planned s"
    by (simp add: st_update_plan_block_parameters_def Let_def upd_blk_def split: option.split)
  show "block_buffer (st_update_plan_block_parameters s) = block_buffer s
      \<or> (\<exists>x. f_nn x \<and> block_buffer (st_update_plan_block_parameters s)
            = block_buffer (upd_blk (block_buffer_tail s) (\<lambda>b. b\<lparr>entry_speed_sqr := x\<rparr>) s))"
  proof (cases "pl_block s")
    case (Some i)
    then have i: "i = block_buffer_tail s" "current_speed (prep s) \<noteq> FNaN" using g by (simp_all add: st_good_def)
    have "block_buffer (st_update_plan_block_parameters s) = block_buffer (upd_blk (block_buffer_tail s)
        (\<lambda>b. b\<lparr>entry_speed_sqr := f_mul (current_speed (prep s)) (current_speed (prep s))\<rparr>) s)"
      by (simp add: st_update_plan_block_parameters_def Let_def upd_blk_def blk_def Some i(1))
    then show ?thesis using f_nn_square [OF i(2)] by blast
  qed (simp add: st_update_plan_block_parameters_def)
  show "st_good (st_update_plan_block_parameters s)"
    using g by (simp add: st_good_def st_update_plan_block_parameters_def Let_def upd_blk_def split: option.split)
qed (rule st_good_cong)

section \<open>The callback's condition survives planning\<close>

context plan_callback
begin

lemma good_planned: "good s \<Longrightarrow> good (s\<lparr>block_buffer_planned := x\<rparr>)"
  by (erule good_cong) simp_all

lemma good_reverse_pass: "good s \<Longrightarrow> good (reverse_pass upd n i c s)"
  by (induction n arbitrary: i c s) (simp_all add: Let_def good_upd good_upd_blk)

lemma good_forward_pass: "good s \<Longrightarrow> good (forward_pass n i c s)"
  by (induction n arbitrary: i c s) (simp_all add: Let_def good_planned good_upd_blk)

lemma good_recalculate: "good s \<Longrightarrow> good (planner_recalculate upd s)"
  by (simp add: planner_recalculate_def Let_def good_forward_pass good_reverse_pass good_upd good_upd_blk)

lemma good_buffer_line:
  assumes "good s" and "planner_inv s" and "\<not> plan_check_full_buffer s"
    and "plan_buffer_line cf sy position upd target pl_data s = (queued, s')"
  shows "good s'"
proof -
  obtain ts b u where p: "plan_line_steps cf position target pl_data s = (ts, b, u)" by (metis prod_cases3)
  obtain b' u' where l: "plan_line_limits cf pl_data s b u = (b', u')" by (metis surj_pair)
  have "good (plan_push x v w y s)" for x v w y
    using assms(1) plan_push_blocks(3,4) [OF assms(2,3)] by (rule good_cong)
  then show ?thesis
    using assms(1,4) by (auto simp: plan_buffer_line_eq p l good_recalculate good_upd_blk split: if_splits)
qed

end

section \<open>Reachable plans\<close>

inductive plan_reach :: "stepper_t \<Rightarrow> bool" where
  Init: "plan_reach stepper_zero"
| Line: "plan_reach s \<Longrightarrow> \<not> plan_check_full_buffer s \<Longrightarrow>
    blk_ok (plan_line_block cf sy position target pl_data s) \<Longrightarrow>
    plan_buffer_line cf sy position st_update_plan_block_parameters target pl_data s = (queued, s') \<Longrightarrow>
    plan_reach s'"
| Advance: "plan_reach s \<Longrightarrow> plan_blocks s \<noteq> [] \<Longrightarrow> blk_ok b \<Longrightarrow> current_speed p \<noteq> FNaN \<Longrightarrow>
    plan_reach ((upd_blk (block_buffer_tail s) (\<lambda>_. b) s)\<lparr>pl_block := Some (block_buffer_tail s), prep := p\<rparr>)"
| Finish: "plan_reach s \<Longrightarrow> plan_reach (plan_discard_current_block (s\<lparr>pl_block := None\<rparr>))"

lemma plan_discard_fields:
  "block_buffer (plan_discard_current_block s) = block_buffer s"
  "pl_block (plan_discard_current_block s) = pl_block s" "prep (plan_discard_current_block s) = prep s"
  by (simp_all add: plan_discard_current_block_def Let_def)

lemma plan_blocks_more:
  "plan_blocks (s\<lparr>pl_block := x, prep := p\<rparr>) = plan_blocks s" "plan_blocks (s\<lparr>pl_block := x\<rparr>) = plan_blocks s"
  "planner_inv (s\<lparr>pl_block := x, prep := p\<rparr>) = planner_inv s" "planner_inv (s\<lparr>pl_block := x\<rparr>) = planner_inv s"
  by (simp_all add: plan_blocks_def planner_inv_def)

lemma plan_reach_ok: "plan_reach s \<Longrightarrow> planner_inv s \<and> st_good s \<and> plan_ok (plan_blocks s)"
proof (induction rule: plan_reach.induct)
  case Init
  show ?case
    by (simp add: planner_inv_def stepper_zero_def st_good_def plan_blocks_def ring_list_def ring_used_def
        st_prep_zero_def plan_next_block_index_def Let_def BLOCK_BUFFER_SIZE_def)
next
  case (Line s cf sy position target pl_data queued s')
  then have s: "planner_inv s" "st_good s" "plan_ok (plan_blocks s)" by simp_all
  show ?case
    using st_cb.plan_buffer_line_keeps [OF s(2,1,3) Line.hyps(2,3,4)]
      st_cb.good_buffer_line [OF s(2,1) Line.hyps(2,4)] by simp
next
  case (Advance s b p)
  then have s: "planner_inv s" "plan_ok (plan_blocks s)" by simp_all
  obtain c cs where c: "plan_blocks s = c # cs" using Advance.hyps(2) by (cases "plan_blocks s") auto
  have "plan_blocks (upd_blk (block_buffer_tail s) (\<lambda>_. b) s) = b # cs"
    using plan_blocks_upd [OF s(1) c, of 0] s(1) c by (simp add: slot_def planner_inv_def)
  then show ?case
    using s c Advance.hyps(3,4) by (simp add: plan_blocks_more) (simp add: st_good_def upd_blk_def)
next
  case (Finish s)
  then have s: "planner_inv s" "st_good s" "plan_ok (plan_blocks s)" by simp_all
  have i: "planner_inv (s\<lparr>pl_block := None\<rparr>)" using s(1) by (simp add: plan_blocks_more)
  show ?case
    using plan_discard_blocks [OF i] s(2,3) plan_ok_tl
    by (simp add: plan_blocks_more st_good_def plan_discard_fields)
qed

section \<open>Properties\<close>


text \<open>A first line of one millimetre along the third axis, evaluated in parts.\<close>

abbreviation z_target :: vec where
  "z_target \<equiv> [f_zero, f_zero, FFin False 1]"

definition z_line :: plan_line_data_t where
  "z_line = plan_line_data_zero\<lparr>pd_feed_rate := FFin False 100\<rparr>"

lemma z_line_steps: "plan_line_steps default_settings [0, 0, 0] z_target z_line stepper_zero
    = ([0, 0, 250], plan_block_zero\<lparr>steps := [0, 0, 250], step_event_count := 250\<rparr>, z_target)"
  by code_simp

lemma z_vector: "convert_delta_vector_to_unit_vector z_target = (FFin False 1, z_target)"
  by code_simp

lemma z_limit_loop: "f_min SOME_LARGE_VALUE (FFin False 36000) = FFin False 36000"
  "f_min SOME_LARGE_VALUE (FFin False 500) = FFin False 500"
  "f_abs (f_div (f_of_int 36000) (FFin False 1)) = FFin False 36000"
  "f_abs (f_div (f_of_int 500) (FFin False 1)) = FFin False 500"
  by code_simp+

lemma z_limits:
  "limit_value_by_axis_maximum (acceleration default_settings) z_target = FFin False 36000"
  "limit_value_by_axis_maximum (max_rate default_settings) z_target = FFin False 500"
  by (simp_all add: limit_value_by_axis_maximum_def default_settings_def N_AXIS_def numeral_3_eq_3
      z_limit_loop del: f_abs.simps f_div.simps)

lemma z_accel: "f_mul (f_mul (f_of_int 2) (FFin False 36000)) (FFin False 1) = FFin False 72000"
  by code_simp

text \<open>Its block, and the state with the line planned; the feed override is at 100 percent.\<close>

definition z_block :: plan_block_t where
  "z_block = plan_block_zero\<lparr>steps := [0, 0, 250], step_event_count := 250, millimeters := FFin False 1,
     pb_acceleration := FFin False 36000, rapid_rate := FFin False 500, programmed_rate := FFin False 100\<rparr>"

definition z_sys :: system_t where
  "z_sys = sys_zero\<lparr>sys_f_override := 100, sys_r_override := 100\<rparr>"

lemma z_nominal: "f_lt f_zero (plan_compute_profile_nominal_speed z_sys z_block)"
  "f_lt (plan_compute_profile_nominal_speed z_sys z_block) (plan_compute_profile_nominal_speed z_sys z_block) = False"
  "f_lt SOME_LARGE_VALUE (f_mul (plan_compute_profile_nominal_speed z_sys z_block)
      (plan_compute_profile_nominal_speed z_sys z_block)) = False"
  "plan_compute_profile_nominal_speed z_sys (z_block\<lparr>max_junction_speed_sqr := SOME_LARGE_VALUE\<rparr>)
    = plan_compute_profile_nominal_speed z_sys z_block"
  "plan_compute_profile_nominal_speed z_sys z_block \<noteq> FNaN"
  by code_simp+

lemma mk_f32_0 [simp]: "mk_f32 s 0 = FFin s 0"
  by (simp add: mk_f32_repr)

lemma z_line_block: "plan_line_block default_settings z_sys [0, 0, 0] z_target z_line stepper_zero = z_block"
  using z_nominal(1)
  by (simp add: plan_line_block_def z_line_steps plan_line_limits_def z_vector z_limits plan_compute_profile_parameters_def
        z_block_def)
     (simp add: plan_block_zero_def z_line_def plan_line_data_zero_def stepper_zero_def)

definition z_planned :: stepper_t where
  "z_planned = plan_push z_block (plan_compute_profile_nominal_speed z_sys z_block) z_target [0, 0, 250] stepper_zero"

lemma z_plan_line:
  "plan_buffer_line default_settings z_sys [0, 0, 0] st_update_plan_block_parameters z_target z_line stepper_zero
     = (True, z_planned)"
proof -
  have l: "plan_line_limits default_settings z_line stepper_zero (plan_block_zero\<lparr>steps := [0, 0, 250], step_event_count := 250\<rparr>) z_target
      = (z_block, z_target)"
    by (simp add: plan_line_limits_def z_vector z_limits z_block_def)
       (simp add: plan_block_zero_def z_line_def plan_line_data_zero_def stepper_zero_def)
  have r: "planner_recalculate st_update_plan_block_parameters z_planned = z_planned"
    by (simp add: planner_recalculate_def z_planned_def plan_push_def Let_def upd_blk_def stepper_zero_def
        plan_prev_block_index_def)
  have "pd_condition z_line = 0" by (simp add: z_line_def plan_line_data_zero_def)
  then show ?thesis
    by (simp add: st_cb.plan_buffer_line_eq z_line_steps l z_line_block r flip: z_planned_def)
qed

text \<open>A second line, one millimetre further.\<close>

abbreviation z_target2 :: vec where
  "z_target2 \<equiv> [f_zero, f_zero, FFin False 2]"

definition z_block2 :: plan_block_t where
  "z_block2 = z_block\<lparr>max_junction_speed_sqr := SOME_LARGE_VALUE, max_entry_speed_sqr :=
     f_mul (plan_compute_profile_nominal_speed z_sys z_block) (plan_compute_profile_nominal_speed z_sys z_block)\<rparr>"

lemma plan_line_steps_position:
  "pl_position s = pl_position s' \<Longrightarrow> plan_line_steps cf pos target pl_data s = plan_line_steps cf pos target pl_data s'"
  by (simp add: plan_line_steps_def)

lemma z_line_steps2: "plan_line_steps default_settings [0, 0, 0] z_target2 z_line z_planned
    = ([0, 0, 500], plan_block_zero\<lparr>steps := [0, 0, 250], step_event_count := 250\<rparr>, z_target)"
proof -
  have "plan_line_steps default_settings [0, 0, 0] z_target2 z_line (stepper_zero\<lparr>pl_position := [0, 0, 250]\<rparr>)
    = ([0, 0, 500], plan_block_zero\<lparr>steps := [0, 0, 250], step_event_count := 250\<rparr>, z_target)"
    by code_simp
  then show ?thesis
    by (subst plan_line_steps_position [where s' = "stepper_zero\<lparr>pl_position := [0, 0, 250]\<rparr>"])
       (simp_all add: z_planned_def plan_push_def Let_def)
qed

lemma z_junction: "junction_speed_sqr default_settings z_target z_target = SOME_LARGE_VALUE"
  by code_simp

lemma z_planned_fields:
  "block_buffer_head z_planned = 1" "block_buffer_tail z_planned = 0" "pl_previous_unit_vec z_planned = z_target"
  "pl_previous_nominal_speed z_planned = plan_compute_profile_nominal_speed z_sys z_block"
  "next_buffer_head z_planned = 2"
  by (simp_all add: z_planned_def plan_push_def Let_def upd_blk_def stepper_zero_def plan_next_block_index_def
      BLOCK_BUFFER_SIZE_def)

lemma z_line_block2: "plan_line_block default_settings z_sys [0, 0, 0] z_target2 z_line z_planned = z_block2"
proof -
  have l: "plan_line_limits default_settings z_line z_planned (plan_block_zero\<lparr>steps := [0, 0, 250], step_event_count := 250\<rparr>) z_target
      = (z_block\<lparr>max_junction_speed_sqr := SOME_LARGE_VALUE\<rparr>, z_target)"
    by (simp add: plan_line_limits_def z_vector z_limits z_block_def z_planned_fields z_junction)
       (simp add: plan_block_zero_def z_line_def plan_line_data_zero_def z_planned_fields z_junction)
  show ?thesis
    by (simp add: plan_line_block_def z_line_steps2 l plan_compute_profile_parameters_def z_planned_fields z_nominal
        z_block2_def)
qed

lemma z_block_ok: "blk_ok z_block" "blk_ok z_block2"
proof -
  have "f_nn (FFin False 72000)" using f_repr_int [of 72000] int_le_f_max [of 72000] by simp
  then have a: "f_nn (accel_term z_block)" "accel_term z_block2 = accel_term z_block"
    by (simp_all add: accel_term_def z_block_def z_block2_def z_accel del: f_mul.simps)
  show "blk_ok z_block" using a by (simp add: blk_ok_def) (simp add: z_block_def plan_block_zero_def)
  show "blk_ok z_block2" using a f_nn_square [OF z_nominal(5)]
    by (simp add: blk_ok_def) (simp add: z_block2_def, simp add: z_block_def plan_block_zero_def)
qed


end
