(* ===== verification/Stepper_Bounds.thy ===== *)
theory Stepper_Bounds
  imports Stepper_Prep Planner_Lookahead
begin

text \<open>
  Every index the planner and the stepper keep stays inside its ring, and every array they
  point to keeps its size, so no routine of the two files reads or writes outside its buffers.
\<close>

section \<open>The invariant\<close>

definition st_block_wf :: "st_block_t \<Rightarrow> bool" where
  "st_block_wf b \<longleftrightarrow> length (sb_steps b) = N_AXIS"

definition plan_block_wf :: "plan_block_t \<Rightarrow> bool" where
  "plan_block_wf b \<longleftrightarrow> length (steps b) = N_AXIS"

definition segment_wf :: "segment_t \<Rightarrow> bool" where
  "segment_wf g \<longleftrightarrow> unat (sg_st_block_index g) < SEGMENT_BUFFER_SIZE - 1 \<and> unat (amass_level g) \<le> MAX_AMASS_LEVEL"

definition plan_wf :: "'a planner_t_scheme \<Rightarrow> bool" where
  "plan_wf s \<longleftrightarrow> length (block_buffer s) = BLOCK_BUFFER_SIZE \<and> list_all plan_block_wf (block_buffer s) \<and>
     unat (block_buffer_tail s) < BLOCK_BUFFER_SIZE \<and> unat (block_buffer_head s) < BLOCK_BUFFER_SIZE \<and>
     next_buffer_head s = plan_next_block_index (block_buffer_head s) \<and>
     unat (block_buffer_planned s) < BLOCK_BUFFER_SIZE \<and>
     length (pl_position s) = N_AXIS \<and> length (pl_previous_unit_vec s) = N_AXIS"

definition seg_wf :: "stepper_t \<Rightarrow> bool" where
  "seg_wf s \<longleftrightarrow> length (segment_buffer s) = SEGMENT_BUFFER_SIZE \<and> list_all segment_wf (segment_buffer s) \<and>
     length (st_block_buffer s) = SEGMENT_BUFFER_SIZE - 1 \<and> list_all st_block_wf (st_block_buffer s) \<and>
     unat (segment_buffer_tail s) < SEGMENT_BUFFER_SIZE \<and> unat (segment_buffer_head s) < SEGMENT_BUFFER_SIZE \<and>
     segment_next_head s = next_segment_index (segment_buffer_head s) \<and>
     unat (st_prep_block s) < SEGMENT_BUFFER_SIZE - 1"

text \<open>The two structures that refer to the rings.\<close>

definition exec_wf :: "st_t \<Rightarrow> bool" where
  "exec_wf e \<longleftrightarrow> pred_option (\<lambda>i. unat i < SEGMENT_BUFFER_SIZE - 1) (exec_block e) \<and>
     pred_option (\<lambda>i. unat i < SEGMENT_BUFFER_SIZE) (exec_segment e) \<and> length (st_steps e) = N_AXIS"

definition prep_wf :: "st_prep_t \<Rightarrow> bool" where
  "prep_wf p \<longleftrightarrow> unat (pr_st_block_index p) < SEGMENT_BUFFER_SIZE - 1"

definition mot_wf :: "stepper_t \<Rightarrow> bool" where
  "mot_wf s \<longleftrightarrow> plan_wf s \<and> seg_wf s \<and> exec_wf (st s) \<and> prep_wf (prep s) \<and>
     pred_option (\<lambda>i. unat i < BLOCK_BUFFER_SIZE) (pl_block s)"

lemmas mot_wf_defs = mot_wf_def plan_wf_def seg_wf_def

lemma mot_wf_zero: "mot_wf stepper_zero"
  by (simp add: mot_wf_defs exec_wf_def prep_wf_def stepper_zero_def st_zero_def st_prep_zero_def segment_wf_def
      segment_zero_def st_block_wf_def st_block_zero_def plan_block_wf_def plan_block_zero_def
      plan_next_block_index_def next_segment_index_def list_all_iff grbl_const)

section \<open>Indices\<close>

lemma plan_next_less: "unat i < BLOCK_BUFFER_SIZE \<Longrightarrow> unat (plan_next_block_index i) < BLOCK_BUFFER_SIZE"
  using plan.idx_nxt_less [of i] by (simp add: grbl_const)

lemma plan_prev_less: "unat i < BLOCK_BUFFER_SIZE \<Longrightarrow> unat (plan_prev_block_index i) < BLOCK_BUFFER_SIZE"
  using plan.idx_prv_less [of i] by (simp add: grbl_const)

lemma next_segment_less: "unat i < SEGMENT_BUFFER_SIZE \<Longrightarrow> unat (next_segment_index i) < SEGMENT_BUFFER_SIZE"
  using unat_u8_Suc [of i] by (auto simp: next_segment_index_def grbl_const u8_eq_iff)

lemma st_next_block_less:
  "unat i < SEGMENT_BUFFER_SIZE - 1 \<Longrightarrow> unat (st_next_block_index i) < SEGMENT_BUFFER_SIZE - 1"
  using unat_u8_Suc [of i] by (auto simp: st_next_block_index_def grbl_const u8_eq_iff)

lemma list_all_update: "list_all Q xs \<Longrightarrow> Q x \<Longrightarrow> list_all Q (xs[i := x])"
  unfolding list_all_iff using set_update_subset_insert [of xs i x] by auto

lemma list_all_at: "list_all Q xs \<Longrightarrow> i < length xs \<Longrightarrow> Q (xs ! i)"
  by (simp add: list_all_length)

section \<open>Planner\<close>

lemma plan_wf_upd_blk:
  "plan_wf s \<Longrightarrow> (\<And>b. plan_block_wf b \<Longrightarrow> plan_block_wf (f b)) \<Longrightarrow> unat i < BLOCK_BUFFER_SIZE \<Longrightarrow> plan_wf (upd_blk i f s)"
  by (simp add: plan_wf_def upd_blk_def blk_def list_all_update list_all_at)

lemma mot_wf_upd_blk [intro]:
  "mot_wf s \<Longrightarrow> (\<And>b. plan_block_wf b \<Longrightarrow> plan_block_wf (f b)) \<Longrightarrow> unat i < BLOCK_BUFFER_SIZE \<Longrightarrow> mot_wf (upd_blk i f s)"
  using plan_wf_upd_blk [of s f i] by (auto simp: mot_wf_def seg_wf_def upd_blk_def)

lemma plan_block_wf_upd [simp]:
  "plan_block_wf (b\<lparr>entry_speed_sqr := v\<rparr>) = plan_block_wf b"
  "plan_block_wf (b\<lparr>max_entry_speed_sqr := v\<rparr>) = plan_block_wf b"
  "plan_block_wf (b\<lparr>millimeters := v\<rparr>) = plan_block_wf b"
  "plan_block_wf (reverse_entry e b) = plan_block_wf b"
  "plan_block_wf (plan_compute_profile_parameters b n p) = plan_block_wf b"
  by (simp_all add: plan_block_wf_def reverse_entry_def plan_compute_profile_parameters_def Let_def)

lemma mot_wf_upd_prep [intro]:
  "mot_wf s \<Longrightarrow> (\<And>p. prep_wf p \<Longrightarrow> prep_wf (f p)) \<Longrightarrow> mot_wf (upd_prep f s)"
  by (simp add: mot_wf_defs upd_prep_def)

lemma mot_wf_planned: "mot_wf s \<Longrightarrow> unat i < BLOCK_BUFFER_SIZE \<Longrightarrow> mot_wf (s\<lparr>block_buffer_planned := i\<rparr>)"
  by (simp add: mot_wf_defs)

lemma mot_wf_indices:
  assumes "mot_wf s"
  shows "unat (block_buffer_tail s) < BLOCK_BUFFER_SIZE" "unat (block_buffer_head s) < BLOCK_BUFFER_SIZE"
    "unat (block_buffer_planned s) < BLOCK_BUFFER_SIZE" "next_buffer_head s = plan_next_block_index (block_buffer_head s)"
    "unat (next_buffer_head s) < BLOCK_BUFFER_SIZE"
  using assms plan_next_less [of "block_buffer_head s"] by (simp_all add: mot_wf_defs)

lemma st_update_wf: "mot_wf s \<Longrightarrow> mot_wf (st_update_plan_block_parameters s)"
proof (cases "pl_block s")
  case (Some i)
  assume wf: "mot_wf s"
  let ?s = "s\<lparr>prep := (prep s)\<lparr>recalculate_flag := recalculate_flag (prep s) OR PREP_FLAG_RECALCULATE\<rparr>\<rparr>"
  have "mot_wf ?s" using wf by (simp add: mot_wf_defs prep_wf_def)
  then have "mot_wf (upd_blk i (\<lambda>b. b\<lparr>entry_speed_sqr := f_mul (current_speed (prep ?s)) (current_speed (prep ?s))\<rparr>) ?s)"
    using wf Some by (intro mot_wf_upd_blk) (auto simp: mot_wf_def)
  then show ?thesis by (simp add: st_update_plan_block_parameters_def Some Let_def) (simp add: mot_wf_defs)
qed (simp add: st_update_plan_block_parameters_def)

lemma reverse_pass_wf:
  "mot_wf s \<Longrightarrow> unat block_index < BLOCK_BUFFER_SIZE \<Longrightarrow>
   mot_wf (reverse_pass st_update_plan_block_parameters n block_index current s)"
proof (induction n arbitrary: block_index current s)
  case (Suc n)
  let ?i = "plan_prev_block_index block_index"
  let ?s = "if ?i = block_buffer_tail s then st_update_plan_block_parameters s else s"
  let ?t = "upd_blk block_index (reverse_entry (entry_speed_sqr (blk ?s current))) ?s"
  have "mot_wf ?s" using Suc.prems by (simp add: st_update_wf)
  then have "mot_wf ?t" using Suc.prems by (intro mot_wf_upd_blk) simp_all
  then have "mot_wf (reverse_pass st_update_plan_block_parameters n ?i block_index ?t)"
    by (intro Suc.IH plan_prev_less Suc.prems)
  with Suc.prems(1) show ?case by (simp add: Let_def)
qed simp

lemma forward_pass_wf:
  "mot_wf s \<Longrightarrow> unat block_index < BLOCK_BUFFER_SIZE \<Longrightarrow> mot_wf (forward_pass n block_index nxt s)"
proof (induction n arbitrary: block_index nxt s)
  case (Suc n)
  let ?e = "f_add (entry_speed_sqr (blk s nxt)) (accel_term (blk s nxt))"
  let ?s = "if f_lt (entry_speed_sqr (blk s nxt)) (entry_speed_sqr (blk s block_index))
                     \<and> f_lt ?e (entry_speed_sqr (blk s block_index))
                  then (upd_blk block_index (\<lambda>b. b\<lparr>entry_speed_sqr := ?e\<rparr>) s)\<lparr>block_buffer_planned := block_index\<rparr>
                  else s"
  let ?t = "if f_eq (entry_speed_sqr (blk ?s block_index)) (max_entry_speed_sqr (blk ?s block_index))
                  then ?s\<lparr>block_buffer_planned := block_index\<rparr> else ?s"
  have "mot_wf ?s" using Suc.prems by (auto intro!: mot_wf_planned mot_wf_upd_blk)
  then have "mot_wf ?t" using Suc.prems by (simp add: mot_wf_planned)
  then have "mot_wf (forward_pass n (plan_next_block_index block_index) block_index ?t)"
    by (intro Suc.IH plan_next_less Suc.prems)
  then show ?case unfolding forward_pass.simps Let_def using Suc.prems(1) by (simp only: if_split) blast
qed simp

lemma planner_recalculate_wf: "mot_wf s \<Longrightarrow> mot_wf (planner_recalculate st_update_plan_block_parameters s)"
  unfolding planner_recalculate_def Let_def
  by (auto intro!: forward_pass_wf reverse_pass_wf mot_wf_upd_blk st_update_wf plan_prev_less plan_next_less
      mot_wf_indices split: if_splits)

lemma plan_cycle_reinitialize_wf: "mot_wf s \<Longrightarrow> mot_wf (plan_cycle_reinitialize st_update_plan_block_parameters s)"
  unfolding plan_cycle_reinitialize_def Let_def
  by (intro planner_recalculate_wf mot_wf_planned st_update_wf mot_wf_indices)

lemma plan_reset_wf: "mot_wf s \<Longrightarrow> mot_wf (plan_reset s)"
  by (simp add: plan_reset_def plan_reset_buffer_def mot_wf_defs plan_next_block_index_def grbl_const)

lemma plan_discard_wf: "mot_wf s \<Longrightarrow> mot_wf (plan_discard_current_block s)"
  using plan_next_less [of "block_buffer_tail s"] by (auto simp: plan_discard_current_block_def Let_def mot_wf_defs)

lemma plan_sync_position_wf: "mot_wf s \<Longrightarrow> mot_wf (plan_sync_position pos s)"
  by (simp add: plan_sync_position_def mot_wf_defs)

lemma profile_loop_wf:
  "mot_wf s \<Longrightarrow> unat block_index < BLOCK_BUFFER_SIZE \<Longrightarrow> mot_wf (profile_loop sy n block_index prev s)"
proof (induction n arbitrary: block_index prev s)
  case (Suc n)
  let ?v = "plan_compute_profile_nominal_speed sy (blk s block_index)"
  let ?s = "upd_blk block_index (\<lambda>b. plan_compute_profile_parameters b ?v prev) s"
  have "mot_wf ?s" using Suc.prems by (intro mot_wf_upd_blk) simp_all
  then have "mot_wf (profile_loop sy n (plan_next_block_index block_index) ?v ?s)"
    by (intro Suc.IH plan_next_less Suc.prems)
  then show ?case using Suc.prems(1) by (simp add: Let_def) (simp add: mot_wf_defs)
qed (simp add: mot_wf_defs)

lemma plan_update_velocity_wf: "mot_wf s \<Longrightarrow> mot_wf (plan_update_velocity_profile_parameters sy s)"
  unfolding plan_update_velocity_profile_parameters_def by (intro profile_loop_wf mot_wf_indices)

lemma plan_axis_lengths:
  assumes "case acc of (t, b, u) \<Rightarrow> length t = N_AXIS \<and> plan_block_wf b \<and> length u = N_AXIS"
  shows "case plan_axis cf target pos idx acc of (t, b, u) \<Rightarrow> length t = N_AXIS \<and> plan_block_wf b \<and> length u = N_AXIS"
  using assms by (auto simp: plan_axis_def Let_def plan_block_wf_def split: prod.splits)

lemma fold_inv: "Q a \<Longrightarrow> (\<And>x a. Q a \<Longrightarrow> Q (f x a)) \<Longrightarrow> Q (fold f xs a)"
  by (induction xs arbitrary: a) auto

lemma plan_line_steps_lengths:
  "case plan_line_steps cf pos target pl_data s of (t, b, u) \<Rightarrow>
     length t = N_AXIS \<and> plan_block_wf b \<and> length u = N_AXIS"
  unfolding plan_line_steps_def Let_def
proof (rule fold_inv [where Q = "\<lambda>(t, b, u). length t = N_AXIS \<and> plan_block_wf b \<and> length u = N_AXIS"])
  show "case acc of (t, b, u) \<Rightarrow> length t = N_AXIS \<and> plan_block_wf b \<and> length u = N_AXIS \<Longrightarrow>
    case plan_axis cf target ps idx acc of (t, b, u) \<Rightarrow> length t = N_AXIS \<and> plan_block_wf b \<and> length u = N_AXIS"
    for ps idx acc by (rule plan_axis_lengths)
qed (simp add: plan_block_wf_def plan_block_zero_def grbl_const)

lemma plan_line_limits_lengths:
  "case plan_line_limits cf pl_data s b u of (b', u') \<Rightarrow> plan_block_wf b' = plan_block_wf b \<and> length u' = length u"
  by (simp add: plan_line_limits_def Let_def convert_delta_vector_to_unit_vector_def plan_block_wf_def)

lemma plan_buffer_line_wf:
  assumes wf: "mot_wf s"
  shows "mot_wf (snd (plan_buffer_line cf sy pos st_update_plan_block_parameters target pl_data s))"
proof -
  obtain t b u where l: "plan_line_steps cf pos target pl_data s = (t, b, u)"
    and tbu: "length t = N_AXIS" "plan_block_wf b" "length u = N_AXIS"
    using plan_line_steps_lengths [of cf pos target pl_data s] by (auto split: prod.splits)
  obtain b' u' where l': "plan_line_limits cf pl_data s b u = (b', u')"
    and bu': "plan_block_wf b'" "length u' = N_AXIS"
    using plan_line_limits_lengths [of b u cf pl_data s] tbu by (auto split: prod.splits)
  have put: "mot_wf (upd_blk (block_buffer_head s) (\<lambda>_. c) s)" if "plan_block_wf c" for c
    using wf that by (intro mot_wf_upd_blk mot_wf_indices) simp_all
  have "mot_wf (planner_recalculate st_update_plan_block_parameters
      (upd_blk (block_buffer_head s) (\<lambda>_. c) s
        \<lparr>pl_previous_nominal_speed := v, pl_previous_unit_vec := u', pl_position := t,
         block_buffer_head := next_buffer_head s, next_buffer_head := plan_next_block_index (next_buffer_head s)\<rparr>))"
    if "plan_block_wf c" for c v
    using put [OF that] tbu bu' mot_wf_indices [OF wf]
    by (intro planner_recalculate_wf) (simp add: mot_wf_defs)
  then show ?thesis using put tbu bu' by (simp add: plan_buffer_line_def l l' Let_def)
qed

section \<open>Step interrupt and drivers\<close>

lemma st_wake_up_wf: "mot_wf s \<Longrightarrow> mot_wf (st_wake_up cf s)"
  by (simp add: st_wake_up_def Let_def mot_wf_defs exec_wf_def)

lemma TIMER0_OVF_wf: "mot_wf s \<Longrightarrow> mot_wf (TIMER0_OVF_vect s)"
  by (simp add: TIMER0_OVF_vect_def mot_wf_defs)

lemma st_go_idle_wf: "mot_wf (mot m) \<Longrightarrow> mot_wf (mot (st_go_idle m))"
  by (simp add: st_go_idle_def Let_def machine_lift mot_wf_defs)

lemma st_generate_masks_wf: "mot_wf s \<Longrightarrow> mot_wf (st_generate_step_dir_invert_masks cf s)"
  unfolding st_generate_step_dir_invert_masks_def
  by (rule fold_inv [where Q = mot_wf]) (simp_all add: Let_def mot_wf_defs)

lemma st_reset_wf: "mot_wf (mot m) \<Longrightarrow> mot_wf (mot (st_reset m))"
proof -
  assume "mot_wf (mot m)"
  then have "mot_wf (mot (st_go_idle m))" by (rule st_go_idle_wf)
  then have "mot_wf ((mot (st_go_idle m))\<lparr>prep := st_prep_zero, st := st_zero\<lparr>exec_segment := None\<rparr>, pl_block := None,
      segment_buffer_tail := 0, segment_buffer_head := 0, segment_next_head := 1, busy := False\<rparr>)"
    by (simp add: mot_wf_defs exec_wf_def prep_wf_def st_prep_zero_def st_zero_def next_segment_index_def grbl_const)
  from st_generate_masks_wf [OF this, of "mset (st_go_idle m)"] show ?thesis
    by (simp add: st_reset_def Let_def on_mot_def) (simp add: mot_wf_defs exec_wf_def)
qed

lemma isr_output_pins_wf: "mot_wf s \<Longrightarrow> mot_wf (isr_output_pins s)"
  by (simp add: isr_output_pins_def Let_def mot_wf_defs)

lemma on_spin_mot [simp]: "mot (on_spin f m) = mot m"
  by (simp add: on_spin_def)

lemma isr_load_segment_wf: "mot_wf (mot m) \<Longrightarrow> mot_wf (mot (isr_load_segment m))"
proof -
  assume wf: "mot_wf (mot m)"
  then have "segment_wf (segment_buffer (mot m) ! unat (segment_buffer_tail (mot m)))"
    by (intro list_all_at [of segment_wf]) (simp_all add: mot_wf_defs)
  then show ?thesis using wf by (auto simp: isr_load_segment_def Let_def mot_wf_defs exec_wf_def segment_wf_def)
qed

lemma isr_buffer_empty_wf: "mot_wf (mot m) \<Longrightarrow> mot_wf (mot (isr_buffer_empty m))"
  by (simp add: isr_buffer_empty_def Let_def on_rt_def st_go_idle_wf)

lemma isr_execute_wf: "mot_wf (mot m) \<Longrightarrow> mot_wf (mot (isr_execute m))"
proof -
  assume wf: "mot_wf (mot m)"
  have b: "mot_wf (mot (isr_bresenham n))" if "mot_wf (mot n)" for n
    using that by (simp add: isr_bresenham_def Let_def mot_wf_defs exec_wf_def split: prod.splits)
  have f: "mot_wf (mot (isr_finish n))" if "mot_wf (mot n)" for n
    using that next_segment_less [of "segment_buffer_tail (mot n)"]
    by (simp add: isr_finish_def Let_def mot_wf_defs exec_wf_def)
  show ?thesis using wf by (auto simp: isr_execute_def Let_def on_rt_def intro!: f b)
qed

lemma TIMER1_COMPA_wf: "mot_wf (mot m) \<Longrightarrow> mot_wf (mot (TIMER1_COMPA_vect m))"
proof -
  assume wf: "mot_wf (mot m)"
  then have "mot_wf (mot (on_mot isr_output_pins m))" by (simp add: on_mot_def isr_output_pins_wf)
  then show ?thesis using wf
    by (simp add: TIMER1_COMPA_vect_def Let_def isr_execute_wf isr_load_segment_wf isr_buffer_empty_wf)
qed

section \<open>Preparing segments\<close>

lemma st_block_wf_upd [simp]: "st_block_wf (b\<lparr>is_pwm_rate_adjusted := v\<rparr>) = st_block_wf b"
  by (simp add: st_block_wf_def)

lemma mot_wf_st_block:
  "mot_wf s \<Longrightarrow> st_block_wf b \<Longrightarrow> mot_wf (s\<lparr>st_block_buffer := (st_block_buffer s)[i := b]\<rparr>)"
  by (simp add: mot_wf_defs list_all_update)

lemma mot_wf_st_block_at: "mot_wf s \<Longrightarrow> unat i < SEGMENT_BUFFER_SIZE - 1 \<Longrightarrow> st_block_wf (st_block_buffer s ! unat i)"
  by (simp add: mot_wf_defs list_all_at)

lemma prep_wf_upd [simp]:
  "prep_wf (p\<lparr>recalculate_flag := v1\<rparr>) = prep_wf p" "prep_wf (p\<lparr>dt_remainder := v2\<rparr>) = prep_wf p"
  "prep_wf (p\<lparr>steps_remaining := v2\<rparr>) = prep_wf p" "prep_wf (p\<lparr>step_per_mm := v2\<rparr>) = prep_wf p"
  "prep_wf (p\<lparr>req_mm_increment := v2\<rparr>) = prep_wf p" "prep_wf (p\<lparr>ramp_type := v1\<rparr>) = prep_wf p"
  "prep_wf (p\<lparr>mm_complete := v2\<rparr>) = prep_wf p" "prep_wf (p\<lparr>current_speed := v2\<rparr>) = prep_wf p"
  "prep_wf (p\<lparr>maximum_speed := v2\<rparr>) = prep_wf p" "prep_wf (p\<lparr>exit_speed := v2\<rparr>) = prep_wf p"
  "prep_wf (p\<lparr>accelerate_until := v2\<rparr>) = prep_wf p" "prep_wf (p\<lparr>decelerate_after := v2\<rparr>) = prep_wf p"
  "prep_wf (p\<lparr>pr_inv_rate := v2\<rparr>) = prep_wf p" "prep_wf (p\<lparr>current_spindle_pwm := v1\<rparr>) = prep_wf p"
  by (simp_all add: prep_wf_def)

lemma mot_wf_rate_adjusted:
  assumes "mot_wf s" "unat i < SEGMENT_BUFFER_SIZE - 1"
  shows "mot_wf (s\<lparr>st_block_buffer := (st_block_buffer s)[unat i := (st_block_buffer s ! unat i)\<lparr>is_pwm_rate_adjusted := v\<rparr>]\<rparr>)"
  using assms by (intro mot_wf_st_block) (simp_all add: mot_wf_st_block_at)

lemma load_block_data_wf:
  assumes "mot_wf s"
  shows "mot_wf (load_block_data b s)"
proof -
  have "unat (st_next_block_index (pr_st_block_index (prep s))) < SEGMENT_BUFFER_SIZE - 1"
    using assms by (intro st_next_block_less) (simp add: mot_wf_def prep_wf_def)
  then show ?thesis using assms
    by (simp add: load_block_data_def Let_def upd_prep_def mot_wf_defs prep_wf_def list_all_update st_block_wf_def)
qed

lemma load_block_speed_wf: "mot_wf s \<Longrightarrow> unat i < BLOCK_BUFFER_SIZE \<Longrightarrow> mot_wf (load_block_speed c i b s)"
  by (auto simp: load_block_speed_def Let_def intro!: mot_wf_upd_prep mot_wf_upd_blk)

lemma load_block_laser_wf: "mot_wf s \<Longrightarrow> mot_wf (load_block_laser f b s)"
  by (auto simp: load_block_laser_def Let_def intro!: mot_wf_rate_adjusted mot_wf_upd_prep)
    (simp add: mot_wf_defs upd_prep_def)

lemma prep_load_block_wf:
  assumes "mot_wf (mot m)" "unat i < BLOCK_BUFFER_SIZE"
  shows "mot_wf (mot (prep_load_block i m))"
  using assms by (simp add: prep_load_block_def Let_def load_block_laser_wf load_block_speed_wf load_block_data_wf)

lemma prep_wf_profile [simp]:
  "prep_wf (profile_hold b p) = prep_wf p" "prep_wf (profile_normal n e b p) = prep_wf p"
  by (simp_all add: profile_hold_def profile_normal_def prep_wf_def Let_def)

lemma prep_velocity_profile_wf: "mot_wf (mot m) \<Longrightarrow> mot_wf (mot (prep_velocity_profile i m))"
  unfolding prep_velocity_profile_def Let_def by (auto intro!: mot_wf_upd_prep)

lemma prep_select_block_wf:
  assumes wf: "mot_wf (mot m)" and sel: "prep_select_block m = Some m'"
  shows "mot_wf (mot m') \<and> pl_block (mot m') \<noteq> None"
proof (cases "pl_block (mot m)")
  case None
  obtain i where i: "(if sys_step_control (sys m) AND STEP_CONTROL_EXECUTE_SYS_MOTION \<noteq> 0
      then Some (plan_get_system_motion_block (mot m)) else plan_get_current_block (mot m)) = Some i"
    using sel None by (auto simp: prep_select_block_def split: option.splits if_splits)
  have less: "unat i < BLOCK_BUFFER_SIZE"
    using i mot_wf_indices(1,2) [OF wf]
    by (auto simp: plan_get_system_motion_block_def plan_get_current_block_def split: if_splits)
  let ?m = "on_mot (\<lambda>s. s\<lparr>pl_block := Some i\<rparr>) m"
  let ?n = "if recalculate_flag (prep (mot ?m)) AND PREP_FLAG_RECALCULATE \<noteq> 0
            then on_mot (upd_prep (\<lambda>p. p\<lparr>recalculate_flag := 0\<rparr>)) ?m else prep_load_block i ?m"
  have m: "mot_wf (mot ?m)" using wf less by (simp add: on_mot_def mot_wf_defs)
  then have "mot_wf (mot (on_mot (upd_prep (\<lambda>p. p\<lparr>recalculate_flag := 0\<rparr>)) ?m))"
    by (auto simp: on_mot_def intro!: mot_wf_upd_prep)
  with m less have n: "mot_wf (mot ?n)" using prep_load_block_wf by simp
  have p: "pl_block (mot ?n) \<noteq> None"
    by (simp add: on_mot_def upd_prep_def prep_load_block_def Let_def load_block_laser_def load_block_speed_def
        load_block_data_def upd_blk_def)
  have "m' = prep_velocity_profile i ?n" using sel None i by (simp add: prep_select_block_def Let_def)
  moreover have "pl_block (mot (prep_velocity_profile i n)) = pl_block (mot n)" for n
    by (simp add: prep_velocity_profile_def Let_def upd_prep_def)
  ultimately show ?thesis using prep_velocity_profile_wf [OF n] p by simp
qed (use assms in \<open>simp add: prep_select_block_def\<close>)

lemma ramp_step_wf: "ramp_step b p mm tv = (p', mm', tv') \<Longrightarrow> prep_wf p' = prep_wf p"
  by (auto simp: ramp_step_def ramp_decel_override_def ramp_accel_def ramp_cruise_def ramp_decel_def Let_def
      split: if_splits)

lemma ramp_loop_wf: "ramp_loop b mn p mm tv dt dm = Some r \<Longrightarrow> prep_wf p \<longrightarrow> prep_wf (fst r)"
proof (induction rule: ramp_loop.raw_induct [rotated 1, consumes 1])
  case (1 go b mn p mm tv dt dm r)
  obtain q mm' tv' where q: "ramp_step b p mm tv = (q, mm', tv')" by (metis prod_cases3)
  have go: "go b mn q mm' t d d' = Some r \<Longrightarrow> prep_wf q \<longrightarrow> prep_wf (fst r)" for t d d' by (rule 1)
  show ?case using 1(2) go ramp_step_wf [OF q] by (auto simp: q Let_def split: if_splits)
qed

lemma segment_rate_wf: "unat (sg_st_block_index g) < SEGMENT_BUFFER_SIZE - 1 \<Longrightarrow> segment_wf (segment_rate c g)"
  by (simp add: segment_rate_def Let_def segment_wf_def grbl_const)

lemma mot_wf_store:
  "mot_wf s \<Longrightarrow> segment_wf g \<Longrightarrow> mot_wf (s\<lparr>segment_buffer := (segment_buffer s)[i := g]\<rparr>)"
  by (simp add: mot_wf_defs list_all_update)

lemma mot_wf_advance:
  "mot_wf s \<Longrightarrow> mot_wf (s\<lparr>segment_buffer_head := segment_next_head s, segment_next_head := next_segment_index (segment_next_head s)\<rparr>)"
  using next_segment_less [of "segment_buffer_head s"] by (simp add: mot_wf_defs)

lemma prep_block_end_wf: "mot_wf (mot m) \<Longrightarrow> mot_wf (mot (snd (prep_block_end i m)))"
  by (auto simp: prep_block_end_def Let_def machine_lift intro!: plan_discard_wf) (simp add: mot_wf_defs)

lemma prep_spindle_mot: "\<exists>v. mot (prep_spindle b m) = upd_prep (\<lambda>p. p\<lparr>current_spindle_pwm := v\<rparr>) (mot m)"
proof -
  have "mot m = upd_prep (\<lambda>p. p\<lparr>current_spindle_pwm := current_spindle_pwm p\<rparr>) (mot m)" by (simp add: upd_prep_def)
  then have "\<exists>v. mot m = upd_prep (\<lambda>p. p\<lparr>current_spindle_pwm := v\<rparr>) (mot m)"
    by (intro exI [of _ "current_spindle_pwm (prep (mot m))"]) (simp add: upd_prep_def)
  then show ?thesis
    by (auto simp: prep_spindle_def Let_def machine_lift split: prod.splits)
qed

lemma prep_queue_segment_wf:
  assumes wf: "mot_wf (mot m)" and i: "unat i < BLOCK_BUFFER_SIZE" and g: "segment_wf sg"
  shows "mot_wf (mot (snd (prep_queue_segment i mm dt sg m)))"
proof -
  have store: "mot_wf ((mot m)\<lparr>segment_buffer := (segment_buffer (mot m))[k := g]\<rparr>)" if "segment_wf g" for g k
    using wf that by (rule mot_wf_store)
  have g1: "segment_wf (sg\<lparr>n_step := n\<rparr>)" "segment_wf (segment_rate c (sg\<lparr>n_step := n\<rparr>))" for n c
    using g segment_rate_wf [of "sg\<lparr>n_step := n\<rparr>"] by (simp_all add: segment_wf_def)
  have end_wf: "mot_wf (mot (snd (prep_block_end i (m\<lparr>mot := upd_prep f (upd_blk i h (s\<lparr>segment_buffer_head := segment_next_head s,
        segment_next_head := next_segment_index (segment_next_head s)\<rparr>))\<rparr>))))"
    if "mot_wf s" "\<And>p. prep_wf p \<Longrightarrow> prep_wf (f p)" "\<And>b. plan_block_wf b \<Longrightarrow> plan_block_wf (h b)" for s f h
    using that mot_wf_advance [of s] i by (intro prep_block_end_wf) (auto intro!: mot_wf_upd_prep mot_wf_upd_blk)
  show ?thesis
    unfolding prep_queue_segment_def Let_def
    using end_wf [OF store [OF g1(2)]] store [OF g1(1)]
    by (simp add: machine_lift)
qed

lemma prep_segment_wf:
  assumes wf: "mot_wf (mot m)" and i: "unat i < BLOCK_BUFFER_SIZE" and r: "prep_segment i m = Some (c, m')"
  shows "mot_wf (mot m')"
proof -
  obtain p mm dt where l: "ramp_loop (blk (mot m) i)
      (if f_lt (f_sub (millimeters (blk (mot m) i)) (req_mm_increment (prep (mot m)))) f_zero then f_zero
       else f_sub (millimeters (blk (mot m) i)) (req_mm_increment (prep (mot m))))
      (prep (mot m)) (millimeters (blk (mot m) i)) DT_SEGMENT f_zero DT_SEGMENT = Some (p, mm, dt)"
    using r by (auto simp: prep_segment_def Let_def split: option.splits)
  let ?m = "prep_spindle (blk (mot m) i) (m\<lparr>mot := (mot m)\<lparr>prep := p\<rparr>\<rparr>)"
  let ?g = "segment_buffer (mot m) ! unat (segment_buffer_head (mot m))"
  have p: "prep_wf p" using ramp_loop_wf [OF l] wf by (simp add: mot_wf_def)
  then have "mot_wf ((mot m)\<lparr>prep := p\<rparr>)" using wf by (simp add: mot_wf_defs)
  then have m: "mot_wf (mot ?m)"
    using prep_spindle_mot [of "blk (mot m) i" "m\<lparr>mot := (mot m)\<lparr>prep := p\<rparr>\<rparr>"] mot_wf_upd_prep by force
  have "segment_wf ?g" using wf by (intro list_all_at [of segment_wf]) (simp_all add: mot_wf_defs)
  with p have "segment_wf (?g\<lparr>sg_st_block_index := pr_st_block_index p, sg_spindle_pwm := v\<rparr>)" for v
    by (simp add: segment_wf_def prep_wf_def)
  from prep_queue_segment_wf [OF m i this] show ?thesis
    using r l by (simp add: prep_segment_def Let_def) (metis snd_conv)
qed

lemma prep_pass_wf:
  assumes wf: "mot_wf (mot m)" and r: "prep_pass m = Some (c, m')"
  shows "mot_wf (mot m')"
proof (cases "prep_select_block m")
  case (Some n)
  then have n: "mot_wf (mot n)" "pl_block (mot n) \<noteq> None" using prep_select_block_wf [OF wf Some] by auto
  then have "unat (the (pl_block (mot n))) < BLOCK_BUFFER_SIZE" by (auto simp: mot_wf_def)
  from prep_segment_wf [OF n(1) this] show ?thesis using r Some by (simp add: prep_pass_def)
qed (use wf r in \<open>simp add: prep_pass_def\<close>)

lemma prep_passes_wf: "mot_wf (mot m) \<Longrightarrow> prep_passes n m = Some m' \<Longrightarrow> mot_wf (mot m')"
  by (induction n arbitrary: m) (auto split: if_splits option.splits prod.splits dest: prep_pass_wf)

lemma st_prep_buffer_wf: "mot_wf (mot m) \<Longrightarrow> st_prep_buffer m = Some m' \<Longrightarrow> mot_wf (mot m')"
  by (auto simp: st_prep_buffer_def prep_passes_wf split: if_splits)

end
