(* ===== verification/Stepper_Fuel.thy ===== *)
theory Stepper_Fuel
  imports Stepper_Bounds
begin

text \<open>
  The loop of \<open>st_prep_buffer\<close> ends because every pass that goes on has queued a segment: the bound on
  its passes is never what stops it.
\<close>

text \<open>The free places of the segment ring, from the variables the loop condition reads.\<close>

definition seg_indices :: "stepper_t \<Rightarrow> u8 \<times> u8" where
  "seg_indices s = (segment_buffer_tail s, segment_next_head s)"

definition seg_room :: "stepper_t \<Rightarrow> nat" where
  "seg_room s = ring_used SEGMENT_BUFFER_SIZE (unat (segment_buffer_tail s)) (unat (segment_next_head s))"

lemma seg_indices_upd [simp]:
  "seg_indices (upd_prep f s) = seg_indices s" "seg_indices (upd_blk i g s) = seg_indices s"
  "seg_indices (s\<lparr>pl_block := b\<rparr>) = seg_indices s" "seg_indices (s\<lparr>prep := p\<rparr>) = seg_indices s"
  "seg_indices (s\<lparr>st_prep_block := j\<rparr>) = seg_indices s" "seg_indices (s\<lparr>st_block_buffer := sb\<rparr>) = seg_indices s"
  "seg_indices (s\<lparr>segment_buffer := sg\<rparr>) = seg_indices s"
  "seg_indices (plan_discard_current_block s) = seg_indices s"
  by (simp_all add: seg_indices_def upd_prep_def upd_blk_def plan_discard_current_block_def Let_def)

lemma seg_indices_head:
  "seg_indices (s\<lparr>segment_buffer_head := a, segment_next_head := b\<rparr>) = (segment_buffer_tail s, b)"
  by (simp add: seg_indices_def)

lemma prep_load_indices: "seg_indices (mot (prep_load_block i m)) = seg_indices (mot m)"
  by (simp add: prep_load_block_def load_block_data_def load_block_speed_def load_block_laser_def Let_def)

lemma prep_profile_indices: "seg_indices (mot (prep_velocity_profile i m)) = seg_indices (mot m)"
  by (simp add: prep_velocity_profile_def Let_def)

lemma prep_select_indices: "prep_select_block m = Some m' \<Longrightarrow> seg_indices (mot m') = seg_indices (mot m)"
  by (auto simp: prep_select_block_def Let_def on_mot_def prep_load_indices prep_profile_indices
      split: if_splits option.splits)

lemma prep_spindle_indices: "seg_indices (mot (prep_spindle b m)) = seg_indices (mot m)"
  using prep_spindle_mot [of b m] by auto

lemma prep_block_end_indices: "seg_indices (mot (snd (prep_block_end i m))) = seg_indices (mot m)"
  by (simp add: prep_block_end_def Let_def machine_lift)

text \<open>A pass that goes on has moved the head by one.\<close>

lemma prep_queue_head:
  "fst (prep_queue_segment i mm dt sg m) \<Longrightarrow>
   seg_indices (mot (snd (prep_queue_segment i mm dt sg m))) =
     (segment_buffer_tail (mot m), next_segment_index (segment_next_head (mot m)))"
  by (auto simp: prep_queue_segment_def Let_def prep_block_end_indices seg_indices_head split: if_splits)

lemma prep_pass_head:
  assumes "prep_pass m = Some (True, m')"
  shows "seg_indices (mot m') = (segment_buffer_tail (mot m), next_segment_index (segment_next_head (mot m)))"
proof -
  obtain n where n: "prep_select_block m = Some n" "prep_segment (the (pl_block (mot n))) n = Some (True, m')"
    using assms by (auto simp: prep_pass_def split: option.splits)
  obtain p mm dt sg where q: "prep_queue_segment (the (pl_block (mot n))) mm dt sg
      (prep_spindle (blk (mot n) (the (pl_block (mot n)))) (n\<lparr>mot := (mot n)\<lparr>prep := p\<rparr>\<rparr>)) = (True, m')"
    using n(2) by (auto simp: prep_segment_def Let_def split: option.splits)
  let ?n = "prep_spindle (blk (mot n) (the (pl_block (mot n)))) (n\<lparr>mot := (mot n)\<lparr>prep := p\<rparr>\<rparr>)"
  have "seg_indices (mot ?n) = seg_indices (mot m)"
    using prep_select_indices [OF n(1)] by (simp add: prep_spindle_indices)
  then show ?thesis using prep_queue_head [of "the (pl_block (mot n))" mm dt sg ?n] q by (simp add: seg_indices_def)
qed

lemma unat_next_segment:
  "unat i < SEGMENT_BUFFER_SIZE \<Longrightarrow> unat (next_segment_index i) = (if Suc (unat i) = SEGMENT_BUFFER_SIZE then 0 else Suc (unat i))"
proof -
  assume i: "unat i < SEGMENT_BUFFER_SIZE"
  then have s: "unat (i + 1) = Suc (unat i)" by (simp add: SEGMENT_BUFFER_SIZE_def unat_word_ariths)
  then have "i + 1 = of_nat SEGMENT_BUFFER_SIZE \<longleftrightarrow> Suc (unat i) = SEGMENT_BUFFER_SIZE"
    by (simp add: u8_eq_iff SEGMENT_BUFFER_SIZE_def)
  then show ?thesis using s by (simp add: next_segment_index_def Let_def)
qed

interpretation seg: ring SEGMENT_BUFFER_SIZE unat next_segment_index
  by unfold_locales (simp_all add: SEGMENT_BUFFER_SIZE_def unat_next_segment [unfolded SEGMENT_BUFFER_SIZE_def])

lemma mot_wf_seg_indices:
  "mot_wf s \<Longrightarrow> unat (segment_buffer_tail s) < SEGMENT_BUFFER_SIZE \<and> unat (segment_next_head s) < SEGMENT_BUFFER_SIZE"
  by (auto simp: mot_wf_def seg_wf_def)

lemma seg_room_next:
  assumes "mot_wf s" "segment_buffer_tail s \<noteq> segment_next_head s"
    and "seg_indices s' = (segment_buffer_tail s, next_segment_index (segment_next_head s))"
  shows "seg_room s = Suc (seg_room s')"
  using seg.used_nxt_tail [of "segment_buffer_tail s" "segment_next_head s"] mot_wf_seg_indices [OF assms(1)] assms(2,3)
  by (auto simp: seg_room_def seg_indices_def u8_eq_iff)

lemma seg_room_0: "mot_wf s \<Longrightarrow> seg_room s = 0 \<longleftrightarrow> segment_buffer_tail s = segment_next_head s"
  using mot_wf_seg_indices [of s] by (simp add: seg_room_def ring_used_0_iff u8_eq_iff)

lemma prep_passes_fuel:
  "mot_wf (mot m) \<Longrightarrow> seg_room (mot m) \<le> n \<Longrightarrow> prep_passes (n + k) m = prep_passes n m"
proof (induction n arbitrary: m)
  case 0
  then have "segment_buffer_tail (mot m) = segment_next_head (mot m)" using seg_room_0 by simp
  then show ?case by (cases k) simp_all
next
  case (Suc n)
  show ?case
  proof (cases "segment_buffer_tail (mot m) = segment_next_head (mot m)")
    case False
    have "prep_passes (n + k) m' = prep_passes n m'" if "prep_pass m = Some (True, m')" for m'
      using Suc.prems seg_room_next [OF Suc.prems(1) False prep_pass_head [OF that]] prep_pass_wf [OF Suc.prems(1) that]
      by (intro Suc.IH) simp_all
    then show ?thesis by (auto split: option.splits)
  qed simp
qed

text \<open>The loop over the planned blocks that follows a change of an override.\<close>

lemma profile_loop_fuel:
  "unat i < 16 \<Longrightarrow> unat (block_buffer_head s) < 16 \<Longrightarrow> ring_used 16 (unat (block_buffer_head s)) (unat i) \<le> n \<Longrightarrow>
   profile_loop sy (n + k) i v s = profile_loop sy n i v s"
proof (induction n arbitrary: i v s)
  case 0
  then have "i = block_buffer_head s" by (simp add: ring_used_0_iff u8_eq_iff)
  then show ?case by (cases k) simp_all
next
  case (Suc n)
  show ?case
  proof (cases "i = block_buffer_head s")
    case False
    then have "ring_used 16 (unat (block_buffer_head s)) (unat (plan_next_block_index i)) \<le> n"
      using plan.used_nxt_tail [OF Suc.prems(2,1)] Suc.prems(3) by (simp add: u8_eq_iff)
    then show ?thesis using Suc.IH Suc.prems(1,2) False plan.idx_nxt_less [OF Suc.prems(1)]
      by (simp add: Let_def upd_blk_def)
  qed simp
qed

lemma profile_loop_complete:
  assumes "unat (block_buffer_tail s) < 16" "unat (block_buffer_head s) < 16" "16 \<le> n"
  shows "plan_update_velocity_profile_parameters sy s = profile_loop sy n (block_buffer_tail s) SOME_LARGE_VALUE s"
  using profile_loop_fuel [OF assms(1,2), of BLOCK_BUFFER_SIZE sy "n - 16"] ring_used_less [OF assms(2,1)] assms(3)
  by (simp add: plan_update_velocity_profile_parameters_def BLOCK_BUFFER_SIZE_def less_imp_le)

section \<open>Property\<close>



end
