(* ===== verification/Interrupts.thy ===== *)
theory Interrupts
  imports Stepper
begin

text \<open>
  The interrupts that reach across components: the reset of motion\_control.c, the receive
  interrupt of serial.c, which picks the realtime commands out of the byte stream, the control
  pin interrupt of system.c and the limit pin interrupt of limits.c.
\<close>

section \<open>Reset\<close>

definition mc_reset :: "machine \<Rightarrow> machine" where
  "mc_reset m =
     (if bit_isfalse (sys_rt_exec_state (rt m)) EXEC_RESET then
        (let m = on_rt (system_set_exec_state_flag EXEC_RESET) m;
             m = on_cool coolant_stop (on_spin spindle_stop m)
         in if sys_state (sys m) AND (STATE_CYCLE OR STATE_HOMING OR STATE_JOG) \<noteq> 0
              \<or> sys_step_control (sys m) AND (STEP_CONTROL_EXECUTE_HOLD OR STEP_CONTROL_EXECUTE_SYS_MOTION) \<noteq> 0
            then (let m = (if sys_state (sys m) = STATE_HOMING
                           then (if sys_rt_exec_alarm (rt m) = 0
                                 then on_rt (system_set_exec_alarm EXEC_ALARM_HOMING_FAIL_RESET) m else m)
                           else on_rt (system_set_exec_alarm EXEC_ALARM_ABORT_CYCLE) m)
                  in st_go_idle m)
            else m)
      else m)"

section \<open>Received bytes\<close>

definition CMD_RESET :: u8 where [grbl_const]: "CMD_RESET = 0x18"
definition CMD_STATUS_REPORT :: u8 where [grbl_const]: "CMD_STATUS_REPORT = 0x3F"
definition CMD_CYCLE_START :: u8 where [grbl_const]: "CMD_CYCLE_START = 0x7E"
definition CMD_FEED_HOLD :: u8 where [grbl_const]: "CMD_FEED_HOLD = 0x21"
definition CMD_SAFETY_DOOR :: u8 where [grbl_const]: "CMD_SAFETY_DOOR = 0x84"
definition CMD_JOG_CANCEL :: u8 where [grbl_const]: "CMD_JOG_CANCEL = 0x85"
definition CMD_FEED_OVR_RESET :: u8 where [grbl_const]: "CMD_FEED_OVR_RESET = 0x90"
definition CMD_FEED_OVR_COARSE_PLUS :: u8 where [grbl_const]: "CMD_FEED_OVR_COARSE_PLUS = 0x91"
definition CMD_FEED_OVR_COARSE_MINUS :: u8 where [grbl_const]: "CMD_FEED_OVR_COARSE_MINUS = 0x92"
definition CMD_FEED_OVR_FINE_PLUS :: u8 where [grbl_const]: "CMD_FEED_OVR_FINE_PLUS = 0x93"
definition CMD_FEED_OVR_FINE_MINUS :: u8 where [grbl_const]: "CMD_FEED_OVR_FINE_MINUS = 0x94"
definition CMD_RAPID_OVR_RESET :: u8 where [grbl_const]: "CMD_RAPID_OVR_RESET = 0x95"
definition CMD_RAPID_OVR_MEDIUM :: u8 where [grbl_const]: "CMD_RAPID_OVR_MEDIUM = 0x96"
definition CMD_RAPID_OVR_LOW :: u8 where [grbl_const]: "CMD_RAPID_OVR_LOW = 0x97"
definition CMD_SPINDLE_OVR_RESET :: u8 where [grbl_const]: "CMD_SPINDLE_OVR_RESET = 0x99"
definition CMD_SPINDLE_OVR_COARSE_PLUS :: u8 where [grbl_const]: "CMD_SPINDLE_OVR_COARSE_PLUS = 0x9A"
definition CMD_SPINDLE_OVR_COARSE_MINUS :: u8 where [grbl_const]: "CMD_SPINDLE_OVR_COARSE_MINUS = 0x9B"
definition CMD_SPINDLE_OVR_FINE_PLUS :: u8 where [grbl_const]: "CMD_SPINDLE_OVR_FINE_PLUS = 0x9C"
definition CMD_SPINDLE_OVR_FINE_MINUS :: u8 where [grbl_const]: "CMD_SPINDLE_OVR_FINE_MINUS = 0x9D"
definition CMD_SPINDLE_OVR_STOP :: u8 where [grbl_const]: "CMD_SPINDLE_OVR_STOP = 0x9E"
definition CMD_COOLANT_FLOOD_OVR_TOGGLE :: u8 where [grbl_const]: "CMD_COOLANT_FLOOD_OVR_TOGGLE = 0xA0"

text \<open>The commands above 0x7F; other bytes of that range are thrown away.\<close>

definition rx_extended :: "u8 \<Rightarrow> machine \<Rightarrow> machine" where
  "rx_extended data m =
     (if data = CMD_SAFETY_DOOR then on_rt (system_set_exec_state_flag EXEC_SAFETY_DOOR) m
      else if data = CMD_JOG_CANCEL then
        (if sys_state (sys m) AND STATE_JOG \<noteq> 0 then on_rt (system_set_exec_state_flag EXEC_MOTION_CANCEL) m else m)
      else if data = CMD_FEED_OVR_RESET then on_rt (system_set_exec_motion_override_flag EXEC_FEED_OVR_RESET) m
      else if data = CMD_FEED_OVR_COARSE_PLUS then on_rt (system_set_exec_motion_override_flag EXEC_FEED_OVR_COARSE_PLUS) m
      else if data = CMD_FEED_OVR_COARSE_MINUS then on_rt (system_set_exec_motion_override_flag EXEC_FEED_OVR_COARSE_MINUS) m
      else if data = CMD_FEED_OVR_FINE_PLUS then on_rt (system_set_exec_motion_override_flag EXEC_FEED_OVR_FINE_PLUS) m
      else if data = CMD_FEED_OVR_FINE_MINUS then on_rt (system_set_exec_motion_override_flag EXEC_FEED_OVR_FINE_MINUS) m
      else if data = CMD_RAPID_OVR_RESET then on_rt (system_set_exec_motion_override_flag EXEC_RAPID_OVR_RESET) m
      else if data = CMD_RAPID_OVR_MEDIUM then on_rt (system_set_exec_motion_override_flag EXEC_RAPID_OVR_MEDIUM) m
      else if data = CMD_RAPID_OVR_LOW then on_rt (system_set_exec_motion_override_flag EXEC_RAPID_OVR_LOW) m
      else if data = CMD_SPINDLE_OVR_RESET then on_rt (system_set_exec_accessory_override_flag EXEC_SPINDLE_OVR_RESET) m
      else if data = CMD_SPINDLE_OVR_COARSE_PLUS then on_rt (system_set_exec_accessory_override_flag EXEC_SPINDLE_OVR_COARSE_PLUS) m
      else if data = CMD_SPINDLE_OVR_COARSE_MINUS then on_rt (system_set_exec_accessory_override_flag EXEC_SPINDLE_OVR_COARSE_MINUS) m
      else if data = CMD_SPINDLE_OVR_FINE_PLUS then on_rt (system_set_exec_accessory_override_flag EXEC_SPINDLE_OVR_FINE_PLUS) m
      else if data = CMD_SPINDLE_OVR_FINE_MINUS then on_rt (system_set_exec_accessory_override_flag EXEC_SPINDLE_OVR_FINE_MINUS) m
      else if data = CMD_SPINDLE_OVR_STOP then on_rt (system_set_exec_accessory_override_flag EXEC_SPINDLE_OVR_STOP) m
      else if data = CMD_COOLANT_FLOOD_OVR_TOGGLE then on_rt (system_set_exec_accessory_override_flag EXEC_COOLANT_FLOOD_OVR_TOGGLE) m
      else m)"

definition SERIAL_RX :: "u8 \<Rightarrow> machine \<Rightarrow> machine" where
  "SERIAL_RX data m =
     (if data = CMD_RESET then mc_reset m
      else if data = CMD_STATUS_REPORT then on_rt (system_set_exec_state_flag EXEC_STATUS_REPORT) m
      else if data = CMD_CYCLE_START then on_rt (system_set_exec_state_flag EXEC_CYCLE_START) m
      else if data = CMD_FEED_HOLD then on_rt (system_set_exec_state_flag EXEC_FEED_HOLD) m
      else if 0x7F < data then rx_extended data m
      else m\<lparr>ser := serial_rx_put data (ser m)\<rparr>)"

section \<open>Control and limit pins\<close>

definition CONTROL_INT_vect :: "machine \<Rightarrow> machine" where
  "CONTROL_INT_vect m =
     (let pin = system_control_get_state (CONTROL_PIN m) in
      if pin \<noteq> 0 then
        (if bit_istrue pin CONTROL_PIN_INDEX_RESET then mc_reset m
         else if bit_istrue pin CONTROL_PIN_INDEX_CYCLE_START
         then on_rt (\<lambda>r. r\<lparr>sys_rt_exec_state := bit_true (sys_rt_exec_state r) EXEC_CYCLE_START\<rparr>) m
         else if bit_istrue pin CONTROL_PIN_INDEX_FEED_HOLD
         then on_rt (\<lambda>r. r\<lparr>sys_rt_exec_state := bit_true (sys_rt_exec_state r) EXEC_FEED_HOLD\<rparr>) m
         else m)
      else m)"

definition LIMIT_MASK :: u8 where [grbl_const]: "LIMIT_MASK = 22"

definition limits_disable :: "machine \<Rightarrow> machine" where
  "limits_disable m = m\<lparr>LIMIT_PCMSK := LIMIT_PCMSK m AND NOT LIMIT_MASK, LIMIT_INT_ON := False\<rparr>"

definition limits_init :: "machine \<Rightarrow> machine" where
  "limits_init m =
     (if bit_istrue (settings_flags (mset m)) BITFLAG_HARD_LIMIT_ENABLE
      then m\<lparr>LIMIT_PCMSK := LIMIT_PCMSK m OR LIMIT_MASK, LIMIT_INT_ON := True\<rparr>
      else limits_disable m)"

definition limits_get_state :: "machine \<Rightarrow> u8" where
  "limits_get_state m =
     (let pin = LIMIT_PIN m AND LIMIT_MASK;
          pin = (if bit_isfalse (settings_flags (mset m)) BITFLAG_INVERT_LIMIT_PINS then pin XOR LIMIT_MASK else pin)
      in if pin \<noteq> 0
         then fold (\<lambda>idx limit_state. if pin AND get_limit_pin_mask idx \<noteq> 0 then limit_state OR bitw idx
                                      else limit_state) [0..<N_AXIS] 0
         else 0)"

definition LIMIT_INT_vect :: "machine \<Rightarrow> machine" where
  "LIMIT_INT_vect m =
     (if sys_state (sys m) \<noteq> STATE_ALARM then
        (if sys_rt_exec_alarm (rt m) = 0
         then on_rt (system_set_exec_alarm EXEC_ALARM_HARD_LIMIT) (mc_reset m) else m)
      else m)"

section \<open>The environment\<close>

text \<open>
  One interrupt. The timers fire only while they are enabled; a change of the limit pins
  interrupts only while their interrupt is on; the probe pin is only polled.
\<close>

fun interrupt :: "irq \<Rightarrow> machine \<Rightarrow> machine" where
  "interrupt IRQ_timer1 m = (if OCIE1A (mot m) then TIMER1_COMPA_vect m else m)"
| "interrupt IRQ_timer0 m = (if TIMER0_RUNNING (mot m) then on_mot TIMER0_OVF_vect m else m)"
| "interrupt (IRQ_serial_rx data) m = SERIAL_RX data m"
| "interrupt (IRQ_control_pins pins) m = CONTROL_INT_vect (m\<lparr>CONTROL_PIN := pins\<rparr>)"
| "interrupt (IRQ_limit_pins pins) m =
     (let m = m\<lparr>LIMIT_PIN := pins\<rparr> in if LIMIT_INT_ON m then LIMIT_INT_vect m else m)"
| "interrupt (IRQ_probe_pin pins) m = m\<lparr>PROBE_PIN := pins\<rparr>"

text \<open>The main program looks at the shared state after the interrupts of the schedule's next entry.\<close>

definition poll :: "machine \<Rightarrow> machine" where
  "poll m = fold interrupt (irqs m 0) (m\<lparr>irqs := (\<lambda>k. irqs m (Suc k))\<rparr>)"

section \<open>Properties\<close>

text \<open>What \<open>st_go_idle\<close> changes.\<close>

lemma st_go_idle_fields [simp]:
  "sys (st_go_idle m) = sys m" "rt (st_go_idle m) = rt m" "conf (st_go_idle m) = conf m"
  "spin (st_go_idle m) = spin m" "cool (st_go_idle m) = cool m" "ser (st_go_idle m) = ser m"
  "gc_state (st_go_idle m) = gc_state m" "OCIE1A (mot (st_go_idle m)) = False"
  "busy (mot (st_go_idle m)) = False" "st (mot (st_go_idle m)) = st (mot m)"
  "block_buffer (mot (st_go_idle m)) = block_buffer (mot m)"
  by (simp_all add: st_go_idle_def Let_def on_mot_def)

lemma and_or_0: "(x :: u8) AND (a OR b) = 0 \<longleftrightarrow> x AND a = 0 \<and> x AND b = 0"
  by (simp add: bit.conj_disj_distrib or_eq_0_word)

lemma mc_reset_flag: "bit_istrue (sys_rt_exec_state (rt (mc_reset m))) EXEC_RESET"
  by (simp add: mc_reset_def Let_def machine_lift rt_flag_defs bit_isfalse_iff EXEC_RESET_def
      bit_istrue_set)

lemma mc_reset_again: "bit_istrue (sys_rt_exec_state (rt m)) EXEC_RESET \<Longrightarrow> mc_reset m = m"
  by (simp add: mc_reset_def bit_isfalse_iff)

lemma spindle_stop_off: "spindle_get_state (spindle_stop p) = SPINDLE_STATE_DISABLE"
  using bit_istrue_clear [of "spindle_tccra p" "bitw SPINDLE_COMB_BIT"]
  by (simp add: spindle_get_state_def spindle_stop_def bit_istrue_def)

lemma coolant_stop_off: "coolant_get_state (coolant_stop c) = COOLANT_STATE_DISABLE"
  by (simp add: coolant_get_state_def coolant_stop_def bit_istrue_clear Let_def)

lemma mc_reset_accessories:
  "bit_isfalse (sys_rt_exec_state (rt m)) EXEC_RESET \<Longrightarrow>
    spin (mc_reset m) = spindle_stop (spin m) \<and> cool (mc_reset m) = coolant_stop (cool m)"
  by (simp add: mc_reset_def Let_def machine_lift)

text \<open>
  C18. A reset makes the machine safe. After \<open>mc_reset\<close>, whoever calls it, the reset is
  requested; and when it had not been requested before, the servo pulse and the coolant are
  off, and if the machine was moving or holding the step interrupt is disabled and an alarm is
  raised because the position is lost, the homing alarm during homing. Calling it again
  changes nothing.
\<close>

theorem mc_reset_safe:
  fixes m :: machine
  defines "m' \<equiv> mc_reset m"
  shows "bit_istrue (sys_rt_exec_state (rt m')) EXEC_RESET \<and> mc_reset m' = m'
    \<and> (bit_isfalse (sys_rt_exec_state (rt m)) EXEC_RESET \<longrightarrow>
         spindle_get_state (spin m') = SPINDLE_STATE_DISABLE
         \<and> coolant_get_state (cool m') = COOLANT_STATE_DISABLE
         \<and> (sys_state (sys m) AND (STATE_CYCLE OR STATE_HOMING OR STATE_JOG) \<noteq> 0
              \<or> sys_step_control (sys m) AND STEP_CONTROL_EXECUTE_HOLD \<noteq> 0 \<longrightarrow>
            \<not> OCIE1A (mot m') \<and> sys_rt_exec_alarm (rt m') \<noteq> 0
            \<and> (sys_state (sys m) \<noteq> STATE_HOMING \<longrightarrow> sys_rt_exec_alarm (rt m') = EXEC_ALARM_ABORT_CYCLE)))"
proof -
  have off: "spindle_get_state (spin m') = SPINDLE_STATE_DISABLE \<and> coolant_get_state (cool m') = COOLANT_STATE_DISABLE"
    if "bit_isfalse (sys_rt_exec_state (rt m)) EXEC_RESET"
    using mc_reset_accessories [OF that] by (simp add: m'_def spindle_stop_off coolant_stop_off)
  have moving: "\<not> OCIE1A (mot m') \<and> sys_rt_exec_alarm (rt m') \<noteq> 0
      \<and> (sys_state (sys m) \<noteq> STATE_HOMING \<longrightarrow> sys_rt_exec_alarm (rt m') = EXEC_ALARM_ABORT_CYCLE)"
    if "bit_isfalse (sys_rt_exec_state (rt m)) EXEC_RESET"
      and "sys_state (sys m) AND (STATE_CYCLE OR STATE_HOMING OR STATE_JOG) \<noteq> 0
              \<or> sys_step_control (sys m) AND STEP_CONTROL_EXECUTE_HOLD \<noteq> 0"
  proof -
    have c: "sys_state (sys m) AND (STATE_CYCLE OR STATE_HOMING OR STATE_JOG) \<noteq> 0
        \<or> sys_step_control (sys m) AND (STEP_CONTROL_EXECUTE_HOLD OR STEP_CONTROL_EXECUTE_SYS_MOTION) \<noteq> 0"
      using that(2) by (simp only: and_or_0) blast
    show ?thesis using that(1) c
      by (simp add: m'_def mc_reset_def Let_def machine_lift rt_flag_defs EXEC_ALARM_ABORT_CYCLE_def
          EXEC_ALARM_HOMING_FAIL_RESET_def del: and_or_0)
  qed
  show ?thesis using off moving mc_reset_flag [of m] mc_reset_again [of m'] by (simp add: m'_def)
qed

theorem mc_reset_safe_witness:
  "sys_rt_exec_alarm (rt (mc_reset (machine_zero\<lparr>sys := sys_zero\<lparr>sys_state := STATE_CYCLE\<rparr>\<rparr>))) = EXEC_ALARM_ABORT_CYCLE"
  using mc_reset_safe [of "machine_zero\<lparr>sys := sys_zero\<lparr>sys_state := STATE_CYCLE\<rparr>\<rparr>"]
  by (simp add: machine_zero_def rt_zero_def bit_isfalse_def STATE_CYCLE_def STATE_HOMING_def STATE_JOG_def)

text \<open>
  C20. The receive interrupt separates realtime commands from program text. A byte is queued
  exactly if it is below 0x80 and none of the four printable commands, and then nothing else
  changes; every other byte leaves the receive ring alone.
\<close>

theorem serial_rx_separates:
  "if data \<notin> {CMD_RESET, CMD_STATUS_REPORT, CMD_CYCLE_START, CMD_FEED_HOLD} \<and> data < 0x80
   then SERIAL_RX data m = m\<lparr>ser := serial_rx_put data (ser m)\<rparr>
   else ser (SERIAL_RX data m) = ser m"
proof -
  have r: "ser (mc_reset m) = ser m" by (simp add: mc_reset_def Let_def machine_lift)
  have e: "ser (rx_extended data m) = ser m" by (simp add: rx_extended_def on_rt_def)
  have c: "0x7F < data \<longleftrightarrow> \<not> data < 0x80"
    by (simp add: word_less_nat_alt) linarith
  show ?thesis unfolding SERIAL_RX_def c using r e by (simp add: on_rt_def)
qed

text \<open>
  C19. A hard limit stops the machine: unless an alarm is active already, the limit interrupt
  requests a reset and leaves the hard-limit alarm set, even when the reset itself has raised
  another one; in an alarm it does nothing.
\<close>

theorem hard_limit_alarm:
  "if sys_rt_exec_alarm (rt m) = 0 \<and> sys_state (sys m) \<noteq> STATE_ALARM
   then sys_rt_exec_alarm (rt (LIMIT_INT_vect m)) = EXEC_ALARM_HARD_LIMIT
     \<and> bit_istrue (sys_rt_exec_state (rt (LIMIT_INT_vect m))) EXEC_RESET
   else LIMIT_INT_vect m = m"
  using mc_reset_flag [of m] by (simp add: LIMIT_INT_vect_def on_rt_def system_set_exec_alarm_def)

text \<open>
  The limit switches are read exactly: bit \<open>a\<close> of the limit state is set for an axis if
  and only if its pin is low, or high when the pins are configured as inverted.
\<close>

theorem limits_state_exact:
  assumes "a < N_AXIS"
  shows "bit (limits_get_state m) a \<longleftrightarrow>
    bit (LIMIT_PIN m) ([1, 2, 4] ! a) = bit_istrue (settings_flags (mset m)) BITFLAG_INVERT_LIMIT_PINS"
proof -
  let ?inv = "bit_istrue (settings_flags (mset m)) BITFLAG_INVERT_LIMIT_PINS"
  define pin where "pin = (if \<not> ?inv then (LIMIT_PIN m AND LIMIT_MASK) XOR LIMIT_MASK else LIMIT_PIN m AND LIMIT_MASK)"
  have a: "pin AND bitw n \<noteq> 0 \<longleftrightarrow> bit pin n" for n
    using bit_istrue_bitw [of pin n] by (simp add: bit_istrue_def)
  have p: "bit pin n \<longleftrightarrow> bit (LIMIT_PIN m) n = ?inv" if "n \<in> {1, 2, 4}" for n
    using that by (auto simp: pin_def bit_and_iff bit_xor_iff LIMIT_MASK_def)
  have s: "limits_get_state m = (if pin \<noteq> 0 then
      (let l = (if bit pin 1 then 0 OR bitw 0 else 0); l = (if bit pin 2 then l OR bitw 1 else l)
       in if bit pin 4 then l OR bitw 2 else l) else 0)"
    by (simp add: limits_get_state_def pin_def [symmetric] bit_isfalse_iff Let_def N_AXIS_def X_AXIS_def Y_AXIS_def
        upt_rec get_limit_pin_mask_def a numeral_2_eq_2)
  have "a = 0 \<or> a = 1 \<or> a = 2" using assms by (auto simp: N_AXIS_def)
  then show ?thesis
    using p [of 1] p [of 2] p [of 4] by (auto simp: s Let_def bit_or_iff bit_bitw)
qed

theorem limits_state_exact_witness:
  "bit (limits_get_state (machine_zero\<lparr>LIMIT_PIN := 16\<rparr>)) 0"
  using limits_state_exact [of 0 "machine_zero\<lparr>LIMIT_PIN := 16\<rparr>"]
  by (simp add: N_AXIS_def machine_zero_def default_settings_def bit_istrue_def)

end
