(* ===== verification/Report.thy ===== *)
theory Report
  imports Interrupts
begin

text \<open>
  report.c: everything the firmware says to the host. A report is a function on the machine
  that appends its characters to \<open>tx_out\<close>; only the status report also changes the state, its
  two refresh counters.
\<close>

section \<open>Utilities\<close>

text \<open>Handing characters to \<open>serial_write\<close> one after the other.\<close>

definition printPgmString :: "string \<Rightarrow> machine \<Rightarrow> machine" where
  "printPgmString s m = m\<lparr>tx_out := tx_out m @ s\<rparr>"

text \<open>A line of the EEPROM is printed up to its terminating zero.\<close>

definition line_string :: "u8 list \<Rightarrow> string" where
  "line_string bs = map (\<lambda>b. char_of (unat b)) (takeWhile (\<lambda>b. b \<noteq> 0) bs)"

definition CR_LF :: string where "CR_LF = [CHR 0x0D, CHR 0x0A]"

definition report_util_setting_prefix :: "u8 \<Rightarrow> machine \<Rightarrow> machine" where
  "report_util_setting_prefix n m = printPgmString (''$'' @ print_uint8_base10 n @ ''='') m"

definition report_util_line_feed :: "machine \<Rightarrow> machine" where
  "report_util_line_feed m = printPgmString CR_LF m"

definition report_util_feedback_line_feed :: "machine \<Rightarrow> machine" where
  "report_util_feedback_line_feed m = report_util_line_feed (printPgmString '']'' m)"

definition report_util_gcode_modes_G :: "machine \<Rightarrow> machine" where
  "report_util_gcode_modes_G m = printPgmString '' G'' m"

definition report_util_gcode_modes_M :: "machine \<Rightarrow> machine" where
  "report_util_gcode_modes_M m = printPgmString '' M'' m"

definition report_util_axis_values :: "vec \<Rightarrow> machine \<Rightarrow> machine" where
  "report_util_axis_values axis_value m =
     fold (\<lambda>idx m.
       (let m = printPgmString (printFloat_CoordValue (settings_flags (mset m)) (axis_value ! idx)) m
        in if idx < N_AXIS - 1 then printPgmString '','' m else m)) [0..<N_AXIS] m"

definition report_util_uint8_setting :: "u8 \<Rightarrow> u8 \<Rightarrow> machine \<Rightarrow> machine" where
  "report_util_uint8_setting n v m =
     report_util_line_feed (printPgmString (print_uint8_base10 v) (report_util_setting_prefix n m))"

definition report_util_float_setting :: "u8 \<Rightarrow> f32 \<Rightarrow> u8 \<Rightarrow> machine \<Rightarrow> machine" where
  "report_util_float_setting n v n_decimal m =
     report_util_line_feed (printPgmString (printFloat v n_decimal) (report_util_setting_prefix n m))"

definition N_DECIMAL_SETTINGVALUE :: u8 where [grbl_const]: "N_DECIMAL_SETTINGVALUE = 3"
definition N_DECIMAL_RPMVALUE :: u8 where [grbl_const]: "N_DECIMAL_RPMVALUE = 0"

section \<open>Messages\<close>

definition report_status_message :: "u8 \<Rightarrow> machine \<Rightarrow> machine" where
  "report_status_message code m =
     (if code = status_code STATUS_OK then printPgmString (''ok'' @ CR_LF) m
      else report_util_line_feed (printPgmString (''error:'' @ print_uint8_base10 code) m))"

definition report_alarm_message :: "u8 \<Rightarrow> machine \<Rightarrow> machine" where
  "report_alarm_message alarm_code m =
     (let m = report_util_line_feed (printPgmString (''ALARM:'' @ print_uint8_base10 alarm_code) m)
      in m\<lparr>events := events m @ [Ev_delay_ms 500]\<rparr>)"

definition MESSAGE_CRITICAL_EVENT :: u8 where [grbl_const]: "MESSAGE_CRITICAL_EVENT = 1"
definition MESSAGE_ALARM_LOCK :: u8 where [grbl_const]: "MESSAGE_ALARM_LOCK = 2"
definition MESSAGE_ALARM_UNLOCK :: u8 where [grbl_const]: "MESSAGE_ALARM_UNLOCK = 3"
definition MESSAGE_ENABLED :: u8 where [grbl_const]: "MESSAGE_ENABLED = 4"
definition MESSAGE_DISABLED :: u8 where [grbl_const]: "MESSAGE_DISABLED = 5"
definition MESSAGE_SAFETY_DOOR_AJAR :: u8 where [grbl_const]: "MESSAGE_SAFETY_DOOR_AJAR = 6"
definition MESSAGE_CHECK_LIMITS :: u8 where [grbl_const]: "MESSAGE_CHECK_LIMITS = 7"
definition MESSAGE_PROGRAM_END :: u8 where [grbl_const]: "MESSAGE_PROGRAM_END = 8"
definition MESSAGE_RESTORE_DEFAULTS :: u8 where [grbl_const]: "MESSAGE_RESTORE_DEFAULTS = 9"
definition MESSAGE_SPINDLE_RESTORE :: u8 where [grbl_const]: "MESSAGE_SPINDLE_RESTORE = 10"
definition MESSAGE_SLEEP_MODE :: u8 where [grbl_const]: "MESSAGE_SLEEP_MODE = 11"

definition feedback_text :: "u8 \<Rightarrow> string" where
  "feedback_text code =
     (if code = MESSAGE_CRITICAL_EVENT then ''Reset to continue''
      else if code = MESSAGE_ALARM_LOCK
      then [CHR 0x27] @ ''$H'' @ [CHR 0x27, CHR 0x7C, CHR 0x27] @ ''$X'' @ [CHR 0x27] @ '' to unlock''
      else if code = MESSAGE_ALARM_UNLOCK then ''Caution: Unlocked''
      else if code = MESSAGE_ENABLED then ''Enabled''
      else if code = MESSAGE_DISABLED then ''Disabled''
      else if code = MESSAGE_SAFETY_DOOR_AJAR then ''Check Door''
      else if code = MESSAGE_CHECK_LIMITS then ''Check Limits''
      else if code = MESSAGE_PROGRAM_END then ''Pgm End''
      else if code = MESSAGE_RESTORE_DEFAULTS then ''Restoring defaults''
      else if code = MESSAGE_SPINDLE_RESTORE then ''Restoring spindle''
      else if code = MESSAGE_SLEEP_MODE then ''Sleeping'' else [])"

definition report_feedback_message :: "u8 \<Rightarrow> machine \<Rightarrow> machine" where
  "report_feedback_message code m =
     report_util_feedback_line_feed (printPgmString (''[MSG:'' @ feedback_text code) m)"

definition GRBL_VERSION :: string where "GRBL_VERSION = ''1.1f''"
definition GRBL_VERSION_BUILD :: string where "GRBL_VERSION_BUILD = ''20170801''"

definition report_init_message :: "machine \<Rightarrow> machine" where
  "report_init_message m =
     printPgmString (CR_LF @ ''Grbl '' @ GRBL_VERSION @ '' ['' @ [CHR 0x27, CHR 0x24, CHR 0x27] @ '' for help]'' @ CR_LF) m"

definition report_grbl_help :: "machine \<Rightarrow> machine" where
  "report_grbl_help m =
     printPgmString (''[HLP:$$ $# $G $I $N $x=val $Nx=line $J=line $SLP $C $X $H ~ ! ? ctrl-x]'' @ CR_LF) m"

section \<open>Settings and parameters\<close>

text \<open>The axis settings, printed in the units of the commands that store them.\<close>

definition axis_setting_value :: "settings_t \<Rightarrow> nat \<Rightarrow> nat \<Rightarrow> f32" where
  "axis_setting_value s set_idx idx =
     (if set_idx = 0 then steps_per_mm s ! idx
      else if set_idx = 1 then max_rate s ! idx
      else if set_idx = 2 then f_div (acceleration s ! idx) (f_of_int (60 * 60))
      else f_neg (max_travel s ! idx))"

definition report_axis_settings :: "nat \<Rightarrow> u8 \<Rightarrow> machine \<Rightarrow> machine" where
  "report_axis_settings set_idx v m =
     fold (\<lambda>idx m. report_util_float_setting (v + of_nat idx) (axis_setting_value (mset m) set_idx idx)
                     N_DECIMAL_SETTINGVALUE m) [0..<N_AXIS] m"

definition flag_value :: "u8 \<Rightarrow> u8 \<Rightarrow> u8" where
  "flag_value flags flag = (if bit_istrue flags flag then 1 else 0)"

definition report_grbl_settings :: "machine \<Rightarrow> machine" where
  "report_grbl_settings m =
     (let s = mset m; fl = settings_flags s;
          m = report_util_uint8_setting 0 (pulse_microseconds s) m;
          m = report_util_uint8_setting 1 (stepper_idle_lock_time s) m;
          m = report_util_uint8_setting 2 (step_invert_mask s) m;
          m = report_util_uint8_setting 3 (dir_invert_mask s) m;
          m = report_util_uint8_setting 4 (flag_value fl BITFLAG_INVERT_ST_ENABLE) m;
          m = report_util_uint8_setting 5 (flag_value fl BITFLAG_INVERT_LIMIT_PINS) m;
          m = report_util_uint8_setting 6 (flag_value fl BITFLAG_INVERT_PROBE_PIN) m;
          m = report_util_uint8_setting 10 (status_report_mask s) m;
          m = report_util_float_setting 11 (junction_deviation s) N_DECIMAL_SETTINGVALUE m;
          m = report_util_float_setting 12 (arc_tolerance s) N_DECIMAL_SETTINGVALUE m;
          m = report_util_uint8_setting 13 (flag_value fl BITFLAG_REPORT_INCHES) m;
          m = report_util_uint8_setting 20 (flag_value fl BITFLAG_SOFT_LIMIT_ENABLE) m;
          m = report_util_uint8_setting 21 (flag_value fl BITFLAG_HARD_LIMIT_ENABLE) m;
          m = report_util_uint8_setting 22 (flag_value fl BITFLAG_HOMING_ENABLE) m;
          m = report_util_uint8_setting 23 (homing_dir_mask s) m;
          m = report_util_float_setting 24 (homing_feed_rate s) N_DECIMAL_SETTINGVALUE m;
          m = report_util_float_setting 25 (homing_seek_rate s) N_DECIMAL_SETTINGVALUE m;
          m = report_util_uint8_setting 26 (ucast (homing_debounce_delay s)) m;
          m = report_util_float_setting 27 (homing_pulloff s) N_DECIMAL_SETTINGVALUE m;
          m = report_util_float_setting 30 (rpm_max s) N_DECIMAL_RPMVALUE m;
          m = report_util_float_setting 31 (rpm_min s) N_DECIMAL_RPMVALUE m;
          m = report_util_uint8_setting 32 (flag_value fl BITFLAG_LASER_MODE) m
      in fold (\<lambda>set_idx. report_axis_settings set_idx
                 (AXIS_SETTINGS_START_VAL + of_nat set_idx * AXIS_SETTINGS_INCREMENT))
           [0..<unat AXIS_N_SETTINGS] m)"

definition report_probe_parameters :: "machine \<Rightarrow> machine" where
  "report_probe_parameters m =
     (let m = printPgmString ''[PRB:'' m;
          print_position = system_convert_array_steps_to_mpos (steps_per_mm (mset m)) (sys_probe_position (rt m));
          m = report_util_axis_values print_position m;
          m = printPgmString '':'' m;
          m = printPgmString (print_uint8_base10 (sys_probe_succeeded (sys m))) m
      in report_util_feedback_line_feed m)"

section \<open>Parser modes\<close>

definition report_gcode_modes :: "machine \<Rightarrow> machine" where
  "report_gcode_modes m =
     (let g = gc_state m; md = modal g; fl = settings_flags (mset m);
          m = printPgmString ''[GC:G'' m;
          m = (if MOTION_MODE_PROBE_TOWARD \<le> motion md
               then printPgmString (print_uint8_base10 (motion md - (MOTION_MODE_PROBE_TOWARD - 2)))
                      (printPgmString ''38.'' m)
               else printPgmString (print_uint8_base10 (motion md)) m);
          m = printPgmString (print_uint8_base10 (coord_select md + 54)) (report_util_gcode_modes_G m);
          m = printPgmString (print_uint8_base10 (plane_select md + 17)) (report_util_gcode_modes_G m);
          m = printPgmString (print_uint8_base10 (21 - units md)) (report_util_gcode_modes_G m);
          m = printPgmString (print_uint8_base10 (distance md + 90)) (report_util_gcode_modes_G m);
          m = printPgmString (print_uint8_base10 (94 - feed_rate_mode md)) (report_util_gcode_modes_G m);
          m = (if program_flow md \<noteq> 0 then
                 (let m = report_util_gcode_modes_M m
                  in if program_flow md = PROGRAM_FLOW_PAUSED then printPgmString ''0'' m
                     else if program_flow md = PROGRAM_FLOW_COMPLETED_M2 \<or> program_flow md = PROGRAM_FLOW_COMPLETED_M30
                     then printPgmString (print_uint8_base10 (program_flow md)) m else m)
               else m);
          m = report_util_gcode_modes_M m;
          m = (if spindle_mode md = SPINDLE_ENABLE_CW then printPgmString ''3'' m
               else if spindle_mode md = SPINDLE_ENABLE_CCW then printPgmString ''4'' m
               else if spindle_mode md = SPINDLE_DISABLE then printPgmString ''5'' m else m);
          m = report_util_gcode_modes_M m;
          m = printPgmString (if coolant_mode md \<noteq> 0 then ''8'' else ''9'') m;
          m = printPgmString ('' T'' @ print_uint8_base10 (gc_tool g)) m;
          m = printPgmString ('' F'' @ printFloat_RateValue fl (gc_feed_rate g)) m;
          m = printPgmString ('' S'' @ printFloat (gc_spindle_speed g) N_DECIMAL_RPMVALUE) m
      in report_util_feedback_line_feed m)"

section \<open>Startup lines and build information\<close>

definition report_startup_line :: "u8 \<Rightarrow> u8 list \<Rightarrow> machine \<Rightarrow> machine" where
  "report_startup_line n line m =
     report_util_line_feed (printPgmString (line_string line)
       (printPgmString (''$N'' @ print_uint8_base10 n @ ''='') m))"

definition report_execute_startup_message :: "u8 list \<Rightarrow> u8 \<Rightarrow> machine \<Rightarrow> machine" where
  "report_execute_startup_message line code m =
     report_status_message code (printPgmString (''>'' @ line_string line @ '':'') m)"

definition report_build_info :: "u8 list \<Rightarrow> machine \<Rightarrow> machine" where
  "report_build_info line m =
     (let m = printPgmString (''[VER:'' @ GRBL_VERSION @ ''.'' @ GRBL_VERSION_BUILD @ '':'') m;
          m = report_util_feedback_line_feed (printPgmString (line_string line) m);
          m = printPgmString ''[OPT:'' m;
          m = printPgmString ''V'' m;
          m = printPgmString ''C'' m;
          m = printPgmString ('','' @ print_uint8_base10 (of_nat (BLOCK_BUFFER_SIZE - 1))) m;
          m = printPgmString ('','' @ print_uint8_base10 (of_nat RX_BUFFER_SIZE)) m
      in report_util_feedback_line_feed m)"

definition report_echo_line_received :: "u8 list \<Rightarrow> machine \<Rightarrow> machine" where
  "report_echo_line_received line m =
     report_util_feedback_line_feed (printPgmString (''[echo: '' @ line_string line) m)"

section \<open>The status report\<close>

definition BITFLAG_RT_STATUS_POSITION_TYPE :: u8 where [grbl_const]: "BITFLAG_RT_STATUS_POSITION_TYPE = 1"
definition BITFLAG_RT_STATUS_BUFFER_STATE :: u8 where [grbl_const]: "BITFLAG_RT_STATUS_BUFFER_STATE = 2"
definition REPORT_OVR_REFRESH_BUSY_COUNT :: u8 where [grbl_const]: "REPORT_OVR_REFRESH_BUSY_COUNT = 20"
definition REPORT_OVR_REFRESH_IDLE_COUNT :: u8 where [grbl_const]: "REPORT_OVR_REFRESH_IDLE_COUNT = 10"
definition REPORT_WCO_REFRESH_BUSY_COUNT :: u8 where [grbl_const]: "REPORT_WCO_REFRESH_BUSY_COUNT = 30"
definition REPORT_WCO_REFRESH_IDLE_COUNT :: u8 where [grbl_const]: "REPORT_WCO_REFRESH_IDLE_COUNT = 10"
definition TOOL_LENGTH_OFFSET_AXIS :: nat where [grbl_const]: "TOOL_LENGTH_OFFSET_AXIS = Z_AXIS"

text \<open>The state, with the sub-states of a hold and of the door; a jog being cancelled is a jog.\<close>

definition state_text :: "system_t \<Rightarrow> string" where
  "state_text y =
     (let s = sys_state y; sus = sys_suspend y in
      if s = STATE_IDLE then ''Idle''
      else if s = STATE_CYCLE then ''Run''
      else if s = STATE_HOLD \<and> sus AND SUSPEND_JOG_CANCEL = 0
      then ''Hold:'' @ (if sus AND SUSPEND_HOLD_COMPLETE \<noteq> 0 then ''0'' else ''1'')
      else if s = STATE_HOLD \<or> s = STATE_JOG then ''Jog''
      else if s = STATE_HOMING then ''Home''
      else if s = STATE_ALARM then ''Alarm''
      else if s = STATE_CHECK_MODE then ''Check''
      else if s = STATE_SAFETY_DOOR then
        ''Door:'' @ (if sus AND SUSPEND_INITIATE_RESTORE \<noteq> 0 then ''3''
                     else if sus AND SUSPEND_RETRACT_COMPLETE \<noteq> 0
                     then (if sus AND SUSPEND_SAFETY_DOOR_AJAR \<noteq> 0 then ''1'' else ''0'')
                     else ''2'')
      else if s = STATE_SLEEP then ''Sleep'' else [])"

text \<open>The work coordinate offset: coordinate system, G92 and tool length.\<close>

definition work_offset :: "parser_state_t \<Rightarrow> nat \<Rightarrow> f32" where
  "work_offset g idx =
     (let w = f_add (coord_system g ! idx) (coord_offset g ! idx)
      in if idx = TOOL_LENGTH_OFFSET_AXIS then f_add w (tool_length_offset g) else w)"

definition report_position :: "machine \<Rightarrow> machine" where
  "report_position m =
     (let machine_pos = bit_istrue (status_report_mask (mset m)) BITFLAG_RT_STATUS_POSITION_TYPE;
          mpos = system_convert_array_steps_to_mpos (steps_per_mm (mset m)) (sys_position (rt m));
          print_position = (if machine_pos then mpos
            else map (\<lambda>idx. f_sub (mpos ! idx) (work_offset (gc_state m) idx)) [0..<N_AXIS]);
          m = printPgmString (if machine_pos then ''|MPos:'' else ''|WPos:'') m
      in report_util_axis_values print_position m)"

definition report_buffer_state :: "machine \<Rightarrow> machine" where
  "report_buffer_state m =
     (if bit_istrue (status_report_mask (mset m)) BITFLAG_RT_STATUS_BUFFER_STATE
      then printPgmString (''|Bf:'' @ print_uint8_base10 (plan_get_block_buffer_available (mot m)) @ '',''
             @ print_uint8_base10 (serial_get_rx_buffer_available (ser m))) m
      else m)"

definition report_feed_speed :: "machine \<Rightarrow> machine" where
  "report_feed_speed m =
     printPgmString (''|FS:'' @ printFloat_RateValue (settings_flags (mset m)) (st_get_realtime_rate (sys m) (mot m))
       @ '','' @ printFloat (sys_spindle_speed (sys m)) N_DECIMAL_RPMVALUE) m"

definition pin_text :: "u8 \<Rightarrow> u8 \<Rightarrow> u8 \<Rightarrow> string" where
  "pin_text lim_pin_state ctrl_pin_state prb_pin_state =
     (if lim_pin_state OR ctrl_pin_state OR prb_pin_state \<noteq> 0 then
        ''|Pn:'' @ (if prb_pin_state \<noteq> 0 then ''P'' else [])
        @ (if bit_istrue lim_pin_state (bitw X_AXIS) then ''X'' else [])
        @ (if bit_istrue lim_pin_state (bitw Y_AXIS) then ''Y'' else [])
        @ (if bit_istrue lim_pin_state (bitw Z_AXIS) then ''Z'' else [])
        @ (if bit_istrue ctrl_pin_state CONTROL_PIN_INDEX_RESET then ''R'' else [])
        @ (if bit_istrue ctrl_pin_state CONTROL_PIN_INDEX_FEED_HOLD then ''H'' else [])
        @ (if bit_istrue ctrl_pin_state CONTROL_PIN_INDEX_CYCLE_START then ''S'' else [])
      else [])"

definition report_pins :: "machine \<Rightarrow> machine" where
  "report_pins m =
     printPgmString (pin_text (limits_get_state m) (system_control_get_state (CONTROL_PIN m))
                       (probe_get_state (prb m) (PROBE_PIN m))) m"

text \<open>States in which the refresh counters are reset to the slow rate.\<close>

definition report_busy :: "system_t \<Rightarrow> bool" where
  "report_busy y =
     (sys_state y AND (STATE_HOMING OR STATE_CYCLE OR STATE_HOLD OR STATE_JOG OR STATE_SAFETY_DOOR) \<noteq> 0)"

definition report_wco :: "machine \<Rightarrow> machine" where
  "report_wco m =
     (if 0 < sys_report_wco_counter (sys m)
      then on_sys (\<lambda>y. y\<lparr>sys_report_wco_counter := sys_report_wco_counter y - 1\<rparr>) m
      else (let m = on_sys (\<lambda>y. y\<lparr>sys_report_wco_counter :=
                      (if report_busy y then REPORT_WCO_REFRESH_BUSY_COUNT - 1 else REPORT_WCO_REFRESH_IDLE_COUNT - 1)\<rparr>) m;
                m = (if sys_report_ovr_counter (sys m) = 0 then on_sys (\<lambda>y. y\<lparr>sys_report_ovr_counter := 1\<rparr>) m else m);
                m = printPgmString ''|WCO:'' m
            in report_util_axis_values (map (work_offset (gc_state m)) [0..<N_AXIS]) m))"

definition accessory_text :: "u8 \<Rightarrow> u8 \<Rightarrow> string" where
  "accessory_text sp_state cl_state =
     (if sp_state \<noteq> 0 \<or> cl_state \<noteq> 0 then
        ''|A:'' @ (if sp_state \<noteq> 0 then (if sp_state = SPINDLE_STATE_CW then ''S'' else ''C'') else [])
        @ (if cl_state AND COOLANT_STATE_FLOOD \<noteq> 0 then ''F'' else [])
      else [])"

definition report_overrides :: "machine \<Rightarrow> machine" where
  "report_overrides m =
     (if 0 < sys_report_ovr_counter (sys m)
      then on_sys (\<lambda>y. y\<lparr>sys_report_ovr_counter := sys_report_ovr_counter y - 1\<rparr>) m
      else (let m = on_sys (\<lambda>y. y\<lparr>sys_report_ovr_counter :=
                      (if report_busy y then REPORT_OVR_REFRESH_BUSY_COUNT - 1 else REPORT_OVR_REFRESH_IDLE_COUNT - 1)\<rparr>) m
            in printPgmString (''|Ov:'' @ print_uint8_base10 (sys_f_override (sys m)) @ '',''
                 @ print_uint8_base10 (sys_r_override (sys m)) @ '',''
                 @ print_uint8_base10 (sys_spindle_speed_ovr (sys m))
                 @ accessory_text (spindle_get_state (spin m)) (coolant_get_state (cool m))) m))"

definition report_realtime_status :: "machine \<Rightarrow> machine" where
  "report_realtime_status m =
     (let m = printPgmString (''<'' @ state_text (sys m)) m;
          m = report_position m;
          m = report_buffer_state m;
          m = report_feed_speed m;
          m = report_pins m;
          m = report_wco m;
          m = report_overrides m
      in report_util_line_feed (printPgmString ''>'' m))"

section \<open>Characters of the reports\<close>

text \<open>Characters that do not frame a status report.\<close>

definition plain :: "char \<Rightarrow> bool" where
  "plain c = (c \<notin> {CHR 0x3C, CHR 0x3E, CHR 0x0D, CHR 0x0A})"

text \<open>\<open>m'\<close> is \<open>m\<close> after printing only plain characters.\<close>

definition says :: "machine \<Rightarrow> machine \<Rightarrow> bool" where
  "says m m' = (\<exists>s. tx_out m' = tx_out m @ s \<and> list_all plain s)"

lemma tx_out_print: "tx_out (printPgmString s m) = tx_out m @ s"
  by (simp add: printPgmString_def)

lemma says_refl [simp]: "says m m"
  by (simp add: says_def)

lemma says_trans: "says a b \<Longrightarrow> says b c \<Longrightarrow> says a c"
  unfolding says_def by (metis append.assoc list_all_append)

lemma says_print: "list_all plain s \<Longrightarrow> says m (printPgmString s m)"
  by (auto simp: says_def printPgmString_def)

lemma says_on_sys [simp]: "says m (on_sys f m)"
  by (simp add: says_def on_sys_def)

lemma says_fold: "(\<And>x m. x \<in> set xs \<Longrightarrow> says m (f x m)) \<Longrightarrow> says m (fold f xs m)"
proof (induction xs arbitrary: m)
  case Nil
  show ?case by simp
next
  case (Cons x xs)
  have "says m (f x m)" using Cons.prems by simp
  moreover have "says (f x m) (fold f xs (f x m))" using Cons.prems by (intro Cons.IH) simp
  ultimately show ?case using says_trans by simp
qed

lemma plain_digit: "d < 10 \<Longrightarrow> plain (digit_char d)"
proof -
  assume "d < 10"
  then have "of_char (digit_char d) = 48 + d" by (simp add: digit_char_def)
  moreover have "c \<in> {CHR 0x3C, CHR 0x3E, CHR 0x0D, CHR 0x0A} \<Longrightarrow> of_char c < (48::nat) \<or> (58::nat) < of_char c" for c
    by auto
  ultimately show "plain (digit_char d)" using \<open>d < 10\<close> unfolding plain_def by fastforce
qed

lemma plain_u8_digit: "plain (char_of (unat (48 + n mod 10 :: u8)))"
proof -
  have "unat (n mod 10) < 10" by (simp add: unat_mod)
  moreover have "unat (48 + n mod 10 :: u8) = 48 + unat (n mod 10)"
    using calculation by (simp add: unat_word_ariths)
  ultimately show ?thesis using plain_digit [of "unat (n mod 10)"] by (simp add: digit_char_def)
qed

lemma plain_u8_high: "n < 10 \<Longrightarrow> plain (char_of (48 + unat (n :: u8)))"
  using plain_digit [of "unat n"] by (simp add: digit_char_def word_less_nat_alt)

lemma plain_uint8: "list_all plain (print_uint8_base10 n)"
proof -
  have "n div 10 div 10 < 10"
    using div_le_mono [of "unat n" 255 100] unat_u8_le [of n]
    by (simp add: word_less_nat_alt unat_div flip: div_mult2_eq)
  moreover have "\<not> 10 \<le> x \<Longrightarrow> x < 10" for x :: u8 by simp
  ultimately have "plain (char_of (48 + unat (n div 10 div 10)))"
    and "\<not> 10 \<le> n \<Longrightarrow> plain (char_of (48 + unat n))"
    and "\<not> 10 \<le> n div 10 \<Longrightarrow> plain (char_of (48 + unat (n div 10)))"
    using plain_u8_high by auto
  moreover have "n div 10 < 10" if "\<not> 100 \<le> n"
    using that unat_u8_less [of n] by (simp add: word_less_nat_alt word_le_nat_alt unat_div)
  ultimately show ?thesis
    using plain_u8_digit [of n] plain_u8_digit [of "n div 10"] plain_u8_high
    by (auto simp: print_uint8_base10_def Let_def)
qed

lemma plain_print_buf:
  "(\<And>d. d \<in> set buf \<Longrightarrow> d < 10) \<Longrightarrow> i \<le> length buf \<Longrightarrow> list_all plain (print_buf buf dp i)"
proof (induction i)
  case 0
  show ?case by simp
next
  case (Suc i)
  have "buf ! i < 10" using Suc.prems by simp
  then show ?case using Suc plain_digit by (simp add: plain_def)
qed

lemma plain_printFloat: "list_all plain (printFloat n dp)"
proof -
  have "list_all plain (print_buf (float_buf a k) k (length (float_buf a k)))" for a k
    by (rule plain_print_buf) (auto simp: float_buf_less)
  then show ?thesis by (simp add: printFloat_def Let_def plain_def)
qed

lemma plain_coord: "list_all plain (printFloat_CoordValue fl n)"
  by (simp add: printFloat_CoordValue_def plain_printFloat)

lemma plain_rate: "list_all plain (printFloat_RateValue fl n)"
  by (simp add: printFloat_RateValue_def plain_printFloat)

lemmas plain_numbers = plain_uint8 plain_printFloat plain_coord plain_rate

section \<open>Parts of the status report\<close>

lemma says_axis_values: "says m (report_util_axis_values v m)"
proof -
  have "says m (let m = printPgmString (printFloat_CoordValue (settings_flags (mset m)) (v ! idx)) m
                in if idx < N_AXIS - 1 then printPgmString '','' m else m)" for idx m
    by (auto simp: Let_def plain_def plain_coord intro!: says_print says_trans [OF says_print says_print])
  then show ?thesis unfolding report_util_axis_values_def by (rule says_fold)
qed

lemma plain_state: "list_all plain (state_text y)"
  by (simp add: state_text_def Let_def plain_def)

lemma says_position: "says m (report_position m)"
  unfolding report_position_def Let_def
  by (rule says_trans [OF says_print says_axis_values]) (simp add: plain_def)

lemma says_buffer: "says m (report_buffer_state m)"
  by (auto simp: report_buffer_state_def plain_numbers plain_def intro!: says_print)

lemma says_feed: "says m (report_feed_speed m)"
  by (auto simp: report_feed_speed_def plain_numbers plain_def intro!: says_print)

lemma says_pins: "says m (report_pins m)"
  by (auto simp: report_pins_def pin_text_def plain_def intro!: says_print)

lemma says_wco: "says m (report_wco m)"
proof -
  have w: "list_all plain ''|WCO:''" by (simp add: plain_def)
  show ?thesis unfolding report_wco_def Let_def
    by (auto intro: says_trans [OF says_trans [OF says_on_sys says_print [OF w]] says_axis_values]
        says_trans [OF says_trans [OF says_trans [OF says_on_sys says_on_sys] says_print [OF w]] says_axis_values])
qed

lemma says_overrides: "says m (report_overrides m)"
  unfolding report_overrides_def Let_def
  by (auto simp: plain_numbers accessory_text_def plain_def
      intro!: says_trans [OF says_on_sys says_print])

section \<open>Properties\<close>

text \<open>
  C36. A status report is one line: it appends \<open><\<close>, a body without any of the characters
  \<open><\<close>, \<open>>\<close>, carriage return and line feed, and the closing \<open>>\<close> with the line end, whatever
  the state of the machine; a host that splits its input at these characters recovers it.
\<close>

theorem report_status_frame:
  "\<exists>body. tx_out (report_realtime_status m) = tx_out m @ ''<'' @ body @ ''>'' @ CR_LF
     \<and> list_all plain body"
proof -
  define m0 where "m0 = printPgmString (''<'' @ state_text (sys m)) m"
  define m1 where "m1 = report_pins (report_feed_speed (report_buffer_state (report_position m0)))"
  have "says m0 m1"
    unfolding m1_def
    by (rule says_trans [OF says_trans [OF says_trans [OF says_position says_buffer] says_feed] says_pins])
  then have "says m0 (report_overrides (report_wco m1))"
    by (rule says_trans [OF _ says_trans [OF says_wco says_overrides]])
  then obtain s where "tx_out (report_overrides (report_wco m1)) = tx_out m @ ''<'' @ state_text (sys m) @ s"
    and "list_all plain s"
    unfolding says_def by (metis append.assoc m0_def tx_out_print)
  moreover have "report_realtime_status m
      = report_util_line_feed (printPgmString ''>'' (report_overrides (report_wco m1)))"
    by (simp only: report_realtime_status_def Let_def m0_def m1_def)
  ultimately have "tx_out (report_realtime_status m) = tx_out m @ ''<'' @ (state_text (sys m) @ s) @ ''>'' @ CR_LF"
    by (simp only: report_util_line_feed_def tx_out_print append.assoc)
  then show ?thesis using plain_state [of "sys m"] \<open>list_all plain s\<close> by (metis list_all_append)
qed

lemma fold_invariant: "(\<And>x m. g (f x m) = g m) \<Longrightarrow> g (fold f xs m) = g m"
  by (induction xs arbitrary: m) simp_all

text \<open>Reports change nothing but the output and the two counters.\<close>

lemma print_fields [simp]:
  "sys (printPgmString s m) = sys m" "sys (report_util_axis_values v m) = sys m"
  "sys (report_util_line_feed m) = sys m"
  "sys (report_position m) = sys m" "sys (report_buffer_state m) = sys m"
  "sys (report_feed_speed m) = sys m" "sys (report_pins m) = sys m"
proof -
  show p: "sys (printPgmString s m) = sys m" for s m by (simp add: printPgmString_def)
  show a: "sys (report_util_axis_values v m) = sys m" for v m
    unfolding report_util_axis_values_def by (rule fold_invariant) (simp add: p Let_def)
  show "sys (report_util_line_feed m) = sys m" "sys (report_position m) = sys m"
    "sys (report_buffer_state m) = sys m" "sys (report_feed_speed m) = sys m" "sys (report_pins m) = sys m"
    by (simp_all add: p a report_util_line_feed_def report_position_def report_buffer_state_def
        report_feed_speed_def report_pins_def Let_def)
qed

lemma report_wco_counter:
  "sys_report_wco_counter (sys (report_realtime_status m)) =
     (if sys_report_wco_counter (sys m) = 0
      then (if report_busy (sys m) then 29 else 9) else sys_report_wco_counter (sys m) - 1)"
  by (simp add: report_realtime_status_def Let_def report_overrides_def report_wco_def on_sys_def
      word_neq_0_conv REPORT_WCO_REFRESH_BUSY_COUNT_def REPORT_WCO_REFRESH_IDLE_COUNT_def)

lemma report_wco_countdown:
  "n \<le> unat (sys_report_wco_counter (sys m)) \<Longrightarrow>
    sys_report_wco_counter (sys ((report_realtime_status ^^ n) m)) = sys_report_wco_counter (sys m) - of_nat n"
proof (induction n)
  case 0
  show ?case by simp
next
  case (Suc n)
  have ne: "sys_report_wco_counter (sys m) - of_nat n \<noteq> 0"
  proof
    assume "sys_report_wco_counter (sys m) - of_nat n = 0"
    then have "unat (sys_report_wco_counter (sys m)) = unat (of_nat n :: u8)" by simp
    also have "\<dots> \<le> n" by (simp add: unat_of_nat)
    finally show False using Suc.prems by simp
  qed
  have "sys_report_wco_counter (sys ((report_realtime_status ^^ n) m)) = sys_report_wco_counter (sys m) - of_nat n"
    by (rule Suc.IH) (use Suc.prems in simp)
  then show ?case using ne by (simp add: report_wco_counter del: right_minus_eq)
qed

lemma says_ex: "says m m' \<Longrightarrow> \<exists>s. tx_out m' = tx_out m @ s"
  by (auto simp: says_def)

lemma report_wco_prints:
  assumes "sys_report_wco_counter (sys m) = 0"
  shows "\<exists>b. tx_out (report_wco m) = tx_out m @ ''|WCO:'' @ b"
proof -
  obtain v m' where m': "report_wco m = report_util_axis_values v (printPgmString ''|WCO:'' m')"
    and "tx_out m' = tx_out m"
    using assms by (simp add: report_wco_def Let_def on_sys_def split: if_splits)
  moreover obtain b where "tx_out (report_wco m) = tx_out (printPgmString ''|WCO:'' m') @ b"
    using says_ex [OF says_axis_values] m' by metis
  ultimately have "tx_out (report_wco m) = tx_out m @ ''|WCO:'' @ b"
    by (simp only: tx_out_print append.assoc)
  then show ?thesis by blast
qed

text \<open>
  A host always learns the work offset again: with the refresh counter at \<open>k\<close>, the report
  after the next \<open>k\<close> ones contains the field \<open>|WCO:\<close>, and the counter is reset to less than 30.
\<close>

theorem report_wco_refresh:
  fixes m :: machine
  defines "k \<equiv> unat (sys_report_wco_counter (sys m))"
  defines "mk \<equiv> (report_realtime_status ^^ k) m"
  shows "(\<exists>a b. tx_out (report_realtime_status mk) = tx_out mk @ a @ ''|WCO:'' @ b)
    \<and> sys_report_wco_counter (sys (report_realtime_status mk)) < 30"
proof -
  have c: "sys_report_wco_counter (sys mk) = 0"
    unfolding mk_def using report_wco_countdown [of k m] by (simp add: k_def)
  define m0 where "m0 = printPgmString (''<'' @ state_text (sys mk)) mk"
  define m1 where "m1 = report_pins (report_feed_speed (report_buffer_state (report_position m0)))"
  have "says m0 m1"
    unfolding m1_def
    by (rule says_trans [OF says_trans [OF says_trans [OF says_position says_buffer] says_feed] says_pins])
  then obtain s where s: "tx_out m1 = tx_out mk @ ''<'' @ state_text (sys mk) @ s"
    using says_ex by (metis append.assoc m0_def tx_out_print)
  have "sys_report_wco_counter (sys m1) = 0" using c by (simp add: m1_def m0_def)
  then obtain b where b: "tx_out (report_wco m1) = tx_out m1 @ ''|WCO:'' @ b"
    using report_wco_prints by blast
  obtain d where d: "tx_out (report_overrides (report_wco m1)) = tx_out (report_wco m1) @ d"
    using says_ex [OF says_overrides] by blast
  have "report_realtime_status mk
      = report_util_line_feed (printPgmString ''>'' (report_overrides (report_wco m1)))"
    by (simp only: report_realtime_status_def Let_def m0_def m1_def)
  then have "tx_out (report_realtime_status mk)
      = tx_out mk @ (''<'' @ state_text (sys mk) @ s) @ ''|WCO:'' @ (b @ d @ ''>'' @ CR_LF)"
    using s b d by (simp only: report_util_line_feed_def tx_out_print append.assoc)
  then show ?thesis using c report_wco_counter [of mk] by (intro conjI, blast) simp
qed

end
