(* ===== verification/Protocol.thy ===== *)
theory Protocol
  imports Stepper_Prep Report "HOL-Library.Monad_Syntax"
begin

text \<open>
  protocol.c: the realtime state machine. \<open>protocol_exec_rt_system\<close> executes the flags that
  interrupts and the main program have set, \<open>protocol_exec_rt_suspend\<close> is the loop in which a
  held machine waits, and the blocking operations of the other files are built on them.

  Interrupts are taken where the main program copies a volatile flag byte, in the loop that
  waits for a reset, in delays and before the serial buffer is read: \<open>poll\<close> runs the next entry of
  the schedule there. A loop that may not end is a partial function into \<open>option\<close>; \<open>None\<close> is the
  run that does not return.
\<close>

section \<open>Constants\<close>

definition DEFAULT_FEED_OVERRIDE :: u8 where [grbl_const]: "DEFAULT_FEED_OVERRIDE = 100"
definition MAX_FEED_RATE_OVERRIDE :: u8 where [grbl_const]: "MAX_FEED_RATE_OVERRIDE = 200"
definition MIN_FEED_RATE_OVERRIDE :: u8 where [grbl_const]: "MIN_FEED_RATE_OVERRIDE = 10"
definition FEED_OVERRIDE_COARSE_INCREMENT :: u8 where [grbl_const]: "FEED_OVERRIDE_COARSE_INCREMENT = 10"
definition FEED_OVERRIDE_FINE_INCREMENT :: u8 where [grbl_const]: "FEED_OVERRIDE_FINE_INCREMENT = 1"
definition DEFAULT_RAPID_OVERRIDE :: u8 where [grbl_const]: "DEFAULT_RAPID_OVERRIDE = 100"
definition RAPID_OVERRIDE_MEDIUM :: u8 where [grbl_const]: "RAPID_OVERRIDE_MEDIUM = 50"
definition RAPID_OVERRIDE_LOW :: u8 where [grbl_const]: "RAPID_OVERRIDE_LOW = 25"
definition DEFAULT_SPINDLE_SPEED_OVERRIDE :: u8 where [grbl_const]: "DEFAULT_SPINDLE_SPEED_OVERRIDE = 100"
definition MAX_SPINDLE_SPEED_OVERRIDE :: u8 where [grbl_const]: "MAX_SPINDLE_SPEED_OVERRIDE = 200"
definition MIN_SPINDLE_SPEED_OVERRIDE :: u8 where [grbl_const]: "MIN_SPINDLE_SPEED_OVERRIDE = 10"
definition SPINDLE_OVERRIDE_COARSE_INCREMENT :: u8 where [grbl_const]: "SPINDLE_OVERRIDE_COARSE_INCREMENT = 10"
definition SPINDLE_OVERRIDE_FINE_INCREMENT :: u8 where [grbl_const]: "SPINDLE_OVERRIDE_FINE_INCREMENT = 1"
definition SAFETY_DOOR_SPINDLE_DELAY :: f32 where "SAFETY_DOOR_SPINDLE_DELAY = f_of_int 4"
definition SAFETY_DOOR_COOLANT_DELAY :: f32 where "SAFETY_DOOR_COOLANT_DELAY = f_of_int 1"
definition DWELL_TIME_STEP :: u16 where [grbl_const]: "DWELL_TIME_STEP = 50"
definition DELAY_MODE_DWELL :: u8 where [grbl_const]: "DELAY_MODE_DWELL = 0"
definition DELAY_MODE_SYS_SUSPEND :: u8 where [grbl_const]: "DELAY_MODE_SYS_SUSPEND = 1"

section \<open>Positions\<close>

definition gc_sync_position :: "machine \<Rightarrow> machine" where
  "gc_sync_position m =
     m\<lparr>gc_state := (gc_state m)\<lparr>gc_position :=
         system_convert_array_steps_to_mpos (steps_per_mm (mset m)) (sys_position (rt m))\<rparr>\<rparr>"

definition m_plan_sync_position :: "machine \<Rightarrow> machine" where
  "m_plan_sync_position m = on_mot (plan_sync_position (sys_position (rt m))) m"

section \<open>Alarms\<close>

text \<open>The loop of a critical event, which only a reset leaves.\<close>

partial_function (option) wait_for_reset :: "machine \<Rightarrow> machine option" where
  "wait_for_reset m =
     (let m = poll m in if bit_isfalse (sys_rt_exec_state (rt m)) EXEC_RESET then wait_for_reset m else Some m)"

definition exec_rt_alarm :: "u8 \<Rightarrow> machine \<Rightarrow> machine option" where
  "exec_rt_alarm rt_exec m =
     (if rt_exec \<noteq> 0 then do {
        let m = on_sys (\<lambda>y. y\<lparr>sys_state := STATE_ALARM\<rparr>) m;
        let m = report_alarm_message rt_exec m;
        m \<leftarrow> (if rt_exec = EXEC_ALARM_HARD_LIMIT \<or> rt_exec = EXEC_ALARM_SOFT_LIMIT
              then (let m = report_feedback_message MESSAGE_CRITICAL_EVENT m
                    in wait_for_reset (on_rt (system_clear_exec_state_flag EXEC_RESET) m))
              else Some m);
        Some (on_rt system_clear_exec_alarm m) }
      else Some m)"

section \<open>Holds\<close>

definition HOLD_FLAGS :: u8 where [grbl_const]:
  "HOLD_FLAGS = EXEC_MOTION_CANCEL OR EXEC_FEED_HOLD OR EXEC_SAFETY_DOOR OR EXEC_SLEEP"

text \<open>Starting a hold in a moving machine, or completing it at once in an idle one.\<close>

definition hold_initiate :: "u8 \<Rightarrow> machine \<Rightarrow> machine" where
  "hold_initiate rt_exec m =
     (let m = (if sys_state (sys m) AND (STATE_CYCLE OR STATE_JOG) \<noteq> 0
                  \<and> sys_suspend (sys m) AND (SUSPEND_MOTION_CANCEL OR SUSPEND_JOG_CANCEL) = 0
               then (let m = on_mot st_update_plan_block_parameters m;
                         m = on_sys (\<lambda>y. y\<lparr>sys_step_control := STEP_CONTROL_EXECUTE_HOLD\<rparr>) m
                     in if sys_state (sys m) = STATE_JOG \<and> rt_exec AND EXEC_SLEEP = 0
                        then on_sys (\<lambda>y. y\<lparr>sys_suspend := sys_suspend y OR SUSPEND_JOG_CANCEL\<rparr>) m else m)
               else m)
      in if sys_state (sys m) = STATE_IDLE then on_sys (\<lambda>y. y\<lparr>sys_suspend := SUSPEND_HOLD_COMPLETE\<rparr>) m else m)"

definition hold_safety_door :: "machine \<Rightarrow> machine" where
  "hold_safety_door m =
     (let m = report_feedback_message MESSAGE_SAFETY_DOOR_AJAR m;
          m = (if sys_suspend (sys m) AND SUSPEND_JOG_CANCEL = 0
               then (let m = (if sys_state (sys m) = STATE_SAFETY_DOOR
                                 \<and> sys_suspend (sys m) AND SUSPEND_INITIATE_RESTORE \<noteq> 0
                              then on_sys (\<lambda>y. y\<lparr>sys_suspend := (sys_suspend y
                                     AND NOT (SUSPEND_RETRACT_COMPLETE OR SUSPEND_INITIATE_RESTORE
                                              OR SUSPEND_RESTORE_COMPLETE)) OR SUSPEND_RESTART_RETRACT\<rparr>) m
                              else m)
                     in if sys_state (sys m) \<noteq> STATE_SLEEP
                        then on_sys (\<lambda>y. y\<lparr>sys_state := STATE_SAFETY_DOOR\<rparr>) m else m)
               else m)
      in on_sys (\<lambda>y. y\<lparr>sys_suspend := sys_suspend y OR SUSPEND_SAFETY_DOOR_AJAR\<rparr>) m)"

definition exec_rt_hold :: "u8 \<Rightarrow> machine \<Rightarrow> machine" where
  "exec_rt_hold rt_exec m =
     (if rt_exec AND HOLD_FLAGS \<noteq> 0 then
        (let m = (if sys_state (sys m) AND (STATE_ALARM OR STATE_CHECK_MODE) = 0 then
                    (let m = hold_initiate rt_exec m;
                         m = (if rt_exec AND EXEC_MOTION_CANCEL \<noteq> 0 \<and> sys_state (sys m) AND STATE_JOG = 0
                              then on_sys (\<lambda>y. y\<lparr>sys_suspend := sys_suspend y OR SUSPEND_MOTION_CANCEL\<rparr>) m else m);
                         m = (if rt_exec AND EXEC_FEED_HOLD \<noteq> 0
                                 \<and> sys_state (sys m) AND (STATE_SAFETY_DOOR OR STATE_JOG OR STATE_SLEEP) = 0
                              then on_sys (\<lambda>y. y\<lparr>sys_state := STATE_HOLD\<rparr>) m else m)
                     in if rt_exec AND EXEC_SAFETY_DOOR \<noteq> 0 then hold_safety_door m else m)
                  else m);
             m = (if rt_exec AND EXEC_SLEEP \<noteq> 0 then
                    (let m = (if sys_state (sys m) = STATE_ALARM
                              then on_sys (\<lambda>y. y\<lparr>sys_suspend := sys_suspend y
                                     OR (SUSPEND_RETRACT_COMPLETE OR SUSPEND_HOLD_COMPLETE)\<rparr>) m else m)
                     in on_sys (\<lambda>y. y\<lparr>sys_state := STATE_SLEEP\<rparr>) m)
                  else m)
         in on_rt (system_clear_exec_state_flag HOLD_FLAGS) m)
      else m)"

section \<open>Starting and ending a cycle\<close>

text \<open>Resuming from the safety door.\<close>

definition door_resume :: "system_t \<Rightarrow> system_t" where
  "door_resume y =
     (if sys_state y = STATE_SAFETY_DOOR \<and> sys_suspend y AND SUSPEND_SAFETY_DOOR_AJAR = 0 then
        (if sys_suspend y AND SUSPEND_RESTORE_COMPLETE \<noteq> 0 then y\<lparr>sys_state := STATE_IDLE\<rparr>
         else if sys_suspend y AND SUSPEND_RETRACT_COMPLETE \<noteq> 0
         then y\<lparr>sys_suspend := sys_suspend y OR SUSPEND_INITIATE_RESTORE\<rparr> else y)
      else y)"

definition cycle_start :: "machine \<Rightarrow> machine option" where
  "cycle_start m =
     (if sys_state (sys m) = STATE_HOLD \<and> sys_spindle_stop_ovr (sys m) \<noteq> 0
      then Some (on_sys (\<lambda>y. y\<lparr>sys_spindle_stop_ovr := sys_spindle_stop_ovr y OR SPINDLE_STOP_OVR_RESTORE_CYCLE\<rparr>) m)
      else do {
        let m = on_sys (\<lambda>y. y\<lparr>sys_step_control := STEP_CONTROL_NORMAL_OP\<rparr>) m;
        if plan_get_current_block (mot m) \<noteq> None \<and> bit_isfalse (sys_suspend (sys m)) SUSPEND_MOTION_CANCEL
        then do {
          m \<leftarrow> st_prep_buffer (on_sys (\<lambda>y. y\<lparr>sys_suspend := SUSPEND_DISABLE, sys_state := STATE_CYCLE\<rparr>) m);
          Some (on_mot (st_wake_up (mset m)) m) }
        else Some (on_sys (\<lambda>y. y\<lparr>sys_suspend := SUSPEND_DISABLE, sys_state := STATE_IDLE\<rparr>) m) })"

definition exec_rt_cycle_start :: "u8 \<Rightarrow> machine \<Rightarrow> machine option" where
  "exec_rt_cycle_start rt_exec m =
     (if rt_exec AND EXEC_CYCLE_START \<noteq> 0 then do {
        m \<leftarrow> (if rt_exec AND (EXEC_FEED_HOLD OR EXEC_MOTION_CANCEL OR EXEC_SAFETY_DOOR) = 0 then do {
                let m = on_sys door_resume m;
                if sys_state (sys m) = STATE_IDLE
                   \<or> sys_state (sys m) AND STATE_HOLD \<noteq> 0 \<and> sys_suspend (sys m) AND SUSPEND_HOLD_COMPLETE \<noteq> 0
                then cycle_start m else Some m }
              else Some m);
        Some (on_rt (system_clear_exec_state_flag EXEC_CYCLE_START) m) }
      else Some m)"

definition exec_rt_cycle_stop :: "u8 \<Rightarrow> machine \<Rightarrow> machine" where
  "exec_rt_cycle_stop rt_exec m =
     (if rt_exec AND EXEC_CYCLE_STOP \<noteq> 0 then
        (let m =
          (if sys_state (sys m) AND (STATE_HOLD OR STATE_SAFETY_DOOR OR STATE_SLEEP) \<noteq> 0
              \<and> sys_soft_limit (sys m) = 0 \<and> sys_suspend (sys m) AND SUSPEND_JOG_CANCEL = 0 then
             (let m = on_mot (plan_cycle_reinitialize st_update_plan_block_parameters) m;
                  m = (if sys_step_control (sys m) AND STEP_CONTROL_EXECUTE_HOLD \<noteq> 0
                       then on_sys (\<lambda>y. y\<lparr>sys_suspend := sys_suspend y OR SUSPEND_HOLD_COMPLETE\<rparr>) m else m)
              in on_sys (\<lambda>y. y\<lparr>sys_step_control :=
                   bit_false (sys_step_control y) (STEP_CONTROL_EXECUTE_HOLD OR STEP_CONTROL_EXECUTE_SYS_MOTION)\<rparr>) m)
           else
             (let m = (if sys_suspend (sys m) AND SUSPEND_JOG_CANCEL \<noteq> 0 then
                         (let m = on_sys (\<lambda>y. y\<lparr>sys_step_control := STEP_CONTROL_NORMAL_OP\<rparr>) m;
                              m = st_reset (on_mot plan_reset m)
                          in m_plan_sync_position (gc_sync_position m))
                       else m)
              in if sys_suspend (sys m) AND SUSPEND_SAFETY_DOOR_AJAR \<noteq> 0
                 then on_sys (\<lambda>y. y\<lparr>sys_suspend := (sys_suspend y AND NOT SUSPEND_JOG_CANCEL) OR SUSPEND_HOLD_COMPLETE,
                                   sys_state := STATE_SAFETY_DOOR\<rparr>) m
                 else on_sys (\<lambda>y. y\<lparr>sys_suspend := SUSPEND_DISABLE, sys_state := STATE_IDLE\<rparr>) m))
         in on_rt (system_clear_exec_state_flag EXEC_CYCLE_STOP) m)
      else m)"

text \<open>The state flags; the result says whether the caller goes on, which a reset denies.\<close>

definition exec_rt_state :: "u8 \<Rightarrow> machine \<Rightarrow> (bool \<times> machine) option" where
  "exec_rt_state rt_exec m =
     (if rt_exec \<noteq> 0 then
        (if rt_exec AND EXEC_RESET \<noteq> 0 then Some (False, on_sys (\<lambda>y. y\<lparr>sys_abort := 1\<rparr>) m)
         else do {
           let m = (if rt_exec AND EXEC_STATUS_REPORT \<noteq> 0
                    then on_rt (system_clear_exec_state_flag EXEC_STATUS_REPORT) (report_realtime_status m) else m);
           let m = exec_rt_hold rt_exec m;
           m \<leftarrow> exec_rt_cycle_start rt_exec m;
           Some (True, exec_rt_cycle_stop rt_exec m) })
      else Some (True, m))"

section \<open>Overrides\<close>

definition feed_override :: "u8 \<Rightarrow> u8 \<Rightarrow> u8" where
  "feed_override rt_exec f =
     (let f = (if rt_exec AND EXEC_FEED_OVR_RESET \<noteq> 0 then DEFAULT_FEED_OVERRIDE else f);
          f = (if rt_exec AND EXEC_FEED_OVR_COARSE_PLUS \<noteq> 0 then f + FEED_OVERRIDE_COARSE_INCREMENT else f);
          f = (if rt_exec AND EXEC_FEED_OVR_COARSE_MINUS \<noteq> 0 then f - FEED_OVERRIDE_COARSE_INCREMENT else f);
          f = (if rt_exec AND EXEC_FEED_OVR_FINE_PLUS \<noteq> 0 then f + FEED_OVERRIDE_FINE_INCREMENT else f);
          f = (if rt_exec AND EXEC_FEED_OVR_FINE_MINUS \<noteq> 0 then f - FEED_OVERRIDE_FINE_INCREMENT else f);
          f = min f MAX_FEED_RATE_OVERRIDE
      in max f MIN_FEED_RATE_OVERRIDE)"

definition rapid_override :: "u8 \<Rightarrow> u8 \<Rightarrow> u8" where
  "rapid_override rt_exec r =
     (let r = (if rt_exec AND EXEC_RAPID_OVR_RESET \<noteq> 0 then DEFAULT_RAPID_OVERRIDE else r);
          r = (if rt_exec AND EXEC_RAPID_OVR_MEDIUM \<noteq> 0 then RAPID_OVERRIDE_MEDIUM else r)
      in if rt_exec AND EXEC_RAPID_OVR_LOW \<noteq> 0 then RAPID_OVERRIDE_LOW else r)"

definition exec_rt_motion_override :: "u8 \<Rightarrow> machine \<Rightarrow> machine" where
  "exec_rt_motion_override rt_exec m =
     (if rt_exec \<noteq> 0 then
        (let m = on_rt system_clear_exec_motion_overrides m;
             new_f_override = feed_override rt_exec (sys_f_override (sys m));
             new_r_override = rapid_override rt_exec (sys_r_override (sys m))
         in if new_f_override \<noteq> sys_f_override (sys m) \<or> new_r_override \<noteq> sys_r_override (sys m)
            then (let m = on_sys (\<lambda>y. y\<lparr>sys_f_override := new_f_override, sys_r_override := new_r_override,
                                    sys_report_ovr_counter := 0\<rparr>) m;
                      m = on_mot (plan_update_velocity_profile_parameters (sys m)) m
                  in on_mot (plan_cycle_reinitialize st_update_plan_block_parameters) m)
            else m)
      else m)"

definition spindle_override :: "u8 \<Rightarrow> u8 \<Rightarrow> u8" where
  "spindle_override rt_exec s =
     (let s = (if rt_exec AND EXEC_SPINDLE_OVR_RESET \<noteq> 0 then DEFAULT_SPINDLE_SPEED_OVERRIDE else s);
          s = (if rt_exec AND EXEC_SPINDLE_OVR_COARSE_PLUS \<noteq> 0 then s + SPINDLE_OVERRIDE_COARSE_INCREMENT else s);
          s = (if rt_exec AND EXEC_SPINDLE_OVR_COARSE_MINUS \<noteq> 0 then s - SPINDLE_OVERRIDE_COARSE_INCREMENT else s);
          s = (if rt_exec AND EXEC_SPINDLE_OVR_FINE_PLUS \<noteq> 0 then s + SPINDLE_OVERRIDE_FINE_INCREMENT else s);
          s = (if rt_exec AND EXEC_SPINDLE_OVR_FINE_MINUS \<noteq> 0 then s - SPINDLE_OVERRIDE_FINE_INCREMENT else s);
          s = min s MAX_SPINDLE_SPEED_OVERRIDE
      in max s MIN_SPINDLE_SPEED_OVERRIDE)"

definition coolant_toggle :: "machine \<Rightarrow> machine" where
  "coolant_toggle m =
     (if sys_state (sys m) = STATE_IDLE \<or> sys_state (sys m) AND (STATE_CYCLE OR STATE_HOLD) \<noteq> 0 then
        (let coolant_state = coolant_mode (modal (gc_state m));
             coolant_state = (if coolant_state AND COOLANT_FLOOD_ENABLE \<noteq> 0
                              then bit_false coolant_state COOLANT_FLOOD_ENABLE
                              else coolant_state OR COOLANT_FLOOD_ENABLE);
             m = m_coolant_set_state coolant_state m
         in m\<lparr>gc_state := (gc_state m)\<lparr>modal := (modal (gc_state m))\<lparr>coolant_mode := coolant_state\<rparr>\<rparr>\<rparr>)
      else m)"

definition exec_rt_accessory_override :: "u8 \<Rightarrow> machine \<Rightarrow> machine" where
  "exec_rt_accessory_override rt_exec m =
     (if rt_exec \<noteq> 0 then
        (let m = on_rt system_clear_exec_accessory_overrides m;
             last_s_override = spindle_override rt_exec (sys_spindle_speed_ovr (sys m));
             m = (if last_s_override \<noteq> sys_spindle_speed_ovr (sys m)
                  then on_sys (\<lambda>y. y\<lparr>sys_step_control := bit_true (sys_step_control y) STEP_CONTROL_UPDATE_SPINDLE_PWM,
                                    sys_spindle_speed_ovr := last_s_override, sys_report_ovr_counter := 0\<rparr>) m
                  else m);
             m = (if rt_exec AND EXEC_SPINDLE_OVR_STOP \<noteq> 0 \<and> sys_state (sys m) = STATE_HOLD then
                    (if sys_spindle_stop_ovr (sys m) = 0
                     then on_sys (\<lambda>y. y\<lparr>sys_spindle_stop_ovr := SPINDLE_STOP_OVR_INITIATE\<rparr>) m
                     else if sys_spindle_stop_ovr (sys m) AND SPINDLE_STOP_OVR_ENABLED \<noteq> 0
                     then on_sys (\<lambda>y. y\<lparr>sys_spindle_stop_ovr := sys_spindle_stop_ovr y OR SPINDLE_STOP_OVR_RESTORE\<rparr>) m
                     else m)
                  else m)
         in if rt_exec AND (EXEC_COOLANT_FLOOD_OVR_TOGGLE OR EXEC_COOLANT_MIST_OVR_TOGGLE) \<noteq> 0
            then coolant_toggle m else m)
      else m)"

section \<open>The realtime system\<close>

definition RELOAD_STATES :: u8 where [grbl_const]:
  "RELOAD_STATES = STATE_CYCLE OR STATE_HOLD OR STATE_SAFETY_DOOR OR STATE_HOMING OR STATE_SLEEP OR STATE_JOG"

text \<open>The overrides, and the step segments that keep the motion fed.\<close>

definition exec_rt_overrides :: "machine \<Rightarrow> machine option" where
  "exec_rt_overrides m =
     (let m = poll m;
          m = exec_rt_motion_override (sys_rt_exec_motion_override (rt m)) m;
          m = poll m;
          m = exec_rt_accessory_override (sys_rt_exec_accessory_override (rt m)) m
      in if sys_state (sys m) AND RELOAD_STATES \<noteq> 0 then st_prep_buffer m else Some m)"

definition protocol_exec_rt_system :: "machine \<Rightarrow> machine option" where
  "protocol_exec_rt_system m = do {
     let m = poll m;
     m \<leftarrow> exec_rt_alarm (sys_rt_exec_alarm (rt m)) m;
     let m = poll m;
     (continue, m) \<leftarrow> exec_rt_state (sys_rt_exec_state (rt m)) m;
     if continue then exec_rt_overrides m else Some m }"

section \<open>Delays\<close>

text \<open>
  \<open>delay_sec\<close> waits in steps of 50 ms, running the realtime system before each. \<open>rt\<close> is what
  runs there: all of it for a dwell, without the suspend loop inside a suspend, where a door
  that opens again ends the wait.
\<close>

fun delay_loop :: "(machine \<Rightarrow> machine option) \<Rightarrow> u8 \<Rightarrow> nat \<Rightarrow> machine \<Rightarrow> machine option" where
  "delay_loop rt_run mode 0 m = Some m"
| "delay_loop rt_run mode (Suc i) m =
     (if sys_abort (sys m) \<noteq> 0 then Some m
      else do {
        m \<leftarrow> rt_run m;
        if mode \<noteq> DELAY_MODE_DWELL \<and> sys_suspend (sys m) AND SUSPEND_RESTART_RETRACT \<noteq> 0 then Some m
        else delay_loop rt_run mode i (m\<lparr>events := events m @ [Ev_delay_ms DWELL_TIME_STEP]\<rparr>) })"

definition delay_steps :: "f32 \<Rightarrow> nat" where
  "delay_steps seconds =
     unat (word_of_int (f_to_int (f_ceil (f_mul (f_of_int (1000 div uint DWELL_TIME_STEP)) seconds))) :: u16)"

section \<open>Suspension\<close>

text \<open>The condition and the spindle speed a suspended machine restores.\<close>

definition restore_condition :: "machine \<Rightarrow> u8 \<times> f32" where
  "restore_condition m =
     (case plan_get_current_block (mot m) of
        None \<Rightarrow> (spindle_mode (modal (gc_state m)) OR coolant_mode (modal (gc_state m)), gc_spindle_speed (gc_state m))
      | Some i \<Rightarrow> (condition (blk (mot m) i), pb_spindle_speed (blk (mot m) i)))"

definition de_energize :: "machine \<Rightarrow> machine" where
  "de_energize m = m_coolant_set_state COOLANT_DISABLE (m_spindle_set_state SPINDLE_DISABLE f_zero m)"

text \<open>Restarting spindle and coolant when the door has been closed and the cycle is resumed.\<close>

definition restore_spindle :: "u8 \<Rightarrow> f32 \<Rightarrow> machine \<Rightarrow> machine option" where
  "restore_spindle cond rpm m =
     (if spindle_mode (modal (gc_state m)) \<noteq> SPINDLE_DISABLE
         \<and> bit_isfalse (sys_suspend (sys m)) SUSPEND_RESTART_RETRACT then
        (if bit_istrue (settings_flags (mset m)) BITFLAG_LASER_MODE
         then Some (on_sys (\<lambda>y. y\<lparr>sys_step_control := bit_true (sys_step_control y) STEP_CONTROL_UPDATE_SPINDLE_PWM\<rparr>) m)
         else delay_loop protocol_exec_rt_system DELAY_MODE_SYS_SUSPEND (delay_steps SAFETY_DOOR_SPINDLE_DELAY)
                (m_spindle_set_state (cond AND (PL_COND_FLAG_SPINDLE_CW OR PL_COND_FLAG_SPINDLE_CCW)) rpm m))
      else Some m)"

definition restore_coolant :: "u8 \<Rightarrow> machine \<Rightarrow> machine option" where
  "restore_coolant cond m =
     (if coolant_mode (modal (gc_state m)) \<noteq> COOLANT_DISABLE
         \<and> bit_isfalse (sys_suspend (sys m)) SUSPEND_RESTART_RETRACT
      then delay_loop protocol_exec_rt_system DELAY_MODE_SYS_SUSPEND (delay_steps SAFETY_DOOR_COOLANT_DELAY)
             (m_coolant_set_state (cond AND (PL_COND_FLAG_COOLANT_FLOOD OR PL_COND_FLAG_COOLANT_FLOOD)) m)
      else Some m)"

text \<open>Sleep: everything is off, and only a reset ends the loop.\<close>

partial_function (option) sleep_loop :: "machine \<Rightarrow> machine option" where
  "sleep_loop m =
     (if sys_abort (sys m) = 0 then Option.bind (protocol_exec_rt_system m) sleep_loop else Some m)"

text \<open>One round for the door and the sleep state; the flag says whether the loop goes on.\<close>

definition suspend_door :: "u8 \<Rightarrow> f32 \<Rightarrow> machine \<Rightarrow> (bool \<times> machine) option" where
  "suspend_door cond rpm m =
     (if bit_isfalse (sys_suspend (sys m)) SUSPEND_RETRACT_COMPLETE then
        (let m = on_sys (\<lambda>y. y\<lparr>sys_spindle_stop_ovr := SPINDLE_STOP_OVR_DISABLED\<rparr>) m;
             m = de_energize m
         in Some (True, on_sys (\<lambda>y. y\<lparr>sys_suspend :=
              (sys_suspend y AND NOT SUSPEND_RESTART_RETRACT) OR SUSPEND_RETRACT_COMPLETE\<rparr>) m))
      else if sys_state (sys m) = STATE_SLEEP then do {
        m \<leftarrow> sleep_loop (st_go_idle (de_energize (report_feedback_message MESSAGE_SLEEP_MODE m)));
        Some (False, m) }
      else do {
        let m = (if sys_state (sys m) = STATE_SAFETY_DOOR \<and> \<not> system_check_safety_door_ajar
                 then on_sys (\<lambda>y. y\<lparr>sys_suspend := sys_suspend y AND NOT SUSPEND_SAFETY_DOOR_AJAR\<rparr>) m else m);
        if sys_suspend (sys m) AND SUSPEND_INITIATE_RESTORE \<noteq> 0 then do {
          m \<leftarrow> restore_spindle cond rpm m;
          m \<leftarrow> restore_coolant cond m;
          Some (True, if bit_isfalse (sys_suspend (sys m)) SUSPEND_RESTART_RETRACT
                      then on_rt (system_set_exec_state_flag EXEC_CYCLE_START)
                             (on_sys (\<lambda>y. y\<lparr>sys_suspend := sys_suspend y OR SUSPEND_RESTORE_COMPLETE\<rparr>) m)
                      else m) }
        else Some (True, m) })"

text \<open>One round of the feed hold: the spindle stop override and speed changes.\<close>

definition suspend_hold :: "u8 \<Rightarrow> f32 \<Rightarrow> machine \<Rightarrow> machine" where
  "suspend_hold cond rpm m =
     (let ovr = sys_spindle_stop_ovr (sys m);
          running = (spindle_mode (modal (gc_state m)) \<noteq> SPINDLE_DISABLE);
          set_ovr = (\<lambda>v. on_sys (\<lambda>y. y\<lparr>sys_spindle_stop_ovr := v\<rparr>));
          restart = m_spindle_set_state (cond AND (PL_COND_FLAG_SPINDLE_CW OR PL_COND_FLAG_SPINDLE_CCW)) rpm
      in if ovr \<noteq> 0 then
           (if ovr AND SPINDLE_STOP_OVR_INITIATE \<noteq> 0 then
              (if running then set_ovr SPINDLE_STOP_OVR_ENABLED (m_spindle_set_state SPINDLE_DISABLE f_zero m)
               else set_ovr SPINDLE_STOP_OVR_DISABLED m)
            else if ovr AND (SPINDLE_STOP_OVR_RESTORE OR SPINDLE_STOP_OVR_RESTORE_CYCLE) \<noteq> 0 then
              (let m = (if running then
                          (let m = report_feedback_message MESSAGE_SPINDLE_RESTORE m
                           in if bit_istrue (settings_flags (mset m)) BITFLAG_LASER_MODE
                              then on_sys (\<lambda>y. y\<lparr>sys_step_control :=
                                     bit_true (sys_step_control y) STEP_CONTROL_UPDATE_SPINDLE_PWM\<rparr>) m
                              else restart m)
                        else m);
                   m = (if sys_spindle_stop_ovr (sys m) AND SPINDLE_STOP_OVR_RESTORE_CYCLE \<noteq> 0
                        then on_rt (system_set_exec_state_flag EXEC_CYCLE_START) m else m)
               in set_ovr SPINDLE_STOP_OVR_DISABLED m)
            else m)
         else if bit_istrue (sys_step_control (sys m)) STEP_CONTROL_UPDATE_SPINDLE_PWM
         then on_sys (\<lambda>y. y\<lparr>sys_step_control := bit_false (sys_step_control y) STEP_CONTROL_UPDATE_SPINDLE_PWM\<rparr>)
                (restart m)
         else m)"

definition suspend_round :: "u8 \<Rightarrow> f32 \<Rightarrow> machine \<Rightarrow> (bool \<times> machine) option" where
  "suspend_round cond rpm m =
     (if sys_suspend (sys m) AND SUSPEND_HOLD_COMPLETE \<noteq> 0 then
        (if sys_state (sys m) AND (STATE_SAFETY_DOOR OR STATE_SLEEP) \<noteq> 0 then suspend_door cond rpm m
         else Some (True, suspend_hold cond rpm m))
      else Some (True, m))"

partial_function (option) suspend_loop :: "u8 \<Rightarrow> f32 \<Rightarrow> machine \<Rightarrow> machine option" where
  "suspend_loop cond rpm m =
     (if sys_suspend (sys m) \<noteq> 0 then
        (if sys_abort (sys m) \<noteq> 0 then Some m
         else Option.bind (suspend_round cond rpm m) (\<lambda>(continue, m).
                if continue then Option.bind (protocol_exec_rt_system m) (suspend_loop cond rpm) else Some m))
      else Some m)"

definition protocol_exec_rt_suspend :: "machine \<Rightarrow> machine option" where
  "protocol_exec_rt_suspend m =
     (let (cond, rpm) = restore_condition m;
          m = (if bit_istrue (settings_flags (mset m)) BITFLAG_LASER_MODE
               then on_rt (system_set_exec_accessory_override_flag EXEC_SPINDLE_OVR_STOP) m else m)
      in suspend_loop cond rpm m)"

section \<open>Check points of the main program\<close>

definition protocol_execute_realtime :: "machine \<Rightarrow> machine option" where
  "protocol_execute_realtime m = do {
     m \<leftarrow> protocol_exec_rt_system m;
     if sys_suspend (sys m) \<noteq> 0 then protocol_exec_rt_suspend m else Some m }"

definition protocol_auto_cycle_start :: "machine \<Rightarrow> machine" where
  "protocol_auto_cycle_start m =
     (if plan_get_current_block (mot m) \<noteq> None then on_rt (system_set_exec_state_flag EXEC_CYCLE_START) m else m)"

partial_function (option) synchronize_loop :: "machine \<Rightarrow> machine option" where
  "synchronize_loop m =
     Option.bind (protocol_execute_realtime m) (\<lambda>m.
       if sys_abort (sys m) \<noteq> 0 then Some m
       else if plan_get_current_block (mot m) \<noteq> None \<or> sys_state (sys m) = STATE_CYCLE
       then synchronize_loop m else Some m)"

definition protocol_buffer_synchronize :: "machine \<Rightarrow> machine option" where
  "protocol_buffer_synchronize m = synchronize_loop (protocol_auto_cycle_start m)"

definition delay_sec :: "f32 \<Rightarrow> u8 \<Rightarrow> machine \<Rightarrow> machine option" where
  "delay_sec seconds mode m =
     delay_loop (if mode = DELAY_MODE_DWELL then protocol_execute_realtime else protocol_exec_rt_system)
       mode (delay_steps seconds) m"

definition spindle_sync :: "u8 \<Rightarrow> f32 \<Rightarrow> machine \<Rightarrow> machine option" where
  "spindle_sync state rpm m =
     (if sys_state (sys m) = STATE_CHECK_MODE then Some m
      else do { m \<leftarrow> protocol_buffer_synchronize m; Some (m_spindle_set_state state rpm m) })"

definition coolant_sync :: "u8 \<Rightarrow> machine \<Rightarrow> machine option" where
  "coolant_sync mode m =
     (if sys_state (sys m) = STATE_CHECK_MODE then Some m
      else do { m \<leftarrow> protocol_buffer_synchronize m; Some (m_coolant_set_state mode m) })"

definition system_flag_wco_change :: "machine \<Rightarrow> machine option" where
  "system_flag_wco_change m = do {
     m \<leftarrow> protocol_buffer_synchronize m;
     Some (on_sys (\<lambda>y. y\<lparr>sys_report_wco_counter := 0\<rparr>) m) }"

end
