(* ===== verification/Protocol_Safety.thy ===== *)
theory Protocol_Safety
  imports Protocol
begin

text \<open>
  What the realtime state machine guarantees. \<open>mode_of\<close> is the part of the system state that
  decides what the machine may do; the frame lemmas say which routines leave it alone, and the
  properties follow the few that change it.
\<close>

section \<open>Frames\<close>

text \<open>State, suspend flags, abort and the spindle stop override.\<close>

definition mode_of :: "machine \<Rightarrow> u8 \<times> u8 \<times> u8 \<times> u8" where
  "mode_of m = (sys_state (sys m), sys_suspend (sys m), sys_abort (sys m), sys_spindle_stop_ovr (sys m))"

lemma on_frames [simp]:
  "sys (on_rt f m) = sys m" "sys (on_mot g m) = sys m" "sys (on_spin h m) = sys m" "sys (on_cool k m) = sys m"
  "sys (on_sys e m) = e (sys m)" "mot (on_sys e m) = mot m" "rt (on_sys e m) = rt m" "mot (on_rt f m) = mot m"
  "rt (on_mot g m) = rt m" "rt (on_rt f m) = f (rt m)" "mot (on_mot g m) = g (mot m)"
  "conf (on_sys e m) = conf m" "conf (on_rt f m) = conf m" "conf (on_mot g m) = conf m"
  "gc_state (on_sys e m) = gc_state m" "gc_state (on_rt f m) = gc_state m" "gc_state (on_mot g m) = gc_state m"
  by (simp_all add: machine_lift)

lemma mode_frames [simp]:
  "mode_of (on_rt f m) = mode_of m" "mode_of (on_mot g m) = mode_of m"
  "mode_of (printPgmString s m) = mode_of m"
  by (simp_all add: mode_of_def)

text \<open>Interrupts never touch the system structure.\<close>

lemma mc_reset_sys [simp]: "sys (mc_reset m) = sys m"
  by (simp add: mc_reset_def Let_def)

lemma timer1_sys [simp]: "sys (TIMER1_COMPA_vect m) = sys m"
proof -
  have e: "sys (isr_execute m) = sys m" for m
    by (simp add: isr_execute_def isr_finish_def isr_bresenham_def Let_def split: prod.splits)
  have l: "sys (isr_load_segment m) = sys m" for m
    by (simp add: isr_load_segment_def Let_def)
  have b: "sys (isr_buffer_empty m) = sys m" for m
    by (simp add: isr_buffer_empty_def Let_def)
  show ?thesis by (simp add: TIMER1_COMPA_vect_def Let_def e l b)
qed

lemma interrupt_sys [simp]: "sys (interrupt i m) = sys m"
proof (cases i)
  case (IRQ_serial_rx d)
  have "sys (rx_extended d m) = sys m" by (simp add: rx_extended_def)
  then show ?thesis using IRQ_serial_rx by (simp add: SERIAL_RX_def)
qed (simp_all add: CONTROL_INT_vect_def LIMIT_INT_vect_def Let_def)

lemma poll_sys [simp]: "sys (poll m) = sys m"
  unfolding poll_def by (subst fold_invariant [of sys]) simp_all

lemma poll_mode [simp]: "mode_of (poll m) = mode_of m"
  by (simp add: mode_of_def)

text \<open>Reports and the drivers.\<close>

lemma report_line_sys [simp]:
  "sys (report_util_line_feed m) = sys m" "sys (report_util_feedback_line_feed m) = sys m"
  "sys (report_feedback_message c m) = sys m" "sys (report_alarm_message c m) = sys m"
  by (simp_all add: report_util_line_feed_def report_util_feedback_line_feed_def report_feedback_message_def
      report_alarm_message_def Let_def)

lemma report_status_mode [simp]: "mode_of (report_realtime_status m) = mode_of m"
  by (simp add: mode_of_def report_realtime_status_def Let_def report_wco_def report_overrides_def)

lemma drivers_sys [simp]: "sys (st_go_idle m) = sys m" "sys (st_reset m) = sys m"
  by (simp_all add: st_reset_def Let_def)

lemma pwm_value_mode:
  "sys_state (snd (spindle_compute_pwm_value cf g rpm y)) = sys_state y"
  "sys_suspend (snd (spindle_compute_pwm_value cf g rpm y)) = sys_suspend y"
  "sys_abort (snd (spindle_compute_pwm_value cf g rpm y)) = sys_abort y"
  "sys_spindle_stop_ovr (snd (spindle_compute_pwm_value cf g rpm y)) = sys_spindle_stop_ovr y"
  by (simp_all add: spindle_compute_pwm_value_def Let_def)

lemma set_state_mode [simp]:
  "mode_of (m_spindle_set_state s rpm m) = mode_of m" "mode_of (m_coolant_set_state c m) = mode_of m"
proof -
  show "mode_of (m_coolant_set_state c m) = mode_of m"
    by (simp add: mode_of_def m_coolant_set_state_def coolant_set_state_def)
  have "sys_state (fst (spindle_set_state cf s rpm (y, p))) = sys_state y
      \<and> sys_suspend (fst (spindle_set_state cf s rpm (y, p))) = sys_suspend y
      \<and> sys_abort (fst (spindle_set_state cf s rpm (y, p))) = sys_abort y
      \<and> sys_spindle_stop_ovr (fst (spindle_set_state cf s rpm (y, p))) = sys_spindle_stop_ovr y" for cf y p
    by (simp add: spindle_set_state_def Let_def case_prod_beta pwm_value_mode)
  then show "mode_of (m_spindle_set_state s rpm m) = mode_of m"
    by (simp add: mode_of_def m_spindle_set_state_def case_prod_beta)
qed

section \<open>Preparing segments\<close>

lemma prep_select_mode: "prep_select_block m = Some m' \<Longrightarrow> mode_of m' = mode_of m"
proof -
  have p: "mode_of (prep_velocity_profile i m) = mode_of m" for i m
    by (simp add: mode_of_def prep_velocity_profile_def Let_def)
  have l: "mode_of (prep_load_block i m) = mode_of m" for i m
    by (simp add: mode_of_def prep_load_block_def Let_def)
  show "prep_select_block m = Some m' \<Longrightarrow> mode_of m' = mode_of m"
    by (auto simp: prep_select_block_def Let_def p l split: if_splits option.splits)
qed

lemma prep_spindle_mode [simp]: "mode_of (prep_spindle b m) = mode_of m"
  by (simp add: mode_of_def prep_spindle_def Let_def case_prod_beta pwm_value_mode)

lemma prep_queue_mode [simp]: "mode_of (snd (prep_queue_segment i r dt sg m)) = mode_of m"
  by (simp add: mode_of_def prep_queue_segment_def prep_block_end_def Let_def)

lemma prep_segment_mode: "prep_segment i m = Some (c, m') \<Longrightarrow> mode_of m' = mode_of m"
proof -
  assume a: "prep_segment i m = Some (c, m')"
  then obtain p r dt sg where "m' = snd (prep_queue_segment i r dt sg (prep_spindle (blk (mot m) i) (m\<lparr>mot := (mot m)\<lparr>prep := p\<rparr>\<rparr>)))"
    by (auto simp: prep_segment_def Let_def split: option.splits prod.splits dest!: arg_cong [where f = snd])
  then show ?thesis by (simp add: mode_of_def [of m]) (simp add: mode_of_def)
qed

lemma prep_passes_mode: "prep_passes n m = Some m' \<Longrightarrow> mode_of m' = mode_of m"
proof (induction n arbitrary: m)
  case 0
  then show ?case by simp
next
  case (Suc n)
  have "mode_of m1 = mode_of m" if "prep_pass m = Some (c, m1)" for c m1
    using that prep_select_mode prep_segment_mode by (fastforce simp: prep_pass_def split: option.splits)
  then show ?case using Suc by (fastforce split: if_splits option.splits)
qed

lemma st_prep_mode: "st_prep_buffer m = Some m' \<Longrightarrow> mode_of m' = mode_of m"
  by (auto simp: st_prep_buffer_def prep_passes_mode split: if_splits)

section \<open>The stages of the realtime system\<close>

lemma wait_for_reset_sys: "wait_for_reset m = Some m' \<Longrightarrow> sys m' = sys m"
proof (induction rule: wait_for_reset.raw_induct [rotated 1, consumes 1])
  case (1 go m m')
  then show ?case by (auto simp: Let_def split: if_splits)
qed

lemma exec_rt_alarm_sys:
  "exec_rt_alarm e m = Some m' \<Longrightarrow>
    sys m' = (if e = 0 then sys m else (sys m)\<lparr>sys_state := STATE_ALARM\<rparr>)"
  by (auto simp: exec_rt_alarm_def Let_def bind_eq_Some_conv dest!: wait_for_reset_sys split: if_splits)

definition machine_states :: "u8 set" where
  "machine_states = {STATE_IDLE, STATE_ALARM, STATE_CHECK_MODE, STATE_HOMING, STATE_CYCLE, STATE_HOLD,
     STATE_JOG, STATE_SAFETY_DOOR, STATE_SLEEP}"

lemmas state_consts = STATE_IDLE_def STATE_ALARM_def STATE_CHECK_MODE_def STATE_HOMING_def STATE_CYCLE_def
  STATE_HOLD_def STATE_JOG_def STATE_SAFETY_DOOR_def STATE_SLEEP_def

text \<open>The states a hold event leads to.\<close>

lemma hold_initiate_state [simp]: "sys_state (sys (hold_initiate x m)) = sys_state (sys m)"
  by (simp add: hold_initiate_def Let_def)

lemma hold_door_state [simp]:
  "sys_state (sys (hold_safety_door m)) =
     (if sys_suspend (sys m) AND SUSPEND_JOG_CANCEL = 0 \<and> sys_state (sys m) \<noteq> STATE_SLEEP
      then STATE_SAFETY_DOOR else sys_state (sys m))"
  by (simp add: hold_safety_door_def Let_def)

lemma exec_rt_hold_state:
  "sys_state (sys (exec_rt_hold x m)) \<in> {sys_state (sys m), STATE_HOLD, STATE_SAFETY_DOOR, STATE_SLEEP}"
  by (simp add: exec_rt_hold_def Let_def)

text \<open>Without a feed hold, a cancel or a door event only the sleep command counts.\<close>

lemma exec_rt_hold_none:
  "x AND (EXEC_FEED_HOLD OR EXEC_MOTION_CANCEL OR EXEC_SAFETY_DOOR) = 0 \<Longrightarrow>
    (if x AND EXEC_SLEEP = 0 then mode_of (exec_rt_hold x m) = mode_of m
     else sys_state (sys (exec_rt_hold x m)) = STATE_SLEEP)"
  by (auto simp: exec_rt_hold_def HOLD_FLAGS_def and_or_0 Let_def)

lemma cycle_start_state:
  "cycle_start m = Some m' \<Longrightarrow> sys_state (sys m') = STATE_CYCLE \<Longrightarrow> sys_state (sys m) \<noteq> STATE_CYCLE \<Longrightarrow>
    (sys_state (sys m) = STATE_HOLD \<longrightarrow> sys_spindle_stop_ovr (sys m) = 0)
    \<and> plan_get_current_block (mot m) \<noteq> None \<and> bit_isfalse (sys_suspend (sys m)) SUSPEND_MOTION_CANCEL"
  by (auto simp: cycle_start_def Let_def bind_eq_Some_conv STATE_IDLE_def STATE_CYCLE_def STATE_HOLD_def
      split: if_splits)

lemma cycle_start_states:
  "cycle_start m = Some m' \<Longrightarrow> sys_state (sys m') \<in> {sys_state (sys m), STATE_CYCLE, STATE_IDLE}"
  by (auto simp: cycle_start_def Let_def bind_eq_Some_conv mode_of_def dest!: st_prep_mode split: if_splits)

lemma door_resume_state: "sys_state (door_resume y) \<in> {sys_state y, STATE_IDLE}"
  by (simp add: door_resume_def)

lemma exec_rt_cycle_start_states:
  "exec_rt_cycle_start x m = Some m' \<Longrightarrow>
    sys_state (sys m') \<in> {sys_state (sys m), STATE_CYCLE, STATE_IDLE}"
  using door_resume_state [of "sys m"]
  by (fastforce simp: exec_rt_cycle_start_def Let_def bind_eq_Some_conv dest!: cycle_start_states split: if_splits)

lemma exec_rt_cycle_stop_state:
  "sys_state (sys (exec_rt_cycle_stop x m)) \<in> {sys_state (sys m), STATE_IDLE, STATE_SAFETY_DOOR}"
  by (simp add: exec_rt_cycle_stop_def Let_def m_plan_sync_position_def gc_sync_position_def)

lemma overrides_state [simp]:
  "sys_state (sys (exec_rt_motion_override x m)) = sys_state (sys m)"
  "sys_state (sys (exec_rt_accessory_override x m)) = sys_state (sys m)"
proof -
  show "sys_state (sys (exec_rt_motion_override x m)) = sys_state (sys m)"
    by (simp add: exec_rt_motion_override_def Let_def)
  have "sys_state (sys (m_coolant_set_state c m)) = sys_state (sys m)" for c m
    using set_state_mode(2) [of c m] by (simp add: mode_of_def)
  then have "sys_state (sys (coolant_toggle m)) = sys_state (sys m)" for m
    by (simp add: coolant_toggle_def Let_def)
  then show "sys_state (sys (exec_rt_accessory_override x m)) = sys_state (sys m)"
    by (simp add: exec_rt_accessory_override_def Let_def)
qed

text \<open>The realtime system, split where the flags have been copied.\<close>

lemma exec_rt_system_cases:
  assumes "protocol_exec_rt_system m = Some m'"
  obtains m1 continue m2 where
    "exec_rt_alarm (sys_rt_exec_alarm (rt (poll m))) (poll m) = Some m1"
    "exec_rt_state (sys_rt_exec_state (rt (poll m1))) (poll m1) = Some (continue, m2)"
    "sys_state (sys m') = sys_state (sys m2)"
proof -
  have p: "sys_state (sys b) = sys_state (sys a)" if "st_prep_buffer a = Some b" for a b
    using st_prep_mode [OF that] by (simp add: mode_of_def)
  then have o: "sys_state (sys b) = sys_state (sys a)" if "exec_rt_overrides a = Some b" for a b
    using that by (fastforce simp: exec_rt_overrides_def Let_def split: if_splits)
  obtain m1 r where a: "exec_rt_alarm (sys_rt_exec_alarm (rt (poll m))) (poll m) = Some m1"
    and s: "exec_rt_state (sys_rt_exec_state (rt (poll m1))) (poll m1) = Some r"
    and "(case r of (continue, m2) \<Rightarrow> if continue then exec_rt_overrides m2 else Some m2) = Some m'"
    using assms unfolding protocol_exec_rt_system_def Let_def bind_eq_Some_conv by blast
  then have "sys_state (sys m') = sys_state (sys (snd r))" using o by (auto split: prod.splits if_splits)
  then show thesis using that [OF a, of "fst r" "snd r"] s by simp
qed

section \<open>Properties\<close>

text \<open>When a motion may start.\<close>

definition ready_to_move :: "system_t \<Rightarrow> bool" where
  "ready_to_move y =
     (bit_isfalse (sys_suspend y) SUSPEND_MOTION_CANCEL
      \<and> (sys_state y = STATE_IDLE
         \<or> sys_state y = STATE_HOLD \<and> bit_istrue (sys_suspend y) SUSPEND_HOLD_COMPLETE \<and> sys_spindle_stop_ovr y = 0
         \<or> sys_state y = STATE_SAFETY_DOOR \<and> bit_isfalse (sys_suspend y) SUSPEND_SAFETY_DOOR_AJAR
             \<and> bit_istrue (sys_suspend y) SUSPEND_RESTORE_COMPLETE))"

lemma state_hold_bit:
  "s \<in> machine_states \<Longrightarrow> s AND STATE_HOLD \<noteq> 0 \<longleftrightarrow> s = STATE_HOLD"
  by (auto simp: machine_states_def state_consts)

lemma exec_rt_cycle_start_ready:
  assumes "exec_rt_cycle_start x m = Some m'" "sys_state (sys m') = STATE_CYCLE" "sys_state (sys m) \<noteq> STATE_CYCLE"
    and v: "sys_state (sys m) \<in> machine_states"
  shows "x AND (EXEC_FEED_HOLD OR EXEC_MOTION_CANCEL OR EXEC_SAFETY_DOOR) = 0 \<and> ready_to_move (sys m)"
proof -
  let ?d = "on_sys door_resume m"
  have d: "sys_state (sys ?d) \<noteq> STATE_CYCLE" "sys_state (sys ?d) \<in> machine_states"
    using door_resume_state [of "sys m"] assms(3) v by (auto simp: STATE_CYCLE_def STATE_IDLE_def machine_states_def)
  obtain m1 where x: "x AND (EXEC_FEED_HOLD OR EXEC_MOTION_CANCEL OR EXEC_SAFETY_DOOR) = 0"
    and s: "sys_state (sys ?d) = STATE_IDLE
        \<or> sys_state (sys ?d) AND STATE_HOLD \<noteq> 0 \<and> sys_suspend (sys ?d) AND SUSPEND_HOLD_COMPLETE \<noteq> 0"
    and m1: "cycle_start ?d = Some m1" "sys_state (sys m1) = STATE_CYCLE"
    using assms(1-3) d(1) by (auto simp: exec_rt_cycle_start_def Let_def bind_eq_Some_conv split: if_splits)
  note c = cycle_start_state [OF m1 d(1)]
  have i: "sys_state (sys ?d) = STATE_IDLE
      \<or> sys_state (sys ?d) = STATE_HOLD \<and> bit_istrue (sys_suspend (sys ?d)) SUSPEND_HOLD_COMPLETE"
    using s state_hold_bit [OF d(2)] by (simp add: bit_istrue_def)
  show ?thesis using x c i
    by (simp add: ready_to_move_def door_resume_def bit_istrue_def bit_isfalse_def split: if_splits)
      (auto simp: state_consts)
qed

lemma exec_rt_state_ready:
  assumes "exec_rt_state x m = Some (c, m')" "sys_state (sys m') = STATE_CYCLE" "sys_state (sys m) \<noteq> STATE_CYCLE"
    and v: "sys_state (sys m) \<in> machine_states"
  shows "ready_to_move (sys m)"
proof -
  define m1 where "m1 = (if x AND EXEC_STATUS_REPORT \<noteq> 0
    then on_rt (system_clear_exec_state_flag EXEC_STATUS_REPORT) (report_realtime_status m) else m)"
  have m1: "mode_of m1 = mode_of m" by (simp add: m1_def)
  let ?m2 = "exec_rt_hold x m1"
  obtain m3 where m3: "exec_rt_cycle_start x ?m2 = Some m3" and "m' = exec_rt_cycle_stop x m3"
    using assms(1-3) by (auto simp: exec_rt_state_def Let_def m1_def [symmetric] bind_eq_Some_conv split: if_splits)
  then have c3: "sys_state (sys m3) = STATE_CYCLE"
    using exec_rt_cycle_stop_state [of x m3] assms(2) by (auto simp: state_consts)
  have n2: "sys_state (sys ?m2) \<noteq> STATE_CYCLE" "sys_state (sys ?m2) \<in> machine_states"
    using exec_rt_hold_state [of x m1] m1 assms(3) v by (auto simp: mode_of_def machine_states_def state_consts)
  note r = exec_rt_cycle_start_ready [OF m3 c3 n2]
  have "sys_state (sys ?m2) \<noteq> STATE_SLEEP" using r by (auto simp: ready_to_move_def state_consts)
  then have "mode_of ?m2 = mode_of m" using exec_rt_hold_none [of x m1] r m1 by (auto split: if_splits)
  then show ?thesis using r by (simp add: ready_to_move_def mode_of_def)
qed

text \<open>
  C11. Motion starts only from a machine that is ready. If a round of the realtime system takes
  the machine into a cycle, then no alarm was pending, no motion cancel was in progress, and
  the machine was idle, or in a completed feed hold whose spindle had not been stopped, or at a
  closed safety door with the restore procedure complete; every round leaves a valid state.
\<close>

theorem motion_starts_only_when_ready:
  assumes "protocol_exec_rt_system m = Some m'" and "sys_state (sys m) \<in> machine_states"
  shows "sys_state (sys m') \<in> machine_states
    \<and> (sys_state (sys m') = STATE_CYCLE \<and> sys_state (sys m) \<noteq> STATE_CYCLE \<longrightarrow>
         sys_rt_exec_alarm (rt (poll m)) = 0 \<and> ready_to_move (sys m))"
proof -
  obtain m1 c m2 where a: "exec_rt_alarm (sys_rt_exec_alarm (rt (poll m))) (poll m) = Some m1"
    and s: "exec_rt_state (sys_rt_exec_state (rt (poll m1))) (poll m1) = Some (c, m2)"
    and m2: "sys_state (sys m') = sys_state (sys m2)"
    using exec_rt_system_cases [OF assms(1)] by blast
  have m1: "sys m1 = (if sys_rt_exec_alarm (rt (poll m)) = 0 then sys m else (sys m)\<lparr>sys_state := STATE_ALARM\<rparr>)"
    using exec_rt_alarm_sys [OF a] by simp
  have v1: "sys_state (sys m1) \<in> machine_states" using assms(2) by (simp add: m1 machine_states_def)
  have "sys_state (sys m2) \<in> machine_states"
  proof -
    have "sys_state (sys (exec_rt_cycle_stop x n2)) \<in> machine_states"
      if "exec_rt_cycle_start x (exec_rt_hold x n) = Some n2" "sys_state (sys n) \<in> machine_states" for x n n2
      using that exec_rt_cycle_start_states [OF that(1)] exec_rt_hold_state [of x n] exec_rt_cycle_stop_state [of x n2]
      by (auto simp: machine_states_def)
    moreover have "sys_state (sys (report_realtime_status n)) = sys_state (sys n)" for n
      using report_status_mode [of n] by (simp add: mode_of_def)
    ultimately show ?thesis using s v1
      by (auto simp: exec_rt_state_def Let_def bind_eq_Some_conv split: if_splits)
  qed
  moreover have "sys_rt_exec_alarm (rt (poll m)) = 0 \<and> ready_to_move (sys m)"
    if c: "sys_state (sys m2) = STATE_CYCLE" and n: "sys_state (sys m) \<noteq> STATE_CYCLE"
  proof -
    have "sys_state (sys (poll m1)) \<noteq> STATE_CYCLE" using n by (simp add: m1 state_consts)
    then have "ready_to_move (sys m1)" using exec_rt_state_ready [OF s c] v1 by simp
    then show ?thesis by (auto simp: m1 ready_to_move_def state_consts split: if_splits)
  qed
  ultimately show ?thesis by (simp add: m2)
qed

text \<open>
  A machine with one block planned and a full segment ring, to which a cycle start is given.
\<close>

definition ready_example :: machine where
  "ready_example = machine_zero
     \<lparr>mot := stepper_zero\<lparr>block_buffer_head := 1, segment_next_head := 0\<rparr>,
      rt := rt_zero\<lparr>sys_rt_exec_state := EXEC_CYCLE_START\<rparr>\<rparr>"

lemma poll_idle: "irqs m = (\<lambda>_. []) \<Longrightarrow> poll m = m"
  by (simp add: poll_def)

lemma prep_full: "segment_buffer_tail (mot m) = segment_next_head (mot m) \<Longrightarrow> st_prep_buffer m = Some m"
proof -
  assume "segment_buffer_tail (mot m) = segment_next_head (mot m)"
  then have "prep_passes n m = Some m" for n by (cases n) simp_all
  then show "st_prep_buffer m = Some m" by (simp add: st_prep_buffer_def)
qed

lemma ready_example_run:
  "protocol_exec_rt_system ready_example = Some (ready_example
     \<lparr>sys := sys_zero\<lparr>sys_state := STATE_CYCLE\<rparr>, rt := rt_zero,
      mot := st_wake_up default_settings (stepper_zero\<lparr>block_buffer_head := 1, segment_next_head := 0\<rparr>)\<rparr>)"
  by (simp add: protocol_exec_rt_system_def exec_rt_overrides_def poll_idle ready_example_def machine_zero_def Let_def
      exec_rt_alarm_def exec_rt_state_def exec_rt_hold_def exec_rt_cycle_start_def exec_rt_cycle_stop_def
      cycle_start_def door_resume_def exec_rt_motion_override_def exec_rt_accessory_override_def
      rt_zero_def sys_zero_def grbl_const stepper_zero_def plan_get_current_block_def prep_full st_wake_up_def
      bit_isfalse_def bit_istrue_def machine_lift rt_flag_defs bit_false_def)

theorem motion_starts_only_when_ready_witness:
  "\<exists>m'. protocol_exec_rt_system ready_example = Some m' \<and> sys_state (sys m') = STATE_CYCLE
     \<and> ready_to_move (sys ready_example)"
proof -
  have "sys_state (sys ready_example) = STATE_IDLE"
    by (simp add: ready_example_def machine_zero_def sys_zero_def state_consts)
  then show ?thesis
    using motion_starts_only_when_ready [OF ready_example_run] ready_example_run
    by (auto simp: machine_states_def state_consts)
qed

section \<open>Overrides\<close>

definition feed_sum :: "u8 \<Rightarrow> u8 \<Rightarrow> int" where
  "feed_sum x f =
     (if x AND EXEC_FEED_OVR_RESET \<noteq> 0 then 100 else uint f)
     + (if x AND EXEC_FEED_OVR_COARSE_PLUS \<noteq> 0 then 10 else 0)
     - (if x AND EXEC_FEED_OVR_COARSE_MINUS \<noteq> 0 then 10 else 0)
     + (if x AND EXEC_FEED_OVR_FINE_PLUS \<noteq> 0 then 1 else 0)
     - (if x AND EXEC_FEED_OVR_FINE_MINUS \<noteq> 0 then 1 else 0)"

lemma clamp_u8:
  assumes "- 11 \<le> v" "v \<le> 211"
  shows "max (min (word_of_int v :: u8) 200) 10 = word_of_int (if v < 0 then 200 else max 10 (min 200 v))"
proof -
  have u: "uint (word_of_int v :: u8) = (if v < 0 then v + 256 else v)"
  proof -
    have "(v + 256) mod 256 = v + 256" if "v < 0" using that assms by (intro mod_pos_pos_trivial) auto
    then have "v mod 256 = v + 256" if "v < 0" using that by (metis mod_add_self2)
    moreover have "v mod 256 = v" if "\<not> v < 0" using that assms by (intro mod_pos_pos_trivial) auto
    ultimately show ?thesis by (simp add: uint_word_of_int)
  qed
  have c: "(200 :: u8) \<le> word_of_int v \<longleftrightarrow> v < 0 \<or> 200 \<le> v" "(word_of_int v :: u8) \<le> 10 \<longleftrightarrow> 0 \<le> v \<and> v \<le> 10"
    using assms by (simp_all add: word_le_def u)
  show ?thesis
  proof (cases "v < 0 \<or> 200 \<le> v")
    case True
    then have "min (word_of_int v :: u8) 200 = 200" using c(1) by (simp add: min_def antisym)
    moreover have "(if v < 0 then 200 else max 10 (min 200 v)) = 200" using True by auto
    ultimately show ?thesis by simp
  next
    case False
    then have m: "min (word_of_int v :: u8) 200 = word_of_int v" "min 200 v = v" "\<not> v < 0"
      using c(1) by simp_all
    show ?thesis
    proof (cases "v \<le> 10")
      case True
      then have "max (word_of_int v :: u8) 10 = 10" "max 10 v = 10" using c(2) m(3) by simp_all
      then show ?thesis by (simp only: m if_False) simp
    next
      case False
      then have "max (word_of_int v :: u8) 10 = word_of_int v" "max 10 v = v"
        using c(2) by (simp_all add: max_def)
      then show ?thesis by (simp only: m if_False)
    qed
  qed
qed

text \<open>
  C37. Feed and spindle overrides follow the pending commands: their sum, kept between 10% and
  200%, is the new value. The one exception is a sum below zero, which the eight-bit
  subtraction turns into the maximum: at 10%, a coarse and a fine decrease that are pending
  together make 200%.
\<close>

theorem feed_override_exact:
  assumes "10 \<le> uint f" and "uint f \<le> 200"
  shows "feed_override x f = word_of_int (if feed_sum x f < 0 then 200 else max 10 (min 200 (feed_sum x f)))
    \<and> spindle_override x f = feed_override x f"
proof -
  have "feed_override x f = max (min (word_of_int (feed_sum x f)) 200) 10"
  proof -
    have i: "(if b then w + c else w) = w + (if b then c else 0)" "(if b then w - c else w) = w - (if b then c else 0)"
      for b and w c :: u8 by simp_all
    have d: "word_of_int (if b then c else 0) = (if b then word_of_int c else 0 :: u8)" for b c by simp
    have "word_of_int (feed_sum x f) = (if x AND EXEC_FEED_OVR_RESET \<noteq> 0 then DEFAULT_FEED_OVERRIDE else f)
       + (if x AND EXEC_FEED_OVR_COARSE_PLUS \<noteq> 0 then FEED_OVERRIDE_COARSE_INCREMENT else 0)
       - (if x AND EXEC_FEED_OVR_COARSE_MINUS \<noteq> 0 then FEED_OVERRIDE_COARSE_INCREMENT else 0)
       + (if x AND EXEC_FEED_OVR_FINE_PLUS \<noteq> 0 then FEED_OVERRIDE_FINE_INCREMENT else 0)
       - (if x AND EXEC_FEED_OVR_FINE_MINUS \<noteq> 0 then FEED_OVERRIDE_FINE_INCREMENT else 0)"
      unfolding feed_sum_def of_int_add of_int_diff d
      by (simp add: DEFAULT_FEED_OVERRIDE_def FEED_OVERRIDE_COARSE_INCREMENT_def FEED_OVERRIDE_FINE_INCREMENT_def
          if_distrib [of word_of_int])
    then show ?thesis
      unfolding feed_override_def Let_def i
      by (simp only: MAX_FEED_RATE_OVERRIDE_def MIN_FEED_RATE_OVERRIDE_def)
  qed
  moreover have "- 11 \<le> feed_sum x f" "feed_sum x f \<le> 211" using assms by (auto simp: feed_sum_def)
  moreover have "spindle_override x f = feed_override x f"
    by (simp only: spindle_override_def feed_override_def grbl_const)
  ultimately show ?thesis using clamp_u8 by simp
qed

theorem feed_override_exact_witness:
  "feed_override (EXEC_FEED_OVR_COARSE_MINUS OR EXEC_FEED_OVR_FINE_MINUS) 10 = 200"
  using feed_override_exact [of 10 "EXEC_FEED_OVR_COARSE_MINUS OR EXEC_FEED_OVR_FINE_MINUS"]
  by (simp add: feed_sum_def grbl_const)

section \<open>Blocking operations\<close>

lemma sleep_loop_abort: "sleep_loop m = Some m' \<Longrightarrow> sys_abort (sys m') \<noteq> 0"
proof (induction rule: sleep_loop.raw_induct [rotated 1, consumes 1])
  case (1 go m m')
  then show ?case by (auto simp: bind_eq_Some_conv split: if_splits)
qed

lemma suspend_round_stop: "suspend_round c rpm m = Some (False, m') \<Longrightarrow> sys_abort (sys m') \<noteq> 0"
  by (auto simp: suspend_round_def suspend_door_def Let_def bind_eq_Some_conv dest: sleep_loop_abort split: if_splits)

lemma suspend_loop_returns:
  "suspend_loop c rpm m = Some m' \<Longrightarrow> sys_suspend (sys m') = 0 \<or> sys_abort (sys m') \<noteq> 0"
proof (induction rule: suspend_loop.raw_induct [rotated 1, consumes 1])
  case (1 go c rpm m m')
  then show ?case
    by (auto simp: bind_eq_Some_conv dest: suspend_round_stop split: if_splits)
qed

lemma execute_realtime_returns:
  "protocol_execute_realtime m = Some m' \<Longrightarrow> sys_suspend (sys m') = 0 \<or> sys_abort (sys m') \<noteq> 0"
  by (auto simp: protocol_execute_realtime_def protocol_exec_rt_suspend_def bind_eq_Some_conv Let_def case_prod_beta
      dest: suspend_loop_returns split: if_splits)

lemma synchronize_loop_returns:
  "synchronize_loop m = Some m' \<Longrightarrow> sys_abort (sys m') \<noteq> 0
     \<or> sys_suspend (sys m') = 0 \<and> plan_get_current_block (mot m') = None \<and> sys_state (sys m') \<noteq> STATE_CYCLE"
proof (induction rule: synchronize_loop.raw_induct [rotated 1, consumes 1])
  case (1 go m m')
  then show ?case
    by (auto simp: bind_eq_Some_conv dest: execute_realtime_returns split: if_splits)
qed

text \<open>
  C21. The main program goes on only when the machine does. A check point returns to its caller
  only if the machine is not suspended or has been reset; and synchronising returns, unless
  reset, only with an empty planner and no cycle running, whatever interrupts, holds and
  overrides happened meanwhile.
\<close>

theorem synchronize_drains:
  assumes "protocol_buffer_synchronize m = Some m'" and "sys_abort (sys m') = 0"
  shows "sys_suspend (sys m') = 0 \<and> plan_get_current_block (mot m') = None \<and> sys_state (sys m') \<noteq> STATE_CYCLE"
  using assms synchronize_loop_returns by (auto simp: protocol_buffer_synchronize_def)

lemma rt_system_idle:
  assumes "irqs m = (\<lambda>_. [])" and "sys_rt_exec_state (rt m) = 0" "sys_rt_exec_alarm (rt m) = 0"
    "sys_rt_exec_motion_override (rt m) = 0" "sys_rt_exec_accessory_override (rt m) = 0"
    "sys_state (sys m) AND RELOAD_STATES = 0"
  shows "protocol_exec_rt_system m = Some m"
  using assms by (simp add: protocol_exec_rt_system_def exec_rt_overrides_def poll_idle Let_def
      exec_rt_alarm_def exec_rt_state_def exec_rt_motion_override_def exec_rt_accessory_override_def)

lemma machine_zero_idle: "protocol_exec_rt_system machine_zero = Some machine_zero"
  by (rule rt_system_idle) (simp_all add: machine_zero_def rt_zero_def sys_zero_def)

theorem synchronize_drains_witness:
  "\<exists>m'. protocol_buffer_synchronize machine_zero = Some m' \<and> sys_suspend (sys m') = 0"
proof -
  have "protocol_buffer_synchronize machine_zero = Some machine_zero"
  proof -
    have z: "plan_get_current_block (mot machine_zero) = None" "sys_suspend (sys machine_zero) = 0"
      "sys_state (sys machine_zero) \<noteq> STATE_CYCLE" "sys_abort (sys machine_zero) = 0"
      by (simp_all add: machine_zero_def stepper_zero_def plan_get_current_block_def sys_zero_def state_consts)
    have r: "protocol_execute_realtime machine_zero = Some machine_zero"
      by (simp add: protocol_execute_realtime_def machine_zero_idle z)
    show ?thesis
      unfolding protocol_buffer_synchronize_def protocol_auto_cycle_start_def
      by (subst synchronize_loop.simps) (simp add: z r)
  qed
  moreover have "sys_abort (sys machine_zero) = 0" by (simp add: machine_zero_def sys_zero_def)
  ultimately show ?thesis using synchronize_drains by blast
qed

end
