(* ===== verification/Motion_Control.thy ===== *)
theory Motion_Control
  imports Protocol_Safety
begin

text \<open>
  motion\_control.c and the homing and soft limit routines of limits.c: the gateway of all lines
  to the planner, the splitting of arcs into lines, dwells, the probe cycle and the homing cycle.

  The trigonometric functions of the C library are a parameter: the record \<open>libm\<close> holds them.
\<close>

section \<open>Soft limits\<close>

text \<open>Waiting for the stop of a soft limit, and waiting for the end of a probing motion.\<close>

partial_function (option) wait_idle :: "machine \<Rightarrow> machine option" where
  "wait_idle m =
     Option.bind (protocol_execute_realtime m) (\<lambda>m.
       if sys_abort (sys m) \<noteq> 0 then Some m
       else if sys_state (sys m) \<noteq> STATE_IDLE then wait_idle m else Some m)"

definition soft_limit_alarm :: "machine \<Rightarrow> machine option" where
  "soft_limit_alarm m =
     protocol_execute_realtime (on_rt (system_set_exec_alarm EXEC_ALARM_SOFT_LIMIT) (mc_reset m))"

definition limits_soft_check :: "vec \<Rightarrow> machine \<Rightarrow> machine option" where
  "limits_soft_check target m =
     (if system_check_travel_limits (max_travel (mset m)) target then do {
        let m = on_sys (\<lambda>y. y\<lparr>sys_soft_limit := 1\<rparr>) m;
        if sys_state (sys m) = STATE_CYCLE then do {
          m \<leftarrow> wait_idle (on_rt (system_set_exec_state_flag EXEC_FEED_HOLD) m);
          if sys_abort (sys m) \<noteq> 0 then Some m else soft_limit_alarm m }
        else soft_limit_alarm m }
      else Some m)"

section \<open>Lines\<close>

definition m_plan_buffer_line :: "vec \<Rightarrow> plan_line_data_t \<Rightarrow> machine \<Rightarrow> bool \<times> machine" where
  "m_plan_buffer_line target pl_data m =
     (let (planned, s) = plan_buffer_line (mset m) (sys m) (sys_position (rt m)) st_update_plan_block_parameters
                           target pl_data (mot m)
      in (planned, m\<lparr>mot := s\<rparr>))"

text \<open>Waiting for room in the planner buffer.\<close>

partial_function (option) wait_for_room :: "machine \<Rightarrow> machine option" where
  "wait_for_room m =
     Option.bind (protocol_execute_realtime m) (\<lambda>m.
       if sys_abort (sys m) \<noteq> 0 then Some m
       else if plan_check_full_buffer (mot m) then wait_for_room (protocol_auto_cycle_start m)
       else Some m)"

definition mc_line :: "vec \<Rightarrow> plan_line_data_t \<Rightarrow> machine \<Rightarrow> machine option" where
  "mc_line target pl_data m = do {
     m \<leftarrow> (if bit_istrue (settings_flags (mset m)) BITFLAG_SOFT_LIMIT_ENABLE \<and> sys_state (sys m) \<noteq> STATE_JOG
           then limits_soft_check target m else Some m);
     if sys_state (sys m) = STATE_CHECK_MODE then Some m
     else do {
       m \<leftarrow> wait_for_room m;
       if sys_abort (sys m) \<noteq> 0 then Some m
       else (let (planned, m) = m_plan_buffer_line target pl_data m
             in if \<not> planned \<and> bit_istrue (settings_flags (mset m)) BITFLAG_LASER_MODE
                   \<and> pd_condition pl_data AND PL_COND_FLAG_SPINDLE_CW \<noteq> 0
                then spindle_sync PL_COND_FLAG_SPINDLE_CW (pd_spindle_speed pl_data) m
                else Some m) } }"

section \<open>Arcs\<close>

record libm =
  libm_atan2 :: "f32 \<Rightarrow> f32 \<Rightarrow> f32"
  libm_sin :: "f32 \<Rightarrow> f32"
  libm_cos :: "f32 \<Rightarrow> f32"

definition N_ARC_CORRECTION :: nat where [grbl_const]: "N_ARC_CORRECTION = 12"
definition ARC_ANGULAR_TRAVEL_EPSILON :: f32 where
  "ARC_ANGULAR_TRAVEL_EPSILON = f_of_rat (5 / 10000000)"
definition TWO_M_PI :: f32 where
  "TWO_M_PI = f_of_rat (2 * (314159265358979323846 / 100000000000000000000))"

definition arc_angle :: "libm \<Rightarrow> bool \<Rightarrow> f32 \<Rightarrow> f32 \<Rightarrow> f32 \<Rightarrow> f32 \<Rightarrow> f32" where
  "arc_angle L is_clockwise_arc r_axis0 r_axis1 rt_axis0 rt_axis1 =
     (let angular_travel = libm_atan2 L (f_sub (f_mul r_axis0 rt_axis1) (f_mul r_axis1 rt_axis0))
                                        (f_add (f_mul r_axis0 rt_axis0) (f_mul r_axis1 rt_axis1))
      in if is_clockwise_arc
         then (if f_le (f_neg ARC_ANGULAR_TRAVEL_EPSILON) angular_travel then f_sub angular_travel TWO_M_PI
               else angular_travel)
         else (if f_le angular_travel ARC_ANGULAR_TRAVEL_EPSILON then f_add angular_travel TWO_M_PI
               else angular_travel))"

definition arc_segments :: "f32 \<Rightarrow> f32 \<Rightarrow> f32 \<Rightarrow> u16" where
  "arc_segments tolerance angular_travel radius =
     word_of_int (f_to_int (f_floor (f_div (f_abs (f_mul (f_mul (f_of_rat (1/2)) angular_travel) radius))
       (f_sqrt (f_mul tolerance (f_sub (f_mul (f_of_int 2) radius) tolerance))))))"

text \<open>The rotation of the radius vector; \<open>count\<close> rotations are approximate, then one is exact.\<close>

definition arc_rotate :: "libm \<Rightarrow> f32 \<Rightarrow> f32 \<Rightarrow> f32 \<Rightarrow> f32 \<Rightarrow> f32 \<Rightarrow> nat \<Rightarrow> f32 \<times> f32 \<times> nat \<Rightarrow> f32 \<times> f32 \<times> nat" where
  "arc_rotate L cos_T sin_T theta offset0 offset1 i acc = (case acc of (r_axis0, r_axis1, count) \<Rightarrow>
     (if count < N_ARC_CORRECTION
      then (f_sub (f_mul r_axis0 cos_T) (f_mul r_axis1 sin_T),
            f_add (f_mul r_axis0 sin_T) (f_mul r_axis1 cos_T), Suc count)
      else (let a = f_mul (f_of_int (int i)) theta; cos_Ti = libm_cos L a; sin_Ti = libm_sin L a
            in (f_add (f_mul (f_neg offset0) cos_Ti) (f_mul offset1 sin_Ti),
                f_sub (f_mul (f_neg offset0) sin_Ti) (f_mul offset1 cos_Ti), 0))))"

definition set_gc_position :: "(vec \<Rightarrow> vec) \<Rightarrow> machine \<Rightarrow> machine" where
  "set_gc_position f m = m\<lparr>gc_state := (gc_state m)\<lparr>gc_position := f (gc_position (gc_state m))\<rparr>\<rparr>"

text \<open>
  The segments after the first index, \<open>n\<close> of them. \<open>position\<close> is the parser's position array,
  which the caller passes and the loop moves along the arc.
\<close>

fun arc_loop :: "(nat \<Rightarrow> f32 \<times> f32 \<times> nat \<Rightarrow> f32 \<times> f32 \<times> nat) \<Rightarrow> f32 \<Rightarrow> f32 \<Rightarrow> f32 \<Rightarrow> nat \<Rightarrow> nat \<Rightarrow> nat \<Rightarrow>
    plan_line_data_t \<Rightarrow> nat \<Rightarrow> nat \<Rightarrow> f32 \<times> f32 \<times> nat \<Rightarrow> machine \<Rightarrow> machine option" where
  "arc_loop rot center0 center1 per_seg axis_0 axis_1 axis_linear pl_data 0 i acc m = Some m"
| "arc_loop rot center0 center1 per_seg axis_0 axis_1 axis_linear pl_data (Suc n) i acc m = do {
     let (r_axis0, r_axis1, count) = rot i acc;
     let m = set_gc_position (\<lambda>p.
           let p = p[axis_0 := f_add center0 r_axis0]; p = p[axis_1 := f_add center1 r_axis1]
           in p[axis_linear := f_add (p ! axis_linear) per_seg]) m;
     m \<leftarrow> mc_line (gc_position (gc_state m)) pl_data m;
     if sys_abort (sys m) \<noteq> 0 then Some m
     else arc_loop rot center0 center1 per_seg axis_0 axis_1 axis_linear pl_data n (Suc i)
            (r_axis0, r_axis1, count) m }"

definition mc_arc :: "libm \<Rightarrow> vec \<Rightarrow> plan_line_data_t \<Rightarrow> vec \<Rightarrow> f32 \<Rightarrow> nat \<Rightarrow> nat \<Rightarrow> nat \<Rightarrow> bool \<Rightarrow> machine \<Rightarrow> machine option" where
  "mc_arc L target pl_data offset radius axis_0 axis_1 axis_linear is_clockwise_arc m =
     (let position = gc_position (gc_state m);
          center0 = f_add (position ! axis_0) (offset ! axis_0);
          center1 = f_add (position ! axis_1) (offset ! axis_1);
          r_axis0 = f_neg (offset ! axis_0);
          r_axis1 = f_neg (offset ! axis_1);
          rt_axis0 = f_sub (target ! axis_0) center0;
          rt_axis1 = f_sub (target ! axis_1) center1;
          angular_travel = arc_angle L is_clockwise_arc r_axis0 r_axis1 rt_axis0 rt_axis1;
          segments = arc_segments (arc_tolerance (mset m)) angular_travel radius
      in if segments \<noteq> 0 then
           (let pl_data = (if pd_condition pl_data AND PL_COND_FLAG_INVERSE_TIME \<noteq> 0
                  then pl_data\<lparr>pd_feed_rate := f_mul (pd_feed_rate pl_data) (f_of_int (uint segments)),
                               pd_condition := bit_false (pd_condition pl_data) PL_COND_FLAG_INVERSE_TIME\<rparr>
                  else pl_data);
                theta_per_segment = f_div angular_travel (f_of_int (uint segments));
                linear_per_segment = f_div (f_sub (target ! axis_linear) (position ! axis_linear)) (f_of_int (uint segments));
                cos_T = f_sub (f_of_int 2) (f_mul theta_per_segment theta_per_segment);
                sin_T = f_mul (f_mul theta_per_segment (f_of_rat (16666667 / 100000000))) (f_add cos_T (f_of_int 4));
                cos_T = f_mul cos_T (f_of_rat (1/2))
            in do {
              m \<leftarrow> arc_loop (arc_rotate L cos_T sin_T theta_per_segment (offset ! axis_0) (offset ! axis_1))
                    center0 center1 linear_per_segment axis_0 axis_1 axis_linear pl_data
                    (unat segments - 1) 1 (r_axis0, r_axis1, 0) m;
              if sys_abort (sys m) \<noteq> 0 \<and> 1 < segments then Some m else mc_line target pl_data m })
         else mc_line target pl_data m)"

section \<open>Dwell and probing\<close>

definition mc_dwell :: "f32 \<Rightarrow> machine \<Rightarrow> machine option" where
  "mc_dwell seconds m =
     (if sys_state (sys m) = STATE_CHECK_MODE then Some m
      else do { m \<leftarrow> protocol_buffer_synchronize m; delay_sec seconds DELAY_MODE_DWELL m })"

definition on_prb :: "(probe_t \<Rightarrow> probe_t) \<Rightarrow> machine \<Rightarrow> machine" where
  "on_prb f m = m\<lparr>prb := f (prb m)\<rparr>"

text \<open>After the probing motion: success or failure, and a clean planner at the stop position.\<close>

definition probe_finish :: "bool \<Rightarrow> machine \<Rightarrow> (u8 \<times> machine) option" where
  "probe_finish is_no_error m = do {
     let m = (if sys_probe_state (rt m) = PROBE_ACTIVE
              then (if is_no_error then on_rt (\<lambda>r. r\<lparr>sys_probe_position := sys_position r\<rparr>) m
                    else on_rt (system_set_exec_alarm EXEC_ALARM_PROBE_FAIL_CONTACT) m)
              else on_sys (\<lambda>y. y\<lparr>sys_probe_succeeded := 1\<rparr>) m);
     let m = on_rt (\<lambda>r. r\<lparr>sys_probe_state := PROBE_OFF\<rparr>) m;
     let m = on_prb (probe_configure_invert_mask (mset m) False) m;
     m \<leftarrow> protocol_execute_realtime m;
     let m = m_plan_sync_position (on_mot plan_reset (st_reset m));
     let m = report_probe_parameters m;
     Some (if sys_probe_succeeded (sys m) \<noteq> 0 then GC_PROBE_FOUND else GC_PROBE_FAIL_END, m) }"

definition mc_probe_cycle :: "vec \<Rightarrow> plan_line_data_t \<Rightarrow> u8 \<Rightarrow> machine \<Rightarrow> (u8 \<times> machine) option" where
  "mc_probe_cycle target pl_data parser_flags m =
     (if sys_state (sys m) = STATE_CHECK_MODE then Some (GC_PROBE_CHECK_MODE, m)
      else do {
        m \<leftarrow> protocol_buffer_synchronize m;
        if sys_abort (sys m) \<noteq> 0 then Some (GC_PROBE_ABORT, m)
        else do {
          let is_probe_away = bit_istrue parser_flags GC_PARSER_PROBE_IS_AWAY;
          let is_no_error = bit_istrue parser_flags GC_PARSER_PROBE_IS_NO_ERROR;
          let m = on_sys (\<lambda>y. y\<lparr>sys_probe_succeeded := 0\<rparr>) m;
          let m = on_prb (probe_configure_invert_mask (mset m) is_probe_away) m;
          if probe_get_state (prb m) (PROBE_PIN m) \<noteq> 0 then do {
            m \<leftarrow> protocol_execute_realtime (on_rt (system_set_exec_alarm EXEC_ALARM_PROBE_FAIL_INITIAL) m);
            Some (GC_PROBE_FAIL_INIT, on_prb (probe_configure_invert_mask (mset m) False) m) }
          else do {
            m \<leftarrow> mc_line target pl_data m;
            let m = on_rt (\<lambda>r. r\<lparr>sys_probe_state := PROBE_ACTIVE\<rparr>) m;
            m \<leftarrow> wait_idle (on_rt (system_set_exec_state_flag EXEC_CYCLE_START) m);
            if sys_abort (sys m) \<noteq> 0 then Some (GC_PROBE_ABORT, m)
            else probe_finish is_no_error m } } })"

section \<open>Homing\<close>

definition HOMING_CYCLE_0 :: u8 where [grbl_const]: "HOMING_CYCLE_0 = 1"
definition HOMING_CYCLE_1 :: u8 where [grbl_const]: "HOMING_CYCLE_1 = 2"
definition HOMING_CYCLE_ALL :: u8 where [grbl_const]: "HOMING_CYCLE_ALL = 0"
definition N_HOMING_LOCATE_CYCLE :: nat where [grbl_const]: "N_HOMING_LOCATE_CYCLE = 1"
definition HOMING_AXIS_SEARCH_SCALAR :: f32 where "HOMING_AXIS_SEARCH_SCALAR = f_of_rat (3/2)"
definition HOMING_AXIS_LOCATE_SCALAR :: f32 where "HOMING_AXIS_LOCATE_SCALAR = f_of_int 5"
definition A_MOTOR :: nat where [grbl_const]: "A_MOTOR = X_AXIS"
definition B_MOTOR :: nat where [grbl_const]: "B_MOTOR = Y_AXIS"

text \<open>The step pins of an axis: both motors for the two axes they share.\<close>

definition homing_step_pin :: "nat \<Rightarrow> u8" where
  "homing_step_pin idx =
     (if idx = A_MOTOR \<or> idx = B_MOTOR then get_step_pin_mask X_AXIS OR get_step_pin_mask Y_AXIS
      else get_step_pin_mask idx)"

definition homing_max_travel :: "settings_t \<Rightarrow> u8 \<Rightarrow> f32" where
  "homing_max_travel cf cycle_mask =
     fold (\<lambda>idx t. if bit_istrue cycle_mask (bitw idx)
                   then (let v = f_mul (f_neg HOMING_AXIS_SEARCH_SCALAR) (max_travel cf ! idx)
                         in if f_lt v t then t else v)
                   else t) [0..<N_AXIS] f_zero"

text \<open>Zeroing an axis: the motor positions that leave the other axis where it is.\<close>

definition homing_zero_axis :: "nat \<Rightarrow> int list \<Rightarrow> int list" where
  "homing_zero_axis idx pos =
     (if idx = X_AXIS then
        (let axis_position = system_convert_corexy_to_y_axis_steps pos
         in pos[A_MOTOR := axis_position, B_MOTOR := - axis_position])
      else if idx = Y_AXIS then
        (let axis_position = system_convert_corexy_to_x_axis_steps pos
         in pos[B_MOTOR := axis_position, A_MOTOR := axis_position])
      else pos[Z_AXIS := 0])"

text \<open>Target, axis lock, number of active axes and zeroed position of one homing pass.\<close>

definition homing_setup :: "settings_t \<Rightarrow> u8 \<Rightarrow> bool \<Rightarrow> f32 \<Rightarrow> nat \<Rightarrow>
    vec \<times> u8 \<times> nat \<times> int list \<Rightarrow> vec \<times> u8 \<times> nat \<times> int list" where
  "homing_setup cf cycle_mask approach travel idx acc = (case acc of (target, axislock, n_active_axis, pos) \<Rightarrow>
     (if bit_istrue cycle_mask (bitw idx)
      then (target[idx := (if bit_istrue (homing_dir_mask cf) (bitw idx)
                           then (if approach then f_neg travel else travel)
                           else (if approach then travel else f_neg travel))],
            axislock OR homing_step_pin idx, Suc n_active_axis, homing_zero_axis idx pos)
      else acc))"

text \<open>Axes whose switch has closed are locked out of the motion.\<close>

definition homing_lock :: "u8 \<Rightarrow> u8 \<Rightarrow> u8" where
  "homing_lock limit_state axislock =
     fold (\<lambda>idx axislock.
             if axislock AND homing_step_pin idx \<noteq> 0 \<and> limit_state AND bitw idx \<noteq> 0
             then (if idx = Z_AXIS then axislock AND NOT (homing_step_pin Z_AXIS)
                   else axislock AND NOT (homing_step_pin A_MOTOR OR homing_step_pin B_MOTOR))
             else axislock) [0..<N_AXIS] axislock"

text \<open>The alarms that end a homing motion.\<close>

definition homing_alarms :: "u8 \<Rightarrow> bool \<Rightarrow> machine \<Rightarrow> machine" where
  "homing_alarms cycle_mask approach m =
     (let rt_exec = sys_rt_exec_state (rt m);
          m = (if rt_exec AND EXEC_RESET \<noteq> 0 then on_rt (system_set_exec_alarm EXEC_ALARM_HOMING_FAIL_RESET) m else m);
          m = (if rt_exec AND EXEC_SAFETY_DOOR \<noteq> 0 then on_rt (system_set_exec_alarm EXEC_ALARM_HOMING_FAIL_DOOR) m else m);
          m = (if \<not> approach \<and> limits_get_state m AND cycle_mask \<noteq> 0
               then on_rt (system_set_exec_alarm EXEC_ALARM_HOMING_FAIL_PULLOFF) m else m)
      in if approach \<and> rt_exec AND EXEC_CYCLE_STOP \<noteq> 0
         then on_rt (system_set_exec_alarm EXEC_ALARM_HOMING_FAIL_APPROACH) m else m)"

text \<open>
  The loop of one homing motion. The flag of the result is False when an alarm has ended the
  whole homing routine.
\<close>

partial_function (option) homing_motion :: "u8 \<Rightarrow> bool \<Rightarrow> u8 \<Rightarrow> machine \<Rightarrow> (bool \<times> machine) option" where
  "homing_motion cycle_mask approach axislock m =
     (let m = poll m;
          axislock = (if approach then homing_lock (limits_get_state m) axislock else axislock);
          m = (if approach then on_sys (\<lambda>y. y\<lparr>sys_homing_axis_lock := axislock\<rparr>) m else m)
      in Option.bind (st_prep_buffer m) (\<lambda>m.
           let m = poll m in
           if sys_rt_exec_state (rt m) AND (EXEC_SAFETY_DOOR OR EXEC_RESET OR EXEC_CYCLE_STOP) \<noteq> 0 then
             (let m = homing_alarms cycle_mask approach m
              in if sys_rt_exec_alarm (rt m) \<noteq> 0
                 then Option.bind (protocol_execute_realtime (mc_reset m)) (\<lambda>m. Some (False, m))
                 else Some (True, on_rt (system_clear_exec_state_flag EXEC_CYCLE_STOP) m))
           else if STEP_MASK AND axislock \<noteq> 0 then homing_motion cycle_mask approach axislock m
           else Some (True, m)))"

definition homing_pl_data :: "f32 \<Rightarrow> plan_line_data_t" where
  "homing_pl_data rate = plan_line_data_zero
     \<lparr>pd_condition := PL_COND_FLAG_SYSTEM_MOTION OR PL_COND_FLAG_NO_FEED_OVERRIDE, pd_feed_rate := rate\<rparr>"

text \<open>One pass: plan the motion, run it, reset the stepper and wait.\<close>

definition homing_pass :: "u8 \<Rightarrow> bool \<Rightarrow> f32 \<Rightarrow> f32 \<Rightarrow> machine \<Rightarrow> (bool \<times> machine) option" where
  "homing_pass cycle_mask approach travel homing_rate m =
     (let target = system_convert_array_steps_to_mpos (steps_per_mm (mset m)) (sys_position (rt m));
          (target, axislock, n_active_axis, pos) =
            fold (homing_setup (mset m) cycle_mask approach travel) [0..<N_AXIS]
              (target, 0, 0, sys_position (rt m));
          homing_rate = f_mul homing_rate (f_sqrt (f_of_int (int n_active_axis)));
          m = on_rt (\<lambda>r. r\<lparr>sys_position := pos\<rparr>) m;
          m = on_sys (\<lambda>y. y\<lparr>sys_homing_axis_lock := axislock\<rparr>) m;
          m = snd (m_plan_buffer_line target (homing_pl_data homing_rate) m);
          m = on_sys (\<lambda>y. y\<lparr>sys_step_control := STEP_CONTROL_EXECUTE_SYS_MOTION\<rparr>) m
      in do {
        m \<leftarrow> st_prep_buffer m;
        (completed, m) \<leftarrow> homing_motion cycle_mask approach axislock (on_mot (st_wake_up (mset m)) m);
        if \<not> completed then Some (False, m)
        else (let m = st_reset m
              in Some (True, m\<lparr>events := events m @ [Ev_delay_ms (homing_debounce_delay (mset m))]\<rparr>)) })"

text \<open>The passes: search at the seek rate, then pull off and locate at the feed rate in turn.\<close>

fun homing_passes :: "nat \<Rightarrow> u8 \<Rightarrow> bool \<Rightarrow> f32 \<Rightarrow> f32 \<Rightarrow> machine \<Rightarrow> (bool \<times> machine) option" where
  "homing_passes 0 cycle_mask approach travel homing_rate m = Some (True, m)"
| "homing_passes (Suc n) cycle_mask approach travel homing_rate m = do {
     (completed, m) \<leftarrow> homing_pass cycle_mask approach travel homing_rate m;
     if \<not> completed then Some (False, m)
     else if \<not> approach
     then homing_passes n cycle_mask True (f_mul (homing_pulloff (mset m)) HOMING_AXIS_LOCATE_SCALAR)
            (homing_feed_rate (mset m)) m
     else homing_passes n cycle_mask False (homing_pulloff (mset m)) (homing_seek_rate (mset m)) m }"

text \<open>The machine position of an axis at its switch, after the pull-off.\<close>

definition homing_axis_position :: "settings_t \<Rightarrow> nat \<Rightarrow> int" where
  "homing_axis_position cf idx =
     (if bit_istrue (homing_dir_mask cf) (bitw idx)
      then f_lround (f_mul (f_add (max_travel cf ! idx) (homing_pulloff cf)) (steps_per_mm cf ! idx))
      else f_lround (f_mul (f_neg (homing_pulloff cf)) (steps_per_mm cf ! idx)))"

definition homing_set_axis :: "settings_t \<Rightarrow> u8 \<Rightarrow> nat \<Rightarrow> int list \<Rightarrow> int list" where
  "homing_set_axis cf cycle_mask idx pos =
     (if cycle_mask AND bitw idx \<noteq> 0 then
        (let p = homing_axis_position cf idx in
         if idx = X_AXIS
         then (let off = system_convert_corexy_to_y_axis_steps pos in pos[A_MOTOR := p + off, B_MOTOR := p - off])
         else if idx = Y_AXIS
         then (let off = system_convert_corexy_to_x_axis_steps pos in pos[A_MOTOR := off + p, B_MOTOR := off - p])
         else pos[idx := p])
      else pos)"

definition limits_go_home :: "u8 \<Rightarrow> machine \<Rightarrow> machine option" where
  "limits_go_home cycle_mask m =
     (if sys_abort (sys m) \<noteq> 0 then Some m
      else do {
        (completed, m) \<leftarrow> homing_passes (2 * N_HOMING_LOCATE_CYCLE + 2) cycle_mask True
                          (homing_max_travel (mset m) cycle_mask) (homing_seek_rate (mset m)) m;
        if \<not> completed then Some m
        else (let m = on_rt (\<lambda>r. r\<lparr>sys_position :=
                    fold (homing_set_axis (mset m) cycle_mask) [0..<N_AXIS] (sys_position r)\<rparr>) m
              in Some (on_sys (\<lambda>y. y\<lparr>sys_step_control := STEP_CONTROL_NORMAL_OP\<rparr>) m)) })"

definition mc_homing_cycle :: "u8 \<Rightarrow> machine \<Rightarrow> machine option" where
  "mc_homing_cycle cycle_mask m = do {
     let m = limits_disable m;
     m \<leftarrow> limits_go_home HOMING_CYCLE_0 m;
     m \<leftarrow> limits_go_home HOMING_CYCLE_1 m;
     m \<leftarrow> protocol_execute_realtime m;
     if sys_abort (sys m) \<noteq> 0 then Some m
     else Some (limits_init (m_plan_sync_position (gc_sync_position m))) }"

end
