(* ===== verification/Motion_Safety.thy ===== *)
theory Motion_Safety
  imports Motion_Control
begin

text \<open>
  Properties of the motion control routines: a target outside the travel stops the machine, and
  homing leaves the position at the switches.
\<close>

section \<open>Aborts are never taken back\<close>

lemma mode_abort: "mode_of m' = mode_of m \<Longrightarrow> sys_abort (sys m') = sys_abort (sys m)"
  by (simp add: mode_of_def)

lemma st_prep_abort: "st_prep_buffer m = Some m' \<Longrightarrow> sys_abort (sys m') = sys_abort (sys m)"
  by (rule mode_abort) (rule st_prep_mode)

lemma report_status_abort [simp]: "sys_abort (sys (report_realtime_status m)) = sys_abort (sys m)"
  by (rule mode_abort) simp

lemma coolant_abort [simp]: "sys_abort (sys (m_coolant_set_state c m)) = sys_abort (sys m)"
  by (rule mode_abort) simp

lemma exec_rt_alarm_abort: "exec_rt_alarm e m = Some m' \<Longrightarrow> sys_abort (sys m') = sys_abort (sys m)"
  by (simp add: exec_rt_alarm_sys)

lemma hold_abort [simp]:
  "sys_abort (sys (hold_initiate x m)) = sys_abort (sys m)"
  "sys_abort (sys (hold_safety_door m)) = sys_abort (sys m)"
  by (simp_all add: hold_initiate_def hold_safety_door_def Let_def)

lemma exec_rt_hold_abort [simp]: "sys_abort (sys (exec_rt_hold x m)) = sys_abort (sys m)"
  by (simp add: exec_rt_hold_def Let_def)

lemma cycle_start_abort: "cycle_start m = Some m' \<Longrightarrow> sys_abort (sys m') = sys_abort (sys m)"
  by (auto simp: cycle_start_def Let_def bind_eq_Some_conv dest!: st_prep_abort split: if_splits)

lemma exec_rt_cycle_start_abort:
  "exec_rt_cycle_start x m = Some m' \<Longrightarrow> sys_abort (sys m') = sys_abort (sys m)"
proof -
  have "sys_abort (door_resume y) = sys_abort y" for y by (simp add: door_resume_def)
  then show "exec_rt_cycle_start x m = Some m' \<Longrightarrow> sys_abort (sys m') = sys_abort (sys m)"
    by (auto simp: exec_rt_cycle_start_def Let_def bind_eq_Some_conv dest!: cycle_start_abort split: if_splits)
qed

lemma exec_rt_cycle_stop_abort [simp]: "sys_abort (sys (exec_rt_cycle_stop x m)) = sys_abort (sys m)"
  by (simp add: exec_rt_cycle_stop_def Let_def m_plan_sync_position_def gc_sync_position_def)

lemma exec_rt_state_abort:
  "exec_rt_state x m = Some (c, m') \<Longrightarrow>
    sys_abort (sys m') = (if x AND EXEC_RESET \<noteq> 0 then 1 else sys_abort (sys m)) \<and> (c \<longrightarrow> x AND EXEC_RESET = 0)"
  by (auto simp: exec_rt_state_def Let_def bind_eq_Some_conv dest!: exec_rt_cycle_start_abort split: if_splits)

lemma overrides_abort: "exec_rt_overrides m = Some m' \<Longrightarrow> sys_abort (sys m') = sys_abort (sys m)"
proof -
  have o: "sys_abort (sys (exec_rt_motion_override x m)) = sys_abort (sys m)" for x m
    by (simp add: exec_rt_motion_override_def Let_def)
  have "sys_abort (sys (coolant_toggle m)) = sys_abort (sys m)" for m
    by (simp add: coolant_toggle_def Let_def)
  then have a: "sys_abort (sys (exec_rt_accessory_override x m)) = sys_abort (sys m)" for x m
    by (simp add: exec_rt_accessory_override_def Let_def)
  show "exec_rt_overrides m = Some m' \<Longrightarrow> sys_abort (sys m') = sys_abort (sys m)"
    by (auto simp: exec_rt_overrides_def Let_def o a dest!: st_prep_abort split: if_splits)
qed

text \<open>A round aborts exactly when it finds a reset, and an abort stays.\<close>

lemma exec_rt_system_abort:
  assumes "protocol_exec_rt_system m = Some m'"
  obtains m1 where "exec_rt_alarm (sys_rt_exec_alarm (rt (poll m))) (poll m) = Some m1"
    "sys_abort (sys m') = (if sys_rt_exec_state (rt (poll m1)) AND EXEC_RESET \<noteq> 0 then 1 else sys_abort (sys m))"
proof -
  obtain m1 r where a: "exec_rt_alarm (sys_rt_exec_alarm (rt (poll m))) (poll m) = Some m1"
    and s: "exec_rt_state (sys_rt_exec_state (rt (poll m1))) (poll m1) = Some r"
    and o: "(case r of (continue, m2) \<Rightarrow> if continue then exec_rt_overrides m2 else Some m2) = Some m'"
    using assms unfolding protocol_exec_rt_system_def Let_def bind_eq_Some_conv by blast
  have "sys_abort (sys m') = sys_abort (sys (snd r))"
    using o overrides_abort by (auto split: prod.splits if_splits)
  moreover have "sys_abort (sys (poll m1)) = sys_abort (sys m)" using exec_rt_alarm_abort [OF a] by simp
  ultimately show thesis using that [OF a] exec_rt_state_abort [of _ _ "fst r" "snd r"] s by simp
qed

lemma exec_rt_system_keeps_abort:
  "protocol_exec_rt_system m = Some m' \<Longrightarrow> sys_abort (sys m) \<noteq> 0 \<Longrightarrow> sys_abort (sys m') \<noteq> 0"
  by (erule exec_rt_system_abort) (simp split: if_splits)

lemma suspend_aborted:
  "sys_abort (sys m) \<noteq> 0 \<Longrightarrow> protocol_exec_rt_suspend m = Some m' \<Longrightarrow> sys_abort (sys m') \<noteq> 0"
  unfolding protocol_exec_rt_suspend_def Let_def
  by (subst (asm) suspend_loop.simps) (auto split: prod.splits if_splits)

lemma execute_realtime_keeps_abort:
  "protocol_execute_realtime m = Some m' \<Longrightarrow> sys_abort (sys m) \<noteq> 0 \<Longrightarrow> sys_abort (sys m') \<noteq> 0"
  using exec_rt_system_keeps_abort suspend_aborted
  by (auto simp: protocol_execute_realtime_def bind_eq_Some_conv split: if_splits)

section \<open>Soft limits\<close>

text \<open>Interrupts only set flags.\<close>

definition reset_pending :: "machine \<Rightarrow> bool" where
  "reset_pending m = bit_istrue (sys_rt_exec_state (rt m)) EXEC_RESET"

lemma reset_pending_set [simp]:
  "reset_pending (on_rt (system_set_exec_state_flag f) m) \<longleftrightarrow>
     reset_pending m \<or> bit_istrue (bit_true (sys_rt_exec_state (rt m)) f) EXEC_RESET"
  using bit_istrue_set_other [of "sys_rt_exec_state (rt m)" EXEC_RESET f]
  by (auto simp: reset_pending_def system_set_exec_state_flag_def)

lemma reset_pending_others [simp]:
  "reset_pending (on_rt (system_set_exec_alarm c) m) = reset_pending m"
  "reset_pending (on_rt (system_set_exec_motion_override_flag c) m) = reset_pending m"
  "reset_pending (on_rt (system_set_exec_accessory_override_flag c) m) = reset_pending m"
  "reset_pending (on_rt system_clear_exec_alarm m) = reset_pending m"
  "reset_pending (on_mot g m) = reset_pending m" "reset_pending (on_spin h m) = reset_pending m"
  "reset_pending (on_sys e m) = reset_pending m" "reset_pending (st_go_idle m) = reset_pending m"
  by (simp_all add: reset_pending_def rt_flag_defs) (simp_all add: machine_lift)

lemma mc_reset_pending [simp]: "reset_pending (mc_reset m)"
  by (simp add: reset_pending_def mc_reset_flag)

lemma timer1_reset: "reset_pending m \<Longrightarrow> reset_pending (TIMER1_COMPA_vect m)"
proof -
  have e: "reset_pending (isr_execute m)" if "reset_pending m" for m
  proof -
    have f: "reset_pending (isr_finish m) = reset_pending m" "reset_pending (isr_bresenham m) = reset_pending m" for m
      by (simp_all add: reset_pending_def isr_finish_def isr_bresenham_def Let_def split: prod.splits)
    have "reset_pending (on_rt (probe_state_monitor p n) m)" if "reset_pending m" for p n m
      using that bit_istrue_set_other [of "sys_rt_exec_state (rt m)" EXEC_RESET EXEC_MOTION_CANCEL]
      by (simp add: reset_pending_def probe_state_monitor_def)
    then show ?thesis using that by (simp add: isr_execute_def Let_def f)
  qed
  have l: "reset_pending (isr_load_segment m) = reset_pending m" for m
    by (simp add: isr_load_segment_def Let_def) (simp add: reset_pending_def)
  have b: "reset_pending m \<Longrightarrow> reset_pending (isr_buffer_empty m)" for m
    by (simp add: isr_buffer_empty_def Let_def)
  show "reset_pending m \<Longrightarrow> reset_pending (TIMER1_COMPA_vect m)"
    by (simp add: TIMER1_COMPA_vect_def Let_def e l b)
qed

lemma interrupt_reset: "reset_pending m \<Longrightarrow> reset_pending (interrupt i m)"
proof (cases i)
  case (IRQ_serial_rx d)
  have "reset_pending (rx_extended d m)" if "reset_pending m" for m
    using that by (simp add: rx_extended_def)
  moreover have "reset_pending (m\<lparr>ser := s\<rparr>) = reset_pending m" for s by (simp add: reset_pending_def)
  ultimately show "reset_pending m \<Longrightarrow> ?thesis" using IRQ_serial_rx by (simp add: SERIAL_RX_def)
next
  case (IRQ_control_pins p)
  have "reset_pending m \<Longrightarrow> reset_pending (on_rt (\<lambda>r. r\<lparr>sys_rt_exec_state := bit_true (sys_rt_exec_state r) f\<rparr>) m)" for f m
    by (simp add: reset_pending_def bit_istrue_set_other)
  moreover have "reset_pending (m\<lparr>CONTROL_PIN := p\<rparr>) = reset_pending m" by (simp add: reset_pending_def)
  ultimately show "reset_pending m \<Longrightarrow> ?thesis" using IRQ_control_pins by (simp add: CONTROL_INT_vect_def Let_def)
next
  case (IRQ_limit_pins p)
  have "reset_pending (m\<lparr>LIMIT_PIN := p\<rparr>) = reset_pending m" by (simp add: reset_pending_def)
  then show "reset_pending m \<Longrightarrow> ?thesis" using IRQ_limit_pins by (simp add: LIMIT_INT_vect_def Let_def)
next
  case (IRQ_probe_pin p)
  then show "reset_pending m \<Longrightarrow> ?thesis" by (simp add: reset_pending_def)
qed (simp_all add: timer1_reset)

lemma poll_reset: "reset_pending m \<Longrightarrow> reset_pending (poll m)"
proof -
  have "reset_pending m \<Longrightarrow> reset_pending (fold interrupt is m)" for "is" m
    by (induction "is" arbitrary: m) (simp_all add: interrupt_reset)
  moreover have "reset_pending (m\<lparr>irqs := f\<rparr>) = reset_pending m" for f by (simp add: reset_pending_def)
  ultimately show "reset_pending m \<Longrightarrow> reset_pending (poll m)" by (simp add: poll_def)
qed

lemma wait_for_reset_pending: "wait_for_reset m = Some m' \<Longrightarrow> reset_pending m'"
proof (induction rule: wait_for_reset.raw_induct [rotated 1, consumes 1])
  case (1 go m m')
  then show ?case by (auto simp: Let_def reset_pending_def bit_isfalse_iff split: if_splits)
qed

lemma exec_rt_alarm_reset:
  "exec_rt_alarm e m = Some m' \<Longrightarrow> reset_pending m \<Longrightarrow> reset_pending m'"
proof -
  have "reset_pending (report_alarm_message c m) = reset_pending m" for c m
    by (simp add: report_alarm_message_def report_util_line_feed_def printPgmString_def reset_pending_def)
  then show "exec_rt_alarm e m = Some m' \<Longrightarrow> reset_pending m \<Longrightarrow> reset_pending m'"
    by (auto simp: exec_rt_alarm_def Let_def bind_eq_Some_conv dest: wait_for_reset_pending split: if_splits)
qed

lemma soft_limit_aborts: "soft_limit_alarm m = Some m' \<Longrightarrow> sys_abort (sys m') \<noteq> 0"
proof -
  assume "soft_limit_alarm m = Some m'"
  then obtain m1 where r: "protocol_exec_rt_system (on_rt (system_set_exec_alarm EXEC_ALARM_SOFT_LIMIT) (mc_reset m)) = Some m1"
    and m': "(if sys_suspend (sys m1) \<noteq> 0 then protocol_exec_rt_suspend m1 else Some m1) = Some m'"
    by (auto simp: soft_limit_alarm_def protocol_execute_realtime_def bind_eq_Some_conv)
  obtain m2 where e: "exec_rt_alarm (sys_rt_exec_alarm (rt (poll (on_rt (system_set_exec_alarm EXEC_ALARM_SOFT_LIMIT) (mc_reset m)))))
      (poll (on_rt (system_set_exec_alarm EXEC_ALARM_SOFT_LIMIT) (mc_reset m))) = Some m2"
    and a: "sys_abort (sys m1) = (if sys_rt_exec_state (rt (poll m2)) AND EXEC_RESET \<noteq> 0 then 1
      else sys_abort (sys (on_rt (system_set_exec_alarm EXEC_ALARM_SOFT_LIMIT) (mc_reset m))))"
    using exec_rt_system_abort [OF r] by blast
  have "reset_pending (poll (on_rt (system_set_exec_alarm EXEC_ALARM_SOFT_LIMIT) (mc_reset m)))"
    by (rule poll_reset) simp
  then have "reset_pending (poll m2)" by (rule poll_reset [OF exec_rt_alarm_reset [OF e]])
  then have "sys_abort (sys m1) \<noteq> 0" using a by (simp add: reset_pending_def bit_istrue_def)
  then show ?thesis using m' suspend_aborted by (auto split: if_splits)
qed

lemma wait_for_room_abort: "wait_for_room m = Some m' \<Longrightarrow> sys_abort (sys m) \<noteq> 0 \<Longrightarrow> sys_abort (sys m') \<noteq> 0"
  by (subst (asm) wait_for_room.simps) (auto simp: bind_eq_Some_conv dest: execute_realtime_keeps_abort)

lemma soft_check_aborts:
  "limits_soft_check target m = Some m' \<Longrightarrow> system_check_travel_limits (max_travel (mset m)) target \<Longrightarrow>
    sys_abort (sys m') \<noteq> 0"
  by (auto simp: limits_soft_check_def Let_def bind_eq_Some_conv dest: soft_limit_aborts split: if_splits)

text \<open>
  C12. With soft limits on, a line to a target outside the travel is never planned: unless
  jogging, \<open>mc_line\<close> returns only after a reset, with the abort flag set, and all that has run is
  the soft limit check and the realtime system, whatever the interrupts did in the meantime.
\<close>

theorem soft_limit_stops:
  assumes "bit_istrue (settings_flags (mset m)) BITFLAG_SOFT_LIMIT_ENABLE" and "sys_state (sys m) \<noteq> STATE_JOG"
    and "system_check_travel_limits (max_travel (mset m)) target"
    and "mc_line target pl_data m = Some m'"
  shows "sys_abort (sys m') \<noteq> 0
    \<and> (\<exists>m1. limits_soft_check target m = Some m1 \<and> (m' = m1 \<or> wait_for_room m1 = Some m'))"
proof -
  obtain m1 where c: "limits_soft_check target m = Some m1"
    and l: "(if sys_state (sys m1) = STATE_CHECK_MODE then Some m1
       else Option.bind (wait_for_room m1) (\<lambda>m.
         if sys_abort (sys m) \<noteq> 0 then Some m
         else (let (planned, m) = m_plan_buffer_line target pl_data m
               in if \<not> planned \<and> bit_istrue (settings_flags (mset m)) BITFLAG_LASER_MODE
                     \<and> pd_condition pl_data AND PL_COND_FLAG_SPINDLE_CW \<noteq> 0
                  then spindle_sync PL_COND_FLAG_SPINDLE_CW (pd_spindle_speed pl_data) m
                  else Some m))) = Some m'"
    using assms(1,2,4) unfolding mc_line_def by (auto simp: bind_eq_Some_conv)
  have a: "sys_abort (sys m1) \<noteq> 0" by (rule soft_check_aborts [OF c assms(3)])
  show ?thesis
  proof (cases "sys_state (sys m1) = STATE_CHECK_MODE")
    case True
    then show ?thesis using a c l by auto
  next
    case False
    then obtain m2 where m2: "wait_for_room m1 = Some m2" using l by (auto simp: bind_eq_Some_conv)
    then have "sys_abort (sys m2) \<noteq> 0" using a wait_for_room_abort by blast
    then show ?thesis using False l m2 c by auto
  qed
qed

text \<open>An idle machine with soft limits on, whose operator resets it after the alarm.\<close>

definition soft_example :: machine where
  "soft_example = machine_zero
     \<lparr>conf := (conf machine_zero)\<lparr>settings := default_settings\<lparr>settings_flags := BITFLAG_SOFT_LIMIT_ENABLE\<rparr>\<rparr>,
      irqs := (\<lambda>k. if k = 1 then [IRQ_serial_rx CMD_RESET] else [])\<rparr>"

lemma soft_example_check:
  "system_check_travel_limits (max_travel (mset soft_example)) [f_of_int 1, f_zero, f_zero]"
  by (simp add: soft_example_def machine_zero_def default_settings_def system_check_travel_limits_def) code_simp

text \<open>A round that finds a reset ends at once.\<close>

lemma wait_for_reset_now: "reset_pending (poll m) \<Longrightarrow> wait_for_reset m = Some (poll m)"
  by (subst wait_for_reset.simps) (simp add: Let_def reset_pending_def bit_isfalse_iff)

lemma round_reset:
  assumes "exec_rt_alarm (sys_rt_exec_alarm (rt (poll m))) (poll m) = Some m1" "reset_pending m1"
  shows "protocol_exec_rt_system m = Some (on_sys (\<lambda>y. y\<lparr>sys_abort := 1\<rparr>) (poll m1))"
proof -
  have "sys_rt_exec_state (rt (poll m1)) AND EXEC_RESET \<noteq> 0"
    using poll_reset [OF assms(2)] by (simp add: reset_pending_def bit_istrue_def)
  moreover from this have "sys_rt_exec_state (rt (poll m1)) \<noteq> 0" by auto
  ultimately show ?thesis using assms(1) by (simp add: protocol_exec_rt_system_def Let_def exec_rt_state_def)
qed

lemma poll_quiet: "irqs m 0 = [] \<Longrightarrow> poll m = m\<lparr>irqs := (\<lambda>k. irqs m (Suc k))\<rparr>"
  by (simp add: poll_def)

lemma poll_one: "irqs m 0 = [i] \<Longrightarrow> poll m = interrupt i (m\<lparr>irqs := (\<lambda>k. irqs m (Suc k))\<rparr>)"
  by (simp add: poll_def)

lemma mc_reset_frame [simp]:
  "irqs (mc_reset m) = irqs m" "sys (mc_reset m) = sys m" "mset (mc_reset m) = mset m"
  by (simp_all add: mc_reset_def Let_def machine_lift st_go_idle_def)

lemma mc_reset_idle_alarm:
  "sys_state (sys m) = STATE_IDLE \<Longrightarrow> sys_step_control (sys m) = 0 \<Longrightarrow>
     sys_rt_exec_alarm (rt (mc_reset m)) = sys_rt_exec_alarm (rt m)"
  by (simp add: mc_reset_def Let_def machine_lift state_consts system_set_exec_state_flag_def)

lemma report_irqs [simp]:
  "irqs (report_alarm_message c m) = irqs m" "sys (report_alarm_message c m) = sys m" "rt (report_alarm_message c m) = rt m"
  "irqs (report_feedback_message c m) = irqs m" "sys (report_feedback_message c m) = sys m" "rt (report_feedback_message c m) = rt m"
  by (simp_all add: report_alarm_message_def report_feedback_message_def printPgmString_def
     report_util_line_feed_def report_util_feedback_line_feed_def Let_def)

text \<open>An idle machine whose operator answers the soft limit alarm with a reset.\<close>

lemma soft_alarm_answered:
  assumes "irqs m = (\<lambda>k. if k = 1 then [IRQ_serial_rx CMD_RESET] else [])"
    "sys_state (sys m) = STATE_IDLE" "sys_step_control (sys m) = 0" "sys_suspend (sys m) = 0"
  shows "\<exists>m'. soft_limit_alarm m = Some m' \<and> sys_suspend (sys m') = 0 \<and> sys_state (sys m') = STATE_ALARM
    \<and> reset_pending m' \<and> irqs m' = (\<lambda>_. []) \<and> sys_rt_exec_alarm (rt m') = 0"
proof -
  define m0 where "m0 = on_rt (system_set_exec_alarm EXEC_ALARM_SOFT_LIMIT) (mc_reset m)"
  define m1 where "m1 = on_rt (system_clear_exec_state_flag EXEC_RESET) (report_feedback_message MESSAGE_CRITICAL_EVENT
     (report_alarm_message EXEC_ALARM_SOFT_LIMIT (on_sys (\<lambda>y. y\<lparr>sys_state := STATE_ALARM\<rparr>) (poll m0))))"
  define m2 where "m2 = on_rt system_clear_exec_alarm (poll m1)"
  have p0: "poll m0 = m0\<lparr>irqs := (\<lambda>k. if k = 0 then [IRQ_serial_rx CMD_RESET] else [])\<rparr>"
    using assms(1) by (subst poll_quiet) (auto simp: m0_def machine_lift)
  have i1: "irqs m1 = (\<lambda>k. if k = 0 then [IRQ_serial_rx CMD_RESET] else [])"
    by (simp add: m1_def p0 on_rt_def on_sys_def)
  have p1: "poll m1 = mc_reset (m1\<lparr>irqs := (\<lambda>_. [])\<rparr>)"
    using i1 by (subst poll_one) (auto simp: SERIAL_RX_def)
  have e: "exec_rt_alarm EXEC_ALARM_SOFT_LIMIT (poll m0) = Some m2"
  proof -
    have "wait_for_reset m1 = Some (poll m1)" by (rule wait_for_reset_now) (simp add: p1)
    then show ?thesis by (simp add: exec_rt_alarm_def Let_def m1_def m2_def grbl_const)
  qed
  have a: "sys_rt_exec_alarm (rt (poll m0)) = EXEC_ALARM_SOFT_LIMIT"
    by (simp add: p0) (simp add: m0_def on_rt_def system_set_exec_alarm_def)
  have i2: "irqs m2 = (\<lambda>_. [])" "reset_pending m2" by (simp_all add: m2_def p1) (simp add: on_rt_def)
  have "protocol_exec_rt_system m0 = Some (on_sys (\<lambda>y. y\<lparr>sys_abort := 1\<rparr>) m2)"
    using round_reset [of m0 m2] e a i2 by (simp add: poll_idle)
  moreover have "sys m2 = (sys m)\<lparr>sys_state := STATE_ALARM\<rparr>"
    by (simp add: m2_def p1 on_rt_def) (simp add: m1_def p0 on_sys_def on_rt_def, simp add: m0_def on_rt_def)
  moreover have "sys_rt_exec_alarm (rt m2) = 0" by (simp add: m2_def on_rt_def system_clear_exec_alarm_def)
  ultimately have "soft_limit_alarm m = Some (on_sys (\<lambda>y. y\<lparr>sys_abort := 1\<rparr>) m2)"
    using assms(4) by (simp add: soft_limit_alarm_def protocol_execute_realtime_def m0_def on_sys_def)
  then show ?thesis
    using assms(4) i2 \<open>sys m2 = _\<close> \<open>sys_rt_exec_alarm (rt m2) = 0\<close> by (auto simp: on_sys_def reset_pending_def)
qed

lemma wait_for_room_reset:
  assumes "reset_pending m" "irqs m = (\<lambda>_. [])" "sys_rt_exec_alarm (rt m) = 0" "sys_suspend (sys m) = 0"
  shows "wait_for_room m = Some (on_sys (\<lambda>y. y\<lparr>sys_abort := 1\<rparr>) m)"
proof -
  have "protocol_exec_rt_system m = Some (on_sys (\<lambda>y. y\<lparr>sys_abort := 1\<rparr>) m)"
    using round_reset [of m m] assms by (simp add: poll_idle exec_rt_alarm_def)
  then have "protocol_execute_realtime m = Some (on_sys (\<lambda>y. y\<lparr>sys_abort := 1\<rparr>) m)"
    using assms(4) by (simp add: protocol_execute_realtime_def on_sys_def)
  then show ?thesis by (subst wait_for_room.simps) (simp add: on_sys_def)
qed

theorem soft_limit_stops_witness:
  "\<exists>m'. mc_line [f_of_int 1, f_zero, f_zero] plan_line_data_zero soft_example = Some m' \<and> sys_abort (sys m') \<noteq> 0"
proof -
  let ?t = "[f_of_int 1, f_zero, f_zero]"
  have e: "bit_istrue (settings_flags (mset soft_example)) BITFLAG_SOFT_LIMIT_ENABLE"
    "sys soft_example = sys_zero" "irqs soft_example = (\<lambda>k. if k = 1 then [IRQ_serial_rx CMD_RESET] else [])"
    by (simp_all add: soft_example_def machine_zero_def bit_istrue_def grbl_const)
  obtain m' where s: "limits_soft_check ?t soft_example = Some m'" and m': "sys_suspend (sys m') = 0"
    "sys_state (sys m') = STATE_ALARM" "reset_pending m'" "irqs m' = (\<lambda>_. [])" "sys_rt_exec_alarm (rt m') = 0"
    using soft_alarm_answered [of "on_sys (\<lambda>y. y\<lparr>sys_soft_limit := 1\<rparr>) soft_example"] soft_example_check e
    by (auto simp: limits_soft_check_def Let_def on_sys_def sys_zero_def state_consts)
  have r: "mc_line ?t plan_line_data_zero soft_example = Some (on_sys (\<lambda>y. y\<lparr>sys_abort := 1\<rparr>) m')"
    using s m' e wait_for_room_reset [OF m'(3,4,5,1)]
    by (simp add: mc_line_def state_consts sys_zero_def)
  show ?thesis
    using soft_limit_stops [OF e(1) _ soft_example_check r] r e(2) by (simp add: sys_zero_def state_consts)
qed
section \<open>Homing\<close>

text \<open>The logical position of an axis, from the motor positions.\<close>

definition axis_steps :: "int list \<Rightarrow> nat \<Rightarrow> int" where
  "axis_steps pos idx =
     (if idx = X_AXIS then system_convert_corexy_to_x_axis_steps pos
      else if idx = Y_AXIS then system_convert_corexy_to_y_axis_steps pos else pos ! idx)"

lemma set_axis_length [simp]: "length (homing_set_axis cf cyc idx pos) = length pos"
  by (simp add: homing_set_axis_def Let_def)

lemma set_axis_steps:
  assumes "length pos = N_AXIS" "idx < N_AXIS" "j < N_AXIS"
  shows "axis_steps (homing_set_axis cf cyc idx pos) j =
     (if cyc AND bitw idx \<noteq> 0 \<and> j = idx then homing_axis_position cf idx else axis_steps pos j)"
proof (cases "cyc AND bitw idx = 0")
  case True
  then show ?thesis by (simp add: homing_set_axis_def)
next
  case False
  have d: "c_div (p + b + (p - b)) 2 = p" "c_div (p + b - (p - b)) 2 = b" for p b :: int
  proof -
    have e: "p + b + (p - b) = 2 * p" "p + b - (p - b) = 2 * b" by simp_all
    show "c_div (p + b + (p - b)) 2 = p" "c_div (p + b - (p - b)) 2 = b" by (simp_all only: e c_div_double)
  qed
  obtain a b c where p: "pos = [a, b, c]"
    using assms(1) by (auto simp: N_AXIS_def numeral_3_eq_3 length_Suc_conv)
  have ax: "X_AXIS = 0" "Y_AXIS = 1" "A_MOTOR = 0" "B_MOTOR = 1"
    by (simp_all add: X_AXIS_def Y_AXIS_def A_MOTOR_def B_MOTOR_def)
  have j: "j = 0 \<or> j = 1 \<or> j = 2" and i: "idx = 0 \<or> idx = 1 \<or> idx = 2"
    using assms(2,3) by (auto simp: N_AXIS_def)
  show ?thesis using i
  proof (elim disjE)
    assume "idx = 0"
    then show ?thesis using False j
      by (auto simp: homing_set_axis_def axis_steps_def Let_def ax p d
        system_convert_corexy_to_x_axis_steps_def system_convert_corexy_to_y_axis_steps_def)
  next
    assume "idx = 1"
    then show ?thesis using False j
      by (auto simp: homing_set_axis_def axis_steps_def Let_def ax p d add.commute [of _ "homing_axis_position cf 1"]
        system_convert_corexy_to_x_axis_steps_def system_convert_corexy_to_y_axis_steps_def)
  next
    assume "idx = 2"
    then show ?thesis using False j
      by (auto simp: homing_set_axis_def axis_steps_def Let_def ax p
        system_convert_corexy_to_x_axis_steps_def system_convert_corexy_to_y_axis_steps_def)
  qed
qed

text \<open>
  C13. Homing leaves exact positions: after the last pass of a homing cycle the logical position
  of every homed axis is that of its switch after the pull-off, in steps, and every other axis
  is where it was, although the two CoreXY motors are set one axis at a time.
\<close>

theorem homing_position_exact:
  assumes "length pos = N_AXIS" and "idx < N_AXIS"
  shows "axis_steps (fold (homing_set_axis cf cyc) [0..<N_AXIS] pos) idx =
    (if cyc AND bitw idx \<noteq> 0 then homing_axis_position cf idx else axis_steps pos idx)"
proof -
  have "idx = 0 \<or> idx = 1 \<or> idx = 2" using assms(2) by (auto simp: N_AXIS_def)
  moreover have "[0..<N_AXIS] = [0, 1, 2]" by (simp add: N_AXIS_def upt_rec)
  ultimately show ?thesis using assms(1) by (auto simp: set_axis_steps N_AXIS_def)
qed

theorem homing_position_exact_witness:
  "axis_steps (fold (homing_set_axis default_settings 1) [0..<N_AXIS] [7, -3, 4]) 1 = 5"
  using homing_position_exact [of "[7, -3, 4]" 1 default_settings 1]
  by (simp add: axis_steps_def N_AXIS_def X_AXIS_def Y_AXIS_def bitw_def system_convert_corexy_to_y_axis_steps_def c_div_def)

end
