(* ===== verification/Gcode_Parse.thy ===== *)
theory Gcode_Parse
  imports Gcode_Data System_State
begin

text \<open>
  gcode.c, steps 1 and 2 of \<open>gc_execute_line\<close>: the words of a line are read into a parser block,
  commands of one modal group and repeated values are refused. Step 2 needs nothing but the
  line and the modes of the parser state; an error is the left summand.
\<close>

section \<open>The block and its tracking variables\<close>

definition AXIS_COMMAND_NONE :: u8 where [grbl_const]: "AXIS_COMMAND_NONE = 0"
definition AXIS_COMMAND_NON_MODAL :: u8 where [grbl_const]: "AXIS_COMMAND_NON_MODAL = 1"
definition AXIS_COMMAND_MOTION_MODE :: u8 where [grbl_const]: "AXIS_COMMAND_MOTION_MODE = 2"
definition AXIS_COMMAND_TOOL_LENGTH_OFFSET :: u8 where [grbl_const]: "AXIS_COMMAND_TOOL_LENGTH_OFFSET = 3"
definition MAX_LINE_NUMBER :: int where [grbl_const]: "MAX_LINE_NUMBER = 10000000"
definition MAX_TOOL_NUMBER :: int where [grbl_const]: "MAX_TOOL_NUMBER = 255"

text \<open>
  The parser block and the local variables of \<open>gc_execute_line\<close> that track its words.
  \<open>g10_select\<close> is its \<open>coord_select\<close>; \<open>block_coord_system\<close> is not set before step 3.
\<close>

record gc_work =
  gc_block :: parser_block_t
  axis_command :: u8
  axis_words :: u8
  ijk_words :: u8
  command_words :: u16
  value_words :: u16
  gc_parser_flags :: u8
  g10_select :: u8
  block_coord_system :: vec

definition wbit :: "nat \<Rightarrow> u16" where
  "wbit n = push_bit n 1"

definition on_modal :: "(gc_modal_t \<Rightarrow> gc_modal_t) \<Rightarrow> gc_work \<Rightarrow> gc_work" where
  "on_modal f w = w\<lparr>gc_block := (gc_block w)\<lparr>blk_modal := f (blk_modal (gc_block w))\<rparr>\<rparr>"

definition on_values :: "(gc_values_t \<Rightarrow> gc_values_t) \<Rightarrow> gc_work \<Rightarrow> gc_work" where
  "on_values f w = w\<lparr>gc_block := (gc_block w)\<lparr>blk_values := f (blk_values (gc_block w))\<rparr>\<rparr>"

abbreviation mods :: "gc_work \<Rightarrow> gc_modal_t" where "mods w \<equiv> blk_modal (gc_block w)"
abbreviation vals :: "gc_work \<Rightarrow> gc_values_t" where "vals w \<equiv> blk_values (gc_block w)"
abbreviation jogging :: "gc_work \<Rightarrow> bool" where
  "jogging w \<equiv> gc_parser_flags w AND GC_PARSER_JOG_MOTION \<noteq> 0"

definition gc_start :: "gc_modal_t \<Rightarrow> string \<Rightarrow> gc_work" where
  "gc_start modes line =
     (let w = \<lparr>gc_block = parser_block_zero\<lparr>blk_modal := modes\<rparr>, axis_command = AXIS_COMMAND_NONE,
               axis_words = 0, ijk_words = 0, command_words = 0, value_words = 0,
               gc_parser_flags = 0, g10_select = 0, block_coord_system = replicate N_AXIS f_zero\<rparr>
      in if char_at line 0 = CHR ''$''
         then on_modal (\<lambda>b. b\<lparr>motion := MOTION_MODE_LINEAR, feed_rate_mode := FEED_RATE_MODE_UNITS_PER_MIN\<rparr>)
                (w\<lparr>gc_parser_flags := GC_PARSER_JOG_MOTION\<rparr>)
         else w)"

section \<open>Commands\<close>

text \<open>One command of each modal group.\<close>

definition set_command :: "nat \<Rightarrow> gc_work \<Rightarrow> status + gc_work" where
  "set_command word_bit w =
     (if command_words w AND wbit word_bit \<noteq> 0 then Inl STATUS_GCODE_MODAL_GROUP_VIOLATION
      else Inr (w\<lparr>command_words := command_words w OR wbit word_bit\<rparr>))"

text \<open>
  The \<open>G\<close> commands, with the modal group and the mantissa that is left for the integer check.
\<close>

definition G_non_modal :: "u8 \<Rightarrow> u16 \<Rightarrow> gc_work \<Rightarrow> status + nat \<times> u16 \<times> gc_work" where
  "G_non_modal int_value mantissa w =
     (let is_axis = (int_value \<in> {10, 28, 30, 92} \<and> mantissa = 0) in
      if is_axis \<and> axis_command w \<noteq> AXIS_COMMAND_NONE then Inl STATUS_GCODE_AXIS_COMMAND_CONFLICT
      else (let w = (if is_axis then w\<lparr>axis_command := AXIS_COMMAND_NON_MODAL\<rparr> else w) in
        if int_value \<in> {28, 30, 92}
        then (if \<not> (mantissa = 0 \<or> mantissa = 10) then Inl STATUS_GCODE_UNSUPPORTED_COMMAND
              else Inr (MODAL_GROUP_G0, 0,
                w\<lparr>gc_block := (gc_block w)\<lparr>non_modal_command := int_value + ucast mantissa\<rparr>\<rparr>))
        else Inr (MODAL_GROUP_G0, mantissa, w\<lparr>gc_block := (gc_block w)\<lparr>non_modal_command := int_value\<rparr>\<rparr>)))"

definition G_motion :: "u8 \<Rightarrow> u16 \<Rightarrow> gc_work \<Rightarrow> status + nat \<times> u16 \<times> gc_work" where
  "G_motion int_value mantissa w =
     (if int_value \<noteq> 80 \<and> axis_command w \<noteq> AXIS_COMMAND_NONE then Inl STATUS_GCODE_AXIS_COMMAND_CONFLICT
      else (let w = (if int_value \<noteq> 80 then w\<lparr>axis_command := AXIS_COMMAND_MOTION_MODE\<rparr> else w) in
        if int_value = 38
        then (if mantissa \<notin> {20, 30, 40, 50} then Inl STATUS_GCODE_UNSUPPORTED_COMMAND
              else Inr (MODAL_GROUP_G1, 0,
                on_modal (\<lambda>b. b\<lparr>motion := int_value + (ucast (mantissa div 10) + 100)\<rparr>) w))
        else Inr (MODAL_GROUP_G1, mantissa, on_modal (\<lambda>b. b\<lparr>motion := int_value\<rparr>) w)))"

definition G_distance :: "u8 \<Rightarrow> u16 \<Rightarrow> gc_work \<Rightarrow> status + nat \<times> u16 \<times> gc_work" where
  "G_distance int_value mantissa w =
     (if mantissa = 0 then Inr (MODAL_GROUP_G3, 0, on_modal (\<lambda>b. b\<lparr>distance := int_value - 90\<rparr>) w)
      else if mantissa \<noteq> 10 \<or> int_value = 90 then Inl STATUS_GCODE_UNSUPPORTED_COMMAND
      else Inr (MODAL_GROUP_G4, 0, w))"

definition G_tool_length :: "u8 \<Rightarrow> u16 \<Rightarrow> gc_work \<Rightarrow> status + nat \<times> u16 \<times> gc_work" where
  "G_tool_length int_value mantissa w =
     (if axis_command w \<noteq> AXIS_COMMAND_NONE then Inl STATUS_GCODE_AXIS_COMMAND_CONFLICT
      else (let w = w\<lparr>axis_command := AXIS_COMMAND_TOOL_LENGTH_OFFSET\<rparr> in
        if int_value = 49
        then Inr (MODAL_GROUP_G8, 0, on_modal (\<lambda>b. b\<lparr>tool_length := TOOL_LENGTH_OFFSET_CANCEL\<rparr>) w)
        else if mantissa = 10
        then Inr (MODAL_GROUP_G8, 0, on_modal (\<lambda>b. b\<lparr>tool_length := TOOL_LENGTH_OFFSET_ENABLE_DYNAMIC\<rparr>) w)
        else Inl STATUS_GCODE_UNSUPPORTED_COMMAND))"

definition G_select :: "u8 \<Rightarrow> u16 \<Rightarrow> gc_work \<Rightarrow> status + nat \<times> u16 \<times> gc_work" where
  "G_select int_value mantissa w =
     (if int_value \<in> {10, 28, 30, 92, 4, 53} then G_non_modal int_value mantissa w
      else if int_value \<in> {0, 1, 2, 3, 38, 80} then G_motion int_value mantissa w
      else if int_value \<in> {17, 18, 19}
      then Inr (MODAL_GROUP_G2, mantissa, on_modal (\<lambda>b. b\<lparr>plane_select := int_value - 17\<rparr>) w)
      else if int_value \<in> {90, 91} then G_distance int_value mantissa w
      else if int_value \<in> {93, 94}
      then Inr (MODAL_GROUP_G5, mantissa, on_modal (\<lambda>b. b\<lparr>feed_rate_mode := 94 - int_value\<rparr>) w)
      else if int_value \<in> {20, 21}
      then Inr (MODAL_GROUP_G6, mantissa, on_modal (\<lambda>b. b\<lparr>units := 21 - int_value\<rparr>) w)
      else if int_value = 40 then Inr (MODAL_GROUP_G7, mantissa, w)
      else if int_value \<in> {43, 49} then G_tool_length int_value mantissa w
      else if int_value \<in> {54, 55, 56, 57, 58, 59}
      then Inr (MODAL_GROUP_G12, mantissa, on_modal (\<lambda>b. b\<lparr>coord_select := int_value - 54\<rparr>) w)
      else if int_value = 61
      then (if mantissa \<noteq> 0 then Inl STATUS_GCODE_UNSUPPORTED_COMMAND else Inr (MODAL_GROUP_G13, 0, w))
      else Inl STATUS_GCODE_UNSUPPORTED_COMMAND)"

definition G_word :: "u8 \<Rightarrow> u16 \<Rightarrow> gc_work \<Rightarrow> status + gc_work" where
  "G_word int_value mantissa w =
     (case G_select int_value mantissa w of
        Inl e \<Rightarrow> Inl e
      | Inr (word_bit, mantissa, w) \<Rightarrow>
          if 0 < mantissa then Inl STATUS_GCODE_COMMAND_VALUE_NOT_INTEGER else set_command word_bit w)"

text \<open>The \<open>M\<close> commands.\<close>

definition M_word :: "u8 \<Rightarrow> u16 \<Rightarrow> gc_work \<Rightarrow> status + gc_work" where
  "M_word int_value mantissa w =
     (if 0 < mantissa then Inl STATUS_GCODE_COMMAND_VALUE_NOT_INTEGER
      else if int_value \<in> {0, 1, 2, 30} then set_command MODAL_GROUP_M4
        (if int_value = 0 then on_modal (\<lambda>b. b\<lparr>program_flow := PROGRAM_FLOW_PAUSED\<rparr>) w
         else if int_value = 1 then w
         else on_modal (\<lambda>b. b\<lparr>program_flow := int_value\<rparr>) w)
      else if int_value \<in> {3, 4, 5} then set_command MODAL_GROUP_M7
        (on_modal (\<lambda>b. b\<lparr>spindle_mode :=
           (if int_value = 3 then SPINDLE_ENABLE_CW else if int_value = 4 then SPINDLE_ENABLE_CCW else SPINDLE_DISABLE)\<rparr>) w)
      else if int_value \<in> {8, 9} then set_command MODAL_GROUP_M8
        (on_modal (\<lambda>b. b\<lparr>coolant_mode := (if int_value = 8 then COOLANT_FLOOD_ENABLE else COOLANT_DISABLE)\<rparr>) w)
      else Inl STATUS_GCODE_UNSUPPORTED_COMMAND)"

section \<open>Values\<close>

definition set_ijk :: "nat \<Rightarrow> f32 \<Rightarrow> gc_work \<Rightarrow> gc_work" where
  "set_ijk idx v w = (on_values (\<lambda>b. b\<lparr>val_ijk := (val_ijk b)[idx := v]\<rparr>) w)\<lparr>ijk_words := ijk_words w OR bitw idx\<rparr>"

definition set_xyz :: "nat \<Rightarrow> f32 \<Rightarrow> gc_work \<Rightarrow> gc_work" where
  "set_xyz idx v w = (on_values (\<lambda>b. b\<lparr>val_xyz := (val_xyz b)[idx := v]\<rparr>) w)\<lparr>axis_words := axis_words w OR bitw idx\<rparr>"

text \<open>The tracking bit of a value letter, and the block with its value.\<close>

definition value_store :: "char \<Rightarrow> f32 \<Rightarrow> u8 \<Rightarrow> gc_work \<Rightarrow> status + nat \<times> gc_work" where
  "value_store letter v int_value w =
     (if letter = CHR ''F'' then Inr (WORD_F, on_values (\<lambda>b. b\<lparr>val_f := v\<rparr>) w)
      else if letter = CHR ''I'' then Inr (WORD_I, set_ijk X_AXIS v w)
      else if letter = CHR ''J'' then Inr (WORD_J, set_ijk Y_AXIS v w)
      else if letter = CHR ''K'' then Inr (WORD_K, set_ijk Z_AXIS v w)
      else if letter = CHR ''L'' then Inr (WORD_L, on_values (\<lambda>b. b\<lparr>val_l := int_value\<rparr>) w)
      else if letter = CHR ''N'' then Inr (WORD_N, on_values (\<lambda>b. b\<lparr>val_n := f_to_int v\<rparr>) w)
      else if letter = CHR ''P'' then Inr (WORD_P, on_values (\<lambda>b. b\<lparr>val_p := v\<rparr>) w)
      else if letter = CHR ''R'' then Inr (WORD_R, on_values (\<lambda>b. b\<lparr>val_r := v\<rparr>) w)
      else if letter = CHR ''S'' then Inr (WORD_S, on_values (\<lambda>b. b\<lparr>val_s := v\<rparr>) w)
      else if letter = CHR ''T'' then
        (if f_lt (f_of_int MAX_TOOL_NUMBER) v then Inl STATUS_GCODE_MAX_VALUE_EXCEEDED
         else Inr (WORD_T, on_values (\<lambda>b. b\<lparr>val_t := int_value\<rparr>) w))
      else if letter = CHR ''X'' then Inr (WORD_X, set_xyz X_AXIS v w)
      else if letter = CHR ''Y'' then Inr (WORD_Y, set_xyz Y_AXIS v w)
      else if letter = CHR ''Z'' then Inr (WORD_Z, set_xyz Z_AXIS v w)
      else Inl STATUS_GCODE_UNSUPPORTED_COMMAND)"

definition NEGATIVE_CHECK_WORDS :: u16 where
  "NEGATIVE_CHECK_WORDS = wbit WORD_F OR wbit WORD_N OR wbit WORD_P OR wbit WORD_T OR wbit WORD_S"

definition value_word :: "char \<Rightarrow> f32 \<Rightarrow> u8 \<Rightarrow> gc_work \<Rightarrow> status + gc_work" where
  "value_word letter v int_value w =
     (case value_store letter v int_value w of
        Inl e \<Rightarrow> Inl e
      | Inr (word_bit, w) \<Rightarrow>
          if value_words w AND wbit word_bit \<noteq> 0 then Inl STATUS_GCODE_WORD_REPEATED
          else if wbit word_bit AND NEGATIVE_CHECK_WORDS \<noteq> 0 \<and> f_lt v f_zero then Inl STATUS_NEGATIVE_VALUE
          else Inr (w\<lparr>value_words := value_words w OR wbit word_bit\<rparr>))"

section \<open>The words of a line\<close>

text \<open>The integer and the hundredths of a value, cut to 8 and 16 bits.\<close>

definition gc_int_value :: "f32 \<Rightarrow> u8" where
  "gc_int_value v = word_of_int (f_to_int (f_trunc v))"

definition gc_mantissa :: "f32 \<Rightarrow> u16" where
  "gc_mantissa v = word_of_int (f_lround (f_mul (f_of_int 100) (f_sub v (f_of_int (uint (gc_int_value v))))))"

definition gc_word :: "char \<Rightarrow> f32 \<Rightarrow> gc_work \<Rightarrow> status + gc_work" where
  "gc_word letter v w =
     (if letter = CHR ''G'' then G_word (gc_int_value v) (gc_mantissa v) w
      else if letter = CHR ''M'' then M_word (gc_int_value v) (gc_mantissa v) w
      else value_word letter v (gc_int_value v) w)"

definition gc_next_word :: "string \<Rightarrow> u8 \<Rightarrow> gc_work \<Rightarrow> status + u8 \<times> gc_work" where
  "gc_next_word line char_counter w =
     (let letter = char_at line (unat char_counter) in
      if of_char letter < (65 :: nat) \<or> (90 :: nat) < of_char letter then Inl STATUS_EXPECTED_COMMAND_LETTER
      else (case read_float line (char_counter + 1) of
          None \<Rightarrow> Inl STATUS_BAD_NUMBER_FORMAT
        | Some (v, char_counter) \<Rightarrow>
            (case gc_word letter v w of Inl e \<Rightarrow> Inl e | Inr w \<Rightarrow> Inr (char_counter, w))))"

partial_function (option) gc_words :: "string \<Rightarrow> u8 \<Rightarrow> gc_work \<Rightarrow> (status + gc_work) option" where
  "gc_words line char_counter w =
     (if char_at line (unat char_counter) = NUL then Some (Inr w)
      else (case gc_next_word line char_counter w of
          Inl e \<Rightarrow> Some (Inl e)
        | Inr (char_counter, w) \<Rightarrow> gc_words line char_counter w))"

definition gc_parse_line :: "gc_modal_t \<Rightarrow> string \<Rightarrow> (status + gc_work) option" where
  "gc_parse_line modes line =
     (let w = gc_start modes line in gc_words line (if jogging w then 3 else 0) w)"

end
