(* ===== verification/Gcode_Check.thy ===== *)
theory Gcode_Check
  imports Gcode_Parse Motion_Control
begin

text \<open>
  gcode.c, step 3 of \<open>gc_execute_line\<close>: the block is checked against the modes and its values are
  converted to machine coordinates in millimetres. Most of it depends on the block and the
  parser state alone; reading coordinate data from the EEPROM can fail, and a failed read
  stores a default record, which first empties the planner buffer.
\<close>

section \<open>Calls recorded by the settings routines\<close>

text \<open>
  The settings routines record the calls they make of other components; here they are run, in
  their order. None of them reads the EEPROM.
\<close>

definition m_cfg_call :: "cfg_call \<Rightarrow> machine \<Rightarrow> machine option" where
  "m_cfg_call c m = (case c of
       Call_protocol_buffer_synchronize \<Rightarrow> protocol_buffer_synchronize m
     | Call_st_generate_step_dir_invert_masks \<Rightarrow>
         Some (on_mot (st_generate_step_dir_invert_masks (mset m)) m)
     | Call_probe_configure_invert_mask b \<Rightarrow> Some (on_prb (probe_configure_invert_mask (mset m) b) m)
     | Call_system_flag_wco_change \<Rightarrow> system_flag_wco_change m
     | Call_limits_init \<Rightarrow> Some (limits_init m)
     | Call_spindle_init \<Rightarrow> Some (on_spin (spindle_init (mset m)) m)
     | Call_report_status_message s \<Rightarrow> Some (report_status_message (status_code s) m)
     | Call_report_grbl_settings \<Rightarrow> Some (report_grbl_settings m))"

fun run_calls :: "cfg_call list \<Rightarrow> machine \<Rightarrow> machine option" where
  "run_calls [] m = Some m"
| "run_calls (c # cs) m = Option.bind (m_cfg_call c m) (run_calls cs)"

definition with_conf :: "cfg \<Rightarrow> machine \<Rightarrow> machine option" where
  "with_conf cf m = run_calls (cfg_calls cf) (m\<lparr>conf := cf\<lparr>cfg_calls := []\<rparr>\<rparr>)"

text \<open>
  \<open>settings_read_coord_data\<close> and \<open>settings_write_coord_data\<close> on the machine. \<open>dest\<close> stores the
  record read in the caller's array, before a default record is written in its place.
\<close>

definition m_read_coord :: "(vec \<Rightarrow> machine \<Rightarrow> machine) \<Rightarrow> u8 \<Rightarrow> machine \<Rightarrow> (bool \<times> vec \<times> machine) option" where
  "m_read_coord dest sel m =
     (let (ok, v, cf) = settings_read_coord_data sel (conf m)
      in Option.bind (with_conf cf (dest v m)) (\<lambda>m. Some (ok, v, m)))"

definition to_local :: "vec \<Rightarrow> machine \<Rightarrow> machine" where
  "to_local v m = m"

definition m_write_coord :: "u8 \<Rightarrow> vec \<Rightarrow> machine \<Rightarrow> machine option" where
  "m_write_coord sel v m = with_conf (settings_write_coord_data sel v (conf m)) m"

section \<open>Checks in sequence\<close>

type_synonym 'a gcm = "machine \<Rightarrow> ((status + 'a) \<times> machine) option"

definition gc_bind :: "'a gcm \<Rightarrow> ('a \<Rightarrow> 'b gcm) \<Rightarrow> 'b gcm" where
  "gc_bind f g m = Option.bind (f m) (\<lambda>(r, m). case r of Inl e \<Rightarrow> Some (Inl e, m) | Inr a \<Rightarrow> g a m)"

definition gc_pure :: "(parser_state_t \<Rightarrow> status + 'a) \<Rightarrow> 'a gcm" where
  "gc_pure f m = Some (f (gc_state m), m)"

definition ok_then :: "status + 'a \<Rightarrow> ('a \<Rightarrow> status + 'b) \<Rightarrow> status + 'b" where
  "ok_then r f = (case r of Inl e \<Rightarrow> Inl e | Inr a \<Rightarrow> f a)"

section \<open>Feed, spindle, dwell, units and tool length\<close>

definition N_COORDINATE_SYSTEM :: u8 where [grbl_const]: "N_COORDINATE_SYSTEM = 6"
definition SETTING_INDEX_G28 :: u8 where [grbl_const]: "SETTING_INDEX_G28 = N_COORDINATE_SYSTEM"
definition SETTING_INDEX_G30 :: u8 where [grbl_const]: "SETTING_INDEX_G30 = N_COORDINATE_SYSTEM + 1"

abbreviation has_word :: "gc_work \<Rightarrow> nat \<Rightarrow> bool" where
  "has_word w n \<equiv> value_words w AND wbit n \<noteq> 0"

definition use_words :: "u16 \<Rightarrow> gc_work \<Rightarrow> gc_work" where
  "use_words b w = w\<lparr>value_words := value_words w AND NOT b\<rparr>"

definition check_common :: "gc_work \<Rightarrow> status + gc_work" where
  "check_common w =
     (let w = (if axis_words w \<noteq> 0 \<and> axis_command w = AXIS_COMMAND_NONE
               then w\<lparr>axis_command := AXIS_COMMAND_MOTION_MODE\<rparr> else w)
      in if has_word w WORD_N \<and> MAX_LINE_NUMBER < val_n (vals w) then Inl STATUS_GCODE_INVALID_LINE_NUMBER
         else Inr w)"

definition feed_in_mm :: "gc_work \<Rightarrow> gc_work" where
  "feed_in_mm w =
     (if units (mods w) = UNITS_MODE_INCHES then on_values (\<lambda>b. b\<lparr>val_f := f_mul (val_f b) MM_PER_INCH\<rparr>) w else w)"

definition check_feed :: "parser_state_t \<Rightarrow> gc_work \<Rightarrow> status + gc_work" where
  "check_feed g w =
     (if jogging w then
        (if \<not> has_word w WORD_F then Inl STATUS_GCODE_UNDEFINED_FEED_RATE else Inr (feed_in_mm w))
      else if feed_rate_mode (mods w) = FEED_RATE_MODE_INVERSE_TIME then
        (if axis_command w = AXIS_COMMAND_MOTION_MODE \<and> motion (mods w) \<noteq> MOTION_MODE_NONE
            \<and> motion (mods w) \<noteq> MOTION_MODE_SEEK \<and> \<not> has_word w WORD_F
         then Inl STATUS_GCODE_UNDEFINED_FEED_RATE else Inr w)
      else if feed_rate_mode (modal g) = FEED_RATE_MODE_UNITS_PER_MIN then
        Inr (if has_word w WORD_F then feed_in_mm w else on_values (\<lambda>b. b\<lparr>val_f := gc_feed_rate g\<rparr>) w)
      else Inr w)"

definition check_spindle_speed :: "parser_state_t \<Rightarrow> gc_work \<Rightarrow> gc_work" where
  "check_spindle_speed g w =
     (if \<not> has_word w WORD_S then on_values (\<lambda>b. b\<lparr>val_s := gc_spindle_speed g\<rparr>) w else w)"

definition check_dwell :: "gc_work \<Rightarrow> status + gc_work" where
  "check_dwell w =
     (if non_modal_command (gc_block w) = NON_MODAL_DWELL
      then (if \<not> has_word w WORD_P then Inl STATUS_GCODE_VALUE_WORD_MISSING else Inr (use_words (wbit WORD_P) w))
      else Inr w)"

definition plane_axes :: "u8 \<Rightarrow> nat \<times> nat \<times> nat" where
  "plane_axes plane =
     (if plane = PLANE_SELECT_XY then (X_AXIS, Y_AXIS, Z_AXIS)
      else if plane = PLANE_SELECT_ZX then (Z_AXIS, X_AXIS, Y_AXIS)
      else (Y_AXIS, Z_AXIS, X_AXIS))"

definition map_axes :: "(nat \<Rightarrow> f32) \<Rightarrow> vec" where
  "map_axes f = map f [0..<N_AXIS]"

abbreviation has_axis :: "gc_work \<Rightarrow> nat \<Rightarrow> bool" where
  "has_axis w idx \<equiv> bit_istrue (axis_words w) (bitw idx)"

definition units_to_mm :: "gc_work \<Rightarrow> gc_work" where
  "units_to_mm w =
     (if units (mods w) = UNITS_MODE_INCHES
      then on_values (\<lambda>b. b\<lparr>val_xyz := map_axes (\<lambda>idx.
             if has_axis w idx then f_mul (val_xyz b ! idx) MM_PER_INCH else val_xyz b ! idx)\<rparr>) w
      else w)"

definition check_tool_length :: "gc_work \<Rightarrow> status + gc_work" where
  "check_tool_length w =
     (if axis_command w = AXIS_COMMAND_TOOL_LENGTH_OFFSET
         \<and> tool_length (mods w) = TOOL_LENGTH_OFFSET_ENABLE_DYNAMIC
         \<and> axis_words w XOR bitw TOOL_LENGTH_OFFSET_AXIS \<noteq> 0
      then Inl STATUS_GCODE_G43_DYNAMIC_AXIS_ERROR else Inr w)"

text \<open>Points 0 to 14 of the order of execution.\<close>

definition check_settings :: "parser_state_t \<Rightarrow> gc_work \<Rightarrow> status + gc_work" where
  "check_settings g w =
     ok_then (check_common w) (\<lambda>w.
     ok_then (check_feed g w) (\<lambda>w.
     ok_then (check_dwell (check_spindle_speed g w)) (\<lambda>w.
     check_tool_length (units_to_mm w))))"

section \<open>Coordinate systems\<close>

definition check_coord_system :: "gc_work \<Rightarrow> gc_work gcm" where
  "check_coord_system w m =
     (let w = w\<lparr>block_coord_system := coord_system (gc_state m)\<rparr> in
      if command_words w AND wbit MODAL_GROUP_G12 \<noteq> 0 then
        (if N_COORDINATE_SYSTEM < coord_select (mods w) then Some (Inl STATUS_GCODE_UNSUPPORTED_COORD_SYS, m)
         else if coord_select (modal (gc_state m)) \<noteq> coord_select (mods w) then do {
           (ok, v, m) \<leftarrow> m_read_coord to_local (coord_select (mods w)) m;
           Some (if \<not> ok then Inl STATUS_SETTING_READ_FAIL else Inr (w\<lparr>block_coord_system := v\<rparr>), m) }
         else Some (Inr w, m))
      else Some (Inr w, m))"

section \<open>Non-modal commands\<close>

text \<open>\<open>G10\<close>: the checks, the record to change, and the new record.\<close>

definition G10_check :: "gc_work \<Rightarrow> status + gc_work" where
  "G10_check w =
     (if axis_words w = 0 then Inl STATUS_GCODE_NO_AXIS_WORDS
      else if value_words w AND (wbit WORD_P OR wbit WORD_L) = 0 then Inl STATUS_GCODE_VALUE_WORD_MISSING
      else (let sel = word_of_int (f_to_int (f_trunc (val_p (vals w)))) in
        if N_COORDINATE_SYSTEM < sel then Inl STATUS_GCODE_UNSUPPORTED_COORD_SYS
        else if val_l (vals w) \<noteq> 20 \<and> (val_l (vals w) \<noteq> 2 \<or> has_word w WORD_R)
        then Inl STATUS_GCODE_UNSUPPORTED_COMMAND
        else Inr ((use_words (wbit WORD_L OR wbit WORD_P) w)
                  \<lparr>g10_select := (if 0 < sel then sel - 1 else coord_select (mods w))\<rparr>)))"

definition G10_values :: "parser_state_t \<Rightarrow> gc_work \<Rightarrow> vec \<Rightarrow> vec" where
  "G10_values g w stored = map_axes (\<lambda>idx.
     if has_axis w idx then
       (if val_l (vals w) = 20 then
          (let v = f_sub (f_sub (gc_position g ! idx) (coord_offset g ! idx)) (val_xyz (vals w) ! idx)
           in if idx = TOOL_LENGTH_OFFSET_AXIS then f_sub v (tool_length_offset g) else v)
        else val_xyz (vals w) ! idx)
     else stored ! idx)"

definition G92_values :: "parser_state_t \<Rightarrow> gc_work \<Rightarrow> vec" where
  "G92_values g w = map_axes (\<lambda>idx.
     if has_axis w idx then
       (let v = f_sub (f_sub (gc_position g ! idx) (block_coord_system w ! idx)) (val_xyz (vals w) ! idx)
        in if idx = TOOL_LENGTH_OFFSET_AXIS then f_sub v (tool_length_offset g) else v)
     else coord_offset g ! idx)"

text \<open>The target position, in machine coordinates.\<close>

definition gc_target :: "parser_state_t \<Rightarrow> gc_work \<Rightarrow> vec" where
  "gc_target g w = map_axes (\<lambda>idx.
     if \<not> has_axis w idx then gc_position g ! idx
     else if non_modal_command (gc_block w) \<noteq> NON_MODAL_ABSOLUTE_OVERRIDE then
       (if distance (mods w) = DISTANCE_MODE_ABSOLUTE
        then (let v = f_add (val_xyz (vals w) ! idx) (f_add (block_coord_system w ! idx) (coord_offset g ! idx))
              in if idx = TOOL_LENGTH_OFFSET_AXIS then f_add v (tool_length_offset g) else v)
        else f_add (val_xyz (vals w) ! idx) (gc_position g ! idx))
     else val_xyz (vals w) ! idx)"

definition set_target :: "parser_state_t \<Rightarrow> gc_work \<Rightarrow> gc_work" where
  "set_target g w =
     (if axis_command w \<noteq> AXIS_COMMAND_TOOL_LENGTH_OFFSET \<and> axis_words w \<noteq> 0
      then on_values (\<lambda>b. b\<lparr>val_xyz := gc_target g w\<rparr>) w else w)"

text \<open>\<open>G28\<close> and \<open>G30\<close>: the stored position, for the axes named or for all.\<close>

definition go_home_values :: "vec \<Rightarrow> parser_state_t \<Rightarrow> gc_work \<Rightarrow> gc_work" where
  "go_home_values stored g w =
     (if axis_words w \<noteq> 0
      then on_values (\<lambda>b. b\<lparr>val_ijk := map_axes (\<lambda>idx. if has_axis w idx then stored ! idx else gc_position g ! idx)\<rparr>) w
      else (on_values (\<lambda>b. b\<lparr>val_ijk := stored\<rparr>) w)\<lparr>axis_command := AXIS_COMMAND_NONE\<rparr>)"

definition check_non_modal :: "gc_work \<Rightarrow> gc_work gcm" where
  "check_non_modal w m =
     (let g = gc_state m; cmd = non_modal_command (gc_block w) in
      if cmd = NON_MODAL_SET_COORDINATE_DATA then
        (case G10_check w of
           Inl e \<Rightarrow> Some (Inl e, m)
         | Inr w \<Rightarrow> do {
             (ok, v, m) \<leftarrow> m_read_coord to_local (g10_select w) m;
             Some (if \<not> ok then Inl STATUS_SETTING_READ_FAIL
                   else Inr (on_values (\<lambda>b. b\<lparr>val_ijk := G10_values g w v\<rparr>) w), m) })
      else if cmd = NON_MODAL_SET_COORDINATE_OFFSET then
        Some (if axis_words w = 0 then Inl STATUS_GCODE_NO_AXIS_WORDS
              else Inr (on_values (\<lambda>b. b\<lparr>val_xyz := G92_values g w\<rparr>) w), m)
      else (let w = set_target g w in
        if cmd = NON_MODAL_GO_HOME_0 \<or> cmd = NON_MODAL_GO_HOME_1 then do {
          (ok, v, m) \<leftarrow> m_read_coord to_local (if cmd = NON_MODAL_GO_HOME_0 then SETTING_INDEX_G28 else SETTING_INDEX_G30) m;
          Some (if \<not> ok then Inl STATUS_SETTING_READ_FAIL else Inr (go_home_values v g w), m) }
        else if cmd = NON_MODAL_ABSOLUTE_OVERRIDE
            \<and> \<not> (motion (mods w) = MOTION_MODE_SEEK \<or> motion (mods w) = MOTION_MODE_LINEAR)
        then Some (Inl STATUS_GCODE_G53_INVALID_MOTION_MODE, m)
        else Some (Inr w, m)))"

section \<open>Motion modes\<close>

text \<open>Arcs by radius: the centre that lies on the wanted side of the way to the target.\<close>

definition arc_radius_mode :: "parser_state_t \<Rightarrow> gc_work \<Rightarrow> nat \<Rightarrow> nat \<Rightarrow> f32 \<Rightarrow> f32 \<Rightarrow> status + gc_work" where
  "arc_radius_mode g w axis_0 axis_1 x y =
     (let w = use_words (wbit WORD_R) w in
      if gc_position g = val_xyz (vals w) then Inl STATUS_GCODE_INVALID_TARGET
      else (let r = (if units (mods w) = UNITS_MODE_INCHES then f_mul (val_r (vals w)) MM_PER_INCH else val_r (vals w));
                h_x2_div_d = f_sub (f_sub (f_mul (f_mul (f_of_int 4) r) r) (f_mul x x)) (f_mul y y)
            in if f_lt h_x2_div_d f_zero then Inl STATUS_GCODE_ARC_RADIUS_ERROR
               else (let h_x2_div_d = f_div (f_neg (f_sqrt h_x2_div_d)) (hypot_f x y);
                         h_x2_div_d = (if motion (mods w) = MOTION_MODE_CCW_ARC then f_neg h_x2_div_d else h_x2_div_d);
                         (h_x2_div_d, r) = (if f_lt r f_zero then (f_neg h_x2_div_d, f_neg r) else (h_x2_div_d, r))
                     in Inr (on_values (\<lambda>b. b\<lparr>val_r := r, val_ijk := (val_ijk b)
                          [axis_0 := f_mul (f_of_rat (1/2)) (f_sub x (f_mul y h_x2_div_d)),
                           axis_1 := f_mul (f_of_rat (1/2)) (f_add y (f_mul x h_x2_div_d))]\<rparr>) w))))"

text \<open>Arcs by centre: start and target must lie on one circle.\<close>

definition arc_offset_mode :: "gc_work \<Rightarrow> nat \<Rightarrow> nat \<Rightarrow> f32 \<Rightarrow> f32 \<Rightarrow> status + gc_work" where
  "arc_offset_mode w axis_0 axis_1 x y =
     (if ijk_words w AND (bitw axis_0 OR bitw axis_1) = 0 then Inl STATUS_GCODE_NO_OFFSETS_IN_PLANE
      else (let w = use_words (wbit WORD_I OR wbit WORD_J OR wbit WORD_K) w;
                ijk = (if units (mods w) = UNITS_MODE_INCHES
                       then map_axes (\<lambda>idx. if ijk_words w AND bitw idx \<noteq> 0
                              then f_mul (val_ijk (vals w) ! idx) MM_PER_INCH else val_ijk (vals w) ! idx)
                       else val_ijk (vals w));
                target_r = hypot_f (f_sub x (ijk ! axis_0)) (f_sub y (ijk ! axis_1));
                r = hypot_f (ijk ! axis_0) (ijk ! axis_1);
                delta_r = f_abs (f_sub target_r r)
            in if f_lt (f_of_rat (5/1000)) delta_r
                  \<and> (f_lt (f_of_rat (1/2)) delta_r \<or> f_lt (f_mul (f_of_rat (1/1000)) r) delta_r)
               then Inl STATUS_GCODE_INVALID_TARGET
               else Inr (on_values (\<lambda>b. b\<lparr>val_ijk := ijk, val_r := r\<rparr>) w)))"

definition check_arc :: "parser_state_t \<Rightarrow> gc_work \<Rightarrow> status + gc_work" where
  "check_arc g w =
     (let (axis_0, axis_1, axis_linear) = plane_axes (plane_select (mods w)) in
      if axis_words w = 0 then Inl STATUS_GCODE_NO_AXIS_WORDS
      else if axis_words w AND (bitw axis_0 OR bitw axis_1) = 0 then Inl STATUS_GCODE_NO_AXIS_WORDS_IN_PLANE
      else (let x = f_sub (val_xyz (vals w) ! axis_0) (gc_position g ! axis_0);
                y = f_sub (val_xyz (vals w) ! axis_1) (gc_position g ! axis_1)
            in if has_word w WORD_R then arc_radius_mode g w axis_0 axis_1 x y
               else arc_offset_mode w axis_0 axis_1 x y))"

definition set_parser_flag :: "u8 \<Rightarrow> gc_work \<Rightarrow> gc_work" where
  "set_parser_flag f w = w\<lparr>gc_parser_flags := gc_parser_flags w OR f\<rparr>"

definition check_probe :: "parser_state_t \<Rightarrow> gc_work \<Rightarrow> status + gc_work" where
  "check_probe g w =
     (let mode = motion (mods w);
          w = (if mode = MOTION_MODE_PROBE_TOWARD_NO_ERROR \<or> mode = MOTION_MODE_PROBE_AWAY_NO_ERROR
               then set_parser_flag GC_PARSER_PROBE_IS_NO_ERROR w else w);
          w = (if mode = MOTION_MODE_PROBE_AWAY \<or> mode = MOTION_MODE_PROBE_AWAY_NO_ERROR
               then set_parser_flag GC_PARSER_PROBE_IS_AWAY w else w)
      in if axis_words w = 0 then Inl STATUS_GCODE_NO_AXIS_WORDS
         else if gc_position g = val_xyz (vals w) then Inl STATUS_GCODE_INVALID_TARGET
         else Inr w)"

definition no_motion_without_axes :: "gc_work \<Rightarrow> gc_work" where
  "no_motion_without_axes w = (if axis_words w = 0 then w\<lparr>axis_command := AXIS_COMMAND_NONE\<rparr> else w)"

definition check_motion :: "parser_state_t \<Rightarrow> gc_work \<Rightarrow> status + gc_work" where
  "check_motion g w =
     (let mode = motion (mods w) in
      if mode = MOTION_MODE_NONE
      then (if axis_words w \<noteq> 0 then Inl STATUS_GCODE_AXIS_WORDS_EXIST else Inr w)
      else if axis_command w = AXIS_COMMAND_MOTION_MODE then
        (if mode = MOTION_MODE_SEEK then Inr (no_motion_without_axes w)
         else if f_eq (val_f (vals w)) f_zero then Inl STATUS_GCODE_UNDEFINED_FEED_RATE
         else if mode = MOTION_MODE_LINEAR then Inr (no_motion_without_axes w)
         else if mode = MOTION_MODE_CW_ARC then check_arc g (set_parser_flag GC_PARSER_ARC_IS_CLOCKWISE w)
         else if mode = MOTION_MODE_CCW_ARC then check_arc g w
         else if mode \<in> {MOTION_MODE_PROBE_TOWARD, MOTION_MODE_PROBE_TOWARD_NO_ERROR,
                         MOTION_MODE_PROBE_AWAY, MOTION_MODE_PROBE_AWAY_NO_ERROR} then check_probe g w
         else Inr w)
      else Inr w)"

text \<open>Every value word must have been used.\<close>

definition check_unused :: "gc_work \<Rightarrow> status + gc_work" where
  "check_unused w =
     (let w = (if jogging w then use_words (wbit WORD_N OR wbit WORD_F) w
               else use_words (wbit WORD_N OR wbit WORD_F OR wbit WORD_S OR wbit WORD_T) w);
          w = (if axis_command w \<noteq> AXIS_COMMAND_NONE
               then use_words (wbit WORD_X OR wbit WORD_Y OR wbit WORD_Z) w else w)
      in if value_words w \<noteq> 0 then Inl STATUS_GCODE_UNUSED_WORDS else Inr w)"

section \<open>Step 3\<close>

definition gc_check :: "gc_work \<Rightarrow> gc_work gcm" where
  "gc_check w =
     gc_bind (gc_pure (\<lambda>g. check_settings g w)) (\<lambda>w.
     gc_bind (check_coord_system w) (\<lambda>w.
     gc_bind (check_non_modal w) (\<lambda>w.
     gc_pure (\<lambda>g. ok_then (check_motion g w) check_unused))))"

end
