(* ===== verification/Gcode_Exec.thy ===== *)
theory Gcode_Exec
  imports Gcode_Check
begin

text \<open>
  gcode.c, step 4 of \<open>gc_execute_line\<close>, with jog.c: the checked block is executed in the order of
  the g-code standard. \<open>plan_line_data_t\<close> is built up along the way.
\<close>

definition on_gc :: "(parser_state_t \<Rightarrow> parser_state_t) \<Rightarrow> machine \<Rightarrow> machine" where
  "on_gc f m = m\<lparr>gc_state := f (gc_state m)\<rparr>"

definition on_gmodal :: "(gc_modal_t \<Rightarrow> gc_modal_t) \<Rightarrow> machine \<Rightarrow> machine" where
  "on_gmodal f m = on_gc (\<lambda>g. g\<lparr>modal := f (modal g)\<rparr>) m"

definition to_coord_system :: "vec \<Rightarrow> machine \<Rightarrow> machine" where
  "to_coord_system v = on_gc (\<lambda>g. g\<lparr>coord_system := v\<rparr>)"

abbreviation gmodal :: "machine \<Rightarrow> gc_modal_t" where "gmodal m \<equiv> modal (gc_state m)"

section \<open>Jogging\<close>

definition jog_execute :: "plan_line_data_t \<Rightarrow> gc_work \<Rightarrow> machine \<Rightarrow> (status \<times> machine) option" where
  "jog_execute pl_data w m =
     (let pl_data = pl_data\<lparr>pd_feed_rate := val_f (vals w),
                            pd_condition := pd_condition pl_data OR PL_COND_FLAG_NO_FEED_OVERRIDE\<rparr>
      in if bit_istrue (settings_flags (mset m)) BITFLAG_SOFT_LIMIT_ENABLE
            \<and> system_check_travel_limits (max_travel (mset m)) (val_xyz (vals w))
         then Some (STATUS_TRAVEL_EXCEEDED, m)
         else do {
           m \<leftarrow> mc_line (val_xyz (vals w)) pl_data m;
           if sys_state (sys m) = STATE_IDLE \<and> plan_get_current_block (mot m) \<noteq> None
           then do {
             m \<leftarrow> st_prep_buffer (on_sys (\<lambda>y. y\<lparr>sys_state := STATE_JOG\<rparr>) m);
             Some (STATUS_OK, on_mot (st_wake_up (mset m)) m) }
           else Some (STATUS_OK, m) })"

text \<open>Only distance, unit and absolute-override commands may go with a jog.\<close>

definition jog_block_ok :: "gc_work \<Rightarrow> bool" where
  "jog_block_ok w \<longleftrightarrow>
     command_words w AND NOT (wbit MODAL_GROUP_G3 OR wbit MODAL_GROUP_G6 OR wbit MODAL_GROUP_G0) = 0
     \<and> (non_modal_command (gc_block w) = NON_MODAL_ABSOLUTE_OVERRIDE
        \<or> non_modal_command (gc_block w) = NON_MODAL_NO_ACTION)"

definition gc_jog :: "gc_work \<Rightarrow> machine \<Rightarrow> (status \<times> machine) option" where
  "gc_jog w m =
     (if \<not> jog_block_ok w then Some (STATUS_INVALID_JOG_COMMAND, m)
      else do {
        (s, m) \<leftarrow> jog_execute (plan_line_data_zero\<lparr>pd_spindle_speed := gc_spindle_speed (gc_state m),
                      pd_condition := spindle_mode (gmodal m) OR coolant_mode (gmodal m)\<rparr>) w m;
        Some (s, if s = STATUS_OK then set_gc_position (\<lambda>_. val_xyz (vals w)) m else m) })"

section \<open>Laser mode\<close>

definition cutting_mode :: "u8 \<Rightarrow> bool" where
  "cutting_mode mode \<longleftrightarrow> mode = MOTION_MODE_LINEAR \<or> mode = MOTION_MODE_CW_ARC \<or> mode = MOTION_MODE_CCW_ARC"

definition laser_flags :: "settings_t \<Rightarrow> parser_state_t \<Rightarrow> gc_work \<Rightarrow> gc_work" where
  "laser_flags cf g w =
     (if bit_istrue (settings_flags cf) BITFLAG_LASER_MODE then
        (let w = (if \<not> cutting_mode (motion (mods w)) then set_parser_flag GC_PARSER_LASER_DISABLE w else w)
         in if axis_words w \<noteq> 0 \<and> axis_command w = AXIS_COMMAND_MOTION_MODE
            then set_parser_flag GC_PARSER_LASER_ISMOTION w
            else if spindle_mode (modal g) = SPINDLE_ENABLE_CW
                 \<and> cutting_mode (motion (modal g)) = bit_istrue (gc_parser_flags w) GC_PARSER_LASER_DISABLE
            then set_parser_flag GC_PARSER_LASER_FORCE_SYNC w
            else w)
      else w)"

section \<open>Feed, spindle and coolant\<close>

definition exec_feed :: "gc_work \<Rightarrow> machine \<Rightarrow> plan_line_data_t \<times> machine" where
  "exec_feed w m =
     (let m = on_gc (\<lambda>g. g\<lparr>gc_line_number := val_n (vals w)\<rparr>) m;
          m = on_gmodal (\<lambda>b. b\<lparr>feed_rate_mode := feed_rate_mode (mods w)\<rparr>) m;
          m = on_gc (\<lambda>g. g\<lparr>gc_feed_rate := val_f (vals w)\<rparr>) m
      in (plan_line_data_zero\<lparr>pd_feed_rate := val_f (vals w),
            pd_condition := (if feed_rate_mode (mods w) \<noteq> 0 then PL_COND_FLAG_INVERSE_TIME else 0)\<rparr>, m))"

definition exec_spindle_speed :: "gc_work \<Rightarrow> plan_line_data_t \<Rightarrow> machine \<Rightarrow> (plan_line_data_t \<times> machine) option" where
  "exec_spindle_speed w pl_data m = do {
     m \<leftarrow> (if \<not> f_eq (gc_spindle_speed (gc_state m)) (val_s (vals w))
              \<or> bit_istrue (gc_parser_flags w) GC_PARSER_LASER_FORCE_SYNC
           then do {
             m \<leftarrow> (if spindle_mode (gmodal m) \<noteq> SPINDLE_DISABLE \<and> bit_isfalse (gc_parser_flags w) GC_PARSER_LASER_ISMOTION
                   then spindle_sync (spindle_mode (gmodal m))
                          (if bit_istrue (gc_parser_flags w) GC_PARSER_LASER_DISABLE then f_zero else val_s (vals w)) m
                   else Some m);
             Some (on_gc (\<lambda>g. g\<lparr>gc_spindle_speed := val_s (vals w)\<rparr>) m) }
           else Some m);
     Some (if bit_isfalse (gc_parser_flags w) GC_PARSER_LASER_DISABLE
           then pl_data\<lparr>pd_spindle_speed := gc_spindle_speed (gc_state m)\<rparr> else pl_data, m) }"

definition add_condition :: "u8 \<Rightarrow> plan_line_data_t \<Rightarrow> plan_line_data_t" where
  "add_condition c pl_data = pl_data\<lparr>pd_condition := pd_condition pl_data OR c\<rparr>"

definition exec_spindle :: "gc_work \<Rightarrow> plan_line_data_t \<Rightarrow> machine \<Rightarrow> (plan_line_data_t \<times> machine) option" where
  "exec_spindle w pl_data m = do {
     m \<leftarrow> (if spindle_mode (gmodal m) \<noteq> spindle_mode (mods w)
           then do { m \<leftarrow> spindle_sync (spindle_mode (mods w)) (pd_spindle_speed pl_data) m;
                     Some (on_gmodal (\<lambda>b. b\<lparr>spindle_mode := spindle_mode (mods w)\<rparr>) m) }
           else Some m);
     Some (add_condition (spindle_mode (gmodal m)) pl_data, m) }"

definition exec_coolant :: "gc_work \<Rightarrow> plan_line_data_t \<Rightarrow> machine \<Rightarrow> (plan_line_data_t \<times> machine) option" where
  "exec_coolant w pl_data m = do {
     m \<leftarrow> (if coolant_mode (gmodal m) \<noteq> coolant_mode (mods w)
           then do { m \<leftarrow> coolant_sync (coolant_mode (mods w)) m;
                     Some (on_gmodal (\<lambda>b. b\<lparr>coolant_mode :=
                       (if coolant_mode (mods w) = COOLANT_DISABLE then COOLANT_DISABLE
                        else coolant_mode b OR coolant_mode (mods w))\<rparr>) m) }
           else Some m);
     Some (add_condition (coolant_mode (gmodal m)) pl_data, m) }"

section \<open>Dwell, plane, units, tool length and coordinate system\<close>

definition exec_tool_length :: "gc_work \<Rightarrow> machine \<Rightarrow> machine option" where
  "exec_tool_length w m =
     (if axis_command w = AXIS_COMMAND_TOOL_LENGTH_OFFSET then
        (let m = on_gmodal (\<lambda>b. b\<lparr>tool_length := tool_length (mods w)\<rparr>) m;
             offset = (if tool_length (mods w) = TOOL_LENGTH_OFFSET_CANCEL then f_zero
                       else val_xyz (vals w) ! TOOL_LENGTH_OFFSET_AXIS)
         in if \<not> f_eq (tool_length_offset (gc_state m)) offset
            then system_flag_wco_change (on_gc (\<lambda>g. g\<lparr>tool_length_offset := offset\<rparr>) m)
            else Some m)
      else Some m)"

definition exec_coord_system :: "gc_work \<Rightarrow> machine \<Rightarrow> machine option" where
  "exec_coord_system w m =
     (if coord_select (gmodal m) \<noteq> coord_select (mods w)
      then system_flag_wco_change (on_gc (\<lambda>g. g\<lparr>coord_system := block_coord_system w\<rparr>)
             (on_gmodal (\<lambda>b. b\<lparr>coord_select := coord_select (mods w)\<rparr>) m))
      else Some m)"

text \<open>Points 10 to 17 of the order of execution.\<close>

definition exec_setup :: "gc_work \<Rightarrow> machine \<Rightarrow> machine option" where
  "exec_setup w m = do {
     m \<leftarrow> (if non_modal_command (gc_block w) = NON_MODAL_DWELL then mc_dwell (val_p (vals w)) m else Some m);
     let m = on_gmodal (\<lambda>b. b\<lparr>plane_select := plane_select (mods w), units := units (mods w)\<rparr>) m;
     m \<leftarrow> exec_tool_length w m;
     m \<leftarrow> exec_coord_system w m;
     Some (on_gmodal (\<lambda>b. b\<lparr>distance := distance (mods w)\<rparr>) m) }"

section \<open>Non-modal commands\<close>

definition exec_non_modal :: "gc_work \<Rightarrow> plan_line_data_t \<Rightarrow> machine \<Rightarrow> (plan_line_data_t \<times> machine) option" where
  "exec_non_modal w pl_data m =
     (let cmd = non_modal_command (gc_block w) in
      if cmd = NON_MODAL_SET_COORDINATE_DATA then do {
        m \<leftarrow> m_write_coord (g10_select w) (val_ijk (vals w)) m;
        m \<leftarrow> (if coord_select (gmodal m) = g10_select w
              then system_flag_wco_change (on_gc (\<lambda>g. g\<lparr>coord_system := val_ijk (vals w)\<rparr>) m) else Some m);
        Some (pl_data, m) }
      else if cmd = NON_MODAL_GO_HOME_0 \<or> cmd = NON_MODAL_GO_HOME_1 then do {
        let pl_data = add_condition PL_COND_FLAG_RAPID_MOTION pl_data;
        m \<leftarrow> (if axis_command w \<noteq> AXIS_COMMAND_NONE then mc_line (val_xyz (vals w)) pl_data m else Some m);
        m \<leftarrow> mc_line (val_ijk (vals w)) pl_data m;
        Some (pl_data, set_gc_position (\<lambda>_. val_ijk (vals w)) m) }
      else if cmd = NON_MODAL_SET_HOME_0
      then Option.bind (m_write_coord SETTING_INDEX_G28 (gc_position (gc_state m)) m) (\<lambda>m. Some (pl_data, m))
      else if cmd = NON_MODAL_SET_HOME_1
      then Option.bind (m_write_coord SETTING_INDEX_G30 (gc_position (gc_state m)) m) (\<lambda>m. Some (pl_data, m))
      else if cmd = NON_MODAL_SET_COORDINATE_OFFSET
      then Option.bind (system_flag_wco_change (on_gc (\<lambda>g. g\<lparr>coord_offset := val_xyz (vals w)\<rparr>) m)) (\<lambda>m. Some (pl_data, m))
      else if cmd = NON_MODAL_RESET_COORDINATE_OFFSET
      then Option.bind (system_flag_wco_change (on_gc (\<lambda>g. g\<lparr>coord_offset := replicate N_AXIS f_zero\<rparr>) m))
             (\<lambda>m. Some (pl_data, m))
      else Some (pl_data, m))"

section \<open>Motion\<close>

definition exec_motion :: "libm \<Rightarrow> gc_work \<Rightarrow> plan_line_data_t \<Rightarrow> machine \<Rightarrow> machine option" where
  "exec_motion L w pl_data m =
     (let mode = motion (mods w); target = val_xyz (vals w);
          (axis_0, axis_1, axis_linear) = plane_axes (plane_select (mods w));
          m = on_gmodal (\<lambda>b. b\<lparr>motion := mode\<rparr>) m
      in if mode \<noteq> MOTION_MODE_NONE \<and> axis_command w = AXIS_COMMAND_MOTION_MODE then do {
           (gc_update_pos, m) \<leftarrow>
             (if mode = MOTION_MODE_LINEAR
              then Option.bind (mc_line target pl_data m) (\<lambda>m. Some (GC_UPDATE_POS_TARGET, m))
              else if mode = MOTION_MODE_SEEK
              then Option.bind (mc_line target (add_condition PL_COND_FLAG_RAPID_MOTION pl_data) m)
                     (\<lambda>m. Some (GC_UPDATE_POS_TARGET, m))
              else if mode = MOTION_MODE_CW_ARC \<or> mode = MOTION_MODE_CCW_ARC
              then Option.bind (mc_arc L target pl_data (val_ijk (vals w)) (val_r (vals w)) axis_0 axis_1 axis_linear
                       (bit_istrue (gc_parser_flags w) GC_PARSER_ARC_IS_CLOCKWISE) m)
                     (\<lambda>m. Some (GC_UPDATE_POS_TARGET, m))
              else mc_probe_cycle target (add_condition PL_COND_FLAG_NO_FEED_OVERRIDE pl_data) (gc_parser_flags w) m);
           Some (if gc_update_pos = GC_UPDATE_POS_TARGET then set_gc_position (\<lambda>_. target) m
                 else if gc_update_pos = GC_UPDATE_POS_SYSTEM then gc_sync_position m
                 else m) }
         else Some m)"

section \<open>Program flow\<close>

definition program_end_modes :: "gc_modal_t \<Rightarrow> gc_modal_t" where
  "program_end_modes b = b\<lparr>motion := MOTION_MODE_LINEAR, plane_select := PLANE_SELECT_XY,
     distance := DISTANCE_MODE_ABSOLUTE, feed_rate_mode := FEED_RATE_MODE_UNITS_PER_MIN,
     coord_select := 0, spindle_mode := SPINDLE_DISABLE, coolant_mode := COOLANT_DISABLE\<rparr>"

text \<open>The end of a program; the flag of the result is False when the work offset could not be read.\<close>

definition exec_program_end :: "machine \<Rightarrow> (bool \<times> machine) option" where
  "exec_program_end m = do {
     let m = on_gmodal program_end_modes m;
     let m = on_sys (\<lambda>y. y\<lparr>sys_f_override := DEFAULT_FEED_OVERRIDE, sys_r_override := DEFAULT_RAPID_OVERRIDE,
                           sys_spindle_speed_ovr := DEFAULT_SPINDLE_SPEED_OVERRIDE\<rparr>) m;
     (ok, m) \<leftarrow> (if sys_state (sys m) \<noteq> STATE_CHECK_MODE then do {
          (ok, v, m) \<leftarrow> m_read_coord to_coord_system (coord_select (gmodal m)) m;
          if \<not> ok then Some (False, m)
          else do {
            m \<leftarrow> system_flag_wco_change m;
            Some (True, m_coolant_set_state COOLANT_DISABLE (m_spindle_set_state SPINDLE_DISABLE f_zero m)) } }
        else Some (True, m));
     Some (ok, if ok then report_feedback_message MESSAGE_PROGRAM_END m else m) }"

definition exec_program_flow :: "gc_work \<Rightarrow> machine \<Rightarrow> (status \<times> machine) option" where
  "exec_program_flow w m =
     (let m = on_gmodal (\<lambda>b. b\<lparr>program_flow := program_flow (mods w)\<rparr>) m
      in if program_flow (mods w) \<noteq> 0 then do {
           m \<leftarrow> protocol_buffer_synchronize m;
           (ok, m) \<leftarrow> (if program_flow (mods w) = PROGRAM_FLOW_PAUSED
             then (if sys_state (sys m) \<noteq> STATE_CHECK_MODE
                   then Option.bind (protocol_execute_realtime (on_rt (system_set_exec_state_flag EXEC_FEED_HOLD) m))
                          (\<lambda>m. Some (True, m))
                   else Some (True, m))
             else exec_program_end m);
           Some (if ok then (STATUS_OK, on_gmodal (\<lambda>b. b\<lparr>program_flow := PROGRAM_FLOW_RUNNING\<rparr>) m)
                 else (STATUS_SETTING_READ_FAIL, m)) }
         else Some (STATUS_OK, m))"

section \<open>Execution of a line\<close>

definition gc_execute :: "libm \<Rightarrow> gc_work \<Rightarrow> machine \<Rightarrow> (status \<times> machine) option" where
  "gc_execute L w m =
     (if jogging w then gc_jog w m
      else do {
        let w = laser_flags (mset m) (gc_state m) w;
        let (pl_data, m) = exec_feed w m;
        (pl_data, m) \<leftarrow> exec_spindle_speed w pl_data m;
        let m = on_gc (\<lambda>g. g\<lparr>gc_tool := val_t (vals w)\<rparr>) m;
        (pl_data, m) \<leftarrow> exec_spindle w pl_data m;
        (pl_data, m) \<leftarrow> exec_coolant w pl_data m;
        m \<leftarrow> exec_setup w m;
        (pl_data, m) \<leftarrow> exec_non_modal w pl_data m;
        m \<leftarrow> exec_motion L w pl_data m;
        exec_program_flow w m })"

definition gc_execute_line :: "libm \<Rightarrow> string \<Rightarrow> machine \<Rightarrow> (status \<times> machine) option" where
  "gc_execute_line L line m = do {
     parsed \<leftarrow> gc_parse_line (gmodal m) line;
     (case parsed of
        Inl e \<Rightarrow> Some (e, m)
      | Inr w \<Rightarrow> do {
          (checked, m) \<leftarrow> gc_check w m;
          (case checked of Inl e \<Rightarrow> Some (e, m) | Inr w \<Rightarrow> gc_execute L w m) }) }"

definition gc_init :: "machine \<Rightarrow> machine option" where
  "gc_init m = do {
     let m = m\<lparr>gc_state := parser_state_zero\<rparr>;
     (ok, v, m) \<leftarrow> m_read_coord to_coord_system (coord_select (gmodal m)) m;
     Some (if \<not> ok then report_status_message (status_code STATUS_SETTING_READ_FAIL) m else m) }"

end
