(* ===== verification/Gcode_Safety.thy ===== *)
theory Gcode_Safety
  imports Gcode_Exec
begin

text \<open>
  Properties of the g-code parser: it reads every line of the input buffer to its end, accepts
  at most one command of each modal group and one value of each letter, and a rejected line
  has no effect.
\<close>

section \<open>Reading ends\<close>

lemma next_word_moves:
  assumes "gc_next_word line c w = Inr (c', w')" "char_at line (unat c) \<noteq> NUL" "length line < 255"
  shows "unat c < unat c' \<and> unat c' \<le> length line"
proof -
  have "unat c < length line" using assms(2) by (simp add: char_at_def split: if_splits)
  then have c: "unat (c + 1) = unat c + 1" using assms(3) by (simp add: unat_word_ariths)
  obtain v where "read_float line (c + 1) = Some (v, c')"
    using assms(1) by (auto simp: gc_next_word_def Let_def split: if_splits option.splits sum.splits)
  then show ?thesis using read_float_moves assms(3) c by fastforce
qed

lemma gc_words_returns:
  "length line < 255 \<Longrightarrow> unat c \<le> length line \<Longrightarrow> \<exists>r. gc_words line c w = Some r"
proof (induction "length line - unat c" arbitrary: c w rule: less_induct)
  case less
  show ?case
  proof (cases "char_at line (unat c) = NUL")
    case True
    then show ?thesis by (subst gc_words.simps) simp
  next
    case False
    show ?thesis
    proof (cases "gc_next_word line c w")
      case (Inl e)
      then show ?thesis using False by (subst gc_words.simps) simp
    next
      case (Inr r)
      obtain c' w' where r: "r = (c', w')" by (cases r)
      have "unat c < unat c' \<and> unat c' \<le> length line"
        using next_word_moves Inr False less.prems(1) by (simp add: r)
      then have "\<exists>r. gc_words line c' w' = Some r" using less by (meson diff_less_mono2 order_less_le_trans)
      then show ?thesis using False Inr r by (subst gc_words.simps) simp
    qed
  qed
qed

text \<open>
  C24. Parsing terminates: on every line the input buffer can hold, the word loop of
  \<open>gc_execute_line\<close> ends, although its character counter is a byte that could wrap, with a
  status or a block.
\<close>

theorem gc_parse_terminates:
  assumes "3 \<le> length line \<or> hd line \<noteq> CHR ''$''" and "length line \<le> LINE_BUFFER_SIZE"
  shows "\<exists>r. gc_parse_line modes line = Some r"
proof -
  have l: "length line < 255" using assms(2) by (simp add: LINE_BUFFER_SIZE_def)
  have "unat (if jogging (gc_start modes line) then 3 else 0 :: u8) \<le> length line"
    using assms(1) by (cases line) (auto simp: gc_start_def Let_def on_modal_def char_at_def NUL_def)
  then show ?thesis using gc_words_returns [OF l] by (simp add: gc_parse_line_def Let_def)
qed

theorem gc_parse_terminates_witness:
  "\<exists>r. gc_parse_line gc_modal_zero ''G1X20F100'' = Some r"
  by (rule gc_parse_terminates) (simp_all add: LINE_BUFFER_SIZE_def)

section \<open>Modal groups\<close>

lemma and_wbit: "x AND wbit n \<noteq> 0 \<longleftrightarrow> bit x n"
  by (simp add: wbit_def bit_iff_and_push_bit_not_eq_0)

lemma bit_or_wbit: "n < 16 \<Longrightarrow> bit (x OR wbit n) k \<longleftrightarrow> bit x k \<or> k = n"
  by (auto simp: wbit_def bit_or_iff bit_exp_iff)

text \<open>
  The slot a word of a line fills: the modal group of a command, by the table of the g-code
  standard, or the letter of a value.
\<close>

definition command_group :: "char \<Rightarrow> u8 \<Rightarrow> u16 \<Rightarrow> nat option" where
  "command_group letter iv mantissa =
     (if letter = CHR ''G'' then
        (if iv \<in> {4, 10, 28, 30, 53, 92} then Some MODAL_GROUP_G0
         else if iv \<in> {0, 1, 2, 3, 38, 80} then Some MODAL_GROUP_G1
         else if iv \<in> {17, 18, 19} then Some MODAL_GROUP_G2
         else if iv \<in> {90, 91} then Some (if mantissa = 0 then MODAL_GROUP_G3 else MODAL_GROUP_G4)
         else if iv \<in> {93, 94} then Some MODAL_GROUP_G5
         else if iv \<in> {20, 21} then Some MODAL_GROUP_G6
         else if iv = 40 then Some MODAL_GROUP_G7
         else if iv \<in> {43, 49} then Some MODAL_GROUP_G8
         else if iv \<in> {54, 55, 56, 57, 58, 59} then Some MODAL_GROUP_G12
         else if iv = 61 then Some MODAL_GROUP_G13
         else None)
      else if letter = CHR ''M'' then
        (if iv \<in> {0, 1, 2, 30} then Some MODAL_GROUP_M4
         else if iv \<in> {3, 4, 5} then Some MODAL_GROUP_M7
         else if iv \<in> {8, 9} then Some MODAL_GROUP_M8
         else None)
      else None)"

datatype slot = Group nat | Letter char

definition value_letters :: string where "value_letters = ''FIJKLNPRSTXYZ''"

definition word_slot :: "char \<times> f32 \<Rightarrow> slot option" where
  "word_slot wd = (case wd of (letter, v) \<Rightarrow>
     (if letter \<in> {CHR ''G'', CHR ''M''} then map_option Group (command_group letter (gc_int_value v) (gc_mantissa v))
      else if letter \<in> set value_letters then Some (Letter letter) else None))"

definition letter_bit :: "char \<Rightarrow> nat" where
  "letter_bit l = (if l = CHR ''F'' then WORD_F else if l = CHR ''I'' then WORD_I else if l = CHR ''J'' then WORD_J
     else if l = CHR ''K'' then WORD_K else if l = CHR ''L'' then WORD_L else if l = CHR ''N'' then WORD_N
     else if l = CHR ''P'' then WORD_P else if l = CHR ''R'' then WORD_R else if l = CHR ''S'' then WORD_S
     else if l = CHR ''T'' then WORD_T else if l = CHR ''X'' then WORD_X else if l = CHR ''Y'' then WORD_Y else WORD_Z)"

definition slot_used :: "gc_work \<Rightarrow> slot \<Rightarrow> bool" where
  "slot_used w s = (case s of Group n \<Rightarrow> bit (command_words w) n
     | Letter l \<Rightarrow> l \<in> set value_letters \<and> bit (value_words w) (letter_bit l))"

definition same_words :: "gc_work \<Rightarrow> gc_work \<Rightarrow> bool" where
  "same_words w w' \<longleftrightarrow> command_words w' = command_words w \<and> value_words w' = value_words w"

lemma same_words_refl [simp]:
  "same_words w w" "same_words w (on_modal f w')= same_words w w'" "same_words w (w'\<lparr>axis_command := a\<rparr>) = same_words w w'"
  "same_words w (w'\<lparr>gc_block := k\<rparr>) = same_words w w'"
  by (simp_all add: same_words_def on_modal_def)

lemma G_cases_group:
  "G_non_modal iv mantissa w = Inr (b, mantissa', w') \<Longrightarrow> b = MODAL_GROUP_G0 \<and> same_words w w'"
  "G_motion iv mantissa w = Inr (b, mantissa', w') \<Longrightarrow> b = MODAL_GROUP_G1 \<and> same_words w w'"
  "G_distance iv mantissa w = Inr (b, mantissa', w') \<Longrightarrow>
     b = (if mantissa = 0 then MODAL_GROUP_G3 else MODAL_GROUP_G4) \<and> same_words w w'"
  "G_tool_length iv mantissa w = Inr (b, mantissa', w') \<Longrightarrow> b = MODAL_GROUP_G8 \<and> same_words w w'"
  by (auto simp: G_non_modal_def Let_def split: if_splits)
    (auto simp: G_motion_def G_distance_def G_tool_length_def Let_def split: if_splits)

lemma G_select_group:
  assumes "G_select iv mantissa w = Inr (b, mantissa', w')"
  shows "command_group CHR ''G'' iv mantissa = Some b \<and> b < 16 \<and> same_words w w'"
proof -
  consider "iv \<in> {10, 28, 30, 92, 4, 53}" | "iv \<in> {0, 1, 2, 3, 38, 80}" | "iv \<in> {90, 91}" | "iv \<in> {43, 49}"
    | "iv \<in> {17, 18, 19, 93, 94, 20, 21}" | "iv \<in> {40, 54, 55, 56, 57, 58, 59, 61}"
    | "iv \<notin> {10, 28, 30, 92, 4, 53}" "iv \<notin> {0, 1, 2, 3, 38, 80}" "iv \<notin> {90, 91}" "iv \<notin> {43, 49}"
      "iv \<notin> {17, 18, 19, 93, 94, 20, 21}" "iv \<notin> {40, 54, 55, 56, 57, 58, 59, 61}"
    by blast
  then show ?thesis
  proof cases
    case 1
    then have "command_group CHR ''G'' iv mantissa = Some MODAL_GROUP_G0" "G_select iv mantissa w = G_non_modal iv mantissa w"
      by (auto simp: command_group_def G_select_def)
    then show ?thesis using assms G_cases_group(1) [of iv mantissa w b mantissa' w'] by (simp add: MODAL_GROUP_G0_def)
  next
    case 2
    then have "command_group CHR ''G'' iv mantissa = Some MODAL_GROUP_G1" "G_select iv mantissa w = G_motion iv mantissa w"
      by (auto simp: command_group_def G_select_def)
    then show ?thesis using assms G_cases_group(2) [of iv mantissa w b mantissa' w'] by (simp add: MODAL_GROUP_G1_def)
  next
    case 3
    then have "command_group CHR ''G'' iv mantissa = Some (if mantissa = 0 then MODAL_GROUP_G3 else MODAL_GROUP_G4)"
      "G_select iv mantissa w = G_distance iv mantissa w"
      by (auto simp: command_group_def G_select_def)
    then show ?thesis using assms G_cases_group(3) [of iv mantissa w b mantissa' w'] by (simp add: MODAL_GROUP_G3_def MODAL_GROUP_G4_def)
  next
    case 4
    then have "command_group CHR ''G'' iv mantissa = Some MODAL_GROUP_G8" "G_select iv mantissa w = G_tool_length iv mantissa w"
      by (auto simp: command_group_def G_select_def)
    then show ?thesis using assms G_cases_group(4) [of iv mantissa w b mantissa' w'] by (simp add: MODAL_GROUP_G8_def)
  next
    case 5
    then show ?thesis using assms
      by simp (elim disjE; clarsimp simp: command_group_def G_select_def MODAL_GROUP_G2_def MODAL_GROUP_G5_def MODAL_GROUP_G6_def)
  next
    case 6
    then show ?thesis using assms
      by simp (elim disjE; clarsimp simp: command_group_def G_select_def MODAL_GROUP_G7_def MODAL_GROUP_G12_def MODAL_GROUP_G13_def
        split: if_splits)
  next
    case 7
    then show ?thesis using assms by (simp add: G_select_def)
  qed
qed

lemma set_command_slot:
  "set_command b w = Inr w' \<Longrightarrow> b < 16 \<Longrightarrow>
    \<not> slot_used w (Group b) \<and> slot_used w' = (slot_used w)(Group b := True)"
  by (auto simp: set_command_def slot_used_def and_wbit bit_or_wbit fun_eq_iff split: if_splits slot.splits)

lemma M_word_slot:
  assumes "M_word iv mantissa w = Inr w'"
  shows "\<exists>b. command_group CHR ''M'' iv mantissa = Some b \<and> \<not> slot_used w (Group b)
    \<and> slot_used w' = (slot_used w)(Group b := True)"
proof -
  have u: "slot_used (on_modal f w) = slot_used w" for f w by (simp add: slot_used_def on_modal_def fun_eq_iff split: slot.split)
  show ?thesis using assms
    by (auto simp: M_word_def command_group_def grbl_const u dest!: set_command_slot split: if_splits)
qed

lemma slot_used_same: "same_words w w' \<Longrightarrow> slot_used w' = slot_used w"
  by (simp add: slot_used_def same_words_def fun_eq_iff split: slot.split)

lemma G_word_slot:
  assumes "G_word iv mantissa w = Inr w'"
  shows "\<exists>b. command_group CHR ''G'' iv mantissa = Some b \<and> \<not> slot_used w (Group b)
    \<and> slot_used w' = (slot_used w)(Group b := True)"
proof -
  obtain b m1 w1 where s: "G_select iv mantissa w = Inr (b, m1, w1)" and c: "set_command b w1 = Inr w'"
    using assms by (auto simp: G_word_def split: sum.splits prod.splits if_splits)
  from G_select_group [OF s] set_command_slot [OF c] slot_used_same show ?thesis by metis
qed


lemma letter_bit_inj: "l \<in> set value_letters \<Longrightarrow> k \<in> set value_letters \<Longrightarrow> letter_bit l = letter_bit k \<Longrightarrow> l = k"
  by (auto simp: letter_bit_def value_letters_def grbl_const)

lemma letter_bit_small: "letter_bit l < 16"
  by (simp add: letter_bit_def grbl_const)

lemma value_store_letter:
  assumes "value_store l v iv w = Inr (b, w')"
  shows "l \<in> set value_letters \<and> b = letter_bit l \<and> same_words w w'"
proof -
  have s: "same_words w (on_values f w)" "same_words w (set_ijk i v w)" "same_words w (set_xyz i v w)" for f i
    by (simp_all add: same_words_def on_values_def set_ijk_def set_xyz_def)
  show ?thesis
  proof (cases "l \<in> set value_letters")
    case True
    then show ?thesis
      unfolding value_letters_def using assms
      by simp (elim disjE; clarsimp simp: value_store_def letter_bit_def s split: if_splits)
  next
    case False
    then have "value_store l v iv w = Inl STATUS_GCODE_UNSUPPORTED_COMMAND"
      by (simp add: value_store_def value_letters_def)
    then show ?thesis using assms by simp
  qed
qed

lemma value_word_slot:
  assumes "value_word l v iv w = Inr w'"
  shows "l \<in> set value_letters \<and> \<not> slot_used w (Letter l) \<and> slot_used w' = (slot_used w)(Letter l := True)"
proof -
  obtain b w1 where s: "value_store l v iv w = Inr (b, w1)"
    using assms by (auto simp: value_word_def split: sum.splits)
  have l: "l \<in> set value_letters" and b: "b = letter_bit l" using value_store_letter [OF s] by simp_all
  have w': "\<not> bit (value_words w1) (letter_bit l)" "w' = w1\<lparr>value_words := value_words w1 OR wbit (letter_bit l)\<rparr>"
    using assms by (simp_all add: value_word_def s b and_wbit split: if_splits)
  have "same_words w w1" using value_store_letter [OF s] by simp
  then show ?thesis using l w' letter_bit_small [of l] letter_bit_inj [OF _ l]
    by (auto simp: slot_used_def same_words_def bit_or_wbit fun_eq_iff split: slot.splits)
qed

lemma gc_word_slot:
  assumes "gc_word l v w = Inr w'"
  shows "\<exists>s. word_slot (l, v) = Some s \<and> \<not> slot_used w s \<and> slot_used w' = (slot_used w)(s := True)"
proof -
  consider "l = CHR ''G''" | "l = CHR ''M''" | "l \<noteq> CHR ''G''" "l \<noteq> CHR ''M''" by blast
  then show ?thesis
  proof cases
    case 1
    then show ?thesis using assms G_word_slot by (fastforce simp: gc_word_def word_slot_def)
  next
    case 2
    then show ?thesis using assms M_word_slot by (fastforce simp: gc_word_def word_slot_def)
  next
    case 3
    then show ?thesis using assms value_word_slot [of l v "gc_int_value v" w w'] by (auto simp: gc_word_def word_slot_def)
  qed
qed

text \<open>The words of a line, as a letter and a number each, from a position to its end.\<close>

inductive line_words :: "string \<Rightarrow> u8 \<Rightarrow> (char \<times> f32) list \<Rightarrow> bool" for line where
  end_of_line: "char_at line (unat c) = NUL \<Longrightarrow> line_words line c []"
| next_word: "char_at line (unat c) = l \<Longrightarrow> (of_char l :: nat) \<in> {65..90} \<Longrightarrow>
    read_float line (c + 1) = Some (v, c') \<Longrightarrow> line_words line c' ws \<Longrightarrow> line_words line c ((l, v) # ws)"

lemma gc_words_slots:
  "gc_words line c w = Some r \<Longrightarrow> r = Inr w' \<Longrightarrow>
    \<exists>ws ss. line_words line c ws \<and> map word_slot ws = map Some ss \<and> distinct ss
      \<and> (\<forall>s \<in> set ss. \<not> slot_used w s)"
proof (induction arbitrary: w' rule: gc_words.raw_induct [rotated 1, consumes 1])
  case (1 go line c w r)
  show ?case
  proof (cases "char_at line (unat c) = NUL")
    case True
    then show ?thesis using line_words.end_of_line by (metis distinct.simps(1) empty_iff list.simps(8) list.set(1))
  next
    case False
    then obtain c' w1 where n: "gc_next_word line c w = Inr (c', w1)" and g: "go line c' w1 = Some r"
      using "1.hyps" "1.prems" by (auto split: sum.splits)
    obtain v where v: "read_float line (c + 1) = Some (v, c')" and l: "(of_char (char_at line (unat c)) :: nat) \<in> {65..90}"
      and gw: "gc_word (char_at line (unat c)) v w = Inr w1"
      using n by (auto simp: gc_next_word_def Let_def split: if_splits option.splits sum.splits)
    obtain s where s: "word_slot (char_at line (unat c), v) = Some s" "\<not> slot_used w s" "slot_used w1 = (slot_used w)(s := True)"
      using gc_word_slot [OF gw] by blast
    obtain ws ss where ih: "line_words line c' ws" "map word_slot ws = map Some ss" "distinct ss"
      "\<forall>s \<in> set ss. \<not> slot_used w1 s"
      using "1.IH" [OF g "1.prems"] by blast
    have "line_words line c ((char_at line (unat c), v) # ws)" using line_words.next_word [OF refl l v ih(1)] .
    moreover have "map word_slot ((char_at line (unat c), v) # ws) = map Some (s # ss)" using s ih by simp
    moreover have "distinct (s # ss)" "\<forall>t \<in> set (s # ss). \<not> slot_used w t" using ih s by (auto split: if_splits)
    ultimately show ?thesis by blast
  qed
qed

text \<open>
  C23. At most one command of each modal group: when a line parses, it is a sequence of words
  each of which fills a slot of its own, the modal group of its command in the table of the
  g-code standard or the letter of its value; no group and no letter occurs twice.
\<close>

theorem one_word_per_group:
  assumes "gc_parse_line modes line = Some (Inr w)"
  shows "\<exists>ws ss. line_words line (if char_at line 0 = CHR ''$'' then 3 else 0) ws
    \<and> map word_slot ws = map Some ss \<and> distinct ss"
proof -
  have "jogging (gc_start modes line) = (char_at line 0 = CHR ''$'')"
    by (simp add: gc_start_def on_modal_def Let_def GC_PARSER_JOG_MOTION_def)
  then have "gc_words line (if char_at line 0 = CHR ''$'' then 3 else 0) (gc_start modes line) = Some (Inr w)"
    using assms by (simp add: gc_parse_line_def Let_def)
  from gc_words_slots [OF this refl] show ?thesis by blast
qed

theorem one_word_per_group_witness:
  "\<exists>ws ss. line_words ''G0'' 0 ws \<and> map word_slot ws = map Some ss \<and> distinct ss"
proof -
  define w where "w = gc_start gc_modal_zero ''G0''"
  have r: "read_float ''G0'' 1 = Some (f_zero, 2)"
    by code_simp
  have v: "gc_int_value f_zero = 0" "gc_mantissa f_zero = 0" by code_simp+
  obtain w1 where "G_word 0 0 w = Inr w1"
    by (simp add: w_def gc_start_def G_word_def G_select_def G_motion_def char_at_def set_command_def on_modal_def grbl_const)
  then have n: "gc_next_word ''G0'' 0 w = Inr (2, w1)"
    using r v by (simp add: gc_next_word_def Let_def char_at_def gc_word_def)
  have "gc_words ''G0'' 2 w1 = Some (Inr w1)" by (subst gc_words.simps) (simp add: char_at_def)
  then have "gc_words ''G0'' 0 w = Some (Inr w1)"
    using n by (subst gc_words.simps) (simp add: char_at_def NUL_def)
  then have "gc_parse_line gc_modal_zero ''G0'' = Some (Inr w1)"
    by (simp add: gc_parse_line_def w_def gc_start_def Let_def char_at_def)
  from one_word_per_group [OF this] show ?thesis by (simp add: char_at_def)
qed

section \<open>Rejected lines\<close>

lemma read_coord_ok:
  assumes "m_read_coord to_local sel m = Some (True, v, m')" "cfg_calls (conf m) = []"
  shows "m' = m"
proof -
  obtain ok u cf where r: "settings_read_coord_data sel (conf m) = (ok, u, cf)" by (metis prod_cases3)
  have w: "with_conf cf m = Some m'" and ok
    using assms(1) by (auto simp: m_read_coord_def r to_local_def bind_eq_Some_conv)
  have "cf = conf m" using r \<open>ok\<close> unfolding settings_read_coord_data_def Let_def
    by (simp split: prod.splits if_splits)
  moreover have e: "(conf m)\<lparr>cfg_calls := []\<rparr> = conf m" using assms(2) by (cases "conf m") simp
  ultimately show ?thesis using w assms(2) unfolding with_conf_def by (simp only: e run_calls.simps) simp
qed

lemma gc_bind_cases:
  assumes "gc_bind f g m = Some (r, m')"
  obtains e where "f m = Some (Inl e, m')" "r = Inl e"
  | a m1 where "f m = Some (Inr a, m1)" "g a m1 = Some (r, m')"
proof -
  obtain q m1 where f: "f m = Some (q, m1)" and c: "(case q of Inl e \<Rightarrow> Some (Inl e, m1) | Inr a \<Rightarrow> g a m1) = Some (r, m')"
    using assms by (auto simp: gc_bind_def bind_eq_Some_conv)
  then show thesis using that by (cases q) auto
qed

lemma check_coord_system_pure:
  "check_coord_system w m = Some (r, m') \<Longrightarrow> cfg_calls (conf m) = [] \<Longrightarrow> r \<noteq> Inl STATUS_SETTING_READ_FAIL \<Longrightarrow> m' = m"
  by (auto simp: check_coord_system_def Let_def bind_eq_Some_conv dest: read_coord_ok split: if_splits)

lemma check_non_modal_pure:
  "check_non_modal w m = Some (r, m') \<Longrightarrow> cfg_calls (conf m) = [] \<Longrightarrow> r \<noteq> Inl STATUS_SETTING_READ_FAIL \<Longrightarrow> m' = m"
  by (auto simp: check_non_modal_def Let_def bind_eq_Some_conv dest: read_coord_ok split: if_splits sum.splits)

lemma gc_check_pure:
  assumes "gc_check w m = Some (r, m')" "cfg_calls (conf m) = []" "r \<noteq> Inl STATUS_SETTING_READ_FAIL"
  shows "m' = m"
  using assms(1) unfolding gc_check_def
proof (cases rule: gc_bind_cases)
  case (1 e)
  then show ?thesis by (simp add: gc_pure_def)
next
  case (2 w1 m1)
  have m1: "m1 = m" using 2(1) by (simp add: gc_pure_def)
  from 2(2) show ?thesis unfolding m1
  proof (cases rule: gc_bind_cases)
    case (1 e)
    then show ?thesis using assms check_coord_system_pure by blast
  next
    case (2 w2 m2)
    have m2: "m2 = m" using check_coord_system_pure [OF 2(1) assms(2)] by simp
    from 2(2) show ?thesis unfolding m2
    proof (cases rule: gc_bind_cases)
      case (1 e)
      then show ?thesis using assms check_non_modal_pure by blast
    next
      case (2 w3 m3)
      then show ?thesis using check_non_modal_pure [OF 2(1) assms(2)] by (simp add: gc_pure_def)
    qed
  qed
qed

lemma gc_execute_status:
  assumes "gc_execute L w m = Some (s, m')" "s \<noteq> STATUS_OK" "s \<noteq> STATUS_SETTING_READ_FAIL"
  shows "m' = m"
proof (cases "jogging w")
  case True
  then show ?thesis using assms
    by (auto simp: gc_execute_def gc_jog_def jog_execute_def Let_def bind_eq_Some_conv split: if_splits)
next
  case False
  have "exec_program_flow w m1 = Some (s, m') \<Longrightarrow> s = STATUS_OK \<or> s = STATUS_SETTING_READ_FAIL" for w m1
    by (auto simp: exec_program_flow_def Let_def bind_eq_Some_conv split: if_splits)
  then show ?thesis using assms False by (auto simp: gc_execute_def Let_def bind_eq_Some_conv split: prod.splits)
qed

text \<open>
  C10. A rejected line has no effect: when \<open>gc_execute_line\<close> answers with any error other than a
  failed EEPROM read, the parser state, the planner and everything else of the machine are as
  they were before the line.
\<close>

theorem rejected_line_no_effect:
  assumes "gc_execute_line L line m = Some (s, m')" and "cfg_calls (conf m) = []"
    and "s \<noteq> STATUS_OK" and "s \<noteq> STATUS_SETTING_READ_FAIL"
  shows "m' = m"
proof -
  obtain p where p: "gc_parse_line (gmodal m) line = Some p" using assms(1) by (auto simp: gc_execute_line_def bind_eq_Some_conv)
  show ?thesis
  proof (cases p)
    case (Inl e)
    then show ?thesis using assms(1) p by (simp add: gc_execute_line_def)
  next
    case (Inr w)
    obtain r m1 where c: "gc_check w m = Some (r, m1)"
      and x: "(case r of Inl e \<Rightarrow> Some (e, m1) | Inr w \<Rightarrow> gc_execute L w m1) = Some (s, m')"
      using assms(1) p Inr by (auto simp: gc_execute_line_def bind_eq_Some_conv)
    have "r \<noteq> Inl STATUS_SETTING_READ_FAIL" using x assms(4) by auto
    then have "m1 = m" using gc_check_pure [OF c assms(2)] by simp
    then show ?thesis using x assms(3,4) gc_execute_status by (auto split: sum.splits)
  qed
qed

theorem rejected_line_no_effect_witness:
  "\<forall>L. \<exists>m'. gc_execute_line L ''1'' machine_zero = Some (STATUS_EXPECTED_COMMAND_LETTER, m') \<and> m' = machine_zero"
proof
  fix L
  have "gc_execute_line L ''1'' machine_zero = Some (STATUS_EXPECTED_COMMAND_LETTER, machine_zero)"
    unfolding gc_execute_line_def gc_parse_line_def
    by (subst gc_words.simps) (simp add: gc_start_def char_at_def NUL_def gc_next_word_def Let_def)
  moreover have "cfg_calls (conf machine_zero) = []" by (simp add: machine_zero_def)
  ultimately show "\<exists>m'. gc_execute_line L ''1'' machine_zero = Some (STATUS_EXPECTED_COMMAND_LETTER, m') \<and> m' = machine_zero"
    using rejected_line_no_effect by blast
qed

section \<open>What the checks let through\<close>

text \<open>
  C39. \<open>G10\<close> without \<open>P\<close> or without \<open>L\<close>: the missing-word error is raised exactly when both are
  missing, and with \<open>L2\<close> alone, the value of \<open>P\<close> still zero, the block is accepted and changes
  the active coordinate system.
\<close>

theorem G10_missing_word:
  "(G10_check w = Inl STATUS_GCODE_VALUE_WORD_MISSING \<longleftrightarrow>
      axis_words w \<noteq> 0 \<and> \<not> has_word w WORD_P \<and> \<not> has_word w WORD_L)
   \<and> G10_check (w\<lparr>axis_words := 1, value_words := wbit WORD_L,
        gc_block := parser_block_zero\<lparr>blk_modal := modes, blk_values := gc_values_zero\<lparr>val_l := 2\<rparr>\<rparr>\<rparr>)
     = Inr (w\<lparr>axis_words := 1, value_words := 0, g10_select := coord_select modes,
        gc_block := parser_block_zero\<lparr>blk_modal := modes, blk_values := gc_values_zero\<lparr>val_l := 2\<rparr>\<rparr>\<rparr>)"
proof -
  have "x AND (wbit a OR wbit b) = 0 \<longleftrightarrow> x AND wbit a = 0 \<and> x AND wbit b = 0" for x a b
    by (simp add: bit.conj_disj_distrib or_eq_0_iff)
  then have "G10_check w = Inl STATUS_GCODE_VALUE_WORD_MISSING \<longleftrightarrow>
      axis_words w \<noteq> 0 \<and> \<not> has_word w WORD_P \<and> \<not> has_word w WORD_L"
    by (auto simp: G10_check_def Let_def split: if_splits)
  moreover have "f_to_int (f_trunc f_zero) = 0" by code_simp
  ultimately show ?thesis
    by (simp add: G10_check_def Let_def wbit_def grbl_const gc_values_zero_def use_words_def)
qed


end
