(* ===== verification/System_Commands.thy ===== *)
theory System_Commands
  imports Gcode_Exec
begin

text \<open>
  system.c: the \<open>$\<close> commands and the startup lines. The line is the whole static buffer of the
  main loop, as characters; some commands shift or overwrite it, so it is returned. Characters
  after the terminating zero are part of it, as they are stored in the EEPROM with the rest.
\<close>

section \<open>The line buffer\<close>

definition line_bytes :: "string \<Rightarrow> u8 list" where
  "line_bytes line = map (\<lambda>c. of_nat (of_char c)) line"

definition line_chars :: "u8 list \<Rightarrow> string" where
  "line_chars bs = map (\<lambda>b. char_of (unat b)) bs"

text \<open>The copy loop that moves the text from position \<open>hv\<close> on, with its zero, to the front.\<close>

definition shift_line :: "nat \<Rightarrow> string \<Rightarrow> string" where
  "shift_line hv line =
     (let text = takeWhile (\<lambda>c. c \<noteq> NUL) (drop hv line) @ [NUL] in text @ drop (length text) line)"

definition m_read_startup :: "u8 \<Rightarrow> machine \<Rightarrow> (bool \<times> u8 list \<times> machine) option" where
  "m_read_startup n m =
     (let (ok, line, cf) = settings_read_startup_line n (conf m)
      in Option.bind (with_conf cf m) (\<lambda>m. Some (ok, line, m)))"

section \<open>Coordinate report\<close>

text \<open>The loop over the coordinate systems; a record that cannot be read ends the report.\<close>

fun report_coords :: "nat list \<Rightarrow> machine \<Rightarrow> (bool \<times> machine) option" where
  "report_coords [] m = Some (True, m)"
| "report_coords (k # ks) m = do {
     (ok, coord_data, m) \<leftarrow> m_read_coord to_local (of_nat k) m;
     if \<not> ok then Some (False, report_status_message (status_code STATUS_SETTING_READ_FAIL) m)
     else (let m = printPgmString ''[G'' m;
               m = printPgmString (if k = 6 then ''28'' else if k = 7 then ''30''
                                   else print_uint8_base10 (of_nat (k + 54))) m;
               m = printPgmString '':'' m;
               m = report_util_axis_values coord_data m
           in report_coords ks (report_util_feedback_line_feed m)) }"

definition report_ngc_parameters :: "machine \<Rightarrow> machine option" where
  "report_ngc_parameters m = do {
     (ok, m) \<leftarrow> report_coords [0..<SETTING_INDEX_NCOORD + 1] m;
     if \<not> ok then Some m
     else (let m = printPgmString ''[G92:'' m;
               m = report_util_axis_values (coord_offset (gc_state m)) m;
               m = report_util_feedback_line_feed m;
               m = printPgmString ''[TLO:'' m;
               m = printPgmString (printFloat_CoordValue (settings_flags (mset m)) (tool_length_offset (gc_state m))) m;
               m = report_util_feedback_line_feed m
           in Some (report_probe_parameters m)) }"

section \<open>Startup lines\<close>

fun startup_lines :: "libm \<Rightarrow> nat list \<Rightarrow> string \<Rightarrow> machine \<Rightarrow> (string \<times> machine) option" where
  "startup_lines L [] line m = Some (line, m)"
| "startup_lines L (n # ns) line m = do {
     (ok, bs, m) \<leftarrow> m_read_startup (of_nat n) m;
     if \<not> ok then startup_lines L ns (line_chars (bs[0 := 0]))
       (report_execute_startup_message (bs[0 := 0]) (status_code STATUS_SETTING_READ_FAIL) m)
     else if bs ! 0 \<noteq> 0 then do {
       (s, m) \<leftarrow> gc_execute_line L (line_chars bs) m;
       startup_lines L ns (line_chars bs) (report_execute_startup_message bs (status_code s) m) }
     else startup_lines L ns (line_chars bs) m }"

definition system_execute_startup :: "libm \<Rightarrow> string \<Rightarrow> machine \<Rightarrow> (string \<times> machine) option" where
  "system_execute_startup L line m = startup_lines L [0..<N_STARTUP_LINE] line m"

section \<open>Commands of one letter\<close>

type_synonym command_result = "(status \<times> string \<times> machine) option"

definition set_state :: "u8 \<Rightarrow> machine \<Rightarrow> machine" where
  "set_state s m = on_sys (\<lambda>y. y\<lparr>sys_state := s\<rparr>) m"

definition command_jog :: "libm \<Rightarrow> string \<Rightarrow> machine \<Rightarrow> command_result" where
  "command_jog L line m =
     (if sys_state (sys m) \<noteq> STATE_IDLE \<and> sys_state (sys m) \<noteq> STATE_JOG then Some (STATUS_IDLE_ERROR, line, m)
      else if char_at line 2 \<noteq> CHR ''='' then Some (STATUS_INVALID_STATEMENT, line, m)
      else do { (s, m) \<leftarrow> gc_execute_line L line m; Some (s, line, m) })"

definition command_check_mode :: "string \<Rightarrow> machine \<Rightarrow> command_result" where
  "command_check_mode line m =
     (if sys_state (sys m) = STATE_CHECK_MODE
      then Some (STATUS_OK, line, report_feedback_message MESSAGE_DISABLED (mc_reset m))
      else if sys_state (sys m) \<noteq> 0 then Some (STATUS_IDLE_ERROR, line, m)
      else Some (STATUS_OK, line, report_feedback_message MESSAGE_ENABLED (set_state STATE_CHECK_MODE m)))"

definition command_unlock :: "string \<Rightarrow> machine \<Rightarrow> command_result" where
  "command_unlock line m =
     (if sys_state (sys m) = STATE_ALARM then
        (if system_check_safety_door_ajar then Some (STATUS_CHECK_DOOR, line, m)
         else Some (STATUS_OK, line, set_state STATE_IDLE (report_feedback_message MESSAGE_ALARM_UNLOCK m)))
      else Some (STATUS_OK, line, m))"

text \<open>\<open>$$\<close>, \<open>$G\<close>, \<open>$C\<close> and \<open>$X\<close>.\<close>

definition command_short :: "string \<Rightarrow> machine \<Rightarrow> command_result" where
  "command_short line m =
     (if char_at line 2 \<noteq> NUL then Some (STATUS_INVALID_STATEMENT, line, m)
      else if char_at line 1 = CHR ''$'' then
        (if sys_state (sys m) AND (STATE_CYCLE OR STATE_HOLD) \<noteq> 0 then Some (STATUS_IDLE_ERROR, line, m)
         else Some (STATUS_OK, line, report_grbl_settings m))
      else if char_at line 1 = CHR ''G'' then Some (STATUS_OK, line, report_gcode_modes m)
      else if char_at line 1 = CHR ''C'' then command_check_mode line m
      else command_unlock line m)"

section \<open>Homing, build information and restoring defaults\<close>

definition command_homing :: "libm \<Rightarrow> string \<Rightarrow> machine \<Rightarrow> command_result" where
  "command_homing L line m =
     (if bit_isfalse (settings_flags (mset m)) BITFLAG_HOMING_ENABLE then Some (STATUS_SETTING_DISABLED, line, m)
      else if system_check_safety_door_ajar then Some (STATUS_CHECK_DOOR, line, m)
      else (let m = set_state STATE_HOMING m in
        if char_at line 2 \<noteq> NUL then Some (STATUS_INVALID_STATEMENT, line, m)
        else do {
          m \<leftarrow> mc_homing_cycle HOMING_CYCLE_ALL m;
          if sys_abort (sys m) \<noteq> 0 then Some (STATUS_OK, line, m)
          else do {
            (line, m) \<leftarrow> system_execute_startup L line (st_go_idle (set_state STATE_IDLE m));
            Some (STATUS_OK, line, m) } }))"

definition command_sleep :: "string \<Rightarrow> machine \<Rightarrow> command_result" where
  "command_sleep line m =
     (if char_at line 2 \<noteq> CHR ''L'' \<or> char_at line 3 \<noteq> CHR ''P'' \<or> char_at line 4 \<noteq> NUL
      then Some (STATUS_INVALID_STATEMENT, line, m)
      else Some (STATUS_OK, line, on_rt (system_set_exec_state_flag EXEC_SLEEP) m))"

definition command_build_info :: "string \<Rightarrow> machine \<Rightarrow> command_result" where
  "command_build_info line m =
     (if char_at line 2 = NUL then
        (let (ok, bs, cf) = settings_read_build_info (conf m)
         in Option.bind (with_conf cf m) (\<lambda>m. Some (STATUS_OK, line_chars bs, report_build_info bs m)))
      else if char_at line 2 \<noteq> CHR ''='' then Some (STATUS_INVALID_STATEMENT, line, m)
      else (let line = shift_line 3 line
            in Option.bind (with_conf (settings_store_build_info (line_bytes line) (conf m)) m)
                 (\<lambda>m. Some (STATUS_OK, line, m))))"

definition command_restore :: "string \<Rightarrow> machine \<Rightarrow> command_result" where
  "command_restore line m =
     (if char_at line 2 \<noteq> CHR ''S'' \<or> char_at line 3 \<noteq> CHR ''T'' \<or> char_at line 4 \<noteq> CHR ''='' \<or> char_at line 6 \<noteq> NUL
      then Some (STATUS_INVALID_STATEMENT, line, m)
      else (let which = (if char_at line 5 = CHR ''$'' then Some SETTINGS_RESTORE_DEFAULTS
                         else if char_at line 5 = CHR ''#'' then Some SETTINGS_RESTORE_PARAMETERS
                         else if char_at line 5 = CHR ''*'' then Some SETTINGS_RESTORE_ALL else None)
            in (case which of
                  None \<Rightarrow> Some (STATUS_INVALID_STATEMENT, line, m)
                | Some flag \<Rightarrow> do {
                    m \<leftarrow> with_conf (settings_restore flag (conf m)) m;
                    Some (STATUS_OK, line, mc_reset (report_feedback_message MESSAGE_RESTORE_DEFAULTS m)) })))"

section \<open>Storing settings and startup lines\<close>

fun print_startup :: "nat list \<Rightarrow> string \<Rightarrow> machine \<Rightarrow> (string \<times> machine) option" where
  "print_startup [] line m = Some (line, m)"
| "print_startup (n # ns) line m = do {
     (ok, bs, m) \<leftarrow> m_read_startup (of_nat n) m;
     print_startup ns (line_chars bs)
       (if \<not> ok then report_status_message (status_code STATUS_SETTING_READ_FAIL) m
        else report_startup_line (of_nat n) bs m) }"

text \<open>The last branch of the command switch: a number, an equals sign and a line or a value.\<close>

definition command_store :: "libm \<Rightarrow> bool \<Rightarrow> string \<Rightarrow> u8 \<Rightarrow> machine \<Rightarrow> command_result" where
  "command_store L startup line char_counter m =
     (case read_float line char_counter of
        None \<Rightarrow> Some (STATUS_BAD_NUMBER_FORMAT, line, m)
      | Some (parameter, char_counter) \<Rightarrow>
          if char_at line (unat char_counter) \<noteq> CHR ''='' then Some (STATUS_INVALID_STATEMENT, line, m)
          else if startup then
            (let line = shift_line (unat (char_counter + 1)) line in do {
               (s, m) \<leftarrow> gc_execute_line L line m;
               if s \<noteq> STATUS_OK then Some (s, line, m)
               else do {
                 m \<leftarrow> with_conf (settings_store_startup_line (word_of_int (f_to_int (f_trunc parameter)))
                                  (line_bytes line) (conf m)) m;
                 Some (STATUS_OK, line, m) } })
          else
            (case read_float line (char_counter + 1) of
               None \<Rightarrow> Some (STATUS_BAD_NUMBER_FORMAT, line, m)
             | Some (v, char_counter) \<Rightarrow>
                 if char_at line (unat char_counter) \<noteq> NUL \<or> f_lt (f_of_int 255) parameter
                 then Some (STATUS_INVALID_STATEMENT, line, m)
                 else (let (s, cf) = settings_store_global_setting (word_of_int (f_to_int parameter)) v (conf m)
                       in Option.bind (with_conf cf m) (\<lambda>m. Some (s, line, m)))))"

definition command_startup :: "libm \<Rightarrow> string \<Rightarrow> machine \<Rightarrow> command_result" where
  "command_startup L line m =
     (if char_at line 2 = NUL then do {
        (line, m) \<leftarrow> print_startup [0..<N_STARTUP_LINE] line m; Some (STATUS_OK, line, m) }
      else if sys_state (sys m) \<noteq> STATE_IDLE then Some (STATUS_IDLE_ERROR, line, m)
      else command_store L True line 2 m)"

section \<open>The command switch\<close>

definition system_execute_line :: "libm \<Rightarrow> string \<Rightarrow> machine \<Rightarrow> command_result" where
  "system_execute_line L line m =
     (let c = char_at line 1 in
      if c = NUL then Some (STATUS_OK, line, report_grbl_help m)
      else if c = CHR ''J'' then command_jog L line m
      else if c \<in> {CHR ''$'', CHR ''G'', CHR ''C'', CHR ''X''} then command_short line m
      else if \<not> (sys_state (sys m) = STATE_IDLE \<or> sys_state (sys m) = STATE_ALARM)
      then Some (STATUS_IDLE_ERROR, line, m)
      else if c = CHR ''#'' then
        (if char_at line 2 \<noteq> NUL then Some (STATUS_INVALID_STATEMENT, line, m)
         else Option.bind (report_ngc_parameters m) (\<lambda>m. Some (STATUS_OK, line, m)))
      else if c = CHR ''H'' then command_homing L line m
      else if c = CHR ''S'' then command_sleep line m
      else if c = CHR ''I'' then command_build_info line m
      else if c = CHR ''R'' then command_restore line m
      else if c = CHR ''N'' then command_startup L line m
      else command_store L False line 1 m)"

end
