(* ===== verification/Main_Loop.thy ===== *)
theory Main_Loop
  imports System_Commands
begin

text \<open>
  protocol.c and main.c: the filter that assembles a line from the received bytes, the primary
  loop, and the initialisation that surrounds it.
\<close>

section \<open>The line filter\<close>

definition LINE_FLAG_OVERFLOW :: u8 where [grbl_const]: "LINE_FLAG_OVERFLOW = 1"
definition LINE_FLAG_COMMENT_PARENTHESES :: u8 where [grbl_const]: "LINE_FLAG_COMMENT_PARENTHESES = 2"
definition LINE_FLAG_COMMENT_SEMICOLON :: u8 where [grbl_const]: "LINE_FLAG_COMMENT_SEMICOLON = 4"

text \<open>The static line buffer and the two local variables of the loop that track it.\<close>

record line_t =
  line_buf :: string
  line_flags :: u8
  line_counter :: u8

definition line_put :: "u8 \<Rightarrow> line_t \<Rightarrow> line_t" where
  "line_put c lb = lb\<lparr>line_buf := (line_buf lb)[unat (line_counter lb) := char_of (unat c)],
                      line_counter := line_counter lb + 1\<rparr>"

definition line_char :: "u8 \<Rightarrow> line_t \<Rightarrow> line_t" where
  "line_char c lb =
     (if line_flags lb \<noteq> 0 then
        (if c = 41 \<and> line_flags lb AND LINE_FLAG_COMMENT_PARENTHESES \<noteq> 0
         then lb\<lparr>line_flags := line_flags lb AND NOT LINE_FLAG_COMMENT_PARENTHESES\<rparr> else lb)
      else if c \<le> 32 then lb
      else if c = 47 then lb
      else if c = 40 then lb\<lparr>line_flags := line_flags lb OR LINE_FLAG_COMMENT_PARENTHESES\<rparr>
      else if c = 59 then lb\<lparr>line_flags := line_flags lb OR LINE_FLAG_COMMENT_SEMICOLON\<rparr>
      else if LINE_BUFFER_SIZE - 1 \<le> unat (line_counter lb)
      then lb\<lparr>line_flags := line_flags lb OR LINE_FLAG_OVERFLOW\<rparr>
      else if 97 \<le> c \<and> c \<le> 122 then line_put (c - 97 + 65) lb
      else line_put c lb)"

section \<open>Executing a line\<close>

definition line_end :: "line_t \<Rightarrow> string" where
  "line_end lb = (line_buf lb)[unat (line_counter lb) := NUL]"

definition execute_input :: "libm \<Rightarrow> u8 \<Rightarrow> string \<Rightarrow> machine \<Rightarrow> (string \<times> machine) option" where
  "execute_input L flags line m =
     (if flags AND LINE_FLAG_OVERFLOW \<noteq> 0
      then Some (line, report_status_message (status_code STATUS_OVERFLOW) m)
      else if char_at line 0 = NUL then Some (line, report_status_message (status_code STATUS_OK) m)
      else if char_at line 0 = CHR ''$'' then do {
        (s, line, m) \<leftarrow> system_execute_line L line m;
        Some (line, report_status_message (status_code s) m) }
      else if sys_state (sys m) AND (STATE_ALARM OR STATE_JOG) \<noteq> 0
      then Some (line, report_status_message (status_code STATUS_SYSTEM_GC_LOCK) m)
      else do {
        (s, m) \<leftarrow> gc_execute_line L line m;
        Some (line, report_status_message (status_code s) m) })"

section \<open>The primary loop\<close>

text \<open>
  It returns, with the line buffer, only when a reset has aborted the session; that it goes on
  for ever without one is the result \<open>None\<close>.
\<close>

partial_function (option) main_loop :: "libm \<Rightarrow> line_t \<Rightarrow> machine \<Rightarrow> (string \<times> machine) option" where
  "main_loop L lb m =
     (let (c, s) = serial_read (ser m); m = m\<lparr>ser := s\<rparr> in
      if c \<noteq> SERIAL_NO_DATA then
        (if c = 10 \<or> c = 13 then
           Option.bind (protocol_execute_realtime m) (\<lambda>m.
             if sys_abort (sys m) \<noteq> 0 then Some (line_buf lb, m)
             else Option.bind (execute_input L (line_flags lb) (line_end lb) m) (\<lambda>(line, m).
               main_loop L \<lparr>line_buf = line, line_flags = 0, line_counter = 0\<rparr> m))
         else main_loop L (line_char c lb) m)
      else
        Option.bind (protocol_execute_realtime (protocol_auto_cycle_start m)) (\<lambda>m.
          if sys_abort (sys m) \<noteq> 0 then Some (line_buf lb, m) else main_loop L lb m))"

text \<open>The checks before the loop, and the startup script.\<close>

definition main_start :: "libm \<Rightarrow> string \<Rightarrow> machine \<Rightarrow> (string \<times> machine) option" where
  "main_start L line m =
     (let m = (if bit_istrue (settings_flags (mset m)) BITFLAG_HARD_LIMIT_ENABLE \<and> limits_get_state m \<noteq> 0
               then report_feedback_message MESSAGE_CHECK_LIMITS (set_state STATE_ALARM m) else m)
      in if sys_state (sys m) AND (STATE_ALARM OR STATE_SLEEP) \<noteq> 0
         then Some (line, set_state STATE_ALARM (report_feedback_message MESSAGE_ALARM_LOCK m))
         else do {
           let m = set_state STATE_IDLE m;
           m \<leftarrow> (if system_check_safety_door_ajar
                 then protocol_execute_realtime (on_rt (\<lambda>r. r\<lparr>sys_rt_exec_state :=
                        bit_true (sys_rt_exec_state r) EXEC_SAFETY_DOOR\<rparr>) m)
                 else Some m);
           system_execute_startup L line m })"

definition protocol_main_loop :: "libm \<Rightarrow> string \<Rightarrow> machine \<Rightarrow> (string \<times> machine) option" where
  "protocol_main_loop L line m = do {
     (line, m) \<leftarrow> main_start L line m;
     main_loop L \<lparr>line_buf = line, line_flags = 0, line_counter = 0\<rparr> m }"

section \<open>Power-up and reset\<close>

text \<open>The set-up before interrupts are on; the peripheral registers are left out.\<close>

definition power_up :: "machine \<Rightarrow> machine option" where
  "power_up m = do {
     m \<leftarrow> with_conf (settings_init (conf m)) m;
     let m = on_rt (\<lambda>r. r\<lparr>sys_position := replicate N_AXIS 0\<rparr>) m;
     let m = set_state STATE_IDLE m;
     Some (if bit_istrue (settings_flags (mset m)) BITFLAG_HOMING_ENABLE then set_state STATE_ALARM m else m) }"

text \<open>The system variables of a new session: all of \<open>sys\<close> is cleared but the state.\<close>

definition reset_variables :: "machine \<Rightarrow> machine" where
  "reset_variables m =
     (let prior_state = sys_state (sys m);
          m = m\<lparr>sys := sys_zero\<lparr>sys_state := prior_state, sys_f_override := DEFAULT_FEED_OVERRIDE,
                 sys_r_override := DEFAULT_RAPID_OVERRIDE, sys_spindle_speed_ovr := DEFAULT_SPINDLE_SPEED_OVERRIDE\<rparr>\<rparr>
      in on_rt (\<lambda>r. r\<lparr>sys_probe_position := replicate N_AXIS 0, sys_probe_state := 0, sys_rt_exec_state := 0,
           sys_rt_exec_alarm := 0, sys_rt_exec_motion_override := 0, sys_rt_exec_accessory_override := 0\<rparr>) m)"

definition reset_systems :: "machine \<Rightarrow> machine option" where
  "reset_systems m = do {
     let m = m\<lparr>ser := serial_reset_read_buffer (ser m)\<rparr>;
     m \<leftarrow> gc_init m;
     let m = on_spin (spindle_init (mset m)) m;
     let m = on_cool coolant_init m;
     let m = limits_init m;
     let m = on_prb (probe_init (mset m)) m;
     let m = st_reset (on_mot plan_reset m);
     Some (report_init_message (gc_sync_position (m_plan_sync_position m))) }"

definition grbl_session :: "libm \<Rightarrow> string \<Rightarrow> machine \<Rightarrow> (string \<times> machine) option" where
  "grbl_session L line m = do {
     m \<leftarrow> reset_systems (reset_variables m);
     protocol_main_loop L line m }"

text \<open>\<open>main\<close>, up to the start of the session after \<open>n\<close> resets.\<close>

fun grbl_sessions :: "libm \<Rightarrow> nat \<Rightarrow> string \<Rightarrow> machine \<Rightarrow> (string \<times> machine) option" where
  "grbl_sessions L 0 line m = Some (line, m)"
| "grbl_sessions L (Suc n) line m = do {
     (line, m) \<leftarrow> grbl_session L line m;
     grbl_sessions L n line m }"

definition grbl_main :: "libm \<Rightarrow> nat \<Rightarrow> machine \<Rightarrow> (string \<times> machine) option" where
  "grbl_main L n m = do {
     m \<leftarrow> power_up m;
     grbl_sessions L n (replicate LINE_BUFFER_SIZE NUL) m }"

end
