(* ===== verification/Main_Safety.thy ===== *)
theory Main_Safety
  imports Main_Loop
begin

text \<open>
  What the host may rely on: the line filter against a reference definition on the whole text
  of a line, the execution of a received line in the main loop, and the commands that are
  refused.
\<close>

section \<open>The line filter against its specification\<close>

text \<open>
  The text of a line as the documentation describes it: comments, blanks, control characters
  and block-delete slashes are removed and letters capitalised.
\<close>

definition upcase :: "u8 \<Rightarrow> u8" where
  "upcase c = (if 97 \<le> c \<and> c \<le> 122 then c - 97 + 65 else c)"

definition comment_end :: "u8 list \<Rightarrow> u8 list" where
  "comment_end cs = drop 1 (dropWhile (\<lambda>c. c \<noteq> 41) cs)"

lemma comment_end_simps [simp]:
  "comment_end [] = []"
  "comment_end (c # cs) = (if c = 41 then cs else comment_end cs)"
  by (simp_all add: comment_end_def)

lemma comment_end_less [termination_simp]: "length (comment_end cs) < Suc (length cs)"
  unfolding comment_end_def using length_dropWhile_le [of "\<lambda>c. c \<noteq> 41" cs] by simp

fun strip_line :: "u8 list \<Rightarrow> string" where
  "strip_line [] = []"
| "strip_line (c # cs) =
     (if c \<le> 32 \<or> c = 47 then strip_line cs
      else if c = 40 then strip_line (comment_end cs)
      else if c = 59 then []
      else char_of (unat (upcase c)) # strip_line cs)"

text \<open>\<open>lb\<close> holds the first 79 characters of the text \<open>t\<close>, and knows whether there are more.\<close>

definition line_holds :: "line_t \<Rightarrow> string \<Rightarrow> bool" where
  "line_holds lb t \<longleftrightarrow>
     length (line_buf lb) = LINE_BUFFER_SIZE \<and>
     unat (line_counter lb) = min (LINE_BUFFER_SIZE - 1) (length t) \<and>
     take (min (LINE_BUFFER_SIZE - 1) (length t)) (line_buf lb) = take (LINE_BUFFER_SIZE - 1) t \<and>
     (line_flags lb AND LINE_FLAG_OVERFLOW \<noteq> 0 \<longleftrightarrow> LINE_BUFFER_SIZE \<le> length t)"

lemma line_holds_flags:
  "line_holds lb t \<Longrightarrow> (f AND LINE_FLAG_OVERFLOW = 0) = (line_flags lb AND LINE_FLAG_OVERFLOW = 0) \<Longrightarrow>
   line_holds (lb\<lparr>line_flags := f\<rparr>) t"
  by (simp add: line_holds_def)

lemma line_holds_put:
  assumes "line_holds lb t" "line_flags lb = 0" "length t < LINE_BUFFER_SIZE - 1"
  shows "line_holds (line_put c lb) (t @ [char_of (unat c)])" "line_flags (line_put c lb) = 0"
proof -
  have n: "unat (line_counter lb) = length t" "length t < 79" "length (line_buf lb) = 80"
    using assms by (auto simp: line_holds_def grbl_const)
  then have s: "unat (line_counter lb + 1) = Suc (length t)" by (simp add: unat_u8_Suc)
  have "take (length t) (line_buf lb) = t" using assms n by (simp add: line_holds_def grbl_const)
  then show "line_holds (line_put c lb) (t @ [char_of (unat c)])"
    using assms n s
    by (simp add: line_holds_def line_put_def grbl_const take_Suc_conv_app_nth take_update_swap list_update_beyond)
  show "line_flags (line_put c lb) = 0" using assms by (simp add: line_put_def)
qed

lemma line_holds_overflow:
  "line_holds lb t \<Longrightarrow> LINE_BUFFER_SIZE \<le> length t \<Longrightarrow> line_holds lb (t @ u)"
  by (simp add: line_holds_def)

lemma line_char_overflow: "fold line_char bs lb = lb" if "line_flags lb = LINE_FLAG_OVERFLOW"
  using that by (induction bs) (auto simp: line_char_def grbl_const)

lemma line_char_semicolon: "fold line_char bs lb = lb" if "line_flags lb = LINE_FLAG_COMMENT_SEMICOLON"
  using that by (induction bs) (auto simp: line_char_def grbl_const)

lemma line_char_put:
  assumes "line_holds lb t" "line_flags lb = 0" "length t < LINE_BUFFER_SIZE - 1"
    "\<not> c \<le> 32" "c \<noteq> 47" "c \<noteq> 40" "c \<noteq> 59"
  shows "line_char c lb = line_put (upcase c) lb"
proof -
  have "\<not> LINE_BUFFER_SIZE - 1 \<le> unat (line_counter lb)" using assms by (simp add: line_holds_def)
  then show ?thesis using assms by (simp add: line_char_def upcase_def)
qed

lemma line_char_full:
  assumes h: "line_holds lb t" and f: "line_flags lb = 0" and "\<not> length t < LINE_BUFFER_SIZE - 1"
    and c: "\<not> c \<le> 32" "c \<noteq> 47" "c \<noteq> 40" "c \<noteq> 59"
  shows "line_holds (fold line_char (c # cs) lb) (t @ char_of (unat (upcase c)) # strip_line cs)"
proof -
  let ?lb = "lb\<lparr>line_flags := LINE_FLAG_OVERFLOW\<rparr>"
  have l: "length t = LINE_BUFFER_SIZE - 1" using assms by (simp add: line_holds_def grbl_const)
  have "unat (line_counter lb) = LINE_BUFFER_SIZE - 1" using h l by (simp add: line_holds_def)
  then have "line_char c lb = ?lb" using f c by (simp add: line_char_def)
  moreover have "line_holds ?lb (t @ [char_of (unat (upcase c))])"
    using h l by (simp add: line_holds_def grbl_const)
  then have "line_holds ?lb ((t @ [char_of (unat (upcase c))]) @ strip_line cs)"
    by (rule line_holds_overflow) (simp add: l grbl_const)
  ultimately show ?thesis using line_char_overflow [of ?lb cs] by simp
qed

text \<open>One character inside parentheses, and one outside of comments.\<close>

lemma line_filter_paren:
  assumes plain: "\<And>lb. line_flags lb = 0 \<Longrightarrow> line_holds lb t \<Longrightarrow> line_holds (fold line_char cs lb) (t @ strip_line cs)"
    and paren: "\<And>lb. line_flags lb = LINE_FLAG_COMMENT_PARENTHESES \<Longrightarrow> line_holds lb t \<Longrightarrow>
      line_holds (fold line_char cs lb) (t @ strip_line (comment_end cs))"
    and f: "line_flags lb = LINE_FLAG_COMMENT_PARENTHESES" and h: "line_holds lb t"
  shows "line_holds (fold line_char (c # cs) lb) (t @ strip_line (comment_end (c # cs)))"
proof (cases "c = 41")
  case True
  with f have "line_char c lb = lb\<lparr>line_flags := 0\<rparr>" by (simp add: line_char_def grbl_const)
  moreover have "line_holds (lb\<lparr>line_flags := 0\<rparr>) t" using h f by (intro line_holds_flags) (simp_all add: grbl_const)
  ultimately show ?thesis using plain [of "lb\<lparr>line_flags := 0\<rparr>"] True by simp
next
  case False
  with f have "line_char c lb = lb" by (simp add: line_char_def grbl_const)
  then show ?thesis using paren [of lb] f h False by simp
qed

lemma line_filter_plain:
  assumes plain: "\<And>lb t. line_flags lb = 0 \<Longrightarrow> line_holds lb t \<Longrightarrow> line_holds (fold line_char cs lb) (t @ strip_line cs)"
    and paren: "\<And>lb t. line_flags lb = LINE_FLAG_COMMENT_PARENTHESES \<Longrightarrow> line_holds lb t \<Longrightarrow>
      line_holds (fold line_char cs lb) (t @ strip_line (comment_end cs))"
    and f: "line_flags lb = 0" and h: "line_holds lb t"
  shows "line_holds (fold line_char (c # cs) lb) (t @ strip_line (c # cs))"
proof -
  consider (skip) "c \<le> 32 \<or> c = 47" | (open_par) "c = 40" | (semi) "c = 59"
    | (put) "\<not> c \<le> 32" "c \<noteq> 47" "c \<noteq> 40" "c \<noteq> 59" by blast
  then show ?thesis
  proof cases
    case skip
    then have "line_char c lb = lb" using f by (auto simp: line_char_def)
    then show ?thesis using plain [of lb t] f h skip by simp
  next
    case open_par
    let ?lb = "lb\<lparr>line_flags := LINE_FLAG_COMMENT_PARENTHESES\<rparr>"
    have "line_char c lb = ?lb" using f open_par by (simp add: line_char_def)
    moreover have "line_holds ?lb t" using f h by (intro line_holds_flags) (simp_all add: grbl_const)
    ultimately show ?thesis using paren [of ?lb t] open_par by simp
  next
    case semi
    let ?lb = "lb\<lparr>line_flags := LINE_FLAG_COMMENT_SEMICOLON\<rparr>"
    have "line_char c lb = ?lb" using f semi by (simp add: line_char_def)
    moreover have "line_holds ?lb t" using f h by (intro line_holds_flags) (simp_all add: grbl_const)
    ultimately show ?thesis using semi line_char_semicolon [of ?lb cs] by simp
  next
    case put
    show ?thesis
    proof (cases "length t < LINE_BUFFER_SIZE - 1")
      case True
      then show ?thesis
        using plain [of "line_put (upcase c) lb"] line_holds_put [OF h f True] line_char_put [OF h f True put] put
        by fastforce
    next
      case False
      then show ?thesis using line_char_full [OF h f] put by simp
    qed
  qed
qed

lemma line_filter_step:
  "(line_flags lb = 0 \<longrightarrow> line_holds lb t \<longrightarrow> line_holds (fold line_char bs lb) (t @ strip_line bs)) \<and>
   (line_flags lb = LINE_FLAG_COMMENT_PARENTHESES \<longrightarrow> line_holds lb t \<longrightarrow>
      line_holds (fold line_char bs lb) (t @ strip_line (comment_end bs)))"
proof (induction bs arbitrary: lb t)
  case (Cons c cs)
  then show ?case by (blast intro!: line_filter_plain line_filter_paren)
qed simp

lemma line_filter:
  assumes "length buf = LINE_BUFFER_SIZE"
  shows "line_holds (fold line_char bs \<lparr>line_buf = buf, line_flags = 0, line_counter = 0\<rparr>) (strip_line bs)"
  using line_filter_step [of "\<lparr>line_buf = buf, line_flags = 0, line_counter = 0\<rparr>" "[]" bs] assms
  by (simp add: line_holds_def grbl_const)

lemma char_of_u8_NUL: "char_of (unat (c :: u8)) = NUL \<longleftrightarrow> c = 0"
proof
  assume "char_of (unat c) = NUL"
  then have "of_char (char_of (unat c)) = (of_char NUL :: nat)" by simp
  then show "c = 0" by (simp add: NUL_def unat_eq_0)
qed (simp add: NUL_def char_of_def)

lemma strip_line_no_NUL: "NUL \<notin> set (strip_line bs)"
proof (induction bs rule: strip_line.induct)
  case (2 c cs)
  have "upcase c \<noteq> 0" if "\<not> c \<le> 32"
    using that by (auto simp: upcase_def word_le_nat_alt unat_u8_sub unat_word_ariths u8_eq_iff)
  then have "char_of (unat (upcase c)) \<noteq> NUL" if "\<not> c \<le> 32" using that by (simp add: char_of_u8_NUL)
  with 2 show ?case by auto
qed simp

lemma line_end_text:
  assumes "line_holds lb t" "NUL \<notin> set t"
  shows "takeWhile (\<lambda>c. c \<noteq> NUL) (line_end lb) = take (LINE_BUFFER_SIZE - 1) t"
    "length (line_end lb) = LINE_BUFFER_SIZE"
proof -
  let ?n = "unat (line_counter lb)"
  note h = assms(1) [unfolded line_holds_def]
  have n: "?n < length (line_buf lb)" "length (line_buf lb) = LINE_BUFFER_SIZE"
    and e: "take ?n (line_buf lb) = take (LINE_BUFFER_SIZE - 1) t"
    using h by (auto simp: grbl_const)
  have "line_end lb = take ?n (line_buf lb) @ NUL # drop (Suc ?n) (line_buf lb)"
    unfolding line_end_def using n by (simp add: upd_conv_take_nth_drop)
  moreover have "NUL \<notin> set (take (LINE_BUFFER_SIZE - 1) t)" using assms(2) by (meson in_set_takeD)
  ultimately show "takeWhile (\<lambda>c. c \<noteq> NUL) (line_end lb) = take (LINE_BUFFER_SIZE - 1) t"
    using e by (auto simp: takeWhile_append)
  show "length (line_end lb) = LINE_BUFFER_SIZE" using n by (simp add: line_end_def)
qed

section \<open>A received line in the main loop\<close>

lemma serial_read_Cons:
  assumes "serial_inv s" "rx_pending s = b # bs"
  obtains s' where "serial_read s = (b, s')" "serial_inv s'" "rx_pending s' = bs"
  using serial_read_pending [OF assms(1)] serial_read_inv [OF assms(1)] assms(2) by auto

lemma main_loop_chars:
  assumes "serial_inv (ser m)" "rx_pending (ser m) = bs @ rest" "set bs \<inter> {10, 13, SERIAL_NO_DATA} = {}"
  shows "\<exists>s. main_loop L lb m = main_loop L (fold line_char bs lb) (m\<lparr>ser := s\<rparr>)
    \<and> serial_inv s \<and> rx_pending s = rest"
  using assms
proof (induction bs arbitrary: lb m)
  case Nil
  then show ?case by (intro exI [of _ "ser m"]) simp
next
  case (Cons b bs)
  obtain s where s: "serial_read (ser m) = (b, s)" "serial_inv s" "rx_pending s = bs @ rest"
    using serial_read_Cons [of "ser m" b "bs @ rest"] Cons.prems by auto
  have "main_loop L lb m = main_loop L (line_char b lb) (m\<lparr>ser := s\<rparr>)"
    using Cons.prems s by (subst main_loop.simps) (auto simp: Let_def)
  then show ?case using Cons.IH [of "m\<lparr>ser := s\<rparr>" "line_char b lb"] Cons.prems s by auto
qed

lemma execute_input_flags:
  "(f AND LINE_FLAG_OVERFLOW \<noteq> 0) = (g AND LINE_FLAG_OVERFLOW \<noteq> 0) \<Longrightarrow>
   execute_input L f line m = execute_input L g line m"
  by (simp add: execute_input_def)

text \<open>
  C8. A line of the host reaches the executing routines as the documentation says: if the
  received bytes are \<open>bs\<close> and a newline, the main loop executes, after its realtime checks, the
  text \<open>strip_line bs\<close> as a zero-terminated string in the 80-byte buffer, or answers an overflow
  exactly if that text has more than 79 characters (comments and blanks do not count); the
  bytes after the newline stay for the next line.
\<close>

theorem host_line:
  assumes "serial_inv (ser m)" "rx_pending (ser m) = bs @ nl # rest" "nl = 10 \<or> nl = 13"
    "set bs \<inter> {10, 13, SERIAL_NO_DATA} = {}" "length buf = LINE_BUFFER_SIZE"
  shows "\<exists>s line old. serial_inv s \<and> rx_pending s = rest \<and> length line = LINE_BUFFER_SIZE \<and>
    takeWhile (\<lambda>c. c \<noteq> NUL) line = take 79 (strip_line bs) \<and>
    main_loop L \<lparr>line_buf = buf, line_flags = 0, line_counter = 0\<rparr> m =
      Option.bind (protocol_execute_realtime (m\<lparr>ser := s\<rparr>)) (\<lambda>m.
        if sys_abort (sys m) \<noteq> 0 then Some (old, m)
        else Option.bind (execute_input L (if 79 < length (strip_line bs) then LINE_FLAG_OVERFLOW else 0) line m)
               (\<lambda>(line, m). main_loop L \<lparr>line_buf = line, line_flags = 0, line_counter = 0\<rparr> m))"
proof -
  let ?lb = "fold line_char bs \<lparr>line_buf = buf, line_flags = 0, line_counter = 0\<rparr>"
  obtain s where s: "main_loop L \<lparr>line_buf = buf, line_flags = 0, line_counter = 0\<rparr> m =
      main_loop L ?lb (m\<lparr>ser := s\<rparr>)" "serial_inv s" "rx_pending s = nl # rest"
    using main_loop_chars [OF assms(1,2,4)] by blast
  obtain s' where s': "serial_read s = (nl, s')" "serial_inv s'" "rx_pending s' = rest"
    using serial_read_Cons [OF s(2,3)] by blast
  have h: "line_holds ?lb (strip_line bs)" by (rule line_filter [OF assms(5)])
  then have f: "(line_flags ?lb AND LINE_FLAG_OVERFLOW \<noteq> 0) =
      ((if 79 < length (strip_line bs) then LINE_FLAG_OVERFLOW else 0) AND LINE_FLAG_OVERFLOW \<noteq> 0)"
    by (auto simp: line_holds_def grbl_const)
  have "main_loop L ?lb (m\<lparr>ser := s\<rparr>) =
      Option.bind (protocol_execute_realtime (m\<lparr>ser := s'\<rparr>)) (\<lambda>m.
        if sys_abort (sys m) \<noteq> 0 then Some (line_buf ?lb, m)
        else Option.bind (execute_input L (line_flags ?lb) (line_end ?lb) m)
               (\<lambda>(line, m). main_loop L \<lparr>line_buf = line, line_flags = 0, line_counter = 0\<rparr> m))"
    using s' assms(3) by (subst main_loop.simps) (auto simp: grbl_const)
  then show ?thesis
    using s(1) s' line_end_text [OF h strip_line_no_NUL] unfolding execute_input_flags [OF f]
    by (intro exI [of _ s'] exI [of _ "line_end ?lb"] exI [of _ "line_buf ?lb"]) (simp add: grbl_const)
qed

lemma rx_put_list:
  "serial_inv s \<Longrightarrow> length (rx_pending s) + length bs \<le> RX_BUFFER_SIZE \<Longrightarrow>
   serial_inv (fold serial_rx_put bs s) \<and> rx_pending (fold serial_rx_put bs s) = rx_pending s @ bs"
  by (induction bs arbitrary: s) (auto simp: rx_put_inv rx_put_pending)

theorem host_line_witness:
  "\<forall>L. \<exists>s line old. serial_inv s \<and> rx_pending s = [36] \<and> length line = LINE_BUFFER_SIZE \<and>
    takeWhile (\<lambda>c. c \<noteq> NUL) line = ''G1'' \<and>
    main_loop L \<lparr>line_buf = replicate 80 NUL, line_flags = 0, line_counter = 0\<rparr>
      (machine_zero\<lparr>ser := fold serial_rx_put [103, 32, 40, 104, 41, 49, 10, 36] serial_boot\<rparr>) =
      Option.bind (protocol_execute_realtime (machine_zero\<lparr>ser := s\<rparr>)) (\<lambda>m.
        if sys_abort (sys m) \<noteq> 0 then Some (old, m)
        else Option.bind (execute_input L 0 line m)
               (\<lambda>(line, m). main_loop L \<lparr>line_buf = line, line_flags = 0, line_counter = 0\<rparr> m))"
proof -
  define r where "r = fold serial_rx_put [103, 32, 40, 104, 41, 49, 10, 36] serial_boot"
  have "serial_inv r" "rx_pending r = [103, 32, 40, 104, 41, 49] @ 10 # [36]"
    using rx_put_list [OF serial_boot_inv, of "[103, 32, 40, 104, 41, 49, 10, 36]"]
    by (auto simp: r_def serial_boot_empty grbl_const simp del: fold_simps)
  moreover have e: "strip_line [103, 32, 40, 104, 41, 49] = ''G1''"
    by (simp add: upcase_def) (simp add: char_of_def bit_simps)
  ultimately show ?thesis
    using host_line [of "machine_zero\<lparr>ser := r\<rparr>" "[103, 32, 40, 104, 41, 49]" 10 "[36]" "replicate 80 NUL"]
    unfolding r_def [symmetric] e by (simp add: grbl_const cong: if_cong)
qed

section \<open>Commands that are refused\<close>

lemma report_status_message_sys [simp]: "sys (report_status_message c m) = sys m"
  by (simp add: report_status_message_def printPgmString_def report_util_line_feed_def)

lemma report_status_message_conf [simp]: "conf (report_status_message c m) = conf m"
  by (simp add: report_status_message_def printPgmString_def report_util_line_feed_def)

lemma set_state_sys [simp]: "sys_state (sys (set_state s m)) = s" "conf (set_state s m) = conf m"
  by (simp_all add: set_state_def machine_lift)

text \<open>
  C28. A mistyped homing command takes the machine out of service. With homing enabled, \<open>$H\<close>
  followed by any other character is answered as invalid, but has by then set the homing state,
  which nothing resets: from there every command that needs an idle or alarmed machine is
  refused, \<open>$X\<close> is answered with ok and unlocks nothing, and only a reset helps.
\<close>

theorem homing_typo_locks:
  assumes "bit_istrue (settings_flags (mset m)) BITFLAG_HOMING_ENABLE"
    "sys_state (sys m) = STATE_IDLE \<or> sys_state (sys m) = STATE_ALARM"
    "char_at line 0 = CHR ''$''" "char_at line 1 = CHR ''H''" "char_at line 2 \<noteq> NUL"
  shows "\<exists>m'. execute_input L 0 line m = Some (line, m') \<and> sys_state (sys m') = STATE_HOMING \<and>
    (\<forall>cmd. char_at cmd 1 \<notin> {NUL, CHR ''J'', CHR ''$'', CHR ''G'', CHR ''C'', CHR ''X''} \<longrightarrow>
       system_execute_line L cmd m' = Some (STATUS_IDLE_ERROR, cmd, m')) \<and>
    (\<forall>cmd. char_at cmd 1 = CHR ''X'' \<and> char_at cmd 2 = NUL \<longrightarrow>
       system_execute_line L cmd m' = Some (STATUS_OK, cmd, m'))"
proof -
  let ?m = "report_status_message (status_code STATUS_INVALID_STATEMENT) (set_state STATE_HOMING m)"
  have "system_execute_line L line m = Some (STATUS_INVALID_STATEMENT, line, set_state STATE_HOMING m)"
    using assms by (auto simp: system_execute_line_def command_homing_def Let_def bit_isfalse_iff
        system_check_safety_door_ajar_def NUL_def)
  then have "execute_input L 0 line m = Some (line, ?m)"
    using assms(3) by (simp add: execute_input_def NUL_def)
  moreover have "sys_state (sys ?m) = STATE_HOMING" by simp
  moreover have "system_execute_line L cmd ?m = Some (STATUS_IDLE_ERROR, cmd, ?m)"
    if "char_at cmd 1 \<notin> {NUL, CHR ''J'', CHR ''$'', CHR ''G'', CHR ''C'', CHR ''X''}" for cmd
    using that by (simp add: system_execute_line_def Let_def grbl_const)
  moreover have "system_execute_line L cmd ?m = Some (STATUS_OK, cmd, ?m)"
    if "char_at cmd 1 = CHR ''X''" "char_at cmd 2 = NUL" for cmd
    using that by (simp add: system_execute_line_def command_short_def command_unlock_def Let_def grbl_const NUL_def)
  ultimately show ?thesis by blast
qed

theorem homing_typo_locks_witness:
  "\<forall>L. \<exists>m'. execute_input L 0 ''$HX'' (machine_zero\<lparr>conf := (conf machine_zero)\<lparr>settings := default_settings
      \<lparr>settings_flags := BITFLAG_HOMING_ENABLE\<rparr>\<rparr>\<rparr>) = Some (''$HX'', m') \<and> sys_state (sys m') = STATE_HOMING"
proof
  fix L
  let ?m = "machine_zero\<lparr>conf := (conf machine_zero)\<lparr>settings := default_settings
      \<lparr>settings_flags := BITFLAG_HOMING_ENABLE\<rparr>\<rparr>\<rparr>"
  show "\<exists>m'. execute_input L 0 ''$HX'' ?m = Some (''$HX'', m') \<and> sys_state (sys m') = STATE_HOMING"
    using homing_typo_locks [of ?m "''$HX''" L]
    by (auto simp: machine_zero_def sys_zero_def bit_istrue_def char_at_def NUL_def grbl_const)
qed

end
