(* ===== verification/Gcode_Modes.thy ===== *)
theory Gcode_Modes
  imports Gcode_Exec
begin

text \<open>
  The modes of a block stay within the codes of the g-code standard, whatever numbers a line
  contains.
\<close>

definition modes_ok :: "gc_modal_t \<Rightarrow> bool" where
  "modes_ok b \<longleftrightarrow>
     motion b \<in> {MOTION_MODE_SEEK, MOTION_MODE_LINEAR, MOTION_MODE_CW_ARC, MOTION_MODE_CCW_ARC, MOTION_MODE_NONE,
       MOTION_MODE_PROBE_TOWARD, MOTION_MODE_PROBE_TOWARD_NO_ERROR, MOTION_MODE_PROBE_AWAY, MOTION_MODE_PROBE_AWAY_NO_ERROR}
     \<and> feed_rate_mode b \<in> {FEED_RATE_MODE_UNITS_PER_MIN, FEED_RATE_MODE_INVERSE_TIME}
     \<and> units b \<in> {UNITS_MODE_MM, UNITS_MODE_INCHES}
     \<and> distance b \<in> {DISTANCE_MODE_ABSOLUTE, DISTANCE_MODE_INCREMENTAL}
     \<and> plane_select b \<in> {PLANE_SELECT_XY, PLANE_SELECT_ZX, PLANE_SELECT_YZ}
     \<and> tool_length b \<in> {TOOL_LENGTH_OFFSET_CANCEL, TOOL_LENGTH_OFFSET_ENABLE_DYNAMIC}
     \<and> coord_select b < N_COORDINATE_SYSTEM
     \<and> program_flow b \<in> {PROGRAM_FLOW_RUNNING, PROGRAM_FLOW_PAUSED, PROGRAM_FLOW_COMPLETED_M2, PROGRAM_FLOW_COMPLETED_M30}
     \<and> spindle_mode b \<in> {SPINDLE_DISABLE, SPINDLE_ENABLE_CW, SPINDLE_ENABLE_CCW}
     \<and> coolant_mode b \<in> {COOLANT_DISABLE, COOLANT_FLOOD_ENABLE}"

definition non_modal_codes :: "u8 set" where
  "non_modal_codes = {NON_MODAL_NO_ACTION, NON_MODAL_DWELL, NON_MODAL_SET_COORDINATE_DATA, NON_MODAL_GO_HOME_0,
     NON_MODAL_SET_HOME_0, NON_MODAL_GO_HOME_1, NON_MODAL_SET_HOME_1, NON_MODAL_ABSOLUTE_OVERRIDE,
     NON_MODAL_SET_COORDINATE_OFFSET, NON_MODAL_RESET_COORDINATE_OFFSET}"

definition block_ok :: "gc_work \<Rightarrow> bool" where
  "block_ok w \<longleftrightarrow> modes_ok (mods w) \<and> non_modal_command (gc_block w) \<in> non_modal_codes"

lemma block_ok_upd [simp]:
  "block_ok (w\<lparr>axis_command := a\<rparr>) = block_ok w" "block_ok (w\<lparr>command_words := c\<rparr>) = block_ok w"
  "block_ok (w\<lparr>value_words := c\<rparr>) = block_ok w" "block_ok (on_values f w) = block_ok w"
  "block_ok (set_ijk i v w) = block_ok w" "block_ok (set_xyz i v w) = block_ok w"
  by (simp_all add: block_ok_def on_values_def set_ijk_def set_xyz_def)

lemma block_ok_non_modal:
  "block_ok w \<Longrightarrow> c \<in> non_modal_codes \<Longrightarrow> block_ok (w\<lparr>gc_block := (gc_block w)\<lparr>non_modal_command := c\<rparr>\<rparr>)"
  by (simp add: block_ok_def)

lemma block_ok_modal: "block_ok w \<Longrightarrow> modes_ok (f (mods w)) \<Longrightarrow> block_ok (on_modal f w)"
  by (simp add: block_ok_def on_modal_def)

lemma G_non_modal_ok:
  assumes "G_non_modal iv mantissa w = Inr (b, k, w')" "block_ok w" "iv \<in> {10, 28, 30, 92, 4, 53}"
  shows "block_ok w'"
proof -
  have c: "iv \<in> non_modal_codes" using assms(3) by (auto simp: non_modal_codes_def grbl_const)
  have d: "iv + ucast mantissa \<in> non_modal_codes" if "iv \<in> {28, 30, 92}" "mantissa = 0 \<or> mantissa = 10"
    using that by (auto simp: non_modal_codes_def grbl_const)
  show ?thesis using assms(1,2) c d
    by (auto simp: G_non_modal_def Let_def block_ok_def split: if_splits)
qed

lemma G_motion_ok:
  assumes "G_motion iv mantissa w = Inr (b, k, w')" "block_ok w" "iv \<in> {0, 1, 2, 3, 38, 80}"
  shows "block_ok w'"
proof -
  have m: "block_ok (on_modal (motion_update (\<lambda>_. c)) w1)" if "block_ok w1"
    "c \<in> {MOTION_MODE_SEEK, MOTION_MODE_LINEAR, MOTION_MODE_CW_ARC, MOTION_MODE_CCW_ARC, MOTION_MODE_NONE,
       MOTION_MODE_PROBE_TOWARD, MOTION_MODE_PROBE_TOWARD_NO_ERROR, MOTION_MODE_PROBE_AWAY, MOTION_MODE_PROBE_AWAY_NO_ERROR}" for c w1
    using that by (simp add: block_ok_def on_modal_def modes_ok_def)
  show ?thesis using assms(1,2,3)
    by (auto simp: G_motion_def Let_def grbl_const intro!: m split: if_splits)
qed

text \<open>The mode changes of single commands.\<close>

lemma block_ok_modes:
  assumes "block_ok w"
  shows "c \<in> {0, 1, 2} \<Longrightarrow> block_ok (on_modal (plane_select_update (\<lambda>_. c)) w)"
    and "c \<in> {0, 1} \<Longrightarrow> block_ok (on_modal (distance_update (\<lambda>_. c)) w)"
    and "c \<in> {0, 1} \<Longrightarrow> block_ok (on_modal (feed_rate_mode_update (\<lambda>_. c)) w)"
    and "c \<in> {0, 1} \<Longrightarrow> block_ok (on_modal (units_update (\<lambda>_. c)) w)"
    and "c \<in> {0, 1} \<Longrightarrow> block_ok (on_modal (tool_length_update (\<lambda>_. c)) (w\<lparr>axis_command := a\<rparr>))"
    and "c < 6 \<Longrightarrow> block_ok (on_modal (coord_select_update (\<lambda>_. c)) w)"
  using assms by (auto simp: block_ok_def on_modal_def modes_ok_def grbl_const)

lemma G_select_ok:
  assumes "G_select iv mantissa w = Inr (b, k, w')" "block_ok w"
  shows "block_ok w'"
proof -
  note p = block_ok_modes(1) [OF assms(2)] and d = block_ok_modes(2) [OF assms(2)] and f = block_ok_modes(3) [OF assms(2)]
    and u = block_ok_modes(4) [OF assms(2)] and t = block_ok_modes(5) [OF assms(2)] and s = block_ok_modes(6) [OF assms(2)]
  consider "iv \<in> {10, 28, 30, 92, 4, 53}" | "iv \<in> {0, 1, 2, 3, 38, 80}" | "iv \<in> {90, 91}" | "iv \<in> {43, 49}"
    | "iv \<in> {17, 18, 19}" | "iv \<in> {93, 94, 20, 21}" | "iv \<in> {54, 55, 56, 57, 58, 59}" | "iv \<in> {40, 61}"
    | "iv \<notin> {10, 28, 30, 92, 4, 53}" "iv \<notin> {0, 1, 2, 3, 38, 80}" "iv \<notin> {90, 91}" "iv \<notin> {43, 49}"
      "iv \<notin> {17, 18, 19}" "iv \<notin> {93, 94, 20, 21}" "iv \<notin> {54, 55, 56, 57, 58, 59}" "iv \<notin> {40, 61}"
    by blast
  then show ?thesis
  proof cases
    case 1
    then have "G_select iv mantissa w = G_non_modal iv mantissa w" by (simp add: G_select_def)
    with assms(1) have "G_non_modal iv mantissa w = Inr (b, k, w')" by simp
    then show ?thesis by (rule G_non_modal_ok [OF _ assms(2) 1])
  next
    case 2
    then have "G_select iv mantissa w = G_motion iv mantissa w" by (auto simp: G_select_def)
    with assms(1) have "G_motion iv mantissa w = Inr (b, k, w')" by simp
    then show ?thesis by (rule G_motion_ok [OF _ assms(2) 2])
  next
    case 3
    then have "G_select iv mantissa w = G_distance iv mantissa w" by (auto simp: G_select_def)
    then show ?thesis using assms 3 by (auto simp: G_distance_def intro!: d split: if_splits)
  next
    case 4
    then have "G_select iv mantissa w = G_tool_length iv mantissa w" by (auto simp: G_select_def)
    then show ?thesis using assms 4 by (auto simp: G_tool_length_def Let_def grbl_const intro!: t split: if_splits)
  next
    case 5
    then show ?thesis using assms by simp (elim disjE; clarsimp simp: G_select_def p)
  next
    case 6
    then show ?thesis using assms by simp (elim disjE; clarsimp simp: G_select_def f u)
  next
    case 7
    then show ?thesis using assms by simp (elim disjE; clarsimp simp: G_select_def s)
  next
    case 8
    then show ?thesis using assms by simp (elim disjE; clarsimp simp: G_select_def split: if_splits)
  next
    case 9
    then show ?thesis using assms by (simp add: G_select_def)
  qed
qed

lemma set_command_ok: "set_command b w = Inr w' \<Longrightarrow> block_ok w \<Longrightarrow> block_ok w'"
  by (auto simp: set_command_def split: if_splits)

lemma M_word_ok:
  assumes "M_word iv mantissa w = Inr w'" "block_ok w"
  shows "block_ok w'"
proof -
  have f: "block_ok (on_modal (program_flow_update (\<lambda>_. c)) w)" if "c \<in> {2, 3, 30}" for c
    using that assms(2) by (auto simp: block_ok_def on_modal_def modes_ok_def grbl_const)
  have s: "block_ok (on_modal (spindle_mode_update (\<lambda>_. c)) w)" if "c \<in> {SPINDLE_DISABLE, SPINDLE_ENABLE_CW, SPINDLE_ENABLE_CCW}" for c
    using that assms(2) by (simp add: block_ok_def on_modal_def modes_ok_def)
  have c: "block_ok (on_modal (coolant_mode_update (\<lambda>_. c)) w)" if "c \<in> {COOLANT_DISABLE, COOLANT_FLOOD_ENABLE}" for c
    using that assms(2) by (simp add: block_ok_def on_modal_def modes_ok_def)
  show ?thesis using assms
    by (auto simp: M_word_def PROGRAM_FLOW_PAUSED_def intro!: f s c dest!: set_command_ok split: if_splits)
qed

lemma gc_word_ok:
  assumes "gc_word l v w = Inr w'" "block_ok w"
  shows "block_ok w'"
proof -
  have vs: "value_store l v iv w = Inr (b, w1) \<Longrightarrow> block_ok w1" for iv b w1
    using assms(2) by (auto simp: value_store_def split: if_splits)
  show ?thesis
  proof (cases "l = CHR ''G'' \<or> l = CHR ''M''")
    case True
    have g: "block_ok w'" if G: "G_word iv k w = Inr w'" for iv k
    proof -
      obtain b k1 w1 where "G_select iv k w = Inr (b, k1, w1)" "set_command b w1 = Inr w'"
        using G by (auto simp: G_word_def split: sum.splits if_splits)
      then show ?thesis using G_select_ok [OF _ assms(2)] set_command_ok by blast
    qed
    show ?thesis using True assms(1) g M_word_ok [OF _ assms(2)] by (auto simp: gc_word_def)
  next
    case False
    then have v: "value_word l v (gc_int_value v) w = Inr w'" using assms(1) by (simp add: gc_word_def)
    obtain r where r: "value_store l v (gc_int_value v) w = Inr r"
      using v by (auto simp: value_word_def split: sum.splits)
    have "block_ok (snd r)" using vs r by (cases r) simp
    then show ?thesis using v by (auto simp: value_word_def r split: prod.splits if_splits)
  qed
qed

text \<open>What every word keeps, the loop over the words keeps.\<close>

lemma gc_words_keeps:
  assumes step: "\<And>l v w w'. gc_word l v w = Inr w' \<Longrightarrow> Q w \<Longrightarrow> Q w'"
  shows "gc_words line c w0 = Some r \<Longrightarrow> r = Inr w' \<Longrightarrow> Q w0 \<Longrightarrow> Q w'"
proof (induction rule: gc_words.raw_induct [rotated 1, consumes 1])
  case (1 go line c w0 r)
  show ?case
  proof (cases "char_at line (unat c) = NUL")
    case True
    then show ?thesis using 1 by simp
  next
    case False
    then obtain c' w1 where n: "gc_next_word line c w0 = Inr (c', w1)" and g: "go line c' w1 = Some r"
      using "1.hyps" "1.prems"(1) by (auto split: sum.splits)
    obtain l v where "gc_word l v w0 = Inr w1"
      using n by (auto simp: gc_next_word_def Let_def split: if_splits option.splits sum.splits)
    then show ?thesis using "1.IH" [OF g "1.prems"(1)] step "1.prems"(2) by blast
  qed
qed

lemma gc_start_ok:
  assumes "modes_ok modes"
  shows "block_ok (gc_start modes line)"
proof -
  have "block_ok w0" if "mods w0 = modes" "non_modal_command (gc_block w0) = NON_MODAL_NO_ACTION" for w0
    using that assms by (simp add: block_ok_def non_modal_codes_def)
  moreover have "modes_ok (modes\<lparr>motion := MOTION_MODE_LINEAR, feed_rate_mode := FEED_RATE_MODE_UNITS_PER_MIN\<rparr>)"
    using assms by (simp add: modes_ok_def)
  ultimately show ?thesis
    by (auto simp: gc_start_def Let_def parser_block_zero_def NON_MODAL_NO_ACTION_def intro!: block_ok_modal)
qed

lemma gc_parse_keeps:
  assumes "\<And>l v w w'. gc_word l v w = Inr w' \<Longrightarrow> Q w \<Longrightarrow> Q w'" "Q (gc_start modes line)"
    "gc_parse_line modes line = Some (Inr w)"
  shows "Q w"
proof -
  from assms(3) have r: "gc_words line (if jogging (gc_start modes line) then 3 else 0) (gc_start modes line) = Some (Inr w)"
    by (simp add: gc_parse_line_def Let_def)
  show ?thesis by (rule gc_words_keeps [of Q, OF _ r refl assms(2)]) (rule assms(1))
qed

lemma gc_parse_block_ok: "gc_parse_line modes line = Some (Inr w) \<Longrightarrow> modes_ok modes \<Longrightarrow> block_ok w"
  using gc_parse_keeps [of block_ok] gc_word_ok gc_start_ok by blast

text \<open>
  C38. Whatever a line contains, a parsed block has a known mode in every modal group and a known
  non-modal command, when the modes it starts from are known: no arithmetic on command numbers
  leaves the codes of the standard, and the check for a seventh coordinate system cannot fail.
\<close>

theorem parsed_modes_valid:
  assumes "gc_parse_line modes line = Some (Inr w)" and "modes_ok modes"
  shows "block_ok w \<and> \<not> N_COORDINATE_SYSTEM < coord_select (mods w)"
proof -
  have "coord_select (mods w) < N_COORDINATE_SYSTEM"
    using gc_parse_block_ok [OF assms] by (simp add: block_ok_def modes_ok_def)
  then show ?thesis using gc_parse_block_ok [OF assms] by simp
qed


theorem parsed_modes_valid_witness:
  "\<exists>w. gc_parse_line gc_modal_zero [] = Some (Inr w) \<and> block_ok w"
proof -
  have "gc_parse_line gc_modal_zero [] = Some (Inr (gc_start gc_modal_zero []))"
    unfolding gc_parse_line_def Let_def by (subst gc_words.simps) (simp add: char_at_def)
  moreover have "modes_ok gc_modal_zero" by (simp add: modes_ok_def gc_modal_zero_def grbl_const)
  ultimately show ?thesis using parsed_modes_valid by blast
qed

end
