(* ===== verification/Machine_Inv.thy ===== *)
theory Machine_Inv
  imports Main_Safety Gcode_Modes Stepper_Bounds
begin

text \<open>
  Invariants of the whole machine. A predicate that holds the well-formedness of every
  component, and is kept by any change of one component that keeps the component well formed,
  is kept by every routine of the program. The locale \<open>realtime_inv\<close> states this contract without
  the settings: its lemmas follow the routines from the interrupts to the realtime system, the motions
  and the execution of a block. \<open>machine_inv\<close> extends it by changes of settings and EEPROM, for the
  checks that read coordinate data and for the commands.
\<close>

section \<open>Well-formed components\<close>

text \<open>
  The overrides stay in the range the realtime commands can set, once a session has set them: the
  boot code runs with cleared system variables.
\<close>

definition sys_wf :: "system_t \<Rightarrow> bool" where
  "sys_wf y \<longleftrightarrow> MIN_FEED_RATE_OVERRIDE \<le> sys_f_override y \<and> sys_f_override y \<le> MAX_FEED_RATE_OVERRIDE \<and>
     sys_r_override y \<in> {DEFAULT_RAPID_OVERRIDE, RAPID_OVERRIDE_MEDIUM, RAPID_OVERRIDE_LOW} \<and>
     MIN_SPINDLE_SPEED_OVERRIDE \<le> sys_spindle_speed_ovr y \<and> sys_spindle_speed_ovr y \<le> MAX_SPINDLE_SPEED_OVERRIDE"

definition rt_wf :: "rt_t \<Rightarrow> bool" where
  "rt_wf r \<longleftrightarrow> length (sys_position r) = N_AXIS \<and> length (sys_probe_position r) = N_AXIS"

definition gc_wf :: "parser_state_t \<Rightarrow> bool" where
  "gc_wf g \<longleftrightarrow> modes_ok (modal g) \<and> length (gc_position g) = N_AXIS \<and> length (coord_system g) = N_AXIS \<and>
     length (coord_offset g) = N_AXIS"

definition conf_wf :: "cfg \<Rightarrow> bool" where
  "conf_wf c \<longleftrightarrow> settings_wf (settings c) \<and> cfg_calls c = []"

definition machine_wf :: "machine \<Rightarrow> bool" where
  "machine_wf m \<longleftrightarrow> rt_wf (rt m) \<and> conf_wf (conf m) \<and> mot_wf (mot m) \<and>
     serial_inv (ser m) \<and> gc_wf (gc_state m)"

lemma sys_wf_upd [simp]:
  "sys_wf (y\<lparr>sys_state := v\<rparr>) = sys_wf y" "sys_wf (y\<lparr>sys_abort := v\<rparr>) = sys_wf y"
  "sys_wf (y\<lparr>sys_suspend := v\<rparr>) = sys_wf y" "sys_wf (y\<lparr>sys_soft_limit := v\<rparr>) = sys_wf y"
  "sys_wf (y\<lparr>sys_step_control := v\<rparr>) = sys_wf y" "sys_wf (y\<lparr>sys_probe_succeeded := v\<rparr>) = sys_wf y"
  "sys_wf (y\<lparr>sys_homing_axis_lock := v\<rparr>) = sys_wf y" "sys_wf (y\<lparr>sys_spindle_stop_ovr := v\<rparr>) = sys_wf y"
  "sys_wf (y\<lparr>sys_report_ovr_counter := v\<rparr>) = sys_wf y" "sys_wf (y\<lparr>sys_report_wco_counter := v\<rparr>) = sys_wf y"
  "sys_wf (y\<lparr>sys_spindle_speed := w\<rparr>) = sys_wf y" "sys_wf (door_resume y) = sys_wf y"
  by (simp_all add: sys_wf_def door_resume_def)

lemma override_bounds:
  "MIN_FEED_RATE_OVERRIDE \<le> feed_override e f" "feed_override e f \<le> MAX_FEED_RATE_OVERRIDE"
  "MIN_SPINDLE_SPEED_OVERRIDE \<le> spindle_override e f" "spindle_override e f \<le> MAX_SPINDLE_SPEED_OVERRIDE"
  unfolding feed_override_def spindle_override_def Let_def
  by (rule max.cobounded2 | intro max.boundedI min.cobounded2, simp add: grbl_const)+

lemma sys_wf_motion_override:
  "sys_wf y \<Longrightarrow> sys_wf (y\<lparr>sys_f_override := feed_override e f, sys_r_override := rapid_override e (sys_r_override y),
     sys_report_ovr_counter := 0\<rparr>)"
  by (auto simp: sys_wf_def override_bounds rapid_override_def Let_def)

lemma sys_wf_spindle_override:
  "sys_wf y \<Longrightarrow> sys_wf (y\<lparr>sys_step_control := c, sys_spindle_speed_ovr := spindle_override e f, sys_report_ovr_counter := 0\<rparr>)"
  by (simp add: sys_wf_def override_bounds)

lemma rt_wf_upd [simp]:
  "rt_wf (r\<lparr>sys_rt_exec_state := v\<rparr>) = rt_wf r" "rt_wf (r\<lparr>sys_rt_exec_alarm := v\<rparr>) = rt_wf r"
  "rt_wf (r\<lparr>sys_rt_exec_motion_override := v\<rparr>) = rt_wf r"
  "rt_wf (r\<lparr>sys_rt_exec_accessory_override := v\<rparr>) = rt_wf r" "rt_wf (r\<lparr>sys_probe_state := v\<rparr>) = rt_wf r"
  by (simp_all add: rt_wf_def)

lemma rt_wf_flags [simp]:
  "rt_wf (system_set_exec_state_flag f r) = rt_wf r" "rt_wf (system_clear_exec_state_flag f r) = rt_wf r"
  "rt_wf (system_set_exec_alarm f r) = rt_wf r" "rt_wf (system_clear_exec_alarm r) = rt_wf r"
  "rt_wf (system_set_exec_motion_override_flag f r) = rt_wf r"
  "rt_wf (system_set_exec_accessory_override_flag f r) = rt_wf r"
  "rt_wf (system_clear_exec_motion_overrides r) = rt_wf r" "rt_wf (system_clear_exec_accessory_overrides r) = rt_wf r"
  by (simp_all add: rt_flag_defs)

lemma rt_wf_probe: "rt_wf r \<Longrightarrow> rt_wf (probe_state_monitor p pin r)"
  by (simp add: probe_state_monitor_def rt_wf_def)

lemma pwm_sys: "spindle_compute_pwm_value cf g rpm y = (pwm, y') \<Longrightarrow> sys_wf y' = sys_wf y"
  by (auto simp: spindle_compute_pwm_value_def Let_def split: if_splits)

lemma spindle_set_state_sys: "spindle_set_state cf c rpm (y, p) = (y', p') \<Longrightarrow> sys_wf y' = sys_wf y"
  by (auto simp: spindle_set_state_def Let_def split: if_splits prod.splits dest!: pwm_sys)

lemma coolant_set_state_sys: "coolant_set_state c (y, p) = (y', p') \<Longrightarrow> sys_wf y' = sys_wf y"
  by (auto simp: coolant_set_state_def Let_def split: if_splits)

lemma isr_axis_length:
  "isr_axis a sb db b inc c (bits, pos) = (c', bits', pos') \<Longrightarrow> length pos' = length pos"
  by (auto simp: isr_axis_def Let_def split: if_splits)

lemma isr_bresenham_shape:
  "\<exists>s p. isr_bresenham m = m\<lparr>mot := s, rt := (rt m)\<lparr>sys_position := p\<rparr>\<rparr> \<and> length p = length (sys_position (rt m))"
proof -
  let ?s = "mot m" and ?b = "st_exec_block (mot m)"
  obtain cx bx px where x: "isr_axis X_AXIS X_STEP_BIT X_DIRECTION_BIT ?b (st_steps (st ?s) ! X_AXIS) (counter_x (st ?s))
      (0, sys_position (rt m)) = (cx, bx, px)" by (metis prod_cases3)
  obtain cy by' py where y: "isr_axis Y_AXIS Y_STEP_BIT Y_DIRECTION_BIT ?b (st_steps (st ?s) ! Y_AXIS) (counter_y (st ?s))
      (bx, px) = (cy, by', py)" by (metis prod_cases3)
  obtain cz bz pz where z: "isr_axis Z_AXIS Z_STEP_BIT Z_DIRECTION_BIT ?b (st_steps (st ?s) ! Z_AXIS) (counter_z (st ?s))
      (by', py) = (cz, bz, pz)" by (metis prod_cases3)
  have "isr_bresenham m = m\<lparr>mot := ?s\<lparr>st := (st ?s)\<lparr>counter_x := cx, counter_y := cy, counter_z := cz,
      step_outbits := bz\<rparr>\<rparr>, rt := (rt m)\<lparr>sys_position := pz\<rparr>\<rparr>"
    by (simp only: isr_bresenham_def Let_def x y z prod.case)
  moreover have "length pz = length (sys_position (rt m))"
    using isr_axis_length [OF x] isr_axis_length [OF y] isr_axis_length [OF z] by simp
  ultimately show ?thesis by blast
qed

text \<open>Preparing segments changes the stepper and the system variables, but no override.\<close>

definition prep_only :: "machine \<Rightarrow> machine \<Rightarrow> bool" where
  "prep_only m m' \<longleftrightarrow> (\<exists>y s. m' = m\<lparr>sys := y, mot := s\<rparr> \<and> (sys_wf (sys m) \<longrightarrow> sys_wf y))"

lemma prep_onlyI: "m' = m\<lparr>sys := y, mot := s\<rparr> \<Longrightarrow> (sys_wf (sys m) \<Longrightarrow> sys_wf y) \<Longrightarrow> prep_only m m'"
  unfolding prep_only_def by blast

lemma prep_onlyE:
  assumes "prep_only a m"
  obtains y s where "m = a\<lparr>sys := y, mot := s\<rparr>" "sys_wf (sys a) \<Longrightarrow> sys_wf y"
  using assms unfolding prep_only_def by blast

lemma prep_only_refl: "prep_only m m"
  by (rule prep_onlyI [where y = "sys m" and s = "mot m"]) simp_all

lemma prep_only_trans: "prep_only a b \<Longrightarrow> prep_only b c \<Longrightarrow> prep_only a c"
  by (elim prep_onlyE) (rule prep_onlyI, auto)

lemma prep_only_mot: "prep_only m (m\<lparr>mot := s\<rparr>)"
  by (rule prep_onlyI [where y = "sys m" and s = s]) simp_all

lemma prep_only_sys: "(sys_wf (sys m) \<Longrightarrow> sys_wf y) \<Longrightarrow> prep_only m (m\<lparr>sys := y\<rparr>)"
  by (rule prep_onlyI [where y = y and s = "mot m"]) simp_all

lemma prep_only_on:
  "prep_only a m \<Longrightarrow> prep_only a (on_mot f m)"
  "prep_only a m \<Longrightarrow> (\<And>y. sys_wf y \<Longrightarrow> sys_wf (g y)) \<Longrightarrow> prep_only a (on_sys g m)"
  "prep_only a m \<Longrightarrow> prep_only a (m\<lparr>mot := s\<rparr>)"
  "prep_only a m \<Longrightarrow> (sys_wf (sys m) \<Longrightarrow> sys_wf y) \<Longrightarrow> prep_only a (m\<lparr>sys := y\<rparr>)"
  unfolding machine_lift by (blast intro: prep_only_trans prep_only_mot prep_only_sys)+

lemma prep_load_only: "prep_only m (prep_load_block i m)"
  unfolding prep_load_block_def Let_def by (rule prep_only_mot)

lemma prep_profile_only: "prep_only m (prep_velocity_profile i m)"
  unfolding prep_velocity_profile_def Let_def by (intro prep_only_on prep_only_refl) simp

lemma prep_select_only: "prep_select_block m = Some m' \<Longrightarrow> prep_only m m'"
  unfolding prep_select_block_def Let_def
  by (auto split: if_splits option.splits
      intro: prep_only_refl prep_only_trans [OF _ prep_profile_only] prep_only_trans [OF _ prep_load_only] prep_only_on)

lemma prep_spindle_only: "prep_only m (prep_spindle b m)"
  by (auto simp: prep_spindle_def Let_def split: prod.split intro!: prep_only_on prep_only_refl dest: pwm_sys)

lemma prep_block_end_only: "prep_only m (snd (prep_block_end i m))"
  by (simp add: prep_block_end_def Let_def prep_only_on prep_only_refl)

lemma prep_queue_only: "prep_only m (snd (prep_queue_segment i mm dt sg m))"
proof -
  have e: "prep_only m (snd (prep_block_end i (m\<lparr>mot := s\<rparr>)))" for s
    by (rule prep_only_trans [OF prep_only_on(3) [OF prep_only_refl] prep_block_end_only])
  show ?thesis unfolding prep_queue_segment_def Let_def
    using e by (simp add: prep_only_on prep_only_refl)
qed

lemma prep_segment_only: "prep_segment i m = Some (c, m') \<Longrightarrow> prep_only m m'"
proof -
  assume "prep_segment i m = Some (c, m')"
  then obtain p mm dt sg where "prep_queue_segment i mm dt sg (prep_spindle (blk (mot m) i) (m\<lparr>mot := (mot m)\<lparr>prep := p\<rparr>\<rparr>)) = (c, m')"
    by (auto simp: prep_segment_def Let_def split: option.splits)
  then have "m' = snd (prep_queue_segment i mm dt sg (prep_spindle (blk (mot m) i) (m\<lparr>mot := (mot m)\<lparr>prep := p\<rparr>\<rparr>)))" by simp
  then show ?thesis
    using prep_only_trans [OF prep_only_trans [OF prep_only_on(3) [OF prep_only_refl] prep_spindle_only] prep_queue_only] by blast
qed

lemma prep_pass_only: "prep_pass m = Some (c, m') \<Longrightarrow> prep_only m m'"
  by (auto simp: prep_pass_def prep_only_refl split: option.splits
      dest!: prep_select_only prep_segment_only intro: prep_only_trans)

lemma prep_passes_only: "prep_passes n m = Some m' \<Longrightarrow> prep_only m m'"
  by (induction n arbitrary: m)
    (auto split: if_splits option.splits prod.splits intro: prep_only_refl prep_only_trans dest: prep_pass_only)

lemma st_prep_only: "st_prep_buffer m = Some m' \<Longrightarrow> prep_only m m'"
  by (auto simp: st_prep_buffer_def prep_only_refl prep_passes_only split: if_splits)

section \<open>The contract\<close>

named_theorems minv

text \<open>Following a definition binding by binding, and through the option of a run that may not return.\<close>

lemma bind_pred:
  "pred_option P f \<Longrightarrow> (\<And>m. P m \<Longrightarrow> pred_option Q (g m)) \<Longrightarrow> pred_option Q (Option.bind f g)"
  by (cases f) auto

lemma bind_pred2:
  "pred_option (\<lambda>r. P (snd r)) f \<Longrightarrow> (\<And>b m. P m \<Longrightarrow> pred_option Q (g (b, m))) \<Longrightarrow>
   pred_option Q (Option.bind f g)"
  by (cases f) auto

lemma pred_Some: "(\<And>y. f = Some y \<Longrightarrow> Q y) \<Longrightarrow> pred_option Q f"
  by (cases f) auto

lemma pred_SomeD: "pred_option Q f \<Longrightarrow> f = Some y \<Longrightarrow> Q y"
  by simp

lemmas let_values = Let_def [where 'a = u8] Let_def [where 'a = u16] Let_def [where 'a = bool] Let_def [where 'a = f32]
  Let_def [where 'a = vec] Let_def [where 'a = gc_modal_t] Let_def [where 'a = parser_state_t]
  Let_def [where 'a = plan_line_data_t] Let_def [where 'a = gc_work] Let_def [where 'a = string]
  Let_def [where 'a = settings_t] Let_def [where 'a = "u8 \<times> f32"] Let_def [where 'a = "nat \<times> nat \<times> nat"] Let_def [where 'a = "u8 option"]

locale realtime_inv =
  fixes P :: "machine \<Rightarrow> bool"
  assumes wf: "P m \<Longrightarrow> machine_wf m"
    and sys_upd: "P m \<Longrightarrow> (sys_wf (sys m) \<Longrightarrow> sys_wf y) \<Longrightarrow> P (m\<lparr>sys := y\<rparr>)"
    and rt_upd: "P m \<Longrightarrow> rt_wf r \<Longrightarrow> P (m\<lparr>rt := r\<rparr>)"
    and mot_upd: "P m \<Longrightarrow> mot_wf s \<Longrightarrow> P (m\<lparr>mot := s\<rparr>)"
    and ser_upd: "P m \<Longrightarrow> serial_inv s' \<Longrightarrow> P (m\<lparr>ser := s'\<rparr>)"
    and gc_upd: "P m \<Longrightarrow> gc_wf g \<Longrightarrow> P (m\<lparr>gc_state := g\<rparr>)"
    and out_upd: "P m \<Longrightarrow> P (m\<lparr>tx_out := tx_out m @ txt\<rparr>)"
    and spin_upd: "P m \<Longrightarrow> P (m\<lparr>spin := p\<rparr>)" and cool_upd: "P m \<Longrightarrow> P (m\<lparr>cool := cl\<rparr>)"
    and prb_upd: "P m \<Longrightarrow> P (m\<lparr>prb := pr\<rparr>)" and events_upd: "P m \<Longrightarrow> P (m\<lparr>events := ev\<rparr>)"
    and irqs_upd: "P m \<Longrightarrow> P (m\<lparr>irqs := iq\<rparr>)" and probe_pin_upd: "P m \<Longrightarrow> P (m\<lparr>PROBE_PIN := v\<rparr>)"
    and limit_pin_upd: "P m \<Longrightarrow> P (m\<lparr>LIMIT_PIN := v\<rparr>)" and control_pin_upd: "P m \<Longrightarrow> P (m\<lparr>CONTROL_PIN := v\<rparr>)"
    and limit_int_upd: "P m \<Longrightarrow> P (m\<lparr>LIMIT_PCMSK := v, LIMIT_INT_ON := b\<rparr>)"
begin

lemmas field_upd [minv] = out_upd spin_upd cool_upd prb_upd events_upd irqs_upd probe_pin_upd limit_pin_upd
  control_pin_upd limit_int_upd

lemmas [minv] = bind_pred [of P] bind_pred2 [of P]

lemma Let_inv [minv]:
  "P m \<Longrightarrow> (\<And>m. P m \<Longrightarrow> P (f m)) \<Longrightarrow> P (Let m f)"
  "P m \<Longrightarrow> (\<And>m. P m \<Longrightarrow> pred_option Q (h m)) \<Longrightarrow> pred_option Q (Let m h)"
  "P m \<Longrightarrow> (\<And>m. P m \<Longrightarrow> P (snd (k m))) \<Longrightarrow> P (snd (Let m k))"
  by simp_all

lemma if_inv:
  "P a \<Longrightarrow> P b \<Longrightarrow> P (if c then a else b)"
  "pred_option Q a' \<Longrightarrow> pred_option Q b' \<Longrightarrow> pred_option Q (if c then a' else b')"
  by simp_all

lemma parts:
  "P m \<Longrightarrow> rt_wf (rt m)" "P m \<Longrightarrow> conf_wf (conf m)" "P m \<Longrightarrow> mot_wf (mot m)"
  "P m \<Longrightarrow> serial_inv (ser m)" "P m \<Longrightarrow> gc_wf (gc_state m)"
  using wf by (simp_all add: machine_wf_def)

lemma on_inv [minv]:
  "P m \<Longrightarrow> (\<And>y. sys_wf y \<Longrightarrow> sys_wf (fy y)) \<Longrightarrow> P (on_sys fy m)"
  "P m \<Longrightarrow> (\<And>r. rt_wf r \<Longrightarrow> rt_wf (fr r)) \<Longrightarrow> P (on_rt fr m)"
  "P m \<Longrightarrow> (\<And>s. mot_wf s \<Longrightarrow> mot_wf (fs s)) \<Longrightarrow> P (on_mot fs m)"
  "P m \<Longrightarrow> P (on_spin fp m)" "P m \<Longrightarrow> P (on_cool fc m)" "P m \<Longrightarrow> P (on_prb fb m)"
  by (simp_all add: machine_lift on_prb_def parts sys_upd rt_upd mot_upd spin_upd cool_upd prb_upd)

lemma mot_change: "P m \<Longrightarrow> m' = m\<lparr>mot := mot m'\<rparr> \<Longrightarrow> mot_wf (mot m') \<Longrightarrow> P m'"
  using mot_upd by metis

lemma spindle_coolant_inv [minv]:
  "P m \<Longrightarrow> P (m_spindle_set_state c rpm m)" "P m \<Longrightarrow> P (m_coolant_set_state c m)"
  by (auto simp: m_spindle_set_state_def m_coolant_set_state_def split: prod.split
      dest!: spindle_set_state_sys coolant_set_state_sys intro!: field_upd sys_upd)

subsection \<open>Output\<close>

lemma print_inv [minv]: "P m \<Longrightarrow> P (printPgmString s m)"
  unfolding printPgmString_def by (rule out_upd)

lemma report_util_inv [minv]:
  "P m \<Longrightarrow> P (report_util_line_feed m)" "P m \<Longrightarrow> P (report_util_feedback_line_feed m)"
  "P m \<Longrightarrow> P (report_util_setting_prefix n m)" "P m \<Longrightarrow> P (report_util_gcode_modes_G m)"
  "P m \<Longrightarrow> P (report_util_gcode_modes_M m)"
  by (simp_all add: report_util_line_feed_def report_util_feedback_line_feed_def report_util_setting_prefix_def
      report_util_gcode_modes_G_def report_util_gcode_modes_M_def minv)

lemma fold_inv': "P m \<Longrightarrow> (\<And>x m. P m \<Longrightarrow> P (f x m)) \<Longrightarrow> P (fold f xs m)"
  by (rule fold_inv)

lemma report_values_inv [minv]:
  "P m \<Longrightarrow> P (report_util_axis_values v m)" "P m \<Longrightarrow> P (report_util_uint8_setting n k m)"
  "P m \<Longrightarrow> P (report_util_float_setting n x d m)"
  unfolding report_util_axis_values_def report_util_uint8_setting_def report_util_float_setting_def
  by (auto intro!: fold_inv' minv)

lemma report_message_inv [minv]:
  "P m \<Longrightarrow> P (report_status_message c m)" "P m \<Longrightarrow> P (report_alarm_message c m)"
  "P m \<Longrightarrow> P (report_feedback_message c m)" "P m \<Longrightarrow> P (report_init_message m)"
  "P m \<Longrightarrow> P (report_grbl_help m)" "P m \<Longrightarrow> P (report_probe_parameters m)"
  "P m \<Longrightarrow> P (report_gcode_modes m)" "P m \<Longrightarrow> P (report_startup_line n bs m)"
  "P m \<Longrightarrow> P (report_execute_startup_message bs c m)" "P m \<Longrightarrow> P (report_build_info bs m)"
  "P m \<Longrightarrow> P (report_axis_settings i n m)" "P m \<Longrightarrow> P (report_grbl_settings m)"
  unfolding report_status_message_def report_alarm_message_def report_feedback_message_def report_init_message_def
    report_grbl_help_def report_probe_parameters_def report_gcode_modes_def report_startup_line_def
    report_execute_startup_message_def report_build_info_def report_axis_settings_def report_grbl_settings_def
  by (auto intro!: minv fold_inv' simp: let_values)

lemma report_realtime_inv [minv]: "P m \<Longrightarrow> P (report_realtime_status m)"
  unfolding report_realtime_status_def report_position_def report_buffer_state_def report_feed_speed_def
    report_pins_def report_wco_def report_overrides_def
  by (auto intro!: minv simp: let_values)

subsection \<open>Interrupts\<close>

lemma st_go_idle_inv [minv]: "P m \<Longrightarrow> P (st_go_idle m)"
  unfolding st_go_idle_def by (auto intro!: minv simp: let_values) (simp_all add: mot_wf_defs)

lemma st_reset_inv [minv]: "P m \<Longrightarrow> P (st_reset m)"
proof -
  assume P: "P m"
  have "st_reset m = (st_go_idle m)\<lparr>mot := mot (st_reset m)\<rparr>" by (simp add: st_reset_def Let_def on_mot_def)
  then show ?thesis using st_reset_wf [of m] parts(3) [OF P] st_go_idle_inv [OF P] by (metis mot_change)
qed

lemma mc_reset_inv [minv]: "P m \<Longrightarrow> P (mc_reset m)"
  unfolding mc_reset_def by (intro minv if_inv; simp)

lemma isr_inv:
  "P m \<Longrightarrow> P (isr_load_segment m)" "P m \<Longrightarrow> P (isr_buffer_empty m)" "P m \<Longrightarrow> P (isr_execute m)"
proof -
  assume P: "P m"
  have "isr_load_segment m = on_spin (spindle_set_speed (sg_spindle_pwm (segment_buffer (mot m) ! unat (segment_buffer_tail (mot m)))))
      (m\<lparr>mot := mot (isr_load_segment m)\<rparr>)"
    by (simp add: isr_load_segment_def Let_def on_spin_def)
  then show "P (isr_load_segment m)"
    using P mot_upd isr_load_segment_wf parts(3) on_inv(4) by metis
  show "P (isr_buffer_empty m)" using P unfolding isr_buffer_empty_def by (intro minv if_inv; simp)
  let ?m = "if sys_probe_state (rt m) = PROBE_ACTIVE then on_rt (probe_state_monitor (prb m) (PROBE_PIN m)) m else m"
  have m: "P ?m" using P by (auto intro!: minv rt_wf_probe)
  obtain s p where b: "isr_bresenham ?m = ?m\<lparr>mot := s, rt := (rt ?m)\<lparr>sys_position := p\<rparr>\<rparr>"
    "length p = length (sys_position (rt ?m))" using isr_bresenham_shape by blast
  have "isr_execute m = ?m\<lparr>rt := (rt ?m)\<lparr>sys_position := p\<rparr>, mot := mot (isr_execute m)\<rparr>"
    unfolding isr_execute_def Let_def b(1) by (simp add: isr_finish_def Let_def)
  moreover have "rt_wf ((rt ?m)\<lparr>sys_position := p\<rparr>)" using parts(1) [OF m] b(2) by (simp add: rt_wf_def)
  ultimately show "P (isr_execute m)"
    using m rt_upd mot_upd isr_execute_wf [OF parts(3) [OF P]] by metis
qed

lemma TIMER1_inv [minv]: "P m \<Longrightarrow> P (TIMER1_COMPA_vect m)"
  unfolding TIMER1_COMPA_vect_def by (intro minv if_inv isr_inv isr_output_pins_wf; simp)

lemma limits_int_inv [minv]: "P m \<Longrightarrow> P (limits_disable m)" "P m \<Longrightarrow> P (limits_init m)"
  by (simp_all add: limits_init_def limits_disable_def minv)

lemma SERIAL_RX_inv [minv]: "P m \<Longrightarrow> P (SERIAL_RX d m)"
  unfolding SERIAL_RX_def rx_extended_def by (intro minv if_inv ser_upd rx_put_inv parts; simp)

lemma interrupt_inv [minv]: "P m \<Longrightarrow> P (interrupt q m)"
  by (cases q) (auto simp: CONTROL_INT_vect_def LIMIT_INT_vect_def let_values intro!: minv TIMER0_OVF_wf)

lemma poll_inv [minv]: "P m \<Longrightarrow> P (poll m)"
  unfolding poll_def by (auto intro!: minv fold_inv')

subsection \<open>The realtime system\<close>

lemma st_prep_inv [minv]: "P m \<Longrightarrow> pred_option P (st_prep_buffer m)"
proof (rule pred_Some)
  fix m' assume P: "P m" and r: "st_prep_buffer m = Some m'"
  then have "prep_only m m'" by (simp add: st_prep_only)
  then show "P m'"
    using st_prep_buffer_wf [OF parts(3) [OF P] r] sys_upd [OF P] mot_upd
    by (auto simp: prep_only_def)
qed

lemma sync_position_inv [minv]: "P m \<Longrightarrow> P (gc_sync_position m)" "P m \<Longrightarrow> P (m_plan_sync_position m)"
proof -
  assume P: "P m"
  show "P (gc_sync_position m)" unfolding gc_sync_position_def
    using parts(5) [OF P] by (intro gc_upd P) (simp add: gc_wf_def system_convert_array_steps_to_mpos_def)
  show "P (m_plan_sync_position m)" unfolding m_plan_sync_position_def
    using P by (intro minv plan_sync_position_wf)
qed

lemma wait_for_reset_inv: "wait_for_reset m = Some m' \<Longrightarrow> P m \<longrightarrow> P m'"
proof (induction rule: wait_for_reset.raw_induct [rotated 1, consumes 1])
  case (1 go m m')
  then show ?case by (auto simp: Let_def split: if_splits intro: minv)
qed

lemma wait_for_reset_inv' [minv]: "P m \<Longrightarrow> pred_option P (wait_for_reset m)"
  using wait_for_reset_inv by (blast intro: pred_Some)

lemma exec_rt_alarm_inv [minv]: "P m \<Longrightarrow> pred_option P (exec_rt_alarm e m)"
  unfolding exec_rt_alarm_def by (intro minv if_inv; simp add: minv)

lemma exec_rt_hold_inv [minv]: "P m \<Longrightarrow> P (exec_rt_hold e m)"
  unfolding exec_rt_hold_def hold_initiate_def hold_safety_door_def
  by (intro minv if_inv st_update_wf; simp)

lemma cycle_start_inv [minv]: "P m \<Longrightarrow> pred_option P (cycle_start m)"
  unfolding cycle_start_def by (auto intro!: minv st_wake_up_wf)

lemma exec_rt_cycle_start_inv [minv]: "P m \<Longrightarrow> pred_option P (exec_rt_cycle_start e m)"
  unfolding exec_rt_cycle_start_def by (auto intro!: minv)

lemma exec_rt_cycle_stop_inv [minv]: "P m \<Longrightarrow> P (exec_rt_cycle_stop e m)"
  unfolding exec_rt_cycle_stop_def by (intro minv if_inv plan_cycle_reinitialize_wf plan_reset_wf; simp)

lemma exec_rt_state_inv [minv]: "P m \<Longrightarrow> pred_option (\<lambda>r. P (snd r)) (exec_rt_state e m)"
  unfolding exec_rt_state_def by (auto intro!: minv)

lemma exec_rt_motion_override_inv [minv]: "P m \<Longrightarrow> P (exec_rt_motion_override e m)"
proof -
  assume P: "P m"
  have s: "P (on_sys (\<lambda>y. y\<lparr>sys_f_override := feed_override e f, sys_r_override := rapid_override e (sys_r_override (sys n)),
      sys_report_ovr_counter := 0\<rparr>) n)" if "P n" for n f
    unfolding on_sys_def using that sys_wf_motion_override by (intro sys_upd) auto
  have r: "P (on_rt system_clear_exec_motion_overrides m)" using P by (auto intro!: minv)
  show ?thesis unfolding exec_rt_motion_override_def let_values
    using P r by (auto intro!: minv s plan_update_velocity_wf plan_cycle_reinitialize_wf)
qed

lemma coolant_toggle_inv [minv]: "P m \<Longrightarrow> P (coolant_toggle m)"
proof -
  assume P: "P m"
  have c: "coolant_mode (modal (gc_state n)) \<in> {COOLANT_DISABLE, COOLANT_FLOOD_ENABLE}" if "P n" for n
    using parts(5) [OF that] by (simp add: gc_wf_def modes_ok_def)
  have g: "P (n\<lparr>gc_state := (gc_state n)\<lparr>modal := (modal (gc_state n))\<lparr>coolant_mode := v\<rparr>\<rparr>\<rparr>)"
    if "P n" "v \<in> {COOLANT_DISABLE, COOLANT_FLOOD_ENABLE}" for n v
    using that parts(5) [OF that(1)] by (intro gc_upd) (auto simp: gc_wf_def modes_ok_def)
  show ?thesis unfolding coolant_toggle_def Let_def
    using P c [OF P] by (auto intro!: minv g simp: bit_false_def COOLANT_FLOOD_ENABLE_def PL_COND_FLAG_COOLANT_FLOOD_def COOLANT_DISABLE_def)
qed

lemma exec_rt_accessory_override_inv [minv]: "P m \<Longrightarrow> P (exec_rt_accessory_override e m)"
  unfolding exec_rt_accessory_override_def let_values
  by (intro minv if_inv sys_wf_spindle_override; simp)

lemma exec_rt_overrides_inv [minv]: "P m \<Longrightarrow> pred_option P (exec_rt_overrides m)"
  unfolding exec_rt_overrides_def by (auto intro!: minv)

lemma exec_rt_system_inv [minv]: "P m \<Longrightarrow> pred_option P (protocol_exec_rt_system m)"
  unfolding protocol_exec_rt_system_def by (auto intro!: minv)

subsection \<open>Suspension and check points\<close>

lemma delay_loop_inv: "(\<And>m. P m \<Longrightarrow> pred_option P (f m)) \<Longrightarrow> P m \<Longrightarrow> pred_option P (delay_loop f mode n m)"
proof (induction n arbitrary: m mode)
  case (Suc n)
  show ?case using Suc.prems by (auto intro!: minv Suc.IH)
qed simp

lemma restore_inv [minv]:
  "P m \<Longrightarrow> pred_option P (restore_spindle c rpm m)" "P m \<Longrightarrow> pred_option P (restore_coolant c m)"
  unfolding restore_spindle_def restore_coolant_def by (auto intro!: minv delay_loop_inv)

lemma sleep_loop_inv: "sleep_loop m = Some m' \<Longrightarrow> P m \<longrightarrow> P m'"
proof (induction rule: sleep_loop.raw_induct [rotated 1, consumes 1])
  case (1 go m m')
  then show ?case by (auto simp: bind_eq_Some_conv split: if_splits dest: pred_SomeD [OF exec_rt_system_inv])
qed

lemma sleep_loop_inv' [minv]: "P m \<Longrightarrow> pred_option P (sleep_loop m)"
  using sleep_loop_inv by (blast intro: pred_Some)

lemma suspend_door_inv [minv]: "P m \<Longrightarrow> pred_option (\<lambda>r. P (snd r)) (suspend_door c rpm m)"
  unfolding suspend_door_def de_energize_def by (auto intro!: minv)

lemma suspend_hold_inv [minv]: "P m \<Longrightarrow> P (suspend_hold c rpm m)"
  unfolding suspend_hold_def de_energize_def let_values by (auto intro!: minv simp: Let_def)

lemma suspend_round_inv [minv]: "P m \<Longrightarrow> pred_option (\<lambda>r. P (snd r)) (suspend_round c rpm m)"
  unfolding suspend_round_def by (auto intro!: minv)

lemma suspend_loop_inv: "suspend_loop c rpm m = Some m' \<Longrightarrow> P m \<longrightarrow> P m'"
proof (induction rule: suspend_loop.raw_induct [rotated 1, consumes 1])
  case (1 go c rpm m m')
  have r: "P b" if "suspend_round c rpm m = Some (a, b)" "P m" for a b m
    using pred_SomeD [OF suspend_round_inv that(1)] that(2) by simp
  have s: "P b" if "protocol_exec_rt_system m = Some b" "P m" for b m
    using pred_SomeD [OF exec_rt_system_inv that(1)] that(2) by simp
  show ?case using 1(2) by (auto simp: bind_eq_Some_conv split: if_splits dest: r s 1(1))
qed

lemma suspend_inv [minv]: "P m \<Longrightarrow> pred_option P (protocol_exec_rt_suspend m)"
  unfolding protocol_exec_rt_suspend_def
  by (auto intro!: pred_Some split: prod.split dest!: suspend_loop_inv) (auto elim!: notE intro!: minv)

lemma execute_realtime_inv [minv]: "P m \<Longrightarrow> pred_option P (protocol_execute_realtime m)"
  unfolding protocol_execute_realtime_def by (auto intro!: minv)

lemma auto_cycle_start_inv [minv]: "P m \<Longrightarrow> P (protocol_auto_cycle_start m)"
  unfolding protocol_auto_cycle_start_def by (auto intro!: minv)

lemma synchronize_loop_inv: "synchronize_loop m = Some m' \<Longrightarrow> P m \<longrightarrow> P m'"
proof (induction rule: synchronize_loop.raw_induct [rotated 1, consumes 1])
  case (1 go m m')
  then show ?case
    by (auto simp: bind_eq_Some_conv split: if_splits dest: pred_SomeD [OF execute_realtime_inv])
qed

lemma synchronize_inv [minv]: "P m \<Longrightarrow> pred_option P (protocol_buffer_synchronize m)"
  unfolding protocol_buffer_synchronize_def using synchronize_loop_inv by (blast intro: pred_Some minv)

lemma sync_inv [minv]:
  "P m \<Longrightarrow> pred_option P (delay_sec t mode m)" "P m \<Longrightarrow> pred_option P (spindle_sync c rpm m)"
  "P m \<Longrightarrow> pred_option P (coolant_sync c m)" "P m \<Longrightarrow> pred_option P (system_flag_wco_change m)"
  unfolding delay_sec_def spindle_sync_def coolant_sync_def system_flag_wco_change_def
  by (auto intro!: minv delay_loop_inv)

end

text \<open>
  The commands that store settings need one law more; the routines above, which run in the realtime system and
  along the motions, leave settings and EEPROM alone.
\<close>

locale machine_inv = realtime_inv P for P :: "machine \<Rightarrow> bool" +
  assumes conf_upd: "P m \<Longrightarrow> conf_wf c \<Longrightarrow> (soft_limit_inv (mset m) \<Longrightarrow> soft_limit_inv (settings c)) \<Longrightarrow> P (m\<lparr>conf := c\<rparr>)"

end
