(* ===== verification/Machine_Inv_Motion.thy ===== *)
theory Machine_Inv_Motion
  imports Machine_Inv
begin

text \<open>
  The contract of \<open>realtime_inv\<close> along lines, arcs, probing and homing, and that of \<open>machine_inv\<close> along
  the routines that read and write coordinate data.
\<close>

section \<open>Settings records\<close>

lemma settings_same [simp]:
  "settings (settings_store_startup_line n bs c) = settings c"
  "settings (settings_store_build_info bs c) = settings c"
  by (simp_all add: settings_store_startup_line_def settings_store_build_info_def Let_def)

lemma settings_read_same:
  "settings_read_startup_line n c = (ok, bs, c') \<Longrightarrow> settings c' = settings c"
  "settings_read_build_info c = (ok, bs, c') \<Longrightarrow> settings c' = settings c"
  "settings_read_coord_data sel c = (ok, v, c') \<Longrightarrow> settings c' = settings c \<and> length v = N_AXIS"
  by (auto simp: settings_read_startup_line_def settings_read_build_info_def settings_read_coord_data_def Let_def
      vec_at_def N_AXIS_def split: prod.splits if_splits)

lemma settings_restore_settings:
  "settings (settings_restore f c) = (if f AND SETTINGS_RESTORE_DEFAULTS \<noteq> 0 then default_settings else settings c)"
proof -
  have "settings (fold (\<lambda>i. settings_write_coord_data (of_nat i) v) xs c) = settings c" for v xs c
    by (induction xs arbitrary: c) auto
  then show ?thesis by (simp add: settings_restore_def Let_def del: upt_Suc)
qed

lemma soft_limit_default: "soft_limit_inv default_settings"
  by (simp add: soft_limit_inv_def default_settings_def bit_istrue_def grbl_const)

lemma store_setting_wf:
  assumes "settings_wf (settings c)" "f_wf v"
  shows "settings_wf (settings (snd (settings_store_global_setting p v c)))"
    "soft_limit_inv (settings c) \<Longrightarrow> soft_limit_inv (settings (snd (settings_store_global_setting p v c)))"
proof -
  have a: "soft_limit_inv (store_axis_setting i a v s) = soft_limit_inv s" for i a s
    by (simp add: store_axis_setting_def soft_limit_inv_def)
  show "settings_wf (settings (snd (settings_store_global_setting p v c)))"
    using assms store_global_wf [of p v c] store_axis_wf
    by (auto simp: settings_store_global_setting_def split: option.splits sum.splits)
  show "soft_limit_inv (settings c) \<Longrightarrow> soft_limit_inv (settings (snd (settings_store_global_setting p v c)))"
    using store_global_soft [of p v c] a
    by (auto simp: settings_store_global_setting_def split: option.splits sum.splits)
qed

lemma f_wf_scale_down: "f_wf x \<Longrightarrow> scale_down x e = (y, e') \<Longrightarrow> f_wf y"
proof (induction x e rule: scale_down.induct)
  case (1 x e)
  then show ?case by (subst (asm) scale_down.simps) (auto split: if_splits)
qed

lemma f_wf_scale_up: "f_wf x \<Longrightarrow> f_wf (scale_up x n)"
  by (induction x n rule: scale_up.induct) auto

lemma f_wf_read_float: "read_float line c = Some (v, c') \<Longrightarrow> f_wf v"
proof -
  have "f_wf (apply_decimal x e)" if "f_wf x" for x e
    using that f_wf_scale_down [OF that, of e] by (auto simp: apply_decimal_def f_wf_scale_up split: prod.split)
  then show "read_float line c = Some (v, c') \<Longrightarrow> f_wf v"
    by (auto simp: read_float_def Let_def split: prod.splits if_splits)
qed

section \<open>Motions, commands and lines\<close>

context realtime_inv
begin

subsection \<open>Motions\<close>

lemma wait_idle_inv: "wait_idle m = Some m' \<Longrightarrow> P m \<longrightarrow> P m'"
proof (induction rule: wait_idle.raw_induct [rotated 1, consumes 1])
  case (1 go m m')
  then show ?case by (auto simp: bind_eq_Some_conv split: if_splits dest: pred_SomeD [OF execute_realtime_inv])
qed

lemma wait_for_room_inv: "wait_for_room m = Some m' \<Longrightarrow> P m \<longrightarrow> P m'"
proof (induction rule: wait_for_room.raw_induct [rotated 1, consumes 1])
  case (1 go m m')
  have s: "P b" if "protocol_execute_realtime m = Some b" "P m" for b m
    using pred_SomeD [OF execute_realtime_inv that(1)] that(2) by simp
  show ?case using 1(2) by (auto simp: bind_eq_Some_conv split: if_splits dest: s 1(1) auto_cycle_start_inv)
qed

lemma wait_inv [minv]: "P m \<Longrightarrow> pred_option P (wait_idle m)" "P m \<Longrightarrow> pred_option P (wait_for_room m)"
  using wait_idle_inv wait_for_room_inv by (blast intro: pred_Some)+

lemma soft_limit_inv' [minv]:
  "P m \<Longrightarrow> pred_option P (soft_limit_alarm m)" "P m \<Longrightarrow> pred_option P (limits_soft_check t m)"
proof -
  have a: "P m \<Longrightarrow> pred_option P (soft_limit_alarm m)" for m
    unfolding soft_limit_alarm_def by (auto intro!: minv)
  then show "P m \<Longrightarrow> pred_option P (soft_limit_alarm m)" .
  show "P m \<Longrightarrow> pred_option P (limits_soft_check t m)"
    unfolding limits_soft_check_def by (auto intro!: minv a)
qed

lemma plan_line_inv [minv]: "P m \<Longrightarrow> P (snd (m_plan_buffer_line target pl_data m))"
proof -
  assume P: "P m"
  have "snd (m_plan_buffer_line target pl_data m) = m\<lparr>mot := snd (plan_buffer_line (mset m) (sys m)
      (sys_position (rt m)) st_update_plan_block_parameters target pl_data (mot m))\<rparr>"
    by (simp add: m_plan_buffer_line_def split_beta)
  then show ?thesis using mot_upd [OF P plan_buffer_line_wf [OF parts(3) [OF P]]] by simp
qed

lemma mc_line_inv [minv]: "P m \<Longrightarrow> pred_option P (mc_line target pl_data m)"
proof -
  have "P m \<Longrightarrow> m_plan_buffer_line target pl_data m = (b, n) \<Longrightarrow> P n" for m b n
    using plan_line_inv [of m target pl_data] by simp
  then show "P m \<Longrightarrow> pred_option P (mc_line target pl_data m)"
    unfolding mc_line_def by (auto intro!: minv split: prod.split)
qed

lemma set_gc_position_inv [minv]:
  "P m \<Longrightarrow> (\<And>p. length p = N_AXIS \<Longrightarrow> length (f p) = N_AXIS) \<Longrightarrow> P (set_gc_position f m)"
  unfolding set_gc_position_def by (rule gc_upd) (auto simp: gc_wf_def dest!: parts(5))

lemma arc_loop_inv: "P m \<Longrightarrow> pred_option P (arc_loop rot c0 c1 per a0 a1 al pl_data n i acc m)"
proof (induction n arbitrary: i acc m)
  case (Suc n)
  show ?case using Suc.prems by (auto intro!: minv Suc.IH simp: Let_def split: prod.split)
qed simp

lemma mc_arc_inv [minv]: "P m \<Longrightarrow> pred_option P (mc_arc L target pl_data offset radius a0 a1 al cw m)"
  unfolding mc_arc_def by (auto intro!: minv arc_loop_inv simp: let_values)

lemma mc_dwell_inv [minv]: "P m \<Longrightarrow> pred_option P (mc_dwell t m)"
  unfolding mc_dwell_def by (auto intro!: minv)

lemma probe_finish_inv [minv]: "P m \<Longrightarrow> pred_option (\<lambda>r. P (snd r)) (probe_finish e m)"
proof -
  assume P: "P m"
  have r: "rt_wf r \<Longrightarrow> rt_wf (r\<lparr>sys_probe_position := sys_position r\<rparr>)" for r by (simp add: rt_wf_def)
  show ?thesis using P unfolding probe_finish_def by (auto intro!: minv r plan_reset_wf)
qed

lemma mc_probe_inv [minv]: "P m \<Longrightarrow> pred_option (\<lambda>r. P (snd r)) (mc_probe_cycle target pl_data f m)"
  unfolding mc_probe_cycle_def let_values by (auto intro!: minv)

subsection \<open>Homing\<close>

lemma homing_alarms_inv [minv]: "P m \<Longrightarrow> P (homing_alarms c a m)"
  unfolding homing_alarms_def let_values by (intro minv if_inv; simp)

lemma homing_motion_inv: "homing_motion c a l m = Some r \<Longrightarrow> P m \<longrightarrow> P (snd r)"
proof (induction rule: homing_motion.raw_induct [rotated 1, consumes 1])
  case (1 go c a l m r)
  have p: "P m \<Longrightarrow> P (poll m)" for m by (rule poll_inv)
  have q: "P (if a then on_sys (\<lambda>y. y\<lparr>sys_homing_axis_lock := v\<rparr>) m else m)" if "P m" for v m
    using that by (auto intro!: minv)
  have s: "P b" if "st_prep_buffer m = Some b" "P m" for b m
    using pred_SomeD [OF st_prep_inv that(1)] that(2) by simp
  have e: "P b" if "protocol_execute_realtime (mc_reset m) = Some b" "P m" for b m
    using pred_SomeD [OF execute_realtime_inv that(1)] that(2) mc_reset_inv by simp
  show ?case using 1(2)
    by (auto simp: bind_eq_Some_conv Let_def split: if_splits dest!: s e 1(1) intro!: minv q)
qed

lemma homing_motion_inv' [minv]: "P m \<Longrightarrow> pred_option (\<lambda>r. P (snd r)) (homing_motion c a l m)"
  using homing_motion_inv by (blast intro: pred_Some)

lemma homing_zero_length [simp]: "length (homing_zero_axis idx pos) = length pos"
  by (simp add: homing_zero_axis_def Let_def)

lemma homing_set_length: "length (fold (homing_set_axis cf c) xs pos) = length pos"
proof -
  have "length (homing_set_axis cf c idx pos) = length pos" for idx pos
    by (simp add: homing_set_axis_def Let_def)
  then show ?thesis by (induction xs arbitrary: pos) auto
qed

lemma homing_setup_length:
  "(case fold (homing_setup cf c a t) xs (target, l, n, pos) of (t', l', n', pos') \<Rightarrow> length pos') = length pos"
  by (induction xs arbitrary: target l n pos) (auto simp: homing_setup_def split: if_splits)

lemma homing_pass_inv [minv]: "P m \<Longrightarrow> pred_option (\<lambda>r. P (snd r)) (homing_pass c a travel rate m)"
proof -
  assume P: "P m"
  obtain target l n pos where f: "fold (homing_setup (mset m) c a travel) [0..<N_AXIS]
      (system_convert_array_steps_to_mpos (steps_per_mm (mset m)) (sys_position (rt m)), 0, 0, sys_position (rt m)) =
      (target, l, n, pos)" by (metis prod_cases4)
  have "length pos = N_AXIS"
    using homing_setup_length [of "mset m" c a travel "[0..<N_AXIS]" _ 0 0 "sys_position (rt m)"] f parts(1) [OF P]
    by (metis (no_types, lifting) case_prod_conv rt_wf_def)
  then have r: "rt_wf r \<Longrightarrow> rt_wf (r\<lparr>sys_position := pos\<rparr>)" for r by (simp add: rt_wf_def)
  show ?thesis using P unfolding homing_pass_def let_values
    by (simp add: f) (auto intro!: minv r st_wake_up_wf simp: Let_def)
qed

lemma homing_passes_inv [minv]: "P m \<Longrightarrow> pred_option (\<lambda>r. P (snd r)) (homing_passes n c a travel rate m)"
proof (induction n arbitrary: a travel rate m)
  case (Suc n)
  show ?case using Suc.prems by (auto intro!: minv Suc.IH)
qed simp

lemma go_home_inv [minv]: "P m \<Longrightarrow> pred_option P (limits_go_home c m)"
proof -
  assume P: "P m"
  have r: "rt_wf r \<Longrightarrow> rt_wf (r\<lparr>sys_position := fold (homing_set_axis cf c) xs (sys_position r)\<rparr>)" for r cf xs
    by (simp add: rt_wf_def homing_set_length)
  show ?thesis using P unfolding limits_go_home_def by (auto intro!: minv r)
qed

lemma mc_homing_inv [minv]: "P m \<Longrightarrow> pred_option P (mc_homing_cycle c m)"
  unfolding mc_homing_cycle_def by (auto intro!: minv)

subsection \<open>Settings\<close>

lemma m_cfg_call_inv: "P m \<Longrightarrow> pred_option P (m_cfg_call c m)"
  by (cases c) (auto simp: m_cfg_call_def intro!: minv st_generate_masks_wf)

lemma run_calls_inv: "P m \<Longrightarrow> pred_option P (run_calls cs m)"
  by (induction cs arbitrary: m) (auto intro!: minv m_cfg_call_inv)

end

context machine_inv
begin

lemma with_conf_inv:
  "P m \<Longrightarrow> settings_wf (settings c) \<Longrightarrow> (soft_limit_inv (mset m) \<Longrightarrow> soft_limit_inv (settings c)) \<Longrightarrow>
   pred_option P (with_conf c m)"
  unfolding with_conf_def by (intro run_calls_inv conf_upd) (simp_all add: conf_wf_def)

lemma with_conf_same: "P m \<Longrightarrow> settings c = mset m \<Longrightarrow> pred_option P (with_conf c m)"
  using parts(2) [of m] by (intro with_conf_inv) (auto simp: conf_wf_def)

lemma m_read_coord_inv:
  assumes "P m" "\<And>v m. P m \<Longrightarrow> length v = N_AXIS \<Longrightarrow> P (dest v m) \<and> mset (dest v m) = mset m"
  shows "pred_option (\<lambda>(ok, v, m). P m \<and> length v = N_AXIS) (m_read_coord dest sel m)"
proof -
  obtain ok v c where r: "settings_read_coord_data sel (conf m) = (ok, v, c)" by (metis prod_cases3)
  from settings_read_same(3) [OF r] have "pred_option P (with_conf c (dest v m))" "length v = N_AXIS"
    using assms by (auto intro!: with_conf_same)
  then show ?thesis by (auto simp: m_read_coord_def r intro!: bind_pred [of P])
qed

lemma m_read_local_inv: "P m \<Longrightarrow> pred_option (\<lambda>(ok, v, m). P m \<and> length v = N_AXIS) (m_read_coord to_local sel m)"
  by (rule m_read_coord_inv) (simp_all add: to_local_def)

lemma m_write_coord_inv [minv]: "P m \<Longrightarrow> pred_option P (m_write_coord sel v m)"
  unfolding m_write_coord_def by (intro with_conf_same) simp_all

lemma m_read_startup_inv: "P m \<Longrightarrow> pred_option (\<lambda>(ok, bs, m). P m) (m_read_startup n m)"
  unfolding m_read_startup_def
  by (auto intro!: bind_pred [of P] with_conf_same split: prod.split dest: settings_read_same(1))

end

end
