(* ===== verification/Machine_Inv_Gcode.thy ===== *)
theory Machine_Inv_Gcode
  imports Machine_Inv_Motion
begin

text \<open>
  The two contracts along the g-code parser: executing a well-formed block keeps a \<open>realtime_inv\<close>, and
  a parsed and checked block is well formed (\<open>machine_inv\<close>, since a failed read of the EEPROM restores it).
\<close>

section \<open>Well-formed blocks\<close>

definition lengths_ok :: "gc_work \<Rightarrow> bool" where
  "lengths_ok w \<longleftrightarrow> length (val_xyz (vals w)) = N_AXIS \<and> length (val_ijk (vals w)) = N_AXIS \<and>
     length (block_coord_system w) = N_AXIS"

definition work_ok :: "gc_work \<Rightarrow> bool" where
  "work_ok w \<longleftrightarrow> modes_ok (mods w) \<and> lengths_ok w"

lemma lengths_upd [simp]:
  "lengths_ok (on_modal f w) = lengths_ok w" "lengths_ok (w\<lparr>axis_command := a\<rparr>) = lengths_ok w"
  "lengths_ok (w\<lparr>command_words := c\<rparr>) = lengths_ok w" "lengths_ok (w\<lparr>value_words := c\<rparr>) = lengths_ok w"
  "lengths_ok (w\<lparr>gc_block := (gc_block w)\<lparr>non_modal_command := k\<rparr>\<rparr>) = lengths_ok w"
  "lengths_ok (w\<lparr>g10_select := k\<rparr>) = lengths_ok w" "lengths_ok (w\<lparr>gc_parser_flags := k\<rparr>) = lengths_ok w"
  "lengths_ok (set_xyz i v w) = lengths_ok w" "lengths_ok (set_ijk i v w) = lengths_ok w"
  by (simp_all add: lengths_ok_def on_modal_def on_values_def set_xyz_def set_ijk_def)

lemma lengths_values:
  "(\<And>b. length (val_xyz (f b)) = length (val_xyz b) \<and> length (val_ijk (f b)) = length (val_ijk b)) \<Longrightarrow>
   lengths_ok (on_values f w) = lengths_ok w"
  by (simp add: lengths_ok_def on_values_def)

lemma set_command_lengths: "set_command b w = Inr w' \<Longrightarrow> lengths_ok w' = lengths_ok w"
  by (auto simp: set_command_def split: if_splits)

definition same_lengths :: "gc_work \<Rightarrow> status + nat \<times> u16 \<times> gc_work \<Rightarrow> bool" where
  "same_lengths w r \<longleftrightarrow> (case r of Inl e \<Rightarrow> True | Inr (b, k, w') \<Rightarrow> lengths_ok w' = lengths_ok w)"

lemma same_lengths_intros:
  "same_lengths w a \<Longrightarrow> same_lengths w b \<Longrightarrow> same_lengths w (if c then a else b)"
  "same_lengths w (Inl e)" "lengths_ok w' = lengths_ok w \<Longrightarrow> same_lengths w (Inr (n, k, w'))"
  by (simp_all add: same_lengths_def)

lemma G_select_lengths: "G_select iv k w = Inr (b, k', w') \<Longrightarrow> lengths_ok w' = lengths_ok w"
proof -
  have "same_lengths w (G_select iv k w)"
    unfolding G_select_def G_non_modal_def G_motion_def G_distance_def G_tool_length_def Let_def
    by (intro same_lengths_intros) simp_all
  then show "G_select iv k w = Inr (b, k', w') \<Longrightarrow> lengths_ok w' = lengths_ok w"
    by (simp add: same_lengths_def)
qed

lemma pred_sum_if:
  "pred_sum Q R a \<Longrightarrow> pred_sum Q R b \<Longrightarrow> pred_sum Q R (if c then a else b)"
  by simp

lemma value_store_lengths: "value_store l v iv w = Inr (n, w') \<Longrightarrow> lengths_ok w' = lengths_ok w"
proof -
  have "pred_sum (\<lambda>e. True) (\<lambda>r. lengths_ok (snd r) = lengths_ok w) (value_store l v iv w)"
    unfolding value_store_def by (intro pred_sum_if) (simp_all add: lengths_values)
  then show "value_store l v iv w = Inr (n, w') \<Longrightarrow> lengths_ok w' = lengths_ok w" by simp
qed

lemma gc_word_lengths:
  assumes "gc_word l v w = Inr w'" "lengths_ok w"
  shows "lengths_ok w'"
proof -
  have "G_word iv k w = Inr w' \<Longrightarrow> lengths_ok w'" for iv k
    using assms(2) by (auto simp: G_word_def dest!: set_command_lengths G_select_lengths split: sum.splits if_splits)
  moreover have "M_word iv k w = Inr w' \<Longrightarrow> lengths_ok w'" for iv k
    using assms(2) by (simp add: M_word_def split: if_splits) (drule set_command_lengths; simp)+
  moreover have "value_word l v iv w = Inr w' \<Longrightarrow> lengths_ok w'" for iv
    using assms(2) by (auto simp: value_word_def dest!: value_store_lengths split: sum.splits if_splits)
  ultimately show ?thesis using assms(1) by (auto simp: gc_word_def split: if_splits)
qed

lemma gc_start_lengths: "lengths_ok (gc_start modes line)"
  by (simp add: gc_start_def Let_def lengths_ok_def on_modal_def parser_block_zero_def gc_values_zero_def N_AXIS_def)

lemma gc_parse_work_ok: "gc_parse_line modes line = Some (Inr w) \<Longrightarrow> modes_ok modes \<Longrightarrow> work_ok w"
  using gc_parse_keeps [of lengths_ok] gc_word_lengths gc_start_lengths gc_parse_block_ok
  unfolding work_ok_def block_ok_def by blast

section \<open>Checking keeps blocks well formed\<close>

lemma work_upd [simp]:
  "work_ok (w\<lparr>axis_command := a\<rparr>) = work_ok w" "work_ok (w\<lparr>value_words := c\<rparr>) = work_ok w"
  "work_ok (w\<lparr>g10_select := k\<rparr>) = work_ok w" "work_ok (w\<lparr>gc_parser_flags := k\<rparr>) = work_ok w"
  "work_ok (use_words b w) = work_ok w" "work_ok (set_parser_flag k w) = work_ok w"
  "work_ok (no_motion_without_axes w) = work_ok w"
  by (simp_all add: work_ok_def use_words_def set_parser_flag_def no_motion_without_axes_def)

lemma work_values:
  "work_ok w \<Longrightarrow> (\<And>b. length (val_xyz b) = N_AXIS \<Longrightarrow> length (val_xyz (f b)) = N_AXIS) \<Longrightarrow>
   (\<And>b. length (val_ijk b) = N_AXIS \<Longrightarrow> length (val_ijk (f b)) = N_AXIS) \<Longrightarrow> work_ok (on_values f w)"
  by (simp add: work_ok_def lengths_ok_def on_values_def)

lemma length_map_axes [simp]: "length (map_axes f) = N_AXIS"
  by (simp add: map_axes_def)

lemma ok_then_work:
  "pred_sum (\<lambda>e. True) work_ok r \<Longrightarrow> (\<And>w. work_ok w \<Longrightarrow> pred_sum (\<lambda>e. True) work_ok (f w)) \<Longrightarrow>
   pred_sum (\<lambda>e. True) work_ok (ok_then r f)"
  by (cases r) (auto simp: ok_then_def)

lemma check_parts_ok:
  "work_ok w \<Longrightarrow> pred_sum (\<lambda>e. True) work_ok (check_common w)"
  "work_ok w \<Longrightarrow> pred_sum (\<lambda>e. True) work_ok (check_feed g w)"
  "work_ok w \<Longrightarrow> pred_sum (\<lambda>e. True) work_ok (check_dwell w)"
  "work_ok w \<Longrightarrow> pred_sum (\<lambda>e. True) work_ok (check_tool_length w)"
  "work_ok w \<Longrightarrow> work_ok (check_spindle_speed g w)" "work_ok w \<Longrightarrow> work_ok (units_to_mm w)"
  by (simp_all add: check_common_def check_feed_def feed_in_mm_def check_dwell_def check_tool_length_def
      check_spindle_speed_def units_to_mm_def Let_def work_values)

lemma check_settings_ok: "work_ok w \<Longrightarrow> pred_sum (\<lambda>e. True) work_ok (check_settings g w)"
  unfolding check_settings_def by (intro ok_then_work check_parts_ok)

lemma check_arc_ok:
  assumes "work_ok w"
  shows "pred_sum (\<lambda>e. True) work_ok (check_arc g w)"
proof -
  have "pred_sum (\<lambda>e. True) work_ok (arc_radius_mode g w a0 a1 x y)" for a0 a1 x y
    using assms by (simp add: arc_radius_mode_def Let_def work_values split: prod.split)
  moreover have "length (val_ijk (vals w)) = N_AXIS" using assms by (simp add: work_ok_def lengths_ok_def)
  then have "pred_sum (\<lambda>e. True) work_ok (arc_offset_mode w a0 a1 x y)" for a0 a1 x y
    using assms by (simp add: arc_offset_mode_def Let_def work_values use_words_def)
  ultimately show ?thesis by (simp add: check_arc_def Let_def split: prod.split)
qed

lemma check_probe_ok: "work_ok w \<Longrightarrow> pred_sum (\<lambda>e. True) work_ok (check_probe g w)"
  unfolding check_probe_def Let_def by (intro pred_sum_if) simp_all

lemma check_motion_ok: "work_ok w \<Longrightarrow> pred_sum (\<lambda>e. True) work_ok (check_motion g w)"
  unfolding check_motion_def Let_def by (intro pred_sum_if check_arc_ok check_probe_ok) simp_all

lemma check_unused_ok: "work_ok w \<Longrightarrow> pred_sum (\<lambda>e. True) work_ok (check_unused w)"
  by (simp add: check_unused_def Let_def)

lemma G10_check_ok: "work_ok w \<Longrightarrow> pred_sum (\<lambda>e. True) work_ok (G10_check w)"
  by (simp add: G10_check_def Let_def)

lemma laser_flags_ok [simp]: "work_ok (laser_flags cf g w) = work_ok w"
  by (simp add: laser_flags_def Let_def)

section \<open>Executing a block\<close>

context realtime_inv
begin

lemma on_gc_inv [minv]: "P m \<Longrightarrow> (\<And>g. gc_wf g \<Longrightarrow> gc_wf (f g)) \<Longrightarrow> P (on_gc f m)"
  unfolding on_gc_def using parts(5) by (intro gc_upd) blast+

lemma on_gmodal_inv [minv]: "P m \<Longrightarrow> (\<And>b. modes_ok b \<Longrightarrow> modes_ok (f b)) \<Longrightarrow> P (on_gmodal f m)"
  unfolding on_gmodal_def by (intro minv) (simp_all add: gc_wf_def)

lemma gc_wf_upd [simp]:
  "gc_wf (g\<lparr>gc_line_number := n\<rparr>) = gc_wf g" "gc_wf (g\<lparr>gc_feed_rate := v\<rparr>) = gc_wf g"
  "gc_wf (g\<lparr>gc_spindle_speed := v\<rparr>) = gc_wf g" "gc_wf (g\<lparr>gc_tool := k\<rparr>) = gc_wf g"
  "gc_wf (g\<lparr>tool_length_offset := v\<rparr>) = gc_wf g"
  by (simp_all add: gc_wf_def)

lemma gc_wf_vec:
  "gc_wf g \<Longrightarrow> length x = N_AXIS \<Longrightarrow> gc_wf (g\<lparr>coord_system := x\<rparr>)"
  "gc_wf g \<Longrightarrow> length x = N_AXIS \<Longrightarrow> gc_wf (g\<lparr>coord_offset := x\<rparr>)"
  by (simp_all add: gc_wf_def)

lemma modes_upd:
  "modes_ok b \<Longrightarrow> modes_ok c \<Longrightarrow> modes_ok (b\<lparr>feed_rate_mode := feed_rate_mode c\<rparr>)"
  "modes_ok b \<Longrightarrow> modes_ok c \<Longrightarrow> modes_ok (b\<lparr>spindle_mode := spindle_mode c\<rparr>)"
  "modes_ok b \<Longrightarrow> modes_ok c \<Longrightarrow> modes_ok (b\<lparr>plane_select := plane_select c, units := units c\<rparr>)"
  "modes_ok b \<Longrightarrow> modes_ok c \<Longrightarrow> modes_ok (b\<lparr>tool_length := tool_length c\<rparr>)"
  "modes_ok b \<Longrightarrow> modes_ok c \<Longrightarrow> modes_ok (b\<lparr>coord_select := coord_select c\<rparr>)"
  "modes_ok b \<Longrightarrow> modes_ok c \<Longrightarrow> modes_ok (b\<lparr>distance := distance c\<rparr>)"
  "modes_ok b \<Longrightarrow> modes_ok c \<Longrightarrow> modes_ok (b\<lparr>motion := motion c\<rparr>)"
  "modes_ok b \<Longrightarrow> modes_ok c \<Longrightarrow> modes_ok (b\<lparr>program_flow := program_flow c\<rparr>)"
  "modes_ok b \<Longrightarrow> modes_ok (b\<lparr>program_flow := PROGRAM_FLOW_RUNNING\<rparr>)"
  "modes_ok b \<Longrightarrow> modes_ok (b\<lparr>tool_length := TOOL_LENGTH_OFFSET_CANCEL\<rparr>)"
  by (simp_all add: modes_ok_def)

lemma modes_program_end: "modes_ok b \<Longrightarrow> modes_ok (program_end_modes b)"
  by (simp add: modes_ok_def program_end_modes_def N_COORDINATE_SYSTEM_def)

lemma modes_coolant:
  assumes "modes_ok b" "modes_ok c"
  shows "modes_ok (b\<lparr>coolant_mode := (if coolant_mode c = COOLANT_DISABLE then COOLANT_DISABLE
       else coolant_mode b OR coolant_mode c)\<rparr>)"
proof -
  have "coolant_mode b \<in> {COOLANT_DISABLE, COOLANT_FLOOD_ENABLE}" "coolant_mode c \<in> {COOLANT_DISABLE, COOLANT_FLOOD_ENABLE}"
    using assms by (simp_all add: modes_ok_def)
  then have "(if coolant_mode c = COOLANT_DISABLE then COOLANT_DISABLE else coolant_mode b OR coolant_mode c)
      \<in> {COOLANT_DISABLE, COOLANT_FLOOD_ENABLE}" by (auto simp: COOLANT_DISABLE_def)
  then show ?thesis using assms(1) by (simp add: modes_ok_def)
qed

lemma jog_inv [minv]:
  assumes "P m" "work_ok w"
  shows "pred_option (\<lambda>r. P (snd r)) (gc_jog w m)"
proof -
  have j: "pred_option (\<lambda>r. P (snd r)) (jog_execute pl w n)" if "P n" for pl n
    using that unfolding jog_execute_def let_values by (auto intro!: minv st_wake_up_wf)
  show ?thesis using assms unfolding gc_jog_def
    by (auto intro!: minv j simp: work_ok_def lengths_ok_def)
qed

lemma exec_feed_inv: "P m \<Longrightarrow> work_ok w \<Longrightarrow> P (snd (exec_feed w m))"
  unfolding exec_feed_def by (auto intro!: minv modes_upd simp: work_ok_def)

lemma exec_spindle_speed_inv [minv]: "P m \<Longrightarrow> pred_option (\<lambda>r. P (snd r)) (exec_spindle_speed w pl m)"
  unfolding exec_spindle_speed_def by (auto intro!: minv)

lemma exec_accessory_inv [minv]:
  "P m \<Longrightarrow> work_ok w \<Longrightarrow> pred_option (\<lambda>r. P (snd r)) (exec_spindle w pl m)"
  "P m \<Longrightarrow> work_ok w \<Longrightarrow> pred_option (\<lambda>r. P (snd r)) (exec_coolant w pl m)"
  unfolding exec_spindle_def exec_coolant_def
  by (intro bind_pred [of P] if_inv; auto intro!: minv modes_upd modes_coolant simp: work_ok_def simp del: if_split)+

lemma exec_setup_inv [minv]:
  assumes "P m" "work_ok w"
  shows "pred_option P (exec_setup w m)"
proof -
  have t: "pred_option P (exec_tool_length w n)" if "P n" for n
    using that assms(2) unfolding exec_tool_length_def let_values by (auto intro!: minv modes_upd simp: work_ok_def)
  have c: "pred_option P (exec_coord_system w n)" if "P n" for n
    using that assms(2) unfolding exec_coord_system_def
    by (auto intro!: minv modes_upd gc_wf_vec simp: work_ok_def lengths_ok_def)
  show ?thesis using assms unfolding exec_setup_def by (auto intro!: minv t c modes_upd simp: work_ok_def)
qed

lemma exec_motion_inv [minv]:
  assumes "P m" "work_ok w"
  shows "pred_option P (exec_motion L w pl m)"
proof -
  have l: "length (val_xyz (vals w)) = N_AXIS" and b: "modes_ok (mods w)"
    using assms(2) by (simp_all add: work_ok_def lengths_ok_def)
  show ?thesis using assms(1) l unfolding exec_motion_def let_values
    by (auto intro!: minv modes_upd b split: prod.split)
qed

end

section \<open>Parsing and checking a line\<close>

context machine_inv
begin

text \<open>The outcome of a check: the machine keeps the invariant, the block is well formed.\<close>

definition checked :: "((status + gc_work) \<times> machine) option \<Rightarrow> bool" where
  "checked r = pred_option (\<lambda>(s, m). P m \<and> pred_sum (\<lambda>e. True) work_ok s) r"

lemma checkedI:
  "P m \<Longrightarrow> pred_sum (\<lambda>e. True) work_ok s \<Longrightarrow> checked (Some (s, m))"
  "checked a \<Longrightarrow> checked b \<Longrightarrow> checked (if c then a else b)"
  by (simp_all add: checked_def)

lemma checked_bind: "checked (f m) \<Longrightarrow> (\<And>w m. work_ok w \<Longrightarrow> P m \<Longrightarrow> checked (g w m)) \<Longrightarrow> checked (gc_bind f g m)"
proof (cases "f m")
  case (Some r)
  assume "checked (f m)" "\<And>w m. work_ok w \<Longrightarrow> P m \<Longrightarrow> checked (g w m)"
  then show ?thesis unfolding gc_bind_def checked_def using Some by (cases r; cases "fst r") auto
qed (simp add: gc_bind_def checked_def)

lemma checked_read:
  assumes "P m" "\<And>ok v m. P m \<Longrightarrow> length v = N_AXIS \<Longrightarrow> checked (g (ok, v, m))"
  shows "checked (Option.bind (m_read_coord to_local sel m) g)"
  using m_read_local_inv [OF assms(1), of sel] assms(2)
  by (cases "m_read_coord to_local sel m") (auto simp: checked_def)

lemma check_coord_inv: "P m \<Longrightarrow> work_ok w \<Longrightarrow> checked (check_coord_system w m)"
proof -
  assume P: "P m" and w: "work_ok w"
  have c: "work_ok (w\<lparr>block_coord_system := v\<rparr>)" if "length v = N_AXIS" for v
    using w that by (simp add: work_ok_def lengths_ok_def)
  have "length (coord_system (gc_state m)) = N_AXIS" using parts(5) [OF P] by (simp add: gc_wf_def)
  then show ?thesis using P c unfolding check_coord_system_def Let_def
    by (auto intro!: checkedI checked_read)
qed

lemma go_home_ok: "work_ok w \<Longrightarrow> length v = N_AXIS \<Longrightarrow> work_ok (go_home_values v g w)"
  by (simp add: go_home_values_def work_values)

lemma set_target_ok: "work_ok w \<Longrightarrow> work_ok (set_target g w)"
  by (simp add: set_target_def work_values gc_target_def)

lemma check_non_modal_inv:
  assumes P: "P m" and w: "work_ok w"
  shows "checked (check_non_modal w m)"
proof -
  let ?g = "gc_state m" and ?t = "set_target (gc_state m) w"
  have pick': "checked (Some (if ok then Inl e else Inr w', n))" if "P n" "work_ok w'" for ok w' e n
    using that by (intro checkedI) simp_all
  have g10: "checked (case G10_check w of Inl e \<Rightarrow> Some (Inl e, m)
     | Inr w \<Rightarrow> Option.bind (m_read_coord to_local (g10_select w) m) (\<lambda>(ok, v, m).
         Some (if \<not> ok then Inl STATUS_SETTING_READ_FAIL
               else Inr (on_values (\<lambda>b. b\<lparr>val_ijk := G10_values ?g w v\<rparr>) w), m)))"
    using G10_check_ok [OF w]
    by (cases "G10_check w") (simp_all add: P checkedI checked_read pick' work_values G10_values_def)
  have g92: "work_ok (on_values (\<lambda>b. b\<lparr>val_xyz := G92_values ?g w\<rparr>) w)"
    using w by (intro work_values) (simp_all add: G92_values_def)
  have home: "checked (Option.bind (m_read_coord to_local sel m) (\<lambda>(ok, v, m).
      Some (if \<not> ok then Inl STATUS_SETTING_READ_FAIL else Inr (go_home_values v ?g ?t), m)))" for sel
    using P by (rule checked_read) (simp add: pick' go_home_ok set_target_ok w)
  show ?thesis unfolding check_non_modal_def Let_def
    by (intro checkedI(2) g10 pick' P g92 home checkedI(1)) (simp_all add: set_target_ok w)
qed

lemma gc_check_inv: "P m \<Longrightarrow> work_ok w \<Longrightarrow> checked (gc_check w m)"
proof -
  have p: "checked (gc_pure f m)" if "P m" "pred_sum (\<lambda>e. True) work_ok (f (gc_state m))" for f m
    using that by (simp add: gc_pure_def checkedI)
  show "P m \<Longrightarrow> work_ok w \<Longrightarrow> checked (gc_check w m)"
    unfolding gc_check_def
    by (intro checked_bind p check_settings_ok check_coord_inv check_non_modal_inv ok_then_work check_motion_ok check_unused_ok)
qed

subsection \<open>Execution\<close>

lemma exec_non_modal_inv [minv]:
  assumes "P m" "work_ok w"
  shows "pred_option (\<lambda>r. P (snd r)) (exec_non_modal w pl m)"
proof -
  have l: "length (val_xyz (vals w)) = N_AXIS" "length (val_ijk (vals w)) = N_AXIS"
    using assms(2) by (simp_all add: work_ok_def lengths_ok_def)
  show ?thesis using assms(1) l unfolding exec_non_modal_def let_values
    by (intro if_inv; auto intro!: minv gc_wf_vec)
qed

lemma m_read_system_inv:
  assumes "P m" "\<And>ok v m. P m \<Longrightarrow> pred_option Q (g (ok, v, m))"
  shows "pred_option Q (Option.bind (m_read_coord to_coord_system sel m) g)"
proof -
  have "pred_option (\<lambda>(ok, v, m). P m \<and> length v = N_AXIS) (m_read_coord to_coord_system sel m)"
    using assms(1)
    by (rule m_read_coord_inv) (auto simp: to_coord_system_def intro!: minv gc_wf_vec, simp add: on_gc_def)
  then show ?thesis using assms(2) by (cases "m_read_coord to_coord_system sel m") auto
qed

lemma exec_program_end_inv [minv]:
  assumes "P m"
  shows "pred_option (\<lambda>r. P (snd r)) (exec_program_end m)"
proof -
  have y: "sys_wf y \<Longrightarrow> sys_wf (y\<lparr>sys_f_override := DEFAULT_FEED_OVERRIDE, sys_r_override := DEFAULT_RAPID_OVERRIDE,
      sys_spindle_speed_ovr := DEFAULT_SPINDLE_SPEED_OVERRIDE\<rparr>)" for y
    by (simp add: sys_wf_def grbl_const)
  show ?thesis using assms unfolding exec_program_end_def
    by (auto intro!: minv y modes_program_end m_read_system_inv)
qed

lemma exec_program_flow_inv [minv]:
  "P m \<Longrightarrow> work_ok w \<Longrightarrow> pred_option (\<lambda>r. P (snd r)) (exec_program_flow w m)"
  unfolding exec_program_flow_def by (auto intro!: minv modes_upd simp: work_ok_def)

lemma gc_execute_inv [minv]:
  assumes "P m" "work_ok w"
  shows "pred_option (\<lambda>r. P (snd r)) (gc_execute L w m)"
proof -
  let ?w = "laser_flags (mset m) (gc_state m) w"
  have w: "work_ok ?w" using assms(2) by simp
  obtain pl n where f: "exec_feed ?w m = (pl, n)" by fastforce
  then have n: "P n" using exec_feed_inv [OF assms(1) w] by simp
  show ?thesis using assms w n unfolding gc_execute_def
    by (auto simp: Let_def f intro!: minv)
qed

lemma gc_execute_line_inv [minv]: "P m \<Longrightarrow> pred_option (\<lambda>r. P (snd r)) (gc_execute_line L line m)"
proof (cases "gc_parse_line (gmodal m) line")
  case (Some r)
  assume P: "P m"
  have ok: "modes_ok (gmodal m)" using parts(5) [OF P] by (simp add: gc_wf_def)
  show ?thesis
  proof (cases r)
    case (Inr w)
    have "checked (gc_check w m)" using gc_parse_work_ok [OF _ ok] Some Inr P by (intro gc_check_inv) simp_all
    then show ?thesis using P unfolding gc_execute_line_def checked_def
      by (cases "gc_check w m") (auto simp: Some Inr split: sum.split intro!: minv)
  qed (use P Some in \<open>simp add: gc_execute_line_def\<close>)
qed (simp add: gc_execute_line_def)

lemma gc_init_inv [minv]: "P m \<Longrightarrow> pred_option P (gc_init m)"
proof -
  assume P: "P m"
  have "gc_wf parser_state_zero"
    by (simp add: gc_wf_def parser_state_zero_def modes_ok_def gc_modal_zero_def grbl_const)
  then have "P (m\<lparr>gc_state := parser_state_zero\<rparr>)" using P by (intro gc_upd)
  then show ?thesis unfolding gc_init_def Let_def by (rule m_read_system_inv) (auto intro!: minv)
qed

end

end
