(* ===== verification/Main_Inv.thy ===== *)
theory Main_Inv
  imports Machine_Inv_Gcode
begin

text \<open>
  The contract of \<open>machine_inv\<close> along the commands and the main loop, the states the main loop
  can be in, and the instances of the contract: the well-formedness of the whole machine from
  power-up on, and the output, which only grows and answers every line.
\<close>

context machine_inv
begin

subsection \<open>Commands\<close>

lemma m_read_startup_bind:
  "P m \<Longrightarrow> (\<And>ok bs m. P m \<Longrightarrow> pred_option Q (g (ok, bs, m))) \<Longrightarrow> pred_option Q (Option.bind (m_read_startup n m) g)"
  using m_read_startup_inv [of m n] by (cases "m_read_startup n m") auto

lemma m_read_local_bind:
  "P m \<Longrightarrow> (\<And>ok v m. P m \<Longrightarrow> pred_option Q (g (ok, v, m))) \<Longrightarrow> pred_option Q (Option.bind (m_read_coord to_local n m) g)"
  using m_read_local_inv [of m n] by (cases "m_read_coord to_local n m") auto

lemma report_coords_inv [minv]: "P m \<Longrightarrow> pred_option (\<lambda>r. P (snd r)) (report_coords ks m)"
proof (induction ks arbitrary: m)
  case (Cons k ks)
  show ?case using Cons.prems by (auto intro!: m_read_local_bind minv Cons.IH)
qed simp

lemma report_ngc_inv [minv]: "P m \<Longrightarrow> pred_option P (report_ngc_parameters m)"
  unfolding report_ngc_parameters_def by (auto intro!: minv)

lemma startup_lines_inv [minv]: "P m \<Longrightarrow> pred_option (\<lambda>r. P (snd r)) (startup_lines L ns line m)"
proof (induction ns arbitrary: line m)
  case (Cons n ns)
  show ?case using Cons.prems by (auto intro!: m_read_startup_bind minv Cons.IH)
qed simp

lemma execute_startup_inv [minv]: "P m \<Longrightarrow> pred_option (\<lambda>r. P (snd r)) (system_execute_startup L line m)"
  unfolding system_execute_startup_def by (rule startup_lines_inv)

lemma print_startup_inv [minv]: "P m \<Longrightarrow> pred_option (\<lambda>r. P (snd r)) (print_startup ns line m)"
proof (induction ns arbitrary: line m)
  case (Cons n ns)
  show ?case using Cons.prems by (auto intro!: m_read_startup_bind minv Cons.IH)
qed simp

lemma set_state_inv [minv]: "P m \<Longrightarrow> P (set_state s m)"
  unfolding set_state_def by (auto intro!: minv)

text \<open>The commands return the status and the line with the machine.\<close>

lemma bind_pred3 [minv]:
  "pred_option (\<lambda>r. P (snd r)) f \<Longrightarrow> (\<And>b m. P m \<Longrightarrow> pred_option (\<lambda>r. P (snd (snd r))) (g (b, m))) \<Longrightarrow>
   pred_option (\<lambda>r. P (snd (snd r))) (Option.bind f g)"
  by (rule bind_pred2)

lemma command_inv [minv]:
  "P m \<Longrightarrow> pred_option (\<lambda>r. P (snd (snd r))) (command_jog L line m)"
  "P m \<Longrightarrow> pred_option (\<lambda>r. P (snd (snd r))) (command_check_mode line m)"
  "P m \<Longrightarrow> pred_option (\<lambda>r. P (snd (snd r))) (command_unlock line m)"
  "P m \<Longrightarrow> pred_option (\<lambda>r. P (snd (snd r))) (command_homing L line m)"
  "P m \<Longrightarrow> pred_option (\<lambda>r. P (snd (snd r))) (command_sleep line m)"
  unfolding command_jog_def command_check_mode_def command_unlock_def command_homing_def command_sleep_def
  by (auto intro!: minv)

lemma command_short_inv [minv]: "P m \<Longrightarrow> pred_option (\<lambda>r. P (snd (snd r))) (command_short line m)"
  unfolding command_short_def by (auto intro!: minv)

lemma command_build_info_inv [minv]: "P m \<Longrightarrow> pred_option (\<lambda>r. P (snd (snd r))) (command_build_info line m)"
proof -
  assume P: "P m"
  obtain ok bs c where r: "settings_read_build_info (conf m) = (ok, bs, c)" by (metis prod_cases3)
  show ?thesis using P settings_read_same(2) [OF r] unfolding command_build_info_def
    by (auto simp: r Let_def intro!: bind_pred [of P] with_conf_same minv)
qed

lemma command_restore_inv [minv]: "P m \<Longrightarrow> pred_option (\<lambda>r. P (snd (snd r))) (command_restore line m)"
proof -
  assume P: "P m"
  have r: "pred_option P (with_conf (settings_restore f (conf m)) m)" for f
    using P parts(2) [OF P]
    by (intro with_conf_inv) (auto simp: settings_restore_settings settings_wf_default soft_limit_default conf_wf_def)
  show ?thesis using P unfolding command_restore_def Let_def
    by (auto intro!: minv r split: option.split)
qed

lemma command_store_inv [minv]: "P m \<Longrightarrow> pred_option (\<lambda>r. P (snd (snd r))) (command_store L b line c m)"
proof -
  assume P: "P m"
  have s: "pred_option P (with_conf (settings_store_startup_line k bs (conf n)) n)" if "P n" for k bs n
    using that by (intro with_conf_same) simp_all
  have g: "pred_option P (with_conf c' m)" if "settings_store_global_setting k v (conf m) = (st, c')" "f_wf v" for k v st c'
    using P parts(2) [OF P] store_setting_wf [of "conf m" v k] that
    by (intro with_conf_inv) (auto simp: conf_wf_def)
  show ?thesis using P unfolding command_store_def Let_def
    by (auto intro!: minv s g dest: f_wf_read_float split: option.split prod.split)
qed

lemma command_startup_inv [minv]: "P m \<Longrightarrow> pred_option (\<lambda>r. P (snd (snd r))) (command_startup L line m)"
  unfolding command_startup_def by (auto intro!: minv)

lemma system_execute_line_inv [minv]: "P m \<Longrightarrow> pred_option (\<lambda>r. P (snd (snd r))) (system_execute_line L line m)"
  unfolding system_execute_line_def Let_def by (intro if_inv; auto intro!: minv)

subsection \<open>The main loop\<close>

lemma execute_input_inv [minv]: "P m \<Longrightarrow> pred_option (\<lambda>r. P (snd r)) (execute_input L f line m)"
proof -
  assume P: "P m"
  have s: "pred_option (\<lambda>r. P (snd r)) (Option.bind (system_execute_line L line m)
      (\<lambda>(s, line, m). Some (line, report_status_message (status_code s) m)))"
    using system_execute_line_inv [OF P, of L line]
    by (cases "system_execute_line L line m") (auto intro!: minv)
  show ?thesis using P s unfolding execute_input_def by (auto intro!: minv)
qed

lemma main_start_inv [minv]: "P m \<Longrightarrow> pred_option (\<lambda>r. P (snd r)) (main_start L line m)"
  unfolding main_start_def system_check_safety_door_ajar_def by (auto intro!: minv)

lemma reset_variables_inv: "P m \<Longrightarrow> P (reset_variables m)"
proof -
  assume P: "P m"
  have y: "sys_wf (sys_zero\<lparr>sys_state := s, sys_f_override := DEFAULT_FEED_OVERRIDE,
      sys_r_override := DEFAULT_RAPID_OVERRIDE, sys_spindle_speed_ovr := DEFAULT_SPINDLE_SPEED_OVERRIDE\<rparr>)" for s
    by (simp add: sys_wf_def grbl_const)
  have r: "rt_wf r \<Longrightarrow> rt_wf (r\<lparr>sys_probe_position := replicate N_AXIS 0, sys_probe_state := 0, sys_rt_exec_state := 0,
      sys_rt_exec_alarm := 0, sys_rt_exec_motion_override := 0, sys_rt_exec_accessory_override := 0\<rparr>)" for r
    by (simp add: rt_wf_def)
  show ?thesis unfolding reset_variables_def Let_def
    by (intro minv(1) on_inv(2) sys_upd P y r)
qed

lemma ser_inv: "P m \<Longrightarrow> serial_inv s' \<Longrightarrow> P (m\<lparr>ser := s'\<rparr>)"
  by (rule ser_upd)

lemma reset_systems_inv: "P m \<Longrightarrow> pred_option P (reset_systems m)"
proof -
  assume P: "P m"
  then have "P (m\<lparr>ser := serial_reset_read_buffer (ser m)\<rparr>)"
    by (intro ser_upd serial_reset_read_inv parts)
  then show ?thesis unfolding reset_systems_def Let_def
    by (auto intro!: minv plan_reset_wf)
qed

end

section \<open>The line buffer\<close>

text \<open>Every command leaves a line of the size of the buffer, \<open>LINE_BUFFER_SIZE\<close>.\<close>

named_theorems keeps_line

abbreviation full_line :: "(string \<times> machine) option \<Rightarrow> bool" where
  "full_line \<equiv> pred_option (\<lambda>r. length (fst r) = LINE_BUFFER_SIZE)"

abbreviation full_result :: "command_result \<Rightarrow> bool" where
  "full_result \<equiv> pred_option (\<lambda>r. length (fst (snd r)) = LINE_BUFFER_SIZE)"

lemma bind_any: "(\<And>x. pred_option Q (g x)) \<Longrightarrow> pred_option Q (Option.bind f g)"
  by (cases f) auto

lemma length_line_chars [simp]: "length (line_chars bs) = length bs" "length (line_bytes l) = length l"
  by (simp_all add: line_chars_def line_bytes_def)

lemma length_load_bytes: "length (fst (load_bytes get m a n c)) = n"
  by (induction n arbitrary: a c) (simp_all add: Let_def split_beta)

lemma length_memcpy_from: "memcpy_from_eeprom_with_checksum m a n = (bs, ok) \<Longrightarrow> length bs = n"
  unfolding memcpy_from_eeprom_with_checksum_def by (metis length_load_bytes fst_conv)

lemma length_read_startup: "m_read_startup n m = Some (ok, bs, m') \<Longrightarrow> length bs = LINE_BUFFER_SIZE"
  by (auto simp: m_read_startup_def settings_read_startup_line_def Let_def dest: length_memcpy_from
      split: prod.splits if_splits bind_splits)

lemma length_read_build_info: "settings_read_build_info c = (ok, bs, c') \<Longrightarrow> length bs = LINE_BUFFER_SIZE"
  by (auto simp: settings_read_build_info_def Let_def dest: length_memcpy_from split: prod.splits if_splits)

lemma length_shift_line: "0 < n \<Longrightarrow> line \<noteq> [] \<Longrightarrow> length (shift_line n line) = length line"
proof -
  assume n: "0 < n" "line \<noteq> []"
  let ?t = "takeWhile (\<lambda>c. c \<noteq> NUL) (drop n line)"
  have "length ?t \<le> length line - n" using length_takeWhile_le [of _ "drop n line"] by simp
  then show ?thesis using n by (cases line) (auto simp: shift_line_def Let_def)
qed

lemma read_startup_line:
  "(\<And>ok bs m. length bs = LINE_BUFFER_SIZE \<Longrightarrow> pred_option Q (g (ok, bs, m))) \<Longrightarrow>
   pred_option Q (Option.bind (m_read_startup n m) g)"
  by (cases "m_read_startup n m") (auto dest: length_read_startup)

lemma startup_lines_length: "length line = LINE_BUFFER_SIZE \<Longrightarrow> full_line (startup_lines L ns line m)"
proof (induction ns arbitrary: line m)
  case (Cons n ns)
  show ?case unfolding startup_lines.simps by (rule read_startup_line) (auto intro!: bind_any Cons.IH)
qed simp

lemma execute_startup_length [keeps_line]: "length line = LINE_BUFFER_SIZE \<Longrightarrow> full_line (system_execute_startup L line m)"
  by (simp add: system_execute_startup_def startup_lines_length)

lemma print_startup_length [keeps_line]: "length line = LINE_BUFFER_SIZE \<Longrightarrow> full_line (print_startup ns line m)"
proof (induction ns arbitrary: line m)
  case (Cons n ns)
  show ?case by (auto intro!: read_startup_line Cons.IH)
qed simp

lemma bind_line [keeps_line]:
  "full_line f \<Longrightarrow> (\<And>line m. length line = LINE_BUFFER_SIZE \<Longrightarrow> pred_option Q (g (line, m))) \<Longrightarrow>
   pred_option Q (Option.bind f g)"
  by (cases f) auto

lemma command_store_length [keeps_line]:
  assumes "length line = LINE_BUFFER_SIZE" "0 < unat c"
  shows "full_result (command_store L b line c m)"
proof -
  have ne: "line \<noteq> []" using assms(1) by (auto simp: grbl_const)
  have s: "length (shift_line (unat (k + 1)) line) = LINE_BUFFER_SIZE" if "char_at line (unat k) = CHR ''=''" for k :: u8
  proof (rule trans [OF length_shift_line [OF _ ne] assms(1)])
    have "unat k < 80" using that assms(1) by (auto simp: char_at_def grbl_const NUL_def split: if_splits)
    then show "0 < unat (k + 1)" by (simp add: unat_word_ariths)
  qed
  show ?thesis using assms s unfolding command_store_def Let_def
    by (auto intro!: bind_any split: option.split prod.split)
qed

lemma command_length [keeps_line]:
  assumes "length line = LINE_BUFFER_SIZE"
  shows "full_result (command_jog L line m)" "full_result (command_short line m)" "full_result (command_homing L line m)"
    "full_result (command_sleep line m)" "full_result (command_build_info line m)"
    "full_result (command_restore line m)" "full_result (command_startup L line m)"
proof -
  have ne: "line \<noteq> []" using assms by (auto simp: grbl_const)
  note l = assms length_shift_line [of 3, OF _ ne]
  show "full_result (command_jog L line m)" "full_result (command_short line m)" "full_result (command_sleep line m)"
    unfolding command_jog_def command_short_def command_check_mode_def command_unlock_def command_sleep_def Let_def
    using l by (auto intro!: bind_any)
  show "full_result (command_build_info line m)" "full_result (command_restore line m)"
    unfolding command_build_info_def command_restore_def Let_def
    using l by (auto intro!: bind_any split: option.split prod.split dest: length_read_build_info)
  show "full_result (command_homing L line m)" "full_result (command_startup L line m)"
    unfolding command_homing_def command_startup_def Let_def
    using l bind_line [OF execute_startup_length [OF assms]] bind_line [OF print_startup_length [OF assms]]
    by (auto intro!: bind_any [where f = "mc_homing_cycle _ _"] bind_any [where f = "command_store _ _ _ _ _"] keeps_line)
qed

lemma execute_line_length: "length line = LINE_BUFFER_SIZE \<Longrightarrow> full_result (system_execute_line L line m)"
  unfolding system_execute_line_def Let_def by (auto intro!: bind_any keeps_line)

lemma execute_input_length [keeps_line]: "length line = LINE_BUFFER_SIZE \<Longrightarrow> full_line (execute_input L f line m)"
proof -
  assume l: "length line = LINE_BUFFER_SIZE"
  have "full_line (Option.bind (system_execute_line L line m) (\<lambda>(s, line, m). Some (line, report_status_message (status_code s) m)))"
    using execute_line_length [OF l, of L m] by (cases "system_execute_line L line m") auto
  then show ?thesis using l unfolding execute_input_def by (auto intro!: bind_any)
qed

lemma main_start_length [keeps_line]: "length line = LINE_BUFFER_SIZE \<Longrightarrow> full_line (main_start L line m)"
  unfolding main_start_def system_check_safety_door_ajar_def Let_def by (simp add: execute_startup_length)

section \<open>The states of the loop\<close>

text \<open>
  One pass of the loop: it returns (the left case) or goes on with the line and the machine. The
  states the loop can be in are those a session starts with, after any number of resets, and
  those its passes lead to.
\<close>

definition main_step :: "libm \<Rightarrow> line_t \<Rightarrow> machine \<Rightarrow> (string \<times> machine + line_t \<times> machine) option" where
  "main_step L lb m =
     (let (c, s) = serial_read (ser m); m = m\<lparr>ser := s\<rparr> in
      if c \<noteq> SERIAL_NO_DATA then
        (if c = 10 \<or> c = 13 then
           Option.bind (protocol_execute_realtime m) (\<lambda>m.
             if sys_abort (sys m) \<noteq> 0 then Some (Inl (line_buf lb, m))
             else Option.bind (execute_input L (line_flags lb) (line_end lb) m) (\<lambda>(line, m).
               Some (Inr (\<lparr>line_buf = line, line_flags = 0, line_counter = 0\<rparr>, m))))
         else Some (Inr (line_char c lb, m)))
      else
        Option.bind (protocol_execute_realtime (protocol_auto_cycle_start m)) (\<lambda>m.
          Some (if sys_abort (sys m) \<noteq> 0 then Inl (line_buf lb, m) else Inr (lb, m))))"

lemma main_loop_step:
  "main_loop L lb m = Option.bind (main_step L lb m) (case_sum Some (\<lambda>(lb, m). main_loop L lb m))"
  by (subst main_loop.simps) (simp add: main_step_def Let_def split: prod.split bind_split)

inductive loop_state :: "libm \<Rightarrow> machine \<Rightarrow> line_t \<Rightarrow> machine \<Rightarrow> bool" for L m0 where
  start: "grbl_main L n m0 = Some (line, m1) \<Longrightarrow> reset_systems (reset_variables m1) = Some m2 \<Longrightarrow>
    main_start L line m2 = Some (line', m) \<Longrightarrow> loop_state L m0 \<lparr>line_buf = line', line_flags = 0, line_counter = 0\<rparr> m"
| pass: "loop_state L m0 lb m \<Longrightarrow> main_step L lb m = Some (Inr (lb', m')) \<Longrightarrow> loop_state L m0 lb' m'"

definition line_wf :: "line_t \<Rightarrow> bool" where
  "line_wf lb \<longleftrightarrow> length (line_buf lb) = LINE_BUFFER_SIZE \<and> unat (line_counter lb) < LINE_BUFFER_SIZE"

definition step_ok :: "(machine \<Rightarrow> bool) \<Rightarrow> string \<times> machine + line_t \<times> machine \<Rightarrow> bool" where
  "step_ok P r \<longleftrightarrow> (case r of Inl (line, m) \<Rightarrow> length line = LINE_BUFFER_SIZE \<and> P m | Inr (lb, m) \<Rightarrow> line_wf lb \<and> P m)"

lemma step_ok_simps [simp]:
  "step_ok P (Inl (line, m)) \<longleftrightarrow> length line = LINE_BUFFER_SIZE \<and> P m"
  "step_ok P (Inr (lb, m)) \<longleftrightarrow> line_wf lb \<and> P m"
  by (simp_all add: step_ok_def)

lemma line_char_wf: "line_wf lb \<Longrightarrow> line_wf (line_char c lb)"
proof -
  assume w: "line_wf lb"
  have "line_wf (line_put c' lb)" if "\<not> LINE_BUFFER_SIZE - 1 \<le> unat (line_counter lb)" for c'
    using that w by (simp add: line_wf_def line_put_def grbl_const unat_word_ariths)
  then show ?thesis using w by (simp add: line_char_def line_wf_def)
qed

context machine_inv
begin

lemma execute_input_bind:
  "P m \<Longrightarrow> length line = LINE_BUFFER_SIZE \<Longrightarrow>
   (\<And>line m. P m \<Longrightarrow> length line = LINE_BUFFER_SIZE \<Longrightarrow> pred_option Q (g (line, m))) \<Longrightarrow>
   pred_option Q (Option.bind (execute_input L f line m) g)"
  using execute_input_inv [of m L f line] execute_input_length [of line L f m]
  by (cases "execute_input L f line m") auto

lemma power_up_inv: "pred_option P (with_conf (settings_init (conf m)) m) \<Longrightarrow> pred_option P (power_up m)"
  unfolding power_up_def by (erule bind_pred) (auto intro!: minv simp: rt_wf_def)

lemma main_step_inv: "P m \<Longrightarrow> line_wf lb \<Longrightarrow> pred_option (step_ok P) (main_step L lb m)"
proof -
  assume P: "P m" and lb: "line_wf lb"
  obtain c s where r: "serial_read (ser m) = (c, s)" by fastforce
  then have s: "P (m\<lparr>ser := s\<rparr>)"
    using serial_read_inv [OF parts(4) [OF P]] by (intro ser_upd P) simp
  have e: "length (line_end lb) = LINE_BUFFER_SIZE" using lb by (simp add: line_end_def line_wf_def)
  have "pred_option (step_ok P) (Option.bind (execute_input L f (line_end lb) m) (\<lambda>(line, m).
      Some (Inr (\<lparr>line_buf = line, line_flags = 0, line_counter = 0\<rparr>, m))))" if "P m" for f m
    by (rule execute_input_bind [OF that e]) (simp add: line_wf_def grbl_const)
  then show ?thesis
    using s lb line_char_wf [OF lb] unfolding main_step_def r Let_def
    by (auto simp: line_wf_def intro!: minv)
qed

lemma main_loop_inv: "main_loop L lb m = Some r \<Longrightarrow> P m \<and> line_wf lb \<longrightarrow> length (fst r) = LINE_BUFFER_SIZE \<and> P (snd r)"
proof (induction rule: main_loop.raw_induct [rotated 1, consumes 1])
  case (1 go L lb m r)
  obtain c s where s: "serial_read (ser m) = (c, s)" by fastforce
  have "Option.bind (main_step L lb m) (case_sum Some (\<lambda>(lb, m). go L lb m)) = Some r"
    using 1(2) by (auto simp: s main_step_def Let_def split: if_splits bind_splits)
  then obtain r' where r': "main_step L lb m = Some r'" "case_sum Some (\<lambda>(lb, m). go L lb m) r' = Some r"
    by (auto simp: bind_eq_Some_conv)
  show ?case
  proof
    assume "P m \<and> line_wf lb"
    then have "step_ok P r'" using main_step_inv [of m lb L] r'(1) by simp
    then show "length (fst r) = LINE_BUFFER_SIZE \<and> P (snd r)"
      using r'(2) 1(1) by (cases r'; cases r) fastforce+
  qed
qed

lemma session_inv:
  "P m \<Longrightarrow> length line = LINE_BUFFER_SIZE \<Longrightarrow> grbl_session L line m = Some r \<Longrightarrow> length (fst r) = LINE_BUFFER_SIZE \<and> P (snd r)"
proof -
  assume P: "P m" and l: "length line = LINE_BUFFER_SIZE" and r: "grbl_session L line m = Some r"
  from r obtain m2 line' m3 where
    s: "reset_systems (reset_variables m) = Some m2" "main_start L line m2 = Some (line', m3)"
      "main_loop L \<lparr>line_buf = line', line_flags = 0, line_counter = 0\<rparr> m3 = Some r"
    by (auto simp: grbl_session_def protocol_main_loop_def bind_eq_Some_conv)
  have m2: "P m2" using reset_systems_inv [OF reset_variables_inv [OF P]] s(1) by simp
  have "P m3" "length line' = LINE_BUFFER_SIZE"
    using main_start_inv [OF m2, of L line] main_start_length [OF l, of L m2] s(2) by simp_all
  then show ?thesis using main_loop_inv [OF s(3)] by (simp add: line_wf_def grbl_const)
qed

lemma sessions_inv:
  "P m \<Longrightarrow> length line = LINE_BUFFER_SIZE \<Longrightarrow> grbl_sessions L n line m = Some r \<Longrightarrow> length (fst r) = LINE_BUFFER_SIZE \<and> P (snd r)"
proof (induction n arbitrary: line m)
  case (Suc n)
  then obtain r' where "grbl_session L line m = Some r'" "grbl_sessions L n (fst r') (snd r') = Some r"
    by (auto simp: bind_eq_Some_conv)
  then show ?case using Suc session_inv by blast
qed auto

end

section \<open>Instances\<close>

interpretation wf_inv: machine_inv machine_wf
  by unfold_locales (simp_all add: machine_wf_def)

interpretation full_inv: machine_inv "\<lambda>m. machine_wf m \<and> sys_wf (sys m)"
  by unfold_locales (simp_all add: machine_wf_def)

interpretation soft_inv: machine_inv "\<lambda>m. (machine_wf m \<and> sys_wf (sys m)) \<and> soft_limit_inv (mset m)"
  by unfold_locales (simp_all add: machine_wf_def)

interpretation boot_inv: machine_inv "\<lambda>m. machine_wf m \<and> soft_limit_inv (mset m)"
  by unfold_locales (simp_all add: machine_wf_def)

interpretation out_inv: machine_inv "\<lambda>m. machine_wf m \<and> (\<exists>txt. tx_out m = out @ txt)" for out
  by unfold_locales (auto simp: machine_wf_def)

section \<open>From power-up on\<close>

text \<open>
  The memory when the controller is powered: the EEPROM, the pins and what the interrupts will
  do are arbitrary.
\<close>

definition powered :: "machine \<Rightarrow> bool" where
  "powered m \<longleftrightarrow> (\<exists>ee pp lp cp iq. m = machine_zero\<lparr>conf := (conf machine_zero)\<lparr>eeprom := ee\<rparr>,
     PROBE_PIN := pp, LIMIT_PIN := lp, CONTROL_PIN := cp, irqs := iq\<rparr>)"

lemma powered_wf: "powered m \<Longrightarrow> machine_wf m"
  by (auto simp: powered_def machine_wf_def machine_zero_def rt_wf_def rt_zero_def conf_wf_def settings_wf_default
      mot_wf_zero serial_boot_inv gc_wf_def parser_state_zero_def modes_ok_def gc_modal_zero_def grbl_const)

text \<open>Whatever bytes the EEPROM holds, the floats read from it are well formed.\<close>

lemma f_wf_scaled: "0 \<le> n \<Longrightarrow> n < 2 ^ 24 \<Longrightarrow> - 149 \<le> k \<Longrightarrow> k \<le> 104 \<Longrightarrow> f_wf (FFin s (of_int n * pow2 k))"
proof -
  assume n: "0 \<le> n" "n < 2 ^ 24" and k: "- 149 \<le> k" "k \<le> 104"
  have "(of_int n :: rat) \<le> of_int (2 ^ 24 - 1)" using n by (simp only: of_int_le_iff)
  moreover have "pow2 k \<le> pow2 104" using k by simp
  moreover have "(0 :: rat) \<le> pow2 k" by (simp add: less_imp_le)
  ultimately have "of_int n * pow2 k \<le> of_int (2 ^ 24 - 1) * pow2 104" using n by (intro mult_mono) auto
  also have "\<dots> = f_max" by (simp add: f_max_def pow2_def)
  finally show ?thesis using f_reprI n k by simp
qed

lemma f_wf_bits: "f_wf (f32_of_bits b)"
proof -
  have n: "0 \<le> b mod 2 ^ 23" "b mod 2 ^ 23 < 2 ^ 23" by simp_all
  have e: "0 \<le> b div 2 ^ 23 mod 256" "b div 2 ^ 23 mod 256 < 256" by simp_all
  show ?thesis unfolding f32_of_bits_def Let_def
    using n e f_wf_scaled [of "b mod 2 ^ 23" "- 149"] f_wf_scaled [of "2 ^ 23 + b mod 2 ^ 23" "b div 2 ^ 23 mod 256 - 150"]
    by (auto simp del: f_wf.simps(1))
qed

lemma settings_wf_bytes: "settings_wf (settings_of_bytes bs)"
  by (simp add: settings_wf_def settings_of_bytes_def vec_wf_def vec_at_def f32_at_def f32_of_bytes_def f_wf_bits N_AXIS_def)

lemma settings_init_wf: "settings_wf (settings c) \<Longrightarrow> settings_wf (settings (settings_init c))"
proof -
  assume c: "settings_wf (settings c)"
  obtain ok s where r: "read_global_settings c = (ok, s)" by fastforce
  have s: "settings_wf (settings s)"
    using r c by (auto simp: read_global_settings_def Let_def settings_wf_bytes split: if_splits prod.splits)
  show ?thesis
    using s by (simp add: settings_init_def r settings_restore_settings settings_wf_default cfg_call_def)
qed

lemma power_up_wf: "machine_wf m \<Longrightarrow> power_up m = Some m' \<Longrightarrow> machine_wf m'"
proof -
  assume w: "machine_wf m" and r: "power_up m = Some m'"
  let ?c = "settings_init (conf m)"
  have "machine_wf (m\<lparr>conf := ?c\<lparr>cfg_calls := []\<rparr>\<rparr>)"
    using w settings_init_wf [of "conf m"] by (simp add: machine_wf_def conf_wf_def)
  then have c: "pred_option machine_wf (with_conf ?c m)"
    unfolding with_conf_def by (rule wf_inv.run_calls_inv)
  have "pred_option machine_wf (power_up m)" by (rule wf_inv.power_up_inv [OF c])
  then show ?thesis using r by simp
qed

lemma reset_variables_sys: "sys_wf (sys (reset_variables m))"
  by (simp add: reset_variables_def Let_def on_rt_def sys_wf_def grbl_const)

lemma boot_wf:
  "powered m0 \<Longrightarrow> grbl_main L n m0 = Some (line, m1) \<Longrightarrow> machine_wf m1 \<and> length line = LINE_BUFFER_SIZE"
  by (auto simp: grbl_main_def bind_eq_Some_conv dest!: power_up_wf [OF powered_wf] wf_inv.sessions_inv [rotated 2])

lemma loop_state_wf: "loop_state L m0 lb m \<Longrightarrow> powered m0 \<Longrightarrow> (machine_wf m \<and> sys_wf (sys m)) \<and> line_wf lb"
proof (induction rule: loop_state.induct)
  case (start n line m1 m2 line' m)
  have m1: "machine_wf m1" "length line = LINE_BUFFER_SIZE" using boot_wf [OF start(4,1)] by simp_all
  have "machine_wf (reset_variables m1) \<and> sys_wf (sys (reset_variables m1))"
    using wf_inv.reset_variables_inv [OF m1(1)] reset_variables_sys by simp
  then have "machine_wf m2 \<and> sys_wf (sys m2)" using full_inv.reset_systems_inv start(2) by (metis pred_SomeD)
  then have "machine_wf m \<and> sys_wf (sys m)"
    using full_inv.main_start_inv [of m2 L line] start(3) by simp
  moreover have "length line' = LINE_BUFFER_SIZE" using main_start_length [OF m1(2), of L m2] start(3) by simp
  ultimately show ?case by (simp add: line_wf_def grbl_const)
next
  case (pass lb m lb' m')
  then show ?case using full_inv.main_step_inv [of m lb L] by simp
qed

lemma loop_state_soft:
  "loop_state L m0 lb m \<Longrightarrow> powered m0 \<Longrightarrow> power_up m0 = Some mp \<Longrightarrow> soft_limit_inv (mset mp) \<Longrightarrow>
   ((machine_wf m \<and> sys_wf (sys m)) \<and> soft_limit_inv (mset m)) \<and> line_wf lb"
proof (induction rule: loop_state.induct)
  case (start n line m1 m2 line' m)
  have mp: "machine_wf mp \<and> soft_limit_inv (mset mp)" using power_up_wf [OF powered_wf] start by blast
  have "grbl_sessions L n (replicate LINE_BUFFER_SIZE NUL) mp = Some (line, m1)"
    using start(1,5) by (simp add: grbl_main_def)
  from boot_inv.sessions_inv [OF mp _ this]
  have m1: "machine_wf m1 \<and> soft_limit_inv (mset m1)" "length line = LINE_BUFFER_SIZE" by simp_all
  have "(machine_wf (reset_variables m1) \<and> sys_wf (sys (reset_variables m1))) \<and> soft_limit_inv (mset (reset_variables m1))"
    using boot_inv.reset_variables_inv [OF m1(1)] reset_variables_sys by simp
  then have "(machine_wf m2 \<and> sys_wf (sys m2)) \<and> soft_limit_inv (mset m2)"
    using soft_inv.reset_systems_inv start(2) by (metis (mono_tags, lifting) pred_SomeD)
  then have "(machine_wf m \<and> sys_wf (sys m)) \<and> soft_limit_inv (mset m)"
    using soft_inv.main_start_inv [of m2 L line] start(3) by simp
  moreover have "length line' = LINE_BUFFER_SIZE" using main_start_length [OF m1(2), of L m2] start(3) by simp
  ultimately show ?case by (simp add: line_wf_def grbl_const)
next
  case (pass lb m lb' m')
  then show ?case using soft_inv.main_step_inv [of m lb L] by simp
qed

section \<open>Every line is answered\<close>

text \<open>The answer the host waits for before it sends the next line.\<close>

definition answer :: "u8 \<Rightarrow> string" where
  "answer code = (if code = status_code STATUS_OK then ''ok'' else ''error:'' @ print_uint8_base10 code) @ CR_LF"

lemma status_message_out: "tx_out (report_status_message code m) = tx_out m @ answer code"
  by (simp add: report_status_message_def answer_def printPgmString_def report_util_line_feed_def)

lemma answer_after:
  fixes f :: "(status \<times> machine) option"
  shows "pred_option (\<lambda>r. \<exists>txt. tx_out (snd r) = out @ txt) f \<Longrightarrow>
   pred_option (\<lambda>r. \<exists>txt code. tx_out (snd r) = out @ txt @ answer code)
     (Option.bind f (\<lambda>(s, m). Some (line, report_status_message (status_code s) m)))"
  by (cases f) (auto simp: status_message_out append_assoc intro!: exI)

lemma answer_after_command:
  "pred_option (\<lambda>r. \<exists>txt. tx_out (snd (snd r)) = out @ txt) f \<Longrightarrow>
   pred_option (\<lambda>r. \<exists>txt code. tx_out (snd r) = out @ txt @ answer code)
     (Option.bind f (\<lambda>(s, line, m). Some (line, report_status_message (status_code s) m)))"
  by (cases f) (auto simp: status_message_out append_assoc intro!: exI)

lemma execute_input_answer:
  assumes "machine_wf m"
  shows "pred_option (\<lambda>r. \<exists>txt code. tx_out (snd r) = tx_out m @ txt @ answer code) (execute_input L f line m)"
proof -
  have m: "machine_wf m \<and> (\<exists>txt. tx_out m = tx_out m @ txt)" using assms by simp
  have a: "\<exists>txt code. tx_out (report_status_message c m) = tx_out m @ txt @ answer code" for c
    by (rule exI [of _ "[]"]) (auto simp: status_message_out)
  have g: "pred_option (\<lambda>r. \<exists>txt. tx_out (snd r) = tx_out m @ txt) (gc_execute_line L line m)"
    using out_inv.gc_execute_line_inv [OF m, of L line] by (rule option.pred_mono_strong) simp
  note g' = answer_after [OF g]
  have c: "pred_option (\<lambda>r. \<exists>txt. tx_out (snd (snd r)) = tx_out m @ txt) (system_execute_line L line m)"
    using out_inv.system_execute_line_inv [OF m, of L line] by (rule option.pred_mono_strong) simp
  show ?thesis unfolding execute_input_def
    using a g' [of line] answer_after_command [OF c] by (simp cong: if_cong)
qed

section \<open>Properties\<close>

text \<open>
  C3. The state of the whole machine stays well formed for ever: from power-up with any EEPROM contents,
  any input pins and any schedule of interrupts, in any session and after any number of lines, the
  ring buffers of the planner, the stepper and the serial line are within bounds, the arrays have
  their lengths, every modal state is one of the group's, the settings are well formed, the
  overrides are in their ranges and the line buffer is not overrun.
\<close>

theorem machine_well_formed:
  assumes "powered m0" and "loop_state L m0 lb m"
  shows "machine_wf m \<and> sys_wf (sys m) \<and> line_wf lb"
  using loop_state_wf [OF assms(2,1)] by simp

text \<open>
  C9. Soft limits never work without homing: if the settings read at power-up do not ask for it, then
  in every state of the loop, whatever commands the host or the startup lines have sent, soft limits
  are only enabled together with homing, without which machine positions mean nothing.
\<close>

theorem soft_limits_need_homing:
  assumes "powered m0" and "power_up m0 = Some mp" and "soft_limit_inv (mset mp)" and "loop_state L m0 lb m"
  shows "bit_istrue (settings_flags (mset m)) BITFLAG_SOFT_LIMIT_ENABLE \<longrightarrow>
    bit_istrue (settings_flags (mset m)) BITFLAG_HOMING_ENABLE"
  using loop_state_soft [OF assms(4,1,2,3)] by (simp add: soft_limit_inv_def)

text \<open>
  C17. Every line is answered, whatever it holds: once \<open>execute_input\<close> is through, what it has sent to the
  host ends with exactly the \<open>ok\<close> or \<open>error:\<close> line the streaming protocol counts, and nothing sent
  before is lost.
\<close>

theorem every_line_answered:
  assumes "machine_wf m" and "execute_input L f line m = Some (line', m')"
  shows "\<exists>txt code. tx_out m' = tx_out m @ txt @ answer code"
  using execute_input_answer [OF assms(1), of L f line] assms(2) by simp


text \<open>For the witness, an EEPROM that holds a version byte and zeros elsewhere: every record is valid.\<close>

definition zero_eeprom :: eeprom where
  "zero_eeprom = (\<lambda>a. if a = 0 then SETTINGS_VERSION else 0)"

definition boot_machine :: machine where
  "boot_machine = machine_zero\<lparr>conf := (conf machine_zero)\<lparr>eeprom := zero_eeprom\<rparr>\<rparr>"

lemma zero_eeprom_read:
  "0 < unat a \<Longrightarrow> unat a + n < 65536 \<Longrightarrow> memcpy_from_eeprom_with_checksum zero_eeprom a n = (replicate n 0, True)"
proof -
  have "load_bytes eeprom_get_char zero_eeprom a n 0 = (replicate n 0, True)" if "0 < unat a" "unat a + n < 65536"
    using that
  proof (induction n arbitrary: a)
    case (Suc n)
    have "unat (a + 1) = unat a + 1" using Suc.prems by (simp add: unat_word_ariths)
    then show ?case using Suc by (auto simp: zero_eeprom_def eeprom_get_char_def checksum_step_def)
  qed (auto simp: zero_eeprom_def eeprom_get_char_def)
  then show "0 < unat a \<Longrightarrow> unat a + n < 65536 \<Longrightarrow> ?thesis" by (simp add: memcpy_from_eeprom_with_checksum_def)
qed

lemma boot_power_up:
  "\<exists>m1. power_up boot_machine = Some m1 \<and> eeprom (conf m1) = zero_eeprom \<and> cfg_calls (conf m1) = [] \<and>
     settings_flags (mset m1) = 0 \<and> sys_state (sys m1) = STATE_IDLE"
proof -
  have "settings_flags (settings_of_bytes (replicate sizeof_settings_t 0)) = 0"
    by (simp add: settings_of_bytes_def sizeof_settings_t_def)
  then show ?thesis
    by (simp add: power_up_def boot_machine_def machine_zero_def settings_init_def read_global_settings_def
      zero_eeprom_read eeprom_get_char_def zero_eeprom_def [THEN fun_cong, of 0] with_conf_def Let_def EEPROM_ADDR_GLOBAL_def
      sizeof_settings_t_def set_state_def machine_lift bit_istrue_def)
qed

lemma zero_coord_read:
  "eeprom c = zero_eeprom \<Longrightarrow> settings_read_coord_data 0 c = (True, vec_at (replicate (4 * N_AXIS) 0) 0, c)"
  by (simp add: settings_read_coord_data_def coord_addr_def zero_eeprom_read EEPROM_ADDR_PARAMETERS_def N_AXIS_def)

lemma zero_startup_read:
  "eeprom (conf m) = zero_eeprom \<Longrightarrow> cfg_calls (conf m) = [] \<Longrightarrow> n = 0 \<or> n = 1 \<Longrightarrow>
   m_read_startup n m = Some (True, replicate LINE_BUFFER_SIZE 0, m)"
proof -
  assume a: "eeprom (conf m) = zero_eeprom" "cfg_calls (conf m) = []" "n = 0 \<or> n = 1"
  then show ?thesis
    by (auto simp: EEPROM_ADDR_STARTUP_BLOCK_def m_read_startup_def settings_read_startup_line_def zero_eeprom_read with_conf_def LINE_BUFFER_SIZE_def)
qed

lemma reset_keeps [simp]:
  "conf (st_go_idle m) = conf m" "sys (st_go_idle m) = sys m" "conf (st_reset m) = conf m" "sys (st_reset m) = sys m"
  "conf (limits_init m) = conf m" "sys (limits_init m) = sys m"
  "conf (report_init_message m) = conf m" "sys (report_init_message m) = sys m"
  "conf (gc_sync_position m) = conf m" "sys (gc_sync_position m) = sys m"
  "conf (m_plan_sync_position m) = conf m" "sys (m_plan_sync_position m) = sys m"
  by (simp_all add: st_go_idle_def st_reset_def limits_init_def limits_disable_def report_init_message_def
      printPgmString_def gc_sync_position_def m_plan_sync_position_def machine_lift Let_def)

lemma reset_systems_zero:
  "eeprom (conf m) = zero_eeprom \<Longrightarrow> cfg_calls (conf m) = [] \<Longrightarrow>
   \<exists>m2. reset_systems (reset_variables m) = Some m2 \<and> conf m2 = conf m \<and> sys_state (sys m2) = sys_state (sys m)"
proof -
  assume e: "eeprom (conf m) = zero_eeprom" "cfg_calls (conf m) = []"
  let ?m = "(reset_variables m)\<lparr>ser := serial_reset_read_buffer (ser (reset_variables m))\<rparr>"
  have c: "conf ?m = conf m" "sys_state (sys ?m) = sys_state (sys m)"
    by (simp_all add: reset_variables_def Let_def on_rt_def)
  have g: "\<exists>m1. gc_init ?m = Some m1 \<and> conf m1 = conf m \<and> sys m1 = sys ?m"
    using e c by (simp add: gc_init_def m_read_coord_def zero_coord_read with_conf_def Let_def to_coord_system_def on_gc_def
      parser_state_zero_def gc_modal_zero_def)
  then show ?thesis using c by (auto simp: reset_systems_def Let_def machine_lift on_prb_def)
qed

lemma zero_startup_lines:
  "eeprom (conf m) = zero_eeprom \<Longrightarrow> cfg_calls (conf m) = [] \<Longrightarrow> \<exists>r. system_execute_startup L line m = Some r"
proof -
  assume e: "eeprom (conf m) = zero_eeprom" "cfg_calls (conf m) = []"
  have "[0..<N_STARTUP_LINE] = [0, 1]" by (simp add: N_STARTUP_LINE_def upt_rec)
  then show ?thesis
    using zero_startup_read [OF e, of 0] zero_startup_read [OF e, of 1]
    by (simp add: system_execute_startup_def LINE_BUFFER_SIZE_def)
qed

lemma boot_loop_state: "\<exists>lb m. loop_state L boot_machine lb m"
proof -
  obtain m1 where m1: "power_up boot_machine = Some m1" "eeprom (conf m1) = zero_eeprom" "cfg_calls (conf m1) = []"
    "settings_flags (mset m1) = 0" "sys_state (sys m1) = STATE_IDLE" using boot_power_up by blast
  have "\<exists>m2. reset_systems (reset_variables m1) = Some m2 \<and> conf m2 = conf m1 \<and> sys_state (sys m2) = sys_state (sys m1)"
    using m1(2,3) by (rule reset_systems_zero)
  then obtain m2 where m2: "reset_systems (reset_variables m1) = Some m2" "conf m2 = conf m1" "sys_state (sys m2) = STATE_IDLE"
    unfolding m1(5) by (elim exE conjE)
  have startup: "\<exists>r. system_execute_startup L line (set_state s m2) = Some r" for line s
    using m1 m2 by (intro zero_startup_lines) (simp_all add: set_state_def machine_lift)
  have f: "settings_flags (mset m2) = 0" "sys_state (sys m2) = 0" using m1(4,5) m2(2,3) by (simp_all add: STATE_IDLE_def)
  have "\<exists>r. main_start L (replicate LINE_BUFFER_SIZE NUL) m2 = Some r"
    using startup f unfolding main_start_def Let_def bit_istrue_def system_check_safety_door_ajar_def by simp
  then show ?thesis using loop_state.start [of L 0 boot_machine, OF _ m2(1)] m1(1) by (fastforce simp: grbl_main_def)
qed

lemma boot_powered: "powered boot_machine"
  unfolding powered_def boot_machine_def
  by (intro exI [of _ zero_eeprom] exI [of _ "255"] exI [of _ "\<lambda>_. []"]) (simp add: machine_zero_def)

theorem machine_well_formed_witness:
  "\<forall>L. \<exists>lb m. loop_state L boot_machine lb m \<and> machine_wf m \<and> sys_wf (sys m) \<and> line_wf lb"
  using boot_loop_state machine_well_formed [OF boot_powered] by blast

theorem soft_limits_need_homing_witness:
  "\<forall>L. \<exists>lb m. loop_state L boot_machine lb m \<and> (bit_istrue (settings_flags (mset m)) BITFLAG_SOFT_LIMIT_ENABLE \<longrightarrow>
    bit_istrue (settings_flags (mset m)) BITFLAG_HOMING_ENABLE)"
proof -
  obtain mp where mp: "power_up boot_machine = Some mp" "settings_flags (mset mp) = 0" using boot_power_up by blast
  then have "soft_limit_inv (mset mp)" by (simp add: soft_limit_inv_def bit_istrue_def)
  from soft_limits_need_homing [OF boot_powered mp(1) this] show ?thesis using boot_loop_state by blast
qed

theorem every_line_answered_witness:
  "\<forall>L. \<exists>m' txt code. execute_input L 0 ''$'' machine_zero = Some (''$'', m') \<and> tx_out m' = txt @ answer code"
proof
  fix L
  let ?m = "report_status_message (status_code STATUS_OK) (report_grbl_help machine_zero)"
  have w: "machine_wf machine_zero" by (rule powered_wf) (auto simp: powered_def machine_zero_def)
  have e: "execute_input L 0 ''$'' machine_zero = Some (''$'', ?m)"
    by (simp add: execute_input_def system_execute_line_def char_at_def NUL_def Let_def)
  show "\<exists>m' txt code. execute_input L 0 ''$'' machine_zero = Some (''$'', m') \<and> tx_out m' = txt @ answer code"
    using e every_line_answered [OF w e] by (simp add: machine_zero_def)
qed

end
