(* ===== verification/Hardware_Init.thy ===== *)
theory Hardware_Init
  imports Interrupts
begin

text \<open>
  The registers of the ATmega328P that start-up sets: the baud rate, the directions and pull-ups
  of the pins, the timers and the interrupt masks. The components' own models keep only the bits
  they work with, and PORTC and PORTB are shared by several of them; here the port registers are
  whole, so that the theorem at the end shows the pins of the components not to collide. The
  register bits are those of the data sheet, the clock is that of the Makefile.
\<close>

record avr_t =
  ddrb :: u8
  portb :: u8
  ddrc :: u8
  portc :: u8
  ddrd :: u8
  pcmsk0 :: u8
  pcmsk1 :: u8
  pcicr :: u8
  ucsr0a :: u8
  ucsr0b :: u8
  ubrr0h :: u8
  ubrr0l :: u8
  tccr1a :: u8
  tccr1b :: u8
  timsk0 :: u8
  tccr0a :: u8
  tccr0b :: u8
  tccr2a :: u8
  tccr2b :: u8
  sreg_i :: bool

section \<open>The routines\<close>

definition F_CPU :: int where [grbl_const]: "F_CPU = 16000000"
definition BAUD_RATE :: int where [grbl_const]: "BAUD_RATE = 250000"

definition UBRR0_value :: u16 where
  "UBRR0_value = word_of_int (c_div (c_div F_CPU (4 * BAUD_RATE) - 1) 2)"

text \<open>The assignments to registers, in order.\<close>

definition in_order :: "(avr_t \<Rightarrow> avr_t) list \<Rightarrow> avr_t \<Rightarrow> avr_t" where
  "in_order fs = fold (\<lambda>f r. f r) fs"

definition set_bits :: "u8 \<Rightarrow> u8 \<Rightarrow> u8" where
  "set_bits b x = x OR b"

definition clear_bits :: "u8 \<Rightarrow> u8 \<Rightarrow> u8" where
  "clear_bits b x = x AND NOT b"

definition serial_init :: "avr_t \<Rightarrow> avr_t" where
  "serial_init = in_order
     [ucsr0a_update (set_bits (bitw 1)),
      ubrr0h_update (\<lambda>_. ucast (drop_bit 8 UBRR0_value)),
      ubrr0l_update (\<lambda>_. ucast UBRR0_value),
      ucsr0b_update (set_bits (bitw 4 OR bitw 3 OR bitw 7))]"

definition stepper_init :: "avr_t \<Rightarrow> avr_t" where
  "stepper_init = in_order
     [ddrd_update (set_bits STEP_MASK),
      ddrb_update (set_bits (bitw STEPPERS_DISABLE_BIT)),
      ddrd_update (set_bits DIRECTION_MASK),
      tccr1b_update (clear_bits (bitw 4)),
      tccr1b_update (set_bits (bitw 3)),
      tccr1a_update (clear_bits (bitw 1 OR bitw 0)),
      tccr1a_update (clear_bits (bitw 7 OR bitw 6 OR bitw 5 OR bitw 4)),
      timsk0_update (clear_bits (bitw 2 OR bitw 1 OR bitw 0)),
      tccr0a_update (\<lambda>_. 0),
      tccr0b_update (\<lambda>_. 0),
      timsk0_update (set_bits (bitw 0))]"

definition system_init :: "avr_t \<Rightarrow> avr_t" where
  "system_init = in_order
     [ddrc_update (clear_bits CONTROL_MASK),
      portc_update (set_bits CONTROL_MASK),
      pcmsk1_update (set_bits CONTROL_MASK),
      pcicr_update (set_bits (bitw 1))]"

text \<open>The register part of the initialisations whose other effects are with their components.\<close>

definition spindle_registers :: "avr_t \<Rightarrow> avr_t" where
  "spindle_registers = in_order
     [ddrb_update (set_bits (bitw SPINDLE_PWM_BIT)),
      tccr2a_update (\<lambda>_. SPINDLE_TCCRA_INIT_MASK),
      tccr2b_update (\<lambda>_. SPINDLE_TCCRB_INIT_MASK),
      ddrb_update (set_bits (bitw SPINDLE_DIRECTION_BIT))]"

definition coolant_registers :: "avr_t \<Rightarrow> avr_t" where
  "coolant_registers = in_order [ddrc_update (set_bits (bitw COOLANT_FLOOD_BIT))]"

definition limits_disable_registers :: "avr_t \<Rightarrow> avr_t" where
  "limits_disable_registers = in_order
     [pcmsk0_update (clear_bits LIMIT_MASK), pcicr_update (clear_bits (bitw 0))]"

definition limits_registers :: "settings_t \<Rightarrow> avr_t \<Rightarrow> avr_t" where
  "limits_registers cf = in_order
     [ddrb_update (clear_bits LIMIT_MASK),
      portb_update (set_bits LIMIT_MASK),
      (if bit_istrue (settings_flags cf) BITFLAG_HARD_LIMIT_ENABLE
       then in_order [pcmsk0_update (set_bits LIMIT_MASK), pcicr_update (set_bits (bitw 0))]
       else limits_disable_registers)]"

definition probe_registers :: "avr_t \<Rightarrow> avr_t" where
  "probe_registers = in_order [ddrc_update (clear_bits PROBE_MASK), portc_update (set_bits PROBE_MASK)]"

text \<open>The calls of \<open>main\<close>: once at power-up, and at the start of every session.\<close>

definition boot_registers :: "avr_t \<Rightarrow> avr_t" where
  "boot_registers r = (system_init (stepper_init (serial_init r)))\<lparr>sreg_i := True\<rparr>"

definition session_registers :: "settings_t \<Rightarrow> avr_t \<Rightarrow> avr_t" where
  "session_registers cf r =
     probe_registers (limits_registers cf (coolant_registers (spindle_registers r)))"

section \<open>Lemmas\<close>

text \<open>What holds from power-up on, and what every session establishes.\<close>

definition boot_ok :: "avr_t \<Rightarrow> avr_t \<Rightarrow> bool" where
  "boot_ok r0 r \<longleftrightarrow>
     ddrd r AND (STEP_MASK OR DIRECTION_MASK) = STEP_MASK OR DIRECTION_MASK \<and> ddrd r AND 3 = ddrd r0 AND 3 \<and> bit (ddrb r) STEPPERS_DISABLE_BIT \<and>
     ddrc r AND CONTROL_MASK = 0 \<and> portc r AND CONTROL_MASK = CONTROL_MASK \<and>
     pcmsk1 r AND CONTROL_MASK = CONTROL_MASK \<and> bit (pcicr r) 1 \<and>
     tccr1a r AND 0xF3 = 0 \<and> tccr1b r AND 0x18 = 0x08 \<and> timsk0 r AND 7 = 1 \<and> tccr0b r = 0 \<and>
     bit (ucsr0a r) 1 \<and> ucsr0b r AND 0x98 = 0x98 \<and> ubrr0h r = 0 \<and> ubrr0l r = 7 \<and> sreg_i r"

definition session_ok :: "settings_t \<Rightarrow> avr_t \<Rightarrow> bool" where
  "session_ok cf r \<longleftrightarrow> (let hard = bit_istrue (settings_flags cf) BITFLAG_HARD_LIMIT_ENABLE in
     bit (ddrb r) SPINDLE_PWM_BIT \<and> bit (ddrb r) SPINDLE_DIRECTION_BIT \<and> bit (ddrc r) COOLANT_FLOOD_BIT \<and>
     ddrb r AND LIMIT_MASK = 0 \<and> portb r AND LIMIT_MASK = LIMIT_MASK \<and>
     ddrc r AND PROBE_MASK = 0 \<and> portc r AND PROBE_MASK = PROBE_MASK \<and>
     pcmsk0 r AND LIMIT_MASK = (if hard then LIMIT_MASK else 0) \<and> bit (pcicr r) 0 = hard \<and>
     tccr2a r = SPINDLE_TCCRA_INIT_MASK \<and> tccr2b r = SPINDLE_TCCRB_INIT_MASK)"

lemma baud_value: "UBRR0_value = 7"
  by (simp add: UBRR0_value_def c_div_def grbl_const)

lemma bitw_values [simp]:
  "bitw 0 = 1" "bitw 1 = 2" "bitw (Suc 0) = 2" "bitw 2 = 4" "bitw 3 = 8" "bitw 4 = 16" "bitw 5 = 32" "bitw 6 = 64" "bitw 7 = 128"
  by (simp_all add: bitw_def push_bit_eq_mult)

lemma and_assoc_or: "(x OR a) OR b = x OR (a OR (b :: u8))" "(x AND a) AND b = x AND (a AND (b :: u8))"
  by (simp_all add: or.assoc and.assoc)

lemma set_clear_bit [simp]:
  "bit (set_bits b x) n = (bit x n \<or> bit b n)" "bit (clear_bits b x) n = (n < 8 \<and> bit x n \<and> \<not> bit b n)"
  using bit_imp_le_length [of x n] by (auto simp: set_bits_def clear_bits_def bit_simps)

lemma set_clear_and [simp]:
  "set_bits a x AND b = (x AND b) OR (a AND b)" "clear_bits a x AND b = (x AND (b AND NOT a))"
  by (auto simp: set_bits_def clear_bits_def bit_eq_iff bit_simps)

lemmas register_defs = serial_init_def stepper_init_def system_init_def spindle_registers_def coolant_registers_def
  limits_disable_registers_def limits_registers_def probe_registers_def in_order_def

lemma boot_registers_ok: "boot_ok r (boot_registers r)"
  unfolding boot_ok_def boot_registers_def register_defs baud_value
  by (simp add: grbl_const or.assoc)

lemma session_registers_boot: "boot_ok r0 r \<Longrightarrow> boot_ok r0 (session_registers cf r)"
  unfolding boot_ok_def session_registers_def register_defs by (simp add: grbl_const or.assoc)

lemma session_registers_ok: "session_ok cf (session_registers cf r)"
  unfolding session_ok_def session_registers_def register_defs Let_def by (simp add: grbl_const or.assoc)

lemma sessions_boot: "boot_ok r0 r \<Longrightarrow> boot_ok r0 (fold session_registers cfs r)"
  by (induction cfs arbitrary: r) (simp_all add: session_registers_boot)

section \<open>Property\<close>

text \<open>
  C25. The pins of the components do not collide: whatever the registers held at power-up and
  however many sessions have started, with whatever settings, every step, direction, enable,
  spindle and coolant pin is an output, every limit, control and probe pin is an input with its
  pull-up on, the pins of the serial line are untouched, the two timers of the stepper are in the
  modes its interrupts need, the interrupt of the limit pins is on exactly when the settings of
  this session have hard limits on, and the baud rate is exactly the configured one.
\<close>

theorem pins_configured:
  "let r = session_registers cf (fold session_registers cfs (boot_registers r0))
   in boot_ok r0 r \<and> session_ok cf r \<and> F_CPU = 8 * (256 * uint (ubrr0h r) + uint (ubrr0l r) + 1) * BAUD_RATE"
proof -
  let ?r = "session_registers cf (fold session_registers cfs (boot_registers r0))"
  have b: "boot_ok r0 ?r" by (intro session_registers_boot sessions_boot boot_registers_ok)
  then have "ubrr0h ?r = 0" "ubrr0l ?r = 7" by (simp_all add: boot_ok_def)
  then show ?thesis using b session_registers_ok [of cf] by (simp add: Let_def grbl_const)
qed

end
