(* ===== verification/Cartesian_Upstream.thy ===== *)
theory Cartesian_Upstream
  imports Motion_Safety Planner_Feasible
begin

text \<open>
  The unmodified grbl kept beside the project's firmware, \<open>src/grbl1_1/grbl-master/grbl\<close>. Its
  sources are those of the CoreXY variant but for the configuration and the spindle, so only the
  routines that come out differently are modelled here: the Cartesian kinematics of the planner,
  of homing and of the position, and the spindle of a milling machine. The theorems compare the
  two builds: seen through the axes, the CoreXY machine does what the Cartesian one does.
\<close>

section \<open>Cartesian kinematics\<close>

definition up_plan_axis :: "settings_t \<Rightarrow> vec \<Rightarrow> int list \<Rightarrow> nat \<Rightarrow>
    int list \<times> plan_block_t \<times> vec \<Rightarrow> int list \<times> plan_block_t \<times> vec" where
  "up_plan_axis cf target position_steps idx acc = (case acc of (target_steps, b, unit_vec) \<Rightarrow>
     (let target_steps = target_steps[idx := f_lround (f_mul (target ! idx) (steps_per_mm cf ! idx))];
          b = b\<lparr>steps := (steps b)[idx := word_of_int \<bar>target_steps ! idx - position_steps ! idx\<bar>]\<rparr>;
          b = b\<lparr>step_event_count := max (step_event_count b) (steps b ! idx)\<rparr>;
          delta_mm = f_div (f_of_int (target_steps ! idx - position_steps ! idx)) (steps_per_mm cf ! idx);
          unit_vec = unit_vec[idx := delta_mm];
          b = (if f_lt delta_mm f_zero
               then b\<lparr>direction_bits := direction_bits b OR get_direction_pin_mask idx\<rparr> else b)
      in (target_steps, b, unit_vec)))"

definition up_plan_line_steps :: "settings_t \<Rightarrow> int list \<Rightarrow> vec \<Rightarrow> plan_line_data_t \<Rightarrow> 'a planner_t_scheme \<Rightarrow>
    int list \<times> plan_block_t \<times> vec" where
  "up_plan_line_steps cf position target pl_data s =
     (let b = plan_block_zero\<lparr>condition := pd_condition pl_data, pb_spindle_speed := pd_spindle_speed pl_data\<rparr>;
          position_steps = (if condition b AND PL_COND_FLAG_SYSTEM_MOTION \<noteq> 0 then position else pl_position s)
      in fold (up_plan_axis cf target position_steps) [0..<N_AXIS]
           (replicate N_AXIS 0, b, replicate N_AXIS f_zero))"

definition up_plan_sync_position :: "int list \<Rightarrow> 'a planner_t_scheme \<Rightarrow> 'a planner_t_scheme" where
  "up_plan_sync_position position s = s\<lparr>pl_position := map (\<lambda>idx. position ! idx) [0..<N_AXIS]\<rparr>"

definition up_system_convert_axis_steps_to_mpos :: "vec \<Rightarrow> int list \<Rightarrow> nat \<Rightarrow> f32" where
  "up_system_convert_axis_steps_to_mpos spm pos idx = f_div (f_of_int (pos ! idx)) (spm ! idx)"

definition up_system_convert_array_steps_to_mpos :: "vec \<Rightarrow> int list \<Rightarrow> vec" where
  "up_system_convert_array_steps_to_mpos spm pos =
     map (up_system_convert_axis_steps_to_mpos spm pos) [0..<N_AXIS]"

text \<open>Homing: each axis has its own motor, so positions and locks are per axis.\<close>

definition up_HOMING_CYCLE_0 :: u8 where [grbl_const]: "up_HOMING_CYCLE_0 = 4"
definition up_HOMING_CYCLE_1 :: u8 where [grbl_const]: "up_HOMING_CYCLE_1 = 3"

definition up_homing_step_pin :: "nat \<Rightarrow> u8" where
  "up_homing_step_pin idx = get_step_pin_mask idx"

definition up_homing_zero_axis :: "nat \<Rightarrow> int list \<Rightarrow> int list" where
  "up_homing_zero_axis idx pos = pos[idx := 0]"

definition up_homing_setup :: "settings_t \<Rightarrow> u8 \<Rightarrow> bool \<Rightarrow> f32 \<Rightarrow> nat \<Rightarrow>
    vec \<times> u8 \<times> nat \<times> int list \<Rightarrow> vec \<times> u8 \<times> nat \<times> int list" where
  "up_homing_setup cf cycle_mask approach travel idx acc = (case acc of (target, axislock, n_active_axis, pos) \<Rightarrow>
     (if bit_istrue cycle_mask (bitw idx)
      then (target[idx := (if bit_istrue (homing_dir_mask cf) (bitw idx)
                           then (if approach then f_neg travel else travel)
                           else (if approach then travel else f_neg travel))],
            axislock OR up_homing_step_pin idx, Suc n_active_axis, up_homing_zero_axis idx pos)
      else acc))"

definition up_homing_lock :: "u8 \<Rightarrow> u8 \<Rightarrow> u8" where
  "up_homing_lock limit_state axislock =
     fold (\<lambda>idx axislock.
             if axislock AND up_homing_step_pin idx \<noteq> 0 \<and> limit_state AND bitw idx \<noteq> 0
             then axislock AND NOT (up_homing_step_pin idx)
             else axislock) [0..<N_AXIS] axislock"

definition up_homing_set_axis :: "settings_t \<Rightarrow> u8 \<Rightarrow> nat \<Rightarrow> int list \<Rightarrow> int list" where
  "up_homing_set_axis cf cycle_mask idx pos =
     (if cycle_mask AND bitw idx \<noteq> 0 then pos[idx := homing_axis_position cf idx] else pos)"

section \<open>Planning and homing with them\<close>

definition up_plan_buffer_line ::
    "settings_t \<Rightarrow> system_t \<Rightarrow> int list \<Rightarrow> ('a planner_t_scheme \<Rightarrow> 'a planner_t_scheme) \<Rightarrow> vec \<Rightarrow>
     plan_line_data_t \<Rightarrow> 'a planner_t_scheme \<Rightarrow> bool \<times> 'a planner_t_scheme" where
  "up_plan_buffer_line cf sy position upd target pl_data s =
     (let (target_steps, b, unit_vec) = up_plan_line_steps cf position target pl_data s;
          h = block_buffer_head s
      in if step_event_count b = 0 then (False, upd_blk h (\<lambda>_. b) s)
         else
           (let (b, unit_vec) = plan_line_limits cf pl_data s b unit_vec
            in if condition b AND PL_COND_FLAG_SYSTEM_MOTION = 0 then
                 (let nominal_speed = plan_compute_profile_nominal_speed sy b;
                      b = plan_compute_profile_parameters b nominal_speed (pl_previous_nominal_speed s);
                      s = upd_blk h (\<lambda>_. b) s;
                      s = s\<lparr>pl_previous_nominal_speed := nominal_speed, pl_previous_unit_vec := unit_vec,
                            pl_position := target_steps,
                            block_buffer_head := next_buffer_head s\<rparr>;
                      s = s\<lparr>next_buffer_head := plan_next_block_index (block_buffer_head s)\<rparr>
                  in (True, planner_recalculate upd s))
               else (True, upd_blk h (\<lambda>_. b) s)))"

text \<open>The loops of homing, with the locks of the single axes.\<close>

partial_function (option) up_homing_motion :: "u8 \<Rightarrow> bool \<Rightarrow> u8 \<Rightarrow> machine \<Rightarrow> (bool \<times> machine) option" where
  "up_homing_motion cycle_mask approach axislock m =
     (let m = poll m;
          axislock = (if approach then up_homing_lock (limits_get_state m) axislock else axislock);
          m = (if approach then on_sys (\<lambda>y. y\<lparr>sys_homing_axis_lock := axislock\<rparr>) m else m)
      in Option.bind (st_prep_buffer m) (\<lambda>m.
           let m = poll m in
           if sys_rt_exec_state (rt m) AND (EXEC_SAFETY_DOOR OR EXEC_RESET OR EXEC_CYCLE_STOP) \<noteq> 0 then
             (let m = homing_alarms cycle_mask approach m
              in if sys_rt_exec_alarm (rt m) \<noteq> 0
                 then Option.bind (protocol_execute_realtime (mc_reset m)) (\<lambda>m. Some (False, m))
                 else Some (True, on_rt (system_clear_exec_state_flag EXEC_CYCLE_STOP) m))
           else if STEP_MASK AND axislock \<noteq> 0 then up_homing_motion cycle_mask approach axislock m
           else Some (True, m)))"

definition up_homing_pass :: "u8 \<Rightarrow> bool \<Rightarrow> f32 \<Rightarrow> f32 \<Rightarrow> machine \<Rightarrow> (bool \<times> machine) option" where
  "up_homing_pass cycle_mask approach travel homing_rate m =
     (let target = up_system_convert_array_steps_to_mpos (steps_per_mm (mset m)) (sys_position (rt m));
          (target, axislock, n_active_axis, pos) =
            fold (up_homing_setup (mset m) cycle_mask approach travel) [0..<N_AXIS]
              (target, 0, 0, sys_position (rt m));
          homing_rate = f_mul homing_rate (f_sqrt (f_of_int (int n_active_axis)));
          m = on_rt (\<lambda>r. r\<lparr>sys_position := pos\<rparr>) m;
          m = on_sys (\<lambda>y. y\<lparr>sys_homing_axis_lock := axislock\<rparr>) m;
          m = m\<lparr>mot := snd (up_plan_buffer_line (mset m) (sys m) (sys_position (rt m)) st_update_plan_block_parameters
                           target (homing_pl_data homing_rate) (mot m))\<rparr>;
          m = on_sys (\<lambda>y. y\<lparr>sys_step_control := STEP_CONTROL_EXECUTE_SYS_MOTION\<rparr>) m
      in do {
        m \<leftarrow> st_prep_buffer m;
        (completed, m) \<leftarrow> up_homing_motion cycle_mask approach axislock (on_mot (st_wake_up (mset m)) m);
        if \<not> completed then Some (False, m)
        else (let m = st_reset m
              in Some (True, m\<lparr>events := events m @ [Ev_delay_ms (homing_debounce_delay (mset m))]\<rparr>)) })"

fun up_homing_passes :: "nat \<Rightarrow> u8 \<Rightarrow> bool \<Rightarrow> f32 \<Rightarrow> f32 \<Rightarrow> machine \<Rightarrow> (bool \<times> machine) option" where
  "up_homing_passes 0 cycle_mask approach travel homing_rate m = Some (True, m)"
| "up_homing_passes (Suc n) cycle_mask approach travel homing_rate m = do {
     (completed, m) \<leftarrow> up_homing_pass cycle_mask approach travel homing_rate m;
     if \<not> completed then Some (False, m)
     else if \<not> approach
     then up_homing_passes n cycle_mask True (f_mul (homing_pulloff (mset m)) HOMING_AXIS_LOCATE_SCALAR)
            (homing_feed_rate (mset m)) m
     else up_homing_passes n cycle_mask False (homing_pulloff (mset m)) (homing_seek_rate (mset m)) m }"

definition up_limits_go_home :: "u8 \<Rightarrow> machine \<Rightarrow> machine option" where
  "up_limits_go_home cycle_mask m =
     (if sys_abort (sys m) \<noteq> 0 then Some m
      else do {
        (completed, m) \<leftarrow> up_homing_passes (2 * N_HOMING_LOCATE_CYCLE + 2) cycle_mask True
                          (homing_max_travel (mset m) cycle_mask) (homing_seek_rate (mset m)) m;
        if \<not> completed then Some m
        else (let m = on_rt (\<lambda>r. r\<lparr>sys_position :=
                    fold (up_homing_set_axis (mset m) cycle_mask) [0..<N_AXIS] (sys_position r)\<rparr>) m
              in Some (on_sys (\<lambda>y. y\<lparr>sys_step_control := STEP_CONTROL_NORMAL_OP\<rparr>) m)) })"

definition up_gc_sync_position :: "machine \<Rightarrow> machine" where
  "up_gc_sync_position m =
     m\<lparr>gc_state := (gc_state m)\<lparr>gc_position :=
         up_system_convert_array_steps_to_mpos (steps_per_mm (mset m)) (sys_position (rt m))\<rparr>\<rparr>"

definition up_mc_homing_cycle :: "u8 \<Rightarrow> machine \<Rightarrow> machine option" where
  "up_mc_homing_cycle cycle_mask m = do {
     let m = limits_disable m;
     m \<leftarrow> up_limits_go_home up_HOMING_CYCLE_0 m;
     m \<leftarrow> up_limits_go_home up_HOMING_CYCLE_1 m;
     m \<leftarrow> protocol_execute_realtime m;
     if sys_abort (sys m) \<noteq> 0 then Some m
     else (let m = up_gc_sync_position m in
           Some (limits_init (on_mot (up_plan_sync_position (sys_position (rt m))) m))) }"

section \<open>The spindle of a milling machine\<close>

definition up_SPINDLE_PWM_MAX_VALUE :: int where [grbl_const]: "up_SPINDLE_PWM_MAX_VALUE = 255"
definition up_SPINDLE_PWM_MIN_VALUE :: int where [grbl_const]: "up_SPINDLE_PWM_MIN_VALUE = 1"
definition up_SPINDLE_PWM_RANGE :: int where [grbl_const]:
  "up_SPINDLE_PWM_RANGE = up_SPINDLE_PWM_MAX_VALUE - up_SPINDLE_PWM_MIN_VALUE"
definition up_SPINDLE_TCCRB_INIT_MASK :: u8 where [grbl_const]: "up_SPINDLE_TCCRB_INIT_MASK = 4"

definition up_spindle_init :: "settings_t \<Rightarrow> spindle_t \<Rightarrow> spindle_t" where
  "up_spindle_init cf p =
     spindle_stop
       (p\<lparr>spindle_ddr := bit_true (bit_true (spindle_ddr p) (bitw SPINDLE_PWM_BIT)) (bitw SPINDLE_DIRECTION_BIT),
          spindle_tccra := SPINDLE_TCCRA_INIT_MASK,
          spindle_tccrb := up_SPINDLE_TCCRB_INIT_MASK,
          pwm_gradient := f_div (f_of_int up_SPINDLE_PWM_RANGE) (f_sub (rpm_max cf) (rpm_min cf))\<rparr>)"

definition up_spindle_compute_pwm_value ::
    "settings_t \<Rightarrow> f32 \<Rightarrow> f32 \<Rightarrow> system_t \<Rightarrow> u8 \<times> system_t" where
  "up_spindle_compute_pwm_value cf gradient rpm sy =
     (let rpm = f_mul rpm (f_mul (f_of_rat (1/100)) (f_of_int (uint (sys_spindle_speed_ovr sy)))) in
      if f_le (rpm_max cf) (rpm_min cf) \<or> f_le (rpm_max cf) rpm
      then (word_of_int up_SPINDLE_PWM_MAX_VALUE, sy\<lparr>sys_spindle_speed := rpm_max cf\<rparr>)
      else if f_le rpm (rpm_min cf)
      then (if f_eq rpm f_zero
            then (SPINDLE_PWM_OFF_VALUE, sy\<lparr>sys_spindle_speed := f_zero\<rparr>)
            else (word_of_int up_SPINDLE_PWM_MIN_VALUE, sy\<lparr>sys_spindle_speed := rpm_min cf\<rparr>))
      else (word_of_int (f_to_int (f_add (f_floor (f_mul (f_sub rpm (rpm_min cf)) gradient))
                                         (f_of_int up_SPINDLE_PWM_MIN_VALUE))),
            sy\<lparr>sys_spindle_speed := rpm\<rparr>))"

definition up_spindle_set_state :: "settings_t \<Rightarrow> u8 \<Rightarrow> f32 \<Rightarrow> system_t \<times> spindle_t \<Rightarrow> system_t \<times> spindle_t" where
  "up_spindle_set_state cf state rpm s =
     (case s of (sy, p) \<Rightarrow>
       if sys_abort sy \<noteq> 0 then (sy, p)
       else (let (sy, p) =
               (if state = SPINDLE_DISABLE then (sy\<lparr>sys_spindle_speed := f_zero\<rparr>, spindle_stop p)
                else
                  (let p = (if state = SPINDLE_ENABLE_CW
                            then p\<lparr>spindle_direction_port :=
                                   bit_false (spindle_direction_port p) (bitw SPINDLE_DIRECTION_BIT)\<rparr>
                            else p\<lparr>spindle_direction_port :=
                                   bit_true (spindle_direction_port p) (bitw SPINDLE_DIRECTION_BIT)\<rparr>);
                       rpm = (if settings_flags cf AND BITFLAG_LASER_MODE \<noteq> 0 \<and> state = SPINDLE_ENABLE_CCW
                              then f_zero else rpm);
                       (pwm, sy) = up_spindle_compute_pwm_value cf (pwm_gradient p) rpm sy
                   in (sy, spindle_set_speed pwm p)))
             in (sy\<lparr>sys_report_ovr_counter := 0\<rparr>, p)))"

text \<open>Disabling stops the output here, while the servo variant keeps its pulse on.\<close>

lemma up_spindle_disable_stops:
  "sys_abort sy = 0 \<Longrightarrow> up_spindle_set_state cf SPINDLE_DISABLE rpm (sy, p) = (sy', p') \<Longrightarrow>
   spindle_get_state p' = SPINDLE_STATE_DISABLE \<and> sys_spindle_speed sy' = f_zero"
  by (auto simp: up_spindle_set_state_def spindle_get_state_def spindle_stop_def bit_istrue_clear [unfolded bit_istrue_def])

section \<open>The CoreXY machine seen through its axes\<close>

definition axes :: "int list \<Rightarrow> int list" where
  "axes pos = map (axis_steps pos) [0, 1, 2]"

lemma axes_nth [simp]: "i < N_AXIS \<Longrightarrow> axes pos ! i = axis_steps pos i" "length (axes pos) = N_AXIS"
proof -
  assume "i < N_AXIS"
  then have "i = 0 \<or> i = 1 \<or> i = 2" by (auto simp: N_AXIS_def)
  then show "axes pos ! i = axis_steps pos i" by (auto simp: axes_def)
qed (simp add: axes_def N_AXIS_def)

lemma axes_eqI: "length ps = N_AXIS \<Longrightarrow> (\<And>i. i < N_AXIS \<Longrightarrow> axis_steps pos i = ps ! i) \<Longrightarrow> axes pos = ps"
  by (rule nth_equalityI) simp_all

lemma zero_axis_steps:
  assumes "length pos = N_AXIS" "idx < N_AXIS" "j < N_AXIS"
  shows "axis_steps (homing_zero_axis idx pos) j = (if j = idx then 0 else axis_steps pos j)"
proof -
  have d: "c_div (b + b) 2 = b" for b :: int by (simp only: mult_2 [symmetric] c_div_double)
  have z: "c_div 0 2 = 0" using c_div_double [of 0] by simp
  have "idx = 0 \<or> idx = 1 \<or> idx = 2" "j = 0 \<or> j = 1 \<or> j = 2" using assms by (auto simp: N_AXIS_def)
  then show ?thesis using assms(1)
    by (elim disjE; simp add: homing_zero_axis_def axis_steps_def Let_def X_AXIS_def Y_AXIS_def Z_AXIS_def A_MOTOR_def
        B_MOTOR_def N_AXIS_def d z system_convert_corexy_to_x_axis_steps_def system_convert_corexy_to_y_axis_steps_def)
qed

lemma axes_zero: "length pos = N_AXIS \<Longrightarrow> idx < N_AXIS \<Longrightarrow> axes (homing_zero_axis idx pos) = up_homing_zero_axis idx (axes pos)"
  by (rule axes_eqI) (simp_all add: up_homing_zero_axis_def zero_axis_steps nth_list_update)

lemma axes_set:
  "length pos = N_AXIS \<Longrightarrow> idx < N_AXIS \<Longrightarrow> axes (homing_set_axis cf cyc idx pos) = up_homing_set_axis cf cyc idx (axes pos)"
  by (rule axes_eqI) (simp_all add: up_homing_set_axis_def set_axis_steps nth_list_update)

lemma axes_mpos: "system_convert_array_steps_to_mpos spm pos = up_system_convert_array_steps_to_mpos spm (axes pos)"
  by (simp add: system_convert_array_steps_to_mpos_def up_system_convert_array_steps_to_mpos_def axis_steps_def
      system_convert_axis_steps_to_mpos_def up_system_convert_axis_steps_to_mpos_def)

lemma axes_sync: "plan_sync_position pos s = up_plan_sync_position (axes pos) s"
  by (simp add: plan_sync_position_def up_plan_sync_position_def axis_steps_def)

section \<open>Planning on both machines\<close>

lemma direction_mask_axis: "i < 3 \<Longrightarrow> get_direction_pin_mask i = bitw (5 + i)"
proof -
  assume "i < 3"
  then have "i = 0 \<or> i = Suc 0 \<or> i = 2" by auto
  then show ?thesis by (elim disjE) (simp_all add: direction_masks)
qed

lemma up_plan_axis_result:
  assumes "up_plan_axis cf target pos i (ts, b, u) = (ts', b', u')" "i < 3" "spm_ok cf"
    and "length ts = 3" "length (steps b) = 3"
  shows "ts' = ts[i := f_lround (f_mul (target ! i) (steps_per_mm cf ! i))]"
    and "steps b' = (steps b)[i := word_of_int \<bar>ts' ! i - pos ! i\<bar>]"
    and "step_event_count b' = max (step_event_count b) (word_of_int \<bar>ts' ! i - pos ! i\<bar>)"
    and "direction_bits b' = (if ts' ! i - pos ! i < 0 then direction_bits b OR bitw (5 + i) else direction_bits b)"
    and "u' = u[i := f_div (f_of_int (ts' ! i - pos ! i)) (steps_per_mm cf ! i)]"
proof -
  have n: "f_lt (f_div (f_of_int d) (steps_per_mm cf ! i)) f_zero \<longleftrightarrow> d < 0" for d
    using spm_neg [OF assms(3), of i d] assms(2) by (simp add: N_AXIS_def)
  show t: "ts' = ts[i := f_lround (f_mul (target ! i) (steps_per_mm cf ! i))]"
    using assms(1) by (simp add: up_plan_axis_def Let_def)
  show "steps b' = (steps b)[i := word_of_int \<bar>ts' ! i - pos ! i\<bar>]"
    "step_event_count b' = max (step_event_count b) (word_of_int \<bar>ts' ! i - pos ! i\<bar>)"
    "direction_bits b' = (if ts' ! i - pos ! i < 0 then direction_bits b OR bitw (5 + i) else direction_bits b)"
    "u' = u[i := f_div (f_of_int (ts' ! i - pos ! i)) (steps_per_mm cf ! i)]"
    using assms(1) unfolding t
    by (simp_all add: up_plan_axis_def Let_def n direction_mask_axis [OF assms(2)] assms(2,4,5)) (auto simp: assms direction_mask_axis)
qed

lemma up_plan_line_steps_result:
  assumes "spm_ok cf" and "pd_condition pl_data AND PL_COND_FLAG_SYSTEM_MOTION = 0"
    and "up_plan_line_steps cf position target pl_data s = (target_steps, b, unit_vec)"
  defines "d \<equiv> \<lambda>i. target_steps ! i - pl_position s ! i"
  shows "target_steps = map (\<lambda>i. f_lround (f_mul (target ! i) (steps_per_mm cf ! i))) [0, 1, 2]"
    and "steps b = map (\<lambda>i. word_of_int \<bar>d i\<bar>) [0, 1, 2]"
    and "bit (direction_bits b) k \<longleftrightarrow> k = 5 \<and> d 0 < 0 \<or> k = 6 \<and> d 1 < 0 \<or> k = 7 \<and> d 2 < 0"
    and "unit_vec = map (\<lambda>i. f_div (f_of_int (d i)) (steps_per_mm cf ! i)) [0, 1, 2]"
proof -
  let ?P = "up_plan_axis cf target (pl_position s)"
  let ?b0 = "plan_block_zero\<lparr>condition := pd_condition pl_data, pb_spindle_speed := pd_spindle_speed pl_data\<rparr>"
  let ?z = "[f_zero, f_zero, f_zero]"
  have P: "up_plan_line_steps cf position target pl_data s = ?P 2 (?P 1 (?P 0 ([0, 0, 0], ?b0, ?z)))"
    using assms(2) unfolding up_plan_line_steps_def upt_axes Let_def
    by (simp add: plan_block_zero_def N_AXIS_def numeral_3_eq_3)
  have l: "length (steps ?b0) = 3" by (simp add: plan_block_zero_def N_AXIS_def)
  obtain t1 b1 u1 where 1: "?P 0 ([0, 0, 0], ?b0, ?z) = (t1, b1, u1)" by (metis prod_cases3)
  obtain t2 b2 u2 where 2: "?P 1 (t1, b1, u1) = (t2, b2, u2)" by (metis prod_cases3)
  note r1 = up_plan_axis_result [OF 1 _ assms(1) _ l, simplified]
  have l1: "length t1 = 3" "length (steps b1) = 3" using r1(1,2) l by simp_all
  note r2 = up_plan_axis_result [OF 2 _ assms(1) l1, simplified]
  have l2: "length t2 = 3" "length (steps b2) = 3" using r2(1,2) l1 by simp_all
  have 3: "?P 2 (t2, b2, u2) = (target_steps, b, unit_vec)" using assms(3) unfolding P 1 2 by simp
  note r3 = up_plan_axis_result [OF 3 _ assms(1) l2, simplified]
  show "target_steps = map (\<lambda>i. f_lround (f_mul (target ! i) (steps_per_mm cf ! i))) [0, 1, 2]"
    "steps b = map (\<lambda>i. word_of_int \<bar>d i\<bar>) [0, 1, 2]"
    "unit_vec = map (\<lambda>i. f_div (f_of_int (d i)) (steps_per_mm cf ! i)) [0, 1, 2]"
    using r1 r2 r3 by (simp_all add: d_def plan_block_zero_def N_AXIS_def numeral_3_eq_3 numeral_2_eq_2)
  show "bit (direction_bits b) k \<longleftrightarrow> k = 5 \<and> d 0 < 0 \<or> k = 6 \<and> d 1 < 0 \<or> k = 7 \<and> d 2 < 0"
    using r1 r2 r3 by (auto simp: d_def plan_block_zero_def bit_or_iff bit_bitw)
qed

text \<open>The signed motor steps a block asks for.\<close>

definition motor_move :: "plan_block_t \<Rightarrow> int list" where
  "motor_move b = map (\<lambda>i. if bit (direction_bits b) (5 + i) then - uint (steps b ! i) else uint (steps b ! i)) [0, 1, 2]"

lemma uint_abs_u32: "\<bar>d\<bar> < 2 ^ 32 \<Longrightarrow> uint (word_of_int \<bar>d\<bar> :: u32) = \<bar>d\<bar>"
  by (simp add: uint_word_of_int)

lemma signed_abs: "\<bar>d\<bar> < 2 ^ 32 \<Longrightarrow>
    (if d < 0 then - uint (word_of_int \<bar>d\<bar> :: u32) else uint (word_of_int \<bar>d\<bar> :: u32)) = d"
  by (simp only: uint_abs_u32) auto

lemma motor_moveI:
  assumes "steps b = [word_of_int \<bar>d0\<bar>, word_of_int \<bar>d1\<bar>, word_of_int \<bar>d2\<bar>]"
    and "\<And>k. bit (direction_bits b) k \<longleftrightarrow> k = 5 \<and> d0 < 0 \<or> k = 6 \<and> d1 < 0 \<or> k = 7 \<and> d2 < 0"
    and "\<bar>d0\<bar> < 2 ^ 32" "\<bar>d1\<bar> < 2 ^ 32" "\<bar>d2\<bar> < 2 ^ 32"
  shows "motor_move b = [d0, d1, d2]"
proof -
  have "bit (direction_bits b) (5 + 0) \<longleftrightarrow> d0 < 0" "bit (direction_bits b) (5 + 1) \<longleftrightarrow> d1 < 0"
    "bit (direction_bits b) (5 + 2) \<longleftrightarrow> d2 < 0" using assms(2) by simp_all
  then show ?thesis unfolding motor_move_def list.map assms(1)
    by (simp only: nth_Cons_0 nth_Cons_Suc numeral_2_eq_2 One_nat_def signed_abs [OF assms(3)] signed_abs [OF assms(4)]
        signed_abs [OF assms(5)])
qed

lemma axes_mix: "axes [dx + dy, dx - dy, dz] = [dx, dy, dz]"
proof -
  have e: "dx + dy + (dx - dy) = 2 * dx" "dx + dy - (dx - dy) = 2 * dy" by simp_all
  show ?thesis by (simp only: axes_def axis_steps_def system_convert_corexy_to_x_axis_steps_def
      system_convert_corexy_to_y_axis_steps_def X_AXIS_def Y_AXIS_def list.map nth_Cons_0 nth_Cons_Suc numeral_2_eq_2 One_nat_def e
      c_div_double) simp
qed

lemma zero_steps: "spm_ok cf \<Longrightarrow> i < N_AXIS \<Longrightarrow> f_div (f_of_int 0) (steps_per_mm cf ! i) = f_zero"
  by (rule f_pos_cases [of "steps_per_mm cf ! i"]) (auto simp: spm_ok_def mk_f32_def)

lemma steps_not_nan: "spm_ok cf \<Longrightarrow> i < N_AXIS \<Longrightarrow> f_div (f_of_int d) (steps_per_mm cf ! i) \<noteq> FNaN"
  by (rule f_pos_cases [of "steps_per_mm cf ! i"], simp_all add: spm_ok_def)
    (rule f_of_int_mag [of d]; simp add: mk_f32_def Let_def)

lemma square_nn: "v \<noteq> FNaN \<Longrightarrow> f_nn (f_mul v v)"
  by (cases v) (simp_all add: f_nn_mk)

lemma square_zero: "f_eq v f_zero \<Longrightarrow> f_mul v v = f_zero"
  by (cases v) (auto simp: mk_f32_def split: if_splits)

lemma sum_squares_one: "v \<noteq> FNaN \<Longrightarrow> sum_squares f_zero [v, f_zero, f_zero] = f_mul v v"
  using square_zero [of v] f_add_zero_left [OF square_nn [of v]] by (auto simp del: f_add.simps)

lemma sum_squares_two: "v \<noteq> FNaN \<Longrightarrow> sum_squares f_zero [v, v, f_zero] = f_add (f_mul v v) (f_mul v v)"
  using square_zero [of v] f_add_zero_left [OF square_nn [of v]] f_add_zero_left [OF f_nn_zero]
  by (auto simp del: f_add.simps)

text \<open>For the witnesses, one millimetre along X with the default settings.\<close>

abbreviation one_mm :: vec where
  "one_mm \<equiv> [f_of_int 1, f_of_int 0, f_of_int 0]"

lemma one_mm_ok: "spm_ok default_settings"
  using f_repr_int [of 250] int_le_f_max [of 250]
  by (auto simp: spm_ok_def default_settings_def f_of_int_exact N_AXIS_def)

lemma one_mm_steps:
  "map (\<lambda>i. f_lround (f_mul (one_mm ! i) (steps_per_mm default_settings ! i))) [0, 1, 2] = [250, 0, 0]"
proof -
  have "f_mul (f_of_int a) (f_of_int 250) = f_of_int (250 * a)" if "a = 0 \<or> a = 1" for a
    using that f_repr_int [of 250] int_le_f_max [of 250] by (auto simp: f_of_int_exact mk_f32_repr)
  then have "f_lround (f_mul (f_of_int a) (f_of_int 250)) = 250 * a" if "a = 0 \<or> a = 1" for a
    using that f_lround_of_int [of "250 * a"] by auto
  from this [of 0] this [of 1] show ?thesis by (simp add: default_settings_def N_AXIS_def numeral_3_eq_3)
qed

lemma one_mm_position: "pl_position planner_zero = [0, 0, 0]"
  by (simp add: planner_zero_def plan_reset_def plan_reset_buffer_def N_AXIS_def numeral_3_eq_3)

lemma one_mm_condition: "pd_condition plan_line_data_zero AND PL_COND_FLAG_SYSTEM_MOTION = 0"
  by (simp add: plan_line_data_zero_def)

section \<open>Properties\<close>

text \<open>
  C14. Seen through its axes, the CoreXY machine keeps the positions the Cartesian firmware keeps:
  clearing and setting a homed axis, reading the machine position and synchronising the planner
  commute with the map from motor to axis positions, for any motor positions.
\<close>

theorem corexy_refines_cartesian:
  assumes "length pos = N_AXIS" and "idx < N_AXIS"
  shows "axes (homing_zero_axis idx pos) = up_homing_zero_axis idx (axes pos)
    \<and> axes (homing_set_axis cf cyc idx pos) = up_homing_set_axis cf cyc idx (axes pos)
    \<and> system_convert_array_steps_to_mpos spm pos = up_system_convert_array_steps_to_mpos spm (axes pos)
    \<and> plan_sync_position pos s = up_plan_sync_position (axes pos) s"
  using assms by (simp add: axes_zero axes_set axes_mpos axes_sync)

theorem corexy_refines_cartesian_witness:
  "axes (homing_set_axis default_settings 1 0 [7, 3, 4]) = [homing_axis_position default_settings 0, 2, 4]"
  using corexy_refines_cartesian [THEN conjunct2, THEN conjunct1, of "[7, 3, 4]" 0 default_settings 1]
  by (simp add: up_homing_set_axis_def axes_def [of "[7, 3, 4]"] axis_steps_def N_AXIS_def X_AXIS_def Y_AXIS_def bitw_def c_div_def
      system_convert_corexy_to_y_axis_steps_def)



text \<open>
  C26. The length of a CoreXY move is computed in motor space: for a line along X the Cartesian
  firmware takes the length of the one component, the CoreXY firmware that of two equal ones,
  which is larger by the square root of two. The block therefore runs slower than programmed by
  that factor.
\<close>

theorem corexy_length_in_motor_space:
  assumes "spm_ok cf" and "pd_condition pl_data AND PL_COND_FLAG_SYSTEM_MOTION = 0"
    and "steps_per_mm cf ! 1 = steps_per_mm cf ! 0"
    and "plan_line_steps cf position target pl_data s = (target_steps, b, unit_vec)"
    and "up_plan_line_steps cf position' target pl_data s = (target_steps', b', unit_vec')"
    and "target_steps ! 1 = pl_position s ! 1" and "target_steps ! 2 = pl_position s ! 2"
    and "v = f_div (f_of_int (target_steps ! 0 - pl_position s ! 0)) (steps_per_mm cf ! 0)"
  shows "fst (convert_delta_vector_to_unit_vector unit_vec) = f_sqrt (f_add (f_mul v v) (f_mul v v))
    \<and> fst (convert_delta_vector_to_unit_vector unit_vec') = f_sqrt (f_mul v v)"
proof -
  note c = plan_line_steps_result [OF assms(1,2,4) refl refl refl] and u = up_plan_line_steps_result [OF assms(1,2,5)]
  have t: "target_steps' = target_steps" using c(1) u(1) by simp
  have z: "f_div (f_of_int 0) (steps_per_mm cf ! 0) = f_zero" "f_div (f_of_int 0) (steps_per_mm cf ! 2) = f_zero"
    using zero_steps [OF assms(1)] by (simp_all add: N_AXIS_def)
  have v: "v \<noteq> FNaN" using steps_not_nan [OF assms(1), of 0] by (simp add: assms(8) N_AXIS_def)
  have "unit_vec = [v, v, f_zero]" "unit_vec' = [v, f_zero, f_zero]"
    using c(5) u(4) z by (simp_all add: t assms(3,6,7,8) [unfolded One_nat_def])
  then show ?thesis using sum_squares_one [OF v] sum_squares_two [OF v]
    by (simp add: convert_delta_vector_to_unit_vector_def Let_def)
qed

theorem corexy_length_in_motor_space_witness:
  "\<exists>t b u b' u'. plan_line_steps default_settings [0, 0, 0] one_mm plan_line_data_zero planner_zero = (t, b, u)
    \<and> up_plan_line_steps default_settings [0, 0, 0] one_mm plan_line_data_zero planner_zero = (t, b', u')
    \<and> fst (convert_delta_vector_to_unit_vector u) = f_sqrt (f_of_int 2)
    \<and> fst (convert_delta_vector_to_unit_vector u') = f_sqrt (f_of_int 1)"
proof -
  obtain t b u where c: "plan_line_steps default_settings [0, 0, 0] one_mm plan_line_data_zero planner_zero = (t, b, u)"
    by (metis prod_cases3)
  obtain t' b' u' where p: "up_plan_line_steps default_settings [0, 0, 0] one_mm plan_line_data_zero planner_zero = (t', b', u')"
    by (metis prod_cases3)
  have t: "t = [250, 0, 0]"
    using plan_line_steps_result(1) [OF one_mm_ok one_mm_condition c refl refl refl] one_mm_steps by simp
  have t': "t' = t" using up_plan_line_steps_result(1) [OF one_mm_ok one_mm_condition p] one_mm_steps t by simp
  have r: "f_repr 1" "f_repr 2" using f_repr_int [of 1] f_repr_int [of 2] by simp_all
  have le: "1 \<le> f_max" "2 \<le> f_max" by (simp_all add: f_max_def)
  have v: "f_of_int 1 = f_div (f_of_int (t ! 0 - pl_position planner_zero ! 0)) (steps_per_mm default_settings ! 0)"
    using r le by (simp add: t one_mm_position default_settings_def f_of_int_exact N_AXIS_def mk_f32_repr)
  have s: "steps_per_mm default_settings ! 1 = steps_per_mm default_settings ! 0"
    "t ! 1 = pl_position planner_zero ! 1" "t ! 2 = pl_position planner_zero ! 2"
    by (simp_all add: default_settings_def N_AXIS_def t one_mm_position)
  have "f_mul (f_of_int 1) (f_of_int 1) = f_of_int 1" "f_add (f_of_int 1) (f_of_int 1) = f_of_int 2"
    using r le by (simp_all add: f_of_int_exact mk_f32_repr)
  then show ?thesis
    using corexy_length_in_motor_space [OF one_mm_ok one_mm_condition s(1) c p s(2,3) v] c p t' by simp
qed

end
