(* ===== verification/Pipeline_Exec.thy ===== *)
theory Pipeline_Exec
  imports Stepper_Exact Stepper_Fuel
begin

text \<open>
  The consuming end of the segment ring, for a whole sequence of blocks. \<open>consume\<close> is an abstract
  machine: its state is the number of the block being traced, the weight of the segments still to
  come for it, and the motor positions at its end. The step interrupt refines it: taking a segment
  from the ring is one step of the abstract machine, every other tick is none.
\<close>

section \<open>The abstract consumer\<close>

definition block_steps :: "st_block_t \<Rightarrow> u32 list" where
  "block_steps b = map (drop_bit 3) (sb_steps b)"

definition block_event :: "st_block_t \<Rightarrow> u32" where
  "block_event b = drop_bit 3 (sb_step_event_count b)"

definition block_good :: "st_block_t \<Rightarrow> bool" where
  "block_good b \<longleftrightarrow> block_data (block_steps b) (block_event b) b"

definition block_move :: "st_block_t \<Rightarrow> nat \<Rightarrow> int" where
  "block_move b a = axis_sign b a * int (unat (block_steps b ! a))"

type_synonym trace = "u8 \<times> nat \<times> (nat \<Rightarrow> int)"

fun enter_block :: "st_block_t list \<Rightarrow> trace \<Rightarrow> trace option" where
  "enter_block B (j, w, D) =
     (let b = B ! unat (st_next_block_index j) in
      if w = 0 \<and> block_good b
      then Some (st_next_block_index j, 8 * unat (block_event b), \<lambda>a. D a + block_move b a) else None)"

fun take_segment :: "segment_t \<Rightarrow> trace \<Rightarrow> trace option" where
  "take_segment sg (j, w, D) =
     (if sg_st_block_index sg = j \<and> segment_valid sg \<and> weight sg \<le> w then Some (j, w - weight sg, D) else None)"

definition consume :: "st_block_t list \<Rightarrow> segment_t \<Rightarrow> trace \<Rightarrow> trace option" where
  "consume B sg e = (if sg_st_block_index sg = fst e then take_segment sg e
     else Option.bind (enter_block B e) (take_segment sg))"

fun consume_all :: "st_block_t list \<Rightarrow> segment_t list \<Rightarrow> trace \<Rightarrow> trace option" where
  "consume_all B [] e = Some e"
| "consume_all B (sg # sgs) e = Option.bind (consume B sg e) (consume_all B sgs)"

lemma consume_all_append:
  "consume_all B (xs @ ys) e = Option.bind (consume_all B xs e) (consume_all B ys)"
  by (induction xs arbitrary: e) (auto split: Option.bind_split)

section \<open>The segments still in the ring\<close>

definition ring_segs :: "stepper_t \<Rightarrow> segment_t list" where
  "ring_segs s = ring_list SEGMENT_BUFFER_SIZE (segment_buffer s) (unat (segment_buffer_head s)) (unat (segment_buffer_tail s))"

definition unloaded :: "stepper_t \<Rightarrow> segment_t list" where
  "unloaded s = (if exec_segment (st s) = None then ring_segs s else tl (ring_segs s))"

definition seg_ring_ok :: "stepper_t \<Rightarrow> bool" where
  "seg_ring_ok s \<longleftrightarrow> unat (segment_buffer_head s) < SEGMENT_BUFFER_SIZE \<and> unat (segment_buffer_tail s) < SEGMENT_BUFFER_SIZE
     \<and> length (segment_buffer s) = SEGMENT_BUFFER_SIZE
     \<and> (exec_segment (st s) \<noteq> None \<longrightarrow> segment_buffer_head s \<noteq> segment_buffer_tail s)"

lemma ring_segs_pop:
  "seg_ring_ok s \<Longrightarrow> segment_buffer_head s \<noteq> segment_buffer_tail s \<Longrightarrow>
   ring_segs s = segment_buffer s ! unat (segment_buffer_tail s) #
     ring_segs (s\<lparr>segment_buffer_tail := next_segment_index (segment_buffer_tail s)\<rparr>)"
  unfolding ring_segs_def by (simp add: seg_ring_ok_def u8_eq_iff seg.list_pop)

lemma ring_segs_Nil: "seg_ring_ok s \<Longrightarrow> ring_segs s = [] \<longleftrightarrow> segment_buffer_head s = segment_buffer_tail s"
  by (simp add: ring_segs_def seg_ring_ok_def ring_list_Nil_iff u8_eq_iff)

section \<open>What a tick leaves alone\<close>

definition main_view :: "stepper_t \<Rightarrow> _" where
  "main_view s = (block_buffer s, block_buffer_tail s, block_buffer_head s, next_buffer_head s, pl_position s,
     st_block_buffer s, segment_buffer s, segment_buffer_head s, segment_next_head s, pl_block s, prep s)"

lemma tick_view: "main_view (mot (TIMER1_COMPA_vect m)) = main_view (mot m)"
proof -
  have pins: "main_view (isr_output_pins s) = main_view s" for s
    by (simp add: main_view_def isr_output_pins_def Let_def)
  have idle: "main_view (mot (st_go_idle n)) = main_view (mot n)" for n
    by (simp add: main_view_def st_go_idle_def Let_def machine_lift)
  have spin: "mot (on_spin f n) = mot n" and rt: "mot (on_rt g n) = mot n" for f g n
    by (simp_all add: machine_lift)
  have empty: "main_view (mot (isr_buffer_empty n)) = main_view (mot n)" for n
    by (simp add: isr_buffer_empty_def Let_def spin rt idle)
  have load: "main_view (mot (isr_load_segment n)) = main_view (mot n)" for n
    by (simp add: isr_load_segment_def Let_def spin main_view_def)
  have bres: "main_view (mot (isr_bresenham n)) = main_view (mot n)" for n
    by (simp add: isr_bresenham_def Let_def main_view_def split: prod.split)
  have fin: "main_view (mot (isr_finish n)) = main_view (mot n)" for n
    by (simp add: isr_finish_def Let_def main_view_def)
  have exe: "main_view (mot (isr_execute n)) = main_view (mot n)" for n
    by (simp add: isr_execute_def Let_def fin bres rt)
  show ?thesis
    unfolding TIMER1_COMPA_vect_def Let_def by (simp add: exe load empty) (simp add: on_mot_def pins)
qed

lemma tick_view_simps [simp]:
  "st_block_buffer (mot (TIMER1_COMPA_vect m)) = st_block_buffer (mot m)"
  "segment_buffer (mot (TIMER1_COMPA_vect m)) = segment_buffer (mot m)"
  "segment_buffer_head (mot (TIMER1_COMPA_vect m)) = segment_buffer_head (mot m)"
  using tick_view [of m] by (simp_all add: main_view_def)

text \<open>What a tick does to the ring.\<close>

lemma isr_ring:
  "segment_buffer_tail (mot (isr_bresenham m)) = segment_buffer_tail (mot m)"
  "segment_buffer_tail (mot (isr_finish m)) =
     (if step_count (st (mot m)) = 1 then next_segment_index (segment_buffer_tail (mot m)) else segment_buffer_tail (mot m))"
  "segment_buffer_tail (mot (isr_load_segment m)) = segment_buffer_tail (mot m)"
  "segment_buffer_tail (mot (isr_buffer_empty m)) = segment_buffer_tail (mot m)"
  by (simp_all add: isr_bresenham_def isr_finish_def isr_load_segment_def isr_buffer_empty_def st_go_idle_def
      Let_def machine_lift split: prod.split)

lemma isr_execute_ring:
  "segment_buffer_tail (mot (isr_execute m)) =
     (if step_count (st (mot m)) = 1 then next_segment_index (segment_buffer_tail (mot m)) else segment_buffer_tail (mot m))"
  "exec_segment (st (mot (isr_execute m))) = (if step_count (st (mot m)) = 1 then None else exec_segment (st (mot m)))"
  by (simp_all add: isr_execute_def Let_def isr_ring isr_finish_frame isr_bresenham_frame machine_lift)

lemma unloaded_execute:
  assumes ok: "seg_ring_ok (mot m)" and ne: "segment_buffer_head (mot m) \<noteq> segment_buffer_tail (mot m)"
    and e: "exec_segment (st (mot m)) \<noteq> None"
    and v: "segment_buffer (mot n) = segment_buffer (mot m)" "segment_buffer_head (mot n) = segment_buffer_head (mot m)"
    and n: "segment_buffer_tail (mot n) = (if c then next_segment_index (segment_buffer_tail (mot m)) else segment_buffer_tail (mot m))"
      "exec_segment (st (mot n)) = (if c then None else exec_segment (st (mot m)))"
  shows "unloaded (mot n) = unloaded (mot m)" and "seg_ring_ok (mot n)"
proof -
  have p: "ring_segs (mot n) = (if c then tl (ring_segs (mot m)) else ring_segs (mot m))"
    using ring_segs_pop [OF ok ne] by (auto simp: ring_segs_def v n(1))
  show "unloaded (mot n) = unloaded (mot m)" using e by (auto simp add: unloaded_def p n(2))
  show "seg_ring_ok (mot n)" using ok e ne by (auto simp: seg_ring_ok_def v n)
qed

lemma tick_ring_running:
  assumes ok: "seg_ring_ok (mot m)" and b: "\<not> busy (mot m)" and e: "exec_segment (st (mot m)) \<noteq> None"
  shows "seg_ring_ok (mot (TIMER1_COMPA_vect m)) \<and> unloaded (mot (TIMER1_COMPA_vect m)) = unloaded (mot m)"
proof -
  have ne: "segment_buffer_head (mot m) \<noteq> segment_buffer_tail (mot m)" using ok e by (simp add: seg_ring_ok_def)
  have "segment_buffer_tail (mot (TIMER1_COMPA_vect m)) = (if step_count (st (mot m)) = 1
      then next_segment_index (segment_buffer_tail (mot m)) else segment_buffer_tail (mot m))"
    "exec_segment (st (mot (TIMER1_COMPA_vect m))) = (if step_count (st (mot m)) = 1 then None else exec_segment (st (mot m)))"
    unfolding timer1_tick(1) [OF b e] isr_execute_ring on_mot_pins by (rule refl)+
  from unloaded_execute [OF ok ne e tick_view_simps(2,3) this] show ?thesis by blast
qed

lemma tick_ring_load:
  assumes ok: "seg_ring_ok (mot m)" and b: "\<not> busy (mot m)" and e: "exec_segment (st (mot m)) = None"
    and ne: "segment_buffer_head (mot m) \<noteq> segment_buffer_tail (mot m)"
  shows "seg_ring_ok (mot (TIMER1_COMPA_vect m)) \<and>
    unloaded (mot m) = segment_buffer (mot m) ! unat (segment_buffer_tail (mot m)) # unloaded (mot (TIMER1_COMPA_vect m))"
proof -
  let ?l = "isr_load_segment (on_mot isr_output_pins m)"
  have v: "segment_buffer (mot ?l) = segment_buffer (mot m)" "segment_buffer_head (mot ?l) = segment_buffer_head (mot m)"
    "segment_buffer_tail (mot ?l) = segment_buffer_tail (mot m)" "exec_segment (st (mot ?l)) \<noteq> None"
    by (simp_all add: isr_load_segment_def Let_def on_spin_def on_mot_pins)
  have "unloaded (mot m) = segment_buffer (mot m) ! unat (segment_buffer_tail (mot m)) # unloaded (mot ?l)"
    using ring_segs_pop [OF ok ne] e v by (simp add: unloaded_def ring_segs_def)
  moreover have "seg_ring_ok (mot ?l)" using ok ne by (simp add: seg_ring_ok_def v)
  moreover have "segment_buffer_head (mot ?l) \<noteq> segment_buffer_tail (mot ?l)" using ne v by simp
  ultimately show ?thesis
    using unloaded_execute [OF _ _ v(4), where n = "TIMER1_COMPA_vect m" and c = "step_count (st (mot ?l)) = 1"]
      isr_execute_ring [of ?l] tick_view_simps [of m] v(1,2) by (simp add: timer1_tick(2) [OF b e ne])
qed

lemma tick_ring_empty:
  assumes ok: "seg_ring_ok (mot m)" and b: "\<not> busy (mot m)" and e: "exec_segment (st (mot m)) = None"
    and ne: "segment_buffer_head (mot m) = segment_buffer_tail (mot m)"
  shows "seg_ring_ok (mot (TIMER1_COMPA_vect m))"
proof -
  let ?n = "on_mot isr_output_pins m"
  have "TIMER1_COMPA_vect m = isr_buffer_empty ?n"
    unfolding TIMER1_COMPA_vect_def Let_def on_mot_pins using e ne by (simp add: b)
  moreover have "exec_segment (st (mot (isr_buffer_empty ?n))) = None"
    using e by (simp add: isr_buffer_empty_def Let_def st_go_idle_def machine_lift isr_output_pins_def)
  ultimately show ?thesis using ok tick_view_simps [of m]
    by (auto simp: seg_ring_ok_def isr_ring on_mot_pins)
qed

lemma tick_ring:
  assumes ok: "seg_ring_ok (mot m)" and b: "\<not> busy (mot m)"
  shows "seg_ring_ok (mot (TIMER1_COMPA_vect m))"
    and "exec_segment (st (mot m)) \<noteq> None \<Longrightarrow> unloaded (mot (TIMER1_COMPA_vect m)) = unloaded (mot m)"
    and "exec_segment (st (mot m)) = None \<Longrightarrow> segment_buffer_head (mot m) \<noteq> segment_buffer_tail (mot m) \<Longrightarrow>
      unloaded (mot m) = segment_buffer (mot m) ! unat (segment_buffer_tail (mot m)) # unloaded (mot (TIMER1_COMPA_vect m))"
  using tick_ring_running [OF ok b] tick_ring_load [OF ok b] tick_ring_empty [OF ok b] by blast+

section \<open>The step interrupt refines the consumer\<close>

definition at_motors :: "(nat \<Rightarrow> int) \<Rightarrow> machine \<Rightarrow> bool" where
  "at_motors D m \<longleftrightarrow> length (sys_position (rt m)) = 3 \<and> (\<forall>a < 3. sys_position (rt m) ! a = D a)"

text \<open>
  \<open>exec_to (j, w, D) m\<close>: the interrupt traces block \<open>j\<close>, and after segments of weight \<open>w\<close> more the
  motors will be at \<open>D\<close>.
\<close>

definition exec_part :: "trace \<Rightarrow> machine \<Rightarrow> bool" where
  "exec_part e m = (case e of (j, w, D) \<Rightarrow> let b = st_block_buffer (mot m) ! unat j in
     block_good b \<and> (\<exists>P tot. progress (block_steps b) b j P tot m \<and> tot + w = 8 * unat (block_event b)
       \<and> length P = 3 \<and> (\<forall>a < 3. D a = P ! a + block_move b a)))"

definition exec_to :: "trace \<Rightarrow> machine \<Rightarrow> bool" where
  "exec_to e m = (case e of (j, w, D) \<Rightarrow> exec_block_index (st (mot m)) = j \<and> \<not> busy (mot m) \<and>
     (w = 0 \<and> exec_segment (st (mot m)) = None \<and> at_motors D m \<or> exec_part (j, w, D) m))"

lemma exec_partI:
  "block_good b \<Longrightarrow> progress (block_steps b) b j P tot m \<Longrightarrow> tot + w = 8 * unat (block_event b) \<Longrightarrow> length P = 3 \<Longrightarrow>
   (\<And>a. a < 3 \<Longrightarrow> D a = P ! a + block_move b a) \<Longrightarrow> b = st_block_buffer (mot m) ! unat j \<Longrightarrow> exec_part (j, w, D) m"
  by (auto simp: exec_part_def Let_def)

text \<open>The part of the interrupt's data that the invariants read.\<close>

definition st_view :: "st_t \<Rightarrow> _" where
  "st_view t = (counters t, st_steps t, step_count t, exec_block_index t, exec_block t, exec_segment t)"

lemma progress_frame:
  "st_view (st (mot m')) = st_view (st (mot m)) \<Longrightarrow> busy (mot m') = busy (mot m) \<Longrightarrow>
   sys_position (rt m') = sys_position (rt m) \<Longrightarrow> st_block_buffer (mot m') ! unat j = st_block_buffer (mot m) ! unat j \<Longrightarrow>
   progress ns b j P tot m' = progress ns b j P tot m"
  by (simp add: st_view_def progress_def tracing_def loaded_def motor_ok_def)

lemma exec_to_frame:
  assumes "exec_to (j, w, D) m" and "st_view (st (mot m')) = st_view (st (mot m))" and "busy (mot m') = busy (mot m)"
    and "sys_position (rt m') = sys_position (rt m)"
    and "st_block_buffer (mot m') ! unat j = st_block_buffer (mot m) ! unat j
      \<or> w = 0 \<and> exec_segment (st (mot m)) = None \<and> at_motors D m"
  shows "exec_to (j, w, D) m'"
proof (cases "w = 0 \<and> exec_segment (st (mot m)) = None \<and> at_motors D m")
  case True
  then show ?thesis using assms(1-4) by (simp add: exec_to_def at_motors_def st_view_def)
next
  case False
  then have "st_block_buffer (mot m') ! unat j = st_block_buffer (mot m) ! unat j" "exec_part (j, w, D) m"
    using assms(1,5) by (auto simp: exec_to_def)
  then have "exec_part (j, w, D) m'"
    using progress_frame [OF assms(2-4)] by (simp add: exec_part_def Let_def)
  then show ?thesis using assms(1-3) by (simp add: exec_to_def st_view_def)
qed

lemma exec_to_rest:
  assumes "exec_to (j, 0, D) m" and "exec_segment (st (mot m)) = None"
  shows "at_motors D m"
proof -
  let ?b = "st_block_buffer (mot m) ! unat j"
  consider "at_motors D m" | "exec_part (j, 0, D) m" using assms by (auto simp: exec_to_def)
  then show ?thesis
  proof cases
    case 2
    then obtain P where g: "block_good ?b" and p: "progress (block_steps ?b) ?b j P (8 * unat (block_event ?b)) m"
      and P: "length P = 3" "\<forall>a < 3. D a = P ! a + block_move ?b a"
      by (auto simp: exec_part_def Let_def)
    note u = block_data_unat [OF g [unfolded block_good_def]]
    have t: "tracing (block_steps ?b) ?b j P (8 * unat (block_event ?b)) m" using p assms(2) by (auto simp: progress_def)
    then have len: "length (sys_position (rt m)) = 3" by (simp add: tracing_def motor_ok_def)
    have "sys_position (rt m) ! a = D a" if a: "a < 3" for a
    proof -
      have "axis_ok ?b a (P ! a) (unat (sb_step_event_count ?b) * unat (block_steps ?b ! a))
          (counters (st (mot m)) ! a) (sys_position (rt m) ! a)"
        using t a u(3) [OF a] by (simp add: tracing_def motor_ok_def)
      from axis_complete [OF this u(3) [OF a] u(5) [OF a]] show ?thesis using P a by (simp add: block_move_def)
    qed
    with len show ?thesis by (simp add: at_motors_def)
  qed
qed

lemma progress_next:
  assumes bd: "block_data ns event b" and p: "progress ns b j P tot m" and e: "exec_segment (st (mot m)) \<noteq> None"
  shows "progress ns b j P tot (TIMER1_COMPA_vect m)"
proof -
  let ?n = "on_mot isr_output_pins m"
  obtain w l where w: "tracing ns b j P w m" "loaded b l m" "w + unat (step_count (st (mot m))) * 2 ^ (3 - l) = tot"
    using p e by (auto simp: progress_def)
  have b: "\<not> busy (mot m)" using w(1) by (simp add: tracing_def)
  have "progress ns b j P tot (isr_execute ?n)"
    by (rule progress_tick [OF bd, of l _ j _ w])
       (use w in \<open>simp_all add: tracing_def loaded_def motor_ok_def on_mot_pins\<close>)
  then show ?thesis using timer1_tick(1) [OF b e] by simp
qed

lemma progress_idle: "progress ns b j P tot m \<Longrightarrow> \<not> busy (mot m) \<and> exec_block_index (st (mot m)) = j"
  by (auto simp: progress_def tracing_def)

lemma exec_tick:
  assumes "exec_to e m" and "exec_segment (st (mot m)) \<noteq> None"
  shows "exec_to e (TIMER1_COMPA_vect m)"
proof -
  obtain j w D where e: "e = (j, w, D)" by (metis prod_cases3)
  let ?b = "st_block_buffer (mot m) ! unat j"
  from assms obtain P tot where p: "block_good ?b" "progress (block_steps ?b) ?b j P tot m"
    "tot + w = 8 * unat (block_event ?b)" "length P = 3" "\<forall>a < 3. D a = P ! a + block_move ?b a"
    by (auto simp: e exec_to_def exec_part_def Let_def)
  have n: "progress (block_steps ?b) ?b j P tot (TIMER1_COMPA_vect m)"
    by (rule progress_next [OF p(1) [unfolded block_good_def] p(2) assms(2)])
  then have "exec_part e (TIMER1_COMPA_vect m)" unfolding e using p by (intro exec_partI) simp_all
  then show ?thesis using progress_idle [OF n] by (simp add: e exec_to_def)
qed

text \<open>Loading a segment of the block that is being traced, and the first one of the next block.\<close>

lemma exec_load_same:
  assumes "exec_to (j, w, D) m" and seg: "exec_segment (st (mot m)) = None"
    "segment_buffer_head (mot m) \<noteq> segment_buffer_tail (mot m)"
    and sg: "sg = segment_buffer (mot m) ! unat (segment_buffer_tail (mot m))"
    and t: "take_segment sg (j, w, D) = Some e"
  shows "exec_to e (TIMER1_COMPA_vect m)"
proof -
  let ?b = "st_block_buffer (mot m) ! unat j"
  have v: "sg_st_block_index sg = j" "segment_valid sg" "weight sg \<le> w" and e: "e = (j, w - weight sg, D)"
    using t by (simp_all split: if_splits)
  have "0 < weight sg" using v(2) by (simp add: weight_def segment_valid_def unat_gt_0)
  then have w: "w \<noteq> 0" using v(3) by linarith
  from assms(1) w obtain P tot where p: "block_good ?b" "progress (block_steps ?b) ?b j P tot m"
    "tot + w = 8 * unat (block_event ?b)" "length P = 3" "\<forall>a < 3. D a = P ! a + block_move ?b a"
    by (auto simp: exec_to_def exec_part_def Let_def)
  have b: "\<not> busy (mot m)" using progress_idle [OF p(2)] by simp
  have n: "progress (block_steps ?b) ?b j P (tot + weight sg) (TIMER1_COMPA_vect m)"
    using progress_load [OF p(1) [unfolded block_good_def] seg(1) b seg(2) sg v(1,2) refl,
        of "m\<lparr>rt := (rt m)\<lparr>sys_position := P\<rparr>\<rparr>" tot] p(2) by simp
  have "exec_part e (TIMER1_COMPA_vect m)" unfolding e using p(3-5) v(3) by (intro exec_partI [OF p(1) n]) simp_all
  then show ?thesis using progress_idle [OF n] by (simp add: e exec_to_def)
qed

lemma at_motors_axes: "at_motors D m \<Longrightarrow> length (sys_position (rt m)) = 3 \<and> (\<forall>a < 3. sys_position (rt m) ! a = D a)"
  by (simp add: at_motors_def)

lemma exec_load_new:
  assumes "exec_to (j, w, D) m" and seg: "exec_segment (st (mot m)) = None"
    "segment_buffer_head (mot m) \<noteq> segment_buffer_tail (mot m)"
    and sg: "sg = segment_buffer (mot m) ! unat (segment_buffer_tail (mot m))" "sg_st_block_index sg \<noteq> j"
    and t: "Option.bind (enter_block (st_block_buffer (mot m)) (j, w, D)) (take_segment sg) = Some e"
  shows "exec_to e (TIMER1_COMPA_vect m)"
proof -
  let ?k = "st_next_block_index j" let ?b = "st_block_buffer (mot m) ! unat ?k"
  have w: "w = 0" and g: "block_good ?b" and v: "sg_st_block_index sg = ?k" "segment_valid sg"
      "weight sg \<le> 8 * unat (block_event ?b)"
    and e: "e = (?k, 8 * unat (block_event ?b) - weight sg, \<lambda>a. D a + block_move ?b a)"
    using t by (simp_all add: Let_def split: if_splits)
  have x: "exec_block_index (st (mot m)) \<noteq> ?k" and b: "\<not> busy (mot m)" using assms(1) sg(2) v(1) by (auto simp: exec_to_def)
  note at = at_motors_axes [OF exec_to_rest [OF assms(1) [unfolded w] seg(1)]]
  have p: "progress (block_steps ?b) ?b ?k (sys_position (rt m)) (weight sg) (TIMER1_COMPA_vect m)"
    using progress_load [OF g [unfolded block_good_def] seg(1) b seg(2) sg(1) v(1,2) refl, of m 0] x at by simp
  have "exec_part e (TIMER1_COMPA_vect m)"
    unfolding e using v(3) at by (intro exec_partI [OF g p]) simp_all
  then show ?thesis using progress_idle [OF p] by (simp add: e exec_to_def)
qed

lemma exec_load:
  assumes "exec_to e m" and seg: "exec_segment (st (mot m)) = None"
    "segment_buffer_head (mot m) \<noteq> segment_buffer_tail (mot m)"
    and sg: "sg = segment_buffer (mot m) ! unat (segment_buffer_tail (mot m))"
    and c: "consume (st_block_buffer (mot m)) sg e = Some e'"
  shows "exec_to e' (TIMER1_COMPA_vect m)"
proof -
  obtain j w D where e: "e = (j, w, D)" by (metis prod_cases3)
  show ?thesis
    using c assms(1) exec_load_same [OF _ seg sg, of j w D e'] exec_load_new [OF _ seg sg, of j w D e']
    by (auto simp: e consume_def split: if_splits)
qed

text \<open>A tick with nothing to do, and what the main program may do.\<close>

lemma exec_empty_tick:
  assumes "exec_to e m" and "exec_segment (st (mot m)) = None" and "segment_buffer_head (mot m) = segment_buffer_tail (mot m)"
  shows "exec_to e (TIMER1_COMPA_vect m)" and "unloaded (mot (TIMER1_COMPA_vect m)) = unloaded (mot m)"
proof -
  obtain j w D where e: "e = (j, w, D)" by (metis prod_cases3)
  have b: "\<not> busy (mot m)" using assms(1) by (simp add: e exec_to_def)
  have t: "TIMER1_COMPA_vect m = isr_buffer_empty (on_mot isr_output_pins m)"
    unfolding TIMER1_COMPA_vect_def Let_def on_mot_pins by (simp add: b assms)
  have f: "st (mot (TIMER1_COMPA_vect m)) = st (mot m)" "\<not> busy (mot (TIMER1_COMPA_vect m))"
    "sys_position (rt (TIMER1_COMPA_vect m)) = sys_position (rt m)"
    "segment_buffer_tail (mot (TIMER1_COMPA_vect m)) = segment_buffer_tail (mot m)"
    by (simp_all add: t isr_buffer_empty_def Let_def st_go_idle_def machine_lift isr_output_pins_def system_set_exec_state_flag_def)
  show "exec_to e (TIMER1_COMPA_vect m)"
    using assms(1) b f unfolding e by - (rule exec_to_frame [where m = m], simp_all)
  show "unloaded (mot (TIMER1_COMPA_vect m)) = unloaded (mot m)" by (simp add: unloaded_def ring_segs_def f)
qed

section \<open>The ring of block data\<close>

interpretation blk_ring: ring "SEGMENT_BUFFER_SIZE - 1" unat st_next_block_index
proof unfold_locales
  fix i :: u8 assume "unat i < SEGMENT_BUFFER_SIZE - 1"
  then show "unat (st_next_block_index i) = Suc (unat i) mod (SEGMENT_BUFFER_SIZE - 1)"
    using unat_u8_Suc [of i] by (auto simp: st_next_block_index_def grbl_const u8_eq_iff)
qed (simp add: SEGMENT_BUFFER_SIZE_def)

lemma consume_step:
  assumes "consume B sg e = Some e'"
  obtains (same) "fst e' = fst e" "\<And>B'. consume B' sg e = Some e'"
    | (new) "fst e' = st_next_block_index (fst e)" "fst (snd e) = 0"
        "\<And>B'. B' ! unat (fst e') = B ! unat (fst e') \<Longrightarrow> consume B' sg e = Some e'"
proof -
  obtain j w D where e: "e = (j, w, D)" by (metis prod_cases3)
  show thesis
    using assms same new unfolding e by (fastforce simp: consume_def Let_def split: if_splits)
qed

text \<open>
  Segments of \<open>q\<close> further blocks wait in the ring, one at least for each. The data of no other block
  is read.
\<close>

lemma consume_all_blocks:
  assumes "unat (fst e) < 5" and "consume_all B us e = Some f"
  shows "\<exists>q \<le> length us. unat (fst f) = (unat (fst e) + q) mod 5 \<and> (q = length us \<longrightarrow> us \<noteq> [] \<longrightarrow> fst (snd e) = 0)
    \<and> (\<forall>x b. (\<forall>i \<in> {1..q}. x \<noteq> (unat (fst e) + i) mod 5) \<longrightarrow> consume_all (B[x := b]) us e = Some f)"
  using assms
proof (induction us arbitrary: e)
  case Nil
  then show ?case by (intro exI [of _ 0]) auto
next
  case (Cons sg us)
  from Cons.prems(2) obtain e' where c: "consume B sg e = Some e'" and r: "consume_all B us e' = Some f"
    by (auto split: Option.bind_split_asm)
  from c show ?case
  proof (cases rule: consume_step)
    case same
    then have lt: "unat (fst e') < 5" using Cons.prems(1) by simp
    from Cons.IH [OF lt r] obtain q where q: "q \<le> length us" "unat (fst f) = (unat (fst e') + q) mod 5"
      "\<forall>x b. (\<forall>i \<in> {1..q}. x \<noteq> (unat (fst e') + i) mod 5) \<longrightarrow> consume_all (B[x := b]) us e' = Some f" by blast
    then show ?thesis using same by (intro exI [of _ q]) auto
  next
    case new
    have s: "unat (fst e') = Suc (unat (fst e)) mod 5"
      using blk_ring.idx_nxt [of "fst e"] Cons.prems(1) new(1) by (simp add: SEGMENT_BUFFER_SIZE_def)
    then have lt: "unat (fst e') < 5" by simp
    from Cons.IH [OF lt r] obtain q where q: "q \<le> length us" "unat (fst f) = (unat (fst e') + q) mod 5"
      "\<forall>x b. (\<forall>i \<in> {1..q}. x \<noteq> (unat (fst e') + i) mod 5) \<longrightarrow> consume_all (B[x := b]) us e' = Some f" by blast
    have sh: "(unat (fst e') + i) mod 5 = (unat (fst e) + Suc i) mod 5" for i
      unfolding s by (simp add: mod_simps)
    have "consume_all (B[x := b]) (sg # us) e = Some f"
      if x: "\<forall>i \<in> {1..Suc q}. x \<noteq> (unat (fst e) + i) mod 5" for x b
    proof -
      have "x \<noteq> unat (fst e')" using x s by force
      moreover have "\<forall>i \<in> {1..q}. x \<noteq> (unat (fst e') + i) mod 5"
      proof
        fix i assume "i \<in> {1..q}"
        then have "Suc i \<in> {1..Suc q}" by simp
        with x show "x \<noteq> (unat (fst e') + i) mod 5" unfolding sh by blast
      qed
      ultimately show ?thesis using new(3) q(3) by simp
    qed
    then show ?thesis using q(1,2) new(2) unfolding sh by (intro exI [of _ "Suc q"]) auto
  qed
qed

text \<open>
  With at most four segments waiting, the next place of the block ring holds no data that is still needed: it is
  another block than those of the waiting segments, and another than the one being traced unless that is done.
\<close>

lemma consume_all_next:
  assumes "unat (fst e) < 5" and "consume_all B us e = Some f" and "length us \<le> 4"
  shows "consume_all (B[unat (st_next_block_index (fst f)) := b]) us e = Some f"
    and "unat (st_next_block_index (fst f)) = unat (fst e) \<Longrightarrow> length us = 4 \<and> fst (snd e) = 0"
proof -
  from consume_all_blocks [OF assms(1,2)] obtain q where q: "q \<le> length us" "unat (fst f) = (unat (fst e) + q) mod 5"
    "q = length us \<longrightarrow> us \<noteq> [] \<longrightarrow> fst (snd e) = 0"
    "\<And>x b. \<forall>i \<in> {1..q}. x \<noteq> (unat (fst e) + i) mod 5 \<Longrightarrow> consume_all (B[x := b]) us e = Some f" by blast
  have "unat (fst f) < 5" using q(2) by simp
  then have n: "unat (st_next_block_index (fst f)) = (unat (fst e) + Suc q) mod 5"
    using blk_ring.idx_nxt [of "fst f"] q(2) by (simp add: SEGMENT_BUFFER_SIZE_def mod_simps)
  have ne: "(unat (fst e) + Suc q) mod 5 \<noteq> (unat (fst e) + i) mod 5" if "i < Suc q" "Suc q - i < 5" for i
  proof
    assume "(unat (fst e) + Suc q) mod 5 = (unat (fst e) + i) mod 5"
    then have "5 dvd (unat (fst e) + Suc q) - (unat (fst e) + i)" using mod_eq_dvd_iff_nat that by fastforce
    then show False using that by (auto dest: dvd_imp_le)
  qed
  show "consume_all (B[unat (st_next_block_index (fst f)) := b]) us e = Some f"
    unfolding n
  proof (intro q(4) ballI)
    fix i assume "i \<in> {1..q}"
    then show "(unat (fst e) + Suc q) mod 5 \<noteq> (unat (fst e) + i) mod 5" using q(1) assms(3) by (intro ne) auto
  qed
  assume "unat (st_next_block_index (fst f)) = unat (fst e)"
  then have "\<not> Suc q - 0 < 5" using n ne [of 0] assms(1) by auto
  then show "length us = 4 \<and> fst (snd e) = 0" using q(1,3) assms(3) by auto
qed

text \<open>A tick consumes at most one segment, and what the ring still holds leads to the same end.\<close>

lemma tick_consume:
  assumes "exec_to e m" and "seg_ring_ok (mot m)"
    and "consume_all (st_block_buffer (mot m)) (unloaded (mot m)) e = Some f"
    and "unat (fst e) < 5"
  obtains e' where "exec_to e' (TIMER1_COMPA_vect m)" and "unat (fst e') < 5"
    and "consume_all (st_block_buffer (mot m)) (unloaded (mot (TIMER1_COMPA_vect m))) e' = Some f"
proof -
  have b: "\<not> busy (mot m)" using assms(1) by (cases e) (simp add: exec_to_def)
  note r = tick_ring [OF assms(2) b]
  show thesis
  proof (cases "exec_segment (st (mot m)) = None")
    case F: False
    show thesis using that [OF exec_tick [OF assms(1) F] assms(4)] r(2) [OF F] assms(3) by simp
  next
    case T: True
    show thesis
    proof (cases "segment_buffer_head (mot m) = segment_buffer_tail (mot m)")
      case True
      show thesis using that [OF _ assms(4)] exec_empty_tick [OF assms(1) T True] assms(3) by simp
    next
      case False
      from r(3) [OF T this] assms(3) obtain e' where
        "consume (st_block_buffer (mot m)) (segment_buffer (mot m) ! unat (segment_buffer_tail (mot m))) e = Some e'"
        "consume_all (st_block_buffer (mot m)) (unloaded (mot (TIMER1_COMPA_vect m))) e' = Some f"
        by (auto split: Option.bind_split_asm)
      moreover from this(1) have "unat (fst e') < 5"
        using assms(4) blk_ring.idx_nxt_less [of "fst e"]
        by (cases rule: consume_step) (simp_all add: SEGMENT_BUFFER_SIZE_def)
      ultimately show thesis using that exec_load [OF assms(1) T False refl] by blast
    qed
  qed
qed

end
