(* ===== verification/Pipeline_Prep.thy ===== *)
theory Pipeline_Prep
  imports Pipeline_Exec Stepper_Plan
begin

text \<open>
  The producing end: what planning, replanning and the preparation of segments do to the moves that are
  still to be executed. Only the step counts and directions of the blocks matter for the position the
  machine will reach; the look-ahead, the overrides and a feed hold change the speeds alone.
\<close>

section \<open>Floating-point step counts\<close>

lemma f_ceil_integer: "f_finite x \<Longrightarrow> f_val x = of_int n \<Longrightarrow> f_finite (f_ceil x) \<and> f_val (f_ceil x) = of_int n"
proof (cases x)
  case (FFin s a)
  moreover assume "f_val x = of_int n"
  ultimately have "a = of_int (if s then - n else n)" by (auto simp: minus_equation_iff)
  then show ?thesis using FFin by simp
qed simp_all

lemma f_ceil_finite: "f_finite (f_ceil x) \<Longrightarrow> \<exists>n. f_val (f_ceil x) = of_int n"
  by (cases x) (auto intro: exI [of _ "- \<lfloor>a\<rfloor>" for a])

lemma f_sub_integer:
  assumes "f_finite x" "f_finite y" and "f_val x = of_int a" "f_val y = of_int b" and "\<bar>a - b\<bar> \<le> 2 ^ 24"
  shows "f_to_int (f_sub x y) = a - b"
proof -
  obtain s m t n where x: "x = FFin s m" and y: "y = FFin t n" using assms(1,2) by (cases x; cases y) auto
  have v: "f_val (FFin s m) + f_val (FFin (\<not> t) n) = of_int (a - b)"
    using assms(3,4) by (simp add: x y split: if_splits)
  show ?thesis
  proof (cases "a = b")
    case True
    then show ?thesis using v by (simp add: x y f_sub_def)
  next
    case False
    have "f_sub x y = mk_f32 (a - b < 0) (of_int \<bar>a - b\<bar>)"
      using v False by (simp add: x y f_sub_def Let_def del: f_val.simps)
    also have "\<dots> = FFin (a - b < 0) (of_int \<bar>a - b\<bar>)"
      using assms(5) by (intro mk_f32_repr f_repr_int int_le_f_max) simp_all
    finally show ?thesis by (simp del: of_int_diff)
  qed
qed

lemma f_mul_zero: "f_val x = 0 \<Longrightarrow> f_finite x \<Longrightarrow> f_finite (f_ceil (f_mul y x)) \<Longrightarrow> f_val (f_ceil (f_mul y x)) = 0"
  by (cases x; cases y) (auto split: if_splits)

text \<open>A block that ends without a distance left.\<close>

lemma block_end_zero:
  assumes "f_eq mm c" and "\<not> f_lt f_zero mm" and "\<not> f_lt c f_zero"
  shows "f_finite mm" and "f_val mm = 0"
  using assms by (cases mm; cases c; auto split: if_splits)+

text \<open>The weight of a segment does not depend on its smoothing level.\<close>

lemma segment_rate_weight:
  assumes "n_step sg = word_of_int d" and "0 < d" and "d < 2 ^ 13"
  shows "segment_valid (segment_rate c sg)" and "weight (segment_rate c sg) = 8 * nat d"
    and "sg_st_block_index (segment_rate c sg) = sg_st_block_index sg"
proof -
  have u: "unat (n_step sg) = nat d" using assms by (simp add: unat_eq_nat_uint uint_word_of_int)
  have p: "unat (push_bit l (n_step sg)) = nat d * 2 ^ l" if "l \<le> 3" for l
  proof -
    have "(2::nat) ^ l \<le> 2 ^ 3" using that by (rule power_increasing) simp
    then have "nat d * 2 ^ l \<le> nat d * 2 ^ 3" by (rule mult_left_mono) simp
    also have "\<dots> < 2 ^ 16" using assms(2,3) by simp
    finally have lt: "unat (n_step sg) * 2 ^ l < 2 ^ 16" by (simp add: u)
    have "l = 0 \<or> l = 1 \<or> l = 2 \<or> l = 3" using that by linarith
    then have "unat ((2 :: u16) ^ l) = 2 ^ l" by auto
    then show ?thesis using unat_mult_lem [of "n_step sg" "2 ^ l"] lt by (simp add: push_bit_eq_mult u)
  qed
  have r: "unat (n_step (segment_rate c sg)) = nat d * 2 ^ unat (amass_level (segment_rate c sg))
      \<and> unat (amass_level (segment_rate c sg)) \<le> 3"
    using p [of 0] p [of 1] p [of 2] p [of 3] by (simp add: segment_rate_def Let_def)
  let ?l = "unat (amass_level (segment_rate c sg))"
  have "(2::nat) ^ ?l * 2 ^ (3 - ?l) = 8" using r by (simp flip: power_add)
  then have "nat d * 2 ^ ?l * 2 ^ (3 - ?l) = nat d * 8" by (metis mult.assoc)
  then show "weight (segment_rate c sg) = 8 * nat d" using r by (simp add: weight_def)
  show "segment_valid (segment_rate c sg)"
    using r assms(2) by (auto simp: segment_valid_def MAX_AMASS_LEVEL_def simp flip: unat_eq_zero)
  show "sg_st_block_index (segment_rate c sg) = sg_st_block_index sg" by (simp add: segment_rate_def Let_def)
qed

section \<open>Replanning changes speeds only\<close>

type_synonym move = "u32 list \<times> u32 \<times> u8"

definition blk_static :: "plan_block_t \<Rightarrow> move" where
  "blk_static b = (steps b, step_event_count b, direction_bits b)"

definition plan_moves :: "'a planner_t_scheme \<Rightarrow> move list" where
  "plan_moves s = map blk_static (plan_blocks s)"

definition recalc :: "stepper_t \<Rightarrow> bool" where
  "recalc s \<longleftrightarrow> recalculate_flag (prep s) AND PREP_FLAG_RECALCULATE \<noteq> 0"

text \<open>The block at the tail of the plan has been loaded by the preparation.\<close>

definition started :: "stepper_t \<Rightarrow> bool" where
  "started s \<longleftrightarrow> pl_block s \<noteq> None \<or> recalc s"

definition static_view :: "stepper_t \<Rightarrow> _" where
  "static_view s = (map blk_static (block_buffer s), block_buffer_tail s, block_buffer_head s, pl_position s,
     st_block_buffer s, ring_segs s, segment_buffer_head s, segment_buffer_tail s, length (segment_buffer s),
     st_view (st s), busy s, steps_remaining (prep s), pr_st_block_index (prep s))"

text \<open>A change that leaves the moves alone; it may take the block from the preparation, to be replanned.\<close>

definition keeps :: "stepper_t \<Rightarrow> stepper_t \<Rightarrow> bool" where
  "keeps s s' \<longleftrightarrow> static_view s' = static_view s \<and>
     (pl_block s' = pl_block s \<and> recalc s' = recalc s \<and> mm_complete (prep s') = mm_complete (prep s)
      \<or> pl_block s \<noteq> None \<and> pl_block s' = None \<and> recalc s')"

lemma keeps_refl [simp]: "keeps s s"
  by (simp add: keeps_def)

lemma keeps_trans [trans]: "keeps s t \<Longrightarrow> keeps t u \<Longrightarrow> keeps s u"
  by (auto simp: keeps_def)

lemma keeps_if: "keeps s t \<Longrightarrow> keeps s u \<Longrightarrow> keeps s (if c then t else u)"
  by simp

lemma keeps_started: "keeps s s' \<Longrightarrow> started s' = started s"
  unfolding keeps_def started_def by metis

lemma map_static_update:
  "(\<And>b. blk_static (f b) = blk_static b) \<Longrightarrow> map blk_static (xs[i := f (xs ! i)]) = map blk_static xs"
  by (cases "i < length xs") (simp_all add: map_update list_update_same_conv list_update_beyond)

lemma keeps_upd_blk: "(\<And>b. blk_static (f b) = blk_static b) \<Longrightarrow> keeps s (upd_blk i f s)"
  by (simp add: keeps_def static_view_def upd_blk_def blk_def map_static_update ring_segs_def recalc_def)

lemma keeps_planned: "keeps s (s\<lparr>block_buffer_planned := x\<rparr>)" and keeps_nominal: "keeps s (s\<lparr>pl_previous_nominal_speed := v\<rparr>)"
  by (simp_all add: keeps_def static_view_def ring_segs_def recalc_def)

lemma blk_static_upd [simp]:
  "blk_static (b\<lparr>entry_speed_sqr := v\<rparr>) = blk_static b" "blk_static (b\<lparr>millimeters := v\<rparr>) = blk_static b"
  "blk_static (b\<lparr>max_entry_speed_sqr := v\<rparr>) = blk_static b" "blk_static (reverse_entry e b) = blk_static b"
  "blk_static (plan_compute_profile_parameters b n p) = blk_static b"
  by (simp_all add: blk_static_def reverse_entry_def plan_compute_profile_parameters_def Let_def)

lemma keeps_update: "keeps s (st_update_plan_block_parameters s)"
proof (cases "pl_block s")
  case (Some i)
  let ?f = "recalculate_flag (prep s) OR PREP_FLAG_RECALCULATE"
  have "bit (?f AND PREP_FLAG_RECALCULATE) 0" by (simp add: PREP_FLAG_RECALCULATE_def bit_simps)
  then have "?f AND PREP_FLAG_RECALCULATE \<noteq> 0" by (metis bit_0_eq bot_apply bot_bool_def)
  then show ?thesis
    by (simp add: keeps_def static_view_def st_update_plan_block_parameters_def Some Let_def upd_blk_def blk_def
        map_static_update ring_segs_def recalc_def)
qed (simp add: st_update_plan_block_parameters_def)

lemma keeps_reverse: "keeps s (reverse_pass st_update_plan_block_parameters n i c s)"
proof (induction n arbitrary: i c s)
  case (Suc n)
  let ?i = "plan_prev_block_index i"
  let ?s = "if ?i = block_buffer_tail s then st_update_plan_block_parameters s else s"
  let ?t = "upd_blk i (reverse_entry (entry_speed_sqr (blk ?s c))) ?s"
  have "keeps s ?s" by (simp add: keeps_update)
  also have "keeps ?s ?t" by (rule keeps_upd_blk) simp
  also have "keeps ?t (reverse_pass st_update_plan_block_parameters n ?i i ?t)" by (rule Suc.IH)
  finally show ?case by (simp add: Let_def)
qed simp

lemma keeps_forward: "keeps s (forward_pass n i c (s :: stepper_t))"
proof (induction n arbitrary: i c s)
  case (Suc n)
  let ?e = "f_add (entry_speed_sqr (blk s c)) (accel_term (blk s c))"
  let ?s = "if f_lt (entry_speed_sqr (blk s c)) (entry_speed_sqr (blk s i)) \<and> f_lt ?e (entry_speed_sqr (blk s i))
            then (upd_blk i (\<lambda>b. b\<lparr>entry_speed_sqr := ?e\<rparr>) s)\<lparr>block_buffer_planned := i\<rparr> else s"
  let ?t = "if f_eq (entry_speed_sqr (blk ?s i)) (max_entry_speed_sqr (blk ?s i)) then ?s\<lparr>block_buffer_planned := i\<rparr> else ?s"
  have "keeps s (upd_blk i (\<lambda>b. b\<lparr>entry_speed_sqr := ?e\<rparr>) s)" by (rule keeps_upd_blk) simp
  then have "keeps s ((upd_blk i (\<lambda>b. b\<lparr>entry_speed_sqr := ?e\<rparr>) s)\<lparr>block_buffer_planned := i\<rparr>)"
    using keeps_planned keeps_trans by blast
  then have "keeps s ?s" by (intro keeps_if keeps_refl)
  also have "keeps ?s ?t" by (intro keeps_if keeps_refl keeps_planned)
  also have "keeps ?t (forward_pass n (plan_next_block_index i) i ?t)" by (rule Suc.IH)
  finally show ?case unfolding forward_pass.simps Let_def by (intro keeps_if keeps_refl)
qed simp

lemma keeps_recalculate: "keeps s (planner_recalculate st_update_plan_block_parameters s)"
proof -
  let ?i = "plan_prev_block_index (block_buffer_head s)" let ?k = "plan_prev_block_index ?i"
  let ?s = "upd_blk ?i (\<lambda>b. b\<lparr>entry_speed_sqr := f_min (max_entry_speed_sqr b) (accel_term b)\<rparr>) s"
  let ?t = "if ?k = block_buffer_planned ?s then (if ?k = block_buffer_tail ?s then st_update_plan_block_parameters ?s else ?s)
            else reverse_pass st_update_plan_block_parameters BLOCK_BUFFER_SIZE ?k ?i ?s"
  have "keeps s ?s" by (rule keeps_upd_blk) simp
  also have "keeps ?s ?t" by (intro keeps_if keeps_refl keeps_update keeps_reverse)
  also have "keeps ?t (forward_pass BLOCK_BUFFER_SIZE (plan_next_block_index (block_buffer_planned ?t)) (block_buffer_planned ?t) ?t)"
    by (rule keeps_forward)
  finally show ?thesis unfolding planner_recalculate_def Let_def by (intro keeps_if keeps_refl)
qed

lemma keeps_reinitialize: "keeps s (plan_cycle_reinitialize st_update_plan_block_parameters s)"
proof -
  let ?s = "st_update_plan_block_parameters s"
  have "keeps s ?s" by (rule keeps_update)
  also have "keeps ?s (?s\<lparr>block_buffer_planned := block_buffer_tail ?s\<rparr>)" by (rule keeps_planned)
  also have "keeps \<dots> (planner_recalculate st_update_plan_block_parameters \<dots>)" by (rule keeps_recalculate)
  finally show ?thesis by (simp add: plan_cycle_reinitialize_def Let_def)
qed

lemma keeps_profile_loop: "keeps s (profile_loop sy n i v (s :: stepper_t))"
proof (induction n arbitrary: i v s)
  case (Suc n)
  let ?v = "plan_compute_profile_nominal_speed sy (blk s i)"
  let ?s = "upd_blk i (\<lambda>b. plan_compute_profile_parameters b ?v v) s"
  have "keeps s ?s" by (rule keeps_upd_blk) simp
  also have "keeps ?s (profile_loop sy n (plan_next_block_index i) ?v ?s)" by (rule Suc.IH)
  finally show ?case by (simp add: Let_def keeps_nominal)
qed (simp add: keeps_nominal)

section \<open>The parts of a preparation pass\<close>

lemma recalc_bits:
  "(x OR PREP_FLAG_DECEL_OVERRIDE) AND PREP_FLAG_RECALCULATE = x AND PREP_FLAG_RECALCULATE"
  "(x AND NOT PREP_FLAG_DECEL_OVERRIDE) AND PREP_FLAG_RECALCULATE = x AND PREP_FLAG_RECALCULATE"
  by (rule bit_eqI; auto simp: bit_simps PREP_FLAG_DECEL_OVERRIDE_def PREP_FLAG_RECALCULATE_def bit_numeral_rec bit_1_iff)+

lemma ramp_step_static:
  "ramp_step b p mm tv = (p', mm', tv') \<Longrightarrow> steps_remaining p' = steps_remaining p \<and> step_per_mm p' = step_per_mm p
     \<and> pr_st_block_index p' = pr_st_block_index p \<and> mm_complete p' = mm_complete p \<and> recalculate_flag p' = recalculate_flag p"
  by (auto simp: ramp_step_def ramp_decel_override_def ramp_accel_def ramp_cruise_def ramp_decel_def Let_def split: if_splits)

definition prep_same :: "st_prep_t \<Rightarrow> st_prep_t \<Rightarrow> bool" where
  "prep_same p p' \<longleftrightarrow> steps_remaining p' = steps_remaining p \<and> step_per_mm p' = step_per_mm p
     \<and> pr_st_block_index p' = pr_st_block_index p \<and> mm_complete p' = mm_complete p \<and> recalculate_flag p' = recalculate_flag p"

lemma ramp_loop_static: "ramp_loop b mn p mm tv dt dm = Some r \<Longrightarrow> prep_same p (fst r)"
proof (induction rule: ramp_loop.raw_induct [rotated 1, consumes 1])
  case (1 go b mn p mm tv dt dm r)
  obtain q mm' tv' where q: "ramp_step b p mm tv = (q, mm', tv')" by (metis prod_cases3)
  have go: "go b mn q mm' t d d' = Some r \<Longrightarrow> prep_same p (fst r)" for t d d'
    using 1(1) [of b mn q mm' t d d' r] ramp_step_static [OF q] by (simp add: prep_same_def)
  show ?case using 1(2) go ramp_step_static [OF q] by (auto simp: q Let_def prep_same_def split: if_splits)
qed

lemma keeps_prep: "prep_same (prep s) p \<Longrightarrow> keeps s (s\<lparr>prep := p\<rparr>)"
  by (simp add: keeps_def static_view_def prep_same_def ring_segs_def recalc_def)

lemma keeps_upd_prep: "(\<And>p. prep_same p (f p)) \<Longrightarrow> keeps s (upd_prep f s)"
  unfolding upd_prep_def by (rule keeps_prep)

lemma profile_static:
  "steps_remaining (profile_hold b p) = steps_remaining p" "pr_st_block_index (profile_hold b p) = pr_st_block_index p"
  "recalculate_flag (profile_hold b p) = recalculate_flag p"
  "steps_remaining (profile_normal v e b p) = steps_remaining p" "pr_st_block_index (profile_normal v e b p) = pr_st_block_index p"
  "recalculate_flag (profile_normal v e b p) AND PREP_FLAG_RECALCULATE = recalculate_flag p AND PREP_FLAG_RECALCULATE"
  "mm_complete (profile_normal v e b p) = mm_complete p"
  "mm_complete p = f_zero \<Longrightarrow> \<not> f_lt (mm_complete (profile_hold b p)) f_zero"
  by (simp_all add: profile_hold_def profile_normal_def Let_def recalc_bits)

lemma velocity_profile_static:
  "static_view (mot (prep_velocity_profile i m)) = static_view (mot m)"
  "pl_block (mot (prep_velocity_profile i m)) = pl_block (mot m)" "recalc (mot (prep_velocity_profile i m)) = recalc (mot m)"
  "\<not> f_lt (mm_complete (prep (mot (prep_velocity_profile i m)))) f_zero" "rt (prep_velocity_profile i m) = rt m"
  by (simp_all add: prep_velocity_profile_def Let_def upd_prep_def static_view_def recalc_def ring_segs_def profile_static)

text \<open>The data of a block in the ring of the interrupt.\<close>

definition image_of :: "plan_block_t \<Rightarrow> st_block_t \<Rightarrow> bool" where
  "image_of b c \<longleftrightarrow> sb_steps c = map (\<lambda>idx. push_bit MAX_AMASS_LEVEL (steps b ! idx)) [0..<N_AXIS]
     \<and> sb_step_event_count c = push_bit MAX_AMASS_LEVEL (step_event_count b) \<and> sb_direction_bits c = direction_bits b"

lemma load_block_static:
  fixes i :: u8
  assumes "unat (st_next_block_index (pr_st_block_index (prep (mot m)))) < length (st_block_buffer (mot m))"
  defines "n \<equiv> prep_load_block i m" and "j \<equiv> st_next_block_index (pr_st_block_index (prep (mot m)))"
  shows "map blk_static (block_buffer (mot n)) = map blk_static (block_buffer (mot m))"
    and "block_buffer_tail (mot n) = block_buffer_tail (mot m)" "block_buffer_head (mot n) = block_buffer_head (mot m)"
      "pl_position (mot n) = pl_position (mot m)" "ring_segs (mot n) = ring_segs (mot m)"
      "segment_buffer_head (mot n) = segment_buffer_head (mot m)" "segment_buffer_tail (mot n) = segment_buffer_tail (mot m)"
      "length (segment_buffer (mot n)) = length (segment_buffer (mot m))"
      "st (mot n) = st (mot m)" "busy (mot n) = busy (mot m)" "pl_block (mot n) = pl_block (mot m)" "recalc (mot n) = recalc (mot m)"
    and "pr_st_block_index (prep (mot n)) = j" and "steps_remaining (prep (mot n)) = f_of_int (uint (step_event_count (blk (mot m) i)))"
    and "\<exists>c. st_block_buffer (mot n) = (st_block_buffer (mot m))[unat j := c] \<and> image_of (blk (mot m) i) c"
    and "rt n = rt m"
proof -
  have m: "map blk_static ((block_buffer s)[k := (block_buffer s ! k)\<lparr>entry_speed_sqr := v\<rparr>]) = map blk_static (block_buffer s)"
    for s :: stepper_t and k v by (rule map_static_update) simp
  show "map blk_static (block_buffer (mot n)) = map blk_static (block_buffer (mot m))"
    by (simp add: n_def prep_load_block_def load_block_data_def load_block_speed_def load_block_laser_def Let_def upd_prep_def
        upd_blk_def blk_def m)
  show "\<exists>c. st_block_buffer (mot n) = (st_block_buffer (mot m))[unat j := c] \<and> image_of (blk (mot m) i) c"
    using assms(1)
    by (auto simp: n_def j_def prep_load_block_def load_block_data_def load_block_speed_def load_block_laser_def Let_def upd_prep_def
        upd_blk_def image_of_def)
qed (simp_all add: n_def j_def prep_load_block_def load_block_data_def load_block_speed_def load_block_laser_def Let_def upd_prep_def
      upd_blk_def ring_segs_def recalc_def recalc_bits)

end
