(* ===== verification/Pipeline_Inv.thy ===== *)
theory Pipeline_Inv
  imports Pipeline_Prep
begin

text \<open>
  The planner, the preparation of segments and the step interrupt working on one machine. The position
  the motors count and the position the planner keeps are connected by an invariant over every
  interleaving of the three: where the block under the interrupt ends, plus the segments in the ring, plus
  the moves of the blocks not yet loaded, is where the planner believes the machine to be.
\<close>

section \<open>The invariant\<close>

definition move_fits :: "move \<Rightarrow> bool" where
  "move_fits x \<longleftrightarrow> (case x of (ns, event, d) \<Rightarrow> length ns = 3 \<and> (\<forall>n \<in> set ns. n \<le> event) \<and> 0 < event \<and> unat event \<le> 2 ^ 24)"

definition move_by :: "move \<Rightarrow> nat \<Rightarrow> int" where
  "move_by x a = (case x of (ns, event, d) \<Rightarrow> (if d AND bitw (5 + a) \<noteq> 0 then - 1 else 1) * int (unat (ns ! a)))"

text \<open>The blocks the preparation has not loaded yet.\<close>

definition unstarted :: "stepper_t \<Rightarrow> move list" where
  "unstarted s = (if started s then tl (plan_moves s) else plan_moves s)"

text \<open>The motor positions of a position of the planner, which counts the axes.\<close>

definition motor_target :: "int list \<Rightarrow> nat \<Rightarrow> int" where
  "motor_target p a = (if a = 0 then p ! 0 + p ! 1 else if a = 1 then p ! 0 - p ! 1 else p ! 2)"

definition control_ok :: "stepper_t \<Rightarrow> bool" where
  "control_ok s \<longleftrightarrow>
     (pl_block s = None \<or> pl_block s = Some (block_buffer_tail s) \<and> \<not> recalc s \<and> \<not> f_lt (mm_complete (prep s)) f_zero)
     \<and> (started s \<longrightarrow> block_buffer_head s \<noteq> block_buffer_tail s) \<and> list_all move_fits (unstarted s)"

text \<open>The steps the preparation has still to queue for its block.\<close>

definition steps_left :: "stepper_t \<Rightarrow> nat \<Rightarrow> bool" where
  "steps_left s k \<longleftrightarrow> (if started s then f_finite (steps_remaining (prep s)) \<and> f_val (steps_remaining (prep s)) = of_int (int k)
     \<and> k \<le> 2 ^ 24 else k = 0)"

definition loaded_to :: "stepper_t \<Rightarrow> trace \<Rightarrow> nat \<Rightarrow> (nat \<Rightarrow> int) \<Rightarrow> bool" where
  "loaded_to s f k F \<longleftrightarrow> f = (pr_st_block_index (prep s), 8 * k, F)
     \<or> started s \<and> enter_block (st_block_buffer s) f = Some (pr_st_block_index (prep s), 8 * k, F)"

definition pipe_at :: "(nat \<Rightarrow> int) \<Rightarrow> trace \<Rightarrow> trace \<Rightarrow> nat \<Rightarrow> (nat \<Rightarrow> int) \<Rightarrow> machine \<Rightarrow> bool" where
  "pipe_at off e f k F m \<longleftrightarrow> exec_to e m \<and> unat (fst e) < 5
     \<and> consume_all (st_block_buffer (mot m)) (unloaded (mot m)) e = Some f \<and> loaded_to (mot m) f k F \<and> steps_left (mot m) k
     \<and> (\<forall>a < 3. motor_target (pl_position (mot m)) a + off a = F a + (\<Sum>x \<leftarrow> unstarted (mot m). move_by x a))"

definition pipe_inv :: "(nat \<Rightarrow> int) \<Rightarrow> machine \<Rightarrow> bool" where
  "pipe_inv off m \<longleftrightarrow> mot_wf (mot m) \<and> seg_ring_ok (mot m) \<and> control_ok (mot m) \<and> (\<exists>e f k F. pipe_at off e f k F m)"

lemma pipe_invI: "mot_wf (mot m) \<Longrightarrow> seg_ring_ok (mot m) \<Longrightarrow> control_ok (mot m) \<Longrightarrow> pipe_at off e f k F m \<Longrightarrow> pipe_inv off m"
  unfolding pipe_inv_def by blast

lemma steps_left_cong:
  "started s' = started s \<Longrightarrow> steps_remaining (prep s') = steps_remaining (prep s) \<Longrightarrow> steps_left s' k = steps_left s k"
  by (simp add: steps_left_def)

lemma loaded_to_cong:
  "started s' = started s \<Longrightarrow> pr_st_block_index (prep s') = pr_st_block_index (prep s) \<Longrightarrow>
   st_block_buffer s' = st_block_buffer s \<Longrightarrow> loaded_to s' f k F = loaded_to s f k F"
  by (simp add: loaded_to_def)

text \<open>At rest with an empty plan the two positions agree, up to the difference \<open>off\<close> they had at the start.\<close>

lemma pipe_inv_rest:
  assumes "pipe_inv off m" and "block_buffer_head (mot m) = block_buffer_tail (mot m)"
    and "segment_buffer_head (mot m) = segment_buffer_tail (mot m)" and "exec_segment (st (mot m)) = None" and "a < 3"
  shows "sys_position (rt m) ! a = motor_target (pl_position (mot m)) a + off a"
proof -
  obtain e f k F where p: "pipe_at off e f k F m" and c: "control_ok (mot m)" and r: "seg_ring_ok (mot m)" "mot_wf (mot m)"
    using assms(1) by (auto simp: pipe_inv_def)
  have ns: "\<not> started (mot m)" using c assms(2) by (auto simp: control_ok_def)
  have u: "unloaded (mot m) = []" using ring_segs_Nil [OF r(1)] assms(3,4) by (simp add: unloaded_def)
  have "unstarted (mot m) = []"
    using ns r(2) assms(2) by (simp add: unstarted_def plan_moves_def plan_blocks_def mot_wf_defs BLOCK_BUFFER_SIZE_def)
  then have t: "motor_target (pl_position (mot m)) a + off a = F a" using p assms(5) by (simp add: pipe_at_def)
  have "e = (pr_st_block_index (prep (mot m)), 0, F)"
    using p u ns by (simp add: pipe_at_def loaded_to_def steps_left_def)
  then have "at_motors F m" using p assms(4) exec_to_rest by (auto simp: pipe_at_def)
  then show ?thesis using t assms(5) by (simp add: at_motors_def)
qed

section \<open>Steps that leave the moves alone\<close>

lemma plan_moves_view:
  "mot_wf s \<Longrightarrow> plan_moves s = ring_list 16 (map blk_static (block_buffer s)) (unat (block_buffer_head s)) (unat (block_buffer_tail s))"
  by (auto simp: plan_moves_def plan_blocks_def ring_list_def mot_wf_defs BLOCK_BUFFER_SIZE_def)

lemma unstarted_view:
  "mot_wf s \<Longrightarrow> mot_wf s' \<Longrightarrow> static_view s' = static_view s \<Longrightarrow> started s' = started s \<Longrightarrow> unstarted s' = unstarted s"
  by (simp add: unstarted_def plan_moves_view static_view_def)

lemma pipe_frame:
  assumes p: "pipe_at off e f k F m" and v: "static_view (mot n) = static_view (mot m)" and s: "started (mot n) = started (mot m)"
    and wf: "mot_wf (mot m)" "mot_wf (mot n)" and r: "sys_position (rt n) = sys_position (rt m)"
  shows "pipe_at off e f k F n"
proof -
  have x: "st_view (st (mot n)) = st_view (st (mot m))" "st_block_buffer (mot n) = st_block_buffer (mot m)"
    "ring_segs (mot n) = ring_segs (mot m)" "busy (mot n) = busy (mot m)" "pl_position (mot n) = pl_position (mot m)"
    "steps_remaining (prep (mot n)) = steps_remaining (prep (mot m))"
    "pr_st_block_index (prep (mot n)) = pr_st_block_index (prep (mot m))"
    using v by (simp_all add: static_view_def)
  then have "unloaded (mot n) = unloaded (mot m)" by (simp add: unloaded_def st_view_def)
  moreover have "exec_to e n"
    using p x r by (cases e) (simp add: pipe_at_def exec_to_frame [where m = m])
  ultimately show ?thesis
    using p x unstarted_view [OF wf v s] loaded_to_cong [OF s x(7,2)] steps_left_cong [OF s x(6)] by (simp add: pipe_at_def)
qed

lemma seg_ring_frame: "static_view s' = static_view s \<Longrightarrow> seg_ring_ok s' = seg_ring_ok s"
  by (simp add: static_view_def seg_ring_ok_def st_view_def)

lemma pipe_keeps:
  assumes "pipe_inv off m" and k: "keeps (mot m) (mot n)" and "mot_wf (mot n)" and "sys_position (rt n) = sys_position (rt m)"
  shows "pipe_inv off n"
proof -
  have v: "static_view (mot n) = static_view (mot m)" using k by (simp add: keeps_def)
  have m: "mot_wf (mot m)" "seg_ring_ok (mot m)" "control_ok (mot m)" using assms(1) by (simp_all add: pipe_inv_def)
  obtain e f i F where p: "pipe_at off e f i F m" using assms(1) by (auto simp: pipe_inv_def)
  have t: "block_buffer_tail (mot n) = block_buffer_tail (mot m)" "block_buffer_head (mot n) = block_buffer_head (mot m)"
    using v by (simp_all add: static_view_def)
  have "control_ok (mot n)"
    using m(3) k keeps_started [OF k] unstarted_view [OF m(1) assms(3) v keeps_started [OF k]]
    by (auto simp: control_ok_def keeps_def t)
  then show ?thesis
    using m(2) seg_ring_frame [OF v] by (intro pipe_invI [OF assms(3) _ _ pipe_frame [OF p v keeps_started [OF k] m(1) assms(3,4)]]) simp
qed

section \<open>Ticks\<close>

lemma exec_index: "exec_to e m \<Longrightarrow> exec_block_index (st (mot m)) = fst e"
  by (cases e) (simp add: exec_to_def)

lemma pipe_tick:
  assumes "pipe_inv off m"
  shows "pipe_inv off (TIMER1_COMPA_vect m)"
proof -
  let ?n = "TIMER1_COMPA_vect m"
  have m: "mot_wf (mot m)" "seg_ring_ok (mot m)" "control_ok (mot m)" using assms by (simp_all add: pipe_inv_def)
  obtain e f k F where p: "pipe_at off e f k F m" using assms by (auto simp: pipe_inv_def)
  have x: "exec_to e m" "unat (fst e) < 5" "consume_all (st_block_buffer (mot m)) (unloaded (mot m)) e = Some f"
    using p by (simp_all add: pipe_at_def)
  obtain e' where e': "exec_to e' ?n" "unat (fst e') < 5"
      "consume_all (st_block_buffer (mot m)) (unloaded (mot ?n)) e' = Some f"
    using tick_consume [OF x(1) m(2) x(3,2)] .
  note v = tick_view [of m, unfolded main_view_def prod.inject]
  have wf: "mot_wf (mot ?n)" by (rule TIMER1_COMPA_wf [OF m(1)])
  have s: "started (mot ?n) = started (mot m)" using v by (simp add: started_def recalc_def)
  have u: "unstarted (mot ?n) = unstarted (mot m)" using v s m(1) wf by (simp add: unstarted_def plan_moves_view)
  have "pipe_at off e' f k F ?n"
    using p v s e' u loaded_to_cong [OF s, of f k F] steps_left_cong [OF s, of k] by (simp add: pipe_at_def)
  moreover have "control_ok (mot ?n)" using m(3) v s u by (simp add: control_ok_def recalc_def)
  moreover have "\<not> busy (mot m)" using x(1) by (cases e) (simp add: exec_to_def)
  ultimately show ?thesis using wf tick_ring(1) [OF m(2)] by (intro pipe_invI)
qed

section \<open>Loading a block\<close>

lemma unloaded_le:
  assumes "mot_wf s" and "seg_ring_ok s" and "segment_buffer_tail s \<noteq> segment_next_head s"
  shows "length (unloaded s) \<le> 4" and "exec_segment (st s) \<noteq> None \<Longrightarrow> length (unloaded s) < 4"
proof -
  let ?h = "segment_buffer_head s" let ?t = "segment_buffer_tail s"
  have r: "unat ?h < SEGMENT_BUFFER_SIZE" "unat ?t < SEGMENT_BUFFER_SIZE" using assms(2) by (simp_all add: seg_ring_ok_def)
  have "segment_next_head s = next_segment_index ?h" using assms(1) by (simp add: mot_wf_defs)
  then have "unat (next_segment_index ?h) \<noteq> unat ?t" using assms(3) by (auto simp: u8_eq_iff)
  then have "length (ring_segs s) \<noteq> 5" using seg.full_iff [OF r] by (simp add: ring_segs_def SEGMENT_BUFFER_SIZE_def)
  moreover have "length (ring_segs s) < 6" using ring_used_less [OF r] by (simp add: ring_segs_def SEGMENT_BUFFER_SIZE_def)
  ultimately have l: "length (ring_segs s) \<le> 4" by linarith
  then show "length (unloaded s) \<le> 4" by (auto simp: unloaded_def)
  assume e: "exec_segment (st s) \<noteq> None"
  then have "ring_segs s \<noteq> []" using ring_segs_Nil [OF assms(2)] assms(2) by (simp add: seg_ring_ok_def)
  then show "length (unloaded s) < 4" using l e by (cases "ring_segs s") (auto simp: unloaded_def)
qed

lemma drop_push3: "unat (x :: u32) < 2 ^ 28 \<Longrightarrow> drop_bit 3 (push_bit 3 x) = x"
proof -
  assume x: "unat x < 2 ^ 28"
  have "unat (drop_bit 3 (push_bit 3 x)) = unat (push_bit 3 x) div 8"
    unfolding unat_drop_bit_eq drop_bit_eq_div [where 'a = nat] by simp
  then have "unat (drop_bit 3 (push_bit 3 x)) = unat x" using unat_shift3 [OF x] by simp
  then show ?thesis by (rule word_unat_eq_iff [THEN iffD2])
qed

lemma image_good:
  assumes "image_of b c" and fit: "move_fits (blk_static b)"
  shows "block_good c" and "block_event c = step_event_count b" and "\<And>a. a < 3 \<Longrightarrow> block_move c a = move_by (blk_static b) a"
proof -
  have f: "length (steps b) = 3" "\<And>n. n \<in> set (steps b) \<Longrightarrow> n \<le> step_event_count b" "0 < step_event_count b"
    "unat (step_event_count b) \<le> 2 ^ 24" using fit by (auto simp: move_fits_def blk_static_def)
  have e: "unat (step_event_count b) < 2 ^ 28" using f(4) by simp
  have n: "unat (steps b ! i) < 2 ^ 28" if "i < 3" for i
    using f(1) f(2) [of "steps b ! i"] that e by (simp add: word_le_nat_alt)
  have m: "map (\<lambda>i. steps b ! i) [0..<3] = steps b" using f(1) map_nth [of "steps b"] by simp
  have s: "sb_steps c = map (push_bit 3) (steps b)"
    using assms(1) m by (simp add: image_of_def MAX_AMASS_LEVEL_def N_AXIS_def flip: map_map [unfolded o_def])
  have bs: "block_steps c = steps b"
    using n f(1) by (intro nth_equalityI) (simp_all add: block_steps_def s drop_push3)
  show ev: "block_event c = step_event_count b"
    using assms(1) drop_push3 [OF e] by (simp add: image_of_def block_event_def MAX_AMASS_LEVEL_def)
  show "block_good c"
    using assms(1) f e s by (simp add: block_good_def block_data_def bs ev image_of_def MAX_AMASS_LEVEL_def word_less_nat_alt)
  show "block_move c a = move_by (blk_static b) a" for a
    using assms(1) by (simp add: block_move_def bs move_by_def blk_static_def axis_sign_def image_of_def)
qed

lemma plan_moves_tail:
  assumes "mot_wf s" and "block_buffer_head s \<noteq> block_buffer_tail s"
  shows "plan_moves s = blk_static (blk s (block_buffer_tail s)) # tl (plan_moves s)"
proof -
  have "unat (block_buffer_head s) < 16" "unat (block_buffer_tail s) < 16"
    using assms(1) by (simp_all add: mot_wf_defs BLOCK_BUFFER_SIZE_def)
  then show ?thesis using plan.list_pop [of "block_buffer_head s" "block_buffer_tail s" "block_buffer s"] assms(2)
    by (simp add: plan_moves_def plan_blocks_def blk_def u8_eq_iff)
qed

text \<open>A machine \<open>n\<close> in which the block at the tail of \<open>m\<close> has been loaded, as the block data \<open>c\<close>.\<close>

definition block_loaded :: "machine \<Rightarrow> machine \<Rightarrow> st_block_t \<Rightarrow> bool" where
  "block_loaded m n c \<longleftrightarrow>
     (let b = blk (mot m) (block_buffer_tail (mot m)); j = st_next_block_index (pr_st_block_index (prep (mot m))) in
      map blk_static (block_buffer (mot n)) = map blk_static (block_buffer (mot m))
      \<and> block_buffer_tail (mot n) = block_buffer_tail (mot m) \<and> block_buffer_head (mot n) = block_buffer_head (mot m)
      \<and> pl_position (mot n) = pl_position (mot m) \<and> ring_segs (mot n) = ring_segs (mot m)
      \<and> st_view (st (mot n)) = st_view (st (mot m)) \<and> busy (mot n) = busy (mot m) \<and> sys_position (rt n) = sys_position (rt m)
      \<and> pr_st_block_index (prep (mot n)) = j \<and> st_block_buffer (mot n) = (st_block_buffer (mot m))[unat j := c]
      \<and> image_of b c \<and> steps_remaining (prep (mot n)) = f_of_int (uint (step_event_count b)) \<and> started (mot n))"

lemma steps_left_load:
  assumes "started s" and "steps_remaining (prep s) = f_of_int (uint e)" and "unat e \<le> 2 ^ 24"
  shows "steps_left s (unat e)"
proof -
  have "\<bar>int (unat e)\<bar> \<le> int (2 ^ 24)" using assms(3) unfolding abs_of_nat of_nat_le_iff .
  then have "\<bar>int (unat e)\<bar> \<le> 2 ^ 24" by (simp only: of_nat_power of_nat_numeral)
  from f_of_int_exact [OF this] have "steps_remaining (prep s) = FFin False (of_int (int (unat e)))"
    unfolding assms(2) uint_nat by simp
  then show ?thesis using assms(1,3) unfolding steps_left_def by (simp only: if_True f_finite.simps f_val.simps if_False simp_thms)
qed

text \<open>The block data goes to a place no waiting segment refers to.\<close>

lemma exec_loaded:
  assumes x: "exec_to e m" "unat (fst e) < 5" "consume_all (st_block_buffer (mot m)) (unloaded (mot m)) e = Some (pr_st_block_index (prep (mot m)), 0, F)"
    and ring: "mot_wf (mot m)" "seg_ring_ok (mot m)" "segment_buffer_tail (mot m) \<noteq> segment_next_head (mot m)" and l: "block_loaded m n c"
  shows "exec_to e n" and "consume_all (st_block_buffer (mot n)) (unloaded (mot n)) e = Some (pr_st_block_index (prep (mot m)), 0, F)"
proof -
  let ?B = "st_block_buffer (mot m)" let ?U = "unloaded (mot m)" let ?j = "st_next_block_index (pr_st_block_index (prep (mot m)))"
  have v: "st_view (st (mot n)) = st_view (st (mot m))" "busy (mot n) = busy (mot m)" "sys_position (rt n) = sys_position (rt m)"
    "ring_segs (mot n) = ring_segs (mot m)" "st_block_buffer (mot n) = ?B[unat ?j := c]"
    using l by (simp_all add: block_loaded_def Let_def)
  note l4 = unloaded_le [OF ring]
  note nx = consume_all_next(1) [OF x(2,3) l4(1), of c] consume_all_next(2) [OF x(2,3) l4(1)]
  obtain i w D where e: "e = (i, w, D)" by (metis prod_cases3)
  have "st_block_buffer (mot n) ! unat i = ?B ! unat i \<or> w = 0 \<and> exec_segment (st (mot m)) = None \<and> at_motors D m"
  proof (cases "unat ?j = unat i")
    case True
    then have q: "length ?U = 4 \<and> w = 0" using nx(2) e by simp
    then have "exec_segment (st (mot m)) = None" using l4(2) by fastforce
    then show ?thesis using exec_to_rest q x(1) e by blast
  qed (simp add: v(5))
  then show "exec_to e n" using x(1) v(1-3) unfolding e by - (rule exec_to_frame [where m = m], simp_all)
  have "unloaded (mot n) = ?U" using v(1,4) by (simp add: unloaded_def st_view_def)
  then show "consume_all (st_block_buffer (mot n)) (unloaded (mot n)) e = Some (pr_st_block_index (prep (mot m)), 0, F)"
    using nx(1) by (simp add: v(5))
qed

lemma pipe_load:
  assumes inv: "pipe_inv off m" and room: "segment_buffer_tail (mot m) \<noteq> segment_next_head (mot m)"
    and ns: "\<not> started (mot m)" and ne: "block_buffer_head (mot m) \<noteq> block_buffer_tail (mot m)"
    and l: "block_loaded m n c" and wf: "mot_wf (mot n)"
  shows "\<exists>e f k F. pipe_at off e f k F n" and "list_all move_fits (unstarted (mot n))"
proof -
  let ?b = "blk (mot m) (block_buffer_tail (mot m))" let ?B = "st_block_buffer (mot m)"
  let ?p = "pr_st_block_index (prep (mot m))" let ?j = "st_next_block_index (pr_st_block_index (prep (mot m)))"
  have m: "mot_wf (mot m)" "seg_ring_ok (mot m)" "control_ok (mot m)" using inv by (simp_all add: pipe_inv_def)
  obtain e f k F where p: "pipe_at off e f k F m" using inv by (auto simp: pipe_inv_def)
  then have x: "exec_to e m" "unat (fst e) < 5" "consume_all ?B (unloaded (mot m)) e = Some (?p, 0, F)"
    "\<And>a. a < 3 \<Longrightarrow> motor_target (pl_position (mot m)) a + off a = F a + (\<Sum>x \<leftarrow> unstarted (mot m). move_by x a)"
    using ns by (auto simp: pipe_at_def loaded_to_def steps_left_def)
  have v: "map blk_static (block_buffer (mot n)) = map blk_static (block_buffer (mot m))" "block_buffer_tail (mot n) = block_buffer_tail (mot m)"
    "block_buffer_head (mot n) = block_buffer_head (mot m)" "pl_position (mot n) = pl_position (mot m)"
    "pr_st_block_index (prep (mot n)) = ?j" "st_block_buffer (mot n) = ?B[unat ?j := c]" "image_of ?b c"
    "steps_remaining (prep (mot n)) = f_of_int (uint (step_event_count ?b))" "started (mot n)"
    using l by (simp_all add: block_loaded_def Let_def)
  have u: "unstarted (mot m) = blk_static ?b # unstarted (mot n)"
    using plan_moves_tail [OF m(1) ne] v ns plan_moves_view [OF m(1)] plan_moves_view [OF wf] by (simp add: unstarted_def)
  then have fit: "move_fits (blk_static ?b)" and rest: "list_all move_fits (unstarted (mot n))"
    using m(3) by (simp_all add: control_ok_def)
  show "list_all move_fits (unstarted (mot n))" by (rule rest)
  note g = image_good [OF v(7) fit]
  have len: "length ?B = 5" "unat ?j < 5"
    using m(1) st_next_block_less [of ?p] by (simp_all add: mot_wf_defs prep_wf_def SEGMENT_BUFFER_SIZE_def)
  let ?E = "unat (step_event_count ?b)" let ?F = "\<lambda>a. F a + block_move c a"
  have "enter_block (st_block_buffer (mot n)) (?p, 0, F) = Some (?j, 8 * ?E, ?F)"
    using g(1,2) len by (simp add: v(6) Let_def)
  then have "loaded_to (mot n) (?p, 0, F) ?E ?F" using v(5,9) by (simp add: loaded_to_def)
  moreover have "steps_left (mot n) ?E"
    using fit by (intro steps_left_load [OF v(9,8)]) (simp add: move_fits_def blk_static_def)
  moreover have "motor_target (pl_position (mot n)) a + off a = ?F a + (\<Sum>x \<leftarrow> unstarted (mot n). move_by x a)" if "a < 3" for a
    using x(4) [OF that] g(3) [OF that] by (simp add: v(4) u)
  ultimately have "pipe_at off e (?p, 0, F) ?E ?F n"
    using exec_loaded [OF x(1-3) m(1,2) room l] x(2) by (simp add: pipe_at_def)
  then show "\<exists>e f k F. pipe_at off e f k F n" by blast
qed

lemma static_view_control [simp]:
  "static_view (s\<lparr>pl_block := x\<rparr>) = static_view s" "static_view (upd_prep (\<lambda>p. p\<lparr>recalculate_flag := y\<rparr>) s) = static_view s"
  "ring_segs (s\<lparr>pl_block := x\<rparr>) = ring_segs s"
  by (simp_all add: static_view_def ring_segs_def upd_prep_def)

text \<open>Selecting the block at the tail: a block already loaded is replanned, another is loaded.\<close>

lemma pipe_reselect:
  assumes inv: "pipe_inv off m" and r: "recalc (mot m)" and ne: "block_buffer_head (mot m) \<noteq> block_buffer_tail (mot m)"
    and n: "n = prep_velocity_profile (block_buffer_tail (mot m)) (on_mot (upd_prep (\<lambda>p. p\<lparr>recalculate_flag := 0\<rparr>))
      (on_mot (\<lambda>s. s\<lparr>pl_block := Some (block_buffer_tail (mot m))\<rparr>) m))" and wf: "mot_wf (mot n)"
  shows "pipe_inv off n \<and> pl_block (mot n) = Some (block_buffer_tail (mot n))"
proof -
  let ?i = "block_buffer_tail (mot m)"
  have m: "mot_wf (mot m)" "seg_ring_ok (mot m)" "control_ok (mot m)" using inv by (simp_all add: pipe_inv_def)
  note v = velocity_profile_static [of ?i "on_mot (upd_prep (\<lambda>p. p\<lparr>recalculate_flag := 0\<rparr>)) (on_mot (\<lambda>s. s\<lparr>pl_block := Some ?i\<rparr>) m)", folded n]
  have s: "static_view (mot n) = static_view (mot m)" using v(1) by (simp add: on_mot_def)
  have c: "pl_block (mot n) = Some ?i" "\<not> recalc (mot n)" "sys_position (rt n) = sys_position (rt m)"
    using v(2,3,5) by (simp_all add: on_mot_def upd_prep_def recalc_def)
  have t: "block_buffer_tail (mot n) = ?i" "block_buffer_head (mot n) = block_buffer_head (mot m)"
    using s by (simp_all add: static_view_def)
  have st: "started (mot n) = started (mot m)" using r c(1) by (simp add: started_def)
  have "control_ok (mot n)"
    using m(3) c v(4) ne unstarted_view [OF m(1) wf s st] by (simp add: control_ok_def t)
  moreover obtain e f k F where "pipe_at off e f k F m" using inv by (auto simp: pipe_inv_def)
  from pipe_frame [OF this s st m(1) wf c(3)] have "pipe_at off e f k F n" .
  ultimately show ?thesis using wf m(2) seg_ring_frame [OF s] c(1) t by (auto intro: pipe_invI)
qed

lemma pipe_select_new:
  assumes inv: "pipe_inv off m" and room: "segment_buffer_tail (mot m) \<noteq> segment_next_head (mot m)"
    and ns: "\<not> started (mot m)" and ne: "block_buffer_head (mot m) \<noteq> block_buffer_tail (mot m)"
    and n: "n = prep_velocity_profile (block_buffer_tail (mot m)) (prep_load_block (block_buffer_tail (mot m))
      (on_mot (\<lambda>s. s\<lparr>pl_block := Some (block_buffer_tail (mot m))\<rparr>) m))" and wf: "mot_wf (mot n)"
  shows "pipe_inv off n \<and> pl_block (mot n) = Some (block_buffer_tail (mot n))"
proof -
  let ?i = "block_buffer_tail (mot m)" let ?m = "on_mot (\<lambda>s. s\<lparr>pl_block := Some ?i\<rparr>) m"
  let ?j = "st_next_block_index (pr_st_block_index (prep (mot m)))"
  have m: "mot_wf (mot m)" "seg_ring_ok (mot m)" "\<not> recalc (mot m)" using inv ns by (simp_all add: pipe_inv_def started_def)
  have "unat (st_next_block_index (pr_st_block_index (prep (mot ?m)))) < length (st_block_buffer (mot ?m))"
    using m(1) st_next_block_less [of "pr_st_block_index (prep (mot m))"] by (simp add: on_mot_def mot_wf_defs prep_wf_def)
  note l = load_block_static [OF this, of ?i]
  obtain c where c: "st_block_buffer (mot (prep_load_block ?i ?m)) = (st_block_buffer (mot m))[unat ?j := c]"
    "image_of (blk (mot m) ?i) c" using l(15) by (auto simp: on_mot_def blk_def)
  note v = velocity_profile_static [of ?i "prep_load_block ?i ?m", folded n]
  have s: "static_view (mot n) = static_view (mot (prep_load_block ?i ?m))" "pl_block (mot n) = Some ?i" "\<not> recalc (mot n)" "rt n = rt m"
    using v(1,2,3,5) m(3) l(11,12,16) by (simp_all add: on_mot_def recalc_def)
  have b: "block_loaded m n c"
    using s l c by (simp add: block_loaded_def Let_def static_view_def on_mot_def blk_def st_view_def started_def)
  have t: "block_buffer_tail (mot n) = ?i" "block_buffer_head (mot n) = block_buffer_head (mot m)"
    using b by (simp_all add: block_loaded_def Let_def)
  have "seg_ring_ok (mot n)" using s(1) l m(2) by (simp add: static_view_def on_mot_def seg_ring_ok_def st_view_def)
  moreover have "control_ok (mot n)"
    using s(2,3) v(4) ne pipe_load(2) [OF inv room ns ne b wf] by (simp add: control_ok_def t)
  ultimately show ?thesis using pipe_load(1) [OF inv room ns ne b wf] wf s(2) t by (auto intro: pipe_invI)
qed

lemma pipe_select:
  assumes inv: "pipe_inv off m" and room: "segment_buffer_tail (mot m) \<noteq> segment_next_head (mot m)"
    and sm: "sys_step_control (sys m) AND STEP_CONTROL_EXECUTE_SYS_MOTION = 0" and sel: "prep_select_block m = Some n"
  shows "pipe_inv off n" and "pl_block (mot n) = Some (block_buffer_tail (mot n))" and "segment_next_head (mot n) = segment_next_head (mot m)"
    and "segment_buffer_tail (mot n) = segment_buffer_tail (mot m)"
proof -
  have m: "mot_wf (mot m)" "control_ok (mot m)" using inv by (simp_all add: pipe_inv_def)
  have wf: "mot_wf (mot n)" using prep_select_block_wf [OF m(1) sel] by simp
  show "segment_next_head (mot n) = segment_next_head (mot m)" "segment_buffer_tail (mot n) = segment_buffer_tail (mot m)"
    using prep_select_indices [OF sel] by (simp_all add: seg_indices_def)
  have "pipe_inv off n \<and> pl_block (mot n) = Some (block_buffer_tail (mot n))"
  proof (cases "pl_block (mot m)")
    case (Some i)
    then show ?thesis using sel inv m(2) by (auto simp: prep_select_block_def control_ok_def)
  next
    case None
    let ?i = "block_buffer_tail (mot m)" let ?m = "on_mot (\<lambda>s. s\<lparr>pl_block := Some ?i\<rparr>) m"
    have ne: "block_buffer_head (mot m) \<noteq> ?i"
      using sel None sm by (auto simp: prep_select_block_def plan_get_current_block_def)
    have n: "n = prep_velocity_profile ?i (if recalc (mot m) then on_mot (upd_prep (\<lambda>p. p\<lparr>recalculate_flag := 0\<rparr>)) ?m
        else prep_load_block ?i ?m)"
      using sel None sm ne by (auto simp: prep_select_block_def plan_get_current_block_def Let_def recalc_def on_mot_def)
    show ?thesis
    proof (cases "recalc (mot m)")
      case True
      then show ?thesis using n by (intro pipe_reselect [OF inv True ne _ wf]) simp
    next
      case False
      then have "\<not> started (mot m)" using None by (simp add: started_def)
      then show ?thesis using n False by (intro pipe_select_new [OF inv room _ ne _ wf]) simp_all
    qed
  qed
  then show "pipe_inv off n" "pl_block (mot n) = Some (block_buffer_tail (mot n))" by simp_all
qed

section \<open>Queueing a segment\<close>

text \<open>A queued segment takes at least one step and fewer than \<open>2^13\<close> from what its block has left.\<close>

definition segment_fits :: "stepper_t \<Rightarrow> stepper_t \<Rightarrow> bool" where
  "segment_fits s s' \<longleftrightarrow> segment_buffer_head s' = segment_buffer_head s \<or>
     (let r = steps_remaining (prep s); r' = steps_remaining (prep s') in
      f_finite r' \<and> 0 \<le> f_val r' \<and> f_val r' < f_val r \<and> f_val r - f_val r' < 2 ^ 13)"

definition queue_state :: "u8 \<Rightarrow> segment_t \<Rightarrow> f32 \<Rightarrow> f32 \<Rightarrow> f32 \<Rightarrow> stepper_t \<Rightarrow> stepper_t" where
  "queue_state i g mm r x s =
     upd_prep (\<lambda>p. p\<lparr>steps_remaining := r, dt_remainder := x\<rparr>) (upd_blk i (\<lambda>b. b\<lparr>millimeters := mm\<rparr>)
       (s\<lparr>segment_buffer := (segment_buffer s)[unat (segment_buffer_head s) := g], segment_buffer_head := segment_next_head s,
          segment_next_head := next_segment_index (segment_next_head s)\<rparr>))"

lemma queue_state_fields:
  "map blk_static (block_buffer (queue_state i g mm r x s)) = map blk_static (block_buffer s)"
  "block_buffer_tail (queue_state i g mm r x s) = block_buffer_tail s" "block_buffer_head (queue_state i g mm r x s) = block_buffer_head s"
  "pl_position (queue_state i g mm r x s) = pl_position s" "pl_block (queue_state i g mm r x s) = pl_block s"
  "recalc (queue_state i g mm r x s) = recalc s" "mm_complete (prep (queue_state i g mm r x s)) = mm_complete (prep s)"
  "started (queue_state i g mm r x s) = started s" "st_block_buffer (queue_state i g mm r x s) = st_block_buffer s"
  "st (queue_state i g mm r x s) = st s" "busy (queue_state i g mm r x s) = busy s"
  "pr_st_block_index (prep (queue_state i g mm r x s)) = pr_st_block_index (prep s)"
  "steps_remaining (prep (queue_state i g mm r x s)) = r"
  "segment_buffer_head (queue_state i g mm r x s) = segment_next_head s"
  "segment_buffer_tail (queue_state i g mm r x s) = segment_buffer_tail s"
  "segment_buffer (queue_state i g mm r x s) = (segment_buffer s)[unat (segment_buffer_head s) := g]"
  by (simp_all add: queue_state_def upd_prep_def upd_blk_def blk_def map_static_update recalc_def started_def)

lemma queue_state_wf:
  "mot_wf s \<Longrightarrow> segment_wf g \<Longrightarrow> unat i < BLOCK_BUFFER_SIZE \<Longrightarrow> mot_wf (queue_state i g mm r x s)"
  unfolding queue_state_def using mot_wf_advance [OF mot_wf_store, of s g "unat (segment_buffer_head s)"]
  by (intro mot_wf_upd_prep mot_wf_upd_blk) (simp_all add: prep_wf_def)

lemma queue_state_ring:
  assumes "mot_wf s" and "seg_ring_ok s" and "segment_buffer_tail s \<noteq> segment_next_head s"
  shows "ring_segs (queue_state i g mm r x s) = ring_segs s @ [g]" and "unloaded (queue_state i g mm r x s) = unloaded s @ [g]"
    and "seg_ring_ok (queue_state i g mm r x s)"
proof -
  let ?h = "segment_buffer_head s" let ?t = "segment_buffer_tail s"
  have n: "segment_next_head s = next_segment_index ?h" using assms(1) by (simp add: mot_wf_defs)
  have k: "length (segment_buffer s) = SEGMENT_BUFFER_SIZE" "unat ?h < SEGMENT_BUFFER_SIZE" "unat ?t < SEGMENT_BUFFER_SIZE"
    using assms(2) by (simp_all add: seg_ring_ok_def)
  have ne: "unat (next_segment_index ?h) \<noteq> unat ?t" using assms(3) n by (auto simp: u8_eq_iff)
  show rs: "ring_segs (queue_state i g mm r x s) = ring_segs s @ [g]"
    unfolding ring_segs_def queue_state_fields n by (rule seg.list_push [OF k ne])
  have "exec_segment (st s) \<noteq> None \<Longrightarrow> ring_segs s \<noteq> []"
    using ring_segs_Nil [OF assms(2)] assms(2) by (simp add: seg_ring_ok_def)
  then show "unloaded (queue_state i g mm r x s) = unloaded s @ [g]" by (auto simp: unloaded_def rs queue_state_fields)
  show "seg_ring_ok (queue_state i g mm r x s)"
    using k seg.idx_nxt_less [OF k(2)] assms(3) n by (auto simp: seg_ring_ok_def queue_state_fields)
qed

text \<open>The abstract consumer accepts the segment, and has that much less to expect.\<close>

lemma consume_queued:
  assumes "loaded_to s f k F" and "sg_st_block_index g = pr_st_block_index (prep s)" and "segment_valid g"
    and "weight g = 8 * d" and "d \<le> k" and "unat (pr_st_block_index (prep s)) < 5"
  shows "consume (st_block_buffer s) g f = Some (pr_st_block_index (prep s), 8 * (k - d), F)"
proof (cases "f = (pr_st_block_index (prep s), 8 * k, F)")
  case True
  then show ?thesis using assms(2-5) by (simp add: consume_def diff_mult_distrib2)
next
  case False
  then have e: "enter_block (st_block_buffer s) f = Some (pr_st_block_index (prep s), 8 * k, F)"
    using assms(1) by (simp add: loaded_to_def)
  obtain j w D where f: "f = (j, w, D)" by (metis prod_cases3)
  have n: "pr_st_block_index (prep s) = st_next_block_index j" using e by (simp add: f Let_def split: if_splits)
  have "pr_st_block_index (prep s) \<noteq> j"
  proof
    assume "pr_st_block_index (prep s) = j"
    then have "unat j = Suc (unat j) mod 5" using blk_ring.idx_nxt [of j] assms(6) n by (simp add: SEGMENT_BUFFER_SIZE_def)
    then show False using assms(6) \<open>pr_st_block_index (prep s) = j\<close> by (simp add: mod_Suc split: if_splits)
  qed
  then show ?thesis using e assms(2-5) by (simp add: consume_def f diff_mult_distrib2)
qed

lemma pipe_queue_state:
  assumes inv: "pipe_inv off m" and room: "segment_buffer_tail (mot m) \<noteq> segment_next_head (mot m)" and s: "started (mot m)"
    and g: "sg_st_block_index g = pr_st_block_index (prep (mot m))" "segment_valid g" "weight g = 8 * nat d" "segment_wf g"
    and d: "f_val (steps_remaining (prep (mot m))) - f_val r = of_int d" "0 \<le> f_val r" "0 < d" "f_finite r"
    and n: "mot n = queue_state i g mm r x (mot m)" "sys_position (rt n) = sys_position (rt m)" and i: "unat i < BLOCK_BUFFER_SIZE"
  shows "pipe_inv off n" and "\<exists>e f F k. pipe_at off e f k F n \<and> f_val r = of_nat k"
proof -
  have m: "mot_wf (mot m)" "seg_ring_ok (mot m)" "control_ok (mot m)" using inv by (simp_all add: pipe_inv_def)
  obtain e f k F where p: "pipe_at off e f k F m" using inv by (auto simp: pipe_inv_def)
  note w = queue_state_wf [OF m(1) g(4) i, of mm r x, folded n(1)] and q = queue_state_ring [OF m(1,2) room, of i g mm r x, folded n(1)]
  note v = queue_state_fields [of i g mm r x "mot m", folded n(1)]
  have k: "f_val (steps_remaining (prep (mot m))) = of_int (int k)" "k \<le> 2 ^ 24"
    using p s by (simp_all add: pipe_at_def steps_left_def)
  then have "f_val r = of_int (int k - d)" using d(1) by simp
  then have le: "nat d \<le> k" and r: "f_val r = of_int (int (k - nat d))" using d(2,3) by (simp_all add: of_nat_diff)
  have pr: "unat (pr_st_block_index (prep (mot m))) < 5" using m(1) by (simp add: mot_wf_defs prep_wf_def SEGMENT_BUFFER_SIZE_def)
  have u: "unstarted (mot n) = unstarted (mot m)" using v by (simp add: unstarted_def plan_moves_view [OF w] plan_moves_view [OF m(1)])
  have c: "consume_all (st_block_buffer (mot n)) (unloaded (mot n)) e = Some (pr_st_block_index (prep (mot m)), 8 * (k - nat d), F)"
    using p consume_queued [OF _ g(1-3) le pr, of f F] by (simp add: pipe_at_def v q consume_all_append)
  have x: "exec_to e n"
  proof -
    obtain j w D where e: "e = (j, w, D)" by (metis prod_cases3)
    show ?thesis using p v n(2) unfolding e by - (rule exec_to_frame [where m = m], simp_all add: pipe_at_def)
  qed
  have "k - nat d \<le> 2 ^ 24" using k(2) by linarith
  then have l: "steps_left (mot n) (k - nat d)" using s r d(4) by (simp add: steps_left_def v)
  have "loaded_to (mot n) (pr_st_block_index (prep (mot m)), 8 * (k - nat d), F) (k - nat d) F" by (simp add: loaded_to_def v)
  then have at: "pipe_at off e (pr_st_block_index (prep (mot m)), 8 * (k - nat d), F) (k - nat d) F n"
    using p x c l u by (simp add: pipe_at_def v)
  have "control_ok (mot n)" using m(3) u by (simp add: control_ok_def v)
  with at show "pipe_inv off n" by (rule pipe_invI [OF w q(3), rotated])
  show "\<exists>e f F k. pipe_at off e f k F n \<and> f_val r = of_nat k" using at r by (metis of_int_of_nat_eq)
qed

section \<open>The end of a block\<close>

lemma plan_moves_discard:
  assumes "mot_wf s" and "mot_wf (plan_discard_current_block s)" and "block_buffer_head s \<noteq> block_buffer_tail s"
  shows "plan_moves (plan_discard_current_block s) = tl (plan_moves s)"
proof -
  have r: "unat (block_buffer_head s) < 16" "unat (block_buffer_tail s) < 16" using assms(1) by (simp_all add: mot_wf_defs BLOCK_BUFFER_SIZE_def)
  have "block_buffer (plan_discard_current_block s) = block_buffer s" "block_buffer_head (plan_discard_current_block s) = block_buffer_head s"
    "block_buffer_tail (plan_discard_current_block s) = plan_next_block_index (block_buffer_tail s)"
    using assms(3) by (simp_all add: plan_discard_current_block_def Let_def)
  then show ?thesis using plan.list_pop [OF r, of "block_buffer s"] assms(3) by (simp add: plan_moves_def plan_blocks_def u8_eq_iff)
qed

lemma pipe_discard:
  assumes inv: "pipe_inv off m" and b: "pl_block (mot m) = Some (block_buffer_tail (mot m))"
    and z: "f_val (steps_remaining (prep (mot m))) = 0"
  shows "pipe_inv off (on_mot (\<lambda>s. plan_discard_current_block (s\<lparr>pl_block := None\<rparr>)) m)"
proof -
  let ?s = "(mot m)\<lparr>pl_block := None\<rparr>" let ?n = "on_mot (\<lambda>s. plan_discard_current_block (s\<lparr>pl_block := None\<rparr>)) m"
  have m: "mot_wf (mot m)" "seg_ring_ok (mot m)" "control_ok (mot m)" using inv by (simp_all add: pipe_inv_def)
  obtain e f k F where p: "pipe_at off e f k F m" using inv by (auto simp: pipe_inv_def)
  have s: "started (mot m)" "\<not> recalc (mot m)" "block_buffer_head (mot m) \<noteq> block_buffer_tail (mot m)"
    using m(3) b by (auto simp: control_ok_def started_def)
  have n: "mot ?n = plan_discard_current_block ?s" "rt ?n = rt m" by (simp_all add: on_mot_def)
  have wf0: "mot_wf ?s" using m(1) by (simp add: mot_wf_defs)
  then have wf: "mot_wf (mot ?n)" unfolding n by (rule plan_discard_wf)
  have v: "pl_block (mot ?n) = None" "prep (mot ?n) = prep (mot m)" "st (mot ?n) = st (mot m)" "busy (mot ?n) = busy (mot m)"
    "st_block_buffer (mot ?n) = st_block_buffer (mot m)" "pl_position (mot ?n) = pl_position (mot m)"
    "segment_buffer (mot ?n) = segment_buffer (mot m)" "segment_buffer_head (mot ?n) = segment_buffer_head (mot m)"
    "segment_buffer_tail (mot ?n) = segment_buffer_tail (mot m)"
    unfolding n by (simp_all add: plan_discard_current_block_def Let_def)
  have ns: "\<not> started (mot ?n)" using s(2) v by (simp add: started_def recalc_def)
  have "plan_moves (mot ?n) = tl (plan_moves ?s)" unfolding n using wf0 wf [unfolded n] s(3) by (intro plan_moves_discard) simp_all
  then have u: "unstarted (mot ?n) = unstarted (mot m)"
    using s(1) ns by (simp add: unstarted_def) (simp add: plan_moves_def plan_blocks_def)
  have k: "k = 0" using p s(1) z by (simp add: pipe_at_def steps_left_def)
  have f: "f = (pr_st_block_index (prep (mot m)), 0, F)"
  proof (rule ccontr)
    assume "f \<noteq> (pr_st_block_index (prep (mot m)), 0, F)"
    then have "enter_block (st_block_buffer (mot m)) f = Some (pr_st_block_index (prep (mot m)), 0, F)"
      using p k by (simp add: pipe_at_def loaded_to_def)
    then obtain b where "block_good b" "unat (block_event b) = 0" by (cases f) (auto simp: Let_def split: if_splits)
    then show False by (simp add: block_good_def block_data_def unat_eq_zero)
  qed
  have x: "exec_to e ?n"
  proof -
    obtain j w D where e: "e = (j, w, D)" by (metis prod_cases3)
    show ?thesis using p v n(2) unfolding e by - (rule exec_to_frame [where m = m], simp_all add: pipe_at_def)
  qed
  have "unloaded (mot ?n) = unloaded (mot m)" using v by (simp add: unloaded_def ring_segs_def)
  then have "pipe_at off e f 0 F ?n" using p x f k ns u v by (simp add: pipe_at_def loaded_to_def steps_left_def)
  moreover have "control_ok (mot ?n)" using m(3) ns u v(1) by (simp add: control_ok_def)
  moreover have "seg_ring_ok (mot ?n)" using m(2) v by (simp add: seg_ring_ok_def)
  ultimately show ?thesis using wf by (intro pipe_invI)
qed

lemma pipe_on_sys: "pipe_inv off m \<Longrightarrow> pipe_inv off (on_sys f m)"
  by (rule pipe_keeps [of off m]) (simp_all add: on_sys_def pipe_inv_def)

lemma pipe_block_end:
  assumes inv: "pipe_inv off m" and b: "pl_block (mot m) = Some i" and r: "prep_block_end i m = (c, m')"
    and z: "f_finite (millimeters (blk (mot m) i)) \<Longrightarrow> f_val (millimeters (blk (mot m) i)) = 0 \<Longrightarrow>
      f_val (steps_remaining (prep (mot m))) = 0"
  shows "pipe_inv off m'"
proof -
  have t: "pl_block (mot m) = Some (block_buffer_tail (mot m))" "\<not> f_lt (mm_complete (prep (mot m))) f_zero"
    using inv b by (auto simp: pipe_inv_def control_ok_def)
  show ?thesis
  proof (cases "f_eq (millimeters (blk (mot m) i)) (mm_complete (prep (mot m))) \<and> \<not> f_lt f_zero (millimeters (blk (mot m) i))
      \<and> sys_step_control (sys m) AND STEP_CONTROL_EXECUTE_SYS_MOTION = 0")
    case True
    then have "m' = on_mot (\<lambda>s. plan_discard_current_block (s\<lparr>pl_block := None\<rparr>)) m"
      using r by (simp add: prep_block_end_def Let_def)
    moreover have "f_finite (millimeters (blk (mot m) i))" "f_val (millimeters (blk (mot m) i)) = 0"
      using block_end_zero True t(2) by blast+
    ultimately show ?thesis using pipe_discard [OF inv t(1)] z by simp
  next
    case False
    then show ?thesis using r inv pipe_on_sys [OF inv] by (auto simp: prep_block_end_def Let_def split: if_splits)
  qed
qed

lemma ring_segs_store:
  assumes "seg_ring_ok s"
  shows "ring_segs (s\<lparr>segment_buffer := (segment_buffer s)[unat (segment_buffer_head s) := g]\<rparr>) = ring_segs s"
proof -
  let ?h = "unat (segment_buffer_head s)" let ?t = "unat (segment_buffer_tail s)"
  have "(segment_buffer s)[?h := g] ! ((?t + k) mod SEGMENT_BUFFER_SIZE) = segment_buffer s ! ((?t + k) mod SEGMENT_BUFFER_SIZE)"
    if "k < ring_used SEGMENT_BUFFER_SIZE ?h ?t" for k
    using ring_slot_neq_head [OF _ _ that] assms by (intro nth_list_update_neq) (auto simp: seg_ring_ok_def)
  then show ?thesis by (simp add: ring_segs_def ring_list_def)
qed

lemma next_segment_neq: "unat i < SEGMENT_BUFFER_SIZE \<Longrightarrow> next_segment_index i \<noteq> i"
  using seg.idx_nxt [of i] by (auto simp: u8_eq_iff SEGMENT_BUFFER_SIZE_def mod_Suc split: if_splits)

text \<open>The steps of a segment: the difference of two whole numbers.\<close>

lemma queue_steps:
  assumes k: "f_finite x" "f_val x = of_int (int k)" and q: "f_finite (f_ceil y)" "f_val (f_ceil y) < f_val x"
    "f_val x - f_val (f_ceil y) < 2 ^ 13"
  obtains d where "f_to_int (f_sub (f_ceil x) (f_ceil y)) = d" and "0 < d" and "d < 2 ^ 13" and "f_val x - f_val (f_ceil y) = of_int d"
proof -
  obtain r' where r': "f_val (f_ceil y) = of_int r'" using f_ceil_finite [OF q(1)] by blast
  define d where "d = int k - r'"
  have "(of_int d :: rat) < of_int (2 ^ 13)" "(0 :: rat) < of_int d" using q(2,3) by (simp_all add: d_def k r')
  then have d: "0 < d" "d < 2 ^ 13" unfolding of_int_less_iff of_int_0_less_iff by simp_all
  have "f_to_int (f_sub (f_ceil x) (f_ceil y)) = d"
    using d by (simp only: d_def) (intro f_sub_integer, use f_ceil_integer [OF k] q(1) r' in simp_all)
  moreover have "f_val x - f_val (f_ceil y) = of_int d" by (simp add: k r' d_def)
  ultimately show thesis using d by (intro that)
qed

text \<open>The routine stores the segment, or in a hold without a step only writes it to the free place.\<close>

lemma prep_queue_stores:
  assumes "prep_queue_segment i mm dt sg m = (c, m')" and "f_to_int (f_sub (f_ceil (steps_remaining (prep (mot m)))) r) = d"
    and "r = f_ceil (f_mul (step_per_mm (prep (mot m))) mm)"
    and "\<not> (word_of_int d = (0 :: u16) \<and> sys_step_control (sys m) AND STEP_CONTROL_EXECUTE_HOLD \<noteq> 0)"
  obtains cyc x where "prep_block_end i (m\<lparr>mot := queue_state i (segment_rate cyc (sg\<lparr>n_step := word_of_int d\<rparr>)) mm r x (mot m)\<rparr>) = (c, m')"
proof -
  let ?g = "sg\<lparr>n_step := word_of_int d\<rparr>"
  have F: "(n_step ?g = 0 \<and> sys_step_control (sys m) AND STEP_CONTROL_EXECUTE_HOLD \<noteq> 0) = False" using assms(4) by simp
  show thesis
    using assms(1) unfolding prep_queue_segment_def Let_def assms(2) [unfolded assms(3)] F if_False
    by (intro that) (simp add: queue_state_def assms(3))
qed

lemma pipe_queue_hold:
  assumes inv: "pipe_inv off m" and g: "segment_wf g"
  shows "pipe_inv off (on_sys f (on_mot (\<lambda>s. s\<lparr>segment_buffer := (segment_buffer s)[unat (segment_buffer_head s) := g]\<rparr>) m))"
proof (rule pipe_on_sys, rule pipe_keeps [OF inv])
  have m: "mot_wf (mot m)" "seg_ring_ok (mot m)" using inv by (simp_all add: pipe_inv_def)
  let ?n = "on_mot (\<lambda>s. s\<lparr>segment_buffer := (segment_buffer s)[unat (segment_buffer_head s) := g]\<rparr>) m"
  show "keeps (mot m) (mot ?n)" using ring_segs_store [OF m(2)] by (simp add: on_mot_def keeps_def static_view_def recalc_def)
  show "mot_wf (mot ?n)" using mot_wf_store [OF m(1) g] by (simp add: on_mot_def)
qed (simp add: on_mot_def)

lemma block_end_prep:
  assumes "prep_block_end i n = (c, m')"
  shows "prep (mot m') = prep (mot n)" and "segment_buffer_head (mot m') = segment_buffer_head (mot n)"
  using assms by (auto simp: prep_block_end_def Let_def on_sys_def on_mot_def plan_discard_current_block_def split: if_splits)

text \<open>The whole routine.\<close>

lemma pipe_queue:
  assumes inv: "pipe_inv off m" and room: "segment_buffer_tail (mot m) \<noteq> segment_next_head (mot m)" and b: "pl_block (mot m) = Some i"
    and g: "sg_st_block_index sg = pr_st_block_index (prep (mot m))" "segment_wf sg" and i: "unat i < BLOCK_BUFFER_SIZE"
    and r: "prep_queue_segment i mm dt sg m = (c, m')" and fit: "segment_fits (mot m) (mot m')"
  shows "pipe_inv off m'"
proof -
  let ?s = "mot m" let ?p = "prep (mot m)" let ?r = "f_ceil (f_mul (step_per_mm ?p) mm)"
  define d where "d = f_to_int (f_sub (f_ceil (steps_remaining ?p)) ?r)"
  let ?g = "sg\<lparr>n_step := word_of_int d\<rparr>"
  have m: "mot_wf ?s" using inv by (simp add: pipe_inv_def)
  have st: "started ?s" using b by (simp add: started_def)
  have gwf: "segment_wf ?g" using g(2) by (simp add: segment_wf_def)
  show ?thesis
  proof (cases "word_of_int d = (0 :: u16) \<and> sys_step_control (sys m) AND STEP_CONTROL_EXECUTE_HOLD \<noteq> 0")
    case True
    then show ?thesis using r pipe_queue_hold [OF inv gwf] by (auto simp: prep_queue_segment_def Let_def on_mot_def d_def)
  next
    case False
    from prep_queue_stores [OF r d_def [symmetric] refl False] obtain cyc x
      where e: "prep_block_end i (m\<lparr>mot := queue_state i (segment_rate cyc ?g) mm ?r x ?s\<rparr>) = (c, m')" .
    define n where "n = m\<lparr>mot := queue_state i (segment_rate cyc ?g) mm ?r x ?s\<rparr>"
    note v = queue_state_fields [of i "segment_rate cyc ?g" mm ?r x ?s]
    have mn: "mot n = queue_state i (segment_rate cyc ?g) mm ?r x ?s" by (simp add: n_def)
    have "segment_next_head ?s \<noteq> segment_buffer_head ?s"
      using m next_segment_neq [of "segment_buffer_head ?s"] by (simp add: mot_wf_defs)
    then have q: "f_finite ?r" "0 \<le> f_val ?r" "f_val ?r < f_val (steps_remaining ?p)" "f_val (steps_remaining ?p) - f_val ?r < 2 ^ 13"
      using fit block_end_prep [OF e] by (simp_all add: segment_fits_def v Let_def)
    obtain e0 f k F where "pipe_at off e0 f k F m" using inv by (auto simp: pipe_inv_def)
    then have k: "f_finite (steps_remaining ?p)" "f_val (steps_remaining ?p) = of_int (int k)"
      using st by (simp_all add: pipe_at_def steps_left_def)
    have d: "0 < d" "d < 2 ^ 13" "f_val (steps_remaining ?p) - f_val ?r = of_int d"
      using queue_steps [OF k q(1,3,4)] by (auto simp: d_def)
    have n0: "n_step ?g = word_of_int d" and gw: "segment_wf (segment_rate cyc ?g)"
      using segment_rate_wf [of ?g cyc] gwf by (simp_all add: segment_wf_def)
    note w = segment_rate_weight [OF n0 d(1,2), of cyc]
    have "sys_position (rt n) = sys_position (rt m)" by (simp add: n_def)
    note P = pipe_queue_state [OF inv room st _ w(1,2) gw d(3) q(2) d(1) q(1) mn this i]
    have "pipe_inv off n" by (rule P(1)) (simp add: w(3) g(1))
    moreover have "pl_block (mot n) = Some i" using b by (simp add: mn v)
    moreover have "f_val (steps_remaining (prep (mot n))) = 0"
      if z: "f_finite (millimeters (blk (mot n) i))" "f_val (millimeters (blk (mot n) i)) = 0"
    proof -
      have "millimeters (blk (mot n) i) = mm"
        using m i by (simp add: mn queue_state_def upd_prep_def upd_blk_def blk_def mot_wf_defs)
      then show ?thesis using f_mul_zero [of mm "step_per_mm ?p"] z q(1) by (simp add: mn v)
    qed
    ultimately show ?thesis using pipe_block_end [OF _ _ e [folded n_def]] by blast
  qed
qed

end
