(* ===== verification/Pipeline_Motion.thy ===== *)
theory Pipeline_Motion
  imports Pipeline_Inv Motion_Control Planner_Feasible
begin

text \<open>
  The invariant of the pipeline is kept by everything the firmware does to the rings between two resets:
  planning a line, preparing a segment, the two interrupts, replanning for a feed hold or an override. These
  are the steps of the relation \<open>motion_step\<close>; a machine \<open>at_rest\<close> is where its runs begin.
\<close>

section \<open>A preparation pass\<close>

lemma prep_spindle_rt [simp]: "rt (prep_spindle b m) = rt m"
  by (simp add: prep_spindle_def Let_def machine_lift split: prod.split)

lemma pipe_segment:
  assumes inv: "pipe_inv off m" and room: "segment_buffer_tail (mot m) \<noteq> segment_next_head (mot m)" and b: "pl_block (mot m) = Some i"
    and r: "prep_segment i m = Some (c, m')" and fit: "segment_fits (mot m) (mot m')"
  shows "pipe_inv off m'"
proof -
  have wf: "mot_wf (mot m)" using inv by (simp add: pipe_inv_def)
  have i: "unat i < BLOCK_BUFFER_SIZE" using wf b by (simp add: mot_wf_def)
  obtain p mm dt where l: "ramp_loop (blk (mot m) i)
      (if f_lt (f_sub (millimeters (blk (mot m) i)) (req_mm_increment (prep (mot m)))) f_zero then f_zero
       else f_sub (millimeters (blk (mot m) i)) (req_mm_increment (prep (mot m))))
      (prep (mot m)) (millimeters (blk (mot m) i)) DT_SEGMENT f_zero DT_SEGMENT = Some (p, mm, dt)"
    using r by (auto simp: prep_segment_def Let_def split: option.splits)
  define n0 where "n0 = m\<lparr>mot := (mot m)\<lparr>prep := p\<rparr>\<rparr>"
  define n where "n = prep_spindle (blk (mot m) i) n0"
  define g where "g = (segment_buffer (mot m) ! unat (segment_buffer_head (mot m)))\<lparr>sg_st_block_index := pr_st_block_index p,
      sg_spindle_pwm := current_spindle_pwm (prep (mot n))\<rparr>"
  have q: "prep_queue_segment i mm dt g n = (c, m')"
    using r l by (simp add: prep_segment_def Let_def n_def n0_def g_def)
  have same: "prep_same (prep (mot m)) p" using ramp_loop_static [OF l] by simp
  obtain v where v: "mot n = upd_prep (\<lambda>p. p\<lparr>current_spindle_pwm := v\<rparr>) (mot n0)"
    using prep_spindle_mot [of "blk (mot m) i" n0] by (auto simp: n_def)
  have pw: "prep_wf p" using ramp_loop_wf [OF l] wf by (simp add: mot_wf_def)
  then have wf0: "mot_wf (mot n0)" using wf by (simp add: n0_def mot_wf_defs)
  then have wfn: "mot_wf (mot n)" unfolding v by (rule mot_wf_upd_prep) (simp add: prep_wf_def)
  have "keeps (mot m) (mot n0)" using keeps_prep [OF same] by (simp add: n0_def)
  also have "keeps (mot n0) (mot n)" unfolding v by (rule keeps_upd_prep) (simp add: prep_same_def)
  finally have "pipe_inv off n" using pipe_keeps [OF inv _ wfn] by (simp add: n_def n0_def)
  moreover have "segment_wf (segment_buffer (mot m) ! unat (segment_buffer_head (mot m)))"
    using wf by (intro list_all_at [of segment_wf]) (simp_all add: mot_wf_defs)
  then have "segment_wf g" using pw by (simp add: g_def segment_wf_def prep_wf_def)
  moreover have "segment_fits (mot n) (mot m')"
    using fit same by (simp add: segment_fits_def v n0_def upd_prep_def prep_same_def Let_def)
  ultimately show ?thesis
    using pipe_queue [of off n i g mm dt c m'] room b q i by (simp add: v n0_def g_def upd_prep_def)
qed

text \<open>A whole pass of \<open>st_prep_buffer\<close>.\<close>

lemma pipe_pass:
  assumes inv: "pipe_inv off m" and room: "segment_buffer_tail (mot m) \<noteq> segment_next_head (mot m)"
    and sm: "sys_step_control (sys m) AND STEP_CONTROL_EXECUTE_SYS_MOTION = 0"
    and r: "prep_pass m = Some (c, m')" and fit: "\<And>n. prep_select_block m = Some n \<Longrightarrow> segment_fits (mot n) (mot m')"
  shows "pipe_inv off m'"
proof (cases "prep_select_block m")
  case (Some n)
  note s = pipe_select [OF inv room sm Some]
  have "segment_buffer_tail (mot n) \<noteq> segment_next_head (mot n)" using room s(3,4) by simp
  from pipe_segment [OF s(1) this s(2) _ fit [OF Some]] show ?thesis
    using r Some s(2) by (simp add: prep_pass_def)
qed (use inv r in \<open>simp add: prep_pass_def\<close>)

section \<open>A line\<close>

lemma plan_moves_Nil: "mot_wf s \<Longrightarrow> plan_moves s = [] \<longleftrightarrow> block_buffer_head s = block_buffer_tail s"
  by (simp add: plan_moves_view ring_list_Nil_iff mot_wf_defs BLOCK_BUFFER_SIZE_def u8_eq_iff)

lemma stepper_more:
  fixes s t :: stepper_t
  assumes "planner_t.more s = planner_t.more t"
  shows "st s = st t" "prep s = prep t" "pl_block s = pl_block t" "busy s = busy t" "st_block_buffer s = st_block_buffer t"
    "segment_buffer s = segment_buffer t" "segment_buffer_head s = segment_buffer_head t" "segment_buffer_tail s = segment_buffer_tail t"
  using assms by (cases s; cases t; simp)+

text \<open>Blocks added to the plan move its position by their steps.\<close>

lemma pipe_plan:
  assumes inv: "pipe_inv off m" and wf: "mot_wf s" and same: "planner_t.more s = planner_t.more (mot m)"
    "block_buffer_tail s = block_buffer_tail (mot m)"
    and plan: "plan_moves s = plan_moves (mot m) @ xs" "list_all move_fits xs"
    and target: "\<And>a. a < 3 \<Longrightarrow> motor_target (pl_position s) a = motor_target (pl_position (mot m)) a + (\<Sum>x \<leftarrow> xs. move_by x a)"
  shows "pipe_inv off (m\<lparr>mot := s\<rparr>)"
proof -
  let ?n = "m\<lparr>mot := s\<rparr>"
  have m: "mot_wf (mot m)" "seg_ring_ok (mot m)" "control_ok (mot m)" using inv by (simp_all add: pipe_inv_def)
  obtain e f k F where p: "pipe_at off e f k F m" using inv by (auto simp: pipe_inv_def)
  note v = stepper_more [OF same(1)]
  have st: "started s = started (mot m)" by (simp add: started_def recalc_def v)
  have ne: "started (mot m) \<Longrightarrow> plan_moves (mot m) \<noteq> []" using m(3) plan_moves_Nil [OF m(1)] by (simp add: control_ok_def)
  have u: "unstarted s = unstarted (mot m) @ xs" using ne by (auto simp: unstarted_def st plan(1))
  have x: "exec_to e ?n"
  proof -
    obtain j w D where e: "e = (j, w, D)" by (metis prod_cases3)
    show ?thesis using p v unfolding e by - (rule exec_to_frame [where m = m], simp_all add: pipe_at_def)
  qed
  have "unloaded s = unloaded (mot m)" by (simp add: unloaded_def ring_segs_def v)
  moreover have "steps_left s k" "loaded_to s f k F"
    using p steps_left_cong [OF st] loaded_to_cong [OF st] by (simp_all add: pipe_at_def v)
  ultimately have "pipe_at off e f k F ?n" using p x target by (simp add: pipe_at_def u v)
  moreover have "control_ok (mot ?n)"
    using m(3) plan(2) ne plan_moves_Nil [OF wf] by (auto simp: control_ok_def v same(2) st u recalc_def plan(1))
  moreover have "seg_ring_ok (mot ?n)" using m(2) by (simp add: seg_ring_ok_def v)
  ultimately show ?thesis using wf by (intro pipe_invI) simp_all
qed

lemma plan_moves_head:
  assumes "mot_wf s"
  shows "plan_moves (upd_blk (block_buffer_head s) f s) = plan_moves s"
proof -
  have "unat (block_buffer_head s) \<noteq> (unat (block_buffer_tail s) + k) mod 16"
    if "k < ring_used 16 (unat (block_buffer_head s)) (unat (block_buffer_tail s))" for k
    using ring_slot_neq_head [OF _ _ that] assms by (auto simp: mot_wf_defs BLOCK_BUFFER_SIZE_def)
  then show ?thesis
    by (auto simp: plan_moves_def plan_blocks_def upd_blk_def ring_list_def nth_list_update_neq)
qed

lemma plan_moves_push:
  assumes "mot_wf s" and "\<not> plan_check_full_buffer s"
  shows "plan_moves (plan_push b v u ts s) = plan_moves s @ [blk_static b]"
proof -
  have r: "length (block_buffer s) = 16" "unat (block_buffer_head s) < 16" "unat (block_buffer_tail s) < 16"
    and nx: "next_buffer_head s = plan_next_block_index (block_buffer_head s)"
    using assms(1) by (simp_all add: mot_wf_defs BLOCK_BUFFER_SIZE_def)
  have ne: "unat (plan_next_block_index (block_buffer_head s)) \<noteq> unat (block_buffer_tail s)"
    using assms(2) nx by (simp add: plan_check_full_buffer_def u8_eq_iff)
  show ?thesis using plan.list_push [OF r ne] by (simp add: plan_moves_def plan_blocks_def plan_push_def Let_def upd_blk_def nx)
qed

lemma plan_push_wf:
  assumes "mot_wf s" and "plan_block_wf b" and "length u = N_AXIS" and "length ts = N_AXIS"
  shows "mot_wf (plan_push b v u ts s)"
proof -
  have "mot_wf (upd_blk (block_buffer_head s) (\<lambda>_. b) s)" using assms by (intro mot_wf_upd_blk mot_wf_indices) simp_all
  then show ?thesis using assms mot_wf_indices [OF assms(1)] by (simp add: plan_push_def Let_def mot_wf_defs)
qed

text \<open>Its moves, when no axis is asked for more than \<open>2^24\<close> steps.\<close>

lemma word_abs_nat: "\<bar>d\<bar> \<le> 2 ^ 24 \<Longrightarrow> int (unat (word_of_int \<bar>d\<bar> :: u32)) = \<bar>d\<bar>"
  by (simp add: uint_word_of_int)

lemma cases3: "(a :: nat) < 3 \<Longrightarrow> a = 0 \<or> a = 1 \<or> a = 2"
  by linarith

lemma line_block_moves:
  assumes cf: "spm_ok cf" and nsm: "pd_condition pl_data AND PL_COND_FLAG_SYSTEM_MOTION = 0"
    and l: "plan_line_steps cf pos target pl_data s = (ts, b, u)" and ev: "step_event_count b \<noteq> 0"
    and d: "d = (\<lambda>a. motor_target ts a - motor_target (pl_position s) a)" "\<And>a. a < 3 \<Longrightarrow> \<bar>d a\<bar> \<le> 2 ^ 24"
  shows "move_fits (blk_static b)" and "\<And>a. a < 3 \<Longrightarrow> move_by (blk_static b) a = d a"
proof -
  note r = plan_line_steps_result [OF cf nsm l refl refl refl]
  have d3: "d 0 = ts ! 0 - pl_position s ! 0 + (ts ! 1 - pl_position s ! 1)"
    "d 1 = ts ! 0 - pl_position s ! 0 - (ts ! 1 - pl_position s ! 1)" "d 2 = ts ! 2 - pl_position s ! 2"
    by (simp_all add: d(1) motor_target_def)
  note d3 = d3 d3(2) [unfolded One_nat_def]
  have st: "steps b = map (\<lambda>a. word_of_int \<bar>d a\<bar>) [0, 1, 2]" using r(2) by (simp add: d3)
  have n: "int (unat (steps b ! a)) = \<bar>d a\<bar>" if "a < 3" for a
    using word_abs_nat [OF d(2) [OF that]] that by (auto simp: st less_Suc_eq numeral_3_eq_3 numeral_2_eq_2)
  have "int (unat (steps b ! a)) \<le> int (2 ^ 24)" if "a < 3" for a
    unfolding n [OF that] using d(2) [OF that] by (simp only: of_nat_power of_nat_numeral)
  then have le: "unat (steps b ! a) \<le> 2 ^ 24" if "a < 3" for a using that by (simp only: of_nat_le_iff)
  have "unat (step_event_count b) \<le> 2 ^ 24" using r(3) le [of 0] le [of 1] le [of 2] by (simp add: max_def)
  moreover have "x \<le> step_event_count b" if "x \<in> set (steps b)" for x
    using that r(3) by (auto simp: st le_max_iff_disj)
  ultimately show "move_fits (blk_static b)" using ev by (simp add: move_fits_def blk_static_def st word_gt_0)
  show "move_by (blk_static b) a = d a" if "a < 3" for a
  proof -
    have "direction_bits b AND bitw (5 + a) \<noteq> 0 \<longleftrightarrow> d a < 0"
      using r(4) [of 5] r(4) [of 6] r(4) [of 7] cases3 [OF that] unfolding bit_istrue_bitw [unfolded bit_istrue_def]
      by (elim disjE) (simp_all add: d3)
    then show ?thesis using n [OF that] by (simp add: move_by_def blk_static_def)
  qed
qed

definition line_fits :: "stepper_t \<Rightarrow> stepper_t \<Rightarrow> bool" where
  "line_fits s s' \<longleftrightarrow>
     (\<forall>a < 3. \<bar>motor_target (pl_position s') a - motor_target (pl_position s) a\<bar> \<le> 2 ^ 24)"

lemma line_limits_static: "blk_static (fst (plan_line_limits cf pl_data s b u)) = blk_static b"
  by (simp add: plan_line_limits_def Let_def split_beta blk_static_def)

text \<open>Pushing the block of a line, before the look-ahead runs.\<close>

lemma pipe_push:
  assumes inv: "pipe_inv off m" and cf: "spm_ok (mset m)" and nsm: "pd_condition pl_data AND PL_COND_FLAG_SYSTEM_MOTION = 0"
    and room: "\<not> plan_check_full_buffer (mot m)"
    and l: "plan_line_steps (mset m) (sys_position (rt m)) target pl_data (mot m) = (ts, b, u)" "plan_line_limits (mset m) pl_data (mot m) b u = (b', u')"
    and ne: "step_event_count b \<noteq> 0"
    and fit: "\<And>a. a < 3 \<Longrightarrow> \<bar>motor_target ts a - motor_target (pl_position (mot m)) a\<bar> \<le> 2 ^ 24"
    and s: "s = plan_push (plan_line_block (mset m) sy (sys_position (rt m)) target pl_data (mot m)) v u' ts (mot m)"
  shows "pipe_inv off (m\<lparr>mot := s\<rparr>)"
proof -
  let ?c = "plan_line_block (mset m) sy (sys_position (rt m)) target pl_data (mot m)"
  have wf: "mot_wf (mot m)" using inv by (simp add: pipe_inv_def)
  have len: "length ts = N_AXIS" "plan_block_wf b" "length u' = N_AXIS"
    using plan_line_steps_lengths [of "mset m" "sys_position (rt m)" target pl_data "mot m"]
      plan_line_limits_lengths [of b u "mset m" pl_data "mot m"] by (simp_all add: l)
  have c: "blk_static ?c = blk_static b"
    using line_limits_static [of "mset m" pl_data "mot m" b u] by (simp add: plan_line_block_def l Let_def)
  then have "plan_block_wf ?c" using len(2) by (simp add: blk_static_def plan_block_wf_def)
  then have ws: "mot_wf s" unfolding s using len by (intro plan_push_wf [OF wf])
  note f = line_block_moves [OF cf nsm l(1) ne refl fit]
  show ?thesis
  proof (rule pipe_plan [OF inv ws])
    show "plan_moves s = plan_moves (mot m) @ [blk_static b]" using plan_moves_push [OF wf room] by (simp add: s c)
    show "list_all move_fits [blk_static b]" using f(1) by simp
  qed (simp_all add: f(2) s plan_push_def Let_def upd_blk_def)
qed

lemma pipe_line:
  assumes inv: "pipe_inv off m" and cf: "spm_ok (mset m)" and nsm: "pd_condition pl_data AND PL_COND_FLAG_SYSTEM_MOTION = 0"
    and room: "\<not> plan_check_full_buffer (mot m)" and r: "m_plan_buffer_line target pl_data m = (q, m')"
    and fit: "line_fits (mot m) (mot m')"
  shows "pipe_inv off m'"
proof -
  let ?s = "mot m" let ?h = "block_buffer_head (mot m)"
  have wf: "mot_wf ?s" using inv by (simp add: pipe_inv_def)
  obtain ts b u where l: "plan_line_steps (mset m) (sys_position (rt m)) target pl_data ?s = (ts, b, u)" by (metis prod_cases3)
  obtain b' u' where l': "plan_line_limits (mset m) pl_data ?s b u = (b', u')" by (metis surj_pair)
  have m': "m' = m\<lparr>mot := snd (plan_buffer_line (mset m) (sys m) (sys_position (rt m)) st_update_plan_block_parameters target pl_data ?s)\<rparr>"
    using r by (simp add: m_plan_buffer_line_def Let_def split: prod.splits)
  show ?thesis
  proof (cases "step_event_count b = 0")
    case True
    then have e: "m' = m\<lparr>mot := upd_blk ?h (\<lambda>_. b) ?s\<rparr>" using m' by (simp add: st_cb.plan_buffer_line_eq l)
    have "plan_block_wf b"
      using plan_line_steps_lengths [of "mset m" "sys_position (rt m)" target pl_data ?s] by (simp add: l)
    then have "mot_wf (upd_blk ?h (\<lambda>_. b) ?s)" using wf by (intro mot_wf_upd_blk mot_wf_indices) simp_all
    then show ?thesis
      unfolding e using plan_moves_head [OF wf, of "\<lambda>_. b"]
      by (intro pipe_plan [OF inv, of _ "[]"]) (simp_all add: upd_blk_def)
  next
    case False
    define s where "s = plan_push (plan_line_block (mset m) (sys m) (sys_position (rt m)) target pl_data ?s)
      (plan_compute_profile_nominal_speed (sys m) b') u' ts ?s"
    have e: "m' = m\<lparr>mot := planner_recalculate st_update_plan_block_parameters s\<rparr>"
      using m' False nsm by (simp add: st_cb.plan_buffer_line_eq l l' s_def)
    have k: "keeps s (mot m')" by (simp add: e keeps_recalculate)
    then have "pl_position (mot m') = ts" by (simp add: keeps_def static_view_def s_def plan_push_def Let_def upd_blk_def)
    then have "\<bar>motor_target ts a - motor_target (pl_position ?s) a\<bar> \<le> 2 ^ 24" if "a < 3" for a
      using fit that by (simp add: line_fits_def)
    then have "pipe_inv off (m\<lparr>mot := s\<rparr>)" using s_def by (intro pipe_push [OF inv cf nsm room l l' False])
    moreover have "mot_wf (mot m')" using plan_buffer_line_wf [OF wf] by (simp add: m')
    ultimately show ?thesis using k by (rule_tac pipe_keeps [of off "m\<lparr>mot := s\<rparr>"]) (simp_all add: e)
  qed
qed

section \<open>Replanning, pulses and the enable pin\<close>

lemma keeps_wake_up: "keeps s (st_wake_up cf s)"
  by (simp add: st_wake_up_def Let_def keeps_def static_view_def ring_segs_def recalc_def st_view_def counters_def)

lemma keeps_pulse: "keeps s (TIMER0_OVF_vect s)"
  by (simp add: TIMER0_OVF_vect_def keeps_def static_view_def ring_segs_def recalc_def)

lemma keeps_idle: "\<not> busy (mot m) \<Longrightarrow> keeps (mot m) (mot (st_go_idle m))"
  by (simp add: st_go_idle_def Let_def machine_lift keeps_def static_view_def ring_segs_def recalc_def)

lemma pipe_on_mot: "pipe_inv off m \<Longrightarrow> keeps (mot m) (f (mot m)) \<Longrightarrow> (mot_wf (mot m) \<Longrightarrow> mot_wf (f (mot m))) \<Longrightarrow> pipe_inv off (on_mot f m)"
  by (rule pipe_keeps [of off m]) (simp_all add: on_mot_def pipe_inv_def)

lemma pipe_wf: "pipe_inv off m \<Longrightarrow> mot_wf (mot m)"
  by (simp add: pipe_inv_def)

lemma pipe_not_busy: "pipe_inv off m \<Longrightarrow> \<not> busy (mot m)"
  by (auto simp: pipe_inv_def pipe_at_def exec_to_def)

section \<open>Runs\<close>

text \<open>
  What the firmware does to the rings between two resets: lines are planned, segments prepared, the
  two interrupts run, feed holds and overrides have the plan recomputed, the drivers are switched on and
  off. Everything else leaves the rings and the counted position alone. Homing and parking move outside
  the plan and are not steps of the relation.
\<close>

definition pass_fits :: "machine \<Rightarrow> machine \<Rightarrow> bool" where
  "pass_fits m m' \<longleftrightarrow> (case prep_select_block m of None \<Rightarrow> True | Some n \<Rightarrow> segment_fits (mot n) (mot m'))"

inductive motion_step :: "machine \<Rightarrow> machine \<Rightarrow> bool" where
  Line: "spm_ok (mset m) \<Longrightarrow> pd_condition pl_data AND PL_COND_FLAG_SYSTEM_MOTION = 0 \<Longrightarrow> \<not> plan_check_full_buffer (mot m) \<Longrightarrow>
    m_plan_buffer_line target pl_data m = (queued, m') \<Longrightarrow> line_fits (mot m) (mot m') \<Longrightarrow> motion_step m m'"
| Prep: "segment_buffer_tail (mot m) \<noteq> segment_next_head (mot m) \<Longrightarrow>
    sys_step_control (sys m) AND STEP_CONTROL_EXECUTE_SYS_MOTION = 0 \<Longrightarrow> prep_pass m = Some (continue, m') \<Longrightarrow>
    pass_fits m m' \<Longrightarrow> motion_step m m'"
| Tick: "motion_step m (TIMER1_COMPA_vect m)"
| Pulse: "motion_step m (on_mot TIMER0_OVF_vect m)"
| Replan: "motion_step m (on_mot (plan_cycle_reinitialize st_update_plan_block_parameters) m)"
| Override: "motion_step m (on_mot (plan_update_velocity_profile_parameters (sys m)) m)"
| Wake: "motion_step m (on_mot (st_wake_up (mset m)) m)"
| Idle: "motion_step m (st_go_idle m)"
| Other: "mot m' = mot m \<Longrightarrow> sys_position (rt m') = sys_position (rt m) \<Longrightarrow> motion_step m m'"

lemma pipe_motion: "motion_step m m' \<Longrightarrow> pipe_inv off m \<Longrightarrow> pipe_inv off m'"
proof (induction rule: motion_step.induct)
  case (Line m pl_data target queued m')
  then show ?case by (intro pipe_line [of off m pl_data target queued m'])
next
  case (Prep m continue m')
  then show ?case by (intro pipe_pass [of off m continue m']) (simp_all add: pass_fits_def)
next
  case (Tick m)
  then show ?case by (rule pipe_tick)
next
  case (Pulse m)
  then show ?case by (rule pipe_on_mot) (auto intro: keeps_pulse TIMER0_OVF_wf)
next
  case (Replan m)
  then show ?case by (rule pipe_on_mot) (auto intro: keeps_reinitialize plan_cycle_reinitialize_wf)
next
  case (Override m)
  then show ?case
    by (rule pipe_on_mot) (auto simp: plan_update_velocity_profile_parameters_def intro!: keeps_profile_loop profile_loop_wf mot_wf_indices)
next
  case (Wake m)
  then show ?case by (rule pipe_on_mot) (auto intro: keeps_wake_up st_wake_up_wf)
next
  case (Idle m)
  then show ?case
  proof (rule pipe_keeps)
    show "keeps (mot m) (mot (st_go_idle m))" by (rule keeps_idle [OF pipe_not_busy [OF Idle]])
    show "mot_wf (mot (st_go_idle m))" using Idle by (intro st_go_idle_wf pipe_wf)
  qed (simp add: st_go_idle_def Let_def machine_lift)
next
  case (Other m' m)
  then have "keeps (mot m) (mot m')" and "mot_wf (mot m')" by (simp_all only: keeps_refl pipe_wf)
  then show ?case by (rule pipe_keeps [OF Other(3) _ _ Other(2)])
qed

lemma pipe_run: "motion_step\<^sup>*\<^sup>* m m' \<Longrightarrow> pipe_inv off m \<Longrightarrow> pipe_inv off m'"
  by (induction rule: rtranclp_induct) (auto intro: pipe_motion)

section \<open>Rest\<close>

text \<open>The plan and the ring are empty, and the interrupt has nothing left of its segment.\<close>

definition drained :: "machine \<Rightarrow> bool" where
  "drained m \<longleftrightarrow> block_buffer_head (mot m) = block_buffer_tail (mot m)
     \<and> segment_buffer_head (mot m) = segment_buffer_tail (mot m) \<and> exec_segment (st (mot m)) = None"

text \<open>As \<open>st_reset\<close> and \<open>plan_reset\<close> leave the machine.\<close>

definition at_rest :: "machine \<Rightarrow> bool" where
  "at_rest m \<longleftrightarrow> drained m \<and> mot_wf (mot m) \<and> \<not> busy (mot m) \<and> pl_block (mot m) = None \<and> \<not> recalc (mot m)
     \<and> exec_block_index (st (mot m)) = pr_st_block_index (prep (mot m)) \<and> length (sys_position (rt m)) = 3"

definition offset :: "machine \<Rightarrow> nat \<Rightarrow> int" where
  "offset m a = sys_position (rt m) ! a - motor_target (pl_position (mot m)) a"

lemma pipe_rest:
  assumes "at_rest m"
  shows "pipe_inv (offset m) m"
proof -
  have m: "mot_wf (mot m)" "\<not> started (mot m)" and d: "drained m" using assms by (simp_all add: at_rest_def started_def)
  have r: "seg_ring_ok (mot m)" using m(1) d by (simp add: seg_ring_ok_def mot_wf_defs drained_def SEGMENT_BUFFER_SIZE_def)
  have u: "unstarted (mot m) = []" using m d plan_moves_Nil [OF m(1)] by (simp add: unstarted_def drained_def)
  have n: "unloaded (mot m) = []" using d ring_segs_Nil [OF r] by (simp add: unloaded_def drained_def)
  let ?e = "(pr_st_block_index (prep (mot m)), 0, \<lambda>a. sys_position (rt m) ! a)"
  have "exec_to ?e m" using assms d by (simp add: exec_to_def at_rest_def drained_def at_motors_def)
  moreover have "unat (pr_st_block_index (prep (mot m))) < 5" using m(1) by (simp add: mot_wf_def prep_wf_def SEGMENT_BUFFER_SIZE_def)
  ultimately have "pipe_at (offset m) ?e ?e 0 (\<lambda>a. sys_position (rt m) ! a) m"
    using m(2) by (simp add: pipe_at_def n u loaded_to_def steps_left_def offset_def)
  moreover have "control_ok (mot m)" using assms m(2) u by (simp add: control_ok_def at_rest_def)
  ultimately show ?thesis using m(1) r by (intro pipe_invI)
qed

lemma invert_masks: "\<exists>x y. st_generate_step_dir_invert_masks cf s = s\<lparr>step_port_invert_mask := x, dir_port_invert_mask := y\<rparr>"
proof -
  let ?r = "\<lambda>s :: stepper_t. s\<lparr>step_port_invert_mask := 0, dir_port_invert_mask := 0\<rparr>" let ?t = "st_generate_step_dir_invert_masks cf s"
  have "?r ?t = ?r s"
    unfolding st_generate_step_dir_invert_masks_def by (rule fold_inv [where Q = "\<lambda>t. ?r t = ?r s"]) (auto simp: Let_def)
  then have "?t = s\<lparr>step_port_invert_mask := step_port_invert_mask ?t, dir_port_invert_mask := dir_port_invert_mask ?t\<rparr>"
    by (cases ?t; cases s) simp
  then show ?thesis by blast
qed

lemma reset_at_rest:
  assumes "mot_wf (mot m)" and "length (sys_position (rt m)) = 3"
  shows "at_rest (m_plan_sync_position (on_mot plan_reset (st_reset m)))"
proof -
  let ?s = "(mot (st_go_idle m))\<lparr>prep := st_prep_zero, st := st_zero\<lparr>exec_segment := None\<rparr>, pl_block := None, segment_buffer_tail := 0,
    segment_buffer_head := 0, segment_next_head := 1, busy := False\<rparr>"
  have idle: "rt (st_go_idle m) = rt m" by (simp add: st_go_idle_def Let_def machine_lift)
  obtain x y where e: "st_generate_step_dir_invert_masks (mset (st_go_idle m)) ?s = ?s\<lparr>step_port_invert_mask := x, dir_port_invert_mask := y\<rparr>"
    using invert_masks by blast
  have "mot_wf (mot (m_plan_sync_position (on_mot plan_reset (st_reset m))))"
    using plan_sync_position_wf [OF plan_reset_wf [OF st_reset_wf [OF assms(1)]]] by (simp add: m_plan_sync_position_def machine_lift)
  then show ?thesis
    using assms(2) idle e
    by (simp add: at_rest_def drained_def m_plan_sync_position_def machine_lift plan_sync_position_def plan_reset_def
        plan_reset_buffer_def st_reset_def Let_def recalc_def) (simp add: st_zero_def st_prep_zero_def)
qed

end
