(* ===== verification/Pipeline_Run.thy ===== *)
theory Pipeline_Run
  imports Pipeline_Motion
begin

text \<open>
  The property of the whole pipeline, that no step is lost between the planner and the motors, and a run
  of one line through planner, preparation and interrupt: one step of the third axis, at an acceleration
  that lets the ramp reach its peak and come down again in a single segment.
\<close>

section \<open>The example: settings and line\<close>

definition one_settings :: settings_t where
  "one_settings = default_settings\<lparr>steps_per_mm := replicate 3 (f_of_int 1), max_rate := replicate 3 (f_of_int (2 ^ 20)),
     acceleration := replicate 3 (f_of_int (2 ^ 40))\<rparr>"

definition one_line :: plan_line_data_t where
  "one_line = plan_line_data_zero\<lparr>pd_feed_rate := f_of_int (2 ^ 20), pd_condition := PL_COND_FLAG_NO_FEED_OVERRIDE\<rparr>"

definition one_step :: plan_block_t where
  "one_step = plan_block_zero\<lparr>steps := [0, 0, 1], step_event_count := 1, condition := PL_COND_FLAG_NO_FEED_OVERRIDE\<rparr>"

definition one_block :: plan_block_t where
  "one_block = one_step\<lparr>millimeters := FFin False 1, pb_acceleration := FFin False (2 ^ 40),
     rapid_rate := FFin False (2 ^ 20), programmed_rate := FFin False (2 ^ 20)\<rparr>"

definition one_rest :: machine where
  "one_rest = machine_zero\<lparr>conf := (conf machine_zero)\<lparr>settings := one_settings\<rparr>\<rparr>"

definition one_planned :: machine where
  "one_planned = one_rest\<lparr>mot := plan_push one_block (FFin False (2 ^ 20)) z_target [0, 0, 1] stepper_zero\<rparr>"

lemma one_rest_fields:
  "mset one_rest = one_settings" "sys one_rest = sys_zero" "mot one_rest = stepper_zero" "sys_position (rt one_rest) = [0, 0, 0]"
  by (simp_all add: one_rest_def machine_zero_def rt_zero_def N_AXIS_def numeral_3_eq_3)

lemma one_float: "f_of_int 1 = FFin False 1" "f_div (FFin False 1) (FFin False 1) = FFin False 1"
  "f_div REQ_MM_INCREMENT_SCALAR (FFin False 1) = FFin False (5 / 4)" "f_sqrt f_zero = f_zero"
  by code_simp+

lemma one_spm: "spm_ok one_settings"
proof -
  have "steps_per_mm one_settings = replicate 3 (FFin False 1)" by (simp add: one_settings_def one_float)
  moreover have "f_wf (FFin False 1)" using f_repr_int [of 1] int_le_f_max [of 1] by simp
  ultimately show ?thesis by (simp add: spm_ok_def N_AXIS_def)
qed

lemma one_at_rest: "at_rest one_rest"
  by (simp add: at_rest_def drained_def one_rest_fields mot_wf_zero)
    (simp add: stepper_zero_def st_zero_def st_prep_zero_def recalc_def)

section \<open>Planning the line\<close>

lemma one_plan:
  "plan_line_steps one_settings [0, 0, 0] z_target one_line stepper_zero = ([0, 0, 1], one_step, z_target)"
  "plan_line_limits one_settings one_line stepper_zero one_step z_target = (one_block, z_target)"
  "plan_compute_profile_parameters one_block (FFin False (2 ^ 20)) f_zero = one_block"
  "plan_compute_profile_nominal_speed sys_zero one_block = FFin False (2 ^ 20)"
  by code_simp+

lemma one_step_line: "motion_step one_rest one_planned"
proof (rule motion_step.Line)
  let ?p = "plan_push one_block (FFin False (2 ^ 20)) z_target [0, 0, 1] stepper_zero"
  have z: "pl_previous_nominal_speed stepper_zero = f_zero" "pd_condition one_line AND PL_COND_FLAG_SYSTEM_MOTION = 0"
    "step_event_count one_step \<noteq> 0"
    by (simp_all add: stepper_zero_def one_line_def one_step_def grbl_const)
  have b: "plan_line_block one_settings sys_zero [0, 0, 0] z_target one_line stepper_zero = one_block"
    unfolding plan_line_block_def one_plan Let_def prod.case z(1) by (rule refl)
  have r: "planner_recalculate st_update_plan_block_parameters ?p = ?p"
    by (simp add: planner_recalculate_def plan_push_def Let_def upd_blk_def stepper_zero_def plan_prev_block_index_def)
  have "plan_buffer_line one_settings sys_zero [0, 0, 0] st_update_plan_block_parameters z_target one_line stepper_zero = (True, ?p)"
    unfolding st_cb.plan_buffer_line_eq one_plan prod.case b r using z(2,3) by simp
  then show "m_plan_buffer_line z_target one_line one_rest = (True, one_planned)"
    by (simp add: m_plan_buffer_line_def one_rest_fields one_planned_def)
  show "line_fits (mot one_rest) (mot one_planned)"
    by (simp add: line_fits_def one_planned_def one_rest_fields plan_push_def Let_def upd_blk_def stepper_zero_def
        motor_target_def N_AXIS_def upt_rec)
qed (simp_all add: one_rest_fields one_spm one_line_def grbl_const stepper_zero_def plan_check_full_buffer_def)

section \<open>Preparing its segment\<close>

definition load_prep :: st_prep_t where
  "load_prep = st_prep_zero\<lparr>pr_st_block_index := 1, steps_remaining := FFin False 1, step_per_mm := FFin False 1,
     req_mm_increment := FFin False (5 / 4)\<rparr>"

definition ramp_prep :: st_prep_t where
  "ramp_prep = load_prep\<lparr>accelerate_until := FFin False (1 / 2), decelerate_after := FFin False (1 / 2),
     maximum_speed := FFin False (2 ^ 20)\<rparr>"

definition run_prep :: st_prep_t where
  "run_prep = ramp_prep\<lparr>ramp_type := RAMP_DECEL, current_speed := f_zero\<rparr>"

definition one_loaded :: stepper_t where
  "one_loaded = (mot one_planned)\<lparr>pl_block := Some 0, st_prep_block := 1, st_block_buffer := (replicate 5 st_block_zero)[1 :=
     \<lparr>sb_steps = [0, 0, 8], sb_step_event_count = 8, sb_direction_bits = 0, is_pwm_rate_adjusted = False\<rparr>], prep := load_prep\<rparr>"

definition one_profiled :: machine where
  "one_profiled = one_planned\<lparr>mot := one_loaded\<lparr>prep := ramp_prep\<rparr>,
     sys := sys_zero\<lparr>sys_step_control := STEP_CONTROL_UPDATE_SPINDLE_PWM\<rparr>\<rparr>"

lemma one_fields:
  "sys_step_control (sys one_planned) = 0" "prep (mot one_planned) = st_prep_zero" "pl_block (mot one_planned) = None"
  "block_buffer_head (mot one_planned) = 1" "block_buffer_tail (mot one_planned) = 0" "settings_flags (mset one_planned) = 0"
  "sys one_planned = sys_zero" "sys_step_control sys_zero = 0" "blk one_loaded 0 = one_block" "prep one_loaded = load_prep"
  "recalculate_flag load_prep = 0" "entry_speed_sqr one_block = f_zero" "millimeters one_block = FFin False 1"
  "plan_next_block_index 0 = 1" "block_buffer_head one_loaded = 1" "block_buffer_tail one_loaded = 0"
  "blk (mot one_planned) 0 = one_block"
  by (simp_all add: one_planned_def one_rest_def machine_zero_def sys_zero_def plan_push_def Let_def upd_blk_def stepper_zero_def
      one_settings_def default_settings_def one_loaded_def blk_def load_prep_def st_prep_zero_def one_block_def one_step_def
      plan_block_zero_def plan_next_block_index_def BLOCK_BUFFER_SIZE_def)

lemma one_load_data: "load_block_data one_block ((mot one_planned)\<lparr>pl_block := Some 0\<rparr>) = one_loaded"
  by (simp add: load_block_data_def one_loaded_def one_planned_def plan_push_def Let_def upd_blk_def stepper_zero_def upd_prep_def
      st_prep_zero_def load_prep_def one_block_def one_step_def one_float st_next_block_index_def SEGMENT_BUFFER_SIZE_def N_AXIS_def
      upt_rec MAX_AMASS_LEVEL_def push_bit_eq_mult plan_block_zero_def del: f_div.simps)

lemma one_load: "prep_load_block 0 (one_planned\<lparr>mot := (mot one_planned)\<lparr>pl_block := Some 0\<rparr>\<rparr>) = one_planned\<lparr>mot := one_loaded\<rparr>"
proof -
  have b: "blk ((mot one_planned)\<lparr>pl_block := Some 0\<rparr>) 0 = one_block" using one_fields(17) by (simp add: blk_def)
  have "upd_prep (\<lambda>p. p\<lparr>current_speed := f_zero\<rparr>) one_loaded = one_loaded"
    by (simp add: upd_prep_def one_loaded_def load_prep_def st_prep_zero_def)
  then show ?thesis
    by (simp add: prep_load_block_def b one_load_data Let_def load_block_laser_def load_block_speed_def one_fields one_float)
qed

lemma one_ramp:
  "profile_normal (FFin False 1048576) f_zero one_block
     (load_prep\<lparr>ramp_type := RAMP_ACCEL, accelerate_until := FFin False 1, exit_speed := f_zero\<rparr>) = ramp_prep"
  "ramp_step one_block ramp_prep (FFin False 1) DT_SEGMENT
     = (ramp_prep\<lparr>ramp_type := RAMP_DECEL, current_speed := FFin False (2 ^ 20)\<rparr>, FFin False (1 / 2), FFin False (1 / 2 ^ 20))"
  "ramp_step one_block (ramp_prep\<lparr>ramp_type := RAMP_DECEL, current_speed := FFin False (2 ^ 20)\<rparr>) (FFin False (1 / 2))
     (f_sub DT_SEGMENT (FFin False (1 / 2 ^ 20))) = (run_prep, f_zero, FFin False (1 / 2 ^ 20))"
  by code_simp+

lemma one_profile: "prep_velocity_profile 0 (one_planned\<lparr>mot := one_loaded\<rparr>) = one_profiled"
proof -
  have s: "upd_prep (\<lambda>p. p\<lparr>mm_complete := f_zero\<rparr>) one_loaded = one_loaded"
    by (simp add: upd_prep_def one_loaded_def load_prep_def st_prep_zero_def)
  have e: "plan_get_exec_block_exit_speed_sqr (upd_prep f one_loaded) = f_zero" for f
    by (simp add: plan_get_exec_block_exit_speed_sqr_def one_fields upd_prep_def)
  show ?thesis
    unfolding prep_velocity_profile_def Let_def
    by (simp add: one_fields s) (simp add: e one_float one_plan, simp add: one_profiled_def sys_zero_def bit_true_def upd_prep_def one_fields one_ramp)
qed

lemma one_select: "prep_select_block one_planned = Some one_profiled"
  by (simp add: prep_select_block_def one_fields plan_get_current_block_def on_mot_def one_load one_profile st_prep_zero_def)

lemma one_ramp_loop:
  "ramp_loop one_block f_zero ramp_prep (FFin False 1) DT_SEGMENT f_zero DT_SEGMENT = Some (run_prep, f_zero, FFin False (1 / 2 ^ 19))"
proof -
  have d: "f_lt (FFin False (1 / 2 ^ 20)) DT_SEGMENT" "f_lt (FFin False (1 / 2 ^ 19)) DT_SEGMENT"
    "f_add f_zero (FFin False (1 / 2 ^ 20)) = FFin False (1 / 2 ^ 20)"
    "f_add (FFin False (1 / 2 ^ 20)) (FFin False (1 / 2 ^ 20)) = FFin False (1 / 2 ^ 19)" by code_simp+
  have m: "mm_complete ramp_prep = f_zero" "mm_complete run_prep = f_zero"
    by (simp_all add: run_prep_def ramp_prep_def load_prep_def st_prep_zero_def)
  show ?thesis
    by (subst ramp_loop.simps, simp only: one_ramp Let_def prod.case d if_True, subst ramp_loop.simps,
        simp only: one_ramp Let_def prod.case d if_True) (simp add: m)
qed

section \<open>Queueing it\<close>

abbreviation blank_segment :: segment_t where
  "blank_segment \<equiv> \<lparr>n_step = 0, cycles_per_tick = 0, sg_st_block_index = 1, amass_level = 0, sg_spindle_pwm = SPINDLE_PWM_OFF_VALUE\<rparr>"

definition one_segment :: segment_t where
  "one_segment = blank_segment\<lparr>n_step := 1, cycles_per_tick := 1832\<rparr>"

definition one_spun :: machine where
  "one_spun = one_profiled\<lparr>mot := (mot one_profiled)\<lparr>prep := run_prep\<lparr>current_spindle_pwm := SPINDLE_PWM_OFF_VALUE\<rparr>\<rparr>,
     sys := sys_zero\<lparr>sys_spindle_speed := f_zero\<rparr>\<rparr>"

definition one_end :: machine where
  "one_end = on_mot (\<lambda>s. plan_discard_current_block (s\<lparr>pl_block := None\<rparr>))
     (one_spun\<lparr>mot := queue_state 0 one_segment f_zero f_zero f_zero (mot one_spun)\<rparr>)"

lemma one_profiled_fields:
  "blk (mot one_profiled) 0 = one_block" "prep (mot one_profiled) = ramp_prep" "req_mm_increment ramp_prep = FFin False (5 / 4)"
  "pr_st_block_index run_prep = 1" "condition one_block = PL_COND_FLAG_NO_FEED_OVERRIDE" "st_prep_block (mot one_profiled) = 1"
  "sys_step_control (sys one_profiled) = STEP_CONTROL_UPDATE_SPINDLE_PWM" "steps_remaining ramp_prep = FFin False 1"
  "segment_buffer (mot one_profiled) = replicate 6 segment_zero" "segment_buffer_head (mot one_profiled) = 0"
  "segment_buffer_tail (mot one_profiled) = 0" "segment_next_head (mot one_profiled) = 1"
  "\<not> is_pwm_rate_adjusted (st_block_buffer (mot one_profiled) ! 1)"
  using one_fields(9)
  by (simp_all add: one_profiled_def run_prep_def ramp_prep_def load_prep_def one_block_def one_step_def blk_def st_prep_zero_def
      one_loaded_def one_planned_def plan_push_def Let_def upd_blk_def stepper_zero_def)

lemma one_spun_fields:
  "sys_step_control (sys one_spun) = 0" "step_per_mm (prep (mot one_spun)) = FFin False 1"
  "steps_remaining (prep (mot one_spun)) = FFin False 1" "dt_remainder (prep (mot one_spun)) = f_zero"
  "mm_complete (prep (mot one_spun)) = f_zero"
  by (simp_all add: one_spun_def sys_zero_def run_prep_def ramp_prep_def load_prep_def st_prep_zero_def)

lemma one_spindle: "prep_spindle one_block (one_profiled\<lparr>mot := (mot one_profiled)\<lparr>prep := run_prep\<rparr>\<rparr>) = one_spun"
  unfolding prep_spindle_def Let_def using one_profiled_fields(13)
  by (simp add: one_profiled_fields one_spun_def on_mot_def on_sys_def upd_prep_def grbl_const sys_zero_def bit_false_def one_profiled_def)

lemma one_steps:
  "f_lt (f_sub (FFin False 1) (FFin False (5 / 4))) f_zero" "f_mul (FFin False 1) f_zero = f_zero" "f_ceil f_zero = f_zero"
  "f_ceil (FFin False 1) = FFin False 1" "f_to_int (FFin False 1) = 1" "f_sub (FFin False 1) f_zero = FFin False 1"
  "f_add (FFin False (1 / 2 ^ 19)) f_zero = FFin False (1 / 2 ^ 19)"
  "f_div (FFin False (1 / 2 ^ 19)) (FFin False 1) = FFin False (1 / 2 ^ 19)"
  "f_to_int (f_ceil (f_mul cycles_per_minute (FFin False (1 / 2 ^ 19)))) = 1832"
  "f_sub f_zero f_zero = f_zero" "f_mul f_zero (FFin False (1 / 2 ^ 19)) = f_zero" "f_eq f_zero f_zero" "\<not> f_lt f_zero f_zero"
  by code_simp+

lemma one_prep: "prep_segment 0 one_profiled = Some (prep_queue_segment 0 f_zero (FFin False (1 / 2 ^ 19)) blank_segment one_spun)"
  unfolding prep_segment_def Let_def one_profiled_fields one_fields
  by (simp only: one_steps if_True one_ramp_loop option.case prod.case one_spindle)
    (simp add: one_spun_def one_profiled_fields segment_zero_def)

lemma one_queue: "prep_queue_segment 0 f_zero (FFin False (1 / 2 ^ 19)) blank_segment one_spun = (True, one_end)"
proof -
  have m: "millimeters (blk (queue_state 0 one_segment f_zero f_zero f_zero (mot one_spun)) 0) = f_zero"
    by (simp add: queue_state_def upd_blk_def blk_def upd_prep_def one_spun_def one_profiled_def one_loaded_def one_planned_def
        plan_push_def Let_def stepper_zero_def)
  have r: "segment_rate (word_of_int 1832) (blank_segment\<lparr>n_step := word_of_int 1\<rparr>) = one_segment" by code_simp
  have n: "n_step (blank_segment\<lparr>n_step := word_of_int 1\<rparr>) \<noteq> 0" by simp
  have "prep_block_end 0 (one_spun\<lparr>mot := queue_state 0 one_segment f_zero f_zero f_zero (mot one_spun)\<rparr>) = (True, one_end)"
    unfolding prep_block_end_def Let_def by (simp add: m queue_state_fields one_spun_fields one_steps one_end_def)
  then show ?thesis
    unfolding prep_queue_segment_def Let_def one_spun_fields one_steps r using n by (simp add: queue_state_def)
qed

lemma one_end_fields:
  "block_buffer_head (mot one_end) = 1" "block_buffer_tail (mot one_end) = 1" "segment_buffer_head (mot one_end) = 1"
  "segment_buffer_tail (mot one_end) = 0" "segment_buffer (mot one_end) ! 0 = one_segment" "exec_segment (st (mot one_end)) = None"
  "\<not> busy (mot one_end)" "steps_remaining (prep (mot one_end)) = f_zero" "pl_position (mot one_end) = [0, 0, 1]"
  by (simp_all add: one_end_def on_mot_def plan_discard_current_block_def Let_def queue_state_fields one_spun_def one_profiled_fields)
    (simp_all add: queue_state_def upd_prep_def upd_blk_def one_profiled_def one_loaded_def one_planned_def plan_push_def Let_def
      stepper_zero_def plan_next_block_index_def BLOCK_BUFFER_SIZE_def st_zero_def)

lemma one_step_prep: "motion_step one_planned one_end"
proof (rule motion_step.Prep)
  show "prep_pass one_planned = Some (True, one_end)"
    using one_queue one_prep by (simp add: prep_pass_def one_select) (simp add: one_profiled_def one_loaded_def)
  have "segment_fits (mot one_profiled) (mot one_end)" by (simp add: segment_fits_def one_end_fields one_profiled_fields)
  then show "pass_fits one_planned one_end" by (simp add: pass_fits_def one_select)
qed (simp_all add: one_planned_def one_rest_def machine_zero_def sys_zero_def plan_push_def Let_def upd_blk_def stepper_zero_def)

section \<open>Executing it\<close>

lemma one_drained: "drained (TIMER1_COMPA_vect one_end)"
proof -
  let ?n = "isr_load_segment (on_mot isr_output_pins one_end)"
  have t: "TIMER1_COMPA_vect one_end = isr_execute ?n"
    using one_end_fields by (intro timer1_tick(2)) simp_all
  have "step_count (st (mot ?n)) = 1"
    by (simp add: isr_load_segment_def Let_def on_mot_pins on_spin_def)
      (simp add: isr_output_pins_def Let_def one_end_fields one_segment_def)
  moreover have "segment_buffer_tail (mot ?n) = 0"
    by (simp add: isr_ring on_mot_pins) (simp add: isr_output_pins_def Let_def one_end_fields)
  ultimately have "segment_buffer_tail (mot (TIMER1_COMPA_vect one_end)) = 1" "exec_segment (st (mot (TIMER1_COMPA_vect one_end))) = None"
    by (simp_all add: t isr_execute_ring next_segment_index_def SEGMENT_BUFFER_SIZE_def)
  then show ?thesis using tick_view [of one_end] one_end_fields by (simp add: drained_def main_view_def)
qed

section \<open>Property\<close>

text \<open>
  C1. No step is lost between the planner and the motors. From a machine at rest, let lines be planned,
  segments prepared and the interrupts run in any order, with feed holds, overrides and replanning at any
  moment in between: whenever the plan and the segment ring are empty again, the counted motor positions have
  moved by exactly as much as the position of the planner, mapped to the CoreXY motors. The lines ask for at
  most \<open>2 ^ 24\<close> steps each, and a segment takes at least one step and fewer than \<open>2 ^ 13\<close>.
\<close>

theorem no_step_lost:
  assumes "at_rest m0" and "motion_step\<^sup>*\<^sup>* m0 m" and "drained m" and "a < 3"
  shows "sys_position (rt m) ! a - sys_position (rt m0) ! a
    = motor_target (pl_position (mot m)) a - motor_target (pl_position (mot m0)) a"
  using pipe_inv_rest [OF pipe_run [OF assms(2) pipe_rest [OF assms(1)]] _ _ _ assms(4)] assms(3)
  by (simp add: drained_def offset_def)

theorem no_step_lost_witness:
  "\<exists>m. motion_step\<^sup>*\<^sup>* one_rest m \<and> drained m \<and> sys_position (rt m) ! 2 - sys_position (rt one_rest) ! 2 = 1"
proof (intro exI conjI)
  let ?m = "TIMER1_COMPA_vect one_end"
  show r: "motion_step\<^sup>*\<^sup>* one_rest ?m"
    using one_step_line one_step_prep motion_step.Tick [of one_end] by (meson converse_rtranclp_into_rtranclp r_into_rtranclp)
  show "drained ?m" by (rule one_drained)
  have "pl_position (mot ?m) = [0, 0, 1]" using tick_view [of one_end] by (simp add: main_view_def one_end_fields)
  then show "sys_position (rt ?m) ! 2 - sys_position (rt one_rest) ! 2 = 1"
    using no_step_lost [OF one_at_rest r one_drained, of 2] by (simp add: motor_target_def one_rest_fields stepper_zero_def N_AXIS_def)
qed

end
