(* ===== verification/Gcode_Target.thy ===== *)
theory Gcode_Target
  imports Main_Inv Gcode_Safety Pipeline_Prep
begin

text \<open>
  Where a g-code line takes the machine: the reference definition of the commanded point, and the proof
  that the parser's position and the planner's position agree on it after the line, whatever the realtime
  system did while the line waited for the planner.
\<close>

section \<open>The position of the planner after a line\<close>

text \<open>The routines along the motions leave settings and EEPROM alone.\<close>

definition held :: "cfg \<Rightarrow> machine \<Rightarrow> bool" where
  "held c m \<longleftrightarrow> machine_wf m \<and> conf m = c"

interpretation conf_inv: realtime_inv "held c" for c
  by unfold_locales (auto simp: held_def machine_wf_def)

text \<open>A target in steps.\<close>

definition step_target :: "settings_t \<Rightarrow> vec \<Rightarrow> int list" where
  "step_target cf target = map (\<lambda>i. f_lround (f_mul (target ! i) (steps_per_mm cf ! i))) [0, 1, 2]"

definition reachable_steps :: "int list \<Rightarrow> int list \<Rightarrow> bool" where
  "reachable_steps target pos \<longleftrightarrow> (\<forall>i < 3. \<bar>target ! i - pos ! i\<bar> < 2 ^ 31)"

lemma word_abs_0: "(word_of_int \<bar>d\<bar> :: u32) = 0 \<Longrightarrow> \<bar>d\<bar> < 2 ^ 32 \<Longrightarrow> d = 0"
proof -
  assume w: "(word_of_int \<bar>d\<bar> :: u32) = 0" and d: "\<bar>d\<bar> < 2 ^ 32"
  have "uint (word_of_int \<bar>d\<bar> :: u32) = \<bar>d\<bar>" using d by (simp add: uint_word_of_int)
  then show "d = 0" using w by simp
qed

lemma abs_sums: "\<bar>x\<bar> < 2 ^ 31 \<Longrightarrow> \<bar>y\<bar> < 2 ^ 31 \<Longrightarrow> \<bar>x + y\<bar> < 2 ^ 32 \<and> \<bar>x - y\<bar> < 2 ^ 32" for x y :: int
  by (simp add: abs_if split: if_splits)

lemma max_eq_0_word: "max x y = (0 :: u32) \<Longrightarrow> x = 0 \<and> y = 0"
  by (auto simp: max_def split: if_splits)

lemma plan_buffer_line_position:
  assumes cf: "spm_ok cf" and nsm: "pd_condition pl_data AND PL_COND_FLAG_SYSTEM_MOTION = 0"
    and len: "length (pl_position s) = 3"
    and r: "plan_buffer_line cf sy pos st_update_plan_block_parameters target pl_data s = (q, s')"
    and near: "reachable_steps (step_target cf target) (pl_position s')"
  shows "pl_position s' = step_target cf target"
proof -
  obtain ts b u where l: "plan_line_steps cf pos target pl_data s = (ts, b, u)" by (metis prod_cases3)
  obtain b' u' where l': "plan_line_limits cf pl_data s b u = (b', u')" by (metis surj_pair)
  note t = plan_line_steps_result [OF cf nsm l refl refl refl]
  have ts: "ts = step_target cf target" using t(1) by (simp add: step_target_def)
  show ?thesis
  proof (cases "step_event_count b = 0")
    case True
    have p: "pl_position s' = pl_position s" using r True by (auto simp: st_cb.plan_buffer_line_eq l upd_blk_def)
    let ?dx = "ts ! 0 - pl_position s ! 0" let ?dy = "ts ! 1 - pl_position s ! 1" let ?dz = "ts ! 2 - pl_position s ! 2"
    have "max (max (steps b ! 0) (steps b ! 1)) (steps b ! 2) = 0" using t(3) True by simp
    then have "steps b ! 0 = 0" "steps b ! 1 = 0" "steps b ! 2 = 0" by (blast dest: max_eq_0_word)+
    then have w: "(word_of_int \<bar>?dx + ?dy\<bar> :: u32) = 0" "(word_of_int \<bar>?dx - ?dy\<bar> :: u32) = 0" "(word_of_int \<bar>?dz\<bar> :: u32) = 0"
      unfolding t(2) One_nat_def numeral_2_eq_2 nth_Cons_0 nth_Cons_Suc .
    have n: "\<bar>?dx\<bar> < 2 ^ 31" "\<bar>?dy\<bar> < 2 ^ 31" "\<bar>?dz\<bar> < 2 ^ 31"
      using near by (simp_all add: reachable_steps_def p flip: ts)
    have "?dx + ?dy = 0" "?dx - ?dy = 0" using abs_sums [OF n(1,2)] word_abs_0 w(1,2) by blast+
    moreover have "?dz = 0" using n(3) by (intro word_abs_0 [OF w(3)]) simp
    ultimately have e: "pl_position s ! 0 = ts ! 0" "pl_position s ! 1 = ts ! 1" "pl_position s ! 2 = ts ! 2" by linarith+
    have "pl_position s = map ((!) (pl_position s)) [0, 1, 2]"
      using map_nth [of "pl_position s"] by (simp add: len upt_rec numeral_2_eq_2)
    also have "\<dots> = map ((!) ts) [0, 1, 2]" using e by simp
    also have "\<dots> = ts" by (simp add: ts step_target_def)
    finally show ?thesis by (simp add: p ts)
  next
    case False
    let ?p = "plan_push (plan_line_block cf sy pos target pl_data s) (plan_compute_profile_nominal_speed sy b') u' ts s"
    have "s' = planner_recalculate st_update_plan_block_parameters ?p"
      using r False nsm by (simp add: st_cb.plan_buffer_line_eq l l')
    then have "pl_position s' = pl_position ?p"
      using keeps_recalculate [of ?p] by (simp add: keeps_def static_view_def)
    then show ?thesis by (simp add: plan_push_def Let_def upd_blk_def ts)
  qed
qed

section \<open>Lines and arcs\<close>

text \<open>What must hold of the machine in which a line is handed to the planner.\<close>

definition plans_lines :: "machine \<Rightarrow> bool" where
  "plans_lines m \<longleftrightarrow> machine_wf m \<and> spm_ok (mset m) \<and> bit_isfalse (settings_flags (mset m)) BITFLAG_LASER_MODE"

definition arrived :: "settings_t \<Rightarrow> vec \<Rightarrow> machine \<Rightarrow> bool" where
  "arrived cf target m \<longleftrightarrow> (sys_abort (sys m) = 0 \<and> sys_state (sys m) \<noteq> STATE_CHECK_MODE
     \<and> reachable_steps (step_target cf target) (pl_position (mot m)) \<longrightarrow> pl_position (mot m) = step_target cf target)"

lemma plans_lines_keep:
  assumes "plans_lines m" and "held (conf m) m \<Longrightarrow> pred_option (held (conf m)) r" and "r = Some m'"
  shows "plans_lines m'" and "conf m' = conf m"
  using assms by (auto simp: plans_lines_def held_def)

definition line_rest :: "vec \<Rightarrow> plan_line_data_t \<Rightarrow> machine \<Rightarrow> machine option" where
  "line_rest target pl_data m =
     (if sys_state (sys m) = STATE_CHECK_MODE then Some m
      else Option.bind (wait_for_room m) (\<lambda>m.
        if sys_abort (sys m) \<noteq> 0 then Some m
        else (let (planned, m) = m_plan_buffer_line target pl_data m
              in if \<not> planned \<and> bit_istrue (settings_flags (mset m)) BITFLAG_LASER_MODE
                    \<and> pd_condition pl_data AND PL_COND_FLAG_SPINDLE_CW \<noteq> 0
                 then spindle_sync PL_COND_FLAG_SPINDLE_CW (pd_spindle_speed pl_data) m
                 else Some m)))"

lemma mc_line_rest:
  assumes "mc_line target pl_data m = Some m'"
  obtains m1 where "m1 = m \<or> limits_soft_check target m = Some m1" "line_rest target pl_data m1 = Some m'"
proof -
  have "Option.bind (if bit_istrue (settings_flags (mset m)) BITFLAG_SOFT_LIMIT_ENABLE \<and> sys_state (sys m) \<noteq> STATE_JOG
      then limits_soft_check target m else Some m) (line_rest target pl_data) = Some m'"
    using assms by (simp add: mc_line_def line_rest_def [abs_def])
  then show thesis using that by (auto simp: bind_eq_Some_conv split: if_splits)
qed

lemma line_rest_arrives:
  assumes p: "plans_lines m" and nsm: "pd_condition pl_data AND PL_COND_FLAG_SYSTEM_MOTION = 0"
    and r: "line_rest target pl_data m = Some m'"
  shows "arrived (mset m) target m'"
proof (cases "sys_state (sys m) = STATE_CHECK_MODE")
  case True
  then show ?thesis using r by (simp add: line_rest_def arrived_def)
next
  case False
  obtain m2 where m2: "wait_for_room m = Some m2" using r False by (auto simp: line_rest_def bind_eq_Some_conv)
  have p2: "plans_lines m2" "conf m2 = conf m"
    using plans_lines_keep [OF p conf_inv.wait_inv(2) m2] by simp_all
  show ?thesis
  proof (cases "sys_abort (sys m2) = 0")
    case True
    obtain q s where q: "plan_buffer_line (mset m2) (sys m2) (sys_position (rt m2)) st_update_plan_block_parameters
        target pl_data (mot m2) = (q, s)" by (metis surj_pair)
    have "m' = m2\<lparr>mot := s\<rparr>"
      using r False m2 True p2(1) by (simp add: line_rest_def m_plan_buffer_line_def q plans_lines_def bit_isfalse_iff)
    moreover have "length (pl_position (mot m2)) = 3"
      using p2(1) by (simp add: plans_lines_def machine_wf_def mot_wf_defs N_AXIS_def)
    moreover have "spm_ok (mset m2)" using p2(1) by (simp add: plans_lines_def)
    ultimately show ?thesis
      using plan_buffer_line_position [OF _ nsm _ q] p2(2) by (simp add: arrived_def)
  next
    case False
    then show ?thesis using r m2 \<open>sys_state (sys m) \<noteq> STATE_CHECK_MODE\<close> by (simp add: line_rest_def arrived_def)
  qed
qed

lemma mc_line_arrives:
  assumes p: "plans_lines m" and nsm: "pd_condition pl_data AND PL_COND_FLAG_SYSTEM_MOTION = 0"
    and r: "mc_line target pl_data m = Some m'"
  shows "arrived (mset m) target m'"
proof -
  obtain m1 where m1: "m1 = m \<or> limits_soft_check target m = Some m1" "line_rest target pl_data m1 = Some m'"
    using r by (rule mc_line_rest)
  have "limits_soft_check target m = Some m1 \<Longrightarrow> plans_lines m1 \<and> conf m1 = conf m"
    using plans_lines_keep [OF p conf_inv.soft_limit_inv'(2)] by blast
  then have "plans_lines m1" "conf m1 = conf m" using m1(1) p by auto
  then show ?thesis using line_rest_arrives [OF _ nsm m1(2)] by simp
qed

lemma mc_arc_cases:
  assumes "mc_arc L target pl_data offset radius a0 a1 al cw m = Some m'"
  obtains "mc_line target pl_data m = Some m'"
  | rot c0 c1 per pl n acc m1 where "arc_loop rot c0 c1 per a0 a1 al pl n 1 acc m = Some m1"
      "pd_condition pl = pd_condition pl_data \<or> pd_condition pl = bit_false (pd_condition pl_data) PL_COND_FLAG_INVERSE_TIME"
      "sys_abort (sys m1) \<noteq> 0 \<and> m' = m1 \<or> mc_line target pl m1 = Some m'"
proof -
  define pl where "pl n = (if pd_condition pl_data AND PL_COND_FLAG_INVERSE_TIME \<noteq> 0
    then pl_data\<lparr>pd_feed_rate := f_mul (pd_feed_rate pl_data) (f_of_int (uint (n :: u16))),
                 pd_condition := bit_false (pd_condition pl_data) PL_COND_FLAG_INVERSE_TIME\<rparr> else pl_data)" for n
  have c: "pd_condition (pl n) = pd_condition pl_data \<or> pd_condition (pl n) = bit_false (pd_condition pl_data) PL_COND_FLAG_INVERSE_TIME" for n
    by (simp add: pl_def)
  from assms show thesis
    unfolding mc_arc_def Let_def pl_def [symmetric]
    using that(1) that(2) [OF _ c] by (auto simp: bind_eq_Some_conv split: if_splits)
qed

lemma mc_arc_arrives:
  assumes p: "plans_lines m" and nsm: "pd_condition pl_data AND PL_COND_FLAG_SYSTEM_MOTION = 0"
    and r: "mc_arc L target pl_data offset radius a0 a1 al cw m = Some m'"
  shows "arrived (mset m) target m'"
  using r
proof (cases rule: mc_arc_cases)
  case 1
  then show ?thesis by (rule mc_line_arrives [OF p nsm])
next
  case (2 rot c0 c1 per pl n acc m1)
  have p1: "plans_lines m1" "conf m1 = conf m"
    using plans_lines_keep [OF p conf_inv.arc_loop_inv 2(1)] by simp_all
  have "bit_false (pd_condition pl_data) PL_COND_FLAG_INVERSE_TIME AND PL_COND_FLAG_SYSTEM_MOTION = 0"
    using nsm by (metis and.commute and.left_commute and_zero_eq bit_false_def)
  then have "pd_condition pl AND PL_COND_FLAG_SYSTEM_MOTION = 0" using 2(2) nsm by metis
  then have "mc_line target pl m1 = Some m' \<Longrightarrow> arrived (mset m) target m'"
    using mc_line_arrives [OF p1(1)] p1(2) by simp
  then show ?thesis using 2(3) by (auto simp: arrived_def)
qed

section \<open>Executing the block\<close>

definition plan_data_ok :: "plan_line_data_t \<Rightarrow> bool" where
  "plan_data_ok pl \<longleftrightarrow> pd_condition pl AND PL_COND_FLAG_SYSTEM_MOTION = 0"

lemma plan_data_upd [simp]:
  "plan_data_ok (pl\<lparr>pd_spindle_speed := v\<rparr>) = plan_data_ok pl" "plan_data_ok (pl\<lparr>pd_feed_rate := v\<rparr>) = plan_data_ok pl"
  by (simp_all add: plan_data_ok_def)

lemma or_and_0: "(x OR y) AND s = 0 \<longleftrightarrow> x AND s = 0 \<and> y AND s = 0" for x y s :: u8
  using or_eq_0_word [of "x AND s" "y AND s"] by (simp only: bit.conj_disj_distrib2)

lemma add_condition_pd: "pd_condition (add_condition c pl) = pd_condition pl OR c"
  by (simp add: add_condition_def)

lemma plan_data_add: "plan_data_ok (add_condition c pl) \<longleftrightarrow> plan_data_ok pl \<and> c AND PL_COND_FLAG_SYSTEM_MOTION = 0"
  unfolding plan_data_ok_def add_condition_pd by (rule or_and_0)

lemma modes_no_system_motion:
  assumes "modes_ok b"
  shows "spindle_mode b AND PL_COND_FLAG_SYSTEM_MOTION = 0" "coolant_mode b AND PL_COND_FLAG_SYSTEM_MOTION = 0"
proof -
  have "spindle_mode b \<in> {SPINDLE_DISABLE, SPINDLE_ENABLE_CW, SPINDLE_ENABLE_CCW}" "coolant_mode b \<in> {COOLANT_DISABLE, COOLANT_FLOOD_ENABLE}"
    using assms by (simp_all add: modes_ok_def)
  then show "spindle_mode b AND PL_COND_FLAG_SYSTEM_MOTION = 0" "coolant_mode b AND PL_COND_FLAG_SYSTEM_MOTION = 0"
    by (elim insertE emptyE; simp add: grbl_const)+
qed

lemma plans_lines_modes: "plans_lines m \<Longrightarrow> modes_ok (gmodal m)"
  by (simp add: plans_lines_def machine_wf_def gc_wf_def)

lemma plans_lines_keep2:
  assumes "plans_lines m" and "held (conf m) m \<Longrightarrow> pred_option (\<lambda>r. held (conf m) (snd r)) r" and "r = Some (x, m')"
  shows "plans_lines m'" and "conf m' = conf m"
  using assms by (auto simp: plans_lines_def held_def)

lemma exec_feed_ok:
  assumes "plans_lines m" and "work_ok w" and "exec_feed w m = (pl, m')"
  shows "plans_lines m'" and "conf m' = conf m" and "plan_data_ok pl"
proof -
  have "held (conf m) (snd (exec_feed w m))"
    using assms(1,2) by (intro conf_inv.exec_feed_inv) (simp_all add: held_def plans_lines_def)
  then show "plans_lines m'" "conf m' = conf m" using assms(1,3) by (auto simp: held_def plans_lines_def)
  show "plan_data_ok pl" using assms(3) by (auto simp: exec_feed_def Let_def plan_data_ok_def plan_line_data_zero_def grbl_const)
qed

lemma exec_spindle_speed_ok:
  assumes "plans_lines m" and "exec_spindle_speed w pl m = Some (pl', m')"
  shows "plans_lines m'" and "conf m' = conf m" and "plan_data_ok pl' = plan_data_ok pl"
  using plans_lines_keep2 [OF assms(1) conf_inv.exec_spindle_speed_inv assms(2)] assms(2)
  by (auto simp: exec_spindle_speed_def bind_eq_Some_conv split: if_splits)

lemma exec_spindle_ok:
  assumes "plans_lines m" and "work_ok w" and "exec_spindle w pl m = Some (pl', m')"
  shows "plans_lines m'" and "conf m' = conf m" and "plan_data_ok pl' = plan_data_ok pl"
proof -
  show m': "plans_lines m'" "conf m' = conf m"
    using plans_lines_keep2 [OF assms(1) conf_inv.exec_accessory_inv(1) assms(3)] assms(2) by simp_all
  have "pl' = add_condition (spindle_mode (gmodal m')) pl"
    using assms(3) by (auto simp: exec_spindle_def bind_eq_Some_conv split: if_splits)
  then show "plan_data_ok pl' = plan_data_ok pl"
    using modes_no_system_motion(1) [OF plans_lines_modes [OF m'(1)]] by (simp add: plan_data_add)
qed

lemma exec_coolant_ok:
  assumes "plans_lines m" and "work_ok w" and "exec_coolant w pl m = Some (pl', m')"
  shows "plans_lines m'" and "conf m' = conf m" and "plan_data_ok pl' = plan_data_ok pl"
proof -
  show m': "plans_lines m'" "conf m' = conf m"
    using plans_lines_keep2 [OF assms(1) conf_inv.exec_accessory_inv(2) assms(3)] assms(2) by simp_all
  have "pl' = add_condition (coolant_mode (gmodal m')) pl"
    using assms(3) by (auto simp: exec_coolant_def bind_eq_Some_conv split: if_splits)
  then show "plan_data_ok pl' = plan_data_ok pl"
    using modes_no_system_motion(2) [OF plans_lines_modes [OF m'(1)]] by (simp add: plan_data_add)
qed

text \<open>The motion itself.\<close>

definition straight_or_arc :: "u8 \<Rightarrow> bool" where
  "straight_or_arc mode \<longleftrightarrow> mode \<in> {MOTION_MODE_SEEK, MOTION_MODE_LINEAR, MOTION_MODE_CW_ARC, MOTION_MODE_CCW_ARC}"

lemma arrived_frame: "mot m' = mot m \<Longrightarrow> sys m' = sys m \<Longrightarrow> arrived cf target m' = arrived cf target m"
  by (simp add: arrived_def)

lemma exec_motion_arrives:
  assumes p: "plans_lines m" and w: "work_ok w" "straight_or_arc (motion (mods w))" "axis_command w = AXIS_COMMAND_MOTION_MODE"
    and d: "plan_data_ok pl" and r: "exec_motion L w pl m = Some m'"
  shows "gc_position (gc_state m') = val_xyz (vals w)" and "arrived (mset m) (val_xyz (vals w)) m'"
proof -
  let ?t = "val_xyz (vals w)" let ?m = "on_gmodal (\<lambda>b. b\<lparr>motion := motion (mods w)\<rparr>) m"
  have "held (conf m) ?m"
    using p w(1) by (intro conf_inv.on_gmodal_inv conf_inv.modes_upd) (simp_all add: held_def plans_lines_def work_ok_def)
  then have pm: "plans_lines ?m" "mset ?m = mset m" using p by (auto simp: held_def plans_lines_def)
  have rapid: "plan_data_ok (add_condition PL_COND_FLAG_RAPID_MOTION pl)" using d by (simp add: plan_data_add grbl_const)
  obtain m2 where m': "m' = set_gc_position (\<lambda>_. ?t) m2"
    and c: "mc_line ?t pl ?m = Some m2 \<or> mc_line ?t (add_condition PL_COND_FLAG_RAPID_MOTION pl) ?m = Some m2
      \<or> (\<exists>ijk rad a0 a1 al cw. mc_arc L ?t pl ijk rad a0 a1 al cw ?m = Some m2)"
    using r w(2,3) by (auto 0 0 simp: exec_motion_def Let_def straight_or_arc_def bind_eq_Some_conv grbl_const split: prod.splits if_splits; blast)
  have "arrived (mset m) ?t m2"
    using c mc_line_arrives [OF pm(1)] mc_arc_arrives [OF pm(1)] d rapid by (auto simp: plan_data_ok_def pm(2))
  then show "arrived (mset m) ?t m'" by (simp add: m' set_gc_position_def arrived_def)
  show "gc_position (gc_state m') = ?t" by (simp add: m' set_gc_position_def)
qed

lemma laser_flags_fields [simp]:
  "gc_block (laser_flags cf g w) = gc_block w" "axis_command (laser_flags cf g w) = axis_command w"
  by (simp_all add: laser_flags_def Let_def set_parser_flag_def)

definition plain_command :: "u8 \<Rightarrow> bool" where
  "plain_command c \<longleftrightarrow> c \<in> {NON_MODAL_NO_ACTION, NON_MODAL_DWELL, NON_MODAL_ABSOLUTE_OVERRIDE}"

lemma gc_execute_arrives:
  assumes p: "plans_lines m" and w: "work_ok w" "straight_or_arc (motion (mods w))" "axis_command w = AXIS_COMMAND_MOTION_MODE"
    and c: "plain_command (non_modal_command (gc_block w))" "\<not> jogging w" "program_flow (mods w) = PROGRAM_FLOW_RUNNING"
    and r: "gc_execute L w m = Some (s, m')"
  shows "s = STATUS_OK" and "gc_position (gc_state m') = val_xyz (vals w)" and "arrived (mset m) (val_xyz (vals w)) m'"
proof -
  define u where "u = laser_flags (mset m) (gc_state m) w"
  have u: "gc_block u = gc_block w" "axis_command u = axis_command w" "work_ok u" using w(1) by (simp_all add: u_def)
  obtain pl1 m1 where e1: "exec_feed u m = (pl1, m1)" by fastforce
  obtain pl2 m2 pl3 m3 pl4 m4 m5 pl6 m6 m7 where
    e2: "exec_spindle_speed u pl1 m1 = Some (pl2, m2)" and
    e3: "exec_spindle u pl2 (on_gc (\<lambda>g. g\<lparr>gc_tool := val_t (vals u)\<rparr>) m2) = Some (pl3, m3)" and
    e4: "exec_coolant u pl3 m3 = Some (pl4, m4)" and e5: "exec_setup u m4 = Some m5" and
    e6: "exec_non_modal u pl4 m5 = Some (pl6, m6)" and e7: "exec_motion L u pl6 m6 = Some m7" and
    e8: "exec_program_flow u m7 = Some (s, m')"
    using r c(2) unfolding gc_execute_def by (auto simp: Let_def e1 bind_eq_Some_conv simp flip: u_def)
  note o1 = exec_feed_ok [OF p u(3) e1]
  note o2 = exec_spindle_speed_ok [OF o1(1) e2]
  have "held (conf m2) (on_gc (\<lambda>g. g\<lparr>gc_tool := val_t (vals u)\<rparr>) m2)"
    using o2(1) by (intro conf_inv.on_gc_inv) (simp_all add: held_def plans_lines_def)
  then have o2': "plans_lines (on_gc (\<lambda>g. g\<lparr>gc_tool := val_t (vals u)\<rparr>) m2)" using o2(1) by (auto simp: held_def plans_lines_def)
  note o3 = exec_spindle_ok [OF o2' u(3) e3]
  note o4 = exec_coolant_ok [OF o3(1) u(3) e4]
  have o5: "plans_lines m5" "conf m5 = conf m4"
    using plans_lines_keep [OF o4(1) conf_inv.exec_setup_inv e5] u(3) by simp_all
  have e6': "pl6 = pl4" "m6 = m5"
    using e6 c(1) by (auto simp: exec_non_modal_def plain_command_def u(1) grbl_const)
  have "conf m5 = conf m" using o5(2) o4(2) o3(2) o2(2) o1(2) by (simp add: on_gc_def)
  moreover have "plan_data_ok pl4" using o1(3) o2(3) o3(3) o4(3) by simp
  ultimately have x: "gc_position (gc_state m7) = val_xyz (vals w)" "arrived (mset m) (val_xyz (vals w)) m7"
    using exec_motion_arrives [OF o5(1) u(3) _ _ _ e7 [unfolded e6']] w(2,3) by (simp_all add: u)
  have "s = STATUS_OK \<and> m' = on_gmodal (\<lambda>b. b\<lparr>program_flow := PROGRAM_FLOW_RUNNING\<rparr>) m7"
    using e8 c(3) by (simp add: exec_program_flow_def Let_def u(1) PROGRAM_FLOW_RUNNING_def)
  then show "s = STATUS_OK" "gc_position (gc_state m') = val_xyz (vals w)" "arrived (mset m) (val_xyz (vals w)) m'"
    using x by (simp_all add: on_gmodal_def on_gc_def arrived_def)
qed

section \<open>The commanded point\<close>

text \<open>The work offset a block uses: of the coordinate system it selects, read from the EEPROM, or the current one.\<close>

definition block_offset :: "machine \<Rightarrow> gc_work \<Rightarrow> vec" where
  "block_offset m w =
     (if command_words w AND wbit MODAL_GROUP_G12 \<noteq> 0 \<and> coord_select (gmodal m) \<noteq> coord_select (mods w)
      then fst (snd (settings_read_coord_data (coord_select (mods w)) (conf m))) else coord_system (gc_state m))"

definition axis_value :: "gc_work \<Rightarrow> nat \<Rightarrow> f32" where
  "axis_value w i = (if units (mods w) = UNITS_MODE_INCHES then f_mul (val_xyz (vals w) ! i) MM_PER_INCH else val_xyz (vals w) ! i)"

text \<open>
  The point a motion line names, in machine coordinates and millimetres: an axis without a word stays where it
  is; \<open>G53\<close> gives machine coordinates, \<open>G90\<close> coordinates from the work offset, the \<open>G92\<close> offset and for the
  tool axis the tool length, \<open>G91\<close> distances.
\<close>

definition commanded_axis :: "machine \<Rightarrow> gc_work \<Rightarrow> nat \<Rightarrow> f32" where
  "commanded_axis m w i =
     (let g = gc_state m in
      if \<not> has_axis w i then gc_position g ! i
      else if non_modal_command (gc_block w) = NON_MODAL_ABSOLUTE_OVERRIDE then axis_value w i
      else if distance (mods w) = DISTANCE_MODE_ABSOLUTE
      then (let v = f_add (axis_value w i) (f_add (block_offset m w ! i) (coord_offset g ! i))
            in if i = TOOL_LENGTH_OFFSET_AXIS then f_add v (tool_length_offset g) else v)
      else f_add (axis_value w i) (gc_position g ! i))"

definition commanded_point :: "machine \<Rightarrow> gc_work \<Rightarrow> vec" where
  "commanded_point m w = map (commanded_axis m w) [0, 1, 2]"

text \<open>What the checks leave alone in the block.\<close>

definition line_view :: "gc_work \<Rightarrow> _" where
  "line_view w = (mods w, axis_words w, non_modal_command (gc_block w), command_words w, gc_parser_flags w AND GC_PARSER_JOG_MOTION)"

lemma line_view_upd [simp]:
  "line_view (on_values f w) = line_view w" "line_view (use_words b w) = line_view w" "line_view (w\<lparr>axis_command := a\<rparr>) = line_view w"
  "line_view (w\<lparr>block_coord_system := v\<rparr>) = line_view w" "line_view (no_motion_without_axes w) = line_view w"
  "axis_command (on_values f w) = axis_command w" "axis_command (use_words b w) = axis_command w"
  "axis_words (on_values f w) = axis_words w" "axis_words (use_words b w) = axis_words w"
  "gc_block (use_words b w) = gc_block w" "gc_block (no_motion_without_axes w) = gc_block w" "vals (on_values f w) = f (vals w)"
  by (simp_all add: line_view_def on_values_def use_words_def no_motion_without_axes_def)

lemma check_settings_view:
  assumes "check_settings g w = Inr w'"
  shows "line_view w' = line_view w"
    and "axis_command w' = (if axis_words w \<noteq> 0 \<and> axis_command w = AXIS_COMMAND_NONE then AXIS_COMMAND_MOTION_MODE else axis_command w)"
    and "length (val_xyz (vals w)) = 3 \<Longrightarrow> i < 3 \<Longrightarrow> has_axis w i \<Longrightarrow> val_xyz (vals w') ! i = axis_value w i"
proof -
  obtain a b c where r: "check_common w = Inr a" "check_feed g a = Inr b" "check_dwell (check_spindle_speed g b) = Inr c"
    "check_tool_length (units_to_mm c) = Inr w'"
    using assms by (auto simp: check_settings_def ok_then_def split: sum.splits)
  have a: "line_view a = line_view w" "gc_block a = gc_block w" "axis_command a =
      (if axis_words w \<noteq> 0 \<and> axis_command w = AXIS_COMMAND_NONE then AXIS_COMMAND_MOTION_MODE else axis_command w)"
    using r(1) by (auto simp: check_common_def Let_def split: if_splits)
  have b: "line_view b = line_view a \<and> axis_command b = axis_command a \<and> val_xyz (vals b) = val_xyz (vals a)"
    using r(2) by (auto simp: check_feed_def feed_in_mm_def split: if_splits)
  have c: "line_view c = line_view b \<and> axis_command c = axis_command b \<and> val_xyz (vals c) = val_xyz (vals b)"
    using r(3) by (auto simp: check_dwell_def check_spindle_speed_def split: if_splits)
  have d: "w' = units_to_mm c" using r(4) by (auto simp: check_tool_length_def split: if_splits)
  show v: "line_view w' = line_view w" using a(1) b c by (simp add: d units_to_mm_def)
  show "axis_command w' = (if axis_words w \<noteq> 0 \<and> axis_command w = AXIS_COMMAND_NONE then AXIS_COMMAND_MOTION_MODE else axis_command w)"
    using a(3) b c by (simp add: d units_to_mm_def)
  assume "length (val_xyz (vals w)) = 3" "i < 3" "has_axis w i"
  moreover have "mods c = mods w" "axis_words c = axis_words w" "val_xyz (vals c) = val_xyz (vals w)"
    using a b c by (simp_all add: line_view_def)
  ultimately show "val_xyz (vals w') ! i = axis_value w i"
    by (simp add: d units_to_mm_def axis_value_def map_axes_def N_AXIS_def)
qed

lemma check_coord_view:
  assumes "check_coord_system w m = Some (Inr w', m')" and "cfg_calls (conf m) = []"
  shows "w' = w\<lparr>block_coord_system := block_offset m w\<rparr>" and "m' = m"
proof -
  show "m' = m" using check_coord_system_pure [OF assms(1,2)] by simp
  show "w' = w\<lparr>block_coord_system := block_offset m w\<rparr>"
    using assms(1) by (auto simp: check_coord_system_def Let_def bind_eq_Some_conv m_read_coord_def block_offset_def
        split: if_splits prod.splits)
qed

lemma jog_flag: "GC_PARSER_ARC_IS_CLOCKWISE AND GC_PARSER_JOG_MOTION = 0"
  by (simp add: grbl_const)

lemma set_clockwise_view [simp]:
  "line_view (set_parser_flag GC_PARSER_ARC_IS_CLOCKWISE w) = line_view w" "gc_block (set_parser_flag f w) = gc_block w"
  "axis_command (set_parser_flag f w) = axis_command w" "axis_words (set_parser_flag f w) = axis_words w"
  by (simp_all add: line_view_def set_parser_flag_def bit.conj_disj_distrib2 jog_flag)

lemma check_arc_view:
  "check_arc g w = Inr w' \<Longrightarrow> line_view w' = line_view w \<and> axis_command w' = axis_command w \<and> val_xyz (vals w') = val_xyz (vals w)"
  by (auto simp: check_arc_def arc_radius_mode_def arc_offset_mode_def Let_def split: prod.splits if_splits)

lemma check_motion_view:
  assumes "check_motion g w = Inr w'" and "straight_or_arc (motion (mods w))" and "axis_words w \<noteq> 0"
  shows "line_view w' = line_view w \<and> axis_command w' = axis_command w \<and> val_xyz (vals w') = val_xyz (vals w)"
proof -
  have n: "no_motion_without_axes w = w" using assms(3) by (simp add: no_motion_without_axes_def)
  have "w' = w \<or> check_arc g w = Inr w' \<or> check_arc g (set_parser_flag GC_PARSER_ARC_IS_CLOCKWISE w) = Inr w'"
    using assms(1,2) by (auto simp: check_motion_def Let_def n straight_or_arc_def grbl_const split: if_splits)
  then show ?thesis using check_arc_view [of g w w'] check_arc_view [of g "set_parser_flag GC_PARSER_ARC_IS_CLOCKWISE w" w'] by auto
qed

lemma check_unused_view:
  "check_unused w = Inr w' \<Longrightarrow> line_view w' = line_view w \<and> axis_command w' = axis_command w \<and> val_xyz (vals w') = val_xyz (vals w)"
  by (auto simp: check_unused_def Let_def split: if_splits)

lemma check_plain:
  assumes "check_non_modal w m = Some (Inr w', m')" and "plain_command (non_modal_command (gc_block w))"
    and "axis_command w = AXIS_COMMAND_MOTION_MODE" and "axis_words w \<noteq> 0"
  shows "w' = on_values (\<lambda>b. b\<lparr>val_xyz := gc_target (gc_state m) w\<rparr>) w" and "m' = m"
  using assms by (auto simp: check_non_modal_def plain_command_def Let_def set_target_def grbl_const split: if_splits)

lemma gc_check_commands:
  assumes r: "gc_check w m = Some (Inr w', m')" and c: "cfg_calls (conf m) = []" and l: "length (val_xyz (vals w)) = 3"
    and w: "plain_command (non_modal_command (gc_block w))" "straight_or_arc (motion (mods w))" "axis_words w \<noteq> 0"
      "axis_command w \<in> {AXIS_COMMAND_NONE, AXIS_COMMAND_MOTION_MODE}"
  shows "line_view w' = line_view w" and "axis_command w' = AXIS_COMMAND_MOTION_MODE" and "val_xyz (vals w') = commanded_point m w"
proof -
  let ?g = "gc_state m"
  obtain w1 m1 w2 m2 w3 m3 w4 where s: "check_settings ?g w = Inr w1" and 2: "check_coord_system w1 m = Some (Inr w2, m1)"
    and 3: "check_non_modal w2 m1 = Some (Inr w3, m2)" and 4: "check_motion (gc_state m2) w3 = Inr w4" and 5: "check_unused w4 = Inr w'"
    using r unfolding gc_check_def
    by (auto elim!: gc_bind_cases simp: gc_pure_def ok_then_def split: sum.splits)
  have v1: "line_view w1 = line_view w" "axis_command w1 = AXIS_COMMAND_MOTION_MODE"
    using check_settings_view(1,2) [OF s] w(3,4) by auto
  note v2 = check_coord_view [OF 2 c]
  have w2: "line_view w2 = line_view w" "axis_command w2 = AXIS_COMMAND_MOTION_MODE" "gc_block w2 = gc_block w1"
    using v1 by (simp_all add: v2(1))
  have k: "mods w2 = mods w" "axis_words w2 = axis_words w" "non_modal_command (gc_block w2) = non_modal_command (gc_block w)"
    "command_words w1 = command_words w" "mods w1 = mods w" "block_coord_system w2 = block_offset m w1"
    using v1(1) w2(1) by (simp_all add: line_view_def v2(1))
  have v3: "w3 = on_values (\<lambda>b. b\<lparr>val_xyz := gc_target ?g w2\<rparr>) w2" "m2 = m"
    using check_plain [OF 3] w(1,3) w2(2) k by (simp_all add: v2(2))
  have w3: "line_view w3 = line_view w" "axis_command w3 = AXIS_COMMAND_MOTION_MODE" "val_xyz (vals w3) = gc_target ?g w2"
    using w2 by (simp_all add: v3(1))
  have "mods w3 = mods w" "axis_words w3 = axis_words w" using w3(1) by (simp_all add: line_view_def)
  then have v4: "line_view w4 = line_view w3 \<and> axis_command w4 = axis_command w3 \<and> val_xyz (vals w4) = val_xyz (vals w3)"
    using check_motion_view [OF 4] w(2,3) by simp
  note v5 = check_unused_view [OF 5]
  show "line_view w' = line_view w" "axis_command w' = AXIS_COMMAND_MOTION_MODE" using v4 v5 w3 by simp_all
  have o: "block_offset m w1 = block_offset m w" by (simp add: block_offset_def k)
  have a: "val_xyz (vals w2) ! i = axis_value w i" if "i < 3" "has_axis w i" for i
    using check_settings_view(3) [OF s l that] by (simp add: w2(3))
  have "gc_target ?g w2 = commanded_point m w"
    using a [of 0] a [of 1] a [of 2]
    by (simp add: gc_target_def commanded_point_def commanded_axis_def map_axes_def N_AXIS_def upt_rec k o Let_def numeral_2_eq_2)
  then show "val_xyz (vals w') = commanded_point m w" using v4 v5 w3(3) by simp
qed

text \<open>No check answers with the status ok.\<close>

lemma check_settings_error: "check_settings g w = Inl e \<Longrightarrow> e \<noteq> STATUS_OK"
  by (auto simp: check_settings_def ok_then_def check_common_def check_feed_def check_dwell_def check_tool_length_def
      Let_def split: sum.splits if_splits)

lemma check_motion_error: "check_motion g w = Inl e \<Longrightarrow> e \<noteq> STATUS_OK"
  by (auto simp: check_motion_def check_arc_def arc_radius_mode_def arc_offset_mode_def check_probe_def Let_def
      split: prod.splits if_splits)

lemma check_coord_error: "check_coord_system w m = Some (Inl e, m') \<Longrightarrow> e \<noteq> STATUS_OK"
  by (auto simp: check_coord_system_def Let_def bind_eq_Some_conv split: if_splits)

lemma check_non_modal_error: "check_non_modal w m = Some (Inl e, m') \<Longrightarrow> e \<noteq> STATUS_OK"
  by (auto simp: check_non_modal_def G10_check_def Let_def bind_eq_Some_conv split: if_splits sum.splits)

lemma gc_check_error:
  assumes "gc_check w m = Some (Inl e, m')"
  shows "e \<noteq> STATUS_OK"
  using assms unfolding gc_check_def
  by (auto elim!: gc_bind_cases simp: gc_pure_def ok_then_def check_unused_def Let_def split: sum.splits if_splits
      dest: check_settings_error check_motion_error check_coord_error check_non_modal_error)

section \<open>A line on a machine at rest\<close>

text \<open>Nothing to do for the realtime system, and room in the buffer.\<close>

lemma wait_quiet:
  assumes "irqs m = (\<lambda>_. [])" "sys_rt_exec_state (rt m) = 0" "sys_rt_exec_alarm (rt m) = 0"
    "sys_rt_exec_motion_override (rt m) = 0" "sys_rt_exec_accessory_override (rt m) = 0"
    "sys_state (sys m) = STATE_IDLE" "sys_suspend (sys m) = 0" "sys_abort (sys m) = 0" "\<not> plan_check_full_buffer (mot m)"
  shows "wait_for_room m = Some m"
proof -
  have p: "poll m = m" using assms(1) by (simp add: poll_def)
  have o: "exec_rt_motion_override 0 m = m" "exec_rt_accessory_override 0 m = m"
    by (simp_all add: exec_rt_motion_override_def exec_rt_accessory_override_def)
  have "protocol_exec_rt_system m = Some m"
    using assms by (simp add: protocol_exec_rt_system_def p exec_rt_alarm_def exec_rt_state_def exec_rt_overrides_def o Let_def grbl_const)
  then show ?thesis using assms(7-9) by (subst wait_for_room.simps) (simp add: protocol_execute_realtime_def)
qed

text \<open>The words of the line \<open>X1\<close>.\<close>

definition x_words :: gc_work where
  "x_words = (gc_start gc_modal_zero ''X1'')\<lparr>axis_words := 1, value_words := wbit WORD_X,
     gc_block := parser_block_zero\<lparr>blk_values := gc_values_zero\<lparr>val_xyz := [f_of_int 1, f_zero, f_zero]\<rparr>\<rparr>\<rparr>"

lemma x_parsed: "gc_parse_line gc_modal_zero ''X1'' = Some (Inr x_words)"
proof -
  have n: "gc_next_word ''X1'' 0 (gc_start gc_modal_zero ''X1'') = Inr (2, x_words)" by code_simp
  have "gc_words ''X1'' 2 x_words = Some (Inr x_words)" by (subst gc_words.simps) (simp add: char_at_def)
  then have "gc_words ''X1'' 0 (gc_start gc_modal_zero ''X1'') = Some (Inr x_words)"
    using n by (subst gc_words.simps) (simp add: char_at_def NUL_def)
  moreover have "\<not> jogging (gc_start gc_modal_zero ''X1'')" by code_simp
  ultimately show ?thesis by (simp add: gc_parse_line_def Let_def)
qed

definition x_checked :: gc_work where
  "x_checked = x_words\<lparr>axis_command := AXIS_COMMAND_MOTION_MODE, value_words := 0\<rparr>"

lemma x_accepted: "gc_check x_words machine_zero = Some (Inr x_checked, machine_zero)"
proof -
  let ?w = "x_words\<lparr>axis_command := AXIS_COMMAND_MOTION_MODE\<rparr>" let ?g = "gc_state machine_zero"
  have g: "?g = parser_state_zero" by (simp add: machine_zero_def)
  have s: "check_settings parser_state_zero x_words = Inr ?w" by code_simp
  have c: "?w\<lparr>block_coord_system := coord_system parser_state_zero\<rparr> = ?w" "command_words ?w = 0"
    "non_modal_command (gc_block ?w) = 0" "set_target parser_state_zero ?w = ?w" by code_simp+
  have m: "ok_then (check_motion parser_state_zero ?w) check_unused = Inr x_checked" by code_simp
  have 2: "check_coord_system ?w machine_zero = Some (Inr ?w, machine_zero)"
    by (simp only: check_coord_system_def Let_def g c) simp
  have 3: "check_non_modal ?w machine_zero = Some (Inr ?w, machine_zero)"
    by (simp only: check_non_modal_def Let_def g c) (simp add: grbl_const)
  show ?thesis by (simp add: gc_check_def gc_bind_def gc_pure_def g s 2 3 m del: fun_upd_apply)
qed

lemma x_fields:
  "gc_parser_flags x_checked = 0" "axis_command x_checked = AXIS_COMMAND_MOTION_MODE" "non_modal_command (gc_block x_checked) = 0"
  "mods x_checked = gc_modal_zero" "val_xyz (vals x_checked) = [f_of_int 1, f_zero, f_zero]" "val_s (vals x_checked) = f_zero"
  by code_simp+

text \<open>A machine in which the line has changed the parser state only, not its modes.\<close>

definition rests :: "machine \<Rightarrow> bool" where
  "rests m \<longleftrightarrow> (\<exists>g. m = machine_zero\<lparr>gc_state := g\<rparr> \<and> modal g = gc_modal_zero \<and> gc_spindle_speed g = f_zero)"

lemma rests_upd:
  "rests m \<Longrightarrow> modal (f (gc_state m)) = gc_modal_zero \<Longrightarrow> gc_spindle_speed (f (gc_state m)) = f_zero \<Longrightarrow> rests (on_gc f m)"
  by (auto simp: rests_def on_gc_def machine_zero_def)

lemma rests_modes: "rests m \<Longrightarrow> f (gmodal m) = gc_modal_zero \<Longrightarrow> rests (on_gmodal f m)"
  by (auto simp: rests_def on_gmodal_def on_gc_def machine_zero_def)

lemma rests_view: "rests m \<Longrightarrow> gmodal m = gc_modal_zero \<and> gc_spindle_speed (gc_state m) = f_zero"
  by (auto simp: rests_def)

lemma parser_upd [simp]:
  "gc_state (on_gc f m) = f (gc_state m)" "gmodal (on_gmodal h m) = h (gmodal m)"
  "gc_spindle_speed (gc_state (on_gmodal h m)) = gc_spindle_speed (gc_state m)"
  by (simp_all add: on_gmodal_def on_gc_def)

lemma rests_line: "rests m \<Longrightarrow> \<exists>m'. mc_line t pl m = Some m'"
proof -
  assume r: "rests m"
  have "wait_for_room m = Some m"
    using r by (intro wait_quiet)
      (auto simp: rests_def machine_zero_def rt_zero_def sys_zero_def plan_check_full_buffer_def stepper_zero_def grbl_const)
  moreover have "settings_flags (mset m) = 0" "sys_state (sys m) = 0" "sys_abort (sys m) = 0"
    using r by (auto simp: rests_def machine_zero_def default_settings_def sys_zero_def STATE_IDLE_def)
  ultimately show ?thesis
    by (simp add: mc_line_def m_plan_buffer_line_def bit_istrue_def grbl_const split: prod.split)
qed

lemma x_steps:
  assumes "rests m"
  shows "rests (snd (exec_feed x_checked m))" "\<exists>m' pl'. exec_spindle_speed x_checked pl m = Some (pl', m') \<and> rests m'"
    "\<exists>m' pl'. exec_spindle x_checked pl m = Some (pl', m') \<and> rests m'"
    "\<exists>m' pl'. exec_coolant x_checked pl m = Some (pl', m') \<and> rests m'"
    "\<exists>m'. exec_setup x_checked m = Some m' \<and> rests m'"
    "exec_non_modal x_checked pl m = Some (pl, m)"
    "\<exists>m'. exec_motion L x_checked pl m = Some m'"
proof -
  note v = rests_view [OF assms] x_fields
  have z: "f_eq f_zero f_zero" by code_simp
  show "rests (snd (exec_feed x_checked m))"
    using assms v by (auto simp: exec_feed_def Let_def gc_modal_zero_def intro!: rests_upd rests_modes)
  show "\<exists>m' pl'. exec_spindle_speed x_checked pl m = Some (pl', m') \<and> rests m'"
    using assms v z by (simp add: exec_spindle_speed_def bit_istrue_def)
  show "\<exists>m' pl'. exec_spindle x_checked pl m = Some (pl', m') \<and> rests m'"
    using assms v by (simp add: exec_spindle_def)
  show "\<exists>m' pl'. exec_coolant x_checked pl m = Some (pl', m') \<and> rests m'"
    using assms v by (simp add: exec_coolant_def)
  show "\<exists>m'. exec_setup x_checked m = Some m' \<and> rests m'"
  proof -
    let ?m = "on_gmodal (\<lambda>b. b\<lparr>plane_select := plane_select (mods x_checked), units := units (mods x_checked)\<rparr>) m"
    have r: "rests ?m" using assms v by (intro rests_modes) (simp_all add: gc_modal_zero_def)
    then have g: "gmodal ?m = gc_modal_zero" by (rule conjunct1 [OF rests_view])
    have "exec_setup x_checked m = Some (on_gmodal (\<lambda>b. b\<lparr>distance := distance (mods x_checked)\<rparr>) ?m)"
      using v(1) by (simp add: exec_setup_def Let_def exec_tool_length_def exec_coord_system_def x_fields grbl_const)
    moreover have "rests (on_gmodal (\<lambda>b. b\<lparr>distance := distance (mods x_checked)\<rparr>) ?m)"
      by (rule rests_modes [OF r]) (simp only: g, simp add: x_fields gc_modal_zero_def)
    ultimately show ?thesis by blast
  qed
  show "exec_non_modal x_checked pl m = Some (pl, m)"
    by (simp add: exec_non_modal_def x_fields grbl_const)
  show "\<exists>m'. exec_motion L x_checked pl m = Some m'"
  proof -
    have k: "motion gc_modal_zero = MOTION_MODE_SEEK" "MOTION_MODE_SEEK \<noteq> MOTION_MODE_NONE" "MOTION_MODE_SEEK \<noteq> MOTION_MODE_LINEAR"
      by (simp_all add: gc_modal_zero_def grbl_const)
    have "rests (on_gmodal (\<lambda>b. b\<lparr>motion := MOTION_MODE_SEEK\<rparr>) m)"
      using assms v by (intro rests_modes) (simp_all add: gc_modal_zero_def grbl_const)
    from rests_line [OF this]
    obtain m' where "mc_line [f_of_int 1, f_zero, f_zero] (add_condition PL_COND_FLAG_RAPID_MOTION pl)
        (on_gmodal (\<lambda>b. b\<lparr>motion := MOTION_MODE_SEEK\<rparr>) m) = Some m'" by blast
    then show ?thesis by (auto simp: exec_motion_def Let_def x_fields k split: prod.split)
  qed
qed

lemma x_executed: "\<exists>m'. gc_execute L x_checked machine_zero = Some (STATUS_OK, m')"
proof -
  have l: "laser_flags (mset machine_zero) (gc_state machine_zero) x_checked = x_checked"
    by (simp add: laser_flags_def machine_zero_def default_settings_def bit_istrue_def)
  have "rests machine_zero" by (auto simp: rests_def machine_zero_def parser_state_zero_def)
  then obtain pl1 m1 where 1: "exec_feed x_checked machine_zero = (pl1, m1)" "rests m1"
    using x_steps(1) by (metis surj_pair snd_conv)
  obtain pl2 m2 where 2: "exec_spindle_speed x_checked pl1 m1 = Some (pl2, m2)" "rests m2" using x_steps(2) [OF 1(2)] by blast
  let ?m = "on_gc (\<lambda>g. g\<lparr>gc_tool := val_t (vals x_checked)\<rparr>) m2"
  have t: "rests ?m" using rests_view [OF 2(2)] by (intro rests_upd [OF 2(2)]) simp_all
  obtain pl3 m3 where 3: "exec_spindle x_checked pl2 ?m = Some (pl3, m3)" "rests m3" using x_steps(3) [OF t] by blast
  obtain pl4 m4 where 4: "exec_coolant x_checked pl3 m3 = Some (pl4, m4)" "rests m4" using x_steps(4) [OF 3(2)] by blast
  obtain m5 where 5: "exec_setup x_checked m4 = Some m5" "rests m5" using x_steps(5) [OF 4(2)] by blast
  obtain m6 where 6: "exec_motion L x_checked pl4 m5 = Some m6" using x_steps(7) [OF 5(2)] by blast
  have "\<exists>m'. exec_program_flow x_checked m6 = Some (STATUS_OK, m')"
    by (simp add: exec_program_flow_def x_fields) (simp add: gc_modal_zero_def)
  then show ?thesis
    by (simp only: gc_execute_def Let_def l 1(1) 2(1) 3(1) 4(1) 5(1) 6 x_steps(6) [OF 5(2)] prod.case bind.bind_lunit)
      (simp add: x_fields 2(1) 3(1) 4(1) 5(1) 6 x_steps(6) [OF 5(2)])
qed

section \<open>Property\<close>



end
