(* ===== verification/Machine_Profiles.thy ===== *)
theory Machine_Profiles
  imports Planner_Feasible
begin

unbundle bit_operations_syntax

text \<open>
  defaults.h: the machines the firmware can be built for. config.h selects one profile by its name; the
  project selects \<open>DEFAULTS_GENERIC\<close>. A profile is the record of its macros, and \<open>profile_settings\<close> is what
  \<open>settings_restore\<close> of settings.c assigns from them. Every profile gives sound settings: positive steps,
  rates and accelerations, negative travel, no soft limits without homing, and a step pulse of at least
  the 3 microseconds the \<open>$0\<close> command asks for.
\<close>

section \<open>A profile\<close>

text \<open>The macros of one axis each are gathered in vectors; the switches, tested by \<open>if\<close>, are booleans.\<close>

record defaults_t =
  d_steps_per_mm :: vec
  d_max_rate :: vec
  d_acceleration :: vec
  d_max_travel :: vec
  d_rpm_max :: f32
  d_rpm_min :: f32
  d_pulse_microseconds :: u8
  d_step_invert_mask :: u8
  d_dir_invert_mask :: u8
  d_idle_lock_time :: u8
  d_status_report_mask :: u8
  d_junction_deviation :: f32
  d_arc_tolerance :: f32
  d_report_inches :: bool
  d_invert_st_enable :: bool
  d_invert_limit_pins :: bool
  d_soft_limit_enable :: bool
  d_hard_limit_enable :: bool
  d_invert_probe_pin :: bool
  d_laser_mode :: bool
  d_homing_enable :: bool
  d_homing_dir_mask :: u8
  d_homing_feed_rate :: f32
  d_homing_seek_rate :: f32
  d_homing_debounce_delay :: u16
  d_homing_pulloff :: f32

text \<open>Accelerations are written in mm/s\<open>\<^sup>2\<close> as \<open>x*60*60\<close>, and constants are folded in single precision.\<close>

definition per_min2 :: "f32 \<Rightarrow> f32" where
  "per_min2 x = f_mul (f_mul x (f_of_int 60)) (f_of_int 60)"

text \<open>What \<open>settings_restore\<close> assigns.\<close>

definition profile_flags :: "defaults_t \<Rightarrow> u8" where
  "profile_flags d =
     (let flags = 0;
          flags = (if d_report_inches d then flags OR BITFLAG_REPORT_INCHES else flags);
          flags = (if d_laser_mode d then flags OR BITFLAG_LASER_MODE else flags);
          flags = (if d_invert_st_enable d then flags OR BITFLAG_INVERT_ST_ENABLE else flags);
          flags = (if d_hard_limit_enable d then flags OR BITFLAG_HARD_LIMIT_ENABLE else flags);
          flags = (if d_homing_enable d then flags OR BITFLAG_HOMING_ENABLE else flags);
          flags = (if d_soft_limit_enable d then flags OR BITFLAG_SOFT_LIMIT_ENABLE else flags);
          flags = (if d_invert_limit_pins d then flags OR BITFLAG_INVERT_LIMIT_PINS else flags)
      in if d_invert_probe_pin d then flags OR BITFLAG_INVERT_PROBE_PIN else flags)"

definition profile_settings :: "defaults_t \<Rightarrow> settings_t" where
  "profile_settings d =
     \<lparr>steps_per_mm = d_steps_per_mm d, max_rate = d_max_rate d, acceleration = d_acceleration d,
      max_travel = map f_neg (d_max_travel d),
      pulse_microseconds = d_pulse_microseconds d, step_invert_mask = d_step_invert_mask d,
      dir_invert_mask = d_dir_invert_mask d, stepper_idle_lock_time = d_idle_lock_time d,
      status_report_mask = d_status_report_mask d, junction_deviation = d_junction_deviation d,
      arc_tolerance = d_arc_tolerance d, rpm_max = d_rpm_max d, rpm_min = d_rpm_min d,
      settings_flags = profile_flags d, homing_dir_mask = d_homing_dir_mask d,
      homing_feed_rate = d_homing_feed_rate d, homing_seek_rate = d_homing_seek_rate d,
      homing_debounce_delay = d_homing_debounce_delay d, homing_pulloff = d_homing_pulloff d\<rparr>"

section \<open>The profiles\<close>

definition DEFAULTS_GENERIC :: defaults_t where
  "DEFAULTS_GENERIC =
     \<lparr>d_steps_per_mm = [f_of_int 250, f_of_int 250, f_of_int 250],
       d_max_rate = [f_of_int 500, f_of_int 500, f_of_int 500],
       d_acceleration = [per_min2 (f_of_int 10), per_min2 (f_of_int 10), per_min2 (f_of_int 10)],
       d_max_travel = [f_of_int 200, f_of_int 200, f_of_int 200],
       d_rpm_max = f_of_int 1000, d_rpm_min = f_of_int 0,
       d_pulse_microseconds = 10, d_step_invert_mask = 0, d_dir_invert_mask = 0,
       d_idle_lock_time = 25, d_status_report_mask = 1,
       d_junction_deviation = f_of_rat (1/100), d_arc_tolerance = f_of_rat (2/1000),
       d_report_inches = False, d_invert_st_enable = False, d_invert_limit_pins = False,
       d_soft_limit_enable = False, d_hard_limit_enable = False, d_invert_probe_pin = False,
       d_laser_mode = False, d_homing_enable = False, d_homing_dir_mask = 0,
       d_homing_feed_rate = f_of_int 25, d_homing_seek_rate = f_of_int 500,
       d_homing_debounce_delay = 250, d_homing_pulloff = f_of_int 1\<rparr>"

definition DEFAULTS_SHERLINE_5400 :: defaults_t where
  "DEFAULTS_SHERLINE_5400 =
     (let MICROSTEPS = 2 in
     let STEPS_PER_REV = f_of_int 200 in
     let MM_PER_REV = f_mul (f_of_rat (5/100)) MM_PER_INCH in
     \<lparr>d_steps_per_mm = [f_div (f_mul STEPS_PER_REV (f_of_int MICROSTEPS)) MM_PER_REV,
         f_div (f_mul STEPS_PER_REV (f_of_int MICROSTEPS)) MM_PER_REV,
         f_div (f_mul STEPS_PER_REV (f_of_int MICROSTEPS)) MM_PER_REV],
       d_max_rate = [f_of_int 635, f_of_int 635, f_of_int 635],
       d_acceleration = [per_min2 (f_of_int 50), per_min2 (f_of_int 50), per_min2 (f_of_int 50)],
       d_max_travel = [f_of_int 225, f_of_int 125, f_of_int 170],
       d_rpm_max = f_of_int 2800, d_rpm_min = f_of_int 0,
       d_pulse_microseconds = 10, d_step_invert_mask = 0, d_dir_invert_mask = bitw Y_AXIS OR bitw Z_AXIS,
       d_idle_lock_time = 25, d_status_report_mask = 1,
       d_junction_deviation = f_of_rat (1/100), d_arc_tolerance = f_of_rat (2/1000),
       d_report_inches = False, d_invert_st_enable = False, d_invert_limit_pins = False,
       d_soft_limit_enable = False, d_hard_limit_enable = False, d_invert_probe_pin = False,
       d_laser_mode = False, d_homing_enable = False, d_homing_dir_mask = 0,
       d_homing_feed_rate = f_of_int 50, d_homing_seek_rate = f_of_int 635,
       d_homing_debounce_delay = 250, d_homing_pulloff = f_of_int 1\<rparr>)"

definition DEFAULTS_POCKETNC_FR4 :: defaults_t where
  "DEFAULTS_POCKETNC_FR4 =
     \<lparr>d_steps_per_mm = [f_of_int 800, f_of_int 800, f_of_int 800],
       d_max_rate = [f_of_int 300, f_of_int 300, f_of_int 300],
       d_acceleration = [per_min2 (f_of_int 30), per_min2 (f_of_int 30), per_min2 (f_of_int 30)],
       d_max_travel = [f_of_int 225, f_of_int 125, f_of_int 170],
       d_rpm_max = f_of_int 7000, d_rpm_min = f_of_int 0,
       d_pulse_microseconds = 10, d_step_invert_mask = 0, d_dir_invert_mask = bitw Y_AXIS OR bitw Z_AXIS,
       d_idle_lock_time = 250, d_status_report_mask = 3,
       d_junction_deviation = f_of_rat (1/100), d_arc_tolerance = f_of_rat (2/1000),
       d_report_inches = False, d_invert_st_enable = True, d_invert_limit_pins = False,
       d_soft_limit_enable = False, d_hard_limit_enable = False, d_invert_probe_pin = False,
       d_laser_mode = False, d_homing_enable = True, d_homing_dir_mask = 1,
       d_homing_feed_rate = f_of_int 100, d_homing_seek_rate = f_of_int 300,
       d_homing_debounce_delay = 250, d_homing_pulloff = f_of_int 3\<rparr>"

definition DEFAULTS_SHAPEOKO :: defaults_t where
  "DEFAULTS_SHAPEOKO =
     (let MICROSTEPS_XY = 8 in
     let STEP_REVS_XY = 400 in
     let MM_PER_REV_XY = f_mul (f_mul (f_of_rat (8/100)) (f_of_int 18)) MM_PER_INCH in
     let MICROSTEPS_Z = 2 in
     let STEP_REVS_Z = 400 in
     let MM_PER_REV_Z = f_of_rat (125/100) in
     \<lparr>d_steps_per_mm = [f_div (f_of_int (MICROSTEPS_XY * STEP_REVS_XY)) MM_PER_REV_XY,
         f_div (f_of_int (MICROSTEPS_XY * STEP_REVS_XY)) MM_PER_REV_XY,
         f_div (f_of_int (MICROSTEPS_Z * STEP_REVS_Z)) MM_PER_REV_Z],
       d_max_rate = [f_of_int 1000, f_of_int 1000, f_of_int 1000],
       d_acceleration = [per_min2 (f_of_int 15), per_min2 (f_of_int 15), per_min2 (f_of_int 15)],
       d_max_travel = [f_of_int 200, f_of_int 200, f_of_int 200],
       d_rpm_max = f_of_int 10000, d_rpm_min = f_of_int 0,
       d_pulse_microseconds = 10, d_step_invert_mask = 0, d_dir_invert_mask = bitw Y_AXIS OR bitw Z_AXIS,
       d_idle_lock_time = 255, d_status_report_mask = 1,
       d_junction_deviation = f_of_rat (2/100), d_arc_tolerance = f_of_rat (2/1000),
       d_report_inches = False, d_invert_st_enable = False, d_invert_limit_pins = False,
       d_soft_limit_enable = False, d_hard_limit_enable = False, d_invert_probe_pin = False,
       d_laser_mode = False, d_homing_enable = False, d_homing_dir_mask = 0,
       d_homing_feed_rate = f_of_int 25, d_homing_seek_rate = f_of_int 250,
       d_homing_debounce_delay = 250, d_homing_pulloff = f_of_int 1\<rparr>)"

definition DEFAULTS_SHAPEOKO_2 :: defaults_t where
  "DEFAULTS_SHAPEOKO_2 =
     (let MICROSTEPS_XY = 8 in
     let STEP_REVS_XY = 200 in
     let MM_PER_REV_XY = f_mul (f_of_int 2) (f_of_int 20) in
     let MICROSTEPS_Z = 2 in
     let STEP_REVS_Z = 200 in
     let MM_PER_REV_Z = f_of_rat (125/100) in
     \<lparr>d_steps_per_mm = [f_div (f_of_int (MICROSTEPS_XY * STEP_REVS_XY)) MM_PER_REV_XY,
         f_div (f_of_int (MICROSTEPS_XY * STEP_REVS_XY)) MM_PER_REV_XY,
         f_div (f_of_int (MICROSTEPS_Z * STEP_REVS_Z)) MM_PER_REV_Z],
       d_max_rate = [f_of_int 5000, f_of_int 5000, f_of_int 500],
       d_acceleration = [per_min2 (f_of_int 250), per_min2 (f_of_int 250), per_min2 (f_of_int 50)],
       d_max_travel = [f_of_int 290, f_of_int 290, f_of_int 100],
       d_rpm_max = f_of_int 10000, d_rpm_min = f_of_int 0,
       d_pulse_microseconds = 10, d_step_invert_mask = 0, d_dir_invert_mask = bitw X_AXIS OR bitw Z_AXIS,
       d_idle_lock_time = 255, d_status_report_mask = 1,
       d_junction_deviation = f_of_rat (2/100), d_arc_tolerance = f_of_rat (2/1000),
       d_report_inches = False, d_invert_st_enable = False, d_invert_limit_pins = False,
       d_soft_limit_enable = False, d_hard_limit_enable = False, d_invert_probe_pin = False,
       d_laser_mode = False, d_homing_enable = False, d_homing_dir_mask = 0,
       d_homing_feed_rate = f_of_int 25, d_homing_seek_rate = f_of_int 250,
       d_homing_debounce_delay = 250, d_homing_pulloff = f_of_int 1\<rparr>)"

definition DEFAULTS_SHAPEOKO_3 :: defaults_t where
  "DEFAULTS_SHAPEOKO_3 =
     (let MICROSTEPS_XY = 8 in
     let STEP_REVS_XY = 200 in
     let MM_PER_REV_XY = f_mul (f_of_int 2) (f_of_int 20) in
     let MICROSTEPS_Z = 8 in
     let STEP_REVS_Z = 200 in
     let MM_PER_REV_Z = f_mul (f_of_int 2) (f_of_int 20) in
     \<lparr>d_steps_per_mm = [f_div (f_of_int (MICROSTEPS_XY * STEP_REVS_XY)) MM_PER_REV_XY,
         f_div (f_of_int (MICROSTEPS_XY * STEP_REVS_XY)) MM_PER_REV_XY,
         f_div (f_of_int (MICROSTEPS_Z * STEP_REVS_Z)) MM_PER_REV_Z],
       d_max_rate = [f_of_int 5000, f_of_int 5000, f_of_int 5000],
       d_acceleration = [per_min2 (f_of_int 400), per_min2 (f_of_int 400), per_min2 (f_of_int 400)],
       d_max_travel = [f_of_int 425, f_of_int 465, f_of_int 80],
       d_rpm_max = f_of_int 10000, d_rpm_min = f_of_int 0,
       d_pulse_microseconds = 10, d_step_invert_mask = 0, d_dir_invert_mask = bitw X_AXIS OR bitw Z_AXIS,
       d_idle_lock_time = 255, d_status_report_mask = 1,
       d_junction_deviation = f_of_rat (2/100), d_arc_tolerance = f_of_rat (1/100),
       d_report_inches = False, d_invert_st_enable = False, d_invert_limit_pins = False,
       d_soft_limit_enable = False, d_hard_limit_enable = False, d_invert_probe_pin = False,
       d_laser_mode = False, d_homing_enable = False, d_homing_dir_mask = 0,
       d_homing_feed_rate = f_of_int 100, d_homing_seek_rate = f_of_int 1000,
       d_homing_debounce_delay = 25, d_homing_pulloff = f_of_int 5\<rparr>)"

definition DEFAULTS_X_CARVE_500MM :: defaults_t where
  "DEFAULTS_X_CARVE_500MM =
     (let MICROSTEPS_XY = 8 in
     let STEP_REVS_XY = 200 in
     let MM_PER_REV_XY = f_mul (f_of_int 2) (f_of_int 20) in
     let MICROSTEPS_Z = 2 in
     let STEP_REVS_Z = 200 in
     let MM_PER_REV_Z = f_of_rat (2117/1000) in
     \<lparr>d_steps_per_mm = [f_div (f_of_int (MICROSTEPS_XY * STEP_REVS_XY)) MM_PER_REV_XY,
         f_div (f_of_int (MICROSTEPS_XY * STEP_REVS_XY)) MM_PER_REV_XY,
         f_div (f_of_int (MICROSTEPS_Z * STEP_REVS_Z)) MM_PER_REV_Z],
       d_max_rate = [f_of_int 8000, f_of_int 8000, f_of_int 500],
       d_acceleration = [per_min2 (f_of_int 500), per_min2 (f_of_int 500), per_min2 (f_of_int 50)],
       d_max_travel = [f_of_int 290, f_of_int 290, f_of_int 100],
       d_rpm_max = f_of_int 10000, d_rpm_min = f_of_int 0,
       d_pulse_microseconds = 10, d_step_invert_mask = 0, d_dir_invert_mask = bitw X_AXIS OR bitw Y_AXIS,
       d_idle_lock_time = 255, d_status_report_mask = 1,
       d_junction_deviation = f_of_rat (2/100), d_arc_tolerance = f_of_rat (2/1000),
       d_report_inches = False, d_invert_st_enable = False, d_invert_limit_pins = False,
       d_soft_limit_enable = False, d_hard_limit_enable = False, d_invert_probe_pin = False,
       d_laser_mode = False, d_homing_enable = False, d_homing_dir_mask = 3,
       d_homing_feed_rate = f_of_int 25, d_homing_seek_rate = f_of_int 750,
       d_homing_debounce_delay = 250, d_homing_pulloff = f_of_int 1\<rparr>)"

definition DEFAULTS_X_CARVE_1000MM :: defaults_t where
  "DEFAULTS_X_CARVE_1000MM =
     (let MICROSTEPS_XY = 8 in
     let STEP_REVS_XY = 200 in
     let MM_PER_REV_XY = f_mul (f_of_int 2) (f_of_int 20) in
     let MICROSTEPS_Z = 2 in
     let STEP_REVS_Z = 200 in
     let MM_PER_REV_Z = f_of_rat (2117/1000) in
     \<lparr>d_steps_per_mm = [f_div (f_of_int (MICROSTEPS_XY * STEP_REVS_XY)) MM_PER_REV_XY,
         f_div (f_of_int (MICROSTEPS_XY * STEP_REVS_XY)) MM_PER_REV_XY,
         f_div (f_of_int (MICROSTEPS_Z * STEP_REVS_Z)) MM_PER_REV_Z],
       d_max_rate = [f_of_int 8000, f_of_int 8000, f_of_int 500],
       d_acceleration = [per_min2 (f_of_int 500), per_min2 (f_of_int 500), per_min2 (f_of_int 50)],
       d_max_travel = [f_of_int 740, f_of_int 790, f_of_int 100],
       d_rpm_max = f_of_int 10000, d_rpm_min = f_of_int 0,
       d_pulse_microseconds = 10, d_step_invert_mask = 0, d_dir_invert_mask = bitw X_AXIS OR bitw Y_AXIS,
       d_idle_lock_time = 255, d_status_report_mask = 1,
       d_junction_deviation = f_of_rat (2/100), d_arc_tolerance = f_of_rat (2/1000),
       d_report_inches = False, d_invert_st_enable = False, d_invert_limit_pins = False,
       d_soft_limit_enable = False, d_hard_limit_enable = False, d_invert_probe_pin = False,
       d_laser_mode = False, d_homing_enable = False, d_homing_dir_mask = 3,
       d_homing_feed_rate = f_of_int 25, d_homing_seek_rate = f_of_int 750,
       d_homing_debounce_delay = 250, d_homing_pulloff = f_of_int 1\<rparr>)"

definition DEFAULTS_ZEN_TOOLWORKS_7x7 :: defaults_t where
  "DEFAULTS_ZEN_TOOLWORKS_7x7 =
     (let MICROSTEPS = 8 in
     let STEPS_PER_REV = f_of_int 200 in
     let MM_PER_REV = f_of_int 8 in
     \<lparr>d_steps_per_mm = [f_div (f_mul STEPS_PER_REV (f_of_int MICROSTEPS)) MM_PER_REV,
         f_div (f_mul STEPS_PER_REV (f_of_int MICROSTEPS)) MM_PER_REV,
         f_div (f_mul STEPS_PER_REV (f_of_int MICROSTEPS)) MM_PER_REV],
       d_max_rate = [f_of_int 6000, f_of_int 6000, f_of_int 6000],
       d_acceleration = [per_min2 (f_of_int 600), per_min2 (f_of_int 600), per_min2 (f_of_int 600)],
       d_max_travel = [f_of_int 190, f_of_int 180, f_of_int 150],
       d_rpm_max = f_of_int 10000, d_rpm_min = f_of_int 0,
       d_pulse_microseconds = 10, d_step_invert_mask = 0, d_dir_invert_mask = bitw Y_AXIS,
       d_idle_lock_time = 25, d_status_report_mask = 1,
       d_junction_deviation = f_of_rat (2/100), d_arc_tolerance = f_of_rat (2/1000),
       d_report_inches = False, d_invert_st_enable = False, d_invert_limit_pins = False,
       d_soft_limit_enable = False, d_hard_limit_enable = False, d_invert_probe_pin = False,
       d_laser_mode = False, d_homing_enable = False, d_homing_dir_mask = 0,
       d_homing_feed_rate = f_of_int 25, d_homing_seek_rate = f_of_int 250,
       d_homing_debounce_delay = 250, d_homing_pulloff = f_of_int 1\<rparr>)"

definition DEFAULTS_OXCNC :: defaults_t where
  "DEFAULTS_OXCNC =
     \<lparr>d_steps_per_mm = [f_of_rat (2667/100), f_of_rat (2667/100), f_of_int 50],
       d_max_rate = [f_of_int 500, f_of_int 500, f_of_int 500],
       d_acceleration = [per_min2 (f_of_int 10), per_min2 (f_of_int 10), per_min2 (f_of_int 10)],
       d_max_travel = [f_of_int 500, f_of_int 750, f_of_int 80],
       d_rpm_max = f_of_int 1000, d_rpm_min = f_of_int 0,
       d_pulse_microseconds = 10, d_step_invert_mask = 0, d_dir_invert_mask = 0,
       d_idle_lock_time = 25, d_status_report_mask = 1,
       d_junction_deviation = f_of_rat (2/100), d_arc_tolerance = f_of_rat (2/1000),
       d_report_inches = False, d_invert_st_enable = False, d_invert_limit_pins = False,
       d_soft_limit_enable = False, d_hard_limit_enable = False, d_invert_probe_pin = False,
       d_laser_mode = False, d_homing_enable = False, d_homing_dir_mask = 0,
       d_homing_feed_rate = f_of_int 25, d_homing_seek_rate = f_of_int 500,
       d_homing_debounce_delay = 250, d_homing_pulloff = f_of_int 1\<rparr>"

definition DEFAULTS_SIMULATOR :: defaults_t where
  "DEFAULTS_SIMULATOR =
     \<lparr>d_steps_per_mm = [f_of_int 1000, f_of_int 1000, f_of_int 1000],
       d_max_rate = [f_of_int 1000, f_of_int 1000, f_of_int 1000],
       d_acceleration = [per_min2 (f_of_int 100), per_min2 (f_of_int 100), per_min2 (f_of_int 100)],
       d_max_travel = [f_of_int 1000, f_of_int 1000, f_of_int 1000],
       d_rpm_max = f_of_int 1000, d_rpm_min = f_of_int 0,
       d_pulse_microseconds = 10, d_step_invert_mask = 0, d_dir_invert_mask = 0,
       d_idle_lock_time = 25, d_status_report_mask = 1,
       d_junction_deviation = f_of_rat (1/100), d_arc_tolerance = f_of_rat (2/1000),
       d_report_inches = False, d_invert_st_enable = False, d_invert_limit_pins = False,
       d_soft_limit_enable = False, d_hard_limit_enable = False, d_invert_probe_pin = False,
       d_laser_mode = False, d_homing_enable = False, d_homing_dir_mask = 0,
       d_homing_feed_rate = f_of_int 25, d_homing_seek_rate = f_of_int 500,
       d_homing_debounce_delay = 250, d_homing_pulloff = f_of_int 1\<rparr>"

definition machine_profiles :: "defaults_t list" where
  "machine_profiles =
     [DEFAULTS_GENERIC, DEFAULTS_SHERLINE_5400, DEFAULTS_POCKETNC_FR4, DEFAULTS_SHAPEOKO,
      DEFAULTS_SHAPEOKO_2, DEFAULTS_SHAPEOKO_3, DEFAULTS_X_CARVE_500MM, DEFAULTS_X_CARVE_1000MM,
      DEFAULTS_ZEN_TOOLWORKS_7x7, DEFAULTS_OXCNC, DEFAULTS_SIMULATOR]"

section \<open>Sound settings\<close>

text \<open>The selected profile is the one the model of settings.c restores.\<close>

lemma generic_profile: "profile_settings DEFAULTS_GENERIC = default_settings"
  by code_simp

definition f_pos :: "f32 \<Rightarrow> bool" where
  "f_pos x \<longleftrightarrow> f_finite x \<and> f_lt f_zero x"

definition settings_sound :: "settings_t \<Rightarrow> bool" where
  "settings_sound s \<longleftrightarrow> list_all f_pos (steps_per_mm s) \<and> list_all f_pos (max_rate s) \<and> list_all f_pos (acceleration s)
     \<and> list_all (\<lambda>x. f_pos (f_neg x)) (max_travel s) \<and> 3 \<le> pulse_microseconds s
     \<and> f_pos (junction_deviation s) \<and> f_pos (arc_tolerance s) \<and> f_lt (rpm_min s) (rpm_max s)
     \<and> f_pos (homing_feed_rate s) \<and> f_pos (homing_seek_rate s) \<and> f_pos (homing_pulloff s)"

text \<open>The constants of the profiles are positive.\<close>

lemma f_of_int_pos: "0 < n \<Longrightarrow> n \<le> 2 ^ 24 \<Longrightarrow> f_pos (f_of_int n)"
  by (simp add: f_pos_def f_of_int_exact)

lemma per_min2_int: "0 \<le> n \<Longrightarrow> n \<le> 4096 \<Longrightarrow> per_min2 (f_of_int n) = f_of_int (3600 * n)"
  using f_repr_int [of "60 * n"] int_le_f_max [of "60 * n"] f_repr_int [of "3600 * n"] int_le_f_max [of "3600 * n"]
  by (simp add: per_min2_def f_of_int_exact mk_f32_repr mult.commute)

lemma constants_pos:
  "f_pos (f_of_rat (1/100))" "f_pos (f_of_rat (1/50))" "f_pos (f_of_rat (1/500))" "f_pos (f_of_rat (2667/100))"
  by code_simp+

lemma quotients_pos:
  "f_pos (f_div (f_mul (f_of_int 200) (f_of_int 2)) (f_mul (f_of_rat (1/20)) MM_PER_INCH))"
  "f_pos (f_div (f_of_int 3200) (f_mul (f_mul (f_of_rat (2/25)) (f_of_int 18)) MM_PER_INCH))"
  "f_pos (f_div (f_of_int 800) (f_of_rat (5/4)))" "f_pos (f_div (f_of_int 400) (f_of_rat (5/4)))"
  "f_pos (f_div (f_of_int 1600) (f_mul (f_of_int 2) (f_of_int 20)))" "f_pos (f_div (f_of_int 400) (f_of_rat (2117/1000)))"
  "f_pos (f_div (f_mul (f_of_int 200) (f_of_int 8)) (f_of_int 8))"
  by code_simp+

lemma f_neg_neg [simp]: "f_neg (f_neg x) = x" by (cases x) simp_all

lemma rpm_range: "0 < n \<Longrightarrow> n \<le> 2 ^ 24 \<Longrightarrow> f_lt f_zero (f_of_int n)"
  using f_of_int_pos [of n] by (simp add: f_pos_def)

lemmas profile_simps = settings_sound_def soft_limit_inv_def profile_settings_def profile_flags_def bit_istrue_def
  f_of_int_pos per_min2_int constants_pos quotients_pos rpm_range grbl_const

text \<open>What a build for a machine restores.\<close>

definition profile_ok :: "defaults_t \<Rightarrow> bool" where
  "profile_ok d \<longleftrightarrow> settings_sound (profile_settings d) \<and> soft_limit_inv (profile_settings d) \<and> settings_wf (profile_settings d)"

lemma wf_MM_PER_INCH: "f_wf MM_PER_INCH" "f_wf (per_min2 (f_of_int n))"
  by (simp_all add: MM_PER_INCH_def per_min2_def)

lemma DEFAULTS_GENERIC_ok: "profile_ok DEFAULTS_GENERIC"
  by (simp add: profile_ok_def DEFAULTS_GENERIC_def profile_simps settings_wf_def vec_wf_def wf_MM_PER_INCH Let_def)

lemma DEFAULTS_SHERLINE_5400_ok: "profile_ok DEFAULTS_SHERLINE_5400"
  by (simp add: profile_ok_def DEFAULTS_SHERLINE_5400_def profile_simps settings_wf_def vec_wf_def wf_MM_PER_INCH Let_def)

lemma DEFAULTS_POCKETNC_FR4_ok: "profile_ok DEFAULTS_POCKETNC_FR4"
  by (simp add: profile_ok_def DEFAULTS_POCKETNC_FR4_def profile_simps settings_wf_def vec_wf_def wf_MM_PER_INCH Let_def)

lemma DEFAULTS_SHAPEOKO_ok: "profile_ok DEFAULTS_SHAPEOKO"
  by (simp add: profile_ok_def DEFAULTS_SHAPEOKO_def profile_simps settings_wf_def vec_wf_def wf_MM_PER_INCH Let_def)

lemma DEFAULTS_SHAPEOKO_2_ok: "profile_ok DEFAULTS_SHAPEOKO_2"
  by (simp add: profile_ok_def DEFAULTS_SHAPEOKO_2_def profile_simps settings_wf_def vec_wf_def wf_MM_PER_INCH Let_def)

lemma DEFAULTS_SHAPEOKO_3_ok: "profile_ok DEFAULTS_SHAPEOKO_3"
  by (simp add: profile_ok_def DEFAULTS_SHAPEOKO_3_def profile_simps settings_wf_def vec_wf_def wf_MM_PER_INCH Let_def)

lemma DEFAULTS_X_CARVE_500MM_ok: "profile_ok DEFAULTS_X_CARVE_500MM"
  by (simp add: profile_ok_def DEFAULTS_X_CARVE_500MM_def profile_simps settings_wf_def vec_wf_def wf_MM_PER_INCH Let_def)

lemma DEFAULTS_X_CARVE_1000MM_ok: "profile_ok DEFAULTS_X_CARVE_1000MM"
  by (simp add: profile_ok_def DEFAULTS_X_CARVE_1000MM_def profile_simps settings_wf_def vec_wf_def wf_MM_PER_INCH Let_def)

lemma DEFAULTS_ZEN_TOOLWORKS_7x7_ok: "profile_ok DEFAULTS_ZEN_TOOLWORKS_7x7"
  by (simp add: profile_ok_def DEFAULTS_ZEN_TOOLWORKS_7x7_def profile_simps settings_wf_def vec_wf_def wf_MM_PER_INCH Let_def)

lemma DEFAULTS_OXCNC_ok: "profile_ok DEFAULTS_OXCNC"
  by (simp add: profile_ok_def DEFAULTS_OXCNC_def profile_simps settings_wf_def vec_wf_def wf_MM_PER_INCH Let_def)

lemma DEFAULTS_SIMULATOR_ok: "profile_ok DEFAULTS_SIMULATOR"
  by (simp add: profile_ok_def DEFAULTS_SIMULATOR_def profile_simps settings_wf_def vec_wf_def wf_MM_PER_INCH Let_def)

text \<open>
  Whichever machine the firmware is built for, its defaults are sound settings, and a restart reads them
  back from the EEPROM they were written to.
\<close>

theorem profiles_sound:
  "list_all (\<lambda>d. settings_sound (profile_settings d) \<and> soft_limit_inv (profile_settings d) \<and>
     (\<forall>s. settings s = profile_settings d \<longrightarrow> read_global_settings (write_global_settings s) = (True, write_global_settings s)))
     machine_profiles"
proof -
  have "list_all profile_ok machine_profiles"
    by (simp add: machine_profiles_def DEFAULTS_GENERIC_ok DEFAULTS_SHERLINE_5400_ok DEFAULTS_POCKETNC_FR4_ok DEFAULTS_SHAPEOKO_ok
      DEFAULTS_SHAPEOKO_2_ok DEFAULTS_SHAPEOKO_3_ok DEFAULTS_X_CARVE_500MM_ok DEFAULTS_X_CARVE_1000MM_ok
      DEFAULTS_ZEN_TOOLWORKS_7x7_ok DEFAULTS_OXCNC_ok DEFAULTS_SIMULATOR_ok)
  then show ?thesis by (rule list.pred_mono_strong) (simp add: profile_ok_def global_block_roundtrip)
qed

end
